(* ===== verification/Prelude.thy ===== *)
theory Prelude
  imports Main
begin

text \<open>
  The shared vocabulary of the development: Go's signed 64-bit integers with their
  wrap-around, the character classes and fixed formats (UUIDs, SHA-256 hex digests) that
  the program checks with regular expressions or byte loops, a result type for functions
  that return an error, and the list lemmas several components use.
\<close>

section \<open>Fact collections\<close>

named_theorems go_int \<open>evaluation and bounds of wrapped int64 arithmetic\<close>
named_theorems go_result \<open>characteristic facts of results\<close>

section \<open>Results\<close>

text \<open>A Go function with results \<open>(T, error)\<close> returns the error or the value.\<close>

type_synonym ('e, 'a) result = "'e + 'a"

abbreviation Err :: "'e \<Rightarrow> ('e, 'a) result" where
  "Err e \<equiv> Inl e"

abbreviation Ok :: "'a \<Rightarrow> ('e, 'a) result" where
  "Ok a \<equiv> Inr a"

fun is_ok :: "('e, 'a) result \<Rightarrow> bool" where
  "is_ok (Inl _) = False"
| "is_ok (Inr _) = True"

fun result_bind :: "('e, 'a) result \<Rightarrow> ('a \<Rightarrow> ('e, 'b) result) \<Rightarrow> ('e, 'b) result" where
  "result_bind (Inl e) _ = Inl e"
| "result_bind (Inr a) f = f a"

lemma is_ok_iff [go_result]: "is_ok r \<longleftrightarrow> (\<exists>a. r = Ok a)"
  by (cases r) auto

lemma result_bind_Ok [go_result]: "result_bind r f = Ok b \<longleftrightarrow> (\<exists>a. r = Ok a \<and> f a = Ok b)"
  by (cases r) auto

lemma result_bind_OkE: "result_bind r f = Ok b \<Longrightarrow> (\<And>a. r = Ok a \<Longrightarrow> f a = Ok b \<Longrightarrow> P) \<Longrightarrow> P"
  by (cases r) auto

lemma is_ok_bind: "is_ok (result_bind r f) \<longleftrightarrow> (\<exists>a. r = Ok a \<and> is_ok (f a))"
  by (cases r) auto

lemma result_bind_Err [go_result]:
  "result_bind r f = Err e \<longleftrightarrow> r = Err e \<or> (\<exists>a. r = Ok a \<and> f a = Err e)"
  by (cases r) auto

text \<open>An early return: the guard is false and the rest succeeds.\<close>

lemma guard_Ok: "(if g then Err e else r) = Ok a \<longleftrightarrow> \<not> g \<and> r = Ok a"
  by simp

section \<open>Pointers\<close>

text \<open>\<open>p != nil && f(*p)\<close> for a Go pointer, which is an option here.\<close>

fun ptr_and :: "'a option \<Rightarrow> ('a \<Rightarrow> bool) \<Rightarrow> bool" where
  "ptr_and None _ = False"
| "ptr_and (Some a) f = f a"

lemma ptr_and_iff: "ptr_and p f \<longleftrightarrow> (\<exists>a. p = Some a \<and> f a)"
  by (cases p) auto

section \<open>Signed 64-bit integers\<close>

text \<open>
  An \<open>int64\<close> is an \<^typ>\<open>int\<close> in the range below. Every addition, subtraction or
  product of the code whose operands are not bounded by an earlier check is written with
  the wrapping operations.
\<close>

type_synonym int64 = int

abbreviation max_int64 :: int64 where "max_int64 \<equiv> 9223372036854775807"
abbreviation min_int64 :: int64 where "min_int64 \<equiv> - 9223372036854775808"

definition in_int64 :: "int \<Rightarrow> bool" where
  "in_int64 x \<longleftrightarrow> min_int64 \<le> x \<and> x \<le> max_int64"

definition wrap64 :: "int \<Rightarrow> int64" where
  "wrap64 x = (x + 9223372036854775808) mod 18446744073709551616 - 9223372036854775808"

definition add64 :: "int64 \<Rightarrow> int64 \<Rightarrow> int64" where
  "add64 a b = wrap64 (a + b)"

definition sub64 :: "int64 \<Rightarrow> int64 \<Rightarrow> int64" where
  "sub64 a b = wrap64 (a - b)"

lemma wrap64_range [go_int]: "in_int64 (wrap64 x)"
proof -
  have "0 \<le> (x + 9223372036854775808) mod 18446744073709551616"
    and "(x + 9223372036854775808) mod 18446744073709551616 < 18446744073709551616"
    by simp_all
  then show ?thesis unfolding wrap64_def in_int64_def by linarith
qed

lemma wrap64_id [go_int]: "in_int64 x \<Longrightarrow> wrap64 x = x"
  by (simp add: wrap64_def in_int64_def)

lemma add64_exact [go_int]: "in_int64 (a + b) \<Longrightarrow> add64 a b = a + b"
  by (simp add: add64_def wrap64_id)

lemma sub64_exact [go_int]: "in_int64 (a - b) \<Longrightarrow> sub64 a b = a - b"
  by (simp add: sub64_def wrap64_id)

lemma sub64_nonneg [go_int]:
  "0 \<le> a \<Longrightarrow> 0 \<le> b \<Longrightarrow> in_int64 a \<Longrightarrow> in_int64 b \<Longrightarrow> sub64 a b = a - b"
  by (simp add: sub64_def wrap64_id in_int64_def)

lemma add64_overflow: "add64 max_int64 1 = min_int64"
  by (simp add: add64_def wrap64_def)

text \<open>Go's integer division and remainder truncate towards zero.\<close>

definition quot64 :: "int64 \<Rightarrow> int64 \<Rightarrow> int64" where
  "quot64 a b = wrap64 (sgn a * sgn b * (\<bar>a\<bar> div \<bar>b\<bar>))"

definition rem64 :: "int64 \<Rightarrow> int64 \<Rightarrow> int64" where
  "rem64 a b = sgn a * (\<bar>a\<bar> mod \<bar>b\<bar>)"

lemma quot64_nonneg [go_int]:
  assumes "0 \<le> a" "0 < b" "in_int64 a"
  shows "quot64 a b = a div b"
proof -
  have sgn: "sgn a * sgn b * (\<bar>a\<bar> div \<bar>b\<bar>) = a div b"
    using assms by (cases "a = 0") auto
  have "a div b \<le> a" using assms
    by (metis div_by_1 zdiv_mono2 zero_less_one int_one_le_iff_zero_less)
  moreover have "0 \<le> a div b" using assms by (simp add: pos_imp_zdiv_nonneg_iff)
  ultimately have "in_int64 (a div b)" using assms by (simp add: in_int64_def)
  then show ?thesis by (simp add: quot64_def sgn wrap64_id)
qed

lemma rem64_nonneg [go_int]: "0 \<le> a \<Longrightarrow> 0 < b \<Longrightarrow> rem64 a b = a mod b"
  by (cases "a = 0") (auto simp: rem64_def)

section \<open>Character classes and fixed formats\<close>

definition is_digit :: "char \<Rightarrow> bool" where
  "is_digit c \<longleftrightarrow> c \<in> set ''0123456789''"

definition is_lower_hex :: "char \<Rightarrow> bool" where
  "is_lower_hex c \<longleftrightarrow> c \<in> set ''0123456789abcdef''"

definition is_lower :: "char \<Rightarrow> bool" where
  "is_lower c \<longleftrightarrow> c \<in> set ''abcdefghijklmnopqrstuvwxyz''"

text \<open>One predicate per position: how the anchored, fixed-width patterns match.\<close>

fun matches :: "(char \<Rightarrow> bool) list \<Rightarrow> string \<Rightarrow> bool" where
  "matches [] [] = True"
| "matches (p # ps) (c # cs) = (p c \<and> matches ps cs)"
| "matches _ _ = False"

lemma matches_length: "matches ps cs \<Longrightarrow> length cs = length ps"
  by (induction ps cs rule: matches.induct) auto

section \<open>Lists\<close>

fun remove_nth :: "nat \<Rightarrow> 'a list \<Rightarrow> 'a list" where
  "remove_nth _ [] = []"
| "remove_nth 0 (_ # xs) = xs"
| "remove_nth (Suc n) (x # xs) = x # remove_nth n xs"

lemma remove_nth_take_drop: "remove_nth n xs = take n xs @ drop (Suc n) xs"
  by (induction n xs rule: remove_nth.induct) auto

lemma length_remove_nth: "n < length xs \<Longrightarrow> length (remove_nth n xs) = length xs - 1"
  by (induction n xs rule: remove_nth.induct) auto

lemma set_remove_nth: "set (remove_nth n xs) \<subseteq> set xs"
  by (induction n xs rule: remove_nth.induct) auto

lemma sum_list_remove_nth:
  fixes f :: "'a \<Rightarrow> 'b::comm_monoid_add"
  shows "n < length xs \<Longrightarrow> sum_list (map f xs) = f (xs ! n) + sum_list (map f (remove_nth n xs))"
  by (induction n xs rule: remove_nth.induct) (auto simp: add.left_commute)

lemma remove_nth_other:
  "distinct (map f xs) \<Longrightarrow> n < length xs \<Longrightarrow> x \<in> set (remove_nth n xs) \<Longrightarrow> f x \<noteq> f (xs ! n)"
proof (induction n xs rule: remove_nth.induct)
  case (2 y ys)
  then show ?case by (metis distinct.simps(2) imageI list.simps(9) list.set_map nth_Cons_0 remove_nth.simps(2))
next
  case (3 n y ys)
  then show ?case by (auto simp: image_iff)
qed auto

lemma remove_nth_mem: "n < length xs \<Longrightarrow> x \<in> set xs \<Longrightarrow> x \<noteq> xs ! n \<Longrightarrow> x \<in> set (remove_nth n xs)"
  by (induction n xs rule: remove_nth.induct) auto

lemma distinct_remove_nth:
  "distinct (map f xs) \<Longrightarrow> distinct (map f (remove_nth n xs))"
  by (induction n xs rule: remove_nth.induct) (use set_remove_nth in fastforce)+

text \<open>The index of the first element that satisfies a predicate, as the code's search loops find it.\<close>

fun find_index :: "('a \<Rightarrow> bool) \<Rightarrow> 'a list \<Rightarrow> nat option" where
  "find_index _ [] = None"
| "find_index p (x # xs) = (if p x then Some 0 else map_option Suc (find_index p xs))"

lemma find_index_Some:
  "find_index p xs = Some i \<Longrightarrow> i < length xs \<and> p (xs ! i) \<and> (\<forall>j<i. \<not> p (xs ! j))"
proof (induction xs arbitrary: i)
  case Nil
  then show ?case by simp
next
  case (Cons x xs)
  show ?case
  proof (cases "p x")
    case True
    with Cons.prems show ?thesis by simp
  next
    case False
    with Cons.prems obtain k where k: "find_index p xs = Some k" "i = Suc k" by auto
    have "\<not> p ((x # xs) ! j)" if "j < i" for j
      using that False Cons.IH [OF k(1)] k(2) by (cases j) auto
    with Cons.IH [OF k(1)] k(2) show ?thesis by auto
  qed
qed

lemma find_index_None: "find_index p xs = None \<longleftrightarrow> (\<forall>x\<in>set xs. \<not> p x)"
  by (induction xs) auto

lemma find_some: "find P xs = Some p \<Longrightarrow> P p \<and> p \<in> set xs"
  by (induction xs) (auto split: if_splits)

section \<open>Decimal texts\<close>

text \<open>\<open>strconv.FormatUint(n, 10)\<close> and the value of a run of digits.\<close>

definition digit :: "nat \<Rightarrow> char" where
  "digit d = ''0123456789'' ! d"

definition digit_value :: "char \<Rightarrow> nat" where
  "digit_value c = (case find_index (\<lambda>d. d = c) ''0123456789'' of None \<Rightarrow> 0 | Some i \<Rightarrow> i)"

fun decimal :: "nat \<Rightarrow> string" where
  "decimal n = (if n < 10 then [] else decimal (n div 10)) @ [digit (n mod 10)]"

declare decimal.simps [simp del]

definition digits_value :: "string \<Rightarrow> nat" where
  "digits_value s = fold (\<lambda>c k. 10 * k + digit_value c) s 0"

lemma digit_cases:
  assumes "d < (10::nat)"
  shows "d \<in> {0, 1, 2, 3, 4, 5, 6, 7, 8, 9}"
  using assms by auto

lemma digit_digit [simp]: "d < 10 \<Longrightarrow> is_digit (digit d)"
  by (drule digit_cases) (elim insertE; simp add: digit_def is_digit_def numeral_eq_Suc)

lemma digit_value_digit [simp]: "d < 10 \<Longrightarrow> digit_value (digit d) = d"
  by (drule digit_cases) (elim insertE; simp add: digit_def digit_value_def numeral_eq_Suc)

lemma digit_nonzero: "d < 10 \<Longrightarrow> d \<noteq> 0 \<Longrightarrow> digit d \<noteq> CHR ''0''"
  by (drule digit_cases) (elim insertE; simp add: digit_def numeral_eq_Suc)

lemma decimal_nonempty [simp]: "decimal n \<noteq> []"
  by (subst decimal.simps) simp

lemma decimal_digits: "list_all is_digit (decimal n)"
proof (induction n rule: decimal.induct)
  case (1 n)
  then show ?case by (subst decimal.simps) auto
qed

lemma digits_value_snoc: "digits_value (s @ [c]) = 10 * digits_value s + digit_value c"
  by (simp add: digits_value_def)

lemma digits_value_decimal [simp]: "digits_value (decimal n) = n"
proof (induction n rule: decimal.induct)
  case (1 n)
  show ?case
  proof (cases "n < 10")
    case True
    then show ?thesis by (subst decimal.simps) (simp add: digits_value_def)
  next
    case False
    then show ?thesis using 1 by (subst decimal.simps) (simp add: digits_value_snoc)
  qed
qed

lemma decimal_no_leading_zero: "n \<noteq> 0 \<Longrightarrow> hd (decimal n) \<noteq> CHR ''0''"
proof (induction n rule: decimal.induct)
  case (1 n)
  show ?case
  proof (cases "n < 10")
    case True
    then show ?thesis using 1(2) digit_nonzero[of n] by (subst decimal.simps) simp
  next
    case False
    then have "n div 10 \<noteq> 0" by simp
    then show ?thesis using 1(1) False by (subst decimal.simps) simp
  qed
qed

lemma decimal_single: "length (decimal n) = 1 \<longleftrightarrow> n < 10"
  by (subst decimal.simps) simp

text \<open>The number of decimal digits of a number below ten to the power of \<open>k + 1\<close>, counted in integers.\<close>

primrec int_digits :: "nat \<Rightarrow> int \<Rightarrow> int" where
  "int_digits 0 n = 1"
| "int_digits (Suc k) n = (if n < 10 then 1 else 1 + int_digits k (n div 10))"

end
