(* ===== verification/GoFloat.thy ===== *)
theory GoFloat
  imports Prelude Complex_Main
begin

text \<open>
  A \<open>float64\<close>: a finite value is the rational number it denotes. Arithmetic rounds the exact result
  to the nearest 53-bit number, ties to even; overflow and subnormal numbers are out of reach of
  the byte counts and seconds it is used for here.
\<close>

datatype float64 = NaN | PosInf | NegInf | Finite rat

fun float_le :: "float64 \<Rightarrow> float64 \<Rightarrow> bool" where
  "float_le NaN _ = False"
| "float_le _ NaN = False"
| "float_le NegInf _ = True"
| "float_le _ NegInf = False"
| "float_le _ PosInf = True"
| "float_le PosInf _ = False"
| "float_le (Finite a) (Finite b) = (a \<le> b)"

fun float_lt :: "float64 \<Rightarrow> float64 \<Rightarrow> bool" where
  "float_lt NaN _ = False"
| "float_lt _ NaN = False"
| "float_lt _ NegInf = False"
| "float_lt NegInf _ = True"
| "float_lt PosInf _ = False"
| "float_lt _ PosInf = True"
| "float_lt (Finite a) (Finite b) = (a < b)"

fun is_nan_or_inf :: "float64 \<Rightarrow> bool" where
  "is_nan_or_inf (Finite _) = False"
| "is_nan_or_inf _ = True"

section \<open>Rounding\<close>

function bit_len :: "int \<Rightarrow> int" where
  "bit_len n = (if n \<le> 0 then 0 else 1 + bit_len (n div 2))"
  by auto

termination
  by (relation "measure nat") auto

declare bit_len.simps [simp del]

definition pow2 :: "int \<Rightarrow> rat" where
  "pow2 e = (if e \<ge> 0 then 2 ^ nat e else 1 / 2 ^ nat (- e))"

definition round_even :: "rat \<Rightarrow> int" where
  "round_even x = (let f = \<lfloor>x\<rfloor>; d = x - of_int f in
     if d < 1 / 2 \<or> (d = 1 / 2 \<and> even f) then f else f + 1)"

text \<open>The exponent that leaves an integer part of 53 bits.\<close>

definition exponent53 :: "rat \<Rightarrow> int" where
  "exponent53 x = (let (p, q) = quotient_of x; e = bit_len p - bit_len q - 53 in
     if x / pow2 e \<ge> pow2 53 then e + 1 else if x / pow2 e < pow2 52 then e - 1 else e)"

definition round_pos :: "rat \<Rightarrow> rat" where
  "round_pos x = (let e = exponent53 x in of_int (round_even (x / pow2 e)) * pow2 e)"

definition round53 :: "rat \<Rightarrow> rat" where
  "round53 x = (if x = 0 then 0 else if x > 0 then round_pos x else - round_pos (- x))"

lemma pow2_pos [simp]: "0 < pow2 e"
  by (simp add: pow2_def)

lemma round_even_nonneg: "0 \<le> x \<Longrightarrow> 0 \<le> round_even x"
  by (auto simp: round_even_def Let_def)

lemma round53_nonneg: "0 \<le> x \<Longrightarrow> 0 \<le> round53 x"
  by (auto simp: round53_def round_pos_def Let_def less_imp_le round_even_nonneg intro!: mult_nonneg_nonneg)

section \<open>Rounding does not cross an integer\<close>

lemma bit_len_bounds: "0 < n \<Longrightarrow> 2 ^ nat (bit_len n - 1) \<le> n \<and> n < 2 ^ nat (bit_len n) \<and> 1 \<le> bit_len n"
proof (induction n rule: bit_len.induct)
  case (1 n)
  show ?case
  proof (cases "n = 1")
    case True
    then show ?thesis by (simp add: bit_len.simps)
  next
    case False
    with 1 have h: "2 ^ nat (bit_len (n div 2) - 1) \<le> n div 2" "n div 2 < 2 ^ nat (bit_len (n div 2))"
      "1 \<le> bit_len (n div 2)" by auto
    have b: "bit_len n = 1 + bit_len (n div 2)" using 1(2) by (simp add: bit_len.simps[of n])
    have e: "nat (bit_len (n div 2)) = Suc (nat (bit_len (n div 2) - 1))" using h(3) by linarith
    have "2 * 2 ^ nat (bit_len (n div 2) - 1) \<le> n" using h(1) by linarith
    moreover have "n < 2 * 2 ^ nat (bit_len (n div 2))" using h(2) by linarith
    moreover have "nat (bit_len n) = Suc (nat (bit_len (n div 2)))" using b h(3) by linarith
    moreover have "nat (bit_len n - 1) = Suc (nat (bit_len (n div 2) - 1))" using b h(3) e by linarith
    moreover have "1 \<le> bit_len n" using b h(3) by linarith
    ultimately show ?thesis by (simp only: power_Suc simp_thms)
  qed
qed

lemma pow2_add: "pow2 (a + b) = pow2 a * pow2 b"
proof -
  have p: "pow2 c = 2 powi c" for c by (simp add: pow2_def power_int_def inverse_eq_divide power_one_over)
  show ?thesis by (simp add: p power_int_add)
qed

lemma pow2_nat: "0 \<le> e \<Longrightarrow> pow2 e = of_int (2 ^ nat e)"
  by (simp add: pow2_def)

lemma pow2_mono: "a \<le> b \<Longrightarrow> pow2 a \<le> pow2 b"
proof -
  assume "a \<le> b"
  then have "pow2 b = pow2 a * pow2 (b - a)" by (simp flip: pow2_add)
  moreover have "1 \<le> pow2 (b - a)" using \<open>a \<le> b\<close> by (simp add: pow2_def)
  ultimately show ?thesis using pow2_pos[of a] by (simp add: mult_le_cancel_left1 not_less[symmetric])
qed

text \<open>Below 2 to the 52 the grid of the rounding is finer than one.\<close>

lemma exponent53_small:
  assumes "0 < x" "x < pow2 52"
  shows "exponent53 x \<le> 0"
proof -
  obtain p q where pq: "quotient_of x = (p, q)" by (cases "quotient_of x")
  have q: "0 < q" "x = of_int p / of_int q" using quotient_of_denom_pos[OF pq] quotient_of_div[OF pq] by auto
  have p: "0 < p" using assms(1) q by (simp add: zero_less_divide_iff)
  note bp = bit_len_bounds[OF p] and bq = bit_len_bounds[OF q(1)]
  have "pow2 (bit_len p - 1) = of_int (2 ^ nat (bit_len p - 1))" by (rule pow2_nat) (use bp in simp)
  also have "\<dots> \<le> of_int p" unfolding of_int_le_iff using bp by (rule conjunct1)
  also have "of_int p = x * of_int q" using q by simp
  also have "\<dots> < pow2 52 * pow2 (bit_len q)"
  proof (rule mult_strict_mono)
    have "pow2 (bit_len q) = of_int (2 ^ nat (bit_len q))" by (rule pow2_nat) (use bq in simp)
    also have "of_int q < \<dots>" unfolding of_int_less_iff using bq by (rule conjunct1[OF conjunct2])
    finally show "of_int q < pow2 (bit_len q)" .
  qed (use assms q in simp_all)
  also have "\<dots> = pow2 (52 + bit_len q)" by (simp add: pow2_add)
  finally have "\<not> 52 + bit_len q \<le> bit_len p - 1" using pow2_mono by (meson not_le)
  then show ?thesis by (auto simp: exponent53_def pq Let_def)
qed

lemma round_even_mono: "of_int m \<le> x \<Longrightarrow> m \<le> round_even x" "x \<le> of_int m \<Longrightarrow> round_even x \<le> m"
proof -
  assume "of_int m \<le> x"
  then have "m \<le> \<lfloor>x\<rfloor>" by (simp add: le_floor_iff)
  then show "m \<le> round_even x" by (auto simp: round_even_def Let_def)
next
  assume h: "x \<le> of_int m"
  show "round_even x \<le> m"
  proof (cases "x = of_int m")
    case False
    with h have "\<lfloor>x\<rfloor> < m" by (simp add: floor_less_iff)
    then show ?thesis by (auto simp: round_even_def Let_def)
  qed (simp add: round_even_def)
qed

lemma round53_int_bounds:
  assumes "0 \<le> x" "x < pow2 52"
  shows "of_int m \<le> x \<Longrightarrow> of_int m \<le> round53 x" "x \<le> of_int m \<Longrightarrow> round53 x \<le> of_int m"
proof -
  define e where "e = exponent53 x"
  have scale: "of_int k = of_int (k * 2 ^ nat (- e)) * pow2 e" if "e \<le> 0" for k :: int
    using that by (simp add: pow2_def)
  have cmp: "y / pow2 e \<le> z \<longleftrightarrow> y \<le> z * pow2 e" "z \<le> y / pow2 e \<longleftrightarrow> z * pow2 e \<le> y" for y z
    by (simp_all add: pos_divide_le_eq pos_le_divide_eq)
  have r: "round53 x = of_int (round_even (x / pow2 e)) * pow2 e" if "0 < x"
    using that by (simp add: round53_def round_pos_def e_def Let_def)
  show "of_int m \<le> round53 x" if "of_int m \<le> x"
  proof (cases "x = 0")
    case False
    with assms have e: "e \<le> 0" "0 < x" unfolding e_def by (auto intro: exponent53_small)
    from that have "of_int (m * 2 ^ nat (- e)) \<le> x / pow2 e" by (simp only: cmp scale[OF e(1), symmetric])
    from round_even_mono(1)[OF this] show ?thesis
      unfolding r[OF e(2)] scale[OF e(1), of m] by (intro mult_right_mono) (simp_all only: of_int_le_iff less_imp_le pow2_pos)
  qed (use that in \<open>simp add: round53_def\<close>)
  show "round53 x \<le> of_int m" if "x \<le> of_int m"
  proof (cases "x = 0")
    case False
    with assms have e: "e \<le> 0" "0 < x" unfolding e_def by (auto intro: exponent53_small)
    from that have "x / pow2 e \<le> of_int (m * 2 ^ nat (- e))" by (simp only: cmp scale[OF e(1), symmetric])
    from round_even_mono(2)[OF this] show ?thesis
      unfolding r[OF e(2)] scale[OF e(1), of m] by (intro mult_right_mono) (simp_all only: of_int_le_iff less_imp_le pow2_pos)
  qed (use that in \<open>simp add: round53_def\<close>)
qed

end
