(* ===== verification/AlertTypes.thy ===== *)
theory AlertTypes
  imports GoFloat
begin

text \<open>
  The data of \<open>internal/alerts/types.go\<close>. Go's string-typed enums become datatypes with
  the declared constants as constructors and a catch-all for every other string, so that
  the checks the code makes on them (\<open>validState\<close> and its kin) are real branches.
\<close>

datatype state =
    StateOK | StatePending | StateFiring | StateRecovering | StateResolved | StateSuperseded
  | StateOther string

datatype data_state =
    DataValid | DataUnknown | DataStale | DataIncompatible | DataOther string

datatype predicate = PredicateMatch | PredicateClear | PredicateHold | PredicateOther string

datatype rule_type =
    RuleOllamaUnreachable | RuleHostNotReporting | RuleSourceMissing | RuleMemoryPressure
  | RuleHeavyCPU | RuleObservedRequestDuration | RuleDiskMonitorHealth | RuleOther string

datatype incarnation_policy =
    IncarnationStableScope | IncarnationTargetEpisode | IncarnationSource | IncarnationPopulation
  | IncarnationOther string

text \<open>The text of a data state, which \<open>Evaluate\<close> concatenates into reasons.\<close>

fun data_state_string :: "data_state \<Rightarrow> string" where
  "data_state_string DataValid = ''valid''"
| "data_state_string DataUnknown = ''unknown''"
| "data_state_string DataStale = ''stale''"
| "data_state_string DataIncompatible = ''incompatible''"
| "data_state_string (DataOther s) = s"

text \<open>0.90 and 0.80 as the compiler rounds them to binary64.\<close>

definition float_0_90 :: float64 where
  "float_0_90 = Finite (8106479329266893 / 9007199254740992)"

definition float_0_80 :: float64 where
  "float_0_80 = Finite (3602879701896397 / 4503599627370496)"

record request_duration_spec =
  MetricID :: string
  Statistic :: string
  ThresholdMS :: float64

record spec =
  RuleID :: string
  Version :: int64
  Type :: rule_type
  ScopeFingerprint :: string
  IncarnationPolicy :: incarnation_policy
  TriggerDwellMS :: int64
  RecoveryDwellMS :: int64
  RequestDuration :: "request_duration_spec option"

record reachability_input =
  CollectorFresh :: bool
  Reachable :: "bool option"
  StartupGraceOpen :: bool
  ReachabilityIncompatible :: bool

record heartbeat_input =
  AgeMS :: int64

record source_input =
  HostFresh :: bool
  Available :: "bool option"
  SourceIncompatible :: bool

record memory_pressure_input =
  Level :: string
  Certified :: bool

record cpu_input =
  BusyRatio :: "float64 option"

record request_duration_input =
  ReqMetricID :: string
  ExactCompletedPopulation :: bool
  CompletedN :: int64
  ValidN :: int64
  MedianMS :: "float64 option"
  P95MS :: "float64 option"

record monitor_health_input =
  StoragePressure :: "bool option"
  EvaluatorLagMS :: "int64 option"
  FinalDeliveryFailed :: "bool option"

record input =
  InputDataState :: data_state
  Reachability :: "reachability_input option"
  Heartbeat :: "heartbeat_input option"
  Source :: "source_input option"
  MemoryPressure :: "memory_pressure_input option"
  CPU :: "cpu_input option"
  Request :: "request_duration_input option"
  MonitorHealth :: "monitor_health_input option"

record snapshot =
  SnapRuleID :: string
  RuleVersion :: int64
  SnapScope :: string
  SnapPolicy :: incarnation_policy
  ActiveGeneration :: int64
  State :: state
  DataState :: data_state
  DwellMS :: int64
  LastEvalMS :: int64
  LastValidMS :: "int64 option"
  OpenedMS :: "int64 option"
  ResolvedMS :: "int64 option"
  AcknowledgedBy :: "string option"
  AcknowledgedMS :: "int64 option"
  MutedUntilMS :: "int64 option"
  TransitionSeq :: int64

record decision =
  Predicate :: predicate
  Evaluable :: bool
  DecisionDataState :: data_state
  Reason :: string
  Immediate :: bool

record evaluation =
  EventMS :: int64
  ElapsedMS :: int64
  HubRestarted :: bool
  Decision :: decision
  EvidenceHash :: string

record transition =
  Sequence :: int64
  PreviousState :: state
  NewState :: state
  TransitionEventMS :: int64
  TransitionHash :: string

record reduction =
  Snapshot :: snapshot
  Transition :: "transition option"

datatype alert_error = ErrInvalidSpec | ErrInvalidSnapshot | ErrInvalidInput | ErrTerminalState

end
