(* ===== verification/AlertEvaluators.thy ===== *)
theory AlertEvaluators
  imports AlertTypes
begin

text \<open>
  \<open>internal/alerts/evaluators.go\<close>: the fixed rule specifications, their validation, and
  the seven evaluators that turn an input into a decision, branch by branch.
\<close>

section \<open>Identifier formats\<close>

text \<open>\<open>uuidPattern\<close> and \<open>hashPattern\<close>, anchored at both ends.\<close>

definition uuid_pattern :: "(char \<Rightarrow> bool) list" where
  "uuid_pattern =
     replicate 8 is_lower_hex @ [(=) CHR ''-''] @ replicate 4 is_lower_hex @ [(=) CHR ''-''] @
     [\<lambda>c. c \<in> set ''12345''] @ replicate 3 is_lower_hex @ [(=) CHR ''-''] @
     [\<lambda>c. c \<in> set ''89ab''] @ replicate 3 is_lower_hex @ [(=) CHR ''-''] @
     replicate 12 is_lower_hex"

definition is_uuid :: "string \<Rightarrow> bool" where
  "is_uuid s \<longleftrightarrow> matches uuid_pattern s"

definition is_hash :: "string \<Rightarrow> bool" where
  "is_hash s \<longleftrightarrow> matches (replicate 64 is_lower_hex) s"

definition request_duration_metrics :: "string list" where
  "request_duration_metrics =
     [''request.client.first_byte_ms'', ''request.client.first_content_ms'',
      ''request.client.total_ms'', ''request.runtime.eval_duration_ms'',
      ''request.runtime.load_duration_ms'', ''request.runtime.prompt_eval_duration_ms'',
      ''request.runtime.total_duration_ms'']"

section \<open>Specifications\<close>

definition warning_pressure_dwell_ms :: int64 where "warning_pressure_dwell_ms = 30000"
definition cpu_dwell_ms :: int64 where "cpu_dwell_ms = 60000"
definition standard_recovery_ms :: int64 where "standard_recovery_ms = 30000"

lemmas dwell_constants = warning_pressure_dwell_ms_def cpu_dwell_ms_def standard_recovery_ms_def

definition default_spec :: "string \<Rightarrow> int64 \<Rightarrow> rule_type \<Rightarrow> string \<Rightarrow> (alert_error, spec) result" where
  "default_spec rule_id version rule_type scope =
     (let s = \<lparr>RuleID = rule_id, Version = version, Type = rule_type, ScopeFingerprint = scope,
               IncarnationPolicy = IncarnationStableScope, TriggerDwellMS = 0, RecoveryDwellMS = 0,
               RequestDuration = None\<rparr>
      in case rule_type of
           RuleOllamaUnreachable \<Rightarrow>
             Ok (s\<lparr>IncarnationPolicy := IncarnationTargetEpisode, TriggerDwellMS := 30000,
                   RecoveryDwellMS := standard_recovery_ms\<rparr>)
         | RuleHostNotReporting \<Rightarrow>
             Ok (s\<lparr>TriggerDwellMS := 0, RecoveryDwellMS := standard_recovery_ms\<rparr>)
         | RuleSourceMissing \<Rightarrow>
             Ok (s\<lparr>IncarnationPolicy := IncarnationSource, TriggerDwellMS := 30000,
                   RecoveryDwellMS := standard_recovery_ms\<rparr>)
         | RuleMemoryPressure \<Rightarrow>
             Ok (s\<lparr>TriggerDwellMS := warning_pressure_dwell_ms, RecoveryDwellMS := 60000\<rparr>)
         | RuleHeavyCPU \<Rightarrow>
             Ok (s\<lparr>TriggerDwellMS := cpu_dwell_ms, RecoveryDwellMS := cpu_dwell_ms\<rparr>)
         | RuleObservedRequestDuration \<Rightarrow> Ok (s\<lparr>IncarnationPolicy := IncarnationPopulation\<rparr>)
         | RuleDiskMonitorHealth \<Rightarrow>
             Ok (s\<lparr>TriggerDwellMS := 30000, RecoveryDwellMS := standard_recovery_ms\<rparr>)
         | RuleOther _ \<Rightarrow> Err ErrInvalidSpec)"

definition validate_request_spec :: "request_duration_spec \<Rightarrow> bool" where
  "validate_request_spec r \<longleftrightarrow>
     \<not> (MetricID r \<notin> set request_duration_metrics
        \<or> (Statistic r \<noteq> ''median'' \<and> Statistic r \<noteq> ''p95'')
        \<or> is_nan_or_inf (ThresholdMS r)
        \<or> float_lt (ThresholdMS r) (Finite 0) \<or> float_lt (Finite 120000) (ThresholdMS r))"

definition validate_spec :: "spec \<Rightarrow> (alert_error, unit) result" where
  "validate_spec s =
     (if \<not> is_uuid (RuleID s) \<or> Version s < 1 \<or> \<not> is_hash (ScopeFingerprint s)
         \<or> TriggerDwellMS s < 0 \<or> RecoveryDwellMS s < 0
      then Err ErrInvalidSpec
      else (case default_spec (RuleID s) (Version s) (Type s) (ScopeFingerprint s) of
             Inl _ \<Rightarrow> Err ErrInvalidSpec
           | Inr base \<Rightarrow>
               if IncarnationPolicy s \<noteq> IncarnationPolicy base
                  \<or> TriggerDwellMS s \<noteq> TriggerDwellMS base
                  \<or> RecoveryDwellMS s \<noteq> RecoveryDwellMS base
               then Err ErrInvalidSpec
               else if Type s \<noteq> RuleObservedRequestDuration
               then (if RequestDuration s \<noteq> None then Err ErrInvalidSpec else Ok ())
               else (case RequestDuration s of
                       None \<Rightarrow> Err ErrInvalidSpec
                     | Some r \<Rightarrow> if validate_request_spec r then Ok () else Err ErrInvalidSpec)))"

section \<open>Decisions\<close>

definition unavailable :: "data_state \<Rightarrow> string \<Rightarrow> decision" where
  "unavailable st reason =
     \<lparr>Predicate = PredicateHold, Evaluable = False, DecisionDataState = st, Reason = reason,
      Immediate = False\<rparr>"

definition known :: "predicate \<Rightarrow> data_state \<Rightarrow> string \<Rightarrow> bool \<Rightarrow> decision" where
  "known p st reason immediate =
     \<lparr>Predicate = p, Evaluable = True, DecisionDataState = st, Reason = reason,
      Immediate = immediate\<rparr>"

definition valid_data_state :: "data_state \<Rightarrow> bool" where
  "valid_data_state v = (case v of DataOther _ \<Rightarrow> False | _ \<Rightarrow> True)"

definition evaluate_reachability :: "reachability_input option \<Rightarrow> data_state \<Rightarrow> decision" where
  "evaluate_reachability inp quality =
     (case inp of
        None \<Rightarrow> unavailable DataUnknown ''reachability_not_observed''
      | Some i \<Rightarrow>
          if \<not> CollectorFresh i then unavailable DataUnknown ''reachability_not_observed''
          else (case Reachable i of
            None \<Rightarrow> unavailable DataUnknown ''reachability_not_observed''
          | Some reachable \<Rightarrow>
              if ReachabilityIncompatible i then unavailable DataIncompatible ''runtime_incompatible''
              else if reachable then known PredicateClear quality ''runtime_reachable'' False
              else if StartupGraceOpen i then known PredicateHold quality ''startup_grace_open'' False
              else known PredicateMatch quality ''runtime_unreachable'' False))"

definition evaluate_heartbeat ::
  "heartbeat_input option \<Rightarrow> data_state \<Rightarrow> (alert_error, decision) result" where
  "evaluate_heartbeat inp quality =
     (case inp of
        None \<Rightarrow> Ok (unavailable DataUnknown ''heartbeat_not_observed'')
      | Some i \<Rightarrow>
          if AgeMS i < 0 then Err ErrInvalidInput
          else if AgeMS i \<ge> 60000 then Ok (known PredicateMatch quality ''heartbeat_age_60s'' False)
          else Ok (known PredicateClear quality ''heartbeat_fresh'' False))"

definition evaluate_source :: "source_input option \<Rightarrow> data_state \<Rightarrow> decision" where
  "evaluate_source inp quality =
     (case inp of
        None \<Rightarrow> unavailable DataUnknown ''source_not_observed''
      | Some i \<Rightarrow>
          if \<not> HostFresh i then unavailable DataUnknown ''source_not_observed''
          else (case Available i of
            None \<Rightarrow> unavailable DataUnknown ''source_not_observed''
          | Some available \<Rightarrow>
              if SourceIncompatible i \<or> quality = DataIncompatible
              then known PredicateMatch DataIncompatible ''source_incompatible'' False
              else if quality \<noteq> DataValid
              then unavailable quality (''source_'' @ data_state_string quality)
              else if available then known PredicateClear quality ''source_available'' False
              else known PredicateMatch quality ''source_missing'' False))"

definition evaluate_memory_pressure :: "memory_pressure_input option \<Rightarrow> data_state \<Rightarrow> decision" where
  "evaluate_memory_pressure inp quality =
     (case inp of
        None \<Rightarrow> unavailable DataUnknown ''pressure_uncertified''
      | Some i \<Rightarrow>
          if \<not> Certified i then unavailable DataUnknown ''pressure_uncertified''
          else if Level i = ''normal'' then known PredicateClear quality ''pressure_normal'' False
          else if Level i = ''warning'' then known PredicateMatch quality ''pressure_warning'' False
          else if Level i = ''critical'' then known PredicateMatch quality ''pressure_critical'' True
          else unavailable DataUnknown ''pressure_not_observed'')"

definition evaluate_cpu :: "cpu_input option \<Rightarrow> data_state \<Rightarrow> (alert_error, decision) result" where
  "evaluate_cpu inp quality =
     (case Option.bind inp BusyRatio of
        None \<Rightarrow> Ok (unavailable DataUnknown ''cpu_not_observed'')
      | Some v \<Rightarrow>
          if is_nan_or_inf v \<or> float_lt v (Finite 0) \<or> float_lt (Finite 1) v
          then Err ErrInvalidInput
          else if float_le float_0_90 v
          then Ok (known PredicateMatch quality ''cpu_at_least_90_percent'' False)
          else if float_lt v float_0_80
          then Ok (known PredicateClear quality ''cpu_below_80_percent'' False)
          else Ok (known PredicateHold quality ''cpu_hysteresis'' False))"

text \<open>The part of \<open>evaluateRequest\<close> after the statistic has been selected.\<close>

definition decide_request ::
  "request_duration_spec \<Rightarrow> float64 option \<Rightarrow> data_state \<Rightarrow> (alert_error, decision) result" where
  "decide_request s v quality =
     (case v of
        None \<Rightarrow> Ok (unavailable DataUnknown ''request_statistic_unavailable'')
      | Some x \<Rightarrow>
          if is_nan_or_inf x \<or> float_lt x (Finite 0) \<or> float_lt (Finite 120000) x
          then Err ErrInvalidInput
          else if float_le (ThresholdMS s) x
          then Ok (known PredicateMatch quality ''request_threshold_met'' True)
          else Ok (known PredicateClear quality ''request_threshold_clear'' True))"

definition evaluate_request ::
  "request_duration_spec \<Rightarrow> request_duration_input option \<Rightarrow> data_state \<Rightarrow>
     (alert_error, decision) result" where
  "evaluate_request s inp quality =
     (case inp of
        None \<Rightarrow> Ok (unavailable DataUnknown ''request_population_unavailable'')
      | Some i \<Rightarrow>
          if ReqMetricID i \<noteq> MetricID s \<or> \<not> ExactCompletedPopulation i \<or> CompletedN i < 0
             \<or> ValidN i < 0 \<or> ValidN i > CompletedN i
          then Ok (unavailable DataUnknown ''request_population_unavailable'')
          else if Statistic s = ''p95''
          then (if ValidN i < 100 then Ok (unavailable DataUnknown ''request_p95_valid_n_below_100'')
                else decide_request s (P95MS i) quality)
          else (if ValidN i < 1 then Ok (unavailable DataUnknown ''request_valid_n_zero'')
                else decide_request s (MedianMS i) quality))"

definition evaluate_monitor_health ::
  "monitor_health_input option \<Rightarrow> data_state \<Rightarrow> (alert_error, decision) result" where
  "evaluate_monitor_health inp quality =
     (case inp of
        None \<Rightarrow> Ok (unavailable DataUnknown ''monitor_health_not_observed'')
      | Some i \<Rightarrow>
          if ptr_and (EvaluatorLagMS i) (\<lambda>lag. lag < 0) then Err ErrInvalidInput
          else if FinalDeliveryFailed i = Some True
          then Ok (known PredicateMatch quality ''final_delivery_failed'' True)
          else if StoragePressure i = Some True
          then Ok (known PredicateMatch quality ''storage_pressure'' True)
          else if ptr_and (EvaluatorLagMS i) (\<lambda>lag. lag > 15000)
          then Ok (known PredicateMatch quality ''evaluator_lag_over_15s'' False)
          else if StoragePressure i = None \<or> EvaluatorLagMS i = None \<or> FinalDeliveryFailed i = None
          then Ok (unavailable DataUnknown ''monitor_health_partial'')
          else Ok (known PredicateClear quality ''monitor_health_clear'' False))"

section \<open>Evaluate\<close>

definition evaluate :: "spec \<Rightarrow> input \<Rightarrow> (alert_error, decision) result" where
  "evaluate s inp =
     (case validate_spec s of
        Inl e \<Rightarrow> Err e
      | Inr _ \<Rightarrow>
          let quality = (if InputDataState inp = DataOther '''' then DataUnknown
                         else InputDataState inp)
          in if \<not> valid_data_state quality then Err ErrInvalidInput
             else if quality \<noteq> DataValid \<and> Type s \<noteq> RuleSourceMissing
             then Ok (unavailable quality (''input_'' @ data_state_string quality))
             else (case Type s of
                 RuleOllamaUnreachable \<Rightarrow> Ok (evaluate_reachability (Reachability inp) quality)
               | RuleHostNotReporting \<Rightarrow> evaluate_heartbeat (Heartbeat inp) quality
               | RuleSourceMissing \<Rightarrow> Ok (evaluate_source (Source inp) quality)
               | RuleMemoryPressure \<Rightarrow> Ok (evaluate_memory_pressure (MemoryPressure inp) quality)
               | RuleHeavyCPU \<Rightarrow> evaluate_cpu (CPU inp) quality
               | RuleObservedRequestDuration \<Rightarrow>
                   evaluate_request (the (RequestDuration s)) (Request inp) quality
               | RuleDiskMonitorHealth \<Rightarrow> evaluate_monitor_health (MonitorHealth inp) quality
               | RuleOther _ \<Rightarrow> Err ErrInvalidSpec))"

end
