(* ===== verification/AlertReducer.thy ===== *)
theory AlertReducer
  imports AlertEvaluators
begin

text \<open>
  \<open>internal/alerts/reducer.go\<close>: the alert state machine. \<open>reduce\<close> is the whole of
  \<open>Reduce\<close>, its validation included; \<open>alert_step\<close> is the abstract machine it refines.
\<close>

section \<open>Validation\<close>

definition valid_state :: "state \<Rightarrow> bool" where
  "valid_state v = (case v of StateOther _ \<Rightarrow> False | _ \<Rightarrow> True)"

definition valid_predicate :: "predicate \<Rightarrow> bool" where
  "valid_predicate v \<longleftrightarrow> v = PredicateMatch \<or> v = PredicateClear \<or> v = PredicateHold"

definition safe_reason :: "string \<Rightarrow> bool" where
  "safe_reason s \<longleftrightarrow>
     1 \<le> length s \<and> length s \<le> 128 \<and> is_lower (hd s) \<and>
     list_all (\<lambda>c. is_lower c \<or> is_digit c \<or> c = CHR ''_'') s"

definition validate_snapshot :: "spec \<Rightarrow> snapshot \<Rightarrow> (alert_error, unit) result" where
  "validate_snapshot s v =
     (if SnapRuleID v \<noteq> RuleID s \<or> RuleVersion v \<noteq> Version s \<or> SnapScope v \<noteq> ScopeFingerprint s
         \<or> SnapPolicy v \<noteq> IncarnationPolicy s \<or> ActiveGeneration v < 1 \<or> \<not> valid_state (State v)
         \<or> \<not> valid_data_state (DataState v) \<or> DwellMS v < 0 \<or> LastEvalMS v < 0 \<or> TransitionSeq v < 0
      then Err ErrInvalidSnapshot
      else if State v \<noteq> StatePending \<and> State v \<noteq> StateRecovering \<and> DwellMS v \<noteq> 0
      then Err ErrInvalidSnapshot
      else if (State v = StateFiring \<or> State v = StateRecovering \<or> State v = StateResolved)
              \<and> OpenedMS v = None
      then Err ErrInvalidSnapshot
      else if (State v = StateResolved \<and> ResolvedMS v = None)
              \<or> (State v \<noteq> StateResolved \<and> ResolvedMS v \<noteq> None)
      then Err ErrInvalidSnapshot
      else if (AcknowledgedBy v = None) \<noteq> (AcknowledgedMS v = None)
      then Err ErrInvalidSnapshot
      else if list_ex (\<lambda>p. ptr_and p (\<lambda>t. t < 0))
                [LastValidMS v, OpenedMS v, ResolvedMS v, AcknowledgedMS v, MutedUntilMS v]
      then Err ErrInvalidSnapshot
      else Ok ())"

definition valid_decision :: "decision \<Rightarrow> bool" where
  "valid_decision d \<longleftrightarrow>
     valid_data_state (DecisionDataState d) \<and> valid_predicate (Predicate d) \<and> safe_reason (Reason d)
     \<and> \<not> (\<not> Evaluable d \<and> Predicate d \<noteq> PredicateHold
          \<or> Evaluable d \<and> DecisionDataState d \<noteq> DataValid \<and> DecisionDataState d \<noteq> DataIncompatible)"

definition validate_evaluation :: "evaluation \<Rightarrow> (alert_error, unit) result" where
  "validate_evaluation v =
     (let d = Decision v in
      if EventMS v < 0 \<or> ElapsedMS v < 0 \<or> \<not> valid_data_state (DecisionDataState d)
         \<or> \<not> valid_predicate (Predicate d) \<or> \<not> safe_reason (Reason d) \<or> \<not> is_hash (EvidenceHash v)
      then Err ErrInvalidInput
      else if \<not> Evaluable d \<and> Predicate d \<noteq> PredicateHold
              \<or> Evaluable d \<and> DecisionDataState d \<noteq> DataValid \<and> DecisionDataState d \<noteq> DataIncompatible
      then Err ErrInvalidInput
      else Ok ())"

section \<open>Operations\<close>

definition new_snapshot :: "spec \<Rightarrow> int64 \<Rightarrow> (alert_error, snapshot) result" where
  "new_snapshot s active_generation =
     (if validate_spec s \<noteq> Ok () \<or> active_generation < 1 then Err ErrInvalidSpec
      else Ok \<lparr>SnapRuleID = RuleID s, RuleVersion = Version s, SnapScope = ScopeFingerprint s,
               SnapPolicy = IncarnationPolicy s, ActiveGeneration = active_generation,
               State = StateOK, DataState = DataUnknown, DwellMS = 0, LastEvalMS = 0,
               LastValidMS = None, OpenedMS = None, ResolvedMS = None, AcknowledgedBy = None,
               AcknowledgedMS = None, MutedUntilMS = None, TransitionSeq = 0\<rparr>)"

definition add_elapsed :: "int64 \<Rightarrow> int64 \<Rightarrow> int64" where
  "add_elapsed current elapsed =
     (if elapsed > sub64 max_int64 current then max_int64 else add64 current elapsed)"

definition transition :: "snapshot \<Rightarrow> snapshot \<Rightarrow> evaluation \<Rightarrow> reduction" where
  "transition previous next ev =
     (let next' = next\<lparr>TransitionSeq := add64 (TransitionSeq previous) 1\<rparr>
      in \<lparr>Snapshot = next',
          Transition = Some \<lparr>Sequence = TransitionSeq next', PreviousState = State previous,
                             NewState = State next', TransitionEventMS = EventMS ev,
                             TransitionHash = EvidenceHash ev\<rparr>\<rparr>)"

definition no_transition :: "snapshot \<Rightarrow> reduction" where
  "no_transition v = \<lparr>Snapshot = v, Transition = None\<rparr>"

definition open_firing :: "snapshot \<Rightarrow> int64 \<Rightarrow> snapshot" where
  "open_firing v event_ms =
     v\<lparr>State := StateFiring, DwellMS := 0,
       OpenedMS := (case OpenedMS v of None \<Rightarrow> Some event_ms | Some t \<Rightarrow> Some t),
       ResolvedMS := None\<rparr>"

definition reset_to_ok :: "snapshot \<Rightarrow> snapshot" where
  "reset_to_ok v = v\<lparr>State := StateOK, DwellMS := 0\<rparr>"

definition reset_to_firing :: "snapshot \<Rightarrow> snapshot" where
  "reset_to_firing v = v\<lparr>State := StateFiring, DwellMS := 0\<rparr>"

definition resolve :: "snapshot \<Rightarrow> int64 \<Rightarrow> snapshot" where
  "resolve v event_ms = v\<lparr>State := StateResolved, DwellMS := 0, ResolvedMS := Some event_ms\<rparr>"

text \<open>The snapshot \<open>next\<close> of \<open>Reduce\<close> before its first switch on the state.\<close>

definition observe :: "snapshot \<Rightarrow> evaluation \<Rightarrow> snapshot" where
  "observe current ev =
     (let next = current\<lparr>LastEvalMS := EventMS ev, DataState := DecisionDataState (Decision ev)\<rparr>;
          next = (if Evaluable (Decision ev) \<and> DecisionDataState (Decision ev) = DataValid
                  then next\<lparr>LastValidMS := Some (EventMS ev)\<rparr> else next)
      in if HubRestarted ev \<and> (State next = StatePending \<or> State next = StateRecovering)
         then next\<lparr>DwellMS := 0\<rparr> else next)"

text \<open>The elapsed time \<open>Reduce\<close> counts: none for the first sample after a hub restart.\<close>

definition counted_elapsed :: "evaluation \<Rightarrow> int64" where
  "counted_elapsed ev = (if HubRestarted ev then 0 else ElapsedMS ev)"

text \<open>The two switches of \<open>Reduce\<close>.\<close>

definition reduce_unevaluable :: "snapshot \<Rightarrow> snapshot \<Rightarrow> evaluation \<Rightarrow> reduction" where
  "reduce_unevaluable current next ev =
     (case State next of
        StatePending \<Rightarrow> transition current (reset_to_ok next) ev
      | StateRecovering \<Rightarrow> transition current (reset_to_firing next) ev
      | _ \<Rightarrow> no_transition (next\<lparr>DwellMS := 0\<rparr>))"

definition reduce_evaluable ::
  "spec \<Rightarrow> snapshot \<Rightarrow> snapshot \<Rightarrow> evaluation \<Rightarrow> (alert_error, reduction) result" where
  "reduce_evaluable s current next ev =
     (let d = Decision ev; elapsed = counted_elapsed ev in
      case State next of
        StateOK \<Rightarrow>
          if Predicate d \<noteq> PredicateMatch then Ok (no_transition (next\<lparr>DwellMS := 0\<rparr>))
          else if Immediate d \<or> TriggerDwellMS s = 0
          then Ok (transition current (open_firing next (EventMS ev)) ev)
          else Ok (transition current (next\<lparr>State := StatePending, DwellMS := 0\<rparr>) ev)
      | StatePending \<Rightarrow>
          if Predicate d \<noteq> PredicateMatch then Ok (transition current (reset_to_ok next) ev)
          else (let next' = next\<lparr>DwellMS := add_elapsed (DwellMS next) elapsed\<rparr> in
                if Immediate d \<or> DwellMS next' \<ge> TriggerDwellMS s
                then Ok (transition current (open_firing next' (EventMS ev)) ev)
                else Ok (no_transition next'))
      | StateFiring \<Rightarrow>
          if Predicate d \<noteq> PredicateClear then Ok (no_transition (next\<lparr>DwellMS := 0\<rparr>))
          else if Immediate d \<or> RecoveryDwellMS s = 0
          then Ok (transition current (resolve next (EventMS ev)) ev)
          else Ok (transition current (next\<lparr>State := StateRecovering, DwellMS := 0\<rparr>) ev)
      | StateRecovering \<Rightarrow>
          if Predicate d \<noteq> PredicateClear then Ok (transition current (reset_to_firing next) ev)
          else (let next' = next\<lparr>DwellMS := add_elapsed (DwellMS next) elapsed\<rparr> in
                if Immediate d \<or> DwellMS next' \<ge> RecoveryDwellMS s
                then Ok (transition current (resolve next' (EventMS ev)) ev)
                else Ok (no_transition next'))
      | _ \<Rightarrow> Err ErrInvalidSnapshot)"

definition reduce :: "spec \<Rightarrow> snapshot \<Rightarrow> evaluation \<Rightarrow> (alert_error, reduction) result" where
  "reduce s current ev =
     result_bind (validate_spec s) (\<lambda>_.
     result_bind (validate_snapshot s current) (\<lambda>_.
     if State current = StateResolved \<or> State current = StateSuperseded then Err ErrTerminalState
     else result_bind (validate_evaluation ev) (\<lambda>_.
     let next = observe current ev in
     if \<not> Evaluable (Decision ev) then Ok (reduce_unevaluable current next ev)
     else reduce_evaluable s current next ev)))"

definition supersede ::
  "spec \<Rightarrow> snapshot \<Rightarrow> int64 \<Rightarrow> string \<Rightarrow> (alert_error, reduction) result" where
  "supersede s current event_ms evidence_hash =
     result_bind (validate_spec s) (\<lambda>_.
     result_bind (validate_snapshot s current) (\<lambda>_.
     if State current = StateResolved \<or> State current = StateSuperseded then Err ErrTerminalState
     else let ev = \<lparr>EventMS = event_ms, ElapsedMS = 0, HubRestarted = False,
                    Decision = known PredicateHold DataValid ''rule_superseded'' True,
                    EvidenceHash = evidence_hash\<rparr>
          in result_bind (validate_evaluation ev) (\<lambda>_.
             Ok (transition current
                   (current\<lparr>State := StateSuperseded, DwellMS := 0, LastEvalMS := event_ms\<rparr>) ev))))"

section \<open>Characterising the validators\<close>

lemma validate_spec_cases: "validate_spec s = Ok () \<or> validate_spec s = Err ErrInvalidSpec"
  by (auto simp: validate_spec_def split: sum.splits option.splits)

lemma validate_snapshot_cases:
  "validate_snapshot s v = Ok () \<or> validate_snapshot s v = Err ErrInvalidSnapshot"
  by (auto simp: validate_snapshot_def)

lemma validate_evaluation_iff:
  "validate_evaluation ev = Ok () \<longleftrightarrow>
     0 \<le> EventMS ev \<and> 0 \<le> ElapsedMS ev \<and> is_hash (EvidenceHash ev) \<and> valid_decision (Decision ev)"
  by (auto simp: validate_evaluation_def valid_decision_def Let_def)

lemma validate_evaluation_cases:
  "validate_evaluation ev = Ok () \<or> validate_evaluation ev = Err ErrInvalidInput"
  by (auto simp: validate_evaluation_def Let_def)

definition nonneg_ptr :: "int64 option \<Rightarrow> bool" where
  "nonneg_ptr p \<longleftrightarrow> \<not> ptr_and p (\<lambda>t. t < 0)"

lemma nonneg_ptr_simps [simp]: "nonneg_ptr None" "nonneg_ptr (Some t) \<longleftrightarrow> 0 \<le> t"
  by (auto simp: nonneg_ptr_def)

text \<open>What a validated snapshot satisfies, as facts instead of early returns.\<close>

definition snapshot_identity :: "spec \<Rightarrow> snapshot \<Rightarrow> bool" where
  "snapshot_identity s v \<longleftrightarrow>
     SnapRuleID v = RuleID s \<and> RuleVersion v = Version s \<and> SnapScope v = ScopeFingerprint s
     \<and> SnapPolicy v = IncarnationPolicy s \<and> 1 \<le> ActiveGeneration v"

definition snapshot_times :: "snapshot \<Rightarrow> bool" where
  "snapshot_times v \<longleftrightarrow>
     nonneg_ptr (LastValidMS v) \<and> nonneg_ptr (OpenedMS v) \<and> nonneg_ptr (ResolvedMS v)
     \<and> nonneg_ptr (AcknowledgedMS v) \<and> nonneg_ptr (MutedUntilMS v)"

definition snapshot_ok :: "spec \<Rightarrow> snapshot \<Rightarrow> bool" where
  "snapshot_ok s v \<longleftrightarrow>
     snapshot_identity s v \<and>
     (valid_state (State v) \<and> valid_data_state (DataState v) \<and> 0 \<le> DwellMS v \<and> 0 \<le> LastEvalMS v
      \<and> 0 \<le> TransitionSeq v) \<and>
     (DwellMS v \<noteq> 0 \<longrightarrow> State v = StatePending \<or> State v = StateRecovering) \<and>
     (State v = StateFiring \<or> State v = StateRecovering \<or> State v = StateResolved \<longrightarrow>
        OpenedMS v \<noteq> None) \<and>
     (State v = StateResolved \<longleftrightarrow> ResolvedMS v \<noteq> None) \<and>
     (AcknowledgedBy v = None \<longleftrightarrow> AcknowledgedMS v = None) \<and>
     snapshot_times v"

lemma validate_snapshot_iff: "validate_snapshot s v = Ok () \<longleftrightarrow> snapshot_ok s v"
proof -
  have times: "\<not> list_ex (\<lambda>p. ptr_and p (\<lambda>t. t < 0))
      [LastValidMS v, OpenedMS v, ResolvedMS v, AcknowledgedMS v, MutedUntilMS v]
      \<longleftrightarrow> snapshot_times v"
    by (simp add: snapshot_times_def nonneg_ptr_def)
  have dwell: "\<not> (State v \<noteq> StatePending \<and> State v \<noteq> StateRecovering \<and> DwellMS v \<noteq> 0)
      \<longleftrightarrow> (DwellMS v \<noteq> 0 \<longrightarrow> State v = StatePending \<or> State v = StateRecovering)"
    by blast
  have resolved: "\<not> (State v = StateResolved \<and> ResolvedMS v = None)
      \<and> \<not> (State v \<noteq> StateResolved \<and> ResolvedMS v \<noteq> None) \<and> R
      \<longleftrightarrow> (State v = StateResolved \<longleftrightarrow> ResolvedMS v \<noteq> None) \<and> R" for R
    by (cases "State v = StateResolved") simp_all
  have opened: "\<not> ((State v = StateFiring \<or> State v = StateRecovering \<or> State v = StateResolved)
      \<and> OpenedMS v = None)
      \<longleftrightarrow> (State v = StateFiring \<or> State v = StateRecovering \<or> State v = StateResolved \<longrightarrow>
            OpenedMS v \<noteq> None)"
    by (cases "OpenedMS v = None") simp_all
  have ack: "\<not> ((AcknowledgedBy v = None) \<noteq> (AcknowledgedMS v = None))
      \<longleftrightarrow> (AcknowledgedBy v = None \<longleftrightarrow> AcknowledgedMS v = None)"
    by simp
  show ?thesis
    unfolding validate_snapshot_def snapshot_ok_def snapshot_identity_def guard_Ok
      times dwell opened ack de_Morgan_disj not_not not_less
    by (simp only: conj_assoc simp_thms resolved)
qed

lemma spec_dwell_nonneg:
  "validate_spec s = Ok () \<Longrightarrow> 0 \<le> TriggerDwellMS s \<and> 0 \<le> RecoveryDwellMS s"
  by (auto simp: validate_spec_def split: if_splits)

lemma spec_dwell_bound:
  assumes "validate_spec s = Ok ()"
  shows "TriggerDwellMS s \<le> 60000 \<and> RecoveryDwellMS s \<le> 60000"
  using assms
  by (cases "Type s")
    (auto simp: validate_spec_def default_spec_def dwell_constants Let_def split: if_splits)

section \<open>Inversion of \<open>reduce\<close>\<close>

lemma reduce_Ok:
  assumes "reduce s c ev = Ok r"
  shows "validate_spec s = Ok ()" "snapshot_ok s c" "validate_evaluation ev = Ok ()"
    and "State c \<noteq> StateResolved" "State c \<noteq> StateSuperseded"
    and "\<not> Evaluable (Decision ev) \<Longrightarrow> r = reduce_unevaluable c (observe c ev) ev"
    and "Evaluable (Decision ev) \<Longrightarrow> reduce_evaluable s c (observe c ev) ev = Ok r"
  using assms
  by (auto simp: reduce_def go_result validate_snapshot_iff Let_def split: if_splits)

lemma reduce_intro:
  assumes "validate_spec s = Ok ()" "snapshot_ok s c" "validate_evaluation ev = Ok ()"
    and "State c \<noteq> StateResolved" "State c \<noteq> StateSuperseded"
  shows "reduce s c ev =
    (if \<not> Evaluable (Decision ev) then Ok (reduce_unevaluable c (observe c ev) ev)
     else reduce_evaluable s c (observe c ev) ev)"
proof -
  have "validate_snapshot s c = Ok ()" using assms(2) by (simp add: validate_snapshot_iff)
  with assms show ?thesis by (simp add: reduce_def Let_def)
qed

lemma snapshot_ok_state:
  "snapshot_ok s c \<Longrightarrow> State c \<noteq> StateResolved \<Longrightarrow> State c \<noteq> StateSuperseded \<Longrightarrow>
     State c = StateOK \<or> State c = StatePending \<or> State c = StateFiring \<or> State c = StateRecovering"
  by (cases "State c") (auto simp: snapshot_ok_def valid_state_def)

lemma observe_simps [simp]:
  "State (observe c ev) = State c"
  "OpenedMS (observe c ev) = OpenedMS c"
  "ResolvedMS (observe c ev) = ResolvedMS c"
  "LastEvalMS (observe c ev) = EventMS ev"
  "DataState (observe c ev) = DecisionDataState (Decision ev)"
  "TransitionSeq (observe c ev) = TransitionSeq c"
  "SnapRuleID (observe c ev) = SnapRuleID c" "RuleVersion (observe c ev) = RuleVersion c"
  "SnapScope (observe c ev) = SnapScope c" "SnapPolicy (observe c ev) = SnapPolicy c"
  "ActiveGeneration (observe c ev) = ActiveGeneration c"
  "AcknowledgedBy (observe c ev) = AcknowledgedBy c"
  "AcknowledgedMS (observe c ev) = AcknowledgedMS c" "MutedUntilMS (observe c ev) = MutedUntilMS c"
  by (auto simp: observe_def Let_def)

lemma observe_dwell:
  "DwellMS (observe c ev) =
     (if HubRestarted ev \<and> (State c = StatePending \<or> State c = StateRecovering) then 0 else DwellMS c)"
  by (auto simp: observe_def Let_def)

lemma observe_last_valid:
  "LastValidMS (observe c ev) =
     (if Evaluable (Decision ev) \<and> DecisionDataState (Decision ev) = DataValid then Some (EventMS ev)
      else LastValidMS c)"
  by (auto simp: observe_def Let_def)

lemmas snapshot_updates = open_firing_def reset_to_ok_def reset_to_firing_def resolve_def

lemmas reduction_defs = transition_def no_transition_def snapshot_updates Let_def

text \<open>Everything \<open>reduce\<close> can do, one disjunct per return statement of the code.\<close>

lemma reduce_evaluable_Ok:
  "State c = StateOK \<or> State c = StatePending \<or> State c = StateFiring \<or> State c = StateRecovering \<Longrightarrow>
     \<exists>r. reduce_evaluable s c (observe c ev) ev = Ok r"
  by (auto simp: reduce_evaluable_def Let_def)

lemma reduce_total:
  assumes "validate_spec s = Ok ()" "snapshot_ok s c" "validate_evaluation ev = Ok ()"
    and "State c \<noteq> StateResolved" "State c \<noteq> StateSuperseded"
  shows "\<exists>r. reduce s c ev = Ok r"
  using reduce_intro [OF assms] snapshot_ok_state [OF assms(2,4,5)] reduce_evaluable_Ok [of c s ev]
  by auto

end
