(* ===== verification/AlertMachine.thy ===== *)
theory AlertMachine
  imports AlertReducer
begin

text \<open>
  The contract of the alert reducer: an abstract machine over a phase and a dwell time in
  exact arithmetic, an interface locale for any reducer that follows it, the lemmas on
  runs of evaluations that its callers rely on, and the interpretation on \<open>reduce\<close>.
\<close>

section \<open>The abstract machine\<close>

datatype obs = Gap | Seen predicate bool bool int

text \<open>
  \<open>Seen p immediate restarted elapsed\<close> is an evaluable sample; \<open>Gap\<close> is a sample the
  evaluator could not judge.
\<close>

abbreviation base_dwell :: "bool \<Rightarrow> int \<Rightarrow> int" where
  "base_dwell restarted d \<equiv> if restarted then 0 else d"

inductive alert_step :: "int \<Rightarrow> int \<Rightarrow> state \<times> int \<Rightarrow> obs \<Rightarrow> state \<times> int \<Rightarrow> bool"
  for trig recov where
  gap_ok: "alert_step trig recov (StateOK, d) Gap (StateOK, 0)"
| gap_pending: "alert_step trig recov (StatePending, d) Gap (StateOK, 0)"
| gap_firing: "alert_step trig recov (StateFiring, d) Gap (StateFiring, 0)"
| gap_recovering: "alert_step trig recov (StateRecovering, d) Gap (StateFiring, 0)"
| ok_stay: "p \<noteq> PredicateMatch \<Longrightarrow> alert_step trig recov (StateOK, d) (Seen p i r e) (StateOK, 0)"
| ok_fire: "i \<or> trig = 0 \<Longrightarrow>
    alert_step trig recov (StateOK, d) (Seen PredicateMatch i r e) (StateFiring, 0)"
| ok_pend: "\<not> i \<Longrightarrow> trig \<noteq> 0 \<Longrightarrow>
    alert_step trig recov (StateOK, d) (Seen PredicateMatch i r e) (StatePending, 0)"
| pending_reset: "p \<noteq> PredicateMatch \<Longrightarrow>
    alert_step trig recov (StatePending, d) (Seen p i r e) (StateOK, 0)"
| pending_fire: "i \<or> trig \<le> base_dwell r d + e \<Longrightarrow>
    alert_step trig recov (StatePending, d) (Seen PredicateMatch i r e) (StateFiring, 0)"
| pending_wait: "\<not> i \<Longrightarrow> base_dwell r d + e < trig \<Longrightarrow>
    alert_step trig recov (StatePending, d) (Seen PredicateMatch i r e)
      (StatePending, base_dwell r d + e)"
| firing_stay: "p \<noteq> PredicateClear \<Longrightarrow>
    alert_step trig recov (StateFiring, d) (Seen p i r e) (StateFiring, 0)"
| firing_resolve: "i \<or> recov = 0 \<Longrightarrow>
    alert_step trig recov (StateFiring, d) (Seen PredicateClear i r e) (StateResolved, 0)"
| firing_recover: "\<not> i \<Longrightarrow> recov \<noteq> 0 \<Longrightarrow>
    alert_step trig recov (StateFiring, d) (Seen PredicateClear i r e) (StateRecovering, 0)"
| recovering_reset: "p \<noteq> PredicateClear \<Longrightarrow>
    alert_step trig recov (StateRecovering, d) (Seen p i r e) (StateFiring, 0)"
| recovering_resolve: "i \<or> recov \<le> base_dwell r d + e \<Longrightarrow>
    alert_step trig recov (StateRecovering, d) (Seen PredicateClear i r e) (StateResolved, 0)"
| recovering_wait: "\<not> i \<Longrightarrow> base_dwell r d + e < recov \<Longrightarrow>
    alert_step trig recov (StateRecovering, d) (Seen PredicateClear i r e)
      (StateRecovering, base_dwell r d + e)"

inductive_cases step_ok: "alert_step trig recov (StateOK, d) ob t"
inductive_cases step_pending: "alert_step trig recov (StatePending, d) ob t"
inductive_cases step_firing: "alert_step trig recov (StateFiring, d) ob t"
inductive_cases step_recovering: "alert_step trig recov (StateRecovering, d) ob t"
inductive_cases step_resolved: "alert_step trig recov (StateResolved, d) ob t"
inductive_cases step_superseded: "alert_step trig recov (StateSuperseded, d) ob t"
inductive_cases step_to_resolved: "alert_step trig recov s ob (StateResolved, d)"
inductive_cases step_gap: "alert_step trig recov s Gap t"

inductive_simps step_pending_match:
  "alert_step trig recov (StatePending, d) (Seen PredicateMatch i r e) t"
inductive_simps step_firing_match:
  "alert_step trig recov (StateFiring, d) (Seen PredicateMatch i r e) t"
inductive_simps step_recovering_clear:
  "alert_step trig recov (StateRecovering, d) (Seen PredicateClear i r e) t"

lemma alert_step_deterministic:
  "alert_step trig recov s ob t \<Longrightarrow> alert_step trig recov s ob t' \<Longrightarrow> t = t'"
  by (induction rule: alert_step.induct)
    (auto elim: step_ok step_pending step_firing step_recovering)

text \<open>Nothing leaves a terminal phase, and a gap neither opens nor closes an alert.\<close>

lemma alert_step_terminal: "\<not> alert_step trig recov (StateResolved, d) ob t"
  "\<not> alert_step trig recov (StateSuperseded, d) ob t"
  by (auto elim: step_resolved step_superseded)

lemma alert_step_gap:
  "alert_step trig recov (st, d) Gap (st', d') \<Longrightarrow>
     d' = 0 \<and> (st' = StateOK \<and> st \<in> {StateOK, StatePending}
             \<or> st' = StateFiring \<and> st \<in> {StateFiring, StateRecovering})"
  by (auto elim: step_gap)

section \<open>The interface and its runs\<close>

text \<open>
  A reducer keeps a snapshot per alert instance. Its client folds it over the evaluations
  of the instance and stops at the first refusal.
\<close>

locale alert_reducer =
  fixes next_snap :: "'s \<Rightarrow> 'e \<Rightarrow> 's option"
    and phase :: "'s \<Rightarrow> state"
    and dwell :: "'s \<Rightarrow> int"
    and view :: "'e \<Rightarrow> obs"
    and good :: "'s \<Rightarrow> bool"
    and trig :: int
    and recov :: int
  assumes step_sound: "good c \<Longrightarrow> next_snap c e = Some c' \<Longrightarrow>
      alert_step trig recov (phase c, dwell c) (view e) (phase c', dwell c')"
    and step_good: "good c \<Longrightarrow> next_snap c e = Some c' \<Longrightarrow> good c'"
    and step_time: "next_snap c e = Some c' \<Longrightarrow> view e = Seen p i r t \<Longrightarrow> 0 \<le> t \<and> (r \<longrightarrow> t = 0)"
begin

fun run :: "'s \<Rightarrow> 'e list \<Rightarrow> 's option" where
  "run c [] = Some c"
| "run c (e # es) = Option.bind (next_snap c e) (\<lambda>c'. run c' es)"

lemma run_append: "run c (xs @ ys) = Option.bind (run c xs) (\<lambda>c'. run c' ys)"
  by (induction xs arbitrary: c) (auto split: Option.bind_splits)

lemma run_good: "good c \<Longrightarrow> run c es = Some c' \<Longrightarrow> good c'"
  by (induction es arbitrary: c) (auto split: Option.bind_splits dest: step_good)

text \<open>Time that the machine counts towards a dwell.\<close>

definition steady :: "predicate \<Rightarrow> 'e \<Rightarrow> bool" where
  "steady p e \<longleftrightarrow> (\<exists>t. 0 \<le> t \<and> view e = Seen p False False t)"

definition time :: "'e \<Rightarrow> int" where
  "time e = (case view e of Gap \<Rightarrow> 0 | Seen _ _ _ t \<Rightarrow> t)"

lemma steady_time: "steady p e \<Longrightarrow> view e = Seen p False False (time e) \<and> 0 \<le> time e"
  by (auto simp: steady_def time_def)

lemma steady_nonneg: "steady p e \<Longrightarrow> 0 \<le> time e"
  using steady_time by simp

lemma run_firing_match:
  assumes "good c" "phase c = StateFiring" "run c es = Some c'" "\<forall>e\<in>set es. steady PredicateMatch e"
  shows "phase c' = StateFiring"
  using assms
proof (induction es arbitrary: c)
  case Nil
  then show ?case by simp
next
  case (Cons e es)
  then obtain c1 where c1: "next_snap c e = Some c1" "run c1 es = Some c'"
    by (auto split: Option.bind_splits)
  have "view e = Seen PredicateMatch False False (time e)"
    using Cons.prems(4) steady_time [of PredicateMatch e] by simp
  then have "phase c1 = StateFiring"
    using step_sound [OF Cons.prems(1) c1(1)] Cons.prems(2) by (simp add: step_firing_match)
  with c1 Cons show ?case by (auto intro: step_good)
qed

text \<open>An uninterrupted run of matches fires exactly when its time reaches the trigger dwell.\<close>

lemma run_pending:
  assumes "good c" "phase c = StatePending" "dwell c < trig" "run c es = Some c'"
    and "\<forall>e\<in>set es. steady PredicateMatch e"
  shows "phase c' = (if dwell c + sum_list (map time es) < trig then StatePending else StateFiring)"
  using assms
proof (induction es arbitrary: c)
  case Nil
  then show ?case by simp
next
  case (Cons e es)
  then obtain c1 where c1: "next_snap c e = Some c1" "run c1 es = Some c'"
    by (auto split: Option.bind_splits)
  have e: "view e = Seen PredicateMatch False False (time e)" "0 \<le> time e"
    using Cons.prems(5) steady_time [of PredicateMatch e] by simp_all
  have good1: "good c1" using step_good [OF Cons.prems(1) c1(1)] .
  have rest: "\<forall>e\<in>set es. steady PredicateMatch e" using Cons.prems(5) by simp
  then have nonneg: "0 \<le> sum_list (map time es)"
    by (auto intro!: sum_list_nonneg steady_nonneg)
  have step: "alert_step trig recov (StatePending, dwell c) (Seen PredicateMatch False False (time e))
      (phase c1, dwell c1)"
    using step_sound [OF Cons.prems(1) c1(1)] Cons.prems(2) e(1) by simp
  show ?case
  proof (cases "dwell c + time e < trig")
    case True
    with step have "phase c1 = StatePending" "dwell c1 = dwell c + time e"
      by (auto simp: step_pending_match)
    with Cons.IH [OF good1 _ _ c1(2) rest] True show ?thesis by (simp add: add.assoc)
  next
    case False
    with step have "phase c1 = StateFiring" by (auto simp: step_pending_match)
    from run_firing_match [OF good1 this c1(2) rest] False nonneg show ?thesis by simp
  qed
qed

text \<open>
  A resolution rests on clear samples only: either the last sample was immediate, or no
  recovery dwell is configured, or a final stretch of clear samples, none after a restart
  of the hub, lasted at least the recovery dwell.
\<close>

definition clear_sample :: "'e \<Rightarrow> bool" where
  "clear_sample e \<longleftrightarrow> (\<exists>i r t. view e = Seen PredicateClear i r t)"

definition restarted :: "'e \<Rightarrow> bool" where
  "restarted e \<longleftrightarrow> (\<exists>p i t. view e = Seen p i True t)"

lemma run_recovering_dwell:
  assumes "good c" "phase c \<in> {StateOK, StatePending, StateFiring}" "run c es = Some c'"
    and "phase c' = StateRecovering"
  shows "\<exists>pre e post. es = pre @ e # post \<and> (\<forall>x\<in>set (e # post). clear_sample x)
           \<and> (\<forall>x\<in>set post. \<not> restarted x) \<and> dwell c' \<le> (\<Sum>x\<leftarrow>post. time x)"
  using assms
proof (induction es arbitrary: c' rule: rev_induct)
  case Nil
  then show ?case by auto
next
  case (snoc e es)
  from snoc.prems(3) obtain c1 where c1: "run c es = Some c1" "next_snap c1 e = Some c'"
    by (auto simp: run_append split: Option.bind_splits)
  have good1: "good c1" using run_good [OF snoc.prems(1) c1(1)] .
  have step: "alert_step trig recov (phase c1, dwell c1) (view e) (StateRecovering, dwell c')"
    using step_sound [OF good1 c1(2)] snoc.prems(4) by simp
  then consider (enter) i r t where "view e = Seen PredicateClear i r t" "dwell c' \<le> 0"
    | (stay) i t where "phase c1 = StateRecovering" "view e = Seen PredicateClear i False t"
        "dwell c' = dwell c1 + t"
    using step_time [OF c1(2)] by (cases rule: alert_step.cases) (auto split: if_splits)
  then show ?case
  proof cases
    case enter
    have "clear_sample e" using enter by (auto simp: clear_sample_def)
    with enter show ?thesis by (intro exI [of _ es] exI [of _ e] exI [of _ "[]"]) auto
  next
    case stay
    from snoc.IH [OF snoc.prems(1,2) c1(1) stay(1)] obtain pre x post where
      split: "es = pre @ x # post" "\<forall>y\<in>set (x # post). clear_sample y"
      "\<forall>y\<in>set post. \<not> restarted y" "dwell c1 \<le> (\<Sum>y\<leftarrow>post. time y)" by blast
    have "time e = t" using stay by (simp add: time_def)
    then have "dwell c' \<le> (\<Sum>y\<leftarrow>post @ [e]. time y)" using stay(3) split(4) by simp
    moreover have "clear_sample e" "\<not> restarted e"
      using stay by (auto simp: clear_sample_def restarted_def)
    ultimately show ?thesis using split
      by (intro exI [of _ pre] exI [of _ x] exI [of _ "post @ [e]"]) auto
  qed
qed

lemma run_resolved:
  assumes "good c" "phase c \<in> {StateOK, StatePending, StateFiring}" "run c es = Some c'"
    and "phase c' = StateResolved"
  shows "\<exists>pre post t. es = pre @ post \<and> post \<noteq> [] \<and> (\<forall>x\<in>set post. clear_sample x)
           \<and> (\<forall>x\<in>set (tl post). \<not> restarted x)
           \<and> ((\<exists>r. view (last post) = Seen PredicateClear True r t) \<or> recov \<le> (\<Sum>x\<leftarrow>tl post. time x))"
proof -
  from assms have "es \<noteq> []" by auto
  then obtain es' e where es: "es = es' @ [e]" by (metis rev_exhaust)
  with assms(3) obtain c1 where c1: "run c es' = Some c1" "next_snap c1 e = Some c'"
    by (auto simp: run_append split: Option.bind_splits)
  have good1: "good c1" using run_good [OF assms(1) c1(1)] .
  have step: "alert_step trig recov (phase c1, dwell c1) (view e) (StateResolved, dwell c')"
    using step_sound [OF good1 c1(2)] assms(4) by simp
  from step consider (immediate) i r t where "view e = Seen PredicateClear i r t" "i \<or> recov \<le> 0"
    | (dwelt) i t where "phase c1 = StateRecovering" "view e = Seen PredicateClear i False t"
        "recov \<le> dwell c1 + t"
    using step_time [OF c1(2)] by (cases rule: alert_step.cases) (auto split: if_splits)
  then show ?thesis
  proof cases
    case immediate
    then have "clear_sample e" by (auto simp: clear_sample_def)
    with immediate es show ?thesis
      by (intro exI [of _ es'] exI [of _ "[e]"] exI [of _ t]) auto
  next
    case dwelt
    from run_recovering_dwell [OF assms(1,2) c1(1) dwelt(1)] obtain pre x post where
      split: "es' = pre @ x # post" "\<forall>y\<in>set (x # post). clear_sample y"
      "\<forall>y\<in>set post. \<not> restarted y" "dwell c1 \<le> (\<Sum>y\<leftarrow>post. time y)" by blast
    have "time e = t" using dwelt by (simp add: time_def)
    then have "recov \<le> (\<Sum>y\<leftarrow>tl ((x # post) @ [e]). time y)" using dwelt(3) split(4) by simp
    moreover have "clear_sample e" "\<not> restarted e"
      using dwelt by (auto simp: clear_sample_def restarted_def)
    ultimately show ?thesis using split es
      by (intro exI [of _ pre] exI [of _ "(x # post) @ [e]"]) auto
  qed
qed

text \<open>An alert that is firing stays open until it resolves: it never returns to OK or pending.\<close>

lemma run_open:
  assumes "good c" "phase c \<in> {StateFiring, StateRecovering, StateResolved}" "run c es = Some c'"
  shows "phase c' \<in> {StateFiring, StateRecovering, StateResolved}"
  using assms
proof (induction es arbitrary: c)
  case Nil
  then show ?case by simp
next
  case (Cons e es)
  then obtain c1 where c1: "next_snap c e = Some c1" "run c1 es = Some c'"
    by (auto split: Option.bind_splits)
  have "alert_step trig recov (phase c, dwell c) (view e) (phase c1, dwell c1)"
    using step_sound [OF Cons.prems(1) c1(1)] .
  then have "phase c1 \<in> {StateFiring, StateRecovering, StateResolved}"
    using Cons.prems(2) by (cases rule: alert_step.cases) auto
  with Cons c1 show ?case by (auto intro: step_good)
qed

end

section \<open>\<open>reduce\<close> implements the machine\<close>

definition view_evaluation :: "evaluation \<Rightarrow> obs" where
  "view_evaluation ev =
     (if Evaluable (Decision ev)
      then Seen (Predicate (Decision ev)) (Immediate (Decision ev)) (HubRestarted ev) (counted_elapsed ev)
      else Gap)"

definition reduce_next :: "spec \<Rightarrow> snapshot \<Rightarrow> evaluation \<Rightarrow> snapshot option" where
  "reduce_next s c ev = (case reduce s c ev of Inl _ \<Rightarrow> None | Inr r \<Rightarrow> Some (Snapshot r))"

fun reduce_run :: "spec \<Rightarrow> snapshot \<Rightarrow> evaluation list \<Rightarrow> (alert_error, snapshot) result" where
  "reduce_run s c [] = Ok c"
| "reduce_run s c (ev # evs) = result_bind (reduce s c ev) (\<lambda>r. reduce_run s (Snapshot r) evs)"

lemma add_elapsed_saturates:
  assumes "0 \<le> d" "d \<le> max_int64" "0 \<le> e"
  shows "add_elapsed d e = min max_int64 (d + e)"
  using assms by (simp add: add_elapsed_def sub64_def add64_def wrap64_id in_int64_def)

lemma counted_elapsed_nonneg: "validate_evaluation ev = Ok () \<Longrightarrow> 0 \<le> counted_elapsed ev"
  by (simp add: counted_elapsed_def validate_evaluation_iff)

lemma reduce_gap_step:
  assumes "reduce s c ev = Ok r" "\<not> Evaluable (Decision ev)"
  shows "alert_step trig recov (State c, DwellMS c) Gap (State (Snapshot r), DwellMS (Snapshot r))"
  using reduce_Ok(6) [OF assms] snapshot_ok_state [OF reduce_Ok(2,4,5) [OF assms(1)]]
  by (auto simp: reduce_unevaluable_def reduction_defs intro: alert_step.intros)

lemma reduce_seen_step:
  assumes red: "reduce s c ev = Ok r" and ev: "Evaluable (Decision ev)" and d: "DwellMS c \<le> max_int64"
  shows "alert_step (TriggerDwellMS s) (RecoveryDwellMS s) (State c, DwellMS c)
     (Seen (Predicate (Decision ev)) (Immediate (Decision ev)) (HubRestarted ev) (counted_elapsed ev))
     (State (Snapshot r), DwellMS (Snapshot r))"
proof -
  note facts = reduce_Ok [OF red]
  let ?d = "DwellMS (observe c ev)" and ?e = "counted_elapsed ev"
  have d0: "0 \<le> ?d" "?d \<le> max_int64" using facts(2) d by (auto simp: observe_dwell snapshot_ok_def)
  have e0: "0 \<le> ?e" using facts(3) by (rule counted_elapsed_nonneg)
  have sum: "add_elapsed ?d ?e = min max_int64 (?d + ?e)"
    using add_elapsed_saturates [OF d0 e0] .
  have trig: "TriggerDwellMS s \<le> 60000" "RecoveryDwellMS s \<le> 60000"
    using spec_dwell_bound [OF facts(1)] by auto
  have pred: "Predicate (Decision ev) = PredicateMatch \<or> Predicate (Decision ev) = PredicateClear
      \<or> Predicate (Decision ev) = PredicateHold"
    using facts(3) by (auto simp: validate_evaluation_iff valid_decision_def valid_predicate_def)
  from facts(7) [OF ev] have r: "reduce_evaluable s c (observe c ev) ev = Ok r" .
  consider "State c = StateOK" | "State c = StatePending" | "State c = StateFiring"
    | "State c = StateRecovering"
    using snapshot_ok_state [OF facts(2,4,5)] by blast
  then show ?thesis
  proof cases
    case 1
    with r show ?thesis
      by (auto simp: reduce_evaluable_def reduction_defs intro: alert_step.intros split: if_splits)
  next
    case 2
    then have "?d = base_dwell (HubRestarted ev) (DwellMS c)" by (simp add: observe_dwell)
    with 2 r sum trig d0 e0 show ?thesis
      by (auto simp: reduce_evaluable_def reduction_defs step_pending_match
          intro: alert_step.intros split: if_splits)
  next
    case 3
    with r show ?thesis
      by (auto simp: reduce_evaluable_def reduction_defs intro: alert_step.intros split: if_splits)
  next
    case 4
    then have "?d = base_dwell (HubRestarted ev) (DwellMS c)" by (simp add: observe_dwell)
    with 4 r sum trig d0 e0 show ?thesis
      by (auto simp: reduce_evaluable_def reduction_defs step_recovering_clear
          intro: alert_step.intros split: if_splits)
  qed
qed

lemma reduce_dwell_bounded:
  assumes "reduce s c ev = Ok r" "DwellMS c \<le> max_int64"
  shows "DwellMS (Snapshot r) \<le> max_int64"
proof (cases "Evaluable (Decision ev)")
  case True
  have "TriggerDwellMS s \<le> 60000" "RecoveryDwellMS s \<le> 60000"
    using spec_dwell_bound [OF reduce_Ok(1) [OF assms(1)]] by auto
  with reduce_seen_step [OF assms(1) True assms(2)] show ?thesis
    by (cases rule: alert_step.cases) auto
next
  case False
  from alert_step_gap [OF reduce_gap_step [OF assms(1) this]] show ?thesis by simp
qed

lemma reduce_step:
  assumes "reduce s c ev = Ok r" "DwellMS c \<le> max_int64"
  shows "alert_step (TriggerDwellMS s) (RecoveryDwellMS s) (State c, DwellMS c) (view_evaluation ev)
     (State (Snapshot r), DwellMS (Snapshot r))"
  using reduce_gap_step [OF assms(1)] reduce_seen_step [OF assms(1) _ assms(2)]
  by (auto simp: view_evaluation_def)

lemma view_time:
  assumes "reduce_next s c ev = Some c'" "view_evaluation ev = Seen p i r t"
  shows "0 \<le> t \<and> (r \<longrightarrow> t = 0)"
proof -
  obtain red where "reduce s c ev = Ok red"
    using assms(1) by (auto simp: reduce_next_def split: sum.splits)
  from counted_elapsed_nonneg [OF reduce_Ok(3) [OF this]] assms(2) show ?thesis
    by (auto simp: view_evaluation_def counted_elapsed_def split: if_splits)
qed

lemma reduce_next_Some: "reduce_next s c ev = Some c' \<longleftrightarrow> (\<exists>r. reduce s c ev = Ok r \<and> c' = Snapshot r)"
  by (auto simp: reduce_next_def split: sum.splits)

interpretation reducer: alert_reducer "reduce_next s" State DwellMS view_evaluation
  "\<lambda>c. DwellMS c \<le> max_int64" "TriggerDwellMS s" "RecoveryDwellMS s" for s
proof
  fix c e c'
  assume "DwellMS c \<le> max_int64" "reduce_next s c e = Some c'"
  then show "alert_step (TriggerDwellMS s) (RecoveryDwellMS s) (State c, DwellMS c)
      (view_evaluation e) (State c', DwellMS c')" and "DwellMS c' \<le> max_int64"
    by (auto simp: reduce_next_Some intro: reduce_step reduce_dwell_bounded)
qed (rule view_time)

lemma run_reduce_run: "reducer.run s c evs = Some c' \<longleftrightarrow> reduce_run s c evs = Ok c'"
  by (induction evs arbitrary: c) (auto simp: reduce_next_def split: sum.splits)

end
