(* ===== verification/AlertProperties.thy ===== *)
theory AlertProperties
  imports AlertMachine
begin

text \<open>
  The properties of the alert evaluators and the alert reducer, over the definitions of
  \<open>AlertEvaluators\<close> and \<open>AlertReducer\<close>, with concrete instances of each.
\<close>

section \<open>Concrete instances\<close>

definition demo_hash :: string where
  "demo_hash = replicate 64 (CHR ''a'')"

definition demo_spec :: spec where
  "demo_spec = \<lparr>RuleID = ''11111111-1111-4111-8111-111111111111'', Version = 1,
     Type = RuleMemoryPressure, ScopeFingerprint = demo_hash,
     IncarnationPolicy = IncarnationStableScope, TriggerDwellMS = 30000, RecoveryDwellMS = 60000,
     RequestDuration = None\<rparr>"

definition demo_snapshot :: "state \<Rightarrow> int64 \<Rightarrow> int64 option \<Rightarrow> snapshot" where
  "demo_snapshot st d opened =
     \<lparr>SnapRuleID = RuleID demo_spec, RuleVersion = 1, SnapScope = demo_hash,
      SnapPolicy = IncarnationStableScope, ActiveGeneration = 1, State = st, DataState = DataValid,
      DwellMS = d, LastEvalMS = 0, LastValidMS = None, OpenedMS = opened, ResolvedMS = None,
      AcknowledgedBy = None, AcknowledgedMS = None, MutedUntilMS = None, TransitionSeq = 0\<rparr>"

definition demo_evaluation :: "int64 \<Rightarrow> int64 \<Rightarrow> decision \<Rightarrow> evaluation" where
  "demo_evaluation ms elapsed d =
     \<lparr>EventMS = ms, ElapsedMS = elapsed, HubRestarted = False, Decision = d, EvidenceHash = demo_hash\<rparr>"

definition demo_match :: decision where
  "demo_match = known PredicateMatch DataValid ''pressure_warning'' False"

definition demo_clear :: decision where
  "demo_clear = known PredicateClear DataValid ''pressure_normal'' False"

lemma demo_hash_ok: "is_hash demo_hash"
  by code_simp

lemma demo_spec_valid: "validate_spec demo_spec = Ok ()"
  by code_simp

lemma demo_spec_sel [simp]:
  "Type demo_spec = RuleMemoryPressure" "TriggerDwellMS demo_spec = 30000"
  "RecoveryDwellMS demo_spec = 60000"
  by (simp_all add: demo_spec_def)

lemma demo_snapshot_sel [simp]:
  "State (demo_snapshot st d opened) = st" "DwellMS (demo_snapshot st d opened) = d"
  "OpenedMS (demo_snapshot st d opened) = opened" "TransitionSeq (demo_snapshot st d opened) = 0"
  by (simp_all add: demo_snapshot_def)

lemma demo_evaluation_sel [simp]:
  "EventMS (demo_evaluation ms e d) = ms" "ElapsedMS (demo_evaluation ms e d) = e"
  "HubRestarted (demo_evaluation ms e d) = False" "Decision (demo_evaluation ms e d) = d"
  by (simp_all add: demo_evaluation_def)

lemma demo_decision_sel [simp]:
  "Predicate demo_match = PredicateMatch" "Evaluable demo_match" "\<not> Immediate demo_match"
  "Predicate demo_clear = PredicateClear" "Evaluable demo_clear" "\<not> Immediate demo_clear"
  by (simp_all add: demo_match_def demo_clear_def known_def)

lemma demo_decisions_valid: "valid_decision demo_match" "valid_decision demo_clear"
  by code_simp+

lemma demo_evaluation_valid:
  "0 \<le> ms \<Longrightarrow> 0 \<le> elapsed \<Longrightarrow> valid_decision d \<Longrightarrow> validate_evaluation (demo_evaluation ms elapsed d) = Ok ()"
  by (simp add: validate_evaluation_iff demo_evaluation_def demo_hash_ok)

lemma demo_snapshot_ok:
  "st = StateOK \<and> d = 0 \<and> opened = None \<or> st = StatePending \<and> 0 \<le> d \<and> opened = None
   \<or> st = StateFiring \<and> d = 0 \<and> opened = Some 0 \<Longrightarrow> snapshot_ok demo_spec (demo_snapshot st d opened)"
  by (auto simp: snapshot_ok_def snapshot_identity_def snapshot_times_def demo_snapshot_def
      demo_spec_def valid_state_def valid_data_state_def)

lemma demo_reduce:
  assumes "snapshot_ok demo_spec c" "State c \<noteq> StateResolved" "State c \<noteq> StateSuperseded"
    and "0 \<le> ms" "0 \<le> elapsed" "valid_decision d" "Evaluable d"
  shows "reduce demo_spec c (demo_evaluation ms elapsed d) =
     reduce_evaluable demo_spec c (observe c (demo_evaluation ms elapsed d)) (demo_evaluation ms elapsed d)"
  using reduce_intro [OF demo_spec_valid assms(1) demo_evaluation_valid [OF assms(4,5,6)] assms(2,3)] assms(7)
  by (simp add: demo_evaluation_def)

section \<open>The evaluators\<close>

lemma safe_reason_data_state:
  "valid_data_state q \<Longrightarrow> safe_reason (''input_'' @ data_state_string q) \<and> safe_reason (''source_'' @ data_state_string q)"
  by (cases q) (auto simp: valid_data_state_def safe_reason_def is_lower_def is_digit_def)

lemma valid_decision_unavailable:
  "valid_decision (unavailable q r) \<longleftrightarrow> valid_data_state q \<and> safe_reason r"
  by (auto simp: valid_decision_def unavailable_def valid_predicate_def)

lemma valid_decision_known:
  "valid_decision (known p q r i) \<longleftrightarrow>
     valid_predicate p \<and> (q = DataValid \<or> q = DataIncompatible) \<and> safe_reason r"
  by (auto simp: valid_decision_def known_def valid_data_state_def)

text \<open>Every reason the evaluators write.\<close>

lemma safe_reasons:
  "safe_reason ''reachability_not_observed''" "safe_reason ''runtime_incompatible''"
  "safe_reason ''runtime_reachable''" "safe_reason ''startup_grace_open''"
  "safe_reason ''runtime_unreachable''" "safe_reason ''heartbeat_not_observed''"
  "safe_reason ''heartbeat_age_60s''" "safe_reason ''heartbeat_fresh''"
  "safe_reason ''source_not_observed''" "safe_reason ''source_incompatible''"
  "safe_reason ''source_available''" "safe_reason ''source_missing''"
  "safe_reason ''pressure_uncertified''" "safe_reason ''pressure_normal''"
  "safe_reason ''pressure_warning''" "safe_reason ''pressure_critical''"
  "safe_reason ''pressure_not_observed''" "safe_reason ''cpu_not_observed''"
  "safe_reason ''cpu_at_least_90_percent''" "safe_reason ''cpu_below_80_percent''"
  "safe_reason ''cpu_hysteresis''" "safe_reason ''request_population_unavailable''"
  "safe_reason ''request_p95_valid_n_below_100''" "safe_reason ''request_valid_n_zero''"
  "safe_reason ''request_statistic_unavailable''" "safe_reason ''request_threshold_met''"
  "safe_reason ''request_threshold_clear''" "safe_reason ''monitor_health_not_observed''"
  "safe_reason ''final_delivery_failed''" "safe_reason ''storage_pressure''"
  "safe_reason ''evaluator_lag_over_15s''" "safe_reason ''monitor_health_partial''"
  "safe_reason ''monitor_health_clear''" "safe_reason ''rule_superseded''"
  by code_simp+

lemmas decision_simps = valid_decision_unavailable valid_decision_known safe_reasons
  valid_predicate_def

lemma evaluator_decisions_valid:
  "valid_decision (evaluate_reachability a DataValid)"
  "evaluate_heartbeat b DataValid = Ok d \<Longrightarrow> valid_decision d"
  "valid_data_state q \<Longrightarrow> valid_decision (evaluate_source e q)"
  "valid_decision (evaluate_memory_pressure f DataValid)"
  "evaluate_cpu g DataValid = Ok d \<Longrightarrow> valid_decision d"
  "evaluate_request sp h DataValid = Ok d \<Longrightarrow> valid_decision d"
  "evaluate_monitor_health i DataValid = Ok d \<Longrightarrow> valid_decision d"
proof -
  show "valid_decision (evaluate_reachability a DataValid)"
    by (auto simp: evaluate_reachability_def decision_simps valid_data_state_def split: option.split)
  show "evaluate_heartbeat b DataValid = Ok d \<Longrightarrow> valid_decision d"
    by (auto simp: evaluate_heartbeat_def decision_simps valid_data_state_def split: option.splits if_splits)
  show "valid_data_state q \<Longrightarrow> valid_decision (evaluate_source e q)"
    using safe_reason_data_state [of q]
    by (auto simp: evaluate_source_def decision_simps split: option.split) (auto simp: valid_data_state_def)
  show "valid_decision (evaluate_memory_pressure f DataValid)"
    by (auto simp: evaluate_memory_pressure_def decision_simps valid_data_state_def split: option.split)
  show "evaluate_cpu g DataValid = Ok d \<Longrightarrow> valid_decision d"
    by (auto simp: evaluate_cpu_def decision_simps valid_data_state_def split: option.splits if_splits)
  show "evaluate_request sp h DataValid = Ok d \<Longrightarrow> valid_decision d"
    by (auto simp: evaluate_request_def decide_request_def decision_simps valid_data_state_def
        split: option.splits if_splits)
  show "evaluate_monitor_health i DataValid = Ok d \<Longrightarrow> valid_decision d"
    by (auto simp: evaluate_monitor_health_def decision_simps valid_data_state_def
        split: option.splits if_splits)
qed

text \<open>
  (C23) Every decision \<open>Evaluate\<close> returns passes the checks \<open>Reduce\<close> makes on decisions: the
  evaluators never produce a decision the reducer refuses.
\<close>

theorem evaluate_decision_accepted:
  assumes "evaluate s inp = Ok d"
  shows "valid_decision d"
proof -
  let ?q = "if InputDataState inp = DataOther '''' then DataUnknown else InputDataState inp"
  from assms have q: "valid_data_state ?q"
    by (auto simp: evaluate_def Let_def split: sum.splits if_splits)
  show ?thesis
  proof (cases "?q \<noteq> DataValid \<and> Type s \<noteq> RuleSourceMissing")
    case True
    with assms q have "d = unavailable ?q (''input_'' @ data_state_string ?q)"
      by (auto simp: evaluate_def Let_def split: sum.splits if_splits)
    then show ?thesis using q safe_reason_data_state [OF q]
      by (simp only: valid_decision_unavailable)
  next
    case False
    with assms q show ?thesis
      by (cases "Type s")
        (auto simp: evaluate_def Let_def split: sum.splits if_splits intro: evaluator_decisions_valid)
  qed
qed

definition demo_input :: input where
  "demo_input = \<lparr>InputDataState = DataValid, Reachability = None, Heartbeat = None, Source = None,
     MemoryPressure = Some \<lparr>Level = ''critical'', Certified = True\<rparr>, CPU = None, Request = None,
     MonitorHealth = None\<rparr>"

lemma evaluate_decision_accepted_witness:
  "evaluate demo_spec demo_input = Ok (known PredicateMatch DataValid ''pressure_critical'' True)
   \<and> valid_decision (known PredicateMatch DataValid ''pressure_critical'' True)"
proof -
  have "evaluate demo_spec demo_input = Ok (known PredicateMatch DataValid ''pressure_critical'' True)"
    by (simp add: evaluate_def demo_spec_valid demo_input_def valid_data_state_def
        evaluate_memory_pressure_def Let_def)
  with evaluate_decision_accepted [OF this] show ?thesis by simp
qed

definition verdict_rank :: "predicate \<Rightarrow> nat" where
  "verdict_rank p = (case p of PredicateClear \<Rightarrow> 0 | PredicateHold \<Rightarrow> 1 | PredicateMatch \<Rightarrow> 2
                            | PredicateOther _ \<Rightarrow> 3)"

lemma evaluate_cpu_finite:
  "evaluate_cpu (Some \<lparr>BusyRatio = Some (Finite v)\<rparr>) q =
     (if v < 0 \<or> 1 < v then Err ErrInvalidInput
      else if 8106479329266893 / 9007199254740992 \<le> v
      then Ok (known PredicateMatch q ''cpu_at_least_90_percent'' False)
      else if v < 3602879701896397 / 4503599627370496
      then Ok (known PredicateClear q ''cpu_below_80_percent'' False)
      else Ok (known PredicateHold q ''cpu_hysteresis'' False))"
  by (simp add: evaluate_cpu_def float_0_90_def float_0_80_def)

text \<open>
  The CPU evaluator is a monotone hysteresis: a higher busy ratio never gets a weaker
  verdict (clear, then hold, then match), and a verdict is only given on finite ratios in
  the unit interval.
\<close>

theorem cpu_verdict_monotone:
  assumes "evaluate_cpu (Some \<lparr>BusyRatio = Some (Finite v)\<rparr>) q = Ok d"
    and "evaluate_cpu (Some \<lparr>BusyRatio = Some (Finite w)\<rparr>) q = Ok e"
    and "v \<le> w"
  shows "verdict_rank (Predicate d) \<le> verdict_rank (Predicate e) \<and> 0 \<le> v \<and> w \<le> 1"
  using assms unfolding evaluate_cpu_finite
  by (auto simp: verdict_rank_def known_def split: if_splits)

lemma cpu_verdict_monotone_witness:
  "evaluate_cpu (Some \<lparr>BusyRatio = Some (Finite (85/100))\<rparr>) DataValid
     = Ok (known PredicateHold DataValid ''cpu_hysteresis'' False)
   \<and> verdict_rank PredicateHold \<le> verdict_rank PredicateMatch"
proof -
  have v: "evaluate_cpu (Some \<lparr>BusyRatio = Some (Finite (85/100))\<rparr>) DataValid
     = Ok (known PredicateHold DataValid ''cpu_hysteresis'' False)"
    unfolding evaluate_cpu_finite by simp
  have w: "evaluate_cpu (Some \<lparr>BusyRatio = Some (Finite (95/100))\<rparr>) DataValid
     = Ok (known PredicateMatch DataValid ''cpu_at_least_90_percent'' False)"
    unfolding evaluate_cpu_finite by simp
  show ?thesis using cpu_verdict_monotone [OF v w] v by (simp add: known_def)
qed

section \<open>The reducer\<close>

text \<open>
  (C9) Refinement: whenever \<open>Reduce\<close> accepts an evaluation, the change of phase and dwell is a
  step of the abstract machine in exact arithmetic; saturation never shows.
\<close>

theorem reduce_refines_machine:
  assumes "reduce s c ev = Ok r" "DwellMS c \<le> max_int64"
  shows "alert_step (TriggerDwellMS s) (RecoveryDwellMS s) (State c, DwellMS c) (view_evaluation ev)
     (State (Snapshot r), DwellMS (Snapshot r))"
  using assms by (rule reduce_step)

lemma reduce_refines_machine_witness:
  "alert_step 30000 60000 (StatePending, 25000) (Seen PredicateMatch False False 6000) (StateFiring, 0)"
proof -
  let ?c = "demo_snapshot StatePending 25000 None" and ?ev = "demo_evaluation 7000 6000 demo_match"
  have ok: "snapshot_ok demo_spec ?c" by (rule demo_snapshot_ok) simp
  have red: "\<exists>r. reduce demo_spec ?c ?ev = Ok r \<and> State (Snapshot r) = StateFiring \<and> DwellMS (Snapshot r) = 0"
    using demo_reduce [OF ok, of 7000 6000 demo_match] demo_decisions_valid
    by (simp add: reduce_evaluable_def observe_dwell counted_elapsed_def add_elapsed_saturates
        reduction_defs)
  then obtain r where r: "reduce demo_spec ?c ?ev = Ok r" "State (Snapshot r) = StateFiring"
    "DwellMS (Snapshot r) = 0" by blast
  from reduce_refines_machine [OF r(1)] r(2,3) show ?thesis
    by (simp add: view_evaluation_def counted_elapsed_def)
qed

text \<open>What one accepted evaluation leaves of the snapshot.\<close>

text \<open>The phases an accepted evaluation can start from, one goal each.\<close>

lemma reduce_phases:
  assumes red: "reduce s c ev = Ok r"
    and "State c = StateOK \<Longrightarrow> \<not> Evaluable (Decision ev) \<Longrightarrow>
        P (no_transition ((observe c ev)\<lparr>DwellMS := 0\<rparr>))"
    and "State c = StatePending \<Longrightarrow> \<not> Evaluable (Decision ev) \<Longrightarrow>
        P (transition c (reset_to_ok (observe c ev)) ev)"
    and "State c = StateFiring \<Longrightarrow> \<not> Evaluable (Decision ev) \<Longrightarrow>
        P (no_transition ((observe c ev)\<lparr>DwellMS := 0\<rparr>))"
    and "State c = StateRecovering \<Longrightarrow> \<not> Evaluable (Decision ev) \<Longrightarrow>
        P (transition c (reset_to_firing (observe c ev)) ev)"
    and "State c = StateOK \<Longrightarrow> reduce_evaluable s c (observe c ev) ev = Ok r \<Longrightarrow> P r"
    and "State c = StatePending \<Longrightarrow> reduce_evaluable s c (observe c ev) ev = Ok r \<Longrightarrow> P r"
    and "State c = StateFiring \<Longrightarrow> reduce_evaluable s c (observe c ev) ev = Ok r \<Longrightarrow> P r"
    and "State c = StateRecovering \<Longrightarrow> reduce_evaluable s c (observe c ev) ev = Ok r \<Longrightarrow> P r"
  shows "P r"
proof (cases "Evaluable (Decision ev)")
  case True
  from snapshot_ok_state [OF reduce_Ok(2,4,5) [OF red]] reduce_Ok(7) [OF red True]
  show ?thesis using assms(6-9) by blast
next
  case False
  from reduce_Ok(6) [OF red False] have r: "r = reduce_unevaluable c (observe c ev) ev" .
  from snapshot_ok_state [OF reduce_Ok(2,4,5) [OF red]] show ?thesis
    using assms(2-5) False by (elim disjE) (simp_all add: r reduce_unevaluable_def)
qed

lemmas reduce_evaluable_simps = reduce_evaluable_def transition_def no_transition_def
  open_firing_def reset_to_ok_def reset_to_firing_def resolve_def Let_def

lemma reduce_identity:
  assumes "reduce s c ev = Ok r"
  shows "SnapRuleID (Snapshot r) = SnapRuleID c \<and> RuleVersion (Snapshot r) = RuleVersion c
    \<and> SnapScope (Snapshot r) = SnapScope c \<and> SnapPolicy (Snapshot r) = SnapPolicy c
    \<and> ActiveGeneration (Snapshot r) = ActiveGeneration c"
  using assms
  by (rule reduce_phases) (simp_all add: reduce_evaluable_simps split: if_splits, auto)

lemma reduce_ack:
  assumes "reduce s c ev = Ok r"
  shows "AcknowledgedBy (Snapshot r) = AcknowledgedBy c \<and> AcknowledgedMS (Snapshot r) = AcknowledgedMS c
    \<and> MutedUntilMS (Snapshot r) = MutedUntilMS c"
  using assms
  by (rule reduce_phases) (simp_all add: reduce_evaluable_simps split: if_splits, auto)

lemma reduce_evidence:
  assumes "reduce s c ev = Ok r"
  shows "LastEvalMS (Snapshot r) = EventMS ev \<and> DataState (Snapshot r) = DecisionDataState (Decision ev)
    \<and> LastValidMS (Snapshot r) = LastValidMS (observe c ev)"
  using assms
  by (rule reduce_phases) (simp_all add: reduce_evaluable_simps split: if_splits, auto)

lemma reduce_opened:
  assumes "reduce s c ev = Ok r"
  shows "OpenedMS (Snapshot r) =
      (if State (Snapshot r) = StateFiring \<and> OpenedMS c = None then Some (EventMS ev) else OpenedMS c)"
proof -
  have opened: "State c = StateFiring \<or> State c = StateRecovering \<Longrightarrow> OpenedMS c \<noteq> None"
    using reduce_Ok(2) [OF assms] by (auto simp: snapshot_ok_def)
  show ?thesis using assms
    by (rule reduce_phases)
      (use opened in \<open>simp_all add: reduce_evaluable_simps split: if_splits option.splits\<close>, auto)
qed

lemma reduce_resolved:
  assumes "reduce s c ev = Ok r"
  shows "ResolvedMS (Snapshot r) = (if State (Snapshot r) = StateResolved then Some (EventMS ev) else None)"
proof -
  have none: "ResolvedMS c = None" using reduce_Ok(2,4) [OF assms] by (simp add: snapshot_ok_def)
  show ?thesis using assms
    by (rule reduce_phases)
      (use none in \<open>simp_all add: reduce_evaluable_simps split: if_splits\<close>, auto)
qed

lemma reduce_sequence:
  assumes "reduce s c ev = Ok r"
  shows "TransitionSeq (Snapshot r) =
      (if State (Snapshot r) = State c then TransitionSeq c else add64 (TransitionSeq c) 1)"
  using assms
  by (rule reduce_phases) (simp_all add: reduce_evaluable_simps split: if_splits, auto)

lemma reduce_emits:
  assumes "reduce s c ev = Ok r"
  shows "Transition r =
      (if State (Snapshot r) = State c then None
       else Some \<lparr>Sequence = TransitionSeq (Snapshot r), PreviousState = State c,
                  NewState = State (Snapshot r), TransitionEventMS = EventMS ev,
                  TransitionHash = EvidenceHash ev\<rparr>)"
  using assms
  by (rule reduce_phases) (simp_all add: reduce_evaluable_simps split: if_splits, auto)

text \<open>
  (C20) Invariant: an accepted evaluation leaves a snapshot that the next call validates again,
  as long as the transition counter is not at the end of the int64 range.
\<close>

theorem reduce_keeps_snapshot_valid:
  assumes red: "reduce s c ev = Ok r" and "DwellMS c \<le> max_int64" "TransitionSeq c < max_int64"
  shows "validate_snapshot s (Snapshot r) = Ok ()"
proof -
  note facts = reduce_Ok [OF red]
  have step: "alert_step (TriggerDwellMS s) (RecoveryDwellMS s) (State c, DwellMS c)
      (view_evaluation ev) (State (Snapshot r), DwellMS (Snapshot r))"
    using reduce_step [OF red assms(2)] .
  have e0: "0 \<le> EventMS ev" "0 \<le> counted_elapsed ev"
    using facts(3) by (auto simp: validate_evaluation_iff counted_elapsed_nonneg)
  have d0: "0 \<le> DwellMS c" using facts(2) by (simp add: snapshot_ok_def)
  have "DataState (Snapshot r) = DecisionDataState (Decision ev)"
    using reduce_evidence [OF red] by simp
  then have "valid_data_state (DataState (Snapshot r))"
    using facts(3) by (simp add: validate_evaluation_iff valid_decision_def)
  moreover have "valid_state (State (Snapshot r)) \<and> 0 \<le> DwellMS (Snapshot r) \<and>
      (DwellMS (Snapshot r) \<noteq> 0 \<longrightarrow> State (Snapshot r) = StatePending \<or> State (Snapshot r) = StateRecovering)"
    using step d0 e0 by (cases rule: alert_step.cases)
      (auto simp: valid_state_def view_evaluation_def split: if_splits)
  moreover have "0 \<le> TransitionSeq (Snapshot r)"
    using reduce_sequence [OF red] facts(2) assms(3)
    by (simp add: snapshot_ok_def add64_exact in_int64_def)
  moreover have "State (Snapshot r) \<in> {StateFiring, StateRecovering, StateResolved} \<Longrightarrow>
      OpenedMS (Snapshot r) \<noteq> None"
    using step reduce_opened [OF red] facts(2)
    by (cases rule: alert_step.cases) (auto simp: snapshot_ok_def)
  moreover have "State (Snapshot r) = StateResolved \<longleftrightarrow> ResolvedMS (Snapshot r) \<noteq> None"
    using reduce_resolved [OF red] by simp
  moreover have "snapshot_identity s (Snapshot r)"
    using reduce_identity [OF red] facts(2) by (simp add: snapshot_ok_def snapshot_identity_def)
  moreover have "snapshot_times (Snapshot r)"
    using reduce_opened [OF red] reduce_resolved [OF red] reduce_ack [OF red] reduce_evidence [OF red]
      e0 facts(2) by (auto simp: snapshot_times_def snapshot_ok_def observe_last_valid)
  moreover have "AcknowledgedBy (Snapshot r) = None \<longleftrightarrow> AcknowledgedMS (Snapshot r) = None"
    using reduce_ack [OF red] facts(2) by (simp add: snapshot_ok_def)
  moreover have "0 \<le> LastEvalMS (Snapshot r)" using reduce_evidence [OF red] e0 by simp
  ultimately show ?thesis by (auto simp: validate_snapshot_iff snapshot_ok_def)
qed

lemma demo_reduce_Ok:
  assumes "snapshot_ok demo_spec c" "State c \<noteq> StateResolved" "State c \<noteq> StateSuperseded"
    and "0 \<le> ms" "0 \<le> elapsed" "valid_decision d"
  obtains r where "reduce demo_spec c (demo_evaluation ms elapsed d) = Ok r"
  using reduce_total [OF demo_spec_valid assms(1) demo_evaluation_valid [OF assms(4,5,6)] assms(2,3)]
  by blast

lemma reduce_keeps_snapshot_valid_witness:
  "\<exists>r. reduce demo_spec (demo_snapshot StateOK 0 None) (demo_evaluation 1000 0 demo_match) = Ok r
     \<and> validate_snapshot demo_spec (Snapshot r) = Ok ()"
proof -
  have ok: "snapshot_ok demo_spec (demo_snapshot StateOK 0 None)" by (rule demo_snapshot_ok) simp
  obtain r where r: "reduce demo_spec (demo_snapshot StateOK 0 None) (demo_evaluation 1000 0 demo_match) = Ok r"
    by (rule demo_reduce_Ok [OF ok, of 1000 0 demo_match]) (auto simp: demo_decisions_valid)
  then show ?thesis using reduce_keeps_snapshot_valid [OF r] by simp
qed

text \<open>
  A transition record is emitted exactly when the phase changes; it names the old and the
  new phase, and the sequence number grows by one with it and not otherwise.
\<close>

theorem reduce_transition_exact:
  assumes red: "reduce s c ev = Ok r" and "TransitionSeq c < max_int64"
  shows "(case Transition r of
            None \<Rightarrow> State (Snapshot r) = State c \<and> TransitionSeq (Snapshot r) = TransitionSeq c
          | Some t \<Rightarrow> State (Snapshot r) \<noteq> State c \<and> PreviousState t = State c
              \<and> NewState t = State (Snapshot r) \<and> Sequence t = TransitionSeq c + 1
              \<and> TransitionSeq (Snapshot r) = TransitionSeq c + 1
              \<and> TransitionEventMS t = EventMS ev \<and> TransitionHash t = EvidenceHash ev)"
proof -
  have "0 \<le> TransitionSeq c" using reduce_Ok(2) [OF red] by (simp add: snapshot_ok_def)
  then have "add64 (TransitionSeq c) 1 = TransitionSeq c + 1"
    using assms(2) by (simp add: add64_exact in_int64_def)
  then show ?thesis using reduce_emits [OF red] reduce_sequence [OF red] by simp
qed

lemma reduce_transition_exact_witness:
  "\<exists>r t. reduce demo_spec (demo_snapshot StateOK 0 None) (demo_evaluation 1000 0 demo_match) = Ok r
     \<and> Transition r = Some t \<and> Sequence t = 1 \<and> NewState t = StatePending"
proof -
  let ?c = "demo_snapshot StateOK 0 None" and ?ev = "demo_evaluation 1000 0 demo_match"
  have ok: "snapshot_ok demo_spec ?c" by (rule demo_snapshot_ok) simp
  have "\<exists>r. reduce demo_spec ?c ?ev = Ok r \<and> State (Snapshot r) = StatePending"
    using demo_reduce [OF ok, of 1000 0 demo_match] demo_decisions_valid
    by (simp add: reduce_evaluable_def reduction_defs)
  then obtain r where r: "reduce demo_spec ?c ?ev = Ok r" "State (Snapshot r) = StatePending" by blast
  from reduce_transition_exact [OF r(1)] r show ?thesis by (auto split: option.splits)
qed

section \<open>Runs of evaluations\<close>

definition matching_sample :: "evaluation \<Rightarrow> bool" where
  "matching_sample ev \<longleftrightarrow>
     validate_evaluation ev = Ok () \<and> Evaluable (Decision ev) \<and> Predicate (Decision ev) = PredicateMatch
     \<and> \<not> Immediate (Decision ev) \<and> \<not> HubRestarted ev"

lemma matching_sample_steady:
  "matching_sample ev \<Longrightarrow> reducer.steady PredicateMatch ev \<and> reducer.time ev = ElapsedMS ev"
  by (auto simp: matching_sample_def reducer.steady_def reducer.time_def view_evaluation_def
      counted_elapsed_def validate_evaluation_iff)

lemma reduce_run_matching_total:
  assumes "validate_spec s = Ok ()" "snapshot_ok s c" "State c \<in> {StatePending, StateFiring}"
    and "DwellMS c \<le> max_int64" "TransitionSeq c + int (length evs) \<le> max_int64"
    and "\<forall>ev\<in>set evs. matching_sample ev"
  shows "\<exists>c'. reduce_run s c evs = Ok c'"
  using assms
proof (induction evs arbitrary: c)
  case Nil
  then show ?case by simp
next
  case (Cons ev evs)
  have ev: "matching_sample ev" using Cons.prems(6) by simp
  then have valid: "validate_evaluation ev = Ok ()" by (simp add: matching_sample_def)
  obtain r where r: "reduce s c ev = Ok r"
    using reduce_total [OF Cons.prems(1,2) valid] Cons.prems(3) by auto
  have ok: "snapshot_ok s (Snapshot r)"
    using reduce_keeps_snapshot_valid [OF r] Cons.prems(4,5) by (simp add: validate_snapshot_iff)
  have "State (Snapshot r) \<in> {StatePending, StateFiring}"
    using reduce_step [OF r Cons.prems(4)] Cons.prems(3) ev
    by (auto simp: view_evaluation_def matching_sample_def step_pending_match step_firing_match
        elim: step_pending step_firing)
  moreover have "0 \<le> TransitionSeq c" using Cons.prems(2) by (simp add: snapshot_ok_def)
  then have "TransitionSeq (Snapshot r) + int (length evs) \<le> max_int64"
    using reduce_sequence [OF r] Cons.prems(5) by (simp add: add64_exact in_int64_def)
  ultimately obtain c' where "reduce_run s (Snapshot r) evs = Ok c'"
    using Cons.IH [OF Cons.prems(1) ok] reduce_dwell_bounded [OF r Cons.prems(4)] Cons.prems(6) by auto
  with r show ?case by simp
qed

text \<open>
  (C3) The trigger dwell is exact: from a pending snapshot, a run of valid non-immediate
  matches without a restart is never refused, and the alert fires exactly when the elapsed
  time of the run reaches what was missing to the trigger dwell; until then it is pending.
\<close>

theorem pending_fires_exactly_at_dwell:
  assumes spec: "validate_spec s = Ok ()" and ok: "validate_snapshot s c = Ok ()"
    and pending: "State c = StatePending" and below: "DwellMS c < TriggerDwellMS s"
    and seq: "TransitionSeq c + int (length evs) \<le> max_int64"
    and evs: "\<forall>ev\<in>set evs. matching_sample ev"
  shows "\<exists>c'. reduce_run s c evs = Ok c' \<and>
     State c' = (if DwellMS c + sum_list (map ElapsedMS evs) < TriggerDwellMS s
                 then StatePending else StateFiring)"
proof -
  have bound: "DwellMS c \<le> max_int64" using below spec_dwell_bound [OF spec] by simp
  obtain c' where c': "reduce_run s c evs = Ok c'"
    using reduce_run_matching_total [OF spec _ _ bound seq evs] ok pending
    by (auto simp: validate_snapshot_iff)
  have times: "map reducer.time evs = map ElapsedMS evs"
    using evs matching_sample_steady by simp
  have "\<forall>ev\<in>set evs. reducer.steady PredicateMatch ev" using evs matching_sample_steady by blast
  from reducer.run_pending [OF bound pending below _ this, of c'] c' show ?thesis
    by (simp add: run_reduce_run times)
qed

lemma pending_fires_exactly_at_dwell_witness:
  "\<exists>c'. reduce_run demo_spec (demo_snapshot StatePending 10000 None)
       [demo_evaluation 1000 5000 demo_match, demo_evaluation 2000 15000 demo_match] = Ok c'
     \<and> State c' = StateFiring"
proof -
  have ok: "validate_snapshot demo_spec (demo_snapshot StatePending 10000 None) = Ok ()"
    using demo_snapshot_ok [of StatePending 10000 None] by (simp add: validate_snapshot_iff)
  have "\<forall>ev\<in>set [demo_evaluation 1000 5000 demo_match, demo_evaluation 2000 15000 demo_match].
      matching_sample ev"
    by (simp add: matching_sample_def demo_evaluation_valid demo_decisions_valid)
  from pending_fires_exactly_at_dwell [OF demo_spec_valid ok _ _ _ this] show ?thesis by simp
qed

definition clear_evaluation :: "evaluation \<Rightarrow> bool" where
  "clear_evaluation ev \<longleftrightarrow> Evaluable (Decision ev) \<and> Predicate (Decision ev) = PredicateClear"

lemma clear_sample_evaluation: "reducer.clear_sample ev \<longleftrightarrow> clear_evaluation ev"
  by (auto simp: reducer.clear_sample_def clear_evaluation_def view_evaluation_def)

lemma clear_time: "reducer.clear_sample ev \<Longrightarrow> reducer.time ev = counted_elapsed ev"
  by (auto simp: reducer.clear_sample_def reducer.time_def view_evaluation_def split: if_splits)

text \<open>
  (C14) No false resolution: an alert that resolves within a run ended the run with a
  stretch of evaluable clear samples, and either the last of them was immediate or the
  samples after the first one, none of which follows a restart of the hub, lasted together
  at least the recovery dwell of the rule.
\<close>

theorem resolution_needs_clear_dwell:
  assumes run: "reduce_run s c evs = Ok c'" and bound: "DwellMS c \<le> max_int64"
    and start: "State c \<in> {StateOK, StatePending, StateFiring}" and resolved: "State c' = StateResolved"
  shows "\<exists>pre post. evs = pre @ post \<and> post \<noteq> [] \<and> (\<forall>ev\<in>set post. clear_evaluation ev)
     \<and> (\<forall>ev\<in>set (tl post). \<not> HubRestarted ev)
     \<and> (Immediate (Decision (last post)) \<or> RecoveryDwellMS s \<le> (\<Sum>ev\<leftarrow>tl post. ElapsedMS ev))"
proof -
  have "reducer.run s c evs = Some c'" using run by (simp add: run_reduce_run)
  from reducer.run_resolved [OF bound start this resolved] obtain pre post t where
    post: "evs = pre @ post" "post \<noteq> []" "\<forall>x\<in>set post. reducer.clear_sample x"
      "\<forall>x\<in>set (tl post). \<not> reducer.restarted x"
    and why: "(\<exists>r. view_evaluation (last post) = Seen PredicateClear True r t)
      \<or> RecoveryDwellMS s \<le> (\<Sum>x\<leftarrow>tl post. reducer.time x)" by blast
  have tail: "HubRestarted x = False \<and> reducer.time x = ElapsedMS x" if "x \<in> set (tl post)" for x
  proof -
    have "reducer.clear_sample x" using post(2,3) that by (metis list.set_sel(2))
    with post(4) that show ?thesis using clear_time [of x]
      by (auto simp: reducer.restarted_def reducer.clear_sample_def view_evaluation_def
          counted_elapsed_def split: if_splits)
  qed
  then have "map reducer.time (tl post) = map ElapsedMS (tl post)" by simp
  moreover have "(\<exists>r. view_evaluation (last post) = Seen PredicateClear True r t) \<Longrightarrow>
      Immediate (Decision (last post))"
    by (auto simp: view_evaluation_def split: if_splits)
  ultimately show ?thesis using why post tail clear_sample_evaluation by metis
qed

lemma demo_reduce_state:
  assumes "snapshot_ok demo_spec c" "State c \<noteq> StateResolved" "State c \<noteq> StateSuperseded"
    and "0 \<le> ms" "0 \<le> elapsed" "valid_decision d" "Evaluable d"
    and "reduce_evaluable demo_spec c (observe c (demo_evaluation ms elapsed d)) (demo_evaluation ms elapsed d) = Ok r"
  shows "reduce_run demo_spec c [demo_evaluation ms elapsed d] = Ok (Snapshot r)"
  using demo_reduce [OF assms(1-7)] assms(8) by simp

definition demo_critical_clear :: decision where
  "demo_critical_clear = known PredicateClear DataValid ''request_threshold_clear'' True"

lemma resolution_needs_clear_dwell_witness:
  "\<exists>c'. reduce_run demo_spec (demo_snapshot StateFiring 0 (Some 0))
        [demo_evaluation 5 0 demo_critical_clear] = Ok c'
     \<and> State c' = StateResolved
     \<and> (\<exists>post. post \<noteq> [] \<and> (\<forall>ev\<in>set post. clear_evaluation ev))"
proof -
  let ?c = "demo_snapshot StateFiring 0 (Some 0)" and ?ev = "demo_evaluation 5 0 demo_critical_clear"
  have ok: "snapshot_ok demo_spec ?c" by (rule demo_snapshot_ok) simp
  have d: "valid_decision demo_critical_clear"
    by (simp add: demo_critical_clear_def decision_simps)
  have "\<exists>c'. reduce_run demo_spec ?c [?ev] = Ok c' \<and> State c' = StateResolved"
    using demo_reduce [OF ok, of 5 0 demo_critical_clear] d
    by (simp add: reduce_evaluable_def reduction_defs demo_critical_clear_def known_def)
  then obtain c' where c': "reduce_run demo_spec ?c [?ev] = Ok c'" "State c' = StateResolved" by blast
  from resolution_needs_clear_dwell [OF c'(1) _ _ c'(2)] c' show ?thesis by auto
qed

text \<open>
  (C21) An open alert is never dropped: whatever evaluations follow, a firing or recovering
  alert stays open until it resolves, and its opening time never changes.
\<close>

theorem open_alert_never_dropped:
  assumes "reduce_run s c evs = Ok c'" "DwellMS c \<le> max_int64"
    and "State c \<in> {StateFiring, StateRecovering}" "OpenedMS c = Some t"
  shows "State c' \<in> {StateFiring, StateRecovering, StateResolved} \<and> OpenedMS c' = Some t"
proof -
  have "reducer.run s c evs = Some c'" using assms(1) by (simp add: run_reduce_run)
  from reducer.run_open [OF assms(2) _ this] assms(3)
  have "State c' \<in> {StateFiring, StateRecovering, StateResolved}" by auto
  moreover have "reduce_run s c evs = Ok c' \<Longrightarrow> OpenedMS c = Some t \<Longrightarrow> OpenedMS c' = Some t" for c
    by (induction evs arbitrary: c) (auto simp: go_result reduce_opened)
  ultimately show ?thesis using assms by blast
qed

lemma open_alert_never_dropped_witness:
  "\<exists>c'. reduce_run demo_spec (demo_snapshot StateFiring 0 (Some 0))
        [demo_evaluation 5 0 (unavailable DataStale ''input_stale'')] = Ok c'
     \<and> State c' = StateFiring \<and> OpenedMS c' = Some 0"
proof -
  let ?c = "demo_snapshot StateFiring 0 (Some 0)"
  let ?ev = "demo_evaluation 5 0 (unavailable DataStale ''input_stale'')"
  have ok: "snapshot_ok demo_spec ?c" by (rule demo_snapshot_ok) simp
  have d: "valid_decision (unavailable DataStale ''input_stale'')" by code_simp
  have "\<exists>c'. reduce_run demo_spec ?c [?ev] = Ok c' \<and> State c' = StateFiring"
    using reduce_intro [OF demo_spec_valid ok demo_evaluation_valid [OF _ _ d, of 5 0]]
    by (simp add: unavailable_def reduce_unevaluable_def reduction_defs)
  then obtain c' where c': "reduce_run demo_spec ?c [?ev] = Ok c'" "State c' = StateFiring" by blast
  from open_alert_never_dropped [OF c'(1), of 0] c' show ?thesis by auto
qed

text \<open>
  The evidence each rule needs, independently of the evaluators: the payload of its kind with the
  values the rule looks at, from a fresh and compatible origin, under a data state that is valid. The
  source-missing rule takes incompatibility itself as evidence. Of the monitor's health one value that
  is bad is enough, to be clear all three are needed.
\<close>

definition population_present :: "request_duration_spec \<Rightarrow> request_duration_input \<Rightarrow> bool" where
  "population_present q i \<longleftrightarrow> ReqMetricID i = MetricID q \<and> ExactCompletedPopulation i \<and>
     0 \<le> ValidN i \<and> ValidN i \<le> CompletedN i \<and>
     (if Statistic q = ''p95'' then 100 \<le> ValidN i \<and> P95MS i \<noteq> None else 1 \<le> ValidN i \<and> MedianMS i \<noteq> None)"

definition health_present :: "monitor_health_input \<Rightarrow> bool" where
  "health_present i \<longleftrightarrow> FinalDeliveryFailed i = Some True \<or> StoragePressure i = Some True \<or>
     ptr_and (EvaluatorLagMS i) (\<lambda>lag. lag > 15000) \<or>
     StoragePressure i \<noteq> None \<and> EvaluatorLagMS i \<noteq> None \<and> FinalDeliveryFailed i \<noteq> None"

definition payload_present :: "spec \<Rightarrow> input \<Rightarrow> bool" where
  "payload_present s inp = (case Type s of
     RuleOllamaUnreachable \<Rightarrow> ptr_and (Reachability inp)
       (\<lambda>i. CollectorFresh i \<and> Reachable i \<noteq> None \<and> \<not> ReachabilityIncompatible i)
   | RuleHostNotReporting \<Rightarrow> Heartbeat inp \<noteq> None
   | RuleSourceMissing \<Rightarrow> ptr_and (Source inp) (\<lambda>i. HostFresh i \<and> Available i \<noteq> None \<and>
       (SourceIncompatible i \<or> InputDataState inp \<in> {DataValid, DataIncompatible}))
   | RuleMemoryPressure \<Rightarrow> ptr_and (MemoryPressure inp)
       (\<lambda>i. Certified i \<and> Level i \<in> {''normal'', ''warning'', ''critical''})
   | RuleHeavyCPU \<Rightarrow> ptr_and (CPU inp) (\<lambda>i. BusyRatio i \<noteq> None)
   | RuleObservedRequestDuration \<Rightarrow> ptr_and (Request inp) (population_present (the (RequestDuration s)))
   | RuleDiskMonitorHealth \<Rightarrow> ptr_and (MonitorHealth inp) health_present
   | RuleOther _ \<Rightarrow> False)"

definition evidence_present :: "spec \<Rightarrow> input \<Rightarrow> bool" where
  "evidence_present s inp \<longleftrightarrow>
     (Type s = RuleSourceMissing \<or> InputDataState inp = DataValid) \<and> payload_present s inp"

text \<open>The evaluators in their own terms: the decision is evaluable, or it holds.\<close>

lemmas evaluator_defs = evaluate_reachability_def evaluate_heartbeat_def evaluate_source_def
  evaluate_memory_pressure_def evaluate_cpu_def evaluate_request_def decide_request_def evaluate_monitor_health_def

lemma evaluate_rule_evaluable:
  "Evaluable (evaluate_reachability x q) \<longleftrightarrow>
     ptr_and x (\<lambda>i. CollectorFresh i \<and> Reachable i \<noteq> None \<and> \<not> ReachabilityIncompatible i)"
  "evaluate_heartbeat h q = Ok d \<Longrightarrow> Evaluable d \<longleftrightarrow> h \<noteq> None"
  "Evaluable (evaluate_source y q) \<longleftrightarrow> ptr_and y (\<lambda>i. HostFresh i \<and> Available i \<noteq> None \<and>
     (SourceIncompatible i \<or> q \<in> {DataValid, DataIncompatible}))"
  "Evaluable (evaluate_memory_pressure m q) \<longleftrightarrow>
     ptr_and m (\<lambda>i. Certified i \<and> Level i \<in> {''normal'', ''warning'', ''critical''})"
  "evaluate_cpu c q = Ok d \<Longrightarrow> Evaluable d \<longleftrightarrow> ptr_and c (\<lambda>i. BusyRatio i \<noteq> None)"
  "evaluate_request p n q = Ok d \<Longrightarrow> Evaluable d \<longleftrightarrow> ptr_and n (population_present p)"
  "evaluate_monitor_health w q = Ok d \<Longrightarrow> Evaluable d \<longleftrightarrow> ptr_and w health_present"
proof -
  note s = evaluator_defs unavailable_def known_def
  show "Evaluable (evaluate_reachability x q) \<longleftrightarrow>
     ptr_and x (\<lambda>i. CollectorFresh i \<and> Reachable i \<noteq> None \<and> \<not> ReachabilityIncompatible i)"
    by (auto simp: s split: option.splits)
  show "evaluate_heartbeat h q = Ok d \<Longrightarrow> Evaluable d \<longleftrightarrow> h \<noteq> None"
    by (auto simp: s split: option.splits if_split_asm)
  show "Evaluable (evaluate_source y q) \<longleftrightarrow> ptr_and y (\<lambda>i. HostFresh i \<and> Available i \<noteq> None \<and>
     (SourceIncompatible i \<or> q \<in> {DataValid, DataIncompatible}))"
    by (auto simp: s split: option.splits)
  show "Evaluable (evaluate_memory_pressure m q) \<longleftrightarrow>
     ptr_and m (\<lambda>i. Certified i \<and> Level i \<in> {''normal'', ''warning'', ''critical''})"
    by (auto simp: s split: option.splits)
  show "evaluate_cpu c q = Ok d \<Longrightarrow> Evaluable d \<longleftrightarrow> ptr_and c (\<lambda>i. BusyRatio i \<noteq> None)"
    by (cases c) (auto simp: s split: option.splits if_split_asm)
  show "evaluate_request p n q = Ok d \<Longrightarrow> Evaluable d \<longleftrightarrow> ptr_and n (population_present p)"
    by (cases n) (auto simp: s population_present_def split: option.splits if_split_asm)
  show "evaluate_monitor_health w q = Ok d \<Longrightarrow> Evaluable d \<longleftrightarrow> ptr_and w health_present"
    by (cases w) (auto simp: s health_present_def split: if_split_asm)
qed

lemma evaluate_evaluable:
  assumes "evaluate s inp = Ok d"
  shows "Evaluable d \<longleftrightarrow> evidence_present s inp" "\<not> Evaluable d \<Longrightarrow> Predicate d = PredicateHold"
proof -
  show "Evaluable d \<longleftrightarrow> evidence_present s inp"
    using assms
    by (auto simp: evaluate_def Let_def evidence_present_def payload_present_def evaluate_rule_evaluable
        split: sum.splits if_splits rule_type.splits) (simp_all add: unavailable_def)
  show "\<not> Evaluable d \<Longrightarrow> Predicate d = PredicateHold"
    using assms
    by (auto simp: evaluate_def evaluator_defs Let_def unavailable_def known_def
        split: sum.splits if_splits rule_type.splits option.splits)
qed

text \<open>
  (C22) Missing evidence never decides: when a rule does not get the evidence it needs - no payload, no
  value in it, an origin that is not fresh, an incompatible or uncertified one, a population that does not
  answer the question, or a data state that is not valid - the decision is to hold and is not evaluable,
  and its evaluation can neither open nor resolve an alert, nor start a dwell, nor count as a valid one.
\<close>

theorem missing_data_never_decides:
  assumes ev: "evaluate s inp = Ok d" and missing: "\<not> evidence_present s inp"
    and red: "reduce s c (ev\<lparr>Decision := d\<rparr>) = Ok r"
  shows "Predicate d = PredicateHold \<and> \<not> Evaluable d
     \<and> State (Snapshot r) = (if State c \<in> {StateOK, StatePending} then StateOK else StateFiring)
     \<and> DwellMS (Snapshot r) = 0 \<and> State c \<notin> {StateResolved, StateSuperseded}
     \<and> LastValidMS (Snapshot r) = LastValidMS c"
proof -
  have un: "\<not> Evaluable d" "Predicate d = PredicateHold" using evaluate_evaluable [OF ev] missing by simp_all
  then have "alert_step 0 0 (State c, DwellMS c) Gap (State (Snapshot r), DwellMS (Snapshot r))"
    using reduce_gap_step [OF red] by simp
  from alert_step_gap [OF this] reduce_evidence [OF red] un show ?thesis
    by (auto simp: observe_last_valid)
qed

lemma demo_reason: "safe_reason ''input_stale''"
  by code_simp

lemma demo_reason_uncertified: "safe_reason ''pressure_uncertified''"
  by code_simp

text \<open>A pending alert, and input that is stale, then valid without a payload, then uncertified.\<close>

definition missing_inputs :: "input list" where
  "missing_inputs = [demo_input\<lparr>InputDataState := DataStale\<rparr>, demo_input\<lparr>MemoryPressure := None\<rparr>,
     demo_input\<lparr>MemoryPressure := Some \<lparr>Level = ''critical'', Certified = False\<rparr>\<rparr>]"

lemma missing_data_never_decides_witness:
  "list_all (\<lambda>inp. \<exists>d r. evaluate demo_spec inp = Ok d
     \<and> reduce demo_spec (demo_snapshot StatePending 5 None) (demo_evaluation 9 1 d) = Ok r
     \<and> State (Snapshot r) = StateOK) missing_inputs"
proof -
  have stops: "\<exists>d r. evaluate demo_spec inp = Ok d
     \<and> reduce demo_spec (demo_snapshot StatePending 5 None) (demo_evaluation 9 1 d) = Ok r \<and> State (Snapshot r) = StateOK"
    if ev: "evaluate demo_spec inp = Ok (unavailable q w)" and no: "\<not> evidence_present demo_spec inp"
      and d: "valid_decision (unavailable q w)" for inp q w
  proof -
    have ok: "snapshot_ok demo_spec (demo_snapshot StatePending 5 None)" by (rule demo_snapshot_ok) simp
    obtain r where r: "reduce demo_spec (demo_snapshot StatePending 5 None) (demo_evaluation 9 1 (unavailable q w)) = Ok r"
      by (rule demo_reduce_Ok [OF ok, of 9 1 "unavailable q w"]) (use d in auto)
    then have "reduce demo_spec (demo_snapshot StatePending 5 None)
        ((demo_evaluation 9 1 (unavailable q w))\<lparr>Decision := unavailable q w\<rparr>) = Ok r"
      by (simp add: demo_evaluation_def)
    from missing_data_never_decides [OF ev no this] ev r show ?thesis by simp
  qed
  have d: "valid_decision (unavailable DataStale ''input_stale'')" "valid_decision (unavailable DataUnknown ''pressure_uncertified'')"
    using demo_reason demo_reason_uncertified by (simp_all add: valid_decision_unavailable valid_data_state_def)
  show ?thesis
    unfolding missing_inputs_def list.pred_inject
    by (intro conjI TrueI stops [OF _ _ d(1)] stops [OF _ _ d(2)])
      (simp_all add: evaluate_def demo_spec_valid demo_input_def valid_data_state_def Let_def evidence_present_def
        payload_present_def evaluate_memory_pressure_def)
qed

definition with_controls :: "string option \<Rightarrow> int64 option \<Rightarrow> int64 option \<Rightarrow> snapshot \<Rightarrow> snapshot" where
  "with_controls who acked muted v =
     v\<lparr>AcknowledgedBy := who, AcknowledgedMS := acked, MutedUntilMS := muted\<rparr>"

lemma with_controls_ok:
  "snapshot_ok s c \<Longrightarrow> who = None \<longleftrightarrow> acked = None \<Longrightarrow> nonneg_ptr acked \<Longrightarrow> nonneg_ptr muted \<Longrightarrow>
     snapshot_ok s (with_controls who acked muted c)"
  by (simp add: snapshot_ok_def snapshot_identity_def snapshot_times_def with_controls_def)

lemma with_controls_state [simp]: "State (with_controls who acked muted c) = State c"
  by (simp add: with_controls_def)

lemma observe_with_controls:
  "observe (with_controls who acked muted c) ev = with_controls who acked muted (observe c ev)"
  by (cases c) (auto simp: observe_def with_controls_def Let_def)

definition lift_controls ::
  "string option \<Rightarrow> int64 option \<Rightarrow> int64 option \<Rightarrow> reduction \<Rightarrow> reduction" where
  "lift_controls who acked muted r = r\<lparr>Snapshot := with_controls who acked muted (Snapshot r)\<rparr>"

lemma controls_commute:
  "transition (with_controls w a m c) (with_controls w a m n) ev = lift_controls w a m (transition c n ev)"
  "no_transition (with_controls w a m n) = lift_controls w a m (no_transition n)"
  "open_firing (with_controls w a m n) t = with_controls w a m (open_firing n t)"
  "reset_to_ok (with_controls w a m n) = with_controls w a m (reset_to_ok n)"
  "reset_to_firing (with_controls w a m n) = with_controls w a m (reset_to_firing n)"
  "resolve (with_controls w a m n) t = with_controls w a m (resolve n t)"
  "(with_controls w a m n)\<lparr>DwellMS := d\<rparr> = with_controls w a m (n\<lparr>DwellMS := d\<rparr>)"
  "(with_controls w a m n)\<lparr>State := st\<rparr> = with_controls w a m (n\<lparr>State := st\<rparr>)"
  "DwellMS (with_controls w a m n) = DwellMS n"
  by (simp_all add: with_controls_def lift_controls_def reduction_defs)

lemma reduce_unevaluable_with_controls:
  "reduce_unevaluable (with_controls w a m c) (with_controls w a m n) ev
     = lift_controls w a m (reduce_unevaluable c n ev)"
  by (simp add: reduce_unevaluable_def controls_commute split: state.split)

lemma reduce_evaluable_with_controls:
  "reduce_evaluable s (with_controls w a m c) (with_controls w a m n) ev
     = map_sum id (lift_controls w a m) (reduce_evaluable s c n ev)"
  by (simp add: reduce_evaluable_def controls_commute Let_def split: state.split)

text \<open>
  Acknowledging or muting an alert never changes its evaluation: with any other
  acknowledgement and mute fields the reducer accepts the same evaluations and computes
  the same result up to those fields.
\<close>

theorem controls_do_not_affect_evaluation:
  assumes red: "reduce s c ev = Ok r"
    and ctl: "who = None \<longleftrightarrow> acked = None" "nonneg_ptr acked" "nonneg_ptr muted"
  shows "\<exists>r'. reduce s (with_controls who acked muted c) ev = Ok r'
     \<and> Snapshot r' = with_controls who acked muted (Snapshot r)"
proof -
  note facts = reduce_Ok [OF red]
  have eq: "reduce s (with_controls who acked muted c) ev =
    (if \<not> Evaluable (Decision ev)
     then Ok (reduce_unevaluable (with_controls who acked muted c) (observe (with_controls who acked muted c) ev) ev)
     else reduce_evaluable s (with_controls who acked muted c) (observe (with_controls who acked muted c) ev) ev)"
    using reduce_intro [OF facts(1) with_controls_ok [OF facts(2) ctl] facts(3)] facts(4,5) by simp
  show ?thesis
  proof (cases "Evaluable (Decision ev)")
    case True
    with eq facts(7) show ?thesis
      by (simp add: observe_with_controls reduce_evaluable_with_controls lift_controls_def)
  next
    case False
    with eq facts(6) show ?thesis
      by (simp add: observe_with_controls reduce_unevaluable_with_controls lift_controls_def)
  qed
qed

lemma controls_do_not_affect_evaluation_witness:
  "\<exists>r r'. reduce demo_spec (demo_snapshot StateOK 0 None) (demo_evaluation 3 0 demo_match) = Ok r
     \<and> reduce demo_spec (with_controls (Some ''op'') (Some 2) (Some 9) (demo_snapshot StateOK 0 None))
         (demo_evaluation 3 0 demo_match) = Ok r'
     \<and> State (Snapshot r') = State (Snapshot r)"
proof -
  have ok: "snapshot_ok demo_spec (demo_snapshot StateOK 0 None)" by (rule demo_snapshot_ok) simp
  obtain r where r: "reduce demo_spec (demo_snapshot StateOK 0 None) (demo_evaluation 3 0 demo_match) = Ok r"
    by (rule demo_reduce_Ok [OF ok, of 3 0 demo_match]) (auto simp: demo_decisions_valid)
  from controls_do_not_affect_evaluation [OF r, of "Some ''op''" "Some 2" "Some 9"] r
  show ?thesis by auto
qed

text \<open>
  Superseding ends an instance without claiming recovery: it moves any validated
  instance that is not terminal to the terminal phase, keeps its evidence quality, opening
  and observation times, records no resolution, and after it neither operation is accepted.
\<close>

theorem supersede_is_terminal_not_recovery:
  assumes spec: "validate_spec s = Ok ()" and ok: "validate_snapshot s c = Ok ()"
    and live: "State c \<notin> {StateResolved, StateSuperseded}"
    and event: "0 \<le> event_ms" "is_hash hash" and seq: "TransitionSeq c < max_int64"
  shows "\<exists>r. supersede s c event_ms hash = Ok r \<and> State (Snapshot r) = StateSuperseded
     \<and> DataState (Snapshot r) = DataState c \<and> OpenedMS (Snapshot r) = OpenedMS c
     \<and> LastValidMS (Snapshot r) = LastValidMS c \<and> ResolvedMS (Snapshot r) = None
     \<and> validate_snapshot s (Snapshot r) = Ok ()
     \<and> (\<forall>ev. reduce s (Snapshot r) ev = Err ErrTerminalState)
     \<and> (\<forall>e h. supersede s (Snapshot r) e h = Err ErrTerminalState)"
proof -
  let ?ev = "\<lparr>EventMS = event_ms, ElapsedMS = 0, HubRestarted = False,
      Decision = known PredicateHold DataValid ''rule_superseded'' True, EvidenceHash = hash\<rparr>"
  let ?r = "transition c (c\<lparr>State := StateSuperseded, DwellMS := 0, LastEvalMS := event_ms\<rparr>) ?ev"
  have sok: "snapshot_ok s c" using ok by (simp add: validate_snapshot_iff)
  have "validate_evaluation ?ev = Ok ()" using event
    by (simp add: validate_evaluation_iff decision_simps)
  then have sup: "supersede s c event_ms hash = Ok ?r"
    using spec ok live by (simp add: supersede_def Let_def)
  have "0 \<le> TransitionSeq c" using sok by (simp add: snapshot_ok_def)
  then have "snapshot_ok s (Snapshot ?r)"
    using sok seq event(1) live
    by (auto simp: snapshot_ok_def snapshot_identity_def snapshot_times_def transition_def Let_def
        valid_state_def add64_exact in_int64_def)
  then have "validate_snapshot s (Snapshot ?r) = Ok ()" by (simp add: validate_snapshot_iff)
  moreover have "State (Snapshot ?r) = StateSuperseded" by (simp add: transition_def Let_def)
  moreover have "ResolvedMS c = None" using sok live by (simp add: snapshot_ok_def)
  ultimately show ?thesis using sup spec
    by (intro exI [of _ ?r]) (simp add: reduce_def supersede_def transition_def Let_def)
qed

lemma supersede_is_terminal_not_recovery_witness:
  "\<exists>r. supersede demo_spec (demo_snapshot StateFiring 0 (Some 0)) 7 demo_hash = Ok r
     \<and> State (Snapshot r) = StateSuperseded \<and> ResolvedMS (Snapshot r) = None"
proof -
  have ok: "validate_snapshot demo_spec (demo_snapshot StateFiring 0 (Some 0)) = Ok ()"
    using demo_snapshot_ok [of StateFiring 0 "Some 0"] by (simp add: validate_snapshot_iff)
  from supersede_is_terminal_not_recovery [OF demo_spec_valid ok _ _ demo_hash_ok, of 7]
  show ?thesis by auto
qed

end
