(* ===== verification/Spool.thy ===== *)
theory Spool
  imports Prelude "HOL-Library.AList" "HOL-Library.List_Lexorder" "HOL-Library.Char_ord"
begin

text \<open>
  \<open>internal/collector/spool/spool.go\<close>: the collector's durable queue. The state holds the
  in-memory fields of \<open>Spool\<close> and the directory it owns. A segment file is the list of its
  records with a flag for a torn tail; offsets into it are byte offsets as in the code. Every
  operating system call that can fail takes its outcome from a schedule, so each definition
  covers every failure of every call; an exhausted schedule means success. The clock is read
  once per operation.
\<close>

section \<open>Constants and data\<close>

definition max_bytes :: int where "max_bytes = 268435456"
definition max_age_ms :: int where "max_age_ms = 86400000"
definition max_frame_bytes :: int where "max_frame_bytes = 262144"
definition segment_bytes :: int where "segment_bytes = 4194304"
definition max_segments :: int where "max_segments = 20000"
definition max_record_bytes :: int where "max_record_bytes = 360448"
definition max_journal_bytes :: int where "max_journal_bytes = 1048576"
definition header_bytes :: int where "header_bytes = 40"

lemmas spool_constants = max_bytes_def max_age_ms_def max_frame_bytes_def segment_bytes_def
  max_segments_def max_record_bytes_def max_journal_bytes_def header_bytes_def

datatype spool_error =
    ErrCorrupt | ErrLocked | ErrCapacity | ErrCursor
  | ErrClosed | ErrReadOnly | ErrInvalidRecord | ErrRecordBound | ErrInvalidLimits
  | ErrInvalidCode | ErrIO | ErrUnexpectedEOF

record spool_record =
  DeploymentID :: string
  Generation :: string
  SessionGeneration :: int64
  HostID :: string
  BootID :: string
  SourceID :: string
  Sequence :: nat
  ObservedMS :: int64
  Payload :: string

record loss =
  LossSource :: string
  StartMS :: int64
  EndMS :: int64
  LossCount :: nat
  LossReason :: string

record segment =
  SegName :: string
  SegSize :: int
  SegAck :: int
  FirstMS :: int64
  SegBoot :: string
  SegGeneration :: string

record journal =
  JVersion :: int
  Offsets :: "(string \<times> int) list"
  Quarantined :: "(string \<times> string) list"

record loss_journal =
  LVersion :: int
  Revision :: nat
  Losses :: "loss list"
  Discarded :: "string list"

text \<open>\<open>Torn\<close> counts the bytes of an incomplete record behind the complete ones.\<close>

record seg_file =
  Contents :: "spool_record list"
  Torn :: nat

text \<open>
  What \<open>readRecord\<close> reports behind the complete records: \<open>io.EOF\<close> when nothing follows, and also
  when exactly a header follows, since the second \<open>io.ReadFull\<close> then reads no byte at all;
  \<open>io.ErrUnexpectedEOF\<close> for every other incomplete record.
\<close>

definition torn_tail :: "seg_file \<Rightarrow> bool" where
  "torn_tail f \<longleftrightarrow> Torn f \<noteq> 0 \<and> int (Torn f) \<noteq> header_bytes"

lemma torn_tail_whole [simp]: "\<not> torn_tail \<lparr>Contents = rs, Torn = 0\<rparr>" "\<not> torn_tail (f\<lparr>Torn := 0\<rparr>)"
  by (simp_all add: torn_tail_def)

lemma torn_tail_contents [simp]: "torn_tail (f\<lparr>Contents := rs\<rparr>) \<longleftrightarrow> torn_tail f"
  by (simp add: torn_tail_def)

datatype 'a sealed_file = Missing | Damaged | Sealed 'a

record disk =
  SegFiles :: "(string \<times> seg_file) list"
  OffsetsFile :: "journal sealed_file"
  LossesFile :: "loss_journal sealed_file"

datatype outcome = Succeeds | FailsBefore | FailsAfter | Tears nat

record spool =
  SpoolID :: nat
  LimitBytes :: int
  LimitAgeMS :: int
  Segments :: "segment list"
  Journal :: journal
  LossJournal :: loss_journal
  Active :: string
  NextSegment :: nat
  ReadOnly :: bool
  Closed :: bool
  Fault :: "spool_error option"
  Disk :: disk
  Schedule :: "outcome list"

record cursor =
  Owner :: "nat option"
  CursorSegment :: string
  Start :: int
  End :: int

record pending =
  Records :: "spool_record list"
  PendingCursor :: cursor
  PendingBytes :: int

section \<open>Sizes of the stored forms\<close>

text \<open>
  Lengths of the JSON texts \<open>json.Marshal\<close> produces for values whose strings need no
  escapes: identifiers are validated before a record is encoded, segment names and loss
  reasons are generated. A byte slice is encoded in base64.
\<close>

fun decimal_length :: "nat \<Rightarrow> nat" where
  "decimal_length n = (if n < 10 then 1 else Suc (decimal_length (n div 10)))"

declare decimal_length.simps [simp del]

definition int_length :: "int \<Rightarrow> nat" where
  "int_length x = (if x < 0 then 1 else 0) + decimal_length (nat \<bar>x\<bar>)"

definition base64_length :: "nat \<Rightarrow> nat" where
  "base64_length n = 4 * ((n + 2) div 3)"

definition record_length :: "spool_record \<Rightarrow> int" where
  "record_length r = int (
     length ''{\"deployment_id\":\"\"'' + length (DeploymentID r) +
     length '',\"security_generation\":\"\"'' + length (Generation r) +
     length '',\"session_generation\":'' + int_length (SessionGeneration r) +
     length '',\"host_id\":\"\"'' + length (HostID r) +
     length '',\"collector_boot_id\":\"\"'' + length (BootID r) +
     length '',\"source_id\":\"\"'' + length (SourceID r) +
     length '',\"sequence\":'' + decimal_length (Sequence r) +
     length '',\"observed_ms\":'' + int_length (ObservedMS r) +
     length '',\"payload\":\"\"}'' + base64_length (length (Payload r)))"

definition wire_length :: "spool_record \<Rightarrow> int" where
  "wire_length r = header_bytes + record_length r"

definition total_wire :: "spool_record list \<Rightarrow> int" where
  "total_wire rs = sum_list (map wire_length rs)"

definition sealed_length :: "nat \<Rightarrow> int" where
  "sealed_length n = int (length ''{\"sha256\":\"\",\"data\":}'' + 64 + n)"

definition joined_length :: "nat list \<Rightarrow> nat" where
  "joined_length ns = sum_list ns + (length ns - 1)"

definition journal_length :: "journal \<Rightarrow> nat" where
  "journal_length j =
     length ''{\"version\":,\"offsets\":{},\"quarantined\":{}}'' + int_length (JVersion j) +
     joined_length (map (\<lambda>(k, v). length k + 3 + int_length v) (Offsets j)) +
     joined_length (map (\<lambda>(k, v). length k + 5 + length v) (Quarantined j))"

definition loss_length :: "loss \<Rightarrow> nat" where
  "loss_length l =
     length ''{\"source_id\":\"\",\"start_ms\":,\"end_ms\":,\"lost_count\":,\"reason\":\"\"}'' +
     length (LossSource l) + int_length (StartMS l) + int_length (EndMS l) +
     decimal_length (LossCount l) + length (LossReason l)"

definition loss_journal_length :: "loss_journal \<Rightarrow> nat" where
  "loss_journal_length j =
     length ''{\"version\":,\"revision\":,\"losses\":[],\"discarded\":{}}'' + int_length (LVersion j) +
     decimal_length (Revision j) + joined_length (map loss_length (Losses j)) +
     joined_length (map (\<lambda>k. length k + 7) (Discarded j))"

section \<open>Validation\<close>

text \<open>\<open>validID\<close>: 36 bytes, dashes at four places, lower-case hex elsewhere.\<close>

fun valid_id_from :: "nat \<Rightarrow> string \<Rightarrow> bool" where
  "valid_id_from i [] = True"
| "valid_id_from i (c # cs) =
     ((if i = 8 \<or> i = 13 \<or> i = 18 \<or> i = 23 then c = CHR ''-'' else is_lower_hex c) \<and>
      valid_id_from (i + 1) cs)"

definition valid_id :: "string \<Rightarrow> bool" where
  "valid_id s \<longleftrightarrow> length s = 36 \<and> valid_id_from 0 s"

definition validate_record :: "spool_record \<Rightarrow> (spool_error, unit) result" where
  "validate_record r =
     (if \<not> valid_id (DeploymentID r) \<or> \<not> valid_id (Generation r) \<or> \<not> valid_id (HostID r)
         \<or> \<not> valid_id (BootID r) \<or> \<not> valid_id (SourceID r)
         \<or> SessionGeneration r < 1 \<or> SessionGeneration r > 9007199254740991
         \<or> ObservedMS r < 0 \<or> int (Sequence r) > 9007199254740991
         \<or> Payload r = [] \<or> int (length (Payload r)) > max_frame_bytes
      then Err ErrInvalidRecord else Ok ())"

section \<open>Operations on the directory\<close>

type_synonym 'a op = "spool \<Rightarrow> (spool_error, 'a) result \<times> spool"

definition return_ok :: "'a \<Rightarrow> 'a op" where
  "return_ok a s = (Ok a, s)"

definition fail_with :: "spool_error \<Rightarrow> 'a op" where
  "fail_with e s = (Err e, s)"

definition op_bind :: "'a op \<Rightarrow> ('a \<Rightarrow> 'b op) \<Rightarrow> 'b op" where
  "op_bind m f s = (case m s of (Inl e, s') \<Rightarrow> (Inl e, s') | (Inr a, s') \<Rightarrow> f a s')"

text \<open>\<open>s.fault = err; return err\<close>: after this the spool refuses every further call.\<close>

definition faulting :: "'a op \<Rightarrow> 'a op" where
  "faulting m s = (case m s of (Inl e, s') \<Rightarrow> (Inl e, s'\<lparr>Fault := Some e\<rparr>) | r \<Rightarrow> r)"

definition next_outcome :: "spool \<Rightarrow> outcome \<times> spool" where
  "next_outcome s = (case Schedule s of [] \<Rightarrow> (Succeeds, s) | b # bs \<Rightarrow> (b, s\<lparr>Schedule := bs\<rparr>))"

text \<open>
  A call with an effect on the directory: it succeeds, fails without the effect, or reports
  an error although the effect happened.
\<close>

definition os_call :: "(disk \<Rightarrow> disk) \<Rightarrow> unit op" where
  "os_call eff s =
     (case next_outcome s of (r, s') \<Rightarrow>
       (case r of
          Succeeds \<Rightarrow> (Ok (), s'\<lparr>Disk := eff (Disk s')\<rparr>)
        | FailsAfter \<Rightarrow> (Err ErrIO, s'\<lparr>Disk := eff (Disk s')\<rparr>)
        | _ \<Rightarrow> (Err ErrIO, s')))"

definition write_offsets :: "journal \<Rightarrow> unit op" where
  "write_offsets j =
     (if sealed_length (journal_length j) > max_journal_bytes then fail_with ErrCapacity
      else os_call (\<lambda>d. d\<lparr>OffsetsFile := Sealed j\<rparr>))"

definition write_losses :: "loss_journal \<Rightarrow> unit op" where
  "write_losses j =
     (if sealed_length (loss_journal_length j) > max_journal_bytes then fail_with ErrCapacity
      else os_call (\<lambda>d. d\<lparr>LossesFile := Sealed j\<rparr>))"

definition remove_seg :: "string \<Rightarrow> unit op" where
  "remove_seg name s =
     (if map_of (SegFiles (Disk s)) name = None then (Err ErrIO, snd (next_outcome s))
      else os_call (\<lambda>d. d\<lparr>SegFiles := AList.delete name (SegFiles d)\<rparr>) s)"

definition sync_dir :: "unit op" where
  "sync_dir = os_call (\<lambda>d. d)"

definition open_seg :: "string \<Rightarrow> seg_file op" where
  "open_seg name s =
     (case next_outcome s of (r, s') \<Rightarrow>
       (case (r, map_of (SegFiles (Disk s')) name) of
          (Succeeds, Some f) \<Rightarrow> (Ok f, s')
        | _ \<Rightarrow> (Err ErrIO, s')))"

definition create_seg :: "string \<Rightarrow> unit op" where
  "create_seg name s =
     (if map_of (SegFiles (Disk s)) name \<noteq> None then (Err ErrIO, snd (next_outcome s))
      else os_call (\<lambda>d. d\<lparr>SegFiles := SegFiles d @ [(name, \<lparr>Contents = [], Torn = 0\<rparr>)]\<rparr>) s)"

definition update_file :: "string \<Rightarrow> (seg_file \<Rightarrow> seg_file) \<Rightarrow> disk \<Rightarrow> disk" where
  "update_file name g d = d\<lparr>SegFiles := map (\<lambda>(k, f). if k = name then (k, g f) else (k, f)) (SegFiles d)\<rparr>"

definition write_record :: "string \<Rightarrow> spool_record \<Rightarrow> unit op" where
  "write_record name r s =
     (case next_outcome s of (out, s') \<Rightarrow>
       (case out of
          Succeeds \<Rightarrow> (Ok (), s'\<lparr>Disk := update_file name (\<lambda>f. f\<lparr>Contents := Contents f @ [r]\<rparr>) (Disk s')\<rparr>)
        | FailsAfter \<Rightarrow> (Err ErrIO, s'\<lparr>Disk := update_file name (\<lambda>f. f\<lparr>Contents := Contents f @ [r]\<rparr>) (Disk s')\<rparr>)
        | Tears n \<Rightarrow> (Err ErrIO, s'\<lparr>Disk := update_file name
                       (\<lambda>f. f\<lparr>Torn := n mod nat (wire_length r)\<rparr>) (Disk s')\<rparr>)
        | FailsBefore \<Rightarrow> (Err ErrIO, s')))"

text \<open>
  Reading from a byte offset. An offset that is not a record boundary does not find the
  magic of a record there, so the first read is corrupt; behind the end there is nothing to
  read. A record that does not pass \<open>readRecord\<close> (its size or its metadata) is corrupt too.
\<close>

fun seek :: "int \<Rightarrow> spool_record list \<Rightarrow> spool_record list option" where
  "seek off [] = (if off < 0 then None else Some [])"
| "seek off (r # rs) =
     (if off = 0 then Some (r # rs) else if off < wire_length r then None
      else seek (off - wire_length r) rs)"

definition readable :: "spool_record \<Rightarrow> bool" where
  "readable r \<longleftrightarrow> record_length r \<le> max_record_bytes \<and> validate_record r = Ok ()"

text \<open>Reading up to the end of the file.\<close>

definition read_rest :: "int \<Rightarrow> seg_file \<Rightarrow> (spool_error, spool_record list) result" where
  "read_rest off f =
     (case seek off (Contents f) of
        None \<Rightarrow> Err ErrCorrupt
      | Some rs \<Rightarrow> if \<not> list_all readable rs then Err ErrCorrupt
                   else if torn_tail f then Err ErrUnexpectedEOF else Ok rs)"

definition from_result :: "(spool_error, 'a) result \<Rightarrow> 'a op" where
  "from_result r s = (r, s)"

section \<open>Guards\<close>

definition ready :: "unit op" where
  "ready s = (if Closed s then (Err ErrClosed, s)
              else case Fault s of Some e \<Rightarrow> (Err e, s) | None \<Rightarrow> (Ok (), s))"

definition writable :: "unit op" where
  "writable = op_bind ready (\<lambda>_ s. if ReadOnly s then (Err ErrReadOnly, s) else (Ok (), s))"

section \<open>Loss accounting and pruning\<close>

definition bump_loss :: "spool_record \<Rightarrow> loss \<Rightarrow> loss" where
  "bump_loss r l = l\<lparr>LossCount := LossCount l + 1, StartMS := min (StartMS l) (ObservedMS r),
                     EndMS := max (EndMS l) (ObservedMS r)\<rparr>"

text \<open>The body of the counting loop: the first matching interval, or a new one at the end.\<close>

fun add_loss :: "string \<Rightarrow> spool_record \<Rightarrow> loss list \<Rightarrow> loss list" where
  "add_loss reason r [] =
     [bump_loss r \<lparr>LossSource = SourceID r, StartMS = ObservedMS r, EndMS = ObservedMS r,
                   LossCount = 0, LossReason = reason\<rparr>]"
| "add_loss reason r (l # ls) =
     (if LossSource l = SourceID r \<and> LossReason l = reason then bump_loss r l # ls
      else l # add_loss reason r ls)"

definition add_losses :: "string \<Rightarrow> spool_record list \<Rightarrow> loss list \<Rightarrow> loss list" where
  "add_losses reason rs ls = fold (add_loss reason) rs ls"

definition record_segment_loss :: "segment \<Rightarrow> string \<Rightarrow> unit op" where
  "record_segment_loss seg reason s =
     (if SegName seg \<in> set (Discarded (LossJournal s)) then (Ok (), s)
      else op_bind (open_seg (SegName seg)) (\<lambda>f.
           op_bind (from_result (read_rest (SegAck seg) f)) (\<lambda>rs s.
             let nxt = \<lparr>LVersion = 1, Revision = Revision (LossJournal s) + 1,
                        Losses = add_losses reason rs (Losses (LossJournal s)),
                        Discarded = SegName seg # Discarded (LossJournal s)\<rparr>
             in op_bind (write_losses nxt) (\<lambda>_ s. (Ok (), s\<lparr>LossJournal := nxt\<rparr>)) s)) s)"

definition used_bytes :: "spool \<Rightarrow> int" where
  "used_bytes s = sum_list (map SegSize (Segments s))"

text \<open>Which segment the loop of \<open>prune\<close> evicts next, and why; no reason for an acknowledged one.\<close>

definition select_victim :: "int64 \<Rightarrow> int \<Rightarrow> spool \<Rightarrow> (nat \<times> string) option" where
  "select_victim now incoming s =
     (case find_index (\<lambda>seg. SegAck seg = SegSize seg) (Segments s) of
        Some i \<Rightarrow> Some (i, '''')
      | None \<Rightarrow>
          (case find_index (\<lambda>seg. sub64 now (FirstMS seg) \<ge> LimitAgeMS s) (Segments s) of
             Some i \<Rightarrow> Some (i, ''spool_age'')
           | None \<Rightarrow>
               if (used_bytes s + incoming > LimitBytes s \<or> int (length (Segments s)) \<ge> max_segments)
                  \<and> length (Segments s) > 0
               then Some (0, ''spool_capacity'') else None))"

definition forget_offset :: "string \<Rightarrow> spool \<Rightarrow> spool" where
  "forget_offset name s =
     s\<lparr>Journal := (Journal s)\<lparr>Offsets := AList.delete name (Offsets (Journal s)),
                              Quarantined := AList.delete name (Quarantined (Journal s))\<rparr>\<rparr>"

definition drop_segment :: "nat \<Rightarrow> string \<Rightarrow> spool \<Rightarrow> spool" where
  "drop_segment i name s =
     s\<lparr>Segments := remove_nth i (Segments s),
       Active := (if Active s = name then '''' else Active s),
       LossJournal := (LossJournal s)\<lparr>Discarded := removeAll name (Discarded (LossJournal s))\<rparr>\<rparr>"

text \<open>One iteration of the loop of \<open>prune\<close>.\<close>

definition evict :: "nat \<Rightarrow> string \<Rightarrow> unit op" where
  "evict i reason s =
     (let seg = Segments s ! i; name = SegName seg in
      op_bind (if reason \<noteq> '''' then record_segment_loss seg reason else return_ok ()) (\<lambda>_.
      op_bind (remove_seg name) (\<lambda>_.
      op_bind (faulting sync_dir) (\<lambda>_ s.
        let s = forget_offset name s in
        op_bind (faulting (write_offsets (Journal s))) (\<lambda>_ s.
          let s = drop_segment i name s in
          if reason \<noteq> '''' then faulting (write_losses (LossJournal s)) s else (Ok (), s)) s))) s)"

lemma find_index_bound: "find_index P xs = Some i \<Longrightarrow> i < length xs"
  by (auto dest: find_index_Some)

lemma select_victim_bound:
  assumes "select_victim now incoming s = Some (i, reason)"
  shows "i < length (Segments s)"
  using assms by (auto simp: select_victim_def split: option.splits if_splits dest: find_index_bound)

section \<open>Case analysis of the operations\<close>

definition disk_only :: "spool \<Rightarrow> spool \<Rightarrow> bool" where
  "disk_only s s' \<longleftrightarrow> s' = s\<lparr>Disk := Disk s', Schedule := Schedule s'\<rparr>"

lemma disk_onlyI: "s' = s\<lparr>Disk := d, Schedule := sch\<rparr> \<Longrightarrow> disk_only s s'"
  by (simp add: disk_only_def)

lemma disk_onlyE: "disk_only s s' \<Longrightarrow> (\<And>d sch. s' = s\<lparr>Disk := d, Schedule := sch\<rparr> \<Longrightarrow> P) \<Longrightarrow> P"
  by (simp add: disk_only_def)

lemma disk_onlyD:
  assumes "disk_only s s'"
  shows "Segments s' = Segments s" "Journal s' = Journal s" "LossJournal s' = LossJournal s"
    "Active s' = Active s" "NextSegment s' = NextSegment s" "LimitBytes s' = LimitBytes s"
    "LimitAgeMS s' = LimitAgeMS s" "Fault s' = Fault s" "Closed s' = Closed s"
    "ReadOnly s' = ReadOnly s" "SpoolID s' = SpoolID s"
  using assms by (auto elim!: disk_onlyE)

lemma os_call_spec:
  assumes "os_call eff s = (r, s')"
  shows "disk_only s s'" "Disk s' = eff (Disk s) \<or> r \<noteq> Inr () \<and> Disk s' = Disk s"
  using assms
  by (auto simp: os_call_def next_outcome_def disk_only_def
      split: list.splits outcome.splits prod.splits)

lemma op_bindE:
  assumes "op_bind m f s = (r, s'')"
  obtains (err) e where "m s = (Inl e, s'')" "r = Inl e"
    | (ok) a s1 where "m s = (Inr a, s1)" "f a s1 = (r, s'')"
  using assms by (auto simp: op_bind_def split: prod.splits sum.splits)

lemma faultingE:
  assumes "faulting m s = (r, s'')"
  obtains (err) e t where "m s = (Inl e, t)" "r = Inl e" "s'' = t\<lparr>Fault := Some e\<rparr>"
    | (ok) a where "m s = (Inr a, s'')" "r = Inr a"
  using assms by (auto simp: faulting_def split: prod.splits sum.splits)

lemma write_losses_spec:
  assumes "write_losses j s = (r, s')"
  shows "disk_only s s'" "Disk s' = (Disk s)\<lparr>LossesFile := Sealed j\<rparr> \<or> r \<noteq> Inr () \<and> Disk s' = Disk s"
  using assms os_call_spec[of "\<lambda>d. d\<lparr>LossesFile := Sealed j\<rparr>" s r s']
  by (auto simp: write_losses_def fail_with_def disk_only_def split: if_splits)

lemma write_offsets_spec:
  assumes "write_offsets j s = (r, s')"
  shows "disk_only s s'" "Disk s' = (Disk s)\<lparr>OffsetsFile := Sealed j\<rparr> \<or> r \<noteq> Inr () \<and> Disk s' = Disk s"
  using assms os_call_spec[of "\<lambda>d. d\<lparr>OffsetsFile := Sealed j\<rparr>" s r s']
  by (auto simp: write_offsets_def fail_with_def disk_only_def split: if_splits)

lemma sync_dir_spec:
  assumes "sync_dir s = (r, s')"
  shows "disk_only s s'" "Disk s' = Disk s"
  using assms os_call_spec[of "\<lambda>d. d" s r s'] by (auto simp: sync_dir_def)

lemma remove_seg_spec:
  assumes "remove_seg name s = (r, s')"
  shows "disk_only s s'"
    "Disk s' = (Disk s)\<lparr>SegFiles := AList.delete name (SegFiles (Disk s))\<rparr> \<or> r \<noteq> Inr () \<and> Disk s' = Disk s"
  using assms os_call_spec[of _ s r s']
  by (auto simp: remove_seg_def next_outcome_def disk_only_def split: if_splits list.splits)

lemma open_seg_frame:
  assumes "open_seg name s = (r, s')"
  shows "Segments s' = Segments s \<and> Journal s' = Journal s \<and> LossJournal s' = LossJournal s \<and>
    Active s' = Active s \<and> LimitBytes s' = LimitBytes s \<and> LimitAgeMS s' = LimitAgeMS s \<and>
    Fault s' = Fault s \<and> Closed s' = Closed s \<and> ReadOnly s' = ReadOnly s \<and>
    SpoolID s' = SpoolID s \<and> NextSegment s' = NextSegment s \<and> Disk s' = Disk s \<and>
    (r = Inl ErrIO \<or> (\<exists>f. r = Inr f \<and> map_of (SegFiles (Disk s)) name = Some f))"
  using assms
  by (auto simp: open_seg_def next_outcome_def
      split: list.splits outcome.splits prod.splits if_splits option.splits)

definition loss_step :: "segment \<Rightarrow> string \<Rightarrow> spool_record list \<Rightarrow> loss_journal \<Rightarrow> loss_journal" where
  "loss_step seg reason rs j = \<lparr>LVersion = 1, Revision = Revision j + 1,
     Losses = add_losses reason rs (Losses j), Discarded = SegName seg # Discarded j\<rparr>"

lemma record_segment_loss_cases:
  assumes "record_segment_loss seg reason s = (r, s')"
  obtains
    (known) "SegName seg \<in> set (Discarded (LossJournal s))" "r = Inr ()" "s' = s"
  | (recorded) f rs t u where "SegName seg \<notin> set (Discarded (LossJournal s))" "r = Inr ()"
      "map_of (SegFiles (Disk s)) (SegName seg) = Some f" "read_rest (SegAck seg) f = Inr rs"
      "write_losses (loss_step seg reason rs (LossJournal s)) t = (Inr (), u)"
      "s' = u\<lparr>LossJournal := loss_step seg reason rs (LossJournal s)\<rparr>"
      "t = s\<lparr>Schedule := Schedule t\<rparr>"
  | (unread) e where "r = Inl e" "Disk s' = Disk s" "s' = s\<lparr>Schedule := Schedule s'\<rparr>"
  | (unwritten) e f rs t where "r = Inl e" "SegName seg \<notin> set (Discarded (LossJournal s))"
      "map_of (SegFiles (Disk s)) (SegName seg) = Some f" "read_rest (SegAck seg) f = Inr rs"
      "write_losses (loss_step seg reason rs (LossJournal s)) t = (Inl e, s')"
      "t = s\<lparr>Schedule := Schedule t\<rparr>"
proof (cases "SegName seg \<in> set (Discarded (LossJournal s))")
  case True
  then show ?thesis using known assms by (auto simp: record_segment_loss_def)
next
  case False
  obtain o1 t where o: "open_seg (SegName seg) s = (o1, t)" by fastforce
  have t: "t = s\<lparr>Schedule := Schedule t\<rparr>"
    using o by (auto simp: open_seg_def next_outcome_def
      split: list.splits outcome.splits prod.splits if_splits option.splits)
  show ?thesis
  proof (cases o1)
    case (Inl e)
    then show ?thesis using unread[of e] assms False o t open_seg_frame[OF o]
      by (auto simp: record_segment_loss_def op_bind_def)
  next
    case (Inr f)
    have f: "map_of (SegFiles (Disk s)) (SegName seg) = Some f"
      using open_seg_frame[OF o] Inr by auto
    have lj: "LossJournal t = LossJournal s" using open_seg_frame[OF o] by simp
    show ?thesis
    proof (cases "read_rest (SegAck seg) f")
      case (Inl e)
      then show ?thesis using unread[of e] assms False o t Inr open_seg_frame[OF o]
        by (auto simp: record_segment_loss_def op_bind_def from_result_def)
    next
      case rs: (Inr rs)
      obtain w u where w: "write_losses (loss_step seg reason rs (LossJournal s)) t = (w, u)" by fastforce
      have lu: "LossJournal u = LossJournal s" using disk_onlyD(3)[OF write_losses_spec(1)[OF w]] lj by simp
      show ?thesis
      proof (cases w)
        case (Inl e)
        then show ?thesis using unwritten[of e f rs t] assms False o t Inr f rs w lj
          by (auto simp: record_segment_loss_def op_bind_def from_result_def loss_step_def)
      next
        case (Inr x)
        then have "r = Inr ()" "s' = u\<lparr>LossJournal := loss_step seg reason rs (LossJournal s)\<rparr>"
          using assms False o \<open>o1 = Inr f\<close> rs w lj
          by (auto simp: record_segment_loss_def op_bind_def from_result_def loss_step_def Let_def)
        then show ?thesis using recorded[of f rs t u] False f rs w t Inr by simp
      qed
    qed
  qed
qed

lemma evict_phases:
  assumes "evict i reason s = (r, s')" "seg = Segments s ! i" "name = SegName seg"
  obtains
    (first) e where "(if reason \<noteq> '''' then record_segment_loss seg reason else return_ok ()) s = (Inl e, s')"
      "r = Inl e"
  | (removing) e t where "(if reason \<noteq> '''' then record_segment_loss seg reason else return_ok ()) s = (Inr (), t)"
      "remove_seg name t = (Inl e, s')" "r = Inl e"
  | (syncing) e t u v where "(if reason \<noteq> '''' then record_segment_loss seg reason else return_ok ()) s = (Inr (), t)"
      "remove_seg name t = (Inr (), u)" "sync_dir u = (Inl e, v)" "r = Inl e" "s' = v\<lparr>Fault := Some e\<rparr>"
  | (forgetting) e t u v w where "(if reason \<noteq> '''' then record_segment_loss seg reason else return_ok ()) s = (Inr (), t)"
      "remove_seg name t = (Inr (), u)" "sync_dir u = (Inr (), v)"
      "write_offsets (Journal (forget_offset name v)) (forget_offset name v) = (Inl e, w)" "r = Inl e"
      "s' = w\<lparr>Fault := Some e\<rparr>"
  | (dropping) t u v w where "(if reason \<noteq> '''' then record_segment_loss seg reason else return_ok ()) s = (Inr (), t)"
      "remove_seg name t = (Inr (), u)" "sync_dir u = (Inr (), v)"
      "write_offsets (Journal (forget_offset name v)) (forget_offset name v) = (Inr (), w)"
      "(if reason \<noteq> '''' then faulting (write_losses (LossJournal (drop_segment i name w)))
        else return_ok ()) (drop_segment i name w) = (r, s')"
proof -
  have run: "op_bind (if reason \<noteq> '''' then record_segment_loss seg reason else return_ok ()) (\<lambda>_.
      op_bind (remove_seg name) (\<lambda>_. op_bind (faulting sync_dir) (\<lambda>_ s.
        op_bind (faulting (write_offsets (Journal (forget_offset name s)))) (\<lambda>_ s.
          if reason \<noteq> '''' then faulting (write_losses (LossJournal (drop_segment i name s))) (drop_segment i name s)
          else (Ok (), drop_segment i name s)) (forget_offset name s)))) s = (r, s')"
    using assms(1) unfolding evict_def Let_def assms(2)[symmetric] assms(3)[symmetric] .
  from run show thesis
  proof (cases rule: op_bindE)
    case (err e)
    then show ?thesis by (rule first)
  next
    case p1: (ok a t)
    from p1(2) show ?thesis
    proof (cases rule: op_bindE)
      case (err e)
      then show ?thesis using p1 by (auto intro: removing)
    next
      case p2: (ok b u)
      from p2(2) show ?thesis
      proof (cases rule: op_bindE)
        case (err e)
        then show ?thesis using p1 p2 by (elim faultingE) (auto intro: syncing)
      next
        case p3: (ok c v)
        have v: "sync_dir u = (Inr (), v)" using p3(1) by (auto elim: faultingE)
        from p3(2) show ?thesis
        proof (cases rule: op_bindE)
          case (err e)
          then show ?thesis using p1 p2 v by (elim faultingE) (auto intro: forgetting)
        next
          case p4: (ok d w)
          then show ?thesis using p1 p2 v
            by (intro dropping[of t u v w]) (auto elim!: faultingE simp: return_ok_def split: if_splits)
        qed
      qed
    qed
  qed
qed

lemma forget_offset_simps [simp]:
  "Disk (forget_offset name s) = Disk s" "LossJournal (forget_offset name s) = LossJournal s"
  "Offsets (Journal (forget_offset name s)) = AList.delete name (Offsets (Journal s))"
  by (simp_all add: forget_offset_def)

lemma drop_segment_simps [simp]:
  "Disk (drop_segment i name s) = Disk s"
  "Losses (LossJournal (drop_segment i name s)) = Losses (LossJournal s)"
  "Discarded (LossJournal (drop_segment i name s)) = removeAll name (Discarded (LossJournal s))"
  by (simp_all add: drop_segment_def)

lemma evict_shrinks:
  assumes run: "evict i reason s = (Inr u, s')" and i: "i < length (Segments s)"
  shows "length (Segments s') < length (Segments s)"
proof -
  define seg where "seg = Segments s ! i"
  have first: "Segments t = Segments s"
    if p: "(if reason \<noteq> '''' then record_segment_loss seg reason else return_ok ()) s = (Inr (), t)" for t
  proof (cases "reason = ''''")
    case False
    then have "record_segment_loss seg reason s = (Inr (), t)" using p by simp
    then show ?thesis
    proof (cases rule: record_segment_loss_cases)
      case (recorded f rs a b)
      then obtain sc where a: "a = s\<lparr>Schedule := sc\<rparr>" by blast
      show ?thesis using disk_onlyD(1)[OF write_losses_spec(1)[OF recorded(5)]] recorded(6) a by simp
    qed auto
  qed (use p in \<open>simp add: return_ok_def\<close>)
  have "Segments s' = remove_nth i (Segments s)"
    using run seg_def refl
  proof (cases rule: evict_phases)
    case (dropping t a v w)
    have w: "Segments w = Segments s"
      using first[OF dropping(1)] disk_onlyD(1)[OF remove_seg_spec(1)[OF dropping(2)]]
        disk_onlyD(1)[OF sync_dir_spec(1)[OF dropping(3)]] disk_onlyD(1)[OF write_offsets_spec(1)[OF dropping(4)]]
      by (simp add: forget_offset_def)
    show ?thesis
    proof (cases "reason = ''''")
      case True
      then show ?thesis using dropping(5) w by (auto simp: return_ok_def drop_segment_def)
    next
      case False
      then have "faulting (write_losses (LossJournal (drop_segment i (SegName seg) w)))
        (drop_segment i (SegName seg) w) = (Inr u, s')" using dropping(5) by simp
      then show ?thesis
        by (cases rule: faultingE)
          (use w in \<open>auto dest!: write_losses_spec(1) disk_onlyD(1) simp: drop_segment_def\<close>)
    qed
  qed auto
  then show ?thesis using i by (simp add: length_remove_nth)
qed

section \<open>prune\<close>

text \<open>The loop of \<open>prune\<close>: it ends because every successful iteration removes a segment.\<close>

function prune :: "int64 \<Rightarrow> int \<Rightarrow> unit op" where
  "prune now incoming s =
     (case select_victim now incoming s of
        None \<Rightarrow> (Ok (), s)
      | Some (i, reason) \<Rightarrow>
          (case evict i reason s of (Inl e, s') \<Rightarrow> (Inl e, s') | (Inr _, s') \<Rightarrow> prune now incoming s'))"
  by pat_completeness auto

termination
  by (relation "measure (\<lambda>(now, incoming, s). length (Segments s))")
    (auto intro: evict_shrinks select_victim_bound)

declare prune.simps [simp del]

section \<open>Append\<close>

text \<open>\<open>fmt.Sprintf("%019d-%s.seg", serial, id)\<close>.\<close>

definition segment_name :: "nat \<Rightarrow> string \<Rightarrow> string" where
  "segment_name serial uuid =
     replicate (19 - length (decimal serial)) CHR ''0'' @ decimal serial @ ''-'' @ uuid @ ''.seg''"

definition fits_active :: "spool_record \<Rightarrow> spool \<Rightarrow> bool" where
  "fits_active r s \<longleftrightarrow> Segments s \<noteq> [] \<and>
     (let lst = last (Segments s) in
      SegName lst = Active s \<and> SegSize lst + wire_length r \<le> segment_bytes \<and>
      SegBoot lst = BootID r \<and> SegGeneration lst = Generation r \<and>
      ObservedMS r \<ge> FirstMS lst \<and> sub64 (ObservedMS r) (FirstMS lst) < 5000)"

text \<open>
  A new segment: \<open>uuid\<close> is what \<open>domain.NewUUID\<close> returns, \<open>None\<close> its error. The file is
  created, synced and closed, then the directory is synced.
\<close>

definition open_segment :: "string option \<Rightarrow> spool_record \<Rightarrow> unit op" where
  "open_segment uuid r s =
     (case uuid of
        None \<Rightarrow> (Err ErrIO, s)
      | Some u \<Rightarrow>
          (let s = s\<lparr>NextSegment := NextSegment s + 1\<rparr>; name = segment_name (NextSegment s) u in
           op_bind (create_seg name) (\<lambda>_. op_bind sync_dir (\<lambda>_ s.
             (Ok (), s\<lparr>Segments := Segments s @ [\<lparr>SegName = name, SegSize = 0, SegAck = 0,
                         FirstMS = ObservedMS r, SegBoot = BootID r, SegGeneration = Generation r\<rparr>],
                       Active := name\<rparr>))) s))"

definition grow_last :: "int \<Rightarrow> spool \<Rightarrow> spool" where
  "grow_last n s =
     (let lst = last (Segments s)
      in s\<lparr>Segments := butlast (Segments s) @ [lst\<lparr>SegSize := SegSize lst + n\<rparr>]\<rparr>)"

definition append :: "int64 \<Rightarrow> string option \<Rightarrow> spool_record \<Rightarrow> unit op" where
  "append now uuid r =
     op_bind writable (\<lambda>_.
     op_bind (from_result (validate_record r)) (\<lambda>_.
     if record_length r > max_record_bytes then fail_with ErrRecordBound
     else op_bind (prune now (wire_length r)) (\<lambda>_.
          op_bind (\<lambda>s. if fits_active r s then (Ok (), s) else open_segment uuid r s) (\<lambda>_ s.
          let name = SegName (last (Segments s)) in
          op_bind (open_seg name) (\<lambda>_.
          op_bind (faulting (write_record name r)) (\<lambda>_ s.
            (Ok (), grow_last (wire_length r) s))) s))))"

section \<open>ReadPending, Ack and Quarantine\<close>

definition quarantine_code :: "spool \<Rightarrow> string \<Rightarrow> string" where
  "quarantine_code s name = (case map_of (Quarantined (Journal s)) name of None \<Rightarrow> '''' | Some c \<Rightarrow> c)"

definition is_current :: "int64 \<Rightarrow> string \<Rightarrow> segment \<Rightarrow> bool" where
  "is_current now boot seg \<longleftrightarrow>
     (let age = sub64 now (FirstMS seg) in SegBoot seg = boot \<and> age \<ge> 0 \<and> age \<le> 15000)"

text \<open>The segments the loop passes over.\<close>

definition offered :: "int64 \<Rightarrow> string \<Rightarrow> string \<Rightarrow> bool \<Rightarrow> spool \<Rightarrow> segment \<Rightarrow> bool" where
  "offered now boot generation current s seg \<longleftrightarrow>
     quarantine_code s (SegName seg) = '''' \<and>
     \<not> (SegAck seg \<ge> SegSize seg \<or> SegGeneration seg \<noteq> generation \<or> is_current now boot seg \<noteq> current)"

fun read_loop :: "int \<Rightarrow> nat \<Rightarrow> bool \<Rightarrow> spool_record list \<Rightarrow> pending \<Rightarrow> (spool_error, pending) result" where
  "read_loop bytes frames torn [] p =
     (if length (Records p) < frames \<and> torn then Err ErrUnexpectedEOF else Ok p)"
| "read_loop bytes frames torn (r # rs) p =
     (if \<not> length (Records p) < frames then Ok p
      else if \<not> readable r then Err ErrCorrupt
      else if length (Records p) > 0 \<and> PendingBytes p + int (length (Payload r)) > bytes then Ok p
      else read_loop bytes frames torn rs
        (p\<lparr>Records := Records p @ [r], PendingBytes := PendingBytes p + int (length (Payload r)),
           PendingCursor := (PendingCursor p)\<lparr>End := End (PendingCursor p) + wire_length r\<rparr>\<rparr>))"

definition no_pending :: pending where
  "no_pending = \<lparr>Records = [], PendingCursor = \<lparr>Owner = None, CursorSegment = '''', Start = 0, End = 0\<rparr>,
                 PendingBytes = 0\<rparr>"

definition read_segment :: "int \<Rightarrow> nat \<Rightarrow> segment \<Rightarrow> pending op" where
  "read_segment bytes frames seg s =
     op_bind (open_seg (SegName seg)) (\<lambda>f.
       from_result (case seek (SegAck seg) (Contents f) of
         None \<Rightarrow> Err ErrCorrupt
       | Some rs \<Rightarrow> read_loop bytes frames (torn_tail f) rs
           \<lparr>Records = [], PendingCursor = \<lparr>Owner = Some (SpoolID s), CursorSegment = SegName seg,
             Start = SegAck seg, End = SegAck seg\<rparr>, PendingBytes = 0\<rparr>)) s"

text \<open>Newest segment first for the current boot, oldest first for the rest.\<close>

definition search_order :: "bool \<Rightarrow> spool \<Rightarrow> segment list" where
  "search_order current s = (if current then rev (Segments s) else Segments s)"

lemma set_search_order [simp]: "set (search_order current s) = set (Segments s)"
  by (simp add: search_order_def)

definition read_pending ::
  "int64 \<Rightarrow> string \<Rightarrow> string \<Rightarrow> bool \<Rightarrow> int \<Rightarrow> int \<Rightarrow> pending op" where
  "read_pending now boot generation current maxBytes maxFrames =
     op_bind writable (\<lambda>_.
     if maxBytes < max_frame_bytes \<or> maxBytes > 1048576 \<or> maxFrames < 1 \<or> maxFrames > 64
     then fail_with ErrInvalidLimits
     else op_bind (prune now 0) (\<lambda>_ s.
       case find (offered now boot generation current s) (search_order current s) of
         None \<Rightarrow> (Ok no_pending, s)
       | Some seg \<Rightarrow> read_segment maxBytes (nat maxFrames) seg s))"

definition set_ack :: "string \<Rightarrow> int \<Rightarrow> spool \<Rightarrow> spool" where
  "set_ack name n s = s\<lparr>Segments := map (\<lambda>seg. if SegName seg = name then seg\<lparr>SegAck := n\<rparr> else seg) (Segments s)\<rparr>"

definition set_offset :: "string \<Rightarrow> int \<Rightarrow> spool \<Rightarrow> spool" where
  "set_offset name n s = s\<lparr>Journal := (Journal s)\<lparr>Offsets := AList.update name n (Offsets (Journal s))\<rparr>\<rparr>"

definition ack :: "int64 \<Rightarrow> cursor \<Rightarrow> unit op" where
  "ack now c =
     op_bind writable (\<lambda>_ s.
     if Owner c \<noteq> Some (SpoolID s) then (Err ErrCursor, s)
     else (case find (\<lambda>seg. SegName seg = CursorSegment c) (Segments s) of
         None \<Rightarrow> (Err ErrCursor, s)
       | Some seg \<Rightarrow>
           if quarantine_code s (SegName seg) \<noteq> '''' then (Err ErrCursor, s)
           else if SegAck seg = End c then (Ok (), s)
           else if SegAck seg \<noteq> Start c \<or> End c \<le> Start c \<or> End c > SegSize seg then (Err ErrCursor, s)
           else (let s = set_offset (SegName seg) (End c) s in
                 op_bind (faulting (write_offsets (Journal s))) (\<lambda>_ s.
                   prune now 0 (set_ack (SegName seg) (End c) s)) s)))"

definition quarantine :: "cursor \<Rightarrow> string \<Rightarrow> unit op" where
  "quarantine c code =
     op_bind writable (\<lambda>_ s.
     if code \<noteq> ''invalid_frame'' \<and> code \<noteq> ''definition_incompatible'' \<and> code \<noteq> ''oversized_frame''
     then (Err ErrInvalidCode, s)
     else if Owner c \<noteq> Some (SpoolID s) then (Err ErrCursor, s)
     else (case find (\<lambda>seg. SegName seg = CursorSegment c) (Segments s) of
         None \<Rightarrow> (Err ErrCursor, s)
       | Some seg \<Rightarrow>
           if SegAck seg \<noteq> Start c \<or> End c \<le> Start c \<or> End c > SegSize seg then (Err ErrCursor, s)
           else (let s = s\<lparr>Journal := (Journal s)\<lparr>Quarantined :=
                         AList.update (SegName seg) code (Quarantined (Journal s))\<rparr>\<rparr> in
                 op_bind (faulting (write_offsets (Journal s))) (\<lambda>_ s.
                   (Ok (), s\<lparr>Active := (if Active s = SegName seg then '''' else Active s)\<rparr>)) s)))"

definition quarantined_segments :: "spool \<Rightarrow> nat" where
  "quarantined_segments s = length (Quarantined (Journal s))"

section \<open>Losses\<close>

definition losses :: "spool \<Rightarrow> loss list \<times> nat" where
  "losses s = (Losses (LossJournal s), Revision (LossJournal s))"

definition ack_losses_prefix :: "nat \<Rightarrow> int \<Rightarrow> unit op" where
  "ack_losses_prefix revision count =
     op_bind writable (\<lambda>_ s.
     if revision \<noteq> Revision (LossJournal s) \<or> count < 0 \<or> count > int (length (Losses (LossJournal s)))
     then (Err ErrCursor, s)
     else (let nxt = \<lparr>LVersion = 1, Revision = revision + 1,
                      Losses = drop (nat count) (Losses (LossJournal s)),
                      Discarded = Discarded (LossJournal s)\<rparr>
           in op_bind (write_losses nxt) (\<lambda>_ s. (Ok (), s\<lparr>LossJournal := nxt\<rparr>)) s))"

definition ack_losses :: "nat \<Rightarrow> unit op" where
  "ack_losses revision s = ack_losses_prefix revision (int (length (Losses (LossJournal s)))) s"

definition close_spool :: "spool \<Rightarrow> spool" where
  "close_spool s = s\<lparr>Closed := True\<rparr>"

section \<open>Opening a spool\<close>

definition offset_of :: "(string \<times> int) list \<Rightarrow> string \<Rightarrow> int" where
  "offset_of os name = (case map_of os name of None \<Rightarrow> 0 | Some n \<Rightarrow> n)"

definition empty_journal :: journal where
  "empty_journal = \<lparr>JVersion = 1, Offsets = [], Quarantined = []\<rparr>"

definition empty_losses :: loss_journal where
  "empty_losses = \<lparr>LVersion = 1, Revision = 0, Losses = [], Discarded = []\<rparr>"

text \<open>\<open>readSealed\<close> of the two journals; a missing file keeps the initial value.\<close>

definition read_call :: "(disk \<Rightarrow> 'a) \<Rightarrow> 'a op" where
  "read_call g s = (case next_outcome s of (r, s') \<Rightarrow>
     (if r = Succeeds then (Ok (g (Disk s')), s') else (Err ErrIO, s')))"

definition load_offsets :: "unit op" where
  "load_offsets = op_bind (read_call OffsetsFile) (\<lambda>f s.
     case f of Missing \<Rightarrow> (Ok (), s) | Damaged \<Rightarrow> (Err ErrCorrupt, s)
     | Sealed j \<Rightarrow> (Ok (), s\<lparr>Journal := j\<rparr>))"

definition load_losses :: "unit op" where
  "load_losses = op_bind (read_call LossesFile) (\<lambda>f s.
     case f of Missing \<Rightarrow> (Ok (), s) | Damaged \<Rightarrow> (Err ErrCorrupt, s)
     | Sealed j \<Rightarrow> (Ok (), s\<lparr>LossJournal := j\<rparr>))"

definition load_journals :: "bool \<Rightarrow> unit op" where
  "load_journals readOnly s =
     (if readOnly \<and> (OffsetsFile (Disk s) = Missing \<or> LossesFile (Disk s) = Missing)
      then (Err ErrCorrupt, s)
      else op_bind load_offsets (\<lambda>_ s.
        if JVersion (Journal s) \<noteq> 1 \<or> int (length (Offsets (Journal s))) > max_segments
           \<or> int (length (Quarantined (Journal s))) > max_segments then (Err ErrCorrupt, s)
        else op_bind load_losses (\<lambda>_ s.
          if LVersion (LossJournal s) \<noteq> 1 \<or> int (length (Discarded (LossJournal s))) > max_segments
          then (Err ErrCorrupt, s) else (Ok (), s)) s) s)"

definition segment_suffix :: "string \<Rightarrow> bool" where
  "segment_suffix n \<longleftrightarrow> length n \<ge> 4 \<and> drop (length n - 4) n = ''.seg''"

definition valid_segment_name :: "string \<Rightarrow> bool" where
  "valid_segment_name n \<longleftrightarrow> length n = 60 \<and> n ! 19 = CHR ''-'' \<and> valid_id (take 36 (drop 20 n))"

definition serial_of :: "string \<Rightarrow> nat option" where
  "serial_of n = (if list_all is_digit (take 19 n)
     then Some (digits_value (take 19 n)) else None)"

text \<open>The scan of one segment file: its size, its owner, and whether the acknowledged offset is a
  record boundary.\<close>

fun scan_records :: "spool_record list \<Rightarrow> segment \<Rightarrow> bool \<Rightarrow> (spool_error, segment \<times> bool) result" where
  "scan_records [] seg boundary = Ok (seg, boundary)"
| "scan_records (r # rs) seg boundary =
     (if \<not> readable r then Err ErrCorrupt
      else let seg = (if SegSize seg = 0
                      then seg\<lparr>FirstMS := ObservedMS r, SegBoot := BootID r, SegGeneration := Generation r\<rparr>
                      else seg) in
        if SegBoot seg \<noteq> BootID r \<or> SegGeneration seg \<noteq> Generation r then Err ErrCorrupt
        else let size = SegSize seg + wire_length r in
          scan_records rs (seg\<lparr>SegSize := size\<rparr>) (boundary \<or> size = SegAck seg))"

definition truncate_seg :: "string \<Rightarrow> unit op" where
  "truncate_seg name =
     op_bind (os_call (update_file name (\<lambda>f. f\<lparr>Torn := 0\<rparr>))) (\<lambda>_. os_call (\<lambda>d. d))"

definition recover_file :: "bool \<Rightarrow> bool \<Rightarrow> string \<Rightarrow> unit op" where
  "recover_file readOnly lastFile name s =
     (if \<not> valid_segment_name name then (Err ErrCorrupt, s)
      else case serial_of name of None \<Rightarrow> (Err ErrCorrupt, s) | Some serial \<Rightarrow>
        op_bind (open_seg name) (\<lambda>f s.
          if total_wire (Contents f) + int (Torn f) > segment_bytes then (Err ErrCorrupt, s)
          else let acked = offset_of (Offsets (Journal s)) name in
          op_bind (from_result (scan_records (Contents f)
              \<lparr>SegName = name, SegSize = 0, SegAck = acked, FirstMS = 0, SegBoot = '''', SegGeneration = ''''\<rparr>
              (acked = 0))) (\<lambda>(seg, boundary).
          op_bind (\<lambda>s.
            if \<not> torn_tail f then (Ok (), s)
            else if lastFile \<and> SegAck seg \<le> SegSize seg
                 then (if readOnly then (Err ErrCorrupt, s) else truncate_seg name s)
                 else (Err ErrCorrupt, s)) (\<lambda>_ s.
          if \<not> boundary \<or> SegAck seg < 0 \<or> SegAck seg > SegSize seg then (Err ErrCorrupt, s)
          else (Ok (), s\<lparr>Segments := Segments s @ [seg]\<rparr>))) s)
        (s\<lparr>NextSegment := max serial (NextSegment s)\<rparr>))"

fun recover_files :: "bool \<Rightarrow> string list \<Rightarrow> unit op" where
  "recover_files readOnly [] = return_ok ()"
| "recover_files readOnly (n # ns) =
     op_bind (recover_file readOnly (ns = []) n) (\<lambda>_. recover_files readOnly ns)"

text \<open>Finishing the deletions whose loss is already journaled.\<close>

fun finish_discarded :: "bool \<Rightarrow> segment list \<Rightarrow> unit op" where
  "finish_discarded readOnly [] = return_ok ()"
| "finish_discarded readOnly (seg # segs) = (\<lambda>s.
     if SegName seg \<in> set (Discarded (LossJournal s))
     then (if readOnly then (Err ErrCorrupt, s)
           else op_bind (remove_seg (SegName seg)) (\<lambda>_.
                op_bind sync_dir (\<lambda>_ s.
                finish_discarded readOnly segs
                  (s\<lparr>Segments := (case find_index (\<lambda>q. SegName q = SegName seg) (Segments s) of
                       None \<Rightarrow> Segments s | Some i \<Rightarrow> remove_nth i (Segments s))\<rparr>))) s)
     else finish_discarded readOnly segs s)"

definition live_names :: "spool \<Rightarrow> string set" where
  "live_names s = set (map SegName (Segments s))"

definition has_stale :: "spool \<Rightarrow> bool" where
  "has_stale s \<longleftrightarrow>
     \<not> (list_all (\<lambda>(n, _). n \<in> live_names s) (Offsets (Journal s)) \<and>
        list_all (\<lambda>(n, _). n \<in> live_names s) (Quarantined (Journal s)) \<and>
        list_all (\<lambda>n. n \<in> live_names s) (Discarded (LossJournal s)))"

definition drop_stale :: "spool \<Rightarrow> spool" where
  "drop_stale s =
     s\<lparr>Journal := (Journal s)\<lparr>Offsets := filter (\<lambda>(n, _). n \<in> live_names s) (Offsets (Journal s)),
                              Quarantined := filter (\<lambda>(n, _). n \<in> live_names s) (Quarantined (Journal s))\<rparr>,
       LossJournal := (LossJournal s)\<lparr>Discarded := filter (\<lambda>n. n \<in> live_names s) (Discarded (LossJournal s))\<rparr>\<rparr>"

definition recover :: "int64 \<Rightarrow> bool \<Rightarrow> unit op" where
  "recover now readOnly =
     op_bind (load_journals readOnly) (\<lambda>_.
     op_bind (read_call SegFiles) (\<lambda>files.
     let names = sort (filter segment_suffix (map fst files)) in
     if int (length names) > max_segments then fail_with ErrCorrupt
     else op_bind (recover_files readOnly names) (\<lambda>_ s.
       op_bind (finish_discarded readOnly (Segments s)) (\<lambda>_ s.
         if readOnly then (if has_stale s then (Err ErrCorrupt, s) else (Ok (), s))
         else let s = drop_stale s in
           op_bind (write_offsets (Journal s)) (\<lambda>_ s.
           op_bind (write_losses (LossJournal s)) (\<lambda>_.
           prune now 0) s) s) s)))"

record options =
  OptBytes :: int64
  OptAge :: int64

text \<open>
  \<open>open\<close>: \<open>prepared\<close> is the outcome of creating or checking the private directory and its
  lock file, \<open>locked\<close> whether another process holds the lock. Durations are nanoseconds.
\<close>

definition open_spool ::
  "nat \<Rightarrow> int64 \<Rightarrow> options \<Rightarrow> bool \<Rightarrow> bool \<Rightarrow> bool \<Rightarrow> disk \<Rightarrow> outcome list
   \<Rightarrow> (spool_error, unit) result \<times> spool" where
  "open_spool sid now opts readOnly prepared locked d sch =
     (let bytes = (if OptBytes opts = 0 then max_bytes else OptBytes opts);
          age = (if OptAge opts = 0 then max_age_ms * 1000000 else OptAge opts);
          s = \<lparr>SpoolID = sid, LimitBytes = bytes, LimitAgeMS = quot64 age 1000000, Segments = [],
               Journal = empty_journal, LossJournal = empty_losses, Active = '''', NextSegment = 0,
               ReadOnly = readOnly, Closed = False, Fault = None, Disk = d, Schedule = sch\<rparr>
      in if bytes < max_record_bytes \<or> bytes > max_bytes \<or> age \<le> 0 \<or> age > max_age_ms * 1000000
         then (Err ErrInvalidLimits, s)
         else if \<not> prepared then (Err ErrIO, s)
         else if locked then (Err ErrLocked, s)
         else (case recover now readOnly s of
                 (Inl e, s') \<Rightarrow> (Inl e, close_spool s')
               | r \<Rightarrow> r))"

end
