(* ===== verification/SpoolAccount.thy ===== *)
theory SpoolAccount
  imports Spool
begin

text \<open>
  What the spool owes: the records and losses a restart finds in its directory, and how each
  operation changes that account under every failure of the operating system.
\<close>

section \<open>What the directory accounts for\<close>

text \<open>
  What a restart finds: per source, the records that are neither acknowledged nor journaled as
  discarded, and the losses counted.
\<close>

definition count_source :: "string \<Rightarrow> spool_record list \<Rightarrow> nat" where
  "count_source src rs = length (filter (\<lambda>r. SourceID r = src) rs)"

definition lost_count :: "string \<Rightarrow> loss list \<Rightarrow> nat" where
  "lost_count src ls = sum_list (map (\<lambda>l. if LossSource l = src then LossCount l else 0) ls)"

definition unacked :: "int \<Rightarrow> spool_record list \<Rightarrow> spool_record list" where
  "unacked off rs = (case seek off rs of None \<Rightarrow> [] | Some rs' \<Rightarrow> rs')"

definition stored_offsets :: "disk \<Rightarrow> journal" where
  "stored_offsets d = (case OffsetsFile d of Sealed j \<Rightarrow> j | _ \<Rightarrow> empty_journal)"

definition stored_losses :: "disk \<Rightarrow> loss_journal" where
  "stored_losses d = (case LossesFile d of Sealed j \<Rightarrow> j | _ \<Rightarrow> empty_losses)"

lemma stored_simps [simp]:
  "stored_offsets (d\<lparr>LossesFile := a\<rparr>) = stored_offsets d"
  "stored_offsets (d\<lparr>SegFiles := b\<rparr>) = stored_offsets d"
  "stored_losses (d\<lparr>OffsetsFile := c\<rparr>) = stored_losses d"
  "stored_losses (d\<lparr>SegFiles := b\<rparr>) = stored_losses d"
  "stored_offsets (d\<lparr>OffsetsFile := Sealed j\<rparr>) = j"
  "stored_losses (d\<lparr>LossesFile := Sealed l\<rparr>) = l"
  by (simp_all add: stored_offsets_def stored_losses_def)

definition file_share :: "journal \<Rightarrow> loss_journal \<Rightarrow> string \<Rightarrow> string \<times> seg_file \<Rightarrow> nat" where
  "file_share j l src = (\<lambda>(n, f). if n \<in> set (Discarded l) then 0
     else count_source src (unacked (offset_of (Offsets j) n) (Contents f)))"

definition accounted :: "disk \<Rightarrow> string \<Rightarrow> nat" where
  "accounted d src =
     sum_list (map (file_share (stored_offsets d) (stored_losses d) src) (SegFiles d)) +
     lost_count src (Losses (stored_losses d))"

lemma lost_count_add_loss:
  "lost_count src (add_loss reason r ls) = lost_count src ls + count_source src [r]"
  by (induction reason r ls rule: add_loss.induct)
    (auto simp: lost_count_def count_source_def bump_loss_def)

lemma count_source_Cons: "count_source src (r # rs) = count_source src [r] + count_source src rs"
  by (simp add: count_source_def)

lemma lost_count_add_losses:
  "lost_count src (add_losses reason rs ls) = lost_count src ls + count_source src rs"
  unfolding add_losses_def
proof (induction rs arbitrary: ls)
  case Nil then show ?case by (simp add: count_source_def)
next
  case (Cons r rs)
  then show ?case by (simp add: lost_count_add_loss count_source_Cons[of src r rs])
qed

lemma sum_list_delete:
  fixes g :: "'k \<times> 'v \<Rightarrow> nat"
  assumes "distinct (map fst xs)" "map_of xs k = Some v"
  shows "sum_list (map g xs) = g (k, v) + sum_list (map g (AList.delete k xs))"
  using assms
proof (induction xs)
  case Nil
  then show ?case by simp
next
  case (Cons x xs)
  obtain a b where x: "x = (a, b)" by fastforce
  show ?case
  proof (cases "a = k")
    case True
    have "k \<notin> fst ` set xs" using Cons.prems x True by simp
    then have "AList.delete k xs = xs" by (simp add: AList.delete_id)
    then show ?thesis using Cons.prems x True by simp
  next
    case False
    then show ?thesis using Cons x by simp
  qed
qed

lemma distinct_delete:
  "distinct (map fst xs) \<Longrightarrow> distinct (map fst (AList.delete k xs))"
  by (simp add: AList.distinct_delete)

lemma file_share_loss_step:
  "file_share j (loss_step seg reason rs l) src (n, f) =
     (if n = SegName seg then 0 else file_share j l src (n, f))"
  by (auto simp: file_share_def loss_step_def)

text \<open>The four writes of an eviction, each leaving the account as it was.\<close>

lemma accounted_journal_loss:
  assumes keys: "distinct (map fst (SegFiles d))"
    and f: "map_of (SegFiles d) (SegName seg) = Some f"
    and l: "stored_losses d = l" "SegName seg \<notin> set (Discarded l)"
    and ack: "offset_of (Offsets (stored_offsets d)) (SegName seg) = SegAck seg"
    and rs: "seek (SegAck seg) (Contents f) = Some rs"
  shows "accounted (d\<lparr>LossesFile := Sealed (loss_step seg reason rs l)\<rparr>) src = accounted d src"
proof -
  let ?xs = "AList.delete (SegName seg) (SegFiles d)"
  have n: "n \<noteq> SegName seg" if "(n, g) \<in> set ?xs" for n g
    using that by (auto simp: AList.delete_eq)
  have eq: "map (file_share (stored_offsets d) (loss_step seg reason rs l) src) ?xs =
            map (file_share (stored_offsets d) l src) ?xs"
    using n by (intro map_cong) (auto simp: file_share_loss_step)
  have own: "file_share (stored_offsets d) l src (SegName seg, f) = count_source src rs"
    using l ack rs by (simp add: file_share_def unacked_def)
  have "accounted d src = count_source src rs +
      sum_list (map (file_share (stored_offsets d) l src) ?xs) + lost_count src (Losses l)"
    unfolding accounted_def l sum_list_delete[OF keys f] own by simp
  moreover have "accounted (d\<lparr>LossesFile := Sealed (loss_step seg reason rs l)\<rparr>) src =
      sum_list (map (file_share (stored_offsets d) (loss_step seg reason rs l) src) ?xs) +
      lost_count src (Losses l) + count_source src rs"
    unfolding accounted_def stored_simps
    by (simp add: sum_list_delete[OF keys f] file_share_loss_step)
      (simp add: loss_step_def lost_count_add_losses)
  ultimately show ?thesis by (simp add: eq)
qed

lemma accounted_remove_file:
  assumes keys: "distinct (map fst (SegFiles d))"
    and f: "map_of (SegFiles d) name = Some f"
    and z: "\<And>src. file_share (stored_offsets d) (stored_losses d) src (name, f) = 0"
  shows "accounted (d\<lparr>SegFiles := AList.delete name (SegFiles d)\<rparr>) src = accounted d src"
  unfolding accounted_def sum_list_delete[OF keys f] z
  by (simp add: stored_offsets_def stored_losses_def)

lemma offset_of_delete:
  "n \<noteq> name \<Longrightarrow> offset_of (AList.delete name os) n = offset_of os n"
  by (simp add: offset_of_def AList.delete_conv)

lemma file_share_cong:
  assumes "\<forall>x \<in> set fs. offset_of (Offsets j) (fst x) = offset_of (Offsets j') (fst x) \<and>
             (fst x \<in> set (Discarded l) \<longleftrightarrow> fst x \<in> set (Discarded l'))"
  shows "map (file_share j l src) fs = map (file_share j' l' src) fs"
  using assms by (intro map_cong) (auto simp: file_share_def)

lemma accounted_forget_offset:
  assumes gone: "name \<notin> fst ` set (SegFiles d)"
    and j: "Offsets j = AList.delete name (Offsets (stored_offsets d))"
  shows "accounted (d\<lparr>OffsetsFile := Sealed j\<rparr>) src = accounted d src"
proof -
  have "offset_of (Offsets j) (fst x) = offset_of (Offsets (stored_offsets d)) (fst x)"
    if "x \<in> set (SegFiles d)" for x
    using gone that offset_of_delete[of "fst x" name] by (force simp: j)
  then have "map (file_share j (stored_losses d) src) (SegFiles d) =
        map (file_share (stored_offsets d) (stored_losses d) src) (SegFiles d)"
    by (intro file_share_cong) simp
  from arg_cong[OF this, of sum_list] show ?thesis by (simp add: accounted_def)
qed

lemma accounted_drop_discarded:
  assumes gone: "name \<notin> fst ` set (SegFiles d)"
    and l: "Losses l = Losses (stored_losses d)"
      "Discarded l = removeAll name (Discarded (stored_losses d))"
  shows "accounted (d\<lparr>LossesFile := Sealed l\<rparr>) src = accounted d src"
proof -
  have "fst x \<noteq> name" if "x \<in> set (SegFiles d)" for x using gone that by force
  then have "map (file_share (stored_offsets d) l src) (SegFiles d) =
        map (file_share (stored_offsets d) (stored_losses d) src) (SegFiles d)"
    by (intro file_share_cong) (simp add: l)
  from arg_cong[OF this, of sum_list] show ?thesis by (simp add: accounted_def l(1))
qed

section \<open>The steady state of a spool\<close>

definition seg_ok :: "(string \<times> seg_file) list \<Rightarrow> segment \<Rightarrow> bool" where
  "seg_ok fs seg = (case map_of fs (SegName seg) of None \<Rightarrow> False | Some f \<Rightarrow>
     \<not> torn_tail f \<and> list_all readable (Contents f) \<and> total_wire (Contents f) = SegSize seg \<and>
     0 \<le> SegAck seg \<and> SegAck seg \<le> SegSize seg \<and> seek (SegAck seg) (Contents f) \<noteq> None \<and>
     list_all (\<lambda>r. BootID r = SegBoot seg \<and> Generation r = SegGeneration seg) (Contents f) \<and>
     SegSize seg \<le> segment_bytes)"

text \<open>
  The segment that takes the next record was created by this process, and its file has no
  incomplete tail, not even a header: a record is only ever written behind complete records.
\<close>

definition active_whole :: "spool \<Rightarrow> bool" where
  "active_whole s \<longleftrightarrow> (Active s \<noteq> '''' \<longrightarrow>
     (case map_of (SegFiles (Disk s)) (Active s) of None \<Rightarrow> True | Some f \<Rightarrow> Torn f = 0))"

definition steady :: "spool \<Rightarrow> bool" where
  "steady s \<longleftrightarrow> distinct (map SegName (Segments s)) \<and> distinct (map fst (SegFiles (Disk s))) \<and>
     list_all (seg_ok (SegFiles (Disk s))) (Segments s) \<and>
     list_all (\<lambda>seg. SegAck seg = offset_of (Offsets (Journal s)) (SegName seg)) (Segments s) \<and>
     OffsetsFile (Disk s) = Sealed (Journal s) \<and> LossesFile (Disk s) = Sealed (LossJournal s) \<and>
     Discarded (LossJournal s) = [] \<and>
     list_all (\<lambda>(n, _). n \<in> live_names s) (Offsets (Journal s)) \<and>
     list_all (\<lambda>(n, _). n \<in> live_names s) (Quarantined (Journal s)) \<and> active_whole s"

lemma wire_length_pos: "0 < wire_length r"
  by (simp add: wire_length_def header_bytes_def record_length_def)

lemma total_wire_simps [simp]:
  "total_wire [] = 0" "total_wire (r # rs) = wire_length r + total_wire rs"
  "total_wire (rs @ qs) = total_wire rs + total_wire qs"
  by (simp_all add: total_wire_def)

lemma total_wire_nonneg [simp]: "0 \<le> total_wire rs"
proof (induction rs)
  case (Cons r rs)
  then show ?case using wire_length_pos[of r] by simp
qed simp

lemma total_wire_eq_0 [simp]: "total_wire rs = 0 \<longleftrightarrow> rs = []"
proof (cases rs)
  case (Cons r qs)
  then show ?thesis using wire_length_pos[of r] total_wire_nonneg[of qs] by (simp del: total_wire_nonneg)
qed simp

lemma seek_split: "seek off rs = Some qs \<Longrightarrow> off \<le> total_wire rs \<Longrightarrow>
  \<exists>ps. rs = ps @ qs \<and> total_wire ps = off"
proof (induction off rs rule: seek.induct)
  case (1 off)
  then show ?case by (auto split: if_splits)
next
  case (2 off r rs)
  show ?case
  proof (cases "off = 0")
    case True
    then show ?thesis using 2 by (intro exI[of _ "[]"]) auto
  next
    case False
    then have lt: "\<not> off < wire_length r" and "seek (off - wire_length r) rs = Some qs"
      using 2 by (auto split: if_splits)
    then obtain ps where "rs = ps @ qs" "total_wire ps = off - wire_length r"
      using 2 False by auto
    then show ?thesis by (intro exI[of _ "r # ps"]) auto
  qed
qed

lemma seek_append: "seek (total_wire ps) (ps @ qs) = Some qs"
proof (induction ps)
  case Nil
  then show ?case by (cases qs) auto
next
  case (Cons p ps)
  have "wire_length p + total_wire ps \<noteq> 0" "\<not> wire_length p + total_wire ps < wire_length p"
    using wire_length_pos[of p] total_wire_nonneg[of ps] by linarith+
  then show ?case using Cons by simp
qed

lemma unacked_append: "unacked (total_wire ps) (ps @ qs) = qs"
  by (simp add: unacked_def seek_append)

lemma seg_okE:
  assumes "seg_ok fs seg"
  obtains f ps qs where "map_of fs (SegName seg) = Some f" "\<not> torn_tail f" "Contents f = ps @ qs"
    "total_wire ps = SegAck seg" "SegSize seg = SegAck seg + total_wire qs"
    "seek (SegAck seg) (Contents f) = Some qs" "list_all readable (Contents f)"
    "list_all (\<lambda>r. BootID r = SegBoot seg \<and> Generation r = SegGeneration seg) (Contents f)"
    "SegSize seg \<le> segment_bytes"
proof -
  from assms obtain f where f: "map_of fs (SegName seg) = Some f" "\<not> torn_tail f"
    "list_all readable (Contents f)" "total_wire (Contents f) = SegSize seg"
    "0 \<le> SegAck seg" "SegAck seg \<le> SegSize seg" "seek (SegAck seg) (Contents f) \<noteq> None"
    "list_all (\<lambda>r. BootID r = SegBoot seg \<and> Generation r = SegGeneration seg) (Contents f)"
    "SegSize seg \<le> segment_bytes"
    by (auto simp: seg_ok_def split: option.splits)
  then obtain qs where qs: "seek (SegAck seg) (Contents f) = Some qs" by auto
  with f obtain ps where "Contents f = ps @ qs" "total_wire ps = SegAck seg"
    using seek_split by metis
  with f qs that show ?thesis by auto
qed

lemma steadyD:
  assumes "steady s"
  shows "distinct (map SegName (Segments s))" "distinct (map fst (SegFiles (Disk s)))"
    "\<And>seg. seg \<in> set (Segments s) \<Longrightarrow> seg_ok (SegFiles (Disk s)) seg"
    "\<And>seg. seg \<in> set (Segments s) \<Longrightarrow> offset_of (Offsets (Journal s)) (SegName seg) = SegAck seg"
    "stored_offsets (Disk s) = Journal s" "stored_losses (Disk s) = LossJournal s"
    "Discarded (LossJournal s) = []"
    "OffsetsFile (Disk s) = Sealed (Journal s)" "LossesFile (Disk s) = Sealed (LossJournal s)"
    "fst ` set (Offsets (Journal s)) \<subseteq> live_names s" "fst ` set (Quarantined (Journal s)) \<subseteq> live_names s" "active_whole s"
  using assms by (auto simp: steady_def list_all_iff stored_offsets_def stored_losses_def)

lemma seek_total: "seek (total_wire rs) rs = Some []"
  using seek_append[of rs "[]"] by simp

text \<open>
  The state after the first phase of an eviction: either the segment is fully acknowledged, or
  its loss is journaled, on disk and in memory; the file can go without changing the account.
\<close>

definition evictable :: "spool \<Rightarrow> segment \<Rightarrow> string \<Rightarrow> spool \<Rightarrow> bool" where
  "evictable s seg reason t \<longleftrightarrow>
     t = s\<lparr>Disk := Disk t, Schedule := Schedule t, LossJournal := LossJournal t\<rparr> \<and>
     SegFiles (Disk t) = SegFiles (Disk s) \<and> OffsetsFile (Disk t) = OffsetsFile (Disk s) \<and>
     LossesFile (Disk t) = Sealed (LossJournal t) \<and>
     (\<forall>src. accounted (Disk t) src = accounted (Disk s) src) \<and>
     Discarded (LossJournal t) = (if reason = '''' then [] else [SegName seg])"

lemma evict_first_phase:
  assumes st: "steady s" and seg: "seg \<in> set (Segments s)"
    and run: "(if reason \<noteq> '''' then record_segment_loss seg reason else return_ok ()) s = (r, t)"
  shows "accounted (Disk t) src = accounted (Disk s) src"
    and "r = Inr () \<Longrightarrow> evictable s seg reason t"
proof -
  note D = steadyD[OF st]
  have acc: "accounted ((Disk s)\<lparr>LossesFile := Sealed (loss_step seg reason rs (LossJournal s))\<rparr>) q
      = accounted (Disk s) q"
    if "map_of (SegFiles (Disk s)) (SegName seg) = Some f" "read_rest (SegAck seg) f = Inr rs" for f rs q
    using accounted_journal_loss[OF D(2) that(1) D(6) _ _ , of rs reason q] D(4)[OF seg] D(5,7) that(2)
    by (auto simp: read_rest_def split: option.splits if_splits)
  have "accounted (Disk t) src = accounted (Disk s) src \<and> (r = Inr () \<longrightarrow> evictable s seg reason t)"
  proof (cases "reason = ''''")
    case True
    then show ?thesis using run D by (simp add: return_ok_def evictable_def)
  next
    case False
    then have "record_segment_loss seg reason s = (r, t)" using run by simp
    then show ?thesis
    proof (cases rule: record_segment_loss_cases)
      case known
      then show ?thesis using D by simp
    next
      case (recorded f rs u v)
      obtain d1 s1 where v: "v = u\<lparr>Disk := d1, Schedule := s1\<rparr>"
        using write_losses_spec(1)[OF recorded(5)] by (auto elim: disk_onlyE)
      obtain s2 where u: "u = s\<lparr>Schedule := s2\<rparr>" using recorded(7) by blast
      have "d1 = (Disk s)\<lparr>LossesFile := Sealed (loss_step seg reason rs (LossJournal s))\<rparr>"
        using write_losses_spec(2)[OF recorded(5)] v u by simp
      then show ?thesis using acc[OF recorded(3,4)] recorded(6) D False v u
        by (simp add: evictable_def loss_step_def)
    next
      case (unread e)
      then show ?thesis by simp
    next
      case (unwritten e f rs u)
      obtain s2 where "u = s\<lparr>Schedule := s2\<rparr>" using unwritten(6) by blast
      then have "Disk u = Disk s" by simp
      then show ?thesis using write_losses_spec(2)[OF unwritten(5)] acc[OF unwritten(3,4)] unwritten(1)
        by auto
    qed
  qed
  then show "accounted (Disk t) src = accounted (Disk s) src"
    and "r = Inr () \<Longrightarrow> evictable s seg reason t" by auto
qed

lemma removed_key: "name \<notin> fst ` set (AList.delete name fs)"
  by (auto simp: AList.delete_eq)

lemma seg_ok_delete:
  "seg_ok fs seg \<Longrightarrow> SegName seg \<noteq> name \<Longrightarrow> seg_ok (AList.delete name fs) seg"
  by (simp add: seg_ok_def AList.delete_conv)

definition kept :: "spool \<Rightarrow> spool \<Rightarrow> bool" where
  "kept s s' \<longleftrightarrow> LimitBytes s' = LimitBytes s \<and> LimitAgeMS s' = LimitAgeMS s \<and>
     Closed s' = Closed s \<and> ReadOnly s' = ReadOnly s \<and> SpoolID s' = SpoolID s \<and>
     NextSegment s' = NextSegment s"

lemma kept_refl [simp]: "kept s s" and kept_trans: "kept s t \<Longrightarrow> kept t u \<Longrightarrow> kept s u"
  by (simp_all add: kept_def)

text \<open>What an eviction leaves behind when all its calls succeed.\<close>

lemma evict_done:
  assumes st: "steady s" and seg: "seg \<in> set (Segments s)" and i: "i < length (Segments s)" "seg = Segments s ! i"
    and t: "evictable s seg reason t"
    and gone: "u = t\<lparr>Disk := (Disk t)\<lparr>SegFiles := AList.delete (SegName seg) (SegFiles (Disk t))\<rparr>, Schedule := sc\<rparr>"
    and w: "disk_only (forget_offset (SegName seg) u) w"
      "Disk w = (Disk u)\<lparr>OffsetsFile := Sealed (Journal (forget_offset (SegName seg) u))\<rparr>"
    and x: "disk_only (drop_segment i (SegName seg) w) x"
      "Disk x = (if reason = '''' then Disk w else (Disk w)\<lparr>LossesFile := Sealed (LossJournal (drop_segment i (SegName seg) w))\<rparr>)"
  shows "steady x" "Segments x = remove_nth i (Segments s)" "kept s x" "Fault x = Fault s"
proof -
  note D = steadyD[OF st]
  obtain dt st1 lt where tt: "t = s\<lparr>Disk := dt, Schedule := st1, LossJournal := lt\<rparr>"
    using t by (metis evictable_def)
  have dt: "SegFiles dt = SegFiles (Disk s)" "LossesFile dt = Sealed lt"
    "Discarded lt = (if reason = '''' then [] else [SegName seg])"
    using t tt by (auto simp: evictable_def)
  obtain dw sw where ww: "w = (forget_offset (SegName seg) u)\<lparr>Disk := dw, Schedule := sw\<rparr>"
    using w(1) by (auto elim: disk_onlyE)
  obtain dx sx where xx: "x = (drop_segment i (SegName seg) w)\<lparr>Disk := dx, Schedule := sx\<rparr>"
    using x(1) by (auto elim: disk_onlyE)
  have files: "SegFiles dx = AList.delete (SegName seg) (SegFiles (Disk s))"
    using x(2) w(2) gone tt dt xx ww by (auto split: if_splits)
  have offs: "Offsets (Journal x) = AList.delete (SegName seg) (Offsets (Journal s))"
    "OffsetsFile dx = Sealed (Journal x)"
    using x(2) w(2) gone tt dt xx ww by (auto simp: forget_offset_def drop_segment_def split: if_splits)
  have jx: "Journal x = Journal (forget_offset (SegName seg) s)"
    using gone tt xx ww by (simp add: forget_offset_def drop_segment_def)
  have lj: "Discarded (LossJournal x) = []" "LossesFile dx = Sealed (LossJournal x)"
    using x(2) w(2) gone tt dt xx ww by (auto simp: forget_offset_def drop_segment_def split: if_splits)
  show segs: "Segments x = remove_nth i (Segments s)"
    using gone tt xx ww by (simp add: forget_offset_def drop_segment_def)
  show "kept s x" "Fault x = Fault s"
    using gone tt xx ww by (simp_all add: forget_offset_def drop_segment_def kept_def)
  have other: "q \<in> set (Segments s) \<and> SegName q \<noteq> SegName seg" if "q \<in> set (remove_nth i (Segments s))" for q
    using remove_nth_other[OF D(1) i(1) that] set_remove_nth that i(2) by fastforce
  have live: "n \<in> live_names x" if "n \<in> live_names s" "n \<noteq> SegName seg" for n
    using that remove_nth_mem[OF i(1)] i(2) by (fastforce simp: live_names_def segs)
  have gone_keys: "n \<in> live_names x" if "(n, v) \<in> set (AList.delete (SegName seg) os)"
    "fst ` set os \<subseteq> live_names s" for n v and os :: "(string \<times> 'v) list"
    using that live[of n] by (force simp: AList.delete_eq)
  have keys: "\<forall>(n, v) \<in> set (Offsets (Journal x)). n \<in> live_names x"
    "\<forall>(n, v) \<in> set (Quarantined (Journal x)). n \<in> live_names x"
    using gone_keys D(10,11) by (auto simp: jx forget_offset_def)
  have "Active x = (if Active s = SegName seg then '''' else Active s)"
    using gone tt xx ww by (simp add: forget_offset_def drop_segment_def)
  then have whole: "active_whole x" using D(12) files xx by (auto simp: active_whole_def AList.delete_conv)
  show "steady x"
    unfolding steady_def segs list_all_iff
    using D(1,2,3,4) other offs lj files xx keys whole
    by (auto simp: distinct_remove_nth distinct_delete seg_ok_delete offset_of_delete)
qed

lemma stored_of_file:
  "OffsetsFile d = Sealed j \<Longrightarrow> stored_offsets d = j" "LossesFile d = Sealed l \<Longrightarrow> stored_losses d = l"
  by (simp_all add: stored_offsets_def stored_losses_def)

lemma evict_middle:
  assumes st: "steady s" and t: "evictable s seg reason t"
    and u: "remove_seg (SegName seg) t = (Inr (), u)" and v: "sync_dir u = (Inr (), v)"
  obtains sc where
    "v = t\<lparr>Disk := (Disk t)\<lparr>SegFiles := AList.delete (SegName seg) (SegFiles (Disk t))\<rparr>, Schedule := sc\<rparr>"
    "Journal v = Journal s" "LossJournal v = LossJournal t" "stored_offsets (Disk v) = Journal s"
    "stored_losses (Disk v) = LossJournal t" "SegName seg \<notin> fst ` set (SegFiles (Disk v))"
    "Disk v = (Disk t)\<lparr>SegFiles := AList.delete (SegName seg) (SegFiles (Disk t))\<rparr>"
proof -
  obtain dt st1 lt where tt: "t = s\<lparr>Disk := dt, Schedule := st1, LossJournal := lt\<rparr>"
    using t by (metis evictable_def)
  obtain d1 s1 where uu: "u = t\<lparr>Disk := d1, Schedule := s1\<rparr>"
    using remove_seg_spec(1)[OF u] by (auto elim: disk_onlyE)
  obtain d2 s2 where vv: "v = u\<lparr>Disk := d2, Schedule := s2\<rparr>"
    using sync_dir_spec(1)[OF v] by (auto elim: disk_onlyE)
  have d: "d2 = (Disk t)\<lparr>SegFiles := AList.delete (SegName seg) (SegFiles (Disk t))\<rparr>"
    using remove_seg_spec(2)[OF u] sync_dir_spec(2)[OF v] vv by auto
  have "OffsetsFile (Disk t) = Sealed (Journal s)" "LossesFile (Disk t) = Sealed (LossJournal t)"
    using t steadyD(8)[OF st] by (auto simp: evictable_def)
  then show ?thesis
    using that[of s2] vv uu d tt by (simp add: stored_of_file removed_key)
qed

lemma evict_steady:
  assumes st: "steady s" and vic: "select_victim now incoming s = Some (i, reason)"
    and run: "evict i reason s = (r, s')"
  shows "accounted (Disk s') src = accounted (Disk s) src"
    and "r = Inr () \<Longrightarrow> steady s' \<and> Segments s' = remove_nth i (Segments s) \<and> kept s s' \<and> Fault s' = Fault s"
proof -
  define seg where "seg = Segments s ! i"
  note D = steadyD[OF st]
  have i: "i < length (Segments s)" using select_victim_bound[OF vic] .
  have seg: "seg \<in> set (Segments s)" using i by (simp add: seg_def)
  have full: "SegAck seg = SegSize seg" if "reason = ''''"
    using vic that by (auto simp: select_victim_def seg_def dest!: find_index_Some split: option.splits if_splits)
  obtain f ps qs where f: "map_of (SegFiles (Disk s)) (SegName seg) = Some f" "Contents f = ps @ qs"
    "total_wire ps = SegAck seg" "SegSize seg = SegAck seg + total_wire qs"
    using D(3)[OF seg] by (elim seg_okE)
  have first: "accounted (Disk t) src = accounted (Disk s) src"
    if "(if reason \<noteq> '''' then record_segment_loss seg reason else return_ok ()) s = (a, t)" for a t
    using evict_first_phase(1)[OF st seg that] .
  have removed: "accounted ((Disk t)\<lparr>SegFiles := AList.delete (SegName seg) (SegFiles (Disk t))\<rparr>) src
      = accounted (Disk s) src"
    if t: "evictable s seg reason t" for t
  proof -
    have sf: "SegFiles (Disk t) = SegFiles (Disk s)" and sl: "stored_losses (Disk t) = LossJournal t"
      and so: "stored_offsets (Disk t) = Journal s"
      using t D(8) by (auto simp: evictable_def stored_of_file)
    have "file_share (stored_offsets (Disk t)) (stored_losses (Disk t)) q (SegName seg, f) = 0" for q
    proof (cases "reason = ''''")
      case True
      have "qs = []" using full[OF True] f(4) by simp
      then show ?thesis using f(2,3) D(4)[OF seg] unacked_append[of ps qs]
        by (simp add: file_share_def so count_source_def)
    next
      case False
      then show ?thesis using t by (simp add: file_share_def sl evictable_def)
    qed
    then have "accounted ((Disk t)\<lparr>SegFiles := AList.delete (SegName seg) (SegFiles (Disk t))\<rparr>) src
      = accounted (Disk t) src"
      using accounted_remove_file[of "Disk t" "SegName seg" f] D(2) f(1) sf by simp
    then show ?thesis using t by (simp add: evictable_def)
  qed
  have gone: "SegName seg \<notin> fst ` set (AList.delete (SegName seg) fs)" for fs :: "(string \<times> seg_file) list"
    by (rule removed_key)
  have forgot: "accounted ((Disk v)\<lparr>OffsetsFile := Sealed (Journal (forget_offset (SegName seg) v))\<rparr>) src
      = accounted (Disk s) src"
    if t: "evictable s seg reason t" and u: "remove_seg (SegName seg) t = (Inr (), u)"
      and v: "sync_dir u = (Inr (), v)" for t u v
    using st t u v
  proof (rule evict_middle)
    fix sc
    assume v: "Journal v = Journal s" "stored_offsets (Disk v) = Journal s"
      "SegName seg \<notin> fst ` set (SegFiles (Disk v))"
      "Disk v = (Disk t)\<lparr>SegFiles := AList.delete (SegName seg) (SegFiles (Disk t))\<rparr>"
    show ?thesis
      using accounted_forget_offset[OF v(3), of "Journal (forget_offset (SegName seg) v)" src] v(1,2)
        removed[OF t] by (simp add: v(4)[symmetric])
  qed
  have "accounted (Disk s') src = accounted (Disk s) src \<and>
    (r = Inr () \<longrightarrow> steady s' \<and> Segments s' = remove_nth i (Segments s) \<and> kept s s' \<and> Fault s' = Fault s)"
    using run seg_def refl
  proof (cases rule: evict_phases)
    case (first e)
    then show ?thesis using evict_first_phase(1)[OF st seg] by auto
  next
    case (removing e t)
    have t: "evictable s seg reason t" using evict_first_phase(2)[OF st seg removing(1)] by simp
    show ?thesis using remove_seg_spec(2)[OF removing(2)] removed[OF t] removing(3) t
      by (auto simp: evictable_def)
  next
    case (syncing e t u v)
    have t: "evictable s seg reason t" using evict_first_phase(2)[OF st seg syncing(1)] by simp
    show ?thesis using remove_seg_spec(2)[OF syncing(2)] removed[OF t] sync_dir_spec(2)[OF syncing(3)] syncing(4,5)
      by auto
  next
    case (forgetting e t u v w)
    have t: "evictable s seg reason t" using evict_first_phase(2)[OF st seg forgetting(1)] by simp
    have "accounted (Disk v) src = accounted (Disk s) src"
      using removed[OF t] remove_seg_spec(2)[OF forgetting(2)] sync_dir_spec(2)[OF forgetting(3)] by auto
    then show ?thesis using write_offsets_spec(2)[OF forgetting(4)] forgot[OF t forgetting(2,3)] forgetting(5,6)
      by auto
  next
    case (dropping t u v w)
    have t: "evictable s seg reason t" using evict_first_phase(2)[OF st seg dropping(1)] by simp
    obtain sc where v: "v = t\<lparr>Disk := (Disk t)\<lparr>SegFiles := AList.delete (SegName seg) (SegFiles (Disk t))\<rparr>, Schedule := sc\<rparr>"
      "LossJournal v = LossJournal t" "stored_losses (Disk v) = LossJournal t"
      "SegName seg \<notin> fst ` set (SegFiles (Disk v))"
      using evict_middle[OF st t dropping(2,3)] by metis
    note w = write_offsets_spec[OF dropping(4)]
    have dw: "Disk w = (Disk v)\<lparr>OffsetsFile := Sealed (Journal (forget_offset (SegName seg) v))\<rparr>"
      using w(2) by simp
    have aw: "accounted (Disk w) src = accounted (Disk s) src"
      using forgot[OF t dropping(2,3)] dw by simp
    have lw: "LossJournal w = LossJournal t" using disk_onlyD(3)[OF w(1)] v(2) by simp
    have ad: "accounted ((Disk w)\<lparr>LossesFile := Sealed (LossJournal (drop_segment i (SegName seg) w))\<rparr>) src
        = accounted (Disk s) src"
      using accounted_drop_discarded[of "SegName seg" "Disk w"] v(3,4) aw lw dw by simp
    show ?thesis
    proof (cases "reason = ''''")
      case True
      then have s': "r = Inr ()" "s' = drop_segment i (SegName seg) w"
        using dropping(5) by (auto simp: return_ok_def)
      show ?thesis
        using evict_done[OF st seg i seg_def t v(1) w(1) dw, of s'] s' aw True by (simp add: disk_only_def)
    next
      case False
      then have "faulting (write_losses (LossJournal (drop_segment i (SegName seg) w)))
        (drop_segment i (SegName seg) w) = (r, s')" using dropping(5) by simp
      then show ?thesis
      proof (cases rule: faultingE)
        case (err e x)
        then show ?thesis using write_losses_spec(2)[OF err(1)] ad aw by auto
      next
        case (ok a)
        note x = write_losses_spec[OF ok(1)]
        then have dx: "Disk s' = (Disk w)\<lparr>LossesFile := Sealed (LossJournal (drop_segment i (SegName seg) w))\<rparr>"
          by simp
        then show ?thesis
          using evict_done[OF st seg i seg_def t v(1) w(1) dw x(1)] False ad ok(2) by simp
      qed
    qed
  qed
  then show "accounted (Disk s') src = accounted (Disk s) src"
    and "r = Inr () \<Longrightarrow> steady s' \<and> Segments s' = remove_nth i (Segments s) \<and> kept s s' \<and> Fault s' = Fault s"
    by auto
qed


section \<open>Pruning\<close>

lemma select_victim_None:
  assumes "select_victim now incoming s = None"
  shows "used_bytes s + incoming \<le> LimitBytes s \<or> Segments s = []"
    "int (length (Segments s)) < max_segments \<or> Segments s = []"
    "\<And>seg. seg \<in> set (Segments s) \<Longrightarrow> SegAck seg \<noteq> SegSize seg \<and> sub64 now (FirstMS seg) < LimitAgeMS s"
  using assms by (auto simp: select_victim_def find_index_None not_le split: option.splits if_splits)

lemma prune_steady:
  assumes "steady s" "prune now incoming s = (r, s')"
  shows "accounted (Disk s') src = accounted (Disk s) src \<and>
    (r = Inr () \<longrightarrow> steady s' \<and> kept s s' \<and> Fault s' = Fault s \<and> select_victim now incoming s' = None)"
  using assms
proof (induction now incoming s rule: prune.induct)
  case (1 now incoming s)
  show ?case
  proof (cases "select_victim now incoming s")
    case None
    then show ?thesis using "1.prems" by (auto simp: prune.simps[of now incoming s])
  next
    case (Some v)
    obtain i reason where v: "v = (i, reason)" by fastforce
    obtain e t where e: "evict i reason s = (e, t)" by fastforce
    note ev = evict_steady[OF "1.prems"(1) Some[unfolded v] e]
    show ?thesis
    proof (cases e)
      case (Inl x)
      then have "r = Inl x" "s' = t"
        using "1.prems"(2) Some v e by (simp_all add: prune.simps[of now incoming s])
      then show ?thesis using ev(1) by simp
    next
      case (Inr x)
      have run: "prune now incoming t = (r, s')"
        using "1.prems"(2) Some v e Inr by (simp add: prune.simps[of now incoming s])
      have t: "steady t" "kept s t" "Fault t = Fault s" using ev(2) Inr by simp_all
      from "1.IH"[OF Some v[symmetric] e[symmetric] Inr t(1) run]
      show ?thesis using ev(1)[of src] t kept_trans by auto
    qed
  qed
qed

section \<open>What pruning leaves on disk is as it was\<close>

definition disk_offset :: "disk \<Rightarrow> string \<Rightarrow> int" where
  "disk_offset d = offset_of (Offsets (stored_offsets d))"

definition keeps :: "disk \<Rightarrow> disk \<Rightarrow> bool" where
  "keeps d d' \<longleftrightarrow> (\<forall>n g. map_of (SegFiles d') n = Some g \<longrightarrow>
     map_of (SegFiles d) n = Some g \<and> disk_offset d' n = disk_offset d n)"

lemma keeps_refl [simp]: "keeps d d"
  by (simp add: keeps_def)

lemma keeps_trans: "keeps d d1 \<Longrightarrow> keeps d1 d2 \<Longrightarrow> keeps d d2"
  unfolding keeps_def by metis

lemma keeps_removed:
  "SegFiles d' = AList.delete name (SegFiles d) \<Longrightarrow>
   (\<And>n. n \<noteq> name \<Longrightarrow> disk_offset d' n = disk_offset d n) \<Longrightarrow> keeps d d'"
  by (simp add: keeps_def AList.delete_conv split: if_split_asm)

lemma keeps_same: "SegFiles d' = SegFiles d \<Longrightarrow> Offsets (stored_offsets d') = Offsets (stored_offsets d) \<Longrightarrow> keeps d d'"
  by (simp add: keeps_def disk_offset_def)

lemma first_phase_disk:
  assumes "(if reason \<noteq> '''' then record_segment_loss seg reason else return_ok ()) s = (e, t)"
  shows "SegFiles (Disk t) = SegFiles (Disk s) \<and> OffsetsFile (Disk t) = OffsetsFile (Disk s) \<and> Journal t = Journal s"
proof (cases "reason = ''''")
  case False
  then have "record_segment_loss seg reason s = (e, t)" using assms by simp
  then show ?thesis
  proof (cases rule: record_segment_loss_cases)
    case (recorded f rs a b)
    then obtain sc where a: "a = s\<lparr>Schedule := sc\<rparr>" by blast
    show ?thesis using write_losses_spec[OF recorded(5)] recorded(6) a by (auto elim!: disk_onlyE)
  next
    case (unread x)
    then obtain sc where "t = s\<lparr>Schedule := sc\<rparr>" by blast
    then show ?thesis by simp
  next
    case (unwritten x f rs a)
    then obtain sc where a: "a = s\<lparr>Schedule := sc\<rparr>" by blast
    show ?thesis using write_losses_spec[OF unwritten(5)] a by (auto elim!: disk_onlyE)
  qed auto
qed (use assms in \<open>simp add: return_ok_def\<close>)

lemma evict_keeps:
  assumes st: "steady s" and run: "evict i reason s = (r, s')"
  shows "keeps (Disk s) (Disk s')"
proof -
  define name where "name = SegName (Segments s ! i)"
  have so: "stored_offsets (Disk s) = Journal s" using steadyD(5)[OF st] .
  have gone: "keeps (Disk s) d" if "SegFiles d = AList.delete name (SegFiles (Disk s))"
    "stored_offsets d = Journal s \<or> Offsets (stored_offsets d) = AList.delete name (Offsets (Journal s))" for d
    using that so by (intro keeps_removed) (auto simp: disk_offset_def offset_of_delete)
  have removed: "SegFiles (Disk u) = AList.delete name (SegFiles (Disk s)) \<and> stored_offsets (Disk u) = Journal s \<and>
      Journal u = Journal s"
    if "(if reason \<noteq> '''' then record_segment_loss (Segments s ! i) reason else return_ok ()) s = (Inr (), t)"
      "remove_seg name t = (Inr (), u)" for t u
    using first_phase_disk[OF that(1)] remove_seg_spec[OF that(2)] so
    by (auto simp: stored_offsets_def elim!: disk_onlyE)
  have forgot: "Offsets (Journal (forget_offset name v)) = AList.delete name (Offsets (Journal v))" for v
    by (simp add: forget_offset_def)
  have fd: "Disk (forget_offset name v) = Disk v" for v by (simp add: forget_offset_def)
  show ?thesis using run refl name_def
  proof (cases rule: evict_phases)
    case (first e)
    from first_phase_disk[OF first(1)] show ?thesis by (intro keeps_same) (simp_all add: stored_offsets_def)
  next
    case (removing e t)
    have t: "keeps (Disk s) (Disk t)"
      using first_phase_disk[OF removing(1)] by (intro keeps_same) (simp_all add: stored_offsets_def)
    from remove_seg_spec(2)[OF removing(2)] show ?thesis
    proof
      assume "Disk s' = (Disk t)\<lparr>SegFiles := AList.delete name (SegFiles (Disk t))\<rparr>"
      then have "keeps (Disk t) (Disk s')" by (intro keeps_removed) (simp_all add: disk_offset_def stored_offsets_def)
      with t show ?thesis by (rule keeps_trans)
    qed (use t in simp)
  next
    case (syncing e t u v)
    with removed[OF syncing(1,2)] sync_dir_spec(2)[OF syncing(3)] show ?thesis by (intro gone) simp_all
  next
    case (forgetting e t u v w)
    have v: "Disk v = Disk u" "Journal v = Journal u"
      using sync_dir_spec(2)[OF forgetting(3)] disk_onlyD(2)[OF sync_dir_spec(1)[OF forgetting(3)]] by simp_all
    have sw: "Disk s' = Disk w" using forgetting(6) by simp
    from write_offsets_spec(2)[OF forgetting(4)] removed[OF forgetting(1,2)] v show ?thesis unfolding sw
      by (intro gone) (auto simp: fd forgot stored_offsets_def)
  next
    case (dropping t u v w)
    have v: "Disk v = Disk u" "Journal v = Journal u"
      using sync_dir_spec(2)[OF dropping(3)] disk_onlyD(2)[OF sync_dir_spec(1)[OF dropping(3)]] by simp_all
    have w: "SegFiles (Disk w) = AList.delete name (SegFiles (Disk s))"
      "Offsets (stored_offsets (Disk w)) = AList.delete name (Offsets (Journal s))"
      using write_offsets_spec(2)[OF dropping(4)] removed[OF dropping(1,2)] v
      by (auto simp: fd forgot stored_offsets_def)
    define x where "x = drop_segment i name w"
    have x: "Disk x = Disk w" by (simp add: x_def drop_segment_def)
    have "SegFiles (Disk s') = SegFiles (Disk w) \<and> OffsetsFile (Disk s') = OffsetsFile (Disk w)"
    proof (cases "reason = ''''")
      case True
      then show ?thesis using dropping(5) x by (simp add: return_ok_def x_def)
    next
      case False
      then have f: "faulting (write_losses (LossJournal x)) x = (r, s')"
        using dropping(5) unfolding x_def[symmetric] by simp
      obtain r1 y where y: "write_losses (LossJournal x) x = (r1, y)" by fastforce
      with f have "Disk s' = Disk y" by (auto simp: faulting_def split: sum.splits)
      with write_losses_spec(2)[OF y] x show ?thesis by auto
    qed
    with w show ?thesis by (intro gone) (simp_all add: stored_offsets_def)
  qed
qed

lemma prune_keeps:
  assumes "steady s" "prune now incoming s = (r, s')"
  shows "keeps (Disk s) (Disk s')"
  using assms
proof (induction now incoming s rule: prune.induct)
  case (1 now incoming s)
  show ?case
  proof (cases "select_victim now incoming s")
    case None
    then show ?thesis using "1.prems" by (auto simp: prune.simps[of now incoming s])
  next
    case (Some v)
    obtain i reason where v: "v = (i, reason)" by fastforce
    obtain e t where e: "evict i reason s = (e, t)" by fastforce
    have k: "keeps (Disk s) (Disk t)" using evict_keeps[OF "1.prems"(1) e] .
    have step: "(case e of Inl x \<Rightarrow> (Inl x, t) | Inr _ \<Rightarrow> prune now incoming t) = (r, s')"
      using "1.prems"(2) Some v e by (simp add: prune.simps[of now incoming s])
    show ?thesis
    proof (cases e)
      case (Inl x)
      with step k show ?thesis by simp
    next
      case (Inr x)
      have t: "steady t" using evict_steady(2)[OF "1.prems"(1) Some[unfolded v] e] Inr by simp
      from step Inr have run: "prune now incoming t = (r, s')" by simp
      from "1.IH"[OF Some v[symmetric] e[symmetric] Inr t run] show ?thesis by (rule keeps_trans[OF k])
    qed
  qed
qed

section \<open>Append\<close>

text \<open>A valid record always fits the bound on encoded records.\<close>

lemma decimal_length_bound: "n < 10 ^ Suc k \<Longrightarrow> decimal_length n \<le> Suc k"
proof (induction k arbitrary: n)
  case 0
  then show ?case by (simp add: decimal_length.simps)
next
  case (Suc k)
  then have "n div 10 < 10 ^ Suc k" by (simp add: less_mult_imp_div_less mult.commute)
  then show ?case using Suc.IH by (subst decimal_length.simps) auto
qed

lemma int_length_bound:
  assumes "0 \<le> x" "x < 10 ^ Suc k"
  shows "int_length x \<le> Suc k"
proof -
  have "nat x < 10 ^ Suc k" using assms by (simp add: nat_less_iff)
  then show ?thesis using assms(1) decimal_length_bound[of "nat x" k] by (simp add: int_length_def)
qed

lemma valid_id_length: "valid_id s \<Longrightarrow> length s = 36"
  by (simp add: valid_id_def)

lemma valid_record_fits:
  assumes v: "validate_record r = Inr ()" and o: "in_int64 (ObservedMS r)"
  shows "record_length r \<le> 350000"
proof -
  have ids: "length (DeploymentID r) = 36" "length (Generation r) = 36" "length (HostID r) = 36"
    "length (BootID r) = 36" "length (SourceID r) = 36"
    using v by (auto simp: validate_record_def valid_id_length split: if_splits)
  have nums: "0 \<le> SessionGeneration r" "SessionGeneration r \<le> 9007199254740991" "0 \<le> ObservedMS r"
    "Sequence r \<le> 9007199254740991" "length (Payload r) \<le> 262144"
    using v by (auto simp: validate_record_def max_frame_bytes_def split: if_splits)
  have "int_length (SessionGeneration r) \<le> 16" "int_length (ObservedMS r) \<le> 19"
    "decimal_length (Sequence r) \<le> 16"
    using int_length_bound[of "SessionGeneration r" 15] int_length_bound[of "ObservedMS r" 18]
      decimal_length_bound[of "Sequence r" 15] nums o by (simp_all add: in_int64_def)
  moreover have "base64_length (length (Payload r)) \<le> 349528"
  proof -
    have "(length (Payload r) + 2) div 3 \<le> 262146 div 3"
      by (rule div_le_mono) (use nums(5) in simp)
    then show ?thesis unfolding base64_length_def by simp
  qed
  ultimately show ?thesis by (simp add: record_length_def ids)
qed


lemma map_of_update_file:
  "map_of (map (\<lambda>(k, f). if k = name then (k, g f) else (k, f)) fs) n =
   (if n = name then map_option g (map_of fs n) else map_of fs n)"
  by (induction fs) auto

lemma update_file_simps [simp]:
  "stored_offsets (update_file name g d) = stored_offsets d"
  "stored_losses (update_file name g d) = stored_losses d"
  "OffsetsFile (update_file name g d) = OffsetsFile d" "LossesFile (update_file name g d) = LossesFile d"
  "map fst (SegFiles (update_file name g d)) = map fst (SegFiles d)"
  by (auto simp: update_file_def)

lemma sum_list_update_file:
  fixes h :: "string \<times> seg_file \<Rightarrow> nat"
  assumes "distinct (map fst fs)" "map_of fs name = Some f"
  shows "sum_list (map h (map (\<lambda>(k, f). if k = name then (k, g f) else (k, f)) fs)) + h (name, f) =
         sum_list (map h fs) + h (name, g f)"
  using assms
proof (induction fs)
  case (Cons x fs)
  obtain k q where x: "x = (k, q)" by fastforce
  show ?case
  proof (cases "k = name")
    case True
    then have "map (\<lambda>(k, f). if k = name then (k, g f) else (k, f)) fs = fs"
      using Cons.prems x by (intro map_idI) force
    then show ?thesis using Cons.prems x True by (simp add: ac_simps)
  next
    case False
    then show ?thesis using Cons x by simp
  qed
qed simp

lemma accounted_update_file:
  assumes "distinct (map fst (SegFiles d))" "map_of (SegFiles d) name = Some f"
  shows "accounted (update_file name g d) src + file_share (stored_offsets d) (stored_losses d) src (name, f) =
         accounted d src + file_share (stored_offsets d) (stored_losses d) src (name, g f)"
  using sum_list_update_file[OF assms, of "file_share (stored_offsets d) (stored_losses d) src" g]
  by (simp add: accounted_def) (simp add: update_file_def)

lemma seg_ok_update_other:
  "seg_ok fs seg \<Longrightarrow> SegName seg \<noteq> name \<Longrightarrow>
   seg_ok (map (\<lambda>(k, f). if k = name then (k, g f) else (k, f)) fs) seg"
  by (simp add: seg_ok_def map_of_update_file)

lemma write_record_spec:
  assumes "write_record name rec s = (r, s')"
  shows "disk_only s s'"
    "r = Inr () \<Longrightarrow> Disk s' = update_file name (\<lambda>f. f\<lparr>Contents := Contents f @ [rec]\<rparr>) (Disk s)"
    "Disk s' = update_file name (\<lambda>f. f\<lparr>Contents := Contents f @ [rec]\<rparr>) (Disk s) \<or>
     Disk s' = Disk s \<or> (\<exists>n. Disk s' = update_file name (\<lambda>f. f\<lparr>Torn := n\<rparr>) (Disk s))"
  using assms
  by (auto simp: write_record_def next_outcome_def disk_only_def
      split: list.splits outcome.splits prod.splits)

text \<open>The account after a write to the file of a steady segment.\<close>

lemma accounted_write:
  assumes st: "steady s" and seg: "seg \<in> set (Segments s)" and d: "Disk t = Disk s"
    and w: "write_record (SegName seg) rec t = (r, t')"
  shows "accounted (Disk t') src = accounted (Disk s) src + count_source src [rec] \<or>
         r \<noteq> Inr () \<and> accounted (Disk t') src = accounted (Disk s) src"
proof -
  note D = steadyD[OF st]
  obtain f ps qs where f: "map_of (SegFiles (Disk s)) (SegName seg) = Some f" "Contents f = ps @ qs"
    "total_wire ps = SegAck seg" using D(3)[OF seg] by (elim seg_okE)
  let ?share = "\<lambda>f. file_share (Journal s) (LossJournal s) src (SegName seg, f)"
  have off: "offset_of (Offsets (Journal s)) (SegName seg) = total_wire ps" using D(4)[OF seg] f(3) by simp
  have app: "?share (f\<lparr>Contents := Contents f @ [rec]\<rparr>) = ?share f + count_source src [rec]"
    using unacked_append[of ps qs] unacked_append[of ps "qs @ [rec]"]
    by (simp add: file_share_def off D(7) f(2) count_source_def)
  have torn: "?share (f\<lparr>Torn := n\<rparr>) = ?share f" for n by (simp add: file_share_def)
  note upd = accounted_update_file[OF D(2) f(1), of _ src, unfolded D(5,6)]
  show ?thesis
    using write_record_spec[OF w] upd[of "\<lambda>f. f\<lparr>Contents := Contents f @ [rec]\<rparr>"] upd[of "\<lambda>f. f\<lparr>Torn := n\<rparr>" for n]
      app torn d by (cases r) (auto simp: d)
qed

lemma create_seg_spec:
  assumes "create_seg name s = (r, s')"
  shows "disk_only s s'"
    "Disk s' = (Disk s)\<lparr>SegFiles := SegFiles (Disk s) @ [(name, \<lparr>Contents = [], Torn = 0\<rparr>)]\<rparr> \<and>
       map_of (SegFiles (Disk s)) name = None
     \<or> r \<noteq> Inr () \<and> Disk s' = Disk s"
proof -
  have "disk_only s s' \<and> (Disk s' = (Disk s)\<lparr>SegFiles := SegFiles (Disk s) @ [(name, \<lparr>Contents = [], Torn = 0\<rparr>)]\<rparr> \<and>
       map_of (SegFiles (Disk s)) name = None
     \<or> r \<noteq> Inr () \<and> Disk s' = Disk s)"
  proof (cases "map_of (SegFiles (Disk s)) name")
    case None
    then show ?thesis using assms os_call_spec[of _ s r s'] by (auto simp: create_seg_def)
  next
    case (Some f)
    then show ?thesis using assms
      by (auto simp: create_seg_def next_outcome_def disk_only_def split: list.splits)
  qed
  then show "disk_only s s'"
    "Disk s' = (Disk s)\<lparr>SegFiles := SegFiles (Disk s) @ [(name, \<lparr>Contents = [], Torn = 0\<rparr>)]\<rparr> \<and>
       map_of (SegFiles (Disk s)) name = None
     \<or> r \<noteq> Inr () \<and> Disk s' = Disk s" by auto
qed

lemma accounted_create:
  "accounted (d\<lparr>SegFiles := SegFiles d @ [(name, \<lparr>Contents = [], Torn = 0\<rparr>)]\<rparr>) src = accounted d src"
  by (simp add: accounted_def file_share_def unacked_def count_source_def)


lemma seg_names_have_files:
  assumes "steady s" "seg \<in> set (Segments s)"
  shows "map_of (SegFiles (Disk s)) (SegName seg) \<noteq> None"
  using steadyD(3)[OF assms] by (auto elim: seg_okE)

text \<open>Opening a new segment keeps the account and the steady state.\<close>

definition fresh_segment :: "string \<Rightarrow> spool_record \<Rightarrow> segment" where
  "fresh_segment name r = \<lparr>SegName = name, SegSize = 0, SegAck = 0, FirstMS = ObservedMS r,
     SegBoot = BootID r, SegGeneration = Generation r\<rparr>"

definition kept_but_serial :: "spool \<Rightarrow> spool \<Rightarrow> bool" where
  "kept_but_serial s s' \<longleftrightarrow> LimitBytes s' = LimitBytes s \<and> LimitAgeMS s' = LimitAgeMS s \<and>
     Closed s' = Closed s \<and> ReadOnly s' = ReadOnly s \<and> SpoolID s' = SpoolID s"

lemma open_segment_steady:
  assumes st: "steady s" and run: "open_segment uuid rec s = (r, s')"
  shows "accounted (Disk s') src = accounted (Disk s) src"
    "r = Inr () \<Longrightarrow> steady s' \<and> (\<exists>name. Segments s' = Segments s @ [fresh_segment name rec]) \<and>
       kept_but_serial s s' \<and> Fault s' = Fault s"
proof -
  note D = steadyD[OF st]
  have "accounted (Disk s') src = accounted (Disk s) src \<and> (r = Inr () \<longrightarrow> steady s' \<and>
    (\<exists>name. Segments s' = Segments s @ [fresh_segment name rec]) \<and>
       kept_but_serial s s' \<and> Fault s' = Fault s)"
  proof (cases uuid)
    case None
    then show ?thesis using run by (auto simp: open_segment_def)
  next
    case (Some u)
    define name where "name = segment_name (NextSegment s + 1) u"
    let ?s0 = "s\<lparr>NextSegment := NextSegment s + 1\<rparr>"
    have "op_bind (create_seg name) (\<lambda>_. op_bind sync_dir (\<lambda>_ s.
        (Ok (), s\<lparr>Segments := Segments s @ [fresh_segment name rec], Active := name\<rparr>))) ?s0 = (r, s')"
      using run Some by (simp add: open_segment_def Let_def name_def fresh_segment_def)
    then show ?thesis
    proof (cases rule: op_bindE)
      case (err e)
      then show ?thesis using create_seg_spec(2)[OF err(1)] by (auto simp: accounted_create)
    next
      case c: (ok a t)
      have dt: "Disk t = (Disk s)\<lparr>SegFiles := SegFiles (Disk s) @ [(name, \<lparr>Contents = [], Torn = 0\<rparr>)]\<rparr>"
        "map_of (SegFiles (Disk s)) name = None"
        using create_seg_spec(2)[OF c(1)] by auto
      obtain d1 s1 where t: "t = ?s0\<lparr>Disk := d1, Schedule := s1\<rparr>"
        using create_seg_spec(1)[OF c(1)] by (auto elim: disk_onlyE)
      from c(2) show ?thesis
      proof (cases rule: op_bindE)
        case (err e)
        then show ?thesis using sync_dir_spec(2)[OF err(1)] dt by (simp add: accounted_create)
      next
        case y: (ok b v)
        obtain d2 s2 where v: "v = t\<lparr>Disk := d2, Schedule := s2\<rparr>"
          using sync_dir_spec(1)[OF y(1)] by (auto elim: disk_onlyE)
        have dv: "Disk v = Disk t" using sync_dir_spec(2)[OF y(1)] .
        have s': "s' = v\<lparr>Segments := Segments v @ [fresh_segment name rec], Active := name\<rparr>" "r = Inr ()"
          using y(2) by auto
        have fresh: "SegName seg \<noteq> name" if "seg \<in> set (Segments s)" for seg
          using seg_names_have_files[OF st that] dt(2) by auto
        have new: "name \<notin> live_names s" using fresh by (auto simp: live_names_def)
        then have off: "offset_of (Offsets (Journal s)) name = 0"
          using D(10) by (auto simp: offset_of_def map_of_eq_None_iff split: option.split dest!: map_of_SomeD)
        have files: "SegFiles (Disk s') = SegFiles (Disk s) @ [(name, \<lparr>Contents = [], Torn = 0\<rparr>)]"
          using s' dv dt(1) by simp
        have ok: "seg_ok (SegFiles (Disk s')) seg" if "seg \<in> set (Segments s)" for seg
          using D(3)[OF that] fresh[OF that]
          by (auto simp: files seg_ok_def map_add_def split: option.splits)
        have okn: "seg_ok (SegFiles (Disk s')) (fresh_segment name rec)"
          using dt(2) by (simp add: files seg_ok_def fresh_segment_def map_add_def segment_bytes_def)
        have segs: "Segments s' = Segments s @ [fresh_segment name rec]" using s' v t by simp
        have jn: "Journal s' = Journal s" "LossJournal s' = LossJournal s" using s' v t by simp_all
        have df: "OffsetsFile (Disk s') = Sealed (Journal s)" "LossesFile (Disk s') = Sealed (LossJournal s)"
          using s' dv dt(1) D(8,9) by simp_all
        have live: "live_names s \<subseteq> live_names s'" by (auto simp: live_names_def segs)
        have keys: "\<forall>(n, v) \<in> set (Offsets (Journal s)). n \<in> live_names s'"
          "\<forall>(n, v) \<in> set (Quarantined (Journal s)). n \<in> live_names s'"
          using D(10,11) live by force+
        have names: "distinct (map SegName (Segments s) @ [name])"
          using D(1) new by (simp add: live_names_def)
        have whole: "active_whole s'"
          using s' files dt(2) by (simp add: active_whole_def map_add_def)
        have "steady s'"
          unfolding steady_def segs jn df files
          using D(2,4,7) names off ok okn dt(2) keys whole
          by (auto simp: list_all_iff files fresh_segment_def map_of_eq_None_iff)
        then show ?thesis using segs s' v t dv dt(1)
          by (auto simp: accounted_create kept_but_serial_def)
      qed
    qed
  qed
  then show "accounted (Disk s') src = accounted (Disk s) src"
    "r = Inr () \<Longrightarrow> steady s' \<and> (\<exists>name. Segments s' = Segments s @ [fresh_segment name rec]) \<and>
       kept_but_serial s s' \<and> Fault s' = Fault s" by auto
qed


text \<open>The segment \<open>Append\<close> writes to, old or new, is the last one and has room.\<close>

definition takes_record :: "spool \<Rightarrow> spool_record \<Rightarrow> bool" where
  "takes_record s r \<longleftrightarrow> Segments s \<noteq> [] \<and>
     (let lst = last (Segments s) in SegSize lst + wire_length r \<le> segment_bytes \<and>
      SegBoot lst = BootID r \<and> SegGeneration lst = Generation r)"

lemma wire_fits_segment: "record_length r \<le> max_record_bytes \<Longrightarrow> wire_length r \<le> segment_bytes"
  by (simp add: wire_length_def spool_constants)

lemma open_seg_disk_only:
  "open_seg name s = (r, s') \<Longrightarrow> disk_only s s' \<and> Disk s' = Disk s"
  by (auto simp: open_seg_def next_outcome_def disk_only_def
      split: list.splits outcome.splits prod.splits option.splits)

lemma write_steady:
  assumes st: "steady s" and fit: "takes_record s rec" and rd: "readable rec"
    and t: "t = s\<lparr>Disk := Disk s, Schedule := sc\<rparr>"
    and w: "write_record (SegName (last (Segments s))) rec t = (Inr (), t')"
  shows "steady (grow_last (wire_length rec) t')"
    "used_bytes (grow_last (wire_length rec) t') = used_bytes s + wire_length rec"
    "length (Segments (grow_last (wire_length rec) t')) = length (Segments s)"
    "kept s (grow_last (wire_length rec) t')" "Fault (grow_last (wire_length rec) t') = Fault s"
proof -
  note D = steadyD[OF st]
  define lst where "lst = last (Segments s)"
  define front where "front = butlast (Segments s)"
  define x where "x = grow_last (wire_length rec) t'"
  have segs: "Segments s = front @ [lst]" using fit by (simp add: takes_record_def lst_def front_def)
  have lin: "lst \<in> set (Segments s)" by (simp add: segs)
  obtain d1 s1 where t': "t' = t\<lparr>Disk := d1, Schedule := s1\<rparr>"
    using write_record_spec(1)[OF w] by (auto elim: disk_onlyE)
  have d1: "d1 = update_file (SegName lst) (\<lambda>f. f\<lparr>Contents := Contents f @ [rec]\<rparr>) (Disk s)"
    using write_record_spec(2)[OF w refl] t' t by (simp add: lst_def)
  have x: "Segments x = front @ [lst\<lparr>SegSize := SegSize lst + wire_length rec\<rparr>]" "Disk x = d1"
    "Journal x = Journal s" "LossJournal x = LossJournal s"
    using t' t segs by (simp_all add: x_def grow_last_def lst_def front_def Let_def)
  show "used_bytes (grow_last (wire_length rec) t') = used_bytes s + wire_length rec"
    "length (Segments (grow_last (wire_length rec) t')) = length (Segments s)"
    unfolding x_def[symmetric] by (simp_all add: used_bytes_def x segs)
  show "kept s (grow_last (wire_length rec) t')" "Fault (grow_last (wire_length rec) t') = Fault s"
    using t' t by (simp_all add: kept_def grow_last_def Let_def)
  have other: "seg_ok (SegFiles d1) seg" if "seg \<in> set front" for seg
  proof -
    have "SegName seg \<noteq> SegName lst" using D(1) imageI[OF that, of SegName] by (auto simp: segs)
    then show ?thesis using D(3)[of seg] that
      by (simp add: d1 update_file_def segs seg_ok_update_other)
  qed
  obtain f ps qs where f: "map_of (SegFiles (Disk s)) (SegName lst) = Some f" "\<not> torn_tail f"
    "Contents f = ps @ qs" "total_wire ps = SegAck lst" "SegSize lst = SegAck lst + total_wire qs"
    "list_all readable (Contents f)"
    "list_all (\<lambda>r. BootID r = SegBoot lst \<and> Generation r = SegGeneration lst) (Contents f)"
    using D(3)[OF lin] by (elim seg_okE)
  have "seek (SegAck lst) (ps @ qs @ [rec]) = Some (qs @ [rec])"
    using seek_append[of ps "qs @ [rec]"] f(4) by simp
  moreover have "0 \<le> SegAck lst" using f(4) total_wire_nonneg[of ps] by simp
  moreover have "0 \<le> total_wire qs" "0 \<le> wire_length rec"
    using total_wire_nonneg wire_length_pos[of rec] by (simp_all add: less_imp_le)
  ultimately have own: "seg_ok (SegFiles d1) (lst\<lparr>SegSize := SegSize lst + wire_length rec\<rparr>)"
    using f rd fit by (simp add: seg_ok_def d1 update_file_def map_of_update_file takes_record_def lst_def Let_def)
  have live: "live_names x = live_names s" by (simp add: live_names_def x segs)
  have df: "OffsetsFile d1 = Sealed (Journal s)" "LossesFile d1 = Sealed (LossJournal s)"
    "distinct (map fst (SegFiles d1))"
    using D(2,8,9) by (simp_all add: d1)
  have "Active x = Active s" using t' t by (simp add: x_def grow_last_def Let_def)
  then have whole: "active_whole x"
    using D(12) by (auto simp: active_whole_def x(2) d1 update_file_def map_of_update_file split: option.splits)
  show "steady (grow_last (wire_length rec) t')"
    unfolding x_def[symmetric] steady_def x(2-4) live df
    using D(1,4,7,10,11) other own df(3) whole by (auto simp: list_all_iff x segs)
qed

lemma writable_spec: "writable s = (r, s') \<Longrightarrow> s' = s \<and> (r = Inr () \<longrightarrow> Fault s = None \<and> \<not> Closed s \<and> \<not> ReadOnly s)"
  by (auto simp: writable_def ready_def op_bind_def split: option.splits if_splits)

lemma append_account:
  assumes st: "steady s" and run: "append now uuid rec s = (r, s')"
    and lim: "max_record_bytes \<le> LimitBytes s" and ms: "in_int64 (ObservedMS rec)"
  shows "accounted (Disk s') src = accounted (Disk s) src + count_source src [rec] \<or>
         r \<noteq> Inr () \<and> accounted (Disk s') src = accounted (Disk s) src" (is ?acc)
    "r = Inr () \<Longrightarrow> steady s' \<and> kept_but_serial s s' \<and> used_bytes s' \<le> LimitBytes s \<and>
       int (length (Segments s')) \<le> max_segments \<and> Fault s' = None"
proof -
  have "?acc \<and> (r = Inr () \<longrightarrow> steady s' \<and> kept_but_serial s s' \<and> used_bytes s' \<le> LimitBytes s \<and>
       int (length (Segments s')) \<le> max_segments \<and> Fault s' = None)"
    using run[unfolded append_def]
  proof (cases rule: op_bindE)
    case (err e)
    then show ?thesis using writable_spec[OF err(1)] by auto
  next
    case w: (ok a s1)
    have s1: "s1 = s" "Fault s = None" using writable_spec[OF w(1)] by auto
    from w(2)[unfolded s1] show ?thesis
    proof (cases rule: op_bindE)
      case (err e)
      then show ?thesis by (auto simp: from_result_def)
    next
      case v: (ok b s2)
      then have s2: "s2 = s" "validate_record rec = Inr ()" by (auto simp: from_result_def)
      show ?thesis
      proof (cases "record_length rec > max_record_bytes")
        case True
        then show ?thesis using v(2) s2 by (auto simp: fail_with_def)
      next
        case False
        then have rd: "readable rec" using s2 by (simp add: readable_def)
        have wl: "wire_length rec \<le> LimitBytes s"
          using valid_record_fits[OF s2(2) ms] lim by (simp add: wire_length_def spool_constants)
        from v(2) False s2 have "op_bind (prune now (wire_length rec)) (\<lambda>_.
          op_bind (\<lambda>s. if fits_active rec s then (Ok (), s) else open_segment uuid rec s) (\<lambda>_ s.
          op_bind (open_seg (SegName (last (Segments s)))) (\<lambda>_.
          op_bind (faulting (write_record (SegName (last (Segments s))) rec)) (\<lambda>_ s.
            (Ok (), grow_last (wire_length rec) s))) s)) s = (r, s')" by (simp add: Let_def)
        then show ?thesis
        proof (cases rule: op_bindE)
          case (err e)
          then show ?thesis using prune_steady[OF st err(1)] by auto
        next
          case p: (ok c s3)
          have s3: "accounted (Disk s3) src = accounted (Disk s) src" "steady s3" "kept s s3" "Fault s3 = None"
            "select_victim now (wire_length rec) s3 = None"
            using prune_steady[OF st p(1)] s1(2) by auto
          have cap: "used_bytes s3 + wire_length rec \<le> LimitBytes s"
            "int (length (Segments s3)) < max_segments"
            using select_victim_None(1,2)[OF s3(5)] s3(3) wl
            by (auto simp: kept_def used_bytes_def max_segments_def)
          from p(2) show ?thesis
          proof (cases rule: op_bindE)
            case (err e)
            then show ?thesis using open_segment_steady(1)[OF s3(2)] s3(1) by (auto split: if_splits)
          next
            case g: (ok d s4)
            have s4: "accounted (Disk s4) src = accounted (Disk s) src \<and> steady s4 \<and> takes_record s4 rec \<and>
                kept_but_serial s s4 \<and> Fault s4 = None \<and> used_bytes s4 = used_bytes s3 \<and>
                length (Segments s4) \<le> Suc (length (Segments s3))"
            proof (cases "fits_active rec s3")
              case True
              then show ?thesis using g(1) s3
                by (auto simp: fits_active_def takes_record_def kept_def kept_but_serial_def Let_def)
            next
              case False
              then have o: "open_segment uuid rec s3 = (Inr d, s4)" using g(1) by simp
              show ?thesis using open_segment_steady[OF s3(2) o] s3 wire_fits_segment[of rec] \<open>\<not> record_length rec > max_record_bytes\<close>
                by (auto simp: takes_record_def fresh_segment_def used_bytes_def kept_def kept_but_serial_def)
            qed
            from g(2) show ?thesis
            proof (cases rule: op_bindE)
              case (err e)
              then show ?thesis using open_seg_frame[OF err(1)] s4 by auto
            next
              case o: (ok f s5)
              obtain sc where s5: "s5 = s4\<lparr>Disk := Disk s4, Schedule := sc\<rparr>"
                using open_seg_disk_only[OF o(1)] by (metis disk_only_def)
              have lst: "last (Segments s4) \<in> set (Segments s4)" using s4 by (simp add: takes_record_def)
              from o(2) show ?thesis
              proof (cases rule: op_bindE)
                case (err e)
                from err(1) obtain t where "write_record (SegName (last (Segments s4))) rec s5 = (Inl e, t)"
                  "s' = t\<lparr>Fault := Some e\<rparr>" by (auto elim: faultingE)
                then show ?thesis
                  using accounted_write[OF s4[THEN conjunct2, THEN conjunct1] lst, of s5 rec "Inl e" t src] s5 err(2) s4
                  by auto
              next
                case y: (ok h s6)
                then have wr: "write_record (SegName (last (Segments s4))) rec s5 = (Inr (), s6)"
                  by (auto elim: faultingE)
                note fin = write_steady[OF s4[THEN conjunct2, THEN conjunct1] _ rd s5 wr]
                have "Disk s5 = Disk s4" using s5 by simp
                with accounted_write[OF s4[THEN conjunct2, THEN conjunct1] lst _ wr, of src]
                have "accounted (Disk s6) src = accounted (Disk s) src + count_source src [rec]"
                  using s4 by simp
                then show ?thesis using fin y(2) s4 cap
                  by (auto simp: kept_def kept_but_serial_def grow_last_def Let_def)
              qed
            qed
          qed
        qed
      qed
    qed
  qed
  then show ?acc "r = Inr () \<Longrightarrow> steady s' \<and> kept_but_serial s s' \<and> used_bytes s' \<le> LimitBytes s \<and>
       int (length (Segments s')) \<le> max_segments \<and> Fault s' = None" by auto
qed


section \<open>ReadPending and Ack\<close>

lemma op_bind_Ok: "m s = (Inr a, s') \<Longrightarrow> op_bind m f s = f a s'"
  by (simp add: op_bind_def)

definition payload_bytes :: "spool_record list \<Rightarrow> int" where
  "payload_bytes rs = sum_list (map (\<lambda>r. int (length (Payload r))) rs)"

lemma payload_bytes_simps [simp]:
  "payload_bytes [] = 0" "payload_bytes (r # rs) = int (length (Payload r)) + payload_bytes rs"
  by (simp_all add: payload_bytes_def)

text \<open>What the reading loop has collected is a prefix of what is left of the segment.\<close>

lemma read_loop_prefix:
  assumes "read_loop bytes frames torn rs p = Inr p'"
  shows "\<exists>ts us. rs = ts @ us \<and> Records p' = Records p @ ts \<and>
    End (PendingCursor p') = End (PendingCursor p) + total_wire ts \<and>
    PendingBytes p' = PendingBytes p + payload_bytes ts \<and>
    Owner (PendingCursor p') = Owner (PendingCursor p) \<and>
    CursorSegment (PendingCursor p') = CursorSegment (PendingCursor p) \<and>
    Start (PendingCursor p') = Start (PendingCursor p) \<and> list_all readable ts"
  using assms
proof (induction bytes frames torn rs p arbitrary: p' rule: read_loop.induct)
  case (1 bytes frames torn p)
  then have "p' = p" by (auto split: if_splits)
  then show ?case by simp
next
  case (2 bytes frames torn r rs p)
  show ?case
  proof (cases "length (Records p) < frames \<and> readable r \<and>
      \<not> (length (Records p) > 0 \<and> PendingBytes p + int (length (Payload r)) > bytes)")
    case False
    then have "p' = p" using 2(2) by (auto split: if_splits)
    then show ?thesis by (intro exI[of _ "[]"] exI[of _ "r # rs"]) auto
  next
    case True
    let ?q = "p\<lparr>Records := Records p @ [r], PendingBytes := PendingBytes p + int (length (Payload r)),
           PendingCursor := (PendingCursor p)\<lparr>End := End (PendingCursor p) + wire_length r\<rparr>\<rparr>"
    have "read_loop bytes frames torn rs ?q = Inr p'" using 2(2) True by (auto split: if_splits)
    from "2.IH"[OF _ _ _ this] True obtain ts us where
      "rs = ts @ us" "Records p' = Records ?q @ ts"
      "End (PendingCursor p') = End (PendingCursor ?q) + total_wire ts"
      "PendingBytes p' = PendingBytes ?q + payload_bytes ts"
      "Owner (PendingCursor p') = Owner (PendingCursor ?q)"
      "CursorSegment (PendingCursor p') = CursorSegment (PendingCursor ?q)"
      "Start (PendingCursor p') = Start (PendingCursor ?q)" "list_all readable ts"
      by auto
    then show ?thesis using True by (intro exI[of _ "r # ts"] exI[of _ us]) auto
  qed
qed

lemma read_loop_bounds:
  assumes "read_loop bytes frames torn rs p = Inr p'" "length (Records p) \<le> frames"
    "max_frame_bytes \<le> bytes" "PendingBytes p \<le> bytes" "Records p = [] \<Longrightarrow> PendingBytes p = 0"
  shows "length (Records p') \<le> frames \<and> PendingBytes p' \<le> bytes"
  using assms
proof (induction bytes frames torn rs p arbitrary: p' rule: read_loop.induct)
  case (2 bytes frames torn r rs p)
  show ?case
  proof (cases "length (Records p) < frames \<and> readable r \<and>
      \<not> (length (Records p) > 0 \<and> PendingBytes p + int (length (Payload r)) > bytes)")
    case False
    then have "p' = p" using 2(2) by (auto split: if_splits)
    then show ?thesis using 2 by simp
  next
    case True
    have "int (length (Payload r)) \<le> max_frame_bytes"
      using True by (auto simp: readable_def validate_record_def split: if_splits)
    then show ?thesis using "2.IH"[of p'] "2.prems" True by (auto split: if_splits)
  qed
qed (auto split: if_splits)

lemma read_loop_progress:
  assumes "read_loop bytes frames False (r # rs) p = Inr p'" "Records p = []" "0 < frames"
  shows "Records p' \<noteq> []"
  using assms read_loop_prefix[of bytes frames False rs _ p'] by (auto split: if_splits) fastforce

lemma read_loop_total:
  assumes "list_all readable rs"
  shows "\<exists>p'. read_loop bytes frames False rs p = Inr p'"
  using assms by (induction rs arbitrary: p) auto

text \<open>
  ReadPending on a steady spool: either nothing is offered, or the records are the prefix of
  the unacknowledged records of one offered segment, within both limits and not empty.
\<close>

lemma find_SomeD: "find P xs = Some x \<Longrightarrow> x \<in> set xs \<and> P x"
  by (induction xs) (auto split: if_splits)

definition reads_prefix :: "int \<Rightarrow> int \<Rightarrow> spool \<Rightarrow> segment \<Rightarrow> pending \<Rightarrow> bool" where
  "reads_prefix maxBytes maxFrames s seg p \<longleftrightarrow>
     (\<exists>ps us f. map_of (SegFiles (Disk s)) (SegName seg) = Some f \<and>
        Contents f = ps @ Records p @ us \<and> total_wire ps = SegAck seg \<and>
        list_all readable (Records p)) \<and>
     Records p \<noteq> [] \<and> int (length (Records p)) \<le> maxFrames \<and> PendingBytes p \<le> maxBytes \<and>
     PendingBytes p = payload_bytes (Records p) \<and>
     PendingCursor p = \<lparr>Owner = Some (SpoolID s), CursorSegment = SegName seg, Start = SegAck seg,
                        End = SegAck seg + total_wire (Records p)\<rparr>"

lemma read_segment_steady:
  assumes st: "steady s" and seg: "seg \<in> set (Segments s)" and lt: "SegAck seg < SegSize seg"
    and run: "read_segment bytes frames seg s = (Inr p, s')" and b: "max_frame_bytes \<le> bytes" "0 < frames"
  shows "disk_only s s' \<and> Disk s' = Disk s \<and> reads_prefix bytes (int frames) s seg p"
proof -
  obtain f ps qs where f: "map_of (SegFiles (Disk s)) (SegName seg) = Some f" "\<not> torn_tail f"
    "Contents f = ps @ qs" "total_wire ps = SegAck seg" "SegSize seg = SegAck seg + total_wire qs"
    "seek (SegAck seg) (Contents f) = Some qs" "list_all readable (Contents f)"
    using steadyD(3)[OF st seg] by (elim seg_okE)
  from run[unfolded read_segment_def] show ?thesis
  proof (cases rule: op_bindE)
    case o: (ok g t)
    have g: "g = f" using open_seg_frame[OF o(1)] f(1) by auto
    let ?p0 = "\<lparr>Records = [], PendingCursor = \<lparr>Owner = Some (SpoolID s), CursorSegment = SegName seg,
             Start = SegAck seg, End = SegAck seg\<rparr>, PendingBytes = 0\<rparr>"
    have rl: "read_loop bytes frames False qs ?p0 = Inr p" and t: "s' = t"
      using o(2) f(2,6) g by (auto simp: from_result_def)
    have ne: "qs \<noteq> []" using lt f(5) by auto
    obtain ts us where p: "qs = ts @ us" "Records p = ts" "End (PendingCursor p) = SegAck seg + total_wire ts"
      "PendingBytes p = payload_bytes ts" "Owner (PendingCursor p) = Some (SpoolID s)"
      "CursorSegment (PendingCursor p) = SegName seg" "Start (PendingCursor p) = SegAck seg" "list_all readable ts"
      using read_loop_prefix[OF rl] by auto
    have cur: "PendingCursor p = \<lparr>Owner = Some (SpoolID s), CursorSegment = SegName seg, Start = SegAck seg,
                        End = SegAck seg + total_wire (Records p)\<rparr>"
      using p by (cases "PendingCursor p") simp
    have bnd: "length (Records p) \<le> frames \<and> PendingBytes p \<le> bytes"
      using read_loop_bounds[OF rl] b by (simp add: max_frame_bytes_def)
    obtain q qs' where q: "qs = q # qs'" using ne by (cases qs) simp
    have nonempty: "Records p \<noteq> []"
      by (rule read_loop_progress[OF rl[unfolded q]]) (simp_all add: b(2))
    have contents: "Contents f = ps @ Records p @ us" "list_all readable (Records p)"
      using f(3) p(1,2,8) by simp_all
    have bytes: "PendingBytes p = payload_bytes (Records p)"
      using p(2,4) by simp
    have "reads_prefix bytes (int frames) s seg p"
      unfolding reads_prefix_def
      by (intro conjI exI[of _ ps] exI[of _ us] exI[of _ f])
        (use f(1,4) contents bnd nonempty bytes cur in simp_all)
    then show ?thesis using open_seg_disk_only[OF o(1)] t by simp
  qed auto
qed


lemma steady_disk_only:
  assumes "steady s" "disk_only s s'" "Disk s' = Disk s"
  shows "steady s'"
proof -
  note d = disk_onlyD[OF assms(2)]
  show ?thesis using assms(1) by (simp add: steady_def active_whole_def live_names_def d(1-4) assms(3))
qed

lemma read_pending_steady:
  assumes st: "steady s" and run: "read_pending now boot generation current mb mf s = (r, s')"
  shows "accounted (Disk s') src = accounted (Disk s) src"
    "r = Inr p \<Longrightarrow> steady s' \<and> kept s s' \<and> Fault s' = None \<and> \<not> Closed s' \<and> \<not> ReadOnly s' \<and>
       (case find (offered now boot generation current s') (search_order current s') of
          None \<Rightarrow> p = no_pending | Some seg \<Rightarrow> reads_prefix mb mf s' seg p)"
proof -
  have "accounted (Disk s') src = accounted (Disk s) src \<and> (r = Inr p \<longrightarrow> steady s' \<and> kept s s' \<and>
       Fault s' = None \<and> \<not> Closed s' \<and> \<not> ReadOnly s' \<and>
       (case find (offered now boot generation current s') (search_order current s') of
          None \<Rightarrow> p = no_pending | Some seg \<Rightarrow> reads_prefix mb mf s' seg p))"
    using run[unfolded read_pending_def]
  proof (cases rule: op_bindE)
    case (err e)
    then show ?thesis using writable_spec[OF err(1)] by auto
  next
    case w: (ok a s1)
    have s1: "s1 = s" "Fault s = None" "\<not> Closed s" "\<not> ReadOnly s" using writable_spec[OF w(1)] by auto
    show ?thesis
    proof (cases "mb < max_frame_bytes \<or> mb > 1048576 \<or> mf < 1 \<or> mf > 64")
      case True
      then show ?thesis using w(2) s1 by (auto simp: fail_with_def)
    next
      case False
      have "op_bind (prune now 0) (\<lambda>_ s.
         case find (offered now boot generation current s) (search_order current s) of
           None \<Rightarrow> (Ok no_pending, s)
         | Some seg \<Rightarrow> read_segment mb (nat mf) seg s) s = (r, s')"
        using w(2) False s1 by (simp add: Let_def)
      then show ?thesis
      proof (cases rule: op_bindE)
        case (err e)
        then show ?thesis using prune_steady[OF st err(1)] by auto
      next
        case p: (ok b t)
        have t: "accounted (Disk t) src = accounted (Disk s) src" "steady t" "kept s t" "Fault t = Fault s"
          using prune_steady[OF st p(1)] by auto
        show ?thesis
        proof (cases "find (offered now boot generation current t) (search_order current t)")
          case None
          then have "s' = t" "r = Inr no_pending" using p(2) by auto
          then show ?thesis using None t s1 by (simp add: kept_def)
        next
          case (Some seg)
          have seg: "seg \<in> set (Segments t)" "offered now boot generation current t seg"
            using find_SomeD[OF Some] by auto
          have rs: "read_segment mb (nat mf) seg t = (r, s')" using p(2) Some by simp
          show ?thesis
          proof (cases r)
            case (Inl e)
            have "Disk s' = Disk t" using rs
              by (auto simp: read_segment_def from_result_def elim!: op_bindE dest!: open_seg_disk_only)
            then show ?thesis using t Inl by simp
          next
            case (Inr q)
            have "disk_only t s' \<and> Disk s' = Disk t \<and> reads_prefix mb mf t seg q"
              using read_segment_steady[OF t(2) seg(1) _ rs[unfolded Inr]] seg(2) False by (auto simp: offered_def)
            then have d: "disk_only t s'" "Disk s' = Disk t" "reads_prefix mb mf t seg q" by auto
            note fr = disk_onlyD[OF d(1)]
            have "offered now boot generation current s' = offered now boot generation current t"
              by (rule ext) (simp add: offered_def quarantine_code_def fr)
            moreover have "reads_prefix mb mf s' seg q" using d(3) by (simp add: reads_prefix_def fr d(2))
            moreover have "search_order current s' = search_order current t" by (simp add: search_order_def fr)
            ultimately show ?thesis
              using steady_disk_only[OF t(2) d(1,2)] t s1 Some d(2) Inr by (auto simp: kept_def fr)
          qed
        qed
      qed
    qed
  qed
  then show "accounted (Disk s') src = accounted (Disk s) src"
    "r = Inr p \<Longrightarrow> steady s' \<and> kept s s' \<and> Fault s' = None \<and> \<not> Closed s' \<and> \<not> ReadOnly s' \<and>
       (case find (offered now boot generation current s') (search_order current s') of
          None \<Rightarrow> p = no_pending | Some seg \<Rightarrow> reads_prefix mb mf s' seg p)" by auto
qed


text \<open>Moving the acknowledged offset of one segment, in the journal and in memory.\<close>

lemma offset_of_update: "offset_of (AList.update name n os) m = (if m = name then n else offset_of os m)"
  by (simp add: offset_of_def update_conv)

lemma sum_list_one_key:
  fixes g h :: "string \<times> seg_file \<Rightarrow> nat"
  assumes "distinct (map fst fs)" "map_of fs name = Some f"
    and "\<And>x. x \<in> set fs \<Longrightarrow> fst x \<noteq> name \<Longrightarrow> g x = h x"
  shows "sum_list (map g fs) + h (name, f) = sum_list (map h fs) + g (name, f)"
proof -
  have "map g (AList.delete name fs) = map h (AList.delete name fs)"
    using assms(3) by (intro map_cong) (auto simp: AList.delete_eq)
  from arg_cong[OF this, of sum_list] show ?thesis
    using sum_list_delete[OF assms(1,2), of g] sum_list_delete[OF assms(1,2), of h] by simp
qed

lemma accounted_ack:
  assumes keys: "distinct (map fst (SegFiles d))" and f: "map_of (SegFiles d) name = Some f"
    and c: "Contents f = ps @ rs @ us" and o: "offset_of (Offsets (stored_offsets d)) name = total_wire ps"
    and j: "Offsets j = AList.update name (total_wire ps + total_wire rs) (Offsets (stored_offsets d))"
    and n: "name \<notin> set (Discarded (stored_losses d))"
  shows "accounted (d\<lparr>OffsetsFile := Sealed j\<rparr>) src + count_source src rs = accounted d src"
proof -
  let ?g = "file_share j (stored_losses d) src" and ?h = "file_share (stored_offsets d) (stored_losses d) src"
  have "?g x = ?h x" if "x \<in> set (SegFiles d)" "fst x \<noteq> name" for x
    using that by (simp add: file_share_def j offset_of_update split_beta)
  from sum_list_one_key[OF keys f, of ?g ?h, OF this]
  have "sum_list (map ?g (SegFiles d)) + ?h (name, f) = sum_list (map ?h (SegFiles d)) + ?g (name, f)" by blast
  moreover have "?h (name, f) = count_source src (rs @ us)"
    using n o unacked_append[of ps "rs @ us"] by (simp add: file_share_def c)
  moreover have "?g (name, f) = count_source src us"
    using n unacked_append[of "ps @ rs" us] by (simp add: file_share_def c j offset_of_update)
  ultimately show ?thesis by (simp add: accounted_def count_source_def)
qed

lemma find_segment:
  assumes "distinct (map SegName segs)" "seg \<in> set segs"
  shows "find (\<lambda>q. SegName q = SegName seg) segs = Some seg"
  using assms by (induction segs) (auto simp: image_iff)

lemma live_names_set_ack [simp]: "live_names (set_ack name n s) = live_names s"
  by (auto simp: live_names_def set_ack_def image_iff)

lemma names_set_ack [simp]: "map SegName (Segments (set_ack name n s)) = map SegName (Segments s)"
  by (simp add: set_ack_def)

lemma update_keys: "fst ` set (AList.update k v xs) = insert k (fst ` set xs)"
  by (induction xs) auto

lemma ack_moved_steady:
  assumes st: "steady s" and seg: "seg \<in> set (Segments s)" and pre: "reads_prefix mb mf s seg p"
    and t: "t = (set_offset (SegName seg) (End (PendingCursor p)) s)
              \<lparr>Disk := (Disk s)\<lparr>OffsetsFile := Sealed (Journal (set_offset (SegName seg) (End (PendingCursor p)) s))\<rparr>,
               Schedule := sc\<rparr>"
  shows "steady (set_ack (SegName seg) (End (PendingCursor p)) t)"
    "accounted (Disk t) src + count_source src (Records p) = accounted (Disk s) src"
proof -
  note D = steadyD[OF st]
  let ?n = "End (PendingCursor p)" and ?u = "set_ack (SegName seg) (End (PendingCursor p)) t"
  obtain ps us f where p: "map_of (SegFiles (Disk s)) (SegName seg) = Some f"
    "Contents f = ps @ Records p @ us" "total_wire ps = SegAck seg"
    "?n = SegAck seg + total_wire (Records p)"
    using pre by (auto simp: reads_prefix_def)
  have j: "Offsets (Journal t) = AList.update (SegName seg) ?n (Offsets (Journal s))"
    "Quarantined (Journal t) = Quarantined (Journal s)" "OffsetsFile (Disk t) = Sealed (Journal t)"
    "LossJournal t = LossJournal s" "Segments t = Segments s" "SegFiles (Disk t) = SegFiles (Disk s)"
    "LossesFile (Disk t) = LossesFile (Disk s)"
    by (simp_all add: t set_offset_def)
  have dt: "Disk t = (Disk s)\<lparr>OffsetsFile := Sealed (Journal t)\<rparr>" by (simp add: t set_offset_def)
  show "accounted (Disk t) src + count_source src (Records p) = accounted (Disk s) src"
    unfolding dt
    by (rule accounted_ack[OF D(2) p(1,2)]) (use D(4)[OF seg] D(5,6,7) p(3,4) j(1) in simp_all)
  have own: "seg_ok (SegFiles (Disk s)) (seg\<lparr>SegAck := ?n\<rparr>)"
  proof -
    obtain g where g: "map_of (SegFiles (Disk s)) (SegName seg) = Some g" "\<not> torn_tail g"
      "list_all readable (Contents g)" "total_wire (Contents g) = SegSize seg"
      "list_all (\<lambda>r. BootID r = SegBoot seg \<and> Generation r = SegGeneration seg) (Contents g)"
      "SegSize seg \<le> segment_bytes"
      using D(3)[OF seg] by (auto simp: seg_ok_def split: option.splits)
    have "g = f" using g(1) p(1) by simp
    have "seek ?n (Contents f) = Some us"
      using seek_append[of "ps @ Records p" us] p(2,3,4) by simp
    moreover have "0 \<le> ?n" using p(3,4) total_wire_nonneg[of ps] total_wire_nonneg[of "Records p"] by linarith
    moreover have "?n \<le> SegSize seg"
      using g(4) p(2,3,4) total_wire_nonneg[of us] \<open>g = f\<close> by (simp del: total_wire_nonneg)
    ultimately show ?thesis using g \<open>g = f\<close> by (simp add: seg_ok_def)
  qed
  have same: "q = seg" if "q \<in> set (Segments s)" "SegName q = SegName seg" for q
    using D(1) seg that by (auto simp: distinct_map inj_on_def)
  have segs: "list_all (seg_ok (SegFiles (Disk s))) (Segments ?u)"
    using D(3) own same by (force simp: list_all_iff set_ack_def j)
  have offs: "list_all (\<lambda>q. SegAck q = offset_of (Offsets (Journal t)) (SegName q)) (Segments ?u)"
    using D(4) by (auto simp: list_all_iff set_ack_def j offset_of_update)
  have live: "live_names t = live_names s" by (simp add: live_names_def j)
  have "fst ` set (Offsets (Journal t)) \<subseteq> live_names s"
    using D(10) seg by (auto simp: j update_keys live_names_def)
  then have keys: "list_all (\<lambda>(n, _). n \<in> live_names s) (Offsets (Journal t))"
    "list_all (\<lambda>(n, _). n \<in> live_names s) (Quarantined (Journal t))"
    using D(11) by (force simp: list_all_iff j)+
  have u: "Disk ?u = Disk t" "Journal ?u = Journal t" "LossJournal ?u = LossJournal s"
    by (simp_all add: set_ack_def j)
  have whole: "active_whole ?u" using D(12) by (simp add: active_whole_def set_ack_def t set_offset_def)
  show "steady ?u"
    unfolding steady_def live_names_set_ack live names_set_ack u j(3)
    using segs offs keys D(1,2,7,9) whole by (simp add: j)
qed

lemma ack_account:
  assumes st: "steady s" and seg: "seg \<in> set (Segments s)" and pre: "reads_prefix mb mf s seg p"
    and run: "ack now (PendingCursor p) s = (r, s')"
  shows "r = Inr () \<Longrightarrow> (\<forall>src. accounted (Disk s') src + count_source src (Records p) = accounted (Disk s) src) \<and>
           steady s' \<and> kept s s' \<and> Fault s' = None"
    "r \<noteq> Inr () \<Longrightarrow> (\<forall>src. accounted (Disk s') src = accounted (Disk s) src) \<or>
           (\<forall>src. accounted (Disk s') src + count_source src (Records p) = accounted (Disk s) src)"
proof -
  let ?n = "End (PendingCursor p)"
  note D = steadyD[OF st]
  obtain ps us f where p: "map_of (SegFiles (Disk s)) (SegName seg) = Some f"
    "Contents f = ps @ Records p @ us" "total_wire ps = SegAck seg" "Records p \<noteq> []"
    "PendingCursor p = \<lparr>Owner = Some (SpoolID s), CursorSegment = SegName seg, Start = SegAck seg,
                        End = SegAck seg + total_wire (Records p)\<rparr>"
    using pre by (auto simp: reads_prefix_def)
  have pos: "0 < total_wire (Records p)"
    using p(4) total_wire_nonneg[of "Records p"] by (simp add: less_le del: total_wire_nonneg)
  have fnd: "find (\<lambda>q. SegName q = SegName seg) (Segments s) = Some seg"
    using find_segment[OF D(1) seg] .
  have "(r = Inr () \<longrightarrow> (\<forall>src. accounted (Disk s') src + count_source src (Records p) = accounted (Disk s) src) \<and>
           steady s' \<and> kept s s' \<and> Fault s' = None) \<and>
    (r \<noteq> Inr () \<longrightarrow> (\<forall>src. accounted (Disk s') src = accounted (Disk s) src) \<or>
           (\<forall>src. accounted (Disk s') src + count_source src (Records p) = accounted (Disk s) src))"
    using run[unfolded ack_def]
  proof (cases rule: op_bindE)
    case (err e)
    then show ?thesis using writable_spec[OF err(1)] by auto
  next
    case w: (ok a s1)
    have s1: "s1 = s" "Fault s = None" using writable_spec[OF w(1)] by auto
    show ?thesis
    proof (cases "quarantine_code s (SegName seg) \<noteq> '''' \<or> ?n > SegSize seg")
      case True
      then show ?thesis using w(2) s1 fnd p(5) pos by (auto split: if_splits)
    next
      case False
      let ?s2 = "set_offset (SegName seg) ?n s"
      have "op_bind (faulting (write_offsets (Journal ?s2))) (\<lambda>_ s. prune now 0 (set_ack (SegName seg) ?n s)) ?s2 = (r, s')"
        using w(2) s1 fnd p(5) pos False by (simp add: Let_def split: if_splits)
      then show ?thesis
      proof (cases rule: op_bindE)
        case (err e)
        from err(1) obtain t where t: "write_offsets (Journal ?s2) ?s2 = (Inl e, t)" "s' = t\<lparr>Fault := Some e\<rparr>"
          by (auto elim: faultingE)
        have "Disk s' = Disk s \<or> Disk s' = (Disk s)\<lparr>OffsetsFile := Sealed (Journal ?s2)\<rparr>"
          using write_offsets_spec(2)[OF t(1)] t(2) by (auto simp: set_offset_def)
        then show ?thesis
          using ack_moved_steady(2)[OF st seg pre refl, of undefined] err(2) by auto
      next
        case o: (ok b t)
        then have t: "write_offsets (Journal ?s2) ?s2 = (Inr (), t)" by (auto elim: faultingE)
        obtain sc where t': "t = ?s2\<lparr>Disk := (Disk s)\<lparr>OffsetsFile := Sealed (Journal ?s2)\<rparr>, Schedule := sc\<rparr>"
          using write_offsets_spec[OF t] by (auto simp: set_offset_def elim!: disk_onlyE)
        note m = ack_moved_steady[OF st seg pre t']
        have k: "kept s (set_ack (SegName seg) ?n t)" "Fault (set_ack (SegName seg) ?n t) = None"
          using s1(2) by (simp_all add: t' set_ack_def set_offset_def kept_def)
        have "Disk (set_ack (SegName seg) ?n t) = Disk t" by (simp add: set_ack_def)
        then show ?thesis using prune_steady[OF m(1) o(2)] m(2) k kept_trans by auto
      qed
    qed
  qed
  then show "r = Inr () \<Longrightarrow> (\<forall>src. accounted (Disk s') src + count_source src (Records p) = accounted (Disk s) src) \<and>
           steady s' \<and> kept s s' \<and> Fault s' = None"
    "r \<noteq> Inr () \<Longrightarrow> (\<forall>src. accounted (Disk s') src = accounted (Disk s) src) \<or>
           (\<forall>src. accounted (Disk s') src + count_source src (Records p) = accounted (Disk s) src)" by auto
qed

text \<open>
  The acknowledged offset of one segment moves over the records \<open>rs\<close>, which are the next ones from it;
  every file that is still there is as it was, and no other offset has changed.
\<close>

definition moves :: "disk \<Rightarrow> spool_record list \<Rightarrow> disk \<Rightarrow> bool" where
  "moves d rs d' \<longleftrightarrow> (\<exists>name f ps us. map_of (SegFiles d) name = Some f \<and> Contents f = ps @ rs @ us \<and>
     disk_offset d name = total_wire ps \<and>
     (\<forall>n g. map_of (SegFiles d') n = Some g \<longrightarrow> map_of (SegFiles d) n = Some g \<and>
        disk_offset d' n = (if n = name then total_wire (ps @ rs) else disk_offset d n)))"

lemma moves_keeps: "moves d rs d1 \<Longrightarrow> keeps d1 d2 \<Longrightarrow> moves d rs d2"
  unfolding moves_def keeps_def by (elim exE conjE, intro exI conjI) (assumption | simp)+

lemma keeps_moves:
  assumes k: "keeps d d1" and m: "moves d1 rs d2"
  shows "moves d rs d2"
proof -
  from m obtain name f ps us where f: "map_of (SegFiles d1) name = Some f" "Contents f = ps @ rs @ us"
    "disk_offset d1 name = total_wire ps"
    and rest: "\<And>n g. map_of (SegFiles d2) n = Some g \<Longrightarrow> map_of (SegFiles d1) n = Some g \<and>
        disk_offset d2 n = (if n = name then total_wire (ps @ rs) else disk_offset d1 n)"
    unfolding moves_def by blast
  from k f(1) have "map_of (SegFiles d) name = Some f" "disk_offset d name = total_wire ps"
    using f(3) by (simp_all add: keeps_def)
  moreover have "map_of (SegFiles d) n = Some g \<and>
        disk_offset d2 n = (if n = name then total_wire (ps @ rs) else disk_offset d n)"
    if "map_of (SegFiles d2) n = Some g" for n g
    using rest[OF that] k by (simp add: keeps_def)
  ultimately show ?thesis unfolding moves_def using f(2) by blast
qed

lemma read_pending_keeps:
  assumes st: "steady s" and run: "read_pending now boot generation current mb mf s = (r, s')"
  shows "keeps (Disk s) (Disk s')"
  using run[unfolded read_pending_def]
proof (cases rule: op_bindE)
  case (err e)
  then show ?thesis using writable_spec[OF err(1)] by simp
next
  case w: (ok a t)
  then have t: "t = s" using writable_spec[OF w(1)] by simp
  show ?thesis
  proof (cases "mb < max_frame_bytes \<or> mb > 1048576 \<or> mf < 1 \<or> mf > 64")
    case True
    then show ?thesis using w(2) t by (auto simp: fail_with_def)
  next
    case False
    with w(2) have "op_bind (prune now 0) (\<lambda>_ s.
         case find (offered now boot generation current s) (search_order current s) of
           None \<Rightarrow> (Ok no_pending, s)
         | Some seg \<Rightarrow> read_segment mb (nat mf) seg s) s = (r, s')" by (simp add: t)
    then show ?thesis
    proof (cases rule: op_bindE)
      case (err e)
      then show ?thesis using prune_keeps[OF st err(1)] by simp
    next
      case o: (ok b u)
      have "Disk s' = Disk u" using o(2)
        by (auto simp: read_segment_def from_result_def elim!: op_bindE dest!: open_seg_disk_only split: option.splits)
      then show ?thesis using prune_keeps[OF st o(1)] by simp
    qed
  qed
qed

lemma ack_moves:
  assumes st: "steady s" and seg: "seg \<in> set (Segments s)" and pre: "reads_prefix mb mf s seg p"
    and run: "ack now (PendingCursor p) s = (r, s')"
  shows "(r \<noteq> Inr () \<and> keeps (Disk s) (Disk s') \<and> (\<forall>src. accounted (Disk s') src = accounted (Disk s) src)) \<or>
    (moves (Disk s) (Records p) (Disk s') \<and>
     (\<forall>src. accounted (Disk s') src + count_source src (Records p) = accounted (Disk s) src))"
proof -
  let ?n = "End (PendingCursor p)" and ?s2 = "set_offset (SegName seg) (End (PendingCursor p)) s"
  note D = steadyD[OF st]
  obtain ps us f where p: "map_of (SegFiles (Disk s)) (SegName seg) = Some f"
    "Contents f = ps @ Records p @ us" "total_wire ps = SegAck seg" "Records p \<noteq> []"
    "PendingCursor p = \<lparr>Owner = Some (SpoolID s), CursorSegment = SegName seg, Start = SegAck seg,
                        End = SegAck seg + total_wire (Records p)\<rparr>"
    using pre by (auto simp: reads_prefix_def)
  have pos: "0 < total_wire (Records p)"
    using p(4) total_wire_nonneg[of "Records p"] by (simp add: less_le del: total_wire_nonneg)
  have fnd: "find (\<lambda>q. SegName q = SegName seg) (Segments s) = Some seg"
    using find_segment[OF D(1) seg] .
  have moved: "moves (Disk s) (Records p) ((Disk s)\<lparr>OffsetsFile := Sealed (Journal ?s2)\<rparr>)"
    unfolding moves_def
    by (intro exI[of _ "SegName seg"] exI[of _ f] exI[of _ ps] exI[of _ us])
      (use p D(4)[OF seg] D(5) in \<open>simp add: disk_offset_def stored_of_file(1) set_offset_def offset_of_update
        stored_offsets_def\<close>)
  from run[unfolded ack_def] show ?thesis
  proof (cases rule: op_bindE)
    case (err e)
    then show ?thesis using writable_spec[OF err(1)] by auto
  next
    case w: (ok a s1)
    have s1: "s1 = s" "Fault s = None" using writable_spec[OF w(1)] by auto
    show ?thesis
    proof (cases "quarantine_code s (SegName seg) \<noteq> '''' \<or> ?n > SegSize seg")
      case True
      then show ?thesis using w(2) s1 fnd p(5) pos by (auto split: if_splits)
    next
      case False
      have "op_bind (faulting (write_offsets (Journal ?s2))) (\<lambda>_ s. prune now 0 (set_ack (SegName seg) ?n s)) ?s2 = (r, s')"
        using w(2) s1 fnd p(5) pos False by (simp add: Let_def split: if_splits)
      then show ?thesis
      proof (cases rule: op_bindE)
        case (err e)
        from err(1) obtain t where t: "write_offsets (Journal ?s2) ?s2 = (Inl e, t)" "s' = t\<lparr>Fault := Some e\<rparr>"
          by (auto elim: faultingE)
        have "Disk s' = Disk s \<or> Disk s' = (Disk s)\<lparr>OffsetsFile := Sealed (Journal ?s2)\<rparr>"
          using write_offsets_spec(2)[OF t(1)] t(2) by (auto simp: set_offset_def)
        then show ?thesis
          using ack_moved_steady(2)[OF st seg pre refl, of undefined] err(2) moved by auto
      next
        case o: (ok b t)
        then have t: "write_offsets (Journal ?s2) ?s2 = (Inr (), t)" by (auto elim: faultingE)
        obtain sc where t': "t = ?s2\<lparr>Disk := (Disk s)\<lparr>OffsetsFile := Sealed (Journal ?s2)\<rparr>, Schedule := sc\<rparr>"
          using write_offsets_spec[OF t] by (auto simp: set_offset_def elim!: disk_onlyE)
        note m = ack_moved_steady[OF st seg pre t']
        have d: "Disk (set_ack (SegName seg) ?n t) = (Disk s)\<lparr>OffsetsFile := Sealed (Journal ?s2)\<rparr>"
          by (simp add: set_ack_def t')
        have "moves (Disk s) (Records p) (Disk s')"
          using moves_keeps[OF moved] prune_keeps[OF m(1) o(2)] by (simp add: d)
        moreover have "accounted (Disk s') src + count_source src (Records p) = accounted (Disk s) src" for src
        proof -
          have "accounted (Disk s') src = accounted (Disk t) src"
            using prune_steady[OF m(1) o(2)] by (simp add: set_ack_def)
          with m(2)[of src] show ?thesis by simp
        qed
        ultimately show ?thesis by blast
      qed
    qed
  qed
qed

end
