(* ===== verification/SpoolRecovery.thy ===== *)
theory SpoolRecovery
  imports SpoolAccount
begin

text \<open>
  Reopening a spool: whatever the directory accounts for is still accounted for afterwards, and a
  spool that opens is in the steady state its operations start from.
\<close>

section \<open>Scanning\<close>

lemma scan_records_spec:
  assumes "scan_records rs seg b = Inr (seg', b')" "0 \<le> SegSize seg"
  shows "SegName seg' = SegName seg \<and> SegAck seg' = SegAck seg \<and>
    SegSize seg' = SegSize seg + total_wire rs \<and> list_all readable rs \<and>
    list_all (\<lambda>r. BootID r = SegBoot seg' \<and> Generation r = SegGeneration seg') rs \<and>
    (0 < SegSize seg \<longrightarrow> SegBoot seg' = SegBoot seg \<and> SegGeneration seg' = SegGeneration seg) \<and>
    (b' \<longrightarrow> b \<or> (\<exists>ps us. rs = ps @ us \<and> SegAck seg = SegSize seg + total_wire ps))"
  using assms
proof (induction rs seg b rule: scan_records.induct)
  case (1 seg b)
  then show ?case by auto
next
  case (2 r rs seg b)
  define q where "q = (if SegSize seg = 0
     then seg\<lparr>FirstMS := ObservedMS r, SegBoot := BootID r, SegGeneration := Generation r\<rparr> else seg)"
  have q: "SegSize q = SegSize seg" "SegAck q = SegAck seg" "SegName q = SegName seg"
    "0 < SegSize seg \<Longrightarrow> SegBoot q = SegBoot seg \<and> SegGeneration q = SegGeneration seg"
    by (simp_all add: q_def)
  have ok: "readable r" "SegBoot q = BootID r" "SegGeneration q = Generation r"
    using 2(2) by (auto simp: q_def Let_def split: if_splits)
  have run: "scan_records rs (q\<lparr>SegSize := SegSize q + wire_length r\<rparr>) (b \<or> SegSize q + wire_length r = SegAck q) = Inr (seg', b')"
    using 2(2) ok by (simp add: q_def[symmetric] Let_def)
  have pos: "0 < SegSize q + wire_length r" using 2(3) q wire_length_pos[of r] by simp
  from "2.IH"[OF _ q_def _ refl run] ok pos
  have ih: "SegName seg' = SegName q" "SegAck seg' = SegAck q"
    "SegSize seg' = SegSize q + wire_length r + total_wire rs" "list_all readable rs"
    "list_all (\<lambda>r. BootID r = SegBoot seg' \<and> Generation r = SegGeneration seg') rs"
    "SegBoot seg' = SegBoot q" "SegGeneration seg' = SegGeneration q"
    "b' \<longrightarrow> (b \<or> SegSize q + wire_length r = SegAck q) \<or>
       (\<exists>ps us. rs = ps @ us \<and> SegAck q = SegSize q + wire_length r + total_wire ps)"
    by auto
  have "\<exists>ps us. r # rs = ps @ us \<and> SegAck seg = SegSize seg + total_wire ps"
    if "SegSize q + wire_length r = SegAck q"
    using that q by (intro exI[of _ "[r]"] exI[of _ rs]) simp
  moreover have "\<exists>ps us. r # rs = ps @ us \<and> SegAck seg = SegSize seg + total_wire ps"
    if "rs = ps @ us" "SegAck q = SegSize q + wire_length r + total_wire ps" for ps us
    using that q by (intro exI[of _ "r # ps"] exI[of _ us]) simp
  ultimately show ?case using ih ok q by auto
qed

lemma seek_boundary:
  assumes "off = 0 \<or> (\<exists>ps us. rs = ps @ us \<and> off = total_wire ps)"
  shows "seek off rs \<noteq> None"
  using assms seek_append seek_append[of "[]" rs] by auto

section \<open>The state during recovery\<close>

definition scanned :: "spool \<Rightarrow> bool" where
  "scanned s \<longleftrightarrow> list_all (seg_ok (SegFiles (Disk s))) (Segments s) \<and>
     list_all (\<lambda>seg. SegAck seg = offset_of (Offsets (Journal s)) (SegName seg)) (Segments s)"

definition repaired :: "spool \<Rightarrow> spool \<Rightarrow> bool" where
  "repaired s s' \<longleftrightarrow> Journal s' = Journal s \<and> LossJournal s' = LossJournal s \<and>
     OffsetsFile (Disk s') = OffsetsFile (Disk s) \<and> LossesFile (Disk s') = LossesFile (Disk s) \<and>
     map fst (SegFiles (Disk s')) = map fst (SegFiles (Disk s)) \<and>
     (\<forall>src. accounted (Disk s') src = accounted (Disk s) src) \<and> Fault s' = Fault s \<and> Active s' = Active s"

lemma repaired_refl: "repaired s s" and repaired_trans: "repaired s t \<Longrightarrow> repaired t u \<Longrightarrow> repaired s u"
  by (simp_all add: repaired_def)

lemma accounted_truncate: "accounted (update_file name (\<lambda>f. f\<lparr>Torn := 0\<rparr>) d) src = accounted d src"
proof -
  have "map (file_share (stored_offsets d) (stored_losses d) src)
          (map (\<lambda>(k, f). if k = name then (k, f\<lparr>Torn := 0\<rparr>) else (k, f)) (SegFiles d)) =
        map (file_share (stored_offsets d) (stored_losses d) src) (SegFiles d)"
    by (auto simp: file_share_def)
  from arg_cong[OF this, of sum_list] show ?thesis
    by (simp add: accounted_def) (simp add: update_file_def)
qed

lemma seg_ok_truncate:
  "seg_ok (SegFiles d) seg \<Longrightarrow> seg_ok (SegFiles (update_file name (\<lambda>f. f\<lparr>Torn := 0\<rparr>) d)) seg"
  by (auto simp: seg_ok_def update_file_def map_of_update_file split: option.splits)

lemma truncate_seg_spec:
  assumes "truncate_seg name s = (r, s')"
  shows "disk_only s s'"
    "Disk s' = update_file name (\<lambda>f. f\<lparr>Torn := 0\<rparr>) (Disk s) \<or> r \<noteq> Inr () \<and> Disk s' = Disk s"
proof -
  have "disk_only s s' \<and>
    (Disk s' = update_file name (\<lambda>f. f\<lparr>Torn := 0\<rparr>) (Disk s) \<or> r \<noteq> Inr () \<and> Disk s' = Disk s)"
    using assms[unfolded truncate_seg_def]
  proof (cases rule: op_bindE)
    case (err e)
    then show ?thesis using os_call_spec[OF err(1)] by auto
  next
    case (ok a t)
    show ?thesis using os_call_spec[OF ok(1)] os_call_spec[OF ok(2)] by (auto elim!: disk_onlyE intro!: disk_onlyI)
  qed
  then show "disk_only s s'"
    "Disk s' = update_file name (\<lambda>f. f\<lparr>Torn := 0\<rparr>) (Disk s) \<or> r \<noteq> Inr () \<and> Disk s' = Disk s" by auto
qed

lemma repaired_disk_only:
  assumes "disk_only s s'" "Disk s' = Disk s \<or> Disk s' = update_file name (\<lambda>f. f\<lparr>Torn := 0\<rparr>) (Disk s)"
  shows "repaired s s'"
  using assms(2) disk_onlyD[OF assms(1)] by (auto simp: repaired_def accounted_truncate)


lemma read_call_spec:
  "read_call g s = (r, s') \<Longrightarrow> disk_only s s' \<and> Disk s' = Disk s \<and> (\<forall>a. r = Inr a \<longrightarrow> a = g (Disk s))"
  by (auto simp: read_call_def next_outcome_def disk_only_def split: list.splits prod.splits if_splits)

definition repair_tail :: "bool \<Rightarrow> bool \<Rightarrow> string \<Rightarrow> seg_file \<Rightarrow> segment \<Rightarrow> unit op" where
  "repair_tail readOnly lastFile name f seg s =
     (if \<not> torn_tail f then (Ok (), s)
      else if lastFile \<and> SegAck seg \<le> SegSize seg
           then (if readOnly then (Err ErrCorrupt, s) else truncate_seg name s)
           else (Err ErrCorrupt, s))"

lemma repair_tail_spec:
  assumes "repair_tail readOnly lastFile name f seg s = (r, s')"
  shows "disk_only s s'"
    "Disk s' = update_file name (\<lambda>f. f\<lparr>Torn := 0\<rparr>) (Disk s) \<or> Disk s' = Disk s \<and> (r = Inr () \<longrightarrow> \<not> torn_tail f)"
  using assms truncate_seg_spec[of name s r s']
  by (auto simp: repair_tail_def disk_only_def split: if_splits)

lemma map_of_truncated:
  "map_of (SegFiles (update_file name (\<lambda>f. f\<lparr>Torn := 0\<rparr>) d)) name = map_option (\<lambda>f. f\<lparr>Torn := 0\<rparr>) (map_of (SegFiles d) name)"
  by (simp add: update_file_def map_of_update_file)

lemma recover_file_spec:
  assumes run: "recover_file ro lastFile name s = (r, s')" and sc: "scanned s"
  shows "repaired s s'"
    "r = Inr () \<Longrightarrow> scanned s' \<and> map SegName (Segments s') = map SegName (Segments s) @ [name]"
proof -
  have "repaired s s' \<and> (r = Inr () \<longrightarrow> scanned s' \<and>
     map SegName (Segments s') = map SegName (Segments s) @ [name])"
  proof (cases "valid_segment_name name \<and> serial_of name \<noteq> None")
    case False
    then show ?thesis using run by (auto simp: recover_file_def repaired_refl split: if_splits option.splits)
  next
    case True
    then obtain serial where sn: "serial_of name = Some serial" by auto
    let ?s0 = "s\<lparr>NextSegment := max serial (NextSegment s)\<rparr>"
    define acked where "acked = offset_of (Offsets (Journal s)) name"
    let ?q = "\<lparr>SegName = name, SegSize = 0, SegAck = acked, FirstMS = 0, SegBoot = '''', SegGeneration = ''''\<rparr>"
    have "op_bind (open_seg name) (\<lambda>f s.
          if total_wire (Contents f) + int (Torn f) > segment_bytes then (Err ErrCorrupt, s)
          else let acked = offset_of (Offsets (Journal s)) name in
          op_bind (from_result (scan_records (Contents f)
              \<lparr>SegName = name, SegSize = 0, SegAck = acked, FirstMS = 0, SegBoot = '''', SegGeneration = ''''\<rparr>
              (acked = 0))) (\<lambda>(seg, boundary).
          op_bind (repair_tail ro lastFile name f seg) (\<lambda>_ s.
          if \<not> boundary \<or> SegAck seg < 0 \<or> SegAck seg > SegSize seg then (Err ErrCorrupt, s)
          else (Ok (), s\<lparr>Segments := Segments s @ [seg]\<rparr>))) s) ?s0 = (r, s')"
      using run True sn unfolding recover_file_def repair_tail_def by simp
    then show ?thesis
    proof (cases rule: op_bindE)
      case (err e)
      then show ?thesis using open_seg_disk_only[OF err(1)]
        by (auto simp: repaired_def elim!: disk_onlyE)
    next
      case o: (ok f t)
      have t: "disk_only ?s0 t" "Disk t = Disk s" using open_seg_disk_only[OF o(1)] by auto
      have f: "map_of (SegFiles (Disk s)) name = Some f" using open_seg_frame[OF o(1)] by auto
      have rt: "repaired s t" using t by (auto simp: repaired_def elim!: disk_onlyE)
      have jt: "Journal t = Journal s" "Segments t = Segments s" using t(1) by (auto elim!: disk_onlyE)
      show ?thesis
      proof (cases "total_wire (Contents f) + int (Torn f) > segment_bytes")
        case True
        then show ?thesis using o(2) rt by auto
      next
        case small: False
        then have "op_bind (from_result (scan_records (Contents f) ?q (acked = 0))) (\<lambda>(seg, boundary).
          op_bind (repair_tail ro lastFile name f seg) (\<lambda>_ s.
          if \<not> boundary \<or> SegAck seg < 0 \<or> SegAck seg > SegSize seg then (Err ErrCorrupt, s)
          else (Ok (), s\<lparr>Segments := Segments s @ [seg]\<rparr>))) t = (r, s')"
          using o(2) jt by (simp add: Let_def acked_def)
        then show ?thesis
        proof (cases rule: op_bindE)
          case (err e)
          then show ?thesis using rt by (auto simp: from_result_def)
        next
          case c: (ok sb u)
          obtain seg b where sb: "sb = (seg, b)" by fastforce
          have scn: "scan_records (Contents f) ?q (acked = 0) = Inr (seg, b)" and u: "u = t"
            using c(1) sb by (auto simp: from_result_def)
          note sp = scan_records_spec[OF scn, simplified]
          from c(2) have "op_bind (repair_tail ro lastFile name f seg) (\<lambda>_ s.
            if \<not> b \<or> SegAck seg < 0 \<or> SegAck seg > SegSize seg then (Err ErrCorrupt, s)
            else (Ok (), s\<lparr>Segments := Segments s @ [seg]\<rparr>)) t = (r, s')" by (simp add: sb u)
          then show ?thesis
          proof (cases rule: op_bindE)
            case (err e)
            then show ?thesis using repaired_trans[OF rt repaired_disk_only[OF repair_tail_spec(1)[OF err(1)]]]
                repair_tail_spec(2)[OF err(1)] by auto
          next
            case y: (ok a v)
            have v: "disk_only t v" "repaired s v"
              using repair_tail_spec[OF y(1)] repaired_trans[OF rt repaired_disk_only[OF repair_tail_spec(1)[OF y(1)]]]
              by auto
            have dv: "Disk v = update_file name (\<lambda>f. f\<lparr>Torn := 0\<rparr>) (Disk s) \<or> Disk v = Disk s \<and> \<not> torn_tail f"
              using repair_tail_spec(2)[OF y(1)] t(2) by auto
            show ?thesis
            proof (cases "\<not> b \<or> SegAck seg < 0 \<or> SegAck seg > SegSize seg")
              case True
              then show ?thesis using y(2) v(2) by auto
            next
              case False
              then have s': "s' = v\<lparr>Segments := Segments v @ [seg]\<rparr>" "r = Inr ()" using y(2) by auto
              have segs: "Segments v = Segments s" "Journal v = Journal s"
                using v(1) jt by (auto elim!: disk_onlyE)
              have bnd: "seek (SegAck seg) (Contents f) \<noteq> None"
                using sp False by (intro seek_boundary) auto
              have own: "seg_ok (SegFiles (Disk v)) seg"
                using dv f sp False bnd small by (auto simp: seg_ok_def map_of_truncated)
              have old: "list_all (seg_ok (SegFiles (Disk v))) (Segments s)"
                using dv sc seg_ok_truncate by (auto simp: scanned_def list_all_iff)
              have "repaired s s'" using v(2) s' by (simp add: repaired_def)
              moreover have "scanned s'" using own old sc sp segs s'
                by (simp add: scanned_def acked_def)
              ultimately show ?thesis using s' segs sp by simp
            qed
          qed
        qed
      qed
    qed
  qed
  then show "repaired s s'"
    "r = Inr () \<Longrightarrow> scanned s' \<and> map SegName (Segments s') = map SegName (Segments s) @ [name]" by auto
qed

lemma recover_files_spec:
  assumes "recover_files ro names s = (r, s')" "scanned s"
  shows "repaired s s' \<and> (r = Inr () \<longrightarrow> scanned s' \<and>
     map SegName (Segments s') = map SegName (Segments s) @ names)"
  using assms
proof (induction names arbitrary: s)
  case Nil
  then show ?case by (auto simp: return_ok_def repaired_refl)
next
  case (Cons n ns)
  from Cons.prems(1)[simplified] show ?case
  proof (cases rule: op_bindE)
    case (err e)
    then show ?thesis using recover_file_spec[OF err(1) Cons.prems(2)] by auto
  next
    case (ok a t)
    have t: "repaired s t" "scanned t" "map SegName (Segments t) = map SegName (Segments s) @ [n]"
      using recover_file_spec[OF ok(1) Cons.prems(2)] by auto
    show ?thesis using Cons.IH[OF ok(2) t(2)] t(1,3) repaired_trans by auto
  qed
qed


section \<open>Finishing journaled deletions\<close>

definition consistent :: "spool \<Rightarrow> bool" where
  "consistent s \<longleftrightarrow> scanned s \<and> distinct (map SegName (Segments s)) \<and>
     distinct (map fst (SegFiles (Disk s))) \<and> fst ` set (SegFiles (Disk s)) = live_names s \<and>
     stored_offsets (Disk s) = Journal s \<and> stored_losses (Disk s) = LossJournal s"

lemma find_index_segment:
  assumes "distinct (map SegName segs)" "seg \<in> set segs"
  shows "\<exists>i. find_index (\<lambda>q. SegName q = SegName seg) segs = Some i \<and> i < length segs \<and> segs ! i = seg"
proof (cases "find_index (\<lambda>q. SegName q = SegName seg) segs")
  case None
  then show ?thesis using assms(2) by (auto simp: find_index_None)
next
  case (Some i)
  then have "i < length segs" "SegName (segs ! i) = SegName seg" by (auto dest: find_index_Some)
  then show ?thesis using assms Some by (auto simp: distinct_map inj_on_def)
qed

definition forget_segment :: "string \<Rightarrow> spool \<Rightarrow> spool" where
  "forget_segment name s = s\<lparr>Segments := (case find_index (\<lambda>q. SegName q = name) (Segments s) of
                       None \<Rightarrow> Segments s | Some i \<Rightarrow> remove_nth i (Segments s))\<rparr>"

lemma forget_segment_simps [simp]:
  "Disk (forget_segment n s) = Disk s" "Journal (forget_segment n s) = Journal s"
  "LossJournal (forget_segment n s) = LossJournal s" "Fault (forget_segment n s) = Fault s" "Active (forget_segment n s) = Active s"
  by (simp_all add: forget_segment_def)

lemma disk_only_trans: "disk_only s t \<Longrightarrow> disk_only t u \<Longrightarrow> disk_only s u"
  by (auto elim!: disk_onlyE intro: disk_onlyI)

lemma removed_consistent:
  assumes c: "consistent s" and seg: "seg \<in> set (Segments s)" and n: "SegName seg \<in> set (Discarded (LossJournal s))"
    and d: "disk_only s t" "Disk t = (Disk s)\<lparr>SegFiles := AList.delete (SegName seg) (SegFiles (Disk s))\<rparr>"
  shows "consistent (forget_segment (SegName seg) t)"
    "accounted (Disk t) src = accounted (Disk s) src"
    "live_names (forget_segment (SegName seg) t) = live_names s - {SegName seg}"
    "\<And>q. q \<in> set (Segments s) \<Longrightarrow> SegName q \<noteq> SegName seg \<Longrightarrow> q \<in> set (Segments (forget_segment (SegName seg) t))"
proof -
  note fr = disk_onlyD[OF d(1)]
  have c': "scanned s" "distinct (map SegName (Segments s))" "distinct (map fst (SegFiles (Disk s)))"
    "fst ` set (SegFiles (Disk s)) = live_names s" "stored_offsets (Disk s) = Journal s"
    "stored_losses (Disk s) = LossJournal s"
    using c by (auto simp: consistent_def)
  obtain i where i: "find_index (\<lambda>q. SegName q = SegName seg) (Segments s) = Some i"
    "i < length (Segments s)" "Segments s ! i = seg"
    using find_index_segment[OF c'(2) seg] by auto
  have segs: "Segments (forget_segment (SegName seg) t) = remove_nth i (Segments s)"
    by (simp add: forget_segment_def fr i)
  have mem: "q \<in> set (remove_nth i (Segments s)) \<longleftrightarrow> q \<in> set (Segments s) \<and> SegName q \<noteq> SegName seg" for q
    using remove_nth_other[OF c'(2) i(2)] remove_nth_mem[OF i(2)] set_remove_nth i(3) by fastforce
  then show "\<And>q. q \<in> set (Segments s) \<Longrightarrow> SegName q \<noteq> SegName seg \<Longrightarrow> q \<in> set (Segments (forget_segment (SegName seg) t))"
    by (simp add: segs)
  show live: "live_names (forget_segment (SegName seg) t) = live_names s - {SegName seg}"
    unfolding live_names_def segs using mem by force
  obtain f where f: "map_of (SegFiles (Disk s)) (SegName seg) = Some f"
    using c'(1) seg by (auto simp: scanned_def list_all_iff elim!: seg_okE)
  show "accounted (Disk t) src = accounted (Disk s) src"
    unfolding d(2) by (rule accounted_remove_file[OF c'(3) f]) (simp add: file_share_def c'(6) n)
  have sc: "scanned (forget_segment (SegName seg) t)"
    using c'(1) mem
    by (auto simp: scanned_def list_all_iff segs d(2) seg_ok_delete fr)
  have "fst ` set (AList.delete (SegName seg) (SegFiles (Disk s))) = live_names s - {SegName seg}"
    unfolding c'(4)[symmetric] by (force simp: AList.delete_eq)
  then show "consistent (forget_segment (SegName seg) t)"
    unfolding consistent_def live segs
    using sc c'(2,3,5,6) d(2) fr
    by (simp add: distinct_remove_nth distinct_delete)
qed

lemma finish_discarded_spec:
  assumes "finish_discarded ro segs s = (r, s')" "consistent s" "set segs \<subseteq> set (Segments s)"
    "distinct (map SegName segs)"
  shows "accounted (Disk s') src = accounted (Disk s) src \<and> (r = Inr () \<longrightarrow> consistent s' \<and>
    live_names s' = live_names s - (SegName ` set segs \<inter> set (Discarded (LossJournal s))) \<and>
    Journal s' = Journal s \<and> LossJournal s' = LossJournal s \<and> Fault s' = Fault s \<and> Active s' = Active s)"
  using assms
proof (induction segs arbitrary: s)
  case Nil
  then show ?case by (auto simp: return_ok_def)
next
  case (Cons seg segs)
  have seg: "seg \<in> set (Segments s)" using Cons.prems(3) by simp
  show ?case
  proof (cases "SegName seg \<in> set (Discarded (LossJournal s))")
    case False
    then show ?thesis using Cons.IH[of s] Cons.prems by auto
  next
    case n: True
    show ?thesis
    proof (cases ro)
      case True
      then show ?thesis using Cons.prems(1) n by auto
    next
      case False
      have "op_bind (remove_seg (SegName seg)) (\<lambda>_. op_bind sync_dir (\<lambda>_ s.
                finish_discarded ro segs (forget_segment (SegName seg) s))) s = (r, s')"
        using Cons.prems(1) n False by (simp add: forget_segment_def)
      then show ?thesis
      proof (cases rule: op_bindE)
        case (err e)
        then show ?thesis
          using remove_seg_spec[OF err(1)] removed_consistent(2)[OF Cons.prems(2) seg n remove_seg_spec(1)[OF err(1)]]
          by auto
      next
        case o: (ok a t)
        have t: "disk_only s t" "Disk t = (Disk s)\<lparr>SegFiles := AList.delete (SegName seg) (SegFiles (Disk s))\<rparr>"
          using remove_seg_spec[OF o(1)] by auto
        from o(2) show ?thesis
        proof (cases rule: op_bindE)
          case (err e)
          then show ?thesis
            using sync_dir_spec(2)[OF err(1)] removed_consistent(2)[OF Cons.prems(2) seg n t] by auto
        next
          case y: (ok b u)
          have u: "disk_only s u" "Disk u = (Disk s)\<lparr>SegFiles := AList.delete (SegName seg) (SegFiles (Disk s))\<rparr>"
            using sync_dir_spec[OF y(1)] t disk_only_trans by auto
          note rc = removed_consistent[OF Cons.prems(2) seg n u]
          let ?v = "forget_segment (SegName seg) u"
          have v: "LossJournal ?v = LossJournal s" "Journal ?v = Journal s" "Fault ?v = Fault s" "Active ?v = Active s" "Disk ?v = Disk u"
            using disk_onlyD[OF u(1)] by simp_all
          have sub: "set segs \<subseteq> set (Segments ?v)"
          proof
            fix q assume q: "q \<in> set segs"
            then have "SegName q \<noteq> SegName seg" using Cons.prems(4) by (metis distinct.simps(2) imageI list.map(2) list.set_map)
            then show "q \<in> set (Segments ?v)" using rc(4) q Cons.prems(3) by auto
          qed
          show ?thesis using Cons.IH[OF y(2) rc(1) sub] Cons.prems(4) rc(2,3) v n by auto
        qed
      qed
    qed
  qed
qed

section \<open>Opening\<close>

lemma accounted_same_stored:
  "stored_offsets d' = stored_offsets d \<Longrightarrow> stored_losses d' = stored_losses d \<Longrightarrow> SegFiles d' = SegFiles d
   \<Longrightarrow> accounted d' src = accounted d src"
  by (simp add: accounted_def)

lemma load_call:
  assumes "op_bind (read_call g) (\<lambda>f s. case f of Missing \<Rightarrow> (Ok (), s) | Damaged \<Rightarrow> (Err ErrCorrupt, s)
     | Sealed j \<Rightarrow> (Ok (), h j s)) s = (r, s')"
  shows "\<exists>t. disk_only s t \<and> Disk t = Disk s \<and> (r = Inr () \<longrightarrow> (case g (Disk s) of Missing \<Rightarrow> s' = t
     | Damaged \<Rightarrow> False | Sealed j \<Rightarrow> s' = h j t)) \<and> (r \<noteq> Inr () \<longrightarrow> s' = t)"
  using assms
proof (cases rule: op_bindE)
  case (err e)
  then show ?thesis using read_call_spec[OF err(1)] by auto
next
  case (ok a t)
  then show ?thesis using read_call_spec[OF ok(1)] by (intro exI[of _ t]) (auto split: sealed_file.splits)
qed

lemma load_offsets_spec:
  assumes "load_offsets s = (r, s')" "Journal s = empty_journal"
  shows "Disk s' = Disk s \<and> Segments s' = Segments s \<and> Fault s' = Fault s \<and> Active s' = Active s \<and> LossJournal s' = LossJournal s \<and>
    (r = Inr () \<longrightarrow> Journal s' = stored_offsets (Disk s))"
proof -
  obtain t where t: "disk_only s t" "Disk t = Disk s" "r \<noteq> Inr () \<longrightarrow> s' = t"
    "r = Inr () \<longrightarrow> (case OffsetsFile (Disk s) of Missing \<Rightarrow> s' = t | Damaged \<Rightarrow> False
       | Sealed j \<Rightarrow> s' = t\<lparr>Journal := j\<rparr>)"
    using load_call[OF assms(1)[unfolded load_offsets_def]] by auto
  note d = disk_onlyD[OF t(1)]
  have shape: "s' = t \<or> (\<exists>j. s' = t\<lparr>Journal := j\<rparr>)"
    using t(3,4) by (cases "r = Inr ()") (auto split: sealed_file.splits)
  have "Journal s' = stored_offsets (Disk s)" if "r = Inr ()"
    using t(4)[rule_format, OF that] d assms(2) by (auto simp: stored_offsets_def split: sealed_file.splits)
  then show ?thesis using shape t(2) d by auto
qed

lemma load_losses_spec:
  assumes "load_losses s = (r, s')" "LossJournal s = empty_losses"
  shows "Disk s' = Disk s \<and> Segments s' = Segments s \<and> Fault s' = Fault s \<and> Active s' = Active s \<and> Journal s' = Journal s \<and>
    (r = Inr () \<longrightarrow> LossJournal s' = stored_losses (Disk s))"
proof -
  obtain t where t: "disk_only s t" "Disk t = Disk s" "r \<noteq> Inr () \<longrightarrow> s' = t"
    "r = Inr () \<longrightarrow> (case LossesFile (Disk s) of Missing \<Rightarrow> s' = t | Damaged \<Rightarrow> False
       | Sealed j \<Rightarrow> s' = t\<lparr>LossJournal := j\<rparr>)"
    using load_call[OF assms(1)[unfolded load_losses_def]] by auto
  note d = disk_onlyD[OF t(1)]
  have shape: "s' = t \<or> (\<exists>j. s' = t\<lparr>LossJournal := j\<rparr>)"
    using t(3,4) by (cases "r = Inr ()") (auto split: sealed_file.splits)
  have "LossJournal s' = stored_losses (Disk s)" if "r = Inr ()"
    using t(4)[rule_format, OF that] d assms(2) by (auto simp: stored_losses_def split: sealed_file.splits)
  then show ?thesis using shape t(2) d by auto
qed

lemma load_journals_spec:
  assumes "load_journals ro s = (r, s')" "Journal s = empty_journal" "LossJournal s = empty_losses"
  shows "Disk s' = Disk s \<and> Segments s' = Segments s \<and> Fault s' = Fault s \<and> Active s' = Active s \<and>
    (r = Inr () \<longrightarrow> Journal s' = stored_offsets (Disk s) \<and> LossJournal s' = stored_losses (Disk s))"
proof (cases "ro \<and> (OffsetsFile (Disk s) = Missing \<or> LossesFile (Disk s) = Missing)")
  case True
  then show ?thesis using assms(1) by (auto simp: load_journals_def)
next
  case False
  from assms(1)[unfolded load_journals_def, simplified if_not_P[OF False]] show ?thesis
  proof (cases rule: op_bindE)
    case (err e)
    then show ?thesis using load_offsets_spec[OF err(1) assms(2)] by simp
  next
    case o: (ok a t)
    note t = load_offsets_spec[OF o(1) assms(2)]
    show ?thesis
    proof (cases "JVersion (Journal t) \<noteq> 1 \<or> int (length (Offsets (Journal t))) > max_segments
           \<or> int (length (Quarantined (Journal t))) > max_segments")
      case True
      then show ?thesis using o(2) t by auto
    next
      case False
      from o(2)[simplified if_not_P[OF False]] show ?thesis
      proof (cases rule: op_bindE)
        case (err e)
        then show ?thesis using load_losses_spec[OF err(1)] t assms(3) by simp
      next
        case (ok b u)
        then show ?thesis using load_losses_spec[OF ok(1)] t assms(3) by (auto split: if_splits)
      qed
    qed
  qed
qed


lemma map_of_filter_key: "P k \<Longrightarrow> map_of (filter (\<lambda>(n, _). P n) xs) k = map_of xs k"
  by (induction xs) auto

lemma offset_of_filter: "P k \<Longrightarrow> offset_of (filter (\<lambda>(n, _). P n) xs) k = offset_of xs k"
  by (simp add: offset_of_def map_of_filter_key)

lemma drop_stale_fields:
  "Segments (drop_stale s) = Segments s" "Disk (drop_stale s) = Disk s" "Fault (drop_stale s) = Fault s" "Active (drop_stale s) = Active s"
  "live_names (drop_stale s) = live_names s"
  "Offsets (Journal (drop_stale s)) = filter (\<lambda>(n, _). n \<in> live_names s) (Offsets (Journal s))"
  "Quarantined (Journal (drop_stale s)) = filter (\<lambda>(n, _). n \<in> live_names s) (Quarantined (Journal s))"
  "Discarded (LossJournal (drop_stale s)) = filter (\<lambda>n. n \<in> live_names s) (Discarded (LossJournal s))"
  "Losses (LossJournal (drop_stale s)) = Losses (LossJournal s)"
  by (simp_all add: drop_stale_def live_names_def)

text \<open>The account only looks at the journals where there are files.\<close>

lemma accounted_stale:
  assumes keys: "fst ` set (SegFiles d) \<subseteq> live"
    and off: "\<And>n. n \<in> live \<Longrightarrow> offset_of (Offsets (stored_offsets d')) n = offset_of (Offsets (stored_offsets d)) n"
    and dis: "\<And>n. n \<in> live \<Longrightarrow> n \<in> set (Discarded (stored_losses d')) \<longleftrightarrow> n \<in> set (Discarded (stored_losses d))"
    and l: "Losses (stored_losses d') = Losses (stored_losses d)" and f: "SegFiles d' = SegFiles d"
  shows "accounted d' src = accounted d src"
proof -
  have "map (file_share (stored_offsets d') (stored_losses d') src) (SegFiles d) =
        map (file_share (stored_offsets d) (stored_losses d) src) (SegFiles d)"
    using keys off dis by (intro file_share_cong) fastforce
  from arg_cong[OF this, of sum_list] show ?thesis by (simp add: accounted_def l f)
qed

text \<open>The two rewrites of the journals at the end of \<open>recover\<close>.\<close>

lemma rewrite_journals:
  assumes c: "consistent s" and act: "Active s = ''''" and dead: "live_names s \<inter> set (Discarded (LossJournal s)) = {}"
    and run: "op_bind (write_offsets (Journal (drop_stale s))) (\<lambda>_ s.
           op_bind (write_losses (LossJournal s)) (\<lambda>_. prune now 0) s) (drop_stale s) = (r, s')"
  shows "accounted (Disk s') src = accounted (Disk s) src" "r = Inr () \<Longrightarrow> steady s' \<and> Fault s' = Fault s"
proof -
  let ?q = "drop_stale s"
  have c': "scanned s" "distinct (map SegName (Segments s))" "distinct (map fst (SegFiles (Disk s)))"
    "fst ` set (SegFiles (Disk s)) = live_names s" "stored_offsets (Disk s) = Journal s"
    "stored_losses (Disk s) = LossJournal s"
    using c by (auto simp: consistent_def)
  have off: "offset_of (Offsets (Journal ?q)) n = offset_of (Offsets (Journal s)) n" if "n \<in> live_names s" for n
    using that by (simp add: drop_stale_fields offset_of_filter)
  have none: "Discarded (LossJournal ?q) = []"
    using dead by (auto simp: drop_stale_fields filter_empty_conv)
  let ?d1 = "(Disk s)\<lparr>OffsetsFile := Sealed (Journal ?q)\<rparr>"
  let ?d2 = "?d1\<lparr>LossesFile := Sealed (LossJournal ?q)\<rparr>"
  have a1: "accounted ?d1 src = accounted (Disk s) src"
    by (rule accounted_stale[where live = "live_names s"]) (use c' off in simp_all)
  have a2: "accounted ?d2 src = accounted (Disk s) src"
    by (rule accounted_stale[where live = "live_names s"]) (use c' off none dead in \<open>auto simp: drop_stale_fields\<close>)
  have "accounted (Disk s') src = accounted (Disk s) src \<and> (r = Inr () \<longrightarrow> steady s' \<and> Fault s' = Fault s)"
    using run
  proof (cases rule: op_bindE)
    case (err e)
    then show ?thesis using write_offsets_spec(2)[OF err(1)] a1 by (auto simp: drop_stale_fields)
  next
    case o: (ok a t)
    have t: "disk_only ?q t" "Disk t = ?d1" using write_offsets_spec[OF o(1)] by (auto simp: drop_stale_fields)
    have lt: "LossJournal t = LossJournal ?q" using t(1) by (auto elim!: disk_onlyE)
    from o(2) show ?thesis
    proof (cases rule: op_bindE)
      case (err e)
      then show ?thesis using write_losses_spec(2)[OF err(1)] a1 a2 t(2) lt by auto
    next
      case y: (ok b u)
      have u: "disk_only ?q u" "Disk u = ?d2"
        using write_losses_spec[OF y(1)] t lt disk_only_trans by auto
      note fr = disk_onlyD[OF u(1)]
      have "steady u"
        unfolding steady_def live_names_def[of u] fr drop_stale_fields u(2)
        using c'(1,2,3) none off act
        by (auto simp: scanned_def list_all_iff drop_stale_fields live_names_def active_whole_def fr)
      then show ?thesis using prune_steady[OF _ y(2), of src] a2 u(2) fr(8) by (simp add: drop_stale_fields)
    qed
  qed
  then show "accounted (Disk s') src = accounted (Disk s) src" "r = Inr () \<Longrightarrow> steady s' \<and> Fault s' = Fault s"
    by auto
qed

text \<open>A directory of a spool: one entry per name, only segment files among the files listed.\<close>

definition spool_dir :: "disk \<Rightarrow> bool" where
  "spool_dir d \<longleftrightarrow> distinct (map fst (SegFiles d)) \<and> list_all segment_suffix (map fst (SegFiles d))"

lemma recover_account:
  assumes dir: "spool_dir (Disk s)" and init: "Segments s = []" "Journal s = empty_journal" "LossJournal s = empty_losses" "Active s = ''''"
    and run: "recover now False s = (r, s')"
  shows "accounted (Disk s') src = accounted (Disk s) src" "r = Inr () \<Longrightarrow> steady s' \<and> Fault s' = Fault s"
proof -
  have dd: "distinct (map fst (SegFiles (Disk s)))" "filter segment_suffix (map fst (SegFiles (Disk s))) = map fst (SegFiles (Disk s))"
    using dir by (auto simp: spool_dir_def list_all_iff filter_id_conv)
  have "accounted (Disk s') src = accounted (Disk s) src \<and> (r = Inr () \<longrightarrow> steady s' \<and> Fault s' = Fault s)"
    using run[unfolded recover_def]
  proof (cases rule: op_bindE)
    case (err e)
    then show ?thesis using load_journals_spec[OF err(1) init(2,3)] by simp
  next
    case a: (ok x t)
    note t = load_journals_spec[OF a(1) init(2,3)]
    from a(2) show ?thesis
    proof (cases rule: op_bindE)
      case (err e)
      then show ?thesis using read_call_spec[OF err(1)] t by auto
    next
      case b: (ok files u)
      have u: "disk_only t u" "Disk u = Disk s" "files = SegFiles (Disk s)"
        using read_call_spec[OF b(1)] t by auto
      note fu = disk_onlyD[OF u(1)]
      define names where "names = sort (map fst (SegFiles (Disk s)))"
      have sc: "scanned u" using t init(1) by (simp add: scanned_def fu)
      show ?thesis
      proof (cases "int (length names) > max_segments")
        case True
        then show ?thesis using b(2) u dd by (auto simp: Let_def names_def fail_with_def)
      next
        case False
        have "op_bind (recover_files False names) (\<lambda>_ s.
          op_bind (finish_discarded False (Segments s)) (\<lambda>_ s.
           op_bind (write_offsets (Journal (drop_stale s))) (\<lambda>_ s.
           op_bind (write_losses (LossJournal s)) (\<lambda>_. prune now 0) s) (drop_stale s)) s) u = (r, s')"
          using b(2) u dd False by (simp add: Let_def names_def)
        then show ?thesis
        proof (cases rule: op_bindE)
          case (err e)
          then show ?thesis using recover_files_spec[OF err(1) sc] u(2) by (simp add: repaired_def)
        next
          case c: (ok y v)
          have v: "repaired u v" "scanned v" "map SegName (Segments v) = names"
            using recover_files_spec[OF c(1) sc] t init(1) fu by auto
          have sets: "set (map fst (SegFiles (Disk v))) = live_names v" "distinct (map SegName (Segments v))"
            "distinct (map fst (SegFiles (Disk v)))"
            using v dd u(2) by (simp_all add: repaired_def live_names_def names_def)
          have keys: "fst ` set (SegFiles (Disk v)) = live_names v" using sets(1) by simp
          have con: "consistent v"
            using v(1,2) sets(2,3) t fu u(2) unfolding consistent_def keys
            by (simp add: repaired_def stored_offsets_def stored_losses_def)
          from c(2) show ?thesis
          proof (cases rule: op_bindE)
            case (err e)
            then show ?thesis using finish_discarded_spec[OF err(1) con order.refl sets(2)] v(1) u(2)
              by (simp add: repaired_def)
          next
            case d: (ok z w)
            note fd = finish_discarded_spec[OF d(1) con order.refl sets(2), of src]
            have w: "consistent w" "live_names w \<inter> set (Discarded (LossJournal w)) = {}"
              using fd by (auto simp: live_names_def)
            have act: "Active w = ''''" using fd v(1) t fu init(4) by (simp add: repaired_def)
            show ?thesis
              using rewrite_journals[OF w(1) act w(2) d(2)] fd v(1) u(2) t fu by (simp add: repaired_def)
          qed
        qed
      qed
    qed
  qed
  then show "accounted (Disk s') src = accounted (Disk s) src" "r = Inr () \<Longrightarrow> steady s' \<and> Fault s' = Fault s"
    by auto
qed

lemma open_account:
  assumes "spool_dir d" "open_spool sid now opts False prepared locked d sch = (r, s)"
  shows "accounted (Disk s) src = accounted d src" "r = Inr () \<Longrightarrow> steady s \<and> Fault s = None"
proof -
  define s0 where "s0 = \<lparr>SpoolID = sid, LimitBytes = (if OptBytes opts = 0 then max_bytes else OptBytes opts),
      LimitAgeMS = quot64 (if OptAge opts = 0 then max_age_ms * 1000000 else OptAge opts) 1000000, Segments = [],
      Journal = empty_journal, LossJournal = empty_losses, Active = '''', NextSegment = 0,
      ReadOnly = False, Closed = False, Fault = None, Disk = d, Schedule = sch\<rparr>"
  have s0: "Segments s0 = []" "Journal s0 = empty_journal" "LossJournal s0 = empty_losses" "Active s0 = ''''" "Disk s0 = d" "Fault s0 = None"
    by (simp_all add: s0_def)
  obtain e t where rec: "recover now False s0 = (e, t)" by fastforce
  note ra = recover_account[of s0, OF _ s0(1-4) rec, unfolded s0(5,6), OF assms(1)]
  have "Disk s = d \<and> r \<noteq> Inr () \<or> (case e of Inl x \<Rightarrow> r = Inl x \<and> s = close_spool t | Inr _ \<Rightarrow> r = e \<and> s = t)"
    using assms(2) rec unfolding open_spool_def Let_def s0_def
    by (auto split: if_splits sum.splits)
  then show "accounted (Disk s) src = accounted d src" "r = Inr () \<Longrightarrow> steady s \<and> Fault s = None"
    using ra by (auto simp: close_spool_def split: sum.splits)
qed

end
