(* ===== verification/SpoolProperties.thy ===== *)
theory SpoolProperties
  imports SpoolRecovery
begin

text \<open>
  The properties of the collector spool, each with a concrete run on which its hypotheses hold:
  a spool opened on an empty directory and one frame of one source.
\<close>

section \<open>A concrete spool\<close>

definition demo_id :: string where "demo_id = ''00000000-0000-4000-8000-00000000000a''"

definition demo_frame :: spool_record where
  "demo_frame = \<lparr>DeploymentID = demo_id, Generation = demo_id, SessionGeneration = 1, HostID = demo_id,
     BootID = demo_id, SourceID = demo_id, Sequence = 7, ObservedMS = 1000, Payload = ''frame''\<rparr>"

definition empty_disk :: disk where
  "empty_disk = \<lparr>SegFiles = [], OffsetsFile = Missing, LossesFile = Missing\<rparr>"

definition demo_spool :: spool where
  "demo_spool = snd (open_spool 1 1000 \<lparr>OptBytes = 0, OptAge = 0\<rparr> False True False empty_disk [])"

definition demo_spool1 :: spool where
  "demo_spool1 = snd (append 1000 (Some demo_id) demo_frame demo_spool)"

definition demo_read :: "(spool_error, pending) result \<times> spool" where
  "demo_read = read_pending 1000 demo_id demo_id True 262144 4 demo_spool1"

definition demo_pending :: pending where
  "demo_pending = (case fst demo_read of Inr p \<Rightarrow> p | Inl _ \<Rightarrow> no_pending)"

definition late :: int64 where "late = 86402000"

lemma demo_steady: "steady demo_spool" "steady demo_spool1" by code_simp+

lemma demo_limits: "max_record_bytes \<le> LimitBytes demo_spool" by code_simp

lemma demo_time: "in_int64 (ObservedMS demo_frame)" by code_simp

section \<open>Accounting\<close>

text \<open>
  (C28) Append on a steady spool adds exactly its record to what the directory accounts for,
  whichever of its system calls fail: a call that succeeds has added the record once, and has
  added nothing else and lost nothing, even where it had to evict older segments first; a call
  that reports an error has added it or not, never part of it, and has lost nothing either.
  Steady is the spool that Open returns and that every successful call leaves: the journals in
  memory are those on disk and no journaled deletion is pending. A call that failed without
  setting \<open>fault\<close> can leave a spool that is not steady, for which this is not claimed, and is
  not true: \<open>append_after_failed_eviction\<close> below.
\<close>
theorem append_accounts_once:
  assumes "steady s" "append now uuid rec s = (r, s')"
    and "max_record_bytes \<le> LimitBytes s" "in_int64 (ObservedMS rec)"
  shows "case r of
      Inr _ \<Rightarrow> steady s' \<and> accounted (Disk s') src = accounted (Disk s) src + count_source src [rec]
    | Inl _ \<Rightarrow> accounted (Disk s') src \<in>
        {accounted (Disk s) src, accounted (Disk s) src + count_source src [rec]}"
  using append_account(1)[OF assms, of src] append_account(2)[OF assms] by (cases r) auto

lemma append_accounts_once_witness:
  "accounted (Disk demo_spool1) demo_id = accounted (Disk demo_spool) demo_id + 1"
proof -
  have run: "append 1000 (Some demo_id) demo_frame demo_spool = (Inr (), demo_spool1)" by code_simp
  have "count_source demo_id [demo_frame] = 1" by code_simp
  then show ?thesis
    using append_accounts_once[OF demo_steady(1) run demo_limits demo_time, of demo_id] by simp
qed

text \<open>
  The spool that is not covered. Append evicts the only, active segment: its loss is journaled,
  then the removal of its file fails, and the call returns the error without setting \<open>fault\<close>. The
  next Append, with the clock set back, finds nothing to evict and writes into the segment that is
  already journaled as lost: it succeeds and adds nothing to the account. Open then deletes the
  file, and the record is neither stored nor counted. A large record that finds the spool full,
  followed by a smaller one that fits, takes the same way without the clock.
\<close>

definition failed_eviction :: "(spool_error, unit) result \<times> spool" where
  "failed_eviction = append late (Some demo_id) demo_frame
     (demo_spool1\<lparr>Schedule := [Succeeds, Succeeds, FailsBefore]\<rparr>)"

lemma append_after_failed_eviction:
  "fst failed_eviction = Inl ErrIO \<and>
   (case append 1000 (Some demo_id) demo_frame (snd failed_eviction) of (r, s) \<Rightarrow>
      r = Inr () \<and> accounted (Disk s) demo_id = accounted (Disk (snd failed_eviction)) demo_id \<and>
      (case open_spool 2 1000 \<lparr>OptBytes = 0, OptAge = 0\<rparr> False True False (Disk s) [] of (r', s') \<Rightarrow>
         r' = Inr () \<and> SegFiles (Disk s') = [] \<and>
         lost_count demo_id (Losses (LossJournal s')) = 1))"
  by code_simp





text \<open>
  (C11) Reopening after a crash at any point keeps the account: Open on a directory whose files
  are segments with distinct names, whatever it repairs, finishes or evicts, and whether or not
  one of its own calls fails, leaves the directory accounting for the records it found there, and
  a spool it returns is steady: journals and directory agree, no journaled deletion is pending,
  every segment can be read from its acknowledged offset to its end, and no record can be written
  behind an incomplete one. A header without any byte of its record is the one incomplete tail
  that stays: reading ends there without an error (\<open>header_tail_stays\<close>).
\<close>
theorem open_conserves_account:
  assumes "spool_dir d" "open_spool sid now opts False prepared locked d sch = (r, s)"
  shows "accounted (Disk s) src = accounted d src \<and> (r = Inr () \<longrightarrow> steady s)"
  using open_account[OF assms] by auto

text \<open>A directory left by a crash: a torn record behind a complete one, and a segment whose loss
  was journaled but whose file is still there.\<close>

definition crash_name1 :: string where
  "crash_name1 = ''0000000000000000001-00000000-0000-4000-8000-00000000000a.seg''"

definition crash_name2 :: string where
  "crash_name2 = ''0000000000000000002-00000000-0000-4000-8000-00000000000a.seg''"

definition crash_disk :: disk where
  "crash_disk = \<lparr>SegFiles = [(crash_name2, \<lparr>Contents = [demo_frame], Torn = 17\<rparr>),
                              (crash_name1, \<lparr>Contents = [demo_frame, demo_frame], Torn = 0\<rparr>)],
     OffsetsFile = Sealed empty_journal,
     LossesFile = Sealed \<lparr>LVersion = 1, Revision = 1,
       Losses = [\<lparr>LossSource = demo_id, StartMS = 1000, EndMS = 1000, LossCount = 2, LossReason = ''spool_age''\<rparr>],
       Discarded = [crash_name1]\<rparr>\<rparr>"

lemma open_conserves_account_witness:
  "accounted crash_disk demo_id = 3 \<and>
   map_of (SegFiles (Disk (snd (open_spool 1 1000 \<lparr>OptBytes = 0, OptAge = 0\<rparr> False True False crash_disk [])))) crash_name1 = None \<and>
   accounted (Disk (snd (open_spool 1 1000 \<lparr>OptBytes = 0, OptAge = 0\<rparr> False True False crash_disk []))) demo_id = 3"
proof -
  have dir: "spool_dir crash_disk" by code_simp
  have a: "accounted crash_disk demo_id = 3" by code_simp
  have g: "map_of (SegFiles (Disk (snd (open_spool 1 1000 \<lparr>OptBytes = 0, OptAge = 0\<rparr> False True False crash_disk [])))) crash_name1 = None"
    by code_simp
  show ?thesis
    using open_conserves_account[OF dir prod.collapse[symmetric],
        of 1 1000 "\<lparr>OptBytes = 0, OptAge = 0\<rparr>" True False "[]" demo_id] a g by simp
qed

text \<open>
  A tail of exactly the header stays in the file, also where Open is asked for a preview that
  reports torn tails, and the records before it are read to the end.
\<close>

definition header_disk :: disk where
  "header_disk = \<lparr>SegFiles = [(crash_name2, \<lparr>Contents = [demo_frame], Torn = 40\<rparr>)],
     OffsetsFile = Sealed empty_journal, LossesFile = Sealed empty_losses\<rparr>"

lemma header_tail_stays:
  "fst (open_spool 1 1000 \<lparr>OptBytes = 0, OptAge = 0\<rparr> True True False header_disk []) = Inr () \<and>
   (case open_spool 1 1000 \<lparr>OptBytes = 0, OptAge = 0\<rparr> False True False header_disk [] of (r, s) \<Rightarrow>
      r = Inr () \<and> SegFiles (Disk s) = SegFiles header_disk \<and>
      (case fst (read_pending 1000 demo_id demo_id True 262144 4 s) of
         Inr p \<Rightarrow> Records p = [demo_frame] | Inl _ \<Rightarrow> False))"
  by code_simp

section \<open>Bounds\<close>

text \<open>
  The spool never outgrows its limits: after a successful Append the segments together hold
  at most the configured number of bytes and there are at most 20000 of them. Append makes the
  room before it writes, and a single record always fits.
\<close>
theorem append_stays_within_limits:
  assumes "steady s" "append now uuid rec s = (Inr (), s')"
    and "max_record_bytes \<le> LimitBytes s" "in_int64 (ObservedMS rec)"
  shows "used_bytes s' \<le> LimitBytes s \<and> int (length (Segments s')) \<le> 20000 \<and>
    list_all (\<lambda>seg. SegSize seg \<le> segment_bytes) (Segments s')"
proof -
  have s': "steady s'" "used_bytes s' \<le> LimitBytes s" "int (length (Segments s')) \<le> max_segments"
    using append_account(2)[OF assms(1,2,3,4)] by auto
  have "SegSize seg \<le> segment_bytes" if "seg \<in> set (Segments s')" for seg
    using steadyD(3)[OF s'(1) that] by (elim seg_okE)
  then show ?thesis using s' by (simp add: list_all_iff max_segments_def)
qed

lemma append_stays_within_limits_witness:
  "used_bytes demo_spool1 = 392 \<and> used_bytes demo_spool1 \<le> LimitBytes demo_spool"
proof -
  have run: "append 1000 (Some demo_id) demo_frame demo_spool = (Inr (), demo_spool1)" by code_simp
  have "used_bytes demo_spool1 = 392" by code_simp
  then show ?thesis
    using append_stays_within_limits[OF demo_steady(1) run demo_limits demo_time] by simp
qed

text \<open>
  The bound on encoded records never rejects a valid record: the largest frame with the
  longest metadata, encoded, is below it, so the only size check that can refuse a frame is the
  one on the payload.
\<close>
theorem valid_records_fit_bound:
  assumes "validate_record r = Ok ()" "in_int64 (ObservedMS r)"
  shows "readable r \<and> wire_length r < max_record_bytes"
  using valid_record_fits[OF assms] assms(1)
  by (simp_all add: readable_def wire_length_def spool_constants)

lemma valid_records_fit_bound_witness:
  "readable demo_frame \<and> wire_length demo_frame < max_record_bytes"
proof -
  have v: "validate_record demo_frame = Ok ()" by code_simp
  show ?thesis using valid_records_fit_bound[OF v demo_time] by simp
qed

section \<open>Reading\<close>

text \<open>
  ReadPending answers with the first segment on offer, newest first for the current boot and
  oldest first for the rest: the records are a non-empty contiguous prefix of what that segment
  holds behind its acknowledged offset, at most the requested number of them, within the
  requested bytes, all of one boot and of the requested security generation, and the cursor
  covers exactly them. It answers with nothing only when nothing is on offer.
\<close>
theorem read_pending_contiguous_prefix:
  assumes "steady s" "read_pending now boot generation current mb mf s = (Inr p, t)"
  shows "case find (offered now boot generation current t)
             (search_order current t) of
      None \<Rightarrow> p = no_pending
    | Some seg \<Rightarrow> reads_prefix mb mf t seg p \<and> quarantine_code t (SegName seg) = '''' \<and>
        list_all (\<lambda>r. BootID r = SegBoot seg \<and> Generation r = generation) (Records p)"
proof (cases "find (offered now boot generation current t) (search_order current t)")
  case None
  then show ?thesis using read_pending_steady(2)[OF assms refl] by simp
next
  case (Some seg)
  have t: "steady t" "reads_prefix mb mf t seg p"
    using read_pending_steady(2)[OF assms refl] Some by simp_all
  have seg: "seg \<in> set (Segments t)" "offered now boot generation current t seg"
    using find_SomeD[OF Some] by auto
  obtain f where f: "map_of (SegFiles (Disk t)) (SegName seg) = Some f"
    "list_all (\<lambda>r. BootID r = SegBoot seg \<and> Generation r = SegGeneration seg) (Contents f)"
    using steadyD(3)[OF t(1) seg(1)] by (elim seg_okE)
  obtain ps us where "Contents f = ps @ Records p @ us" using t(2) f(1) by (auto simp: reads_prefix_def)
  then show ?thesis using Some t(2) f(2) seg(2) by (auto simp: offered_def list_all_iff)
qed

lemma read_pending_contiguous_prefix_witness:
  "Records demo_pending = [demo_frame] \<and>
   (case find (offered 1000 demo_id demo_id True (snd demo_read)) (search_order True (snd demo_read)) of
      None \<Rightarrow> demo_pending = no_pending
    | Some seg \<Rightarrow> reads_prefix 262144 4 (snd demo_read) seg demo_pending)"
proof -
  have read: "read_pending 1000 demo_id demo_id True 262144 4 demo_spool1 = (Inr demo_pending, snd demo_read)"
    by code_simp
  have "Records demo_pending = [demo_frame]" by code_simp
  then show ?thesis
    using read_pending_contiguous_prefix[OF demo_steady(2) read] by (auto split: option.splits)
qed

section \<open>Loss acknowledgements\<close>

text \<open>
  A loss acknowledgement is exact: it is accepted only for the revision the spool is at, it
  then removes the first intervals of the list, keeps the rest in order, and moves to the next
  revision on disk and in memory together. A call that is refused or whose write fails keeps the
  in-memory list as it was.
\<close>
theorem ack_losses_exact:
  assumes "ack_losses_prefix revision count s = (r, s')"
  shows "case r of
      Inr _ \<Rightarrow> revision = Revision (LossJournal s) \<and> 0 \<le> count \<and>
        Losses (LossJournal s) = take (nat count) (Losses (LossJournal s)) @ fst (losses s') \<and>
        snd (losses s') = revision + 1 \<and> LossesFile (Disk s') = Sealed (LossJournal s')
    | Inl _ \<Rightarrow> losses s' = losses s"
  using assms[unfolded ack_losses_prefix_def]
proof (cases rule: op_bindE)
  case (err e)
  then show ?thesis using writable_spec[OF err(1)] by simp
next
  case w: (ok a t)
  have t: "t = s" using writable_spec[OF w(1)] by simp
  show ?thesis
  proof (cases "revision \<noteq> Revision (LossJournal s) \<or> count < 0 \<or> count > int (length (Losses (LossJournal s)))")
    case True
    then show ?thesis using w(2) t by auto
  next
    case ok: False
    define nxt where "nxt = \<lparr>LVersion = 1, Revision = revision + 1,
                      Losses = drop (nat count) (Losses (LossJournal s)),
                      Discarded = Discarded (LossJournal s)\<rparr>"
    have "op_bind (write_losses nxt) (\<lambda>_ s. (Ok (), s\<lparr>LossJournal := nxt\<rparr>)) s = (r, s')"
      using w(2) ok t by (simp add: nxt_def Let_def)
    then show ?thesis
    proof (cases rule: op_bindE)
      case (err e)
      then show ?thesis using disk_onlyD[OF write_losses_spec(1)[OF err(1)]] by (simp add: losses_def)
    next
      case (ok b u)
      then show ?thesis using write_losses_spec(2)[OF ok(1)] \<open>\<not> _\<close> by (auto simp: losses_def nxt_def)
    qed
  qed
qed

lemma ack_losses_exact_witness:
  "losses (snd (ack_losses_prefix 1 1 (snd (prune late 0 demo_spool1)))) = ([], 2) \<and>
   losses (snd (ack_losses_prefix 0 1 (snd (prune late 0 demo_spool1)))) = losses (snd (prune late 0 demo_spool1))"
proof
  let ?s = "snd (prune late 0 demo_spool1)"
  have ok: "fst (ack_losses_prefix 1 1 ?s) = Inr ()" by code_simp
  have one: "length (Losses (LossJournal ?s)) = 1" by code_simp
  show "losses (snd (ack_losses_prefix 1 1 ?s)) = ([], 2)"
    using ack_losses_exact[OF prod.collapse[symmetric], of 1 1 ?s] ok one
    by (auto simp: losses_def append_eq_conv_conj)
  have no: "fst (ack_losses_prefix 0 1 ?s) = Inl ErrCursor" by code_simp
  show "losses (snd (ack_losses_prefix 0 1 ?s)) = losses ?s"
    using ack_losses_exact[OF prod.collapse[symmetric], of 0 1 ?s] no by simp
qed

end
