(* ===== verification/Domain.thy ===== *)
theory Domain
  imports GoFloat
begin

text \<open>
  \<open>internal/domain/observation.go\<close> and the constants of \<open>domain.go\<close>: the measurements a
  collector makes, with their quality, provenance and missing reasons. Go's string enums are
  datatypes with a catch-all constructor for every other string; pointers are options; a Go
  map is the list of its entries with distinct keys.
\<close>

definition SchemaVersion :: string where "SchemaVersion = ''1.0''"
definition RegistryRevision :: string where "RegistryRevision = ''mac-ollama-1''"
definition ProtocolVersion :: string where "ProtocolVersion = ''1.0''"

datatype quality =
    QualityMeasured | QualityRuntimeReported | QualityOperatorImportedUnverified | QualityDerived
  | QualityEstimated | QualityDeclared | QualityInferred | QualityUnavailable | QualityOther string

datatype missing_reason =
    MissingUnsupportedPlatform | MissingRuntimeUnverified | MissingPermissionDenied
  | MissingSourceTimeout | MissingSourceUnreachable | MissingParseRejected | MissingLimitExceeded
  | MissingIdentityUnverified | MissingAlignmentUnavailable | MissingPopulationNotObserved
  | MissingNotApplicable | MissingPopulationPartial | MissingMethodUncertified
  | MissingFieldOmitted | MissingCollectionGap | MissingOther string

datatype verification =
    VerificationDirectCapture | VerificationOperatorImportedUnverified
  | VerificationDeclaredUnverified | VerificationSyntheticFixture | VerificationOther string

datatype provenance_source =
    ProvenanceDarwinAPI | ProvenanceRuntimeAPI | ProvenanceDirectClient | ProvenanceOperatorImport
  | ProvenanceOperatorDeclaration | ProvenanceContractFixture | ProvenanceOther string

record provenance =
  PSource :: provenance_source
  MethodRevision :: string
  PVerification :: verification
  ObservedAtMS :: "int64 option"
  SourceArtifactSHA256 :: "string option"

record missing_capability =
  MissingID :: string
  MissingWhy :: missing_reason
  DetailCode :: "string option"

text \<open>A \<open>Uint64Decimal\<close> is the text of a number.\<close>

type_synonym uint64_decimal = string

definition decimal_uint64 :: "nat \<Rightarrow> uint64_decimal" where
  "decimal_uint64 n = decimal n"

record 'a metric_observation =
  MetricValueOf :: "'a option"
  MetricQuality :: quality
  MetricMissing :: "missing_reason option"
  MetricProvenance :: provenance

definition measured :: "'a \<Rightarrow> provenance \<Rightarrow> 'a metric_observation" where
  "measured v p = \<lparr>MetricValueOf = Some v, MetricQuality = QualityMeasured, MetricMissing = None,
                   MetricProvenance = p\<rparr>"

definition runtime_reported :: "'a \<Rightarrow> provenance \<Rightarrow> 'a metric_observation" where
  "runtime_reported v p = \<lparr>MetricValueOf = Some v, MetricQuality = QualityRuntimeReported,
                           MetricMissing = None, MetricProvenance = p\<rparr>"

definition unavailable_metric :: "missing_reason \<Rightarrow> provenance \<Rightarrow> 'a metric_observation" where
  "unavailable_metric reason p = \<lparr>MetricValueOf = None, MetricQuality = QualityUnavailable,
                                  MetricMissing = Some reason, MetricProvenance = p\<rparr>"

datatype pressure_level = PressureNormal | PressureWarning | PressureCritical | PressureOther string

record component_timing =
  TObservedWallMS :: int64
  TMonotonicStartNS :: uint64_decimal
  TMonotonicEndNS :: uint64_decimal
  TDurationMS :: int64

text \<open>The monotonic readings are \<open>uint64\<close> nanoseconds.\<close>

definition new_component_timing :: "int64 \<Rightarrow> nat \<Rightarrow> nat \<Rightarrow> component_timing" where
  "new_component_timing wallMS startNS endNS =
     \<lparr>TObservedWallMS = wallMS, TMonotonicStartNS = decimal_uint64 startNS,
      TMonotonicEndNS = decimal_uint64 endNS,
      TDurationMS = (if endNS \<ge> startNS then int ((endNS - startNS) div 1000000) else 0)\<rparr>"

record host_gauges =
  CPUBusyRatioGauge :: "float64 metric_observation"
  PressureLevelGauge :: "pressure_level metric_observation"
  CompressedBytesGauge :: "uint64_decimal metric_observation"
  SwapUsedBytesGauge :: "uint64_decimal metric_observation"
  DiskFreeBytesGauge :: "uint64_decimal metric_observation"

record host_component_timings =
  CPUTiming :: component_timing
  PressureTiming :: component_timing
  CompressedTiming :: component_timing
  SwapTiming :: component_timing
  DiskTiming :: component_timing
  NetworkTiming :: component_timing

record network_observation =
  InterfaceID :: string
  NetBootID :: string
  CounterEpochID :: string
  Loopback :: bool
  ReceivedBytesTotal :: "uint64_decimal option"
  SentBytesTotal :: "uint64_decimal option"
  NetMissing :: "missing_capability list"
  NetProvenance :: provenance

record host_observation =
  ComponentTimings :: host_component_timings
  Gauges :: host_gauges
  NetworkObservations :: "network_observation list"
  HostCapabilitiesMissing :: "missing_capability list"

datatype process_category =
  ProcessSelectedOllama | ProcessRMT | ProcessOtherSameUser | ProcessCategoryOther string

datatype association_quality =
  AssociationVerified | AssociationDeclaredUnverified | AssociationAmbiguous | AssociationNone
| AssociationOther string

record process_observation =
  ProcHostID :: string
  ProcBootID :: string
  PID :: int64
  ProcessStartIdentity :: uint64_decimal
  ProcessKey :: string
  DisplayBasename :: "string option"
  ProcCategory :: process_category
  ProcTargetID :: "string option"
  ProcAssociation :: association_quality
  CPUBusyRatio :: "float64 option"
  PhysicalFootprintBytes :: "uint64_decimal option"
  ProcMissing :: "missing_capability list"
  ProcProvenance :: provenance

record process_summary =
  EligiblePIDCount :: int64
  ExaminedPIDCount :: int64
  PermissionDeniedCount :: int64
  RetainedProcessCount :: int64
  EnumerationTruncated :: bool
  Coverage :: string
  SummaryMethodRevision :: string
  SampleIntervalMS :: int64
  ScanDurationMS :: int64

record verified_process_exit =
  ExitPID :: int64
  ExitStartIdentity :: uint64_decimal
  ExitProcessKey :: string
  LastSeenMS :: int64

record endpoint_association =
  AssocTargetID :: string
  EndpointHash :: string
  TargetRevision :: int64
  ManifestRevision :: int64
  ManifestSHA256 :: string
  SelectorSHA256 :: string
  IdentityRevision :: string
  RuntimeVersion :: "string option"
  RuntimeSourcePinID :: "string option"
  AssocPID :: "int64 option"
  AssocStartIdentity :: "uint64_decimal option"
  AssocProcessKey :: "string option"
  AssocQuality :: association_quality
  AssocReason :: "missing_reason option"
  VerifiedExit :: "verified_process_exit option"
  AssocProvenance :: provenance

record process_collection =
  PCTiming :: component_timing
  PCProcesses :: "process_observation list"
  PCSummary :: process_summary
  PCAssociation :: endpoint_association

record model_observation =
  ModelID :: string
  ModelDigest :: string
  Loaded :: bool
  ReportedSizeBytes :: "uint64_decimal option"
  ReportedSizeVRAMBytes :: "uint64_decimal option"
  ModelMissing :: "missing_capability list"
  ModelProvenance :: provenance

record selected_model_config =
  CfgAlias :: string
  CfgDigest :: "string option"
  CfgFormat :: "string option"
  CfgFamily :: "string option"
  CfgQuantization :: "string option"
  CfgContextLength :: "nat option"

record runtime_config_fields =
  ServerVersion :: string
  ServerBuild :: "string option"
  SelectedModel :: "selected_model_config option"

record selected_model_provenance =
  SrcAlias :: provenance
  SrcDigest :: "provenance option"
  SrcFormat :: "provenance option"
  SrcFamily :: "provenance option"
  SrcQuantization :: "provenance option"
  SrcContextLength :: "provenance option"

record runtime_config_provenance =
  SrcServerVersion :: provenance
  SrcServerBuild :: "provenance option"
  SrcSelectedModel :: "selected_model_provenance option"

record runtime_config_observation =
  CfgTargetID :: string
  ConfigHash :: string
  PreviousConfigHash :: "string option"
  PreviousObservedMS :: "int64 option"
  Fields :: runtime_config_fields
  FieldProvenance :: runtime_config_provenance

record runtime_component_timings =
  ReachabilityTiming :: component_timing
  VersionTiming :: "component_timing option"
  LoadedModelsTiming :: "component_timing option"
  TagsTiming :: "component_timing option"
  SelectedShowTiming :: "component_timing option"
  ConfigTiming :: "component_timing option"

record runtime_observation =
  RComponentTimings :: runtime_component_timings
  Reachable :: "bool metric_observation"
  Version :: "string option"
  Build :: "string option"
  Config :: "runtime_config_observation option"
  Models :: "model_observation list"
  RCapabilitiesMissing :: "missing_capability list"

section \<open>The identity of a runtime configuration\<close>

text \<open>
  \<open>RuntimeConfigHash\<close> digests a canonical value: every admitted field with the source it came
  from, and nothing else. The digest of the JSON of that value is the parameter \<open>digest\<close>.
\<close>

type_synonym sourced_string = "string \<times> provenance_source"

record canonical_selected =
  CanAlias :: sourced_string
  CanDigest :: "sourced_string option"
  CanFormat :: "sourced_string option"
  CanFamily :: "sourced_string option"
  CanQuantization :: "sourced_string option"
  CanContextLength :: "(nat \<times> provenance_source) option"

record canonical_config =
  CanServerVersion :: sourced_string
  CanServerBuild :: "sourced_string option"
  CanSelectedModel :: "canonical_selected option"

definition sourced :: "'a option \<Rightarrow> provenance option \<Rightarrow> ('a \<times> provenance_source) option" where
  "sourced v p = (case (v, p) of (Some a, Some q) \<Rightarrow> Some (a, PSource q) | _ \<Rightarrow> None)"

definition canonical_model :: "selected_model_config \<Rightarrow> selected_model_provenance \<Rightarrow> canonical_selected" where
  "canonical_model m p =
     \<lparr>CanAlias = (CfgAlias m, PSource (SrcAlias p)),
      CanDigest = sourced (CfgDigest m) (SrcDigest p),
      CanFormat = sourced (CfgFormat m) (SrcFormat p),
      CanFamily = sourced (CfgFamily m) (SrcFamily p),
      CanQuantization = sourced (CfgQuantization m) (SrcQuantization p),
      CanContextLength = sourced (CfgContextLength m) (SrcContextLength p)\<rparr>"

definition canonical :: "runtime_config_fields \<Rightarrow> runtime_config_provenance \<Rightarrow> canonical_config" where
  "canonical f p =
     \<lparr>CanServerVersion = (ServerVersion f, PSource (SrcServerVersion p)),
      CanServerBuild = sourced (ServerBuild f) (SrcServerBuild p),
      CanSelectedModel = (case (SelectedModel f, SrcSelectedModel p) of
         (Some m, Some q) \<Rightarrow> Some (canonical_model m q) | _ \<Rightarrow> None)\<rparr>"

definition runtime_config_hash ::
  "(canonical_config \<Rightarrow> string) \<Rightarrow> runtime_config_fields \<Rightarrow> runtime_config_provenance \<Rightarrow> string" where
  "runtime_config_hash digest f p = digest (canonical f p)"

end
