(* ===== verification/Protocol.thy ===== *)
theory Protocol
  imports Domain
begin

text \<open>
  \<open>internal/protocol/collector.go\<close>: the messages between a collector and the hub and their
  validation, check by check in the order of the code. Errors are the messages the code
  returns; JSON texts appear as the values they parse to, a number as the \<open>float64\<close> its
  literal denotes (\<open>None\<close> for a literal out of range).
\<close>

section \<open>Constants and formats\<close>

definition MaxBatchBytes :: int where "MaxBatchBytes = 4194304"
definition MaxInventoryBytes :: int where "MaxInventoryBytes = 1048576"
definition MaxStatusBytes :: int where "MaxStatusBytes = 4096"
definition MaxProtocolDepth :: int where "MaxProtocolDepth = 32"
definition MaxUint53 :: int where "MaxUint53 = 9007199254740991"

definition is_hex :: "char \<Rightarrow> bool" where
  "is_hex c \<longleftrightarrow> c \<in> set ''0123456789abcdefABCDEF''"

definition valid_uuid_pattern :: "(char \<Rightarrow> bool) list" where
  "valid_uuid_pattern =
     replicate 8 is_hex @ [\<lambda>c. c = CHR ''-''] @ replicate 4 is_hex @ [\<lambda>c. c = CHR ''-''] @
     [\<lambda>c. c \<in> set ''12345''] @ replicate 3 is_hex @ [\<lambda>c. c = CHR ''-''] @
     [\<lambda>c. c \<in> set ''89abAB''] @ replicate 3 is_hex @ [\<lambda>c. c = CHR ''-''] @ replicate 12 is_hex"

definition valid_uuid :: "string \<Rightarrow> bool" where
  "valid_uuid s \<longleftrightarrow> matches valid_uuid_pattern s"

definition valid_uuids :: "string list \<Rightarrow> bool" where
  "valid_uuids ss \<longleftrightarrow> list_all valid_uuid ss"

definition valid_sha256 :: "string \<Rightarrow> bool" where
  "valid_sha256 s \<longleftrightarrow> matches (replicate 64 is_lower_hex) s"

text \<open>\<open>ollama-N.N.N-source\<close> with decimal numbers, or \<open>runtime-version-unverified\<close>.\<close>

definition split_digits :: "string \<Rightarrow> (string \<times> string)" where
  "split_digits s = (takeWhile is_digit s, dropWhile is_digit s)"

fun strip_prefix :: "string \<Rightarrow> string \<Rightarrow> string option" where
  "strip_prefix [] s = Some s"
| "strip_prefix (p # ps) (c # cs) = (if p = c then strip_prefix ps cs else None)"
| "strip_prefix (_ # _) [] = None"

definition number_then :: "string \<Rightarrow> string \<Rightarrow> string option" where
  "number_then sep s = (case split_digits s of (ds, rest) \<Rightarrow> if ds = [] then None else strip_prefix sep rest)"

definition valid_runtime_pin :: "string \<Rightarrow> bool" where
  "valid_runtime_pin s \<longleftrightarrow> s = ''runtime-version-unverified'' \<or>
     Option.bind (Option.bind (Option.bind (strip_prefix ''ollama-'' s) (number_then ''.''))
       (number_then ''.'')) (number_then ''-source'') = Some []"

text \<open>\<open>parseDecimal\<close>: no empty text, no leading zero, the value of \<open>strconv.ParseUint\<close>.\<close>

definition max_uint64 :: int where "max_uint64 = 18446744073709551615"

definition parse_decimal :: "uint64_decimal \<Rightarrow> int option" where
  "parse_decimal raw =
     (if raw = [] \<or> (length raw > 1 \<and> hd raw = CHR ''0'') then None
      else if \<not> list_all is_digit raw then None
      else if int (digits_value raw) > max_uint64 then None else Some (int (digits_value raw)))"

definition valid_decimal :: "uint64_decimal \<Rightarrow> bool" where
  "valid_decimal v \<longleftrightarrow> parse_decimal v \<noteq> None"

definition valid_optional_decimal :: "uint64_decimal option \<Rightarrow> bool" where
  "valid_optional_decimal v \<longleftrightarrow> (case v of None \<Rightarrow> True | Some d \<Rightarrow> valid_decimal d)"

text \<open>\<open>utf8.ValidString\<close> over the bytes of the string.\<close>

definition byte :: "char \<Rightarrow> int" where "byte c = int (of_char c)"

definition between :: "int \<Rightarrow> char \<Rightarrow> int \<Rightarrow> bool" where
  "between lo c hi \<longleftrightarrow> lo \<le> byte c \<and> byte c \<le> hi"

fun valid_utf8 :: "string \<Rightarrow> bool" where
  "valid_utf8 [] = True"
| "valid_utf8 (a # s) =
     (if byte a < 128 then valid_utf8 s
      else (case s of [] \<Rightarrow> False | b # s1 \<Rightarrow>
        if between 194 a 223 then between 128 b 191 \<and> valid_utf8 s1
        else (case s1 of [] \<Rightarrow> False | c # s2 \<Rightarrow>
          if between 224 a 239
          then between (if byte a = 224 then 160 else 128) b (if byte a = 237 then 159 else 191)
               \<and> between 128 c 191 \<and> valid_utf8 s2
          else (case s2 of [] \<Rightarrow> False | d # s3 \<Rightarrow>
            between 240 a 244 \<and>
            between (if byte a = 240 then 144 else 128) b (if byte a = 244 then 143 else 191)
            \<and> between 128 c 191 \<and> between 128 d 191 \<and> valid_utf8 s3))))"

definition safe_string :: "string \<Rightarrow> bool" where
  "safe_string v \<longleftrightarrow> \<not> (v = [] \<or> int (length v) > 256 \<or> \<not> valid_utf8 v) \<and>
     list_all (\<lambda>c. \<not> (byte c \<le> 31 \<or> byte c = 127)) v"

definition code_char :: "char \<Rightarrow> bool" where
  "code_char c \<longleftrightarrow> is_lower c \<or> is_digit c \<or> c = CHR ''_''"

definition valid_safe_code :: "string \<Rightarrow> bool" where
  "valid_safe_code v \<longleftrightarrow> v \<noteq> [] \<and> is_lower (hd v) \<and> list_all code_char v"

fun split_on :: "char \<Rightarrow> string \<Rightarrow> string list" where
  "split_on sep [] = [[]]"
| "split_on sep (c # cs) =
     (if c = sep then [] # split_on sep cs
      else case split_on sep cs of [] \<Rightarrow> [[c]] | p # ps \<Rightarrow> (c # p) # ps)"

definition valid_metric_id :: "string \<Rightarrow> bool" where
  "valid_metric_id v \<longleftrightarrow> (let parts = split_on CHR ''.'' v in length parts \<ge> 2 \<and>
     list_all (\<lambda>part. part \<noteq> [] \<and> is_lower (hd part) \<and> list_all code_char part) parts)"

section \<open>Enumerations\<close>

fun valid_quality :: "quality \<Rightarrow> bool" where
  "valid_quality (QualityOther _) = False"
| "valid_quality _ = True"

fun valid_missing_reason :: "missing_reason \<Rightarrow> bool" where
  "valid_missing_reason (MissingOther _) = False"
| "valid_missing_reason _ = True"

definition valid_provenance_source :: "provenance_source \<Rightarrow> bool" where
  "valid_provenance_source s \<longleftrightarrow> (case s of ProvenanceOther _ \<Rightarrow> False | _ \<Rightarrow> True)"

text \<open>The check names \<open>operator_imported_unverified\<close> as a literal, which is the constant's text.\<close>

definition valid_verification :: "verification \<Rightarrow> bool" where
  "valid_verification v \<longleftrightarrow> (case v of VerificationOther _ \<Rightarrow> False | _ \<Rightarrow> True)"

section \<open>JSON values\<close>

datatype json =
    JNull | JBool bool | JNumber "float64 option" | JString string
  | JArray "json list" | JObject "(string \<times> json) list"

section \<open>Messages\<close>

record metric_value =
  MValue :: "json option"
  MQuality :: quality
  MMissingReason :: "missing_reason option"
  MProvenance :: provenance

record collector_frame =
  FSourceID :: string
  FSequence :: int64
  FObservedWallMS :: int64
  EstimatedUTCMS :: "int64 option"
  OffsetMS :: "int64 option"
  UncertaintyMS :: "int64 option"
  MonotonicStartNS :: uint64_decimal
  MonotonicEndNS :: uint64_decimal
  DurationMS :: int64
  DefinitionRevision :: string
  IncarnationID :: "string option"
  FQuality :: quality
  FProvenance :: provenance
  FGauges :: "(string \<times> metric_value) list"
  FNetworkObservations :: "network_observation list"
  FModelObservations :: "model_observation list"
  FProcessObservations :: "process_observation list"
  FProcessSummary :: "process_summary option"
  FEndpointAssociation :: "endpoint_association option"
  FConfigObservation :: "runtime_config_observation option"
  FCapabilitiesMissing :: "missing_capability list"

record collector_batch =
  BProtocol :: string
  DeliveryMode :: string
  BSecurityGeneration :: string
  BSessionGeneration :: int64
  BDeploymentID :: string
  BHostID :: string
  BCollectorBootID :: string
  BatchID :: string
  Frames :: "collector_frame list"

record batch_ack =
  AckBatchID :: string
  AckDurable :: bool
  Accepted :: int64
  Duplicate :: int64

record session_activation =
  ActProtocol :: string
  ActDeploymentID :: string
  ActHostID :: string
  ActSecurityGeneration :: string
  ActivationRequestID :: string
  ActCollectorBootID :: string
  ExpectedPreviousGeneration :: int64

record session_result =
  ResActivationRequestID :: string
  ResSecurityGeneration :: string
  ResSessionGeneration :: int64
  ResCollectorBootID :: string
  ActivatedMS :: int64
  ResCurrent :: bool

record inventory_source =
  InvSourceID :: string
  InvKind :: string
  InvTargetID :: "string option"
  CapabilityRevision :: string
  InvActive :: bool

record inventory_target =
  ITargetID :: string
  AdapterID :: string
  LocalSelectorSHA256 :: string
  AssociationState :: string

record inventory_model =
  IModelID :: string
  IModelTargetID :: string
  IAlias :: string
  IDigest :: "string option"
  ReportedLoaded :: bool

record collector_inventory =
  InvProtocol :: string
  InvDeploymentID :: string
  InvHostID :: string
  InvSecurityGeneration :: string
  InvSessionGeneration :: int64
  InvCollectorBootID :: string
  InventoryRevision :: string
  Sources :: "inventory_source list"
  Targets :: "inventory_target list"
  InvModels :: "inventory_model list"

record inventory_result =
  ResInventoryRevision :: string
  ResDurable :: bool
  ResInvCurrent :: bool

record source_state =
  StSourceID :: string
  StState :: string
  LastSuccessMS :: "int64 option"
  FailureReason :: "missing_reason option"
  FirstFailureMS :: "int64 option"
  FailureCount :: int64

record loss_interval =
  LossSourceID :: string
  LossStartMS :: int64
  LossEndMS :: int64
  LostCount :: int64
  LossWhy :: string

record source_status =
  StProtocol :: string
  StDeploymentID :: string
  StHostID :: string
  StSecurityGeneration :: string
  StSessionGeneration :: int64
  StCollectorBootID :: string
  StSequence :: int64
  StObservedWallMS :: int64
  Heartbeat :: string
  StSources :: "source_state list"
  LossIntervals :: "loss_interval list"

record status_ack =
  SAckCollectorBootID :: string
  SAckSequence :: int64
  SAckDurable :: bool
  SAckDuplicate :: bool

definition new_session_result :: "session_activation \<Rightarrow> int64 \<Rightarrow> int64 \<Rightarrow> session_result" where
  "new_session_result request generation activatedMS =
     \<lparr>ResActivationRequestID = ActivationRequestID request,
      ResSecurityGeneration = ActSecurityGeneration request, ResSessionGeneration = generation,
      ResCollectorBootID = ActCollectorBootID request, ActivatedMS = activatedMS, ResCurrent = True\<rparr>"

section \<open>Validation\<close>

text \<open>The error messages of the validators.\<close>

type_synonym message = string

definition require :: "bool \<Rightarrow> message \<Rightarrow> (message, unit) result" where
  "require c m = (if c then Ok () else Err m)"

text \<open>A loop that returns the first error.\<close>

fun for_each :: "('a \<Rightarrow> (message, unit) result) \<Rightarrow> 'a list \<Rightarrow> (message, unit) result" where
  "for_each f [] = Ok ()"
| "for_each f (x # xs) = result_bind (f x) (\<lambda>_. for_each f xs)"

text \<open>Checks in sequence: the first error wins.\<close>

definition checks :: "(message, unit) result list \<Rightarrow> (message, unit) result" where
  "checks rs = for_each (\<lambda>r. r) rs"

definition in_range :: "int \<Rightarrow> int \<Rightarrow> int \<Rightarrow> bool" where
  "in_range lo x hi \<longleftrightarrow> \<not> (x < lo \<or> x > hi)"

definition opt_all :: "('a \<Rightarrow> bool) \<Rightarrow> 'a option \<Rightarrow> bool" where
  "opt_all P x \<longleftrightarrow> (case x of None \<Rightarrow> True | Some a \<Rightarrow> P a)"

definition valid_provenance :: "provenance \<Rightarrow> bool" where
  "valid_provenance v \<longleftrightarrow>
     \<not> (\<not> valid_provenance_source (PSource v) \<or> \<not> safe_string (MethodRevision v) \<or>
        \<not> valid_verification (PVerification v) \<or>
        \<not> opt_all (\<lambda>t. in_range 0 t MaxUint53) (ObservedAtMS v) \<or>
        \<not> opt_all valid_sha256 (SourceArtifactSHA256 v))"

definition validate_provenance :: "provenance \<Rightarrow> (message, unit) result" where
  "validate_provenance v = require (valid_provenance v) ''invalid provenance''"

definition validate_missing :: "missing_capability \<Rightarrow> (message, unit) result" where
  "validate_missing v =
     (if int (length (MissingID v)) < 3 \<or> int (length (MissingID v)) > 96
         \<or> \<not> valid_metric_id (MissingID v) \<or> \<not> valid_missing_reason (MissingWhy v)
      then Err ''invalid missing capability''
      else if \<not> opt_all (\<lambda>d. \<not> (int (length d) < 1 \<or> int (length d) > 64 \<or> \<not> valid_safe_code d)) (DetailCode v)
      then Err ''invalid detail code''
      else Ok ())"

definition allowed_gauges :: "string list" where
  "allowed_gauges = [''host.cpu.busy_ratio'', ''host.memory.pressure_level'',
     ''host.memory.compressed_bytes'', ''host.memory.swap_used_bytes'', ''host.disk.free_bytes'',
     ''runtime.reachable'']"

text \<open>The switch on the gauge: \<open>json.Unmarshal\<close> into a type accepts values of that type (and null,
  which is handled before).\<close>

definition validate_gauge_value :: "string \<Rightarrow> json \<Rightarrow> (message, unit) result" where
  "validate_gauge_value gid v =
     (if gid = ''host.cpu.busy_ratio''
      then require (case v of JNumber (Some n) \<Rightarrow>
             \<not> (is_nan_or_inf n \<or> float_lt n (Finite 0) \<or> float_lt (Finite 1) n) | _ \<Rightarrow> False) ''invalid ratio''
      else if gid = ''host.memory.pressure_level''
      then require (case v of JString s \<Rightarrow> s = ''normal'' \<or> s = ''warning'' \<or> s = ''critical'' | _ \<Rightarrow> False)
             ''invalid pressure''
      else if gid \<in> set [''host.memory.compressed_bytes'', ''host.memory.swap_used_bytes'', ''host.disk.free_bytes'']
      then (case v of JString raw \<Rightarrow> require (valid_decimal raw) ''invalid decimal uint64''
                    | _ \<Rightarrow> Err ''invalid decimal metric'')
      else if gid = ''runtime.reachable''
      then require (case v of JBool _ \<Rightarrow> True | _ \<Rightarrow> False) ''invalid reachability''
      else Ok ())"

definition validate_metric_value :: "string \<Rightarrow> metric_value \<Rightarrow> (message, unit) result" where
  "validate_metric_value gid v =
     (case MValue v of
        None \<Rightarrow> Err ''invalid metric observation''
      | Some value \<Rightarrow>
          if \<not> valid_quality (MQuality v) \<or> \<not> valid_provenance (MProvenance v)
          then Err ''invalid metric observation''
          else if value = JNull
          then (if MQuality v \<noteq> QualityUnavailable \<or> MMissingReason v = None
                then Err ''null metric missing reason'' else Ok ())
          else if MMissingReason v \<noteq> None then Err ''present metric has missing reason''
          else validate_gauge_value gid value)"

definition validate_network :: "network_observation \<Rightarrow> (message, unit) result" where
  "validate_network v =
     (if \<not> valid_sha256 (InterfaceID v) \<or> \<not> valid_uuids [NetBootID v, CounterEpochID v]
         \<or> int (length (NetMissing v)) > 2 \<or> \<not> valid_optional_decimal (ReceivedBytesTotal v)
         \<or> \<not> valid_optional_decimal (SentBytesTotal v) \<or> \<not> valid_provenance (NetProvenance v)
      then Err ''invalid network observation''
      else require (list_all (\<lambda>m. is_ok (validate_missing m)) (NetMissing v))
             ''invalid network missing capability'')"

definition network_key :: "network_observation \<Rightarrow> string" where
  "network_key v = InterfaceID v @ ''/'' @ NetBootID v @ ''/'' @ CounterEpochID v"

text \<open>Loops that also reject a key seen before.\<close>

fun for_each_unique ::
  "('a \<Rightarrow> (message, unit) result) \<Rightarrow> ('a \<Rightarrow> 'k) \<Rightarrow> message \<Rightarrow> ('a \<Rightarrow> (message, unit) result) \<Rightarrow> 'k list \<Rightarrow>
   'a list \<Rightarrow> (message, unit) result" where
  "for_each_unique before key dup after seen [] = Ok ()"
| "for_each_unique before key dup after seen (x # xs) =
     result_bind (before x) (\<lambda>_.
       if key x \<in> set seen then Err dup
       else result_bind (after x) (\<lambda>_. for_each_unique before key dup after (key x # seen) xs))"

definition ok :: "'a \<Rightarrow> (message, unit) result" where "ok _ = Ok ()"

definition validate_model :: "model_observation \<Rightarrow> (message, unit) result" where
  "validate_model v =
     require (\<not> (\<not> valid_uuid (ModelID v) \<or> \<not> valid_sha256 (ModelDigest v) \<or> int (length (ModelMissing v)) > 2
        \<or> \<not> valid_optional_decimal (ReportedSizeBytes v) \<or> \<not> valid_optional_decimal (ReportedSizeVRAMBytes v)
        \<or> \<not> valid_provenance (ModelProvenance v))) ''invalid model observation''"

definition validate_model_missing :: "model_observation \<Rightarrow> (message, unit) result" where
  "validate_model_missing v = require (list_all (\<lambda>m. is_ok (validate_missing m)) (ModelMissing v))
     ''invalid model missing capability''"

definition valid_pid :: "int64 \<Rightarrow> bool" where "valid_pid p \<longleftrightarrow> in_range 1 p 2147483647"

definition known_basenames :: "string list" where
  "known_basenames = [''ollama'', ''llm-monitor'', ''llm-monitor-collector'']"

definition validate_process :: "process_observation \<Rightarrow> (message, unit) result" where
  "validate_process v =
     (if \<not> valid_uuids [ProcHostID v, ProcBootID v] \<or> \<not> valid_pid (PID v)
         \<or> \<not> valid_decimal (ProcessStartIdentity v) \<or> \<not> valid_sha256 (ProcessKey v)
         \<or> \<not> (case ProcCategory v of ProcessCategoryOther _ \<Rightarrow> False | _ \<Rightarrow> True)
         \<or> \<not> (ProcAssociation v \<in> set [AssociationVerified, AssociationDeclaredUnverified, AssociationNone])
         \<or> \<not> opt_all (\<lambda>n. n \<in> set known_basenames) (DisplayBasename v)
         \<or> int (length (ProcMissing v)) > 2 \<or> \<not> opt_all valid_uuid (ProcTargetID v)
         \<or> \<not> opt_all (\<lambda>r. \<not> (float_lt r (Finite 0) \<or> float_lt (Finite 1) r \<or> is_nan_or_inf r)) (CPUBusyRatio v)
         \<or> \<not> valid_optional_decimal (PhysicalFootprintBytes v) \<or> \<not> valid_provenance (ProcProvenance v)
      then Err ''invalid process observation owner''
      else if ProcAssociation v = AssociationNone \<and> ProcTargetID v \<noteq> None
      then Err ''unassociated process has target''
      else if (ProcAssociation v = AssociationVerified \<or> ProcAssociation v = AssociationDeclaredUnverified)
              \<and> ProcTargetID v = None
      then Err ''associated process has no target'' else Ok ())"

definition validate_process_missing :: "process_observation \<Rightarrow> (message, unit) result" where
  "validate_process_missing v = require (list_all (\<lambda>m. is_ok (validate_missing m)) (ProcMissing v))
     ''invalid process missing capability''"

definition validate_summary :: "int \<Rightarrow> process_summary \<Rightarrow> (message, unit) result" where
  "validate_summary processes s =
     require (\<not> (\<not> in_range 0 (EligiblePIDCount s) 512 \<or> \<not> in_range 0 (ExaminedPIDCount s) 512
        \<or> \<not> in_range 0 (PermissionDeniedCount s) 512 \<or> \<not> in_range 0 (RetainedProcessCount s) 32
        \<or> RetainedProcessCount s \<noteq> processes \<or> ExaminedPIDCount s > EligiblePIDCount s
        \<or> PermissionDeniedCount s > ExaminedPIDCount s \<or> (Coverage s \<noteq> ''complete'' \<and> Coverage s \<noteq> ''partial'')
        \<or> \<not> in_range 1 (int (length (SummaryMethodRevision s))) 256 \<or> \<not> safe_string (SummaryMethodRevision s)
        \<or> \<not> in_range 1000 (SampleIntervalMS s) 60000 \<or> \<not> in_range 0 (ScanDurationMS s) 2000))
       ''invalid process summary''"

text \<open>\<open>processesByKey\<close>: the last observation with the key.\<close>

definition process_by_key :: "process_observation list \<Rightarrow> string \<Rightarrow> process_observation option" where
  "process_by_key ps k = find (\<lambda>p. ProcessKey p = k) (rev ps)"

definition valid_association_identity :: "endpoint_association \<Rightarrow> bool" where
  "valid_association_identity a \<longleftrightarrow>
     \<not> (\<not> valid_uuid (AssocTargetID a) \<or> \<not> valid_sha256 (EndpointHash a) \<or> \<not> in_range 1 (TargetRevision a) 1000000
        \<or> \<not> in_range 1 (ManifestRevision a) 1000000 \<or> \<not> valid_sha256 (ManifestSHA256 a)
        \<or> \<not> valid_sha256 (SelectorSHA256 a) \<or> \<not> valid_sha256 (IdentityRevision a)
        \<or> \<not> valid_provenance (AssocProvenance a) \<or> PSource (AssocProvenance a) \<noteq> ProvenanceDarwinAPI
        \<or> PVerification (AssocProvenance a) \<noteq> VerificationDirectCapture)"

definition complete_verified_association :: "endpoint_association \<Rightarrow> bool" where
  "complete_verified_association a \<longleftrightarrow>
     \<not> (AssocReason a \<noteq> None \<or> RuntimeVersion a = None \<or> RuntimeSourcePinID a = None
        \<or> \<not> ptr_and (AssocPID a) valid_pid \<or> \<not> ptr_and (AssocStartIdentity a) valid_decimal
        \<or> \<not> ptr_and (AssocProcessKey a) valid_sha256 \<or> EndpointHash a \<noteq> SelectorSHA256 a)"

definition retained_process :: "endpoint_association \<Rightarrow> process_observation list \<Rightarrow> bool" where
  "retained_process a ps \<longleftrightarrow>
     (case process_by_key ps (the (AssocProcessKey a)) of
        None \<Rightarrow> False
      | Some p \<Rightarrow> Some (PID p) = AssocPID a \<and> Some (ProcessStartIdentity p) = AssocStartIdentity a
                  \<and> ProcTargetID p = Some (AssocTargetID a) \<and> ProcAssociation p = AssociationVerified)"

definition validate_endpoint_association ::
  "endpoint_association \<Rightarrow> int64 \<Rightarrow> process_observation list \<Rightarrow> (message, unit) result" where
  "validate_endpoint_association a observedMS ps =
     (if \<not> valid_association_identity a then Err ''invalid endpoint association identity or provenance''
      else if \<not> opt_all safe_string (RuntimeVersion a) then Err ''invalid endpoint association runtime version''
      else if \<not> opt_all valid_runtime_pin (RuntimeSourcePinID a)
      then Err ''invalid endpoint association runtime source pin''
      else if AssocQuality a \<notin> set [AssociationVerified, AssociationDeclaredUnverified, AssociationAmbiguous]
      then Err ''invalid endpoint association quality''
      else if AssocQuality a = AssociationVerified \<and> \<not> complete_verified_association a
      then Err ''incomplete verified endpoint association''
      else if AssocQuality a = AssociationVerified \<and> \<not> retained_process a ps
      then Err ''verified endpoint process is not retained in frame''
      else if AssocQuality a \<noteq> AssociationVerified \<and>
              (AssocPID a \<noteq> None \<or> AssocStartIdentity a \<noteq> None \<or> AssocProcessKey a \<noteq> None
               \<or> \<not> ptr_and (AssocReason a) valid_missing_reason)
      then Err ''unverified endpoint association carries identity or lacks reason''
      else require (opt_all (\<lambda>e. \<not> (\<not> valid_pid (ExitPID e) \<or> \<not> valid_decimal (ExitStartIdentity e)
             \<or> \<not> valid_sha256 (ExitProcessKey e) \<or> LastSeenMS e < 0 \<or> LastSeenMS e > observedMS
             \<or> LastSeenMS e > MaxUint53)) (VerifiedExit a)) ''invalid verified endpoint exit'')"

text \<open>The runtime configuration; \<open>digest\<close> is the parameter of \<open>runtime_config_hash\<close>.\<close>

definition runtime_api_provenance :: "provenance \<Rightarrow> bool" where
  "runtime_api_provenance v \<longleftrightarrow> PSource v = ProvenanceRuntimeAPI \<and>
     PVerification v = VerificationDirectCapture \<and> valid_provenance v"

definition optional_config_string :: "string option \<Rightarrow> provenance option \<Rightarrow> bool \<Rightarrow> bool" where
  "optional_config_string value source isDigest =
     (case (value, source) of
        (None, None) \<Rightarrow> True
      | (Some v, Some p) \<Rightarrow>
          \<not> ((isDigest \<and> \<not> valid_sha256 v) \<or> (\<not> isDigest \<and> \<not> safe_string v)) \<and> runtime_api_provenance p
      | _ \<Rightarrow> False)"

definition valid_selected_model :: "selected_model_config \<Rightarrow> selected_model_provenance \<Rightarrow> bool" where
  "valid_selected_model m p \<longleftrightarrow>
     \<not> (\<not> safe_string (CfgAlias m) \<or> \<not> runtime_api_provenance (SrcAlias p)
        \<or> \<not> optional_config_string (CfgDigest m) (SrcDigest p) True
        \<or> \<not> optional_config_string (CfgFormat m) (SrcFormat p) False
        \<or> \<not> optional_config_string (CfgFamily m) (SrcFamily p) False
        \<or> \<not> optional_config_string (CfgQuantization m) (SrcQuantization p) False
        \<or> (case (CfgContextLength m, SrcContextLength p) of
             (None, None) \<Rightarrow> False
           | (Some n, Some q) \<Rightarrow> int n < 1 \<or> int n > 131072 \<or> \<not> runtime_api_provenance q
           | _ \<Rightarrow> True))"

definition validate_runtime_config ::
  "(canonical_config \<Rightarrow> string) \<Rightarrow> runtime_config_observation \<Rightarrow> int64 \<Rightarrow> (message, unit) result" where
  "validate_runtime_config digest ob observedMS =
     (let f = Fields ob; p = FieldProvenance ob in
      if \<not> valid_uuid (CfgTargetID ob) \<or> \<not> valid_sha256 (ConfigHash ob) \<or> \<not> safe_string (ServerVersion f)
      then Err ''invalid runtime config identity''
      else if (PreviousConfigHash ob = None) \<noteq> (PreviousObservedMS ob = None)
      then Err ''runtime config predecessor must be complete''
      else if \<not> opt_all (\<lambda>h. valid_sha256 h \<and> opt_all (\<lambda>t. \<not> (t < 0 \<or> t \<ge> observedMS)) (PreviousObservedMS ob))
                (PreviousConfigHash ob)
      then Err ''invalid runtime config predecessor''
      else if \<not> runtime_api_provenance (SrcServerVersion p) then Err ''invalid server version provenance''
      else if (ServerBuild f = None) \<noteq> (SrcServerBuild p = None) then Err ''server build provenance mismatch''
      else if \<not> opt_all (\<lambda>b. safe_string b \<and> opt_all runtime_api_provenance (SrcServerBuild p)) (ServerBuild f)
      then Err ''invalid server build field''
      else if (SelectedModel f = None) \<noteq> (SrcSelectedModel p = None) then Err ''selected model provenance mismatch''
      else if \<not> opt_all (\<lambda>m. opt_all (valid_selected_model m) (SrcSelectedModel p)) (SelectedModel f)
      then Err ''invalid selected model config''
      else if runtime_config_hash digest f p \<noteq> ConfigHash ob then Err ''runtime config hash mismatch''
      else Ok ())"

text \<open>Durations are claimed in milliseconds; the monotonic boundary is in nanoseconds.\<close>

definition validate_boundary :: "collector_frame \<Rightarrow> (message, unit) result" where
  "validate_boundary f =
     (case parse_decimal (MonotonicStartNS f) of
        None \<Rightarrow> Err ''invalid decimal uint64''
      | Some start \<Rightarrow>
          (case parse_decimal (MonotonicEndNS f) of
             None \<Rightarrow> Err ''invalid monotonic boundary''
           | Some ending \<Rightarrow>
               if ending < start then Err ''invalid monotonic boundary''
               else let elapsedNS = ending - start; claimedNS = DurationMS f * 1000000 in
                 if (elapsedNS > claimedNS + 1000000)
                    \<or> (claimedNS > (elapsedNS + 1000000) mod 18446744073709551616)
                 then Err ''duration contradicts monotonic boundary'' else Ok ()))"

definition validate_frame_head :: "collector_frame \<Rightarrow> (message, unit) result" where
  "validate_frame_head f =
     require (\<not> (\<not> valid_uuid (FSourceID f) \<or> \<not> in_range 0 (FSequence f) MaxUint53
        \<or> \<not> in_range 0 (FObservedWallMS f) MaxUint53 \<or> \<not> in_range 0 (DurationMS f) 5000
        \<or> DefinitionRevision f \<noteq> RegistryRevision)) ''invalid frame identity, time, or definition''"

definition validate_frame_options :: "collector_frame \<Rightarrow> (message, unit) result" where
  "validate_frame_options f = checks
     [require (opt_all (\<lambda>t. in_range 0 t MaxUint53) (EstimatedUTCMS f)) ''invalid estimated UTC'',
      require (opt_all (\<lambda>t. in_range (-86400000) t 86400000) (OffsetMS f)) ''invalid clock offset'',
      require (opt_all (\<lambda>t. in_range 0 t 60000) (UncertaintyMS f)) ''invalid uncertainty'',
      require (opt_all valid_uuid (IncarnationID f)) ''invalid incarnation'',
      require (valid_quality (FQuality f) \<and> valid_provenance (FProvenance f)) ''invalid frame quality or provenance'',
      require (\<not> (int (length (FGauges f)) > 6 \<or> int (length (FNetworkObservations f)) > 8
         \<or> int (length (FModelObservations f)) > 2 \<or> int (length (FProcessObservations f)) > 32
         \<or> int (length (FCapabilitiesMissing f)) > 32)) ''frame cardinality exceeded'']"

definition validate_gauges :: "collector_frame \<Rightarrow> (message, unit) result" where
  "validate_gauges f = for_each (\<lambda>(gid, value).
     require (gid \<in> set allowed_gauges \<and> is_ok (validate_metric_value gid value)) ''invalid gauge'') (FGauges f)"

definition validate_observations :: "collector_frame \<Rightarrow> (message, unit) result" where
  "validate_observations f = checks
     [for_each validate_network (FNetworkObservations f),
      for_each_unique ok network_key ''duplicate network observation'' ok [] (FNetworkObservations f),
      for_each_unique validate_model ModelID ''duplicate model observation'' validate_model_missing []
        (FModelObservations f),
      for_each_unique validate_process ProcessKey ''duplicate process observation'' validate_process_missing []
        (FProcessObservations f),
      (case FProcessSummary f of None \<Rightarrow> Ok () | Some s \<Rightarrow>
         validate_summary (int (length (FProcessObservations f))) s)]"

definition validate_components :: "(canonical_config \<Rightarrow> string) \<Rightarrow> collector_frame \<Rightarrow> (message, unit) result" where
  "validate_components digest f = checks
     [(case FEndpointAssociation f of None \<Rightarrow> Ok () | Some a \<Rightarrow> checks
         [validate_endpoint_association a (FObservedWallMS f) (FProcessObservations f),
          require (\<not> (FProcessSummary f = None \<or> FGauges f \<noteq> [] \<or> FNetworkObservations f \<noteq> []
             \<or> FModelObservations f \<noteq> [] \<or> FConfigObservation f \<noteq> None))
            ''endpoint association must have a process component frame'']),
      (case FConfigObservation f of None \<Rightarrow> Ok () | Some c \<Rightarrow> checks
         [validate_runtime_config digest c (FObservedWallMS f),
          require (\<not> (FGauges f \<noteq> [] \<or> FNetworkObservations f \<noteq> [] \<or> FModelObservations f \<noteq> []
             \<or> FProcessObservations f \<noteq> [] \<or> FProcessSummary f \<noteq> None))
            ''config observation must have an independent component frame'']),
      for_each validate_missing (FCapabilitiesMissing f)]"

definition validate_frame :: "(canonical_config \<Rightarrow> string) \<Rightarrow> collector_frame \<Rightarrow> (message, unit) result" where
  "validate_frame digest f = checks
     [validate_frame_head f, validate_boundary f, validate_frame_options f, validate_gauges f,
      validate_observations f, validate_components digest f]"

text \<open>The key of a frame in its batch: source and sequence number.\<close>

definition frame_key :: "collector_frame \<Rightarrow> string \<times> int64" where
  "frame_key f = (FSourceID f, FSequence f)"

definition validate_batch :: "(canonical_config \<Rightarrow> string) \<Rightarrow> collector_batch \<Rightarrow> (message, unit) result" where
  "validate_batch digest b =
     (if BProtocol b \<noteq> ProtocolVersion
         \<or> \<not> valid_uuids [BSecurityGeneration b, BDeploymentID b, BHostID b, BCollectorBootID b, BatchID b]
      then Err ''invalid batch identity or protocol''
      else if DeliveryMode b \<noteq> ''current'' \<and> DeliveryMode b \<noteq> ''replay'' then Err ''invalid delivery_mode''
      else if BSessionGeneration b < 1 \<or> BSessionGeneration b > MaxUint53
              \<or> int (length (Frames b)) < 1 \<or> int (length (Frames b)) > 64
      then Err ''invalid session generation or frame count''
      else for_each_unique (validate_frame digest) frame_key ''duplicate frame key in batch'' ok [] (Frames b))"

definition validate_activation :: "session_activation \<Rightarrow> (message, unit) result" where
  "validate_activation s =
     require (\<not> (ActProtocol s \<noteq> ProtocolVersion
        \<or> \<not> valid_uuids [ActDeploymentID s, ActHostID s, ActSecurityGeneration s, ActivationRequestID s, ActCollectorBootID s]
        \<or> ExpectedPreviousGeneration s < 0 \<or> ExpectedPreviousGeneration s \<ge> MaxUint53)) ''invalid session activation''"

definition validate_inventory_target :: "inventory_target \<Rightarrow> (message, unit) result" where
  "validate_inventory_target v =
     require (\<not> (\<not> valid_uuid (ITargetID v) \<or> AdapterID v \<noteq> ''ollama'' \<or> \<not> valid_sha256 (LocalSelectorSHA256 v)
        \<or> AssociationState v \<notin> set [''verified'', ''declared_unverified'', ''ambiguous''])) ''invalid inventory target''"

definition validate_source_kind :: "string list \<Rightarrow> inventory_source \<Rightarrow> (message, unit) result" where
  "validate_source_kind targets v =
     (if InvKind v = ''host''
      then require (InvTargetID v = None) ''host source has target''
      else if InvKind v = ''runtime'' \<or> InvKind v = ''observed_request''
      then require (case InvTargetID v of None \<Rightarrow> False | Some t \<Rightarrow> \<not> (InvActive v \<and> t \<notin> set targets))
             ''runtime source target is absent''
      else Err ''invalid source kind'')"

text \<open>A duplicate source, and a duplicate model, is reported like any other invalid one.\<close>

definition validate_inventory :: "collector_inventory \<Rightarrow> (message, unit) result" where
  "validate_inventory i =
     (let targets = map ITargetID (Targets i) in checks
      [require (\<not> (InvProtocol i \<noteq> ProtocolVersion
          \<or> \<not> valid_uuids [InvDeploymentID i, InvHostID i, InvSecurityGeneration i, InvCollectorBootID i]
          \<or> InvSessionGeneration i < 1 \<or> InvSessionGeneration i > MaxUint53
          \<or> \<not> valid_sha256 (InventoryRevision i) \<or> int (length (Sources i)) < 1 \<or> int (length (Sources i)) > 8
          \<or> int (length (Targets i)) > 1 \<or> int (length (InvModels i)) > 64)) ''invalid inventory envelope'',
       for_each validate_inventory_target (Targets i),
       for_each_unique
         (\<lambda>v. require (valid_uuid (InvSourceID v)) ''invalid inventory source'') InvSourceID
         ''invalid inventory source''
         (\<lambda>v. checks [require (CapabilityRevision v = RegistryRevision) ''invalid inventory source'',
                      validate_source_kind targets v]) [] (Sources i),
       for_each_unique
         (\<lambda>v. require (valid_uuids [IModelID v, IModelTargetID v] \<and> IModelTargetID v \<in> set targets) ''invalid inventory model'')
         IModelID ''invalid inventory model''
         (\<lambda>v. require (safe_string (IAlias v) \<and> opt_all valid_sha256 (IDigest v)) ''invalid inventory model'')
         [] (InvModels i)])"

definition validate_source_state :: "source_state \<Rightarrow> (message, unit) result" where
  "validate_source_state v =
     require (\<not> (\<not> valid_uuid (StSourceID v) \<or> FailureCount v < 0 \<or> FailureCount v > 1000000
        \<or> StState v \<notin> set [''fresh'', ''stale'', ''unavailable'', ''incompatible'']
        \<or> \<not> opt_all (\<lambda>t. in_range 0 t MaxUint53) (LastSuccessMS v)
        \<or> \<not> opt_all (\<lambda>t. in_range 0 t MaxUint53) (FirstFailureMS v)
        \<or> \<not> opt_all valid_missing_reason (FailureReason v))) ''invalid source state''"

definition validate_loss_interval :: "loss_interval \<Rightarrow> (message, unit) result" where
  "validate_loss_interval v =
     require (\<not> (\<not> valid_uuid (LossSourceID v) \<or> LossStartMS v < 0 \<or> LossEndMS v < LossStartMS v
        \<or> LostCount v < 1 \<or> LostCount v > MaxUint53
        \<or> LossWhy v \<notin> set [''spool_capacity'', ''spool_age'', ''oversized_frame'', ''corrupt_record'']))
       ''invalid loss interval''"

definition validate_status :: "source_status \<Rightarrow> (message, unit) result" where
  "validate_status s = checks
     [require (\<not> (StProtocol s \<noteq> ProtocolVersion
         \<or> \<not> valid_uuids [StDeploymentID s, StHostID s, StSecurityGeneration s, StCollectorBootID s]
         \<or> StSessionGeneration s < 1 \<or> StSessionGeneration s > MaxUint53 \<or> StSequence s < 0
         \<or> StSequence s > MaxUint53 \<or> StObservedWallMS s < 0 \<or> StObservedWallMS s > MaxUint53
         \<or> (Heartbeat s \<noteq> ''fresh'' \<and> Heartbeat s \<noteq> ''degraded'')
         \<or> int (length (StSources s)) > 8 \<or> int (length (LossIntervals s)) > 16)) ''invalid source status envelope'',
      for_each_unique validate_source_state StSourceID ''duplicate source state'' ok [] (StSources s),
      for_each validate_loss_interval (LossIntervals s)]"

section \<open>What passing checks means\<close>

lemma require_Ok [simp]: "require c m = Inr () \<longleftrightarrow> c"
  by (simp add: require_def)

lemma for_each_Ok: "for_each f xs = Inr () \<longleftrightarrow> list_all (\<lambda>x. f x = Inr ()) xs"
  by (induction xs) (auto simp: go_result)

lemma checks_Ok [simp]: "checks rs = Inr () \<longleftrightarrow> list_all (\<lambda>r. r = Inr ()) rs"
  by (simp add: checks_def for_each_Ok)

lemma for_each_unique_Ok:
  "for_each_unique before key dup after seen xs = Inr () \<longleftrightarrow>
   list_all (\<lambda>x. before x = Inr () \<and> after x = Inr ()) xs \<and> distinct (map key xs) \<and>
   set (map key xs) \<inter> set seen = {}"
  by (induction xs arbitrary: seen) (auto simp: go_result split: if_splits)

lemma ok_Ok [simp]: "ok x = Inr ()" by (simp add: ok_def)

lemma unit_result: "is_ok (r :: (message, unit) result) \<longleftrightarrow> r = Inr ()"
  by (cases r) auto

end
