(* ===== verification/Hub.thy ===== *)
theory Hub
  imports Protocol
begin

text \<open>
  The hub's side of a collector's life: \<open>internal/store/collector_session.go\<close> (session activation)
  and \<open>internal/store/inventory.go\<close> (registering and re-enrolling the local host, registering an
  inventory). A table is the list of its rows; each operation is one transaction that leaves the
  tables alone when it fails. The constraints, indexes and triggers of
  \<open>internal/store/schema.sql\<close> that these statements can meet are part of the statements here.
\<close>

section \<open>Tables\<close>

datatype hub_error =
    ErrWriterBackpressure | ErrAdmissionFenced | ErrOwnershipMismatch | ErrGenerationConflict
  | ErrReEnrollmentDenied | ErrConstraint string | ErrInvalid message | ErrDatabase string
  | ErrCapacityMeasurementUnavailable | ErrBulkIngestPaused | ErrRecoveryCapacityBusy | ErrRecoveryConflict
  | ErrIncidentCapacity | ErrAlertCapacity | ErrStatusObservationExpired

record deployment_row =
  DepID :: string
  DepGeneration :: string
  DepRecovery :: string

record generation_row =
  GenDeployment :: string
  Generation :: string
  GenReason :: string

record host_row =
  HID :: string
  HDeployment :: string
  HDisplayName :: string
  HInstallation :: string
  HCurrentSession :: int64
  HLastBoot :: "string option"
  HVersion :: "string option"
  HCapabilities :: string
  HRetired :: "int64 option"
  HCreated :: int64
  HUpdated :: int64

record session_row =
  SDeployment :: string
  SHost :: string
  SGeneration :: int64
  SSecurity :: string
  SRequest :: string
  SBoot :: string
  SPredecessor :: int64
  SActivated :: int64
  SSuperseded :: "int64 option"
  SResult :: session_result

record target_row =
  TID :: string
  TDeployment :: string
  THost :: string
  TAdapter :: string
  TSelector :: string
  TRetired :: "int64 option"
  TCreated :: int64
  TUpdated :: int64

record source_row =
  SrcID :: string
  SrcDeployment :: string
  SrcHost :: string
  SrcKind :: string
  SrcTarget :: "string option"
  SrcRevision :: string
  SrcRetired :: "int64 option"
  SrcCreated :: int64
  SrcUpdated :: int64

record model_row =
  ModID :: string
  ModDeployment :: string
  ModHost :: string
  ModTarget :: string
  ModAlias :: string
  ModDigest :: "string option"
  ModConfig :: string
  ModCreated :: int64

record audit_row =
  AuditID :: string
  AuditDeployment :: string
  AuditAction :: string
  AuditResource :: string
  AuditTime :: int64
  AuditGenerations :: "(string \<times> string) option"

record hub =
  Deployments :: "deployment_row list"
  Generations :: "generation_row list"
  Hosts :: "host_row list"
  Sessions :: "session_row list"
  HubTargets :: "target_row list"
  HubSources :: "source_row list"
  HubModels :: "model_row list"
  Audit :: "audit_row list"
  RemoteEnrollments :: "(string \<times> string) list"

text \<open>What a write transaction meets: the writer queue, the clock and the commit.\<close>

record hub_env =
  Admission :: "hub_error option"
  HubNow :: int64
  CommitFails :: "string option"

type_synonym 'a outcome = "(hub_error, 'a) result"

definition transaction :: "hub_env \<Rightarrow> 's \<Rightarrow> ('a \<times> 's) outcome \<Rightarrow> 'a outcome \<times> 's" where
  "transaction env h r =
     (case Admission env of
        Some e \<Rightarrow> (Err e, h)
      | None \<Rightarrow> (case r of
          Err e \<Rightarrow> (Err e, h)
        | Ok (a, h') \<Rightarrow> (case CommitFails env of Some m \<Rightarrow> (Err (ErrDatabase m), h) | None \<Rightarrow> (Ok a, h'))))"

text \<open>A row of a query, or the ownership error for none.\<close>

definition owned :: "'a option \<Rightarrow> 'a outcome" where
  "owned r = (case r of None \<Rightarrow> Err ErrOwnershipMismatch | Some a \<Rightarrow> Ok a)"

definition ensure :: "bool \<Rightarrow> hub_error \<Rightarrow> unit outcome" where
  "ensure c e = (if c then Ok () else Err e)"

text \<open>SQL's length of a text counts characters: the bytes that do not continue one.\<close>

definition sql_length :: "string \<Rightarrow> int" where
  "sql_length s = int (length (filter (\<lambda>c. \<not> between 128 c 191) s))"

text \<open>A loop of statements: the first error ends it.\<close>

fun for_all :: "('a \<Rightarrow> 's \<Rightarrow> 's outcome) \<Rightarrow> 'a list \<Rightarrow> 's \<Rightarrow> 's outcome" where
  "for_all f [] s = Ok s"
| "for_all f (x # xs) s = result_bind (f x s) (for_all f xs)"

definition update_where :: "('a \<Rightarrow> bool) \<Rightarrow> ('a \<Rightarrow> 'a) \<Rightarrow> 'a list \<Rightarrow> 'a list" where
  "update_where p f xs = map (\<lambda>x. if p x then f x else x) xs"

definition deployment :: "hub \<Rightarrow> string \<Rightarrow> deployment_row outcome" where
  "deployment h d = owned (find (\<lambda>r. DepID r = d) (Deployments h))"

section \<open>Session activation\<close>

definition host_is :: "string \<Rightarrow> string \<Rightarrow> host_row \<Rightarrow> bool" where
  "host_is d i r \<longleftrightarrow> HDeployment r = d \<and> HID r = i"

definition session_of :: "string \<Rightarrow> string \<Rightarrow> session_row \<Rightarrow> bool" where
  "session_of d i r \<longleftrightarrow> SDeployment r = d \<and> SHost r = i"

definition highest_session :: "string \<Rightarrow> string \<Rightarrow> session_row list \<Rightarrow> int64" where
  "highest_session d i rs = fold max (map SGeneration (filter (session_of d i) rs)) 0"

definition replayed :: "session_activation \<Rightarrow> int64 \<Rightarrow> session_row \<Rightarrow> session_result outcome" where
  "replayed q current r =
     (if ResCollectorBootID (SResult r) \<noteq> ActCollectorBootID q \<or> ResSecurityGeneration (SResult r) \<noteq> ActSecurityGeneration q
         \<or> SPredecessor r \<noteq> ExpectedPreviousGeneration q \<or> ResSessionGeneration (SResult r) \<noteq> current
      then Err ErrGenerationConflict else Ok (SResult r))"

text \<open>The current session is superseded: its row must be there and current, and must not have been
  activated after now.\<close>

definition supersede_session :: "int64 \<Rightarrow> string \<Rightarrow> string \<Rightarrow> int64 \<Rightarrow> session_row list \<Rightarrow> session_row list outcome" where
  "supersede_session now d i current rs =
     (if \<not> current > 0 then Ok rs
      else let p = (\<lambda>r. session_of d i r \<and> SGeneration r = current \<and> SSuperseded r = None) in
        if list_ex (\<lambda>r. p r \<and> now < SActivated r) rs then Err (ErrConstraint ''superseded_ms>=activated_ms'')
        else if length (filter p rs) \<noteq> 1 then Err ErrGenerationConflict
        else Ok (update_where p (\<lambda>r. r\<lparr>SSuperseded := Some now\<rparr>) rs))"

definition insert_session :: "session_row \<Rightarrow> session_row list \<Rightarrow> session_row list outcome" where
  "insert_session r rs =
     (if list_ex (\<lambda>x. session_of (SDeployment r) (SHost r) x \<and> SGeneration x = SGeneration r) rs
         \<or> list_ex (\<lambda>x. session_of (SDeployment r) (SHost r) x \<and> SRequest x = SRequest r) rs
         \<or> list_ex (\<lambda>x. session_of (SDeployment r) (SHost r) x \<and> SSuperseded x = None) rs
      then Err (ErrConstraint ''collector_sessions'')
      else if SActivated r < 0 \<or> SPredecessor r < 0 \<or> SPredecessor r \<ge> SGeneration r
      then Err (ErrConstraint ''collector_sessions'')
      else Ok (rs @ [r]))"

definition activate_body :: "int64 \<Rightarrow> session_activation \<Rightarrow> hub \<Rightarrow> (session_result \<times> hub) outcome" where
  "activate_body now q h =
     (let d = ActDeploymentID q; i = ActHostID q in
      result_bind (deployment h d) (\<lambda>dep.
        if DepRecovery dep \<noteq> ''normal'' \<or> DepGeneration dep \<noteq> ActSecurityGeneration q then Err ErrAdmissionFenced
        else result_bind (owned (find (host_is d i) (Hosts h))) (\<lambda>host.
          if HRetired host \<noteq> None then Err ErrAdmissionFenced
          else case find (\<lambda>r. session_of d i r \<and> SRequest r = ActivationRequestID q) (Sessions h) of
            Some r \<Rightarrow> result_bind (replayed q (HCurrentSession host) r) (\<lambda>res. Ok (res, h))
          | None \<Rightarrow>
              if HCurrentSession host \<noteq> ExpectedPreviousGeneration q then Err ErrGenerationConflict
              else if highest_session d i (Sessions h) \<ge> MaxUint53 then Err ErrGenerationConflict
              else let next = highest_session d i (Sessions h) + 1; res = new_session_result q next now in
                result_bind (supersede_session now d i (HCurrentSession host) (Sessions h)) (\<lambda>rs.
                result_bind (insert_session
                    \<lparr>SDeployment = d, SHost = i, SGeneration = next, SSecurity = ActSecurityGeneration q,
                     SRequest = ActivationRequestID q, SBoot = ActCollectorBootID q,
                     SPredecessor = HCurrentSession host, SActivated = now, SSuperseded = None, SResult = res\<rparr> rs) (\<lambda>rs'.
                  if now < HCreated host then Err (ErrConstraint ''updated_ms>=created_ms'')
                  else Ok (res, h\<lparr>Sessions := rs',
                    Hosts := update_where (host_is d i) (\<lambda>x. x\<lparr>HCurrentSession := next,
                      HLastBoot := Some (ActCollectorBootID q), HUpdated := now\<rparr>) (Hosts h)\<rparr>))))))"

definition activate_session :: "hub_env \<Rightarrow> session_activation \<Rightarrow> hub \<Rightarrow> session_result outcome \<times> hub" where
  "activate_session env q h =
     (case validate_activation q of
        Err m \<Rightarrow> (Err (ErrInvalid m), h)
      | Ok _ \<Rightarrow> transaction env h (activate_body (HubNow env) q h))"

text \<open>The check every later message passes.\<close>

definition validate_current_session ::
  "hub \<Rightarrow> string \<Rightarrow> string \<Rightarrow> string \<Rightarrow> int64 \<Rightarrow> string \<Rightarrow> bool outcome" where
  "validate_current_session h d i security session boot =
     (case (find (\<lambda>r. DepID r = d) (Deployments h), find (\<lambda>r. host_is d i r \<and> HRetired r = None) (Hosts h)) of
        (Some dep, Some host) \<Rightarrow>
          if DepRecovery dep \<noteq> ''normal'' \<or> DepGeneration dep \<noteq> security then Err ErrAdmissionFenced
          else if HCurrentSession host \<noteq> session \<or> HLastBoot host \<noteq> Some boot then Err ErrGenerationConflict
          else if length (filter (\<lambda>r. session_of d i r \<and> SSecurity r = security \<and> SGeneration r = session
                    \<and> SBoot r = boot \<and> SSuperseded r = None) (Sessions h)) \<noteq> 1
          then Err ErrGenerationConflict
          else Ok True
      | _ \<Rightarrow> Err ErrOwnershipMismatch)"

end
