(* ===== verification/Capacity.thy ===== *)
theory Capacity
  imports Hub "HOL-Library.AList" "HOL-Library.List_Lexorder" "HOL-Library.Char_ord"
begin

text \<open>
  \<open>internal/store/capacity.go\<close> with the reservations of \<open>recovery.go\<close>, \<open>alerts_eval.go\<close> and
  \<open>incidents.go\<close> that share its state: what the hub knows about its disk, the pressure state it
  derives, and the admission of new bytes against the measured usage and everything promised since.
  The two tables involved hold one row per deployment and one per deployment and class. The JSON text
  of the maintenance cursor is the list of its entries; its length is a parameter.
\<close>

section \<open>Constants and tables\<close>

definition live_data_limit_bytes :: int64 where "live_data_limit_bytes = 17179869184"
definition maximum_fleet_bytes :: int64 where "maximum_fleet_bytes = 103079215104"
definition maintenance_allowance_bytes :: int64 where "maintenance_allowance_bytes = 4294967296"
definition measurement_max_age_ms :: int64 where "measurement_max_age_ms = 30000"
definition frame_safety_bytes :: int64 where "frame_safety_bytes = 65536"
definition warning_free_bytes :: int64 where "warning_free_bytes = 2147483648"
definition stop_free_bytes :: int64 where "stop_free_bytes = 1073741824"
definition pause_free_bytes :: int64 where "pause_free_bytes = 536870912"

lemmas capacity_constants = live_data_limit_bytes_def maximum_fleet_bytes_def maintenance_allowance_bytes_def
  measurement_max_age_ms_def frame_safety_bytes_def warning_free_bytes_def stop_free_bytes_def pause_free_bytes_def

datatype storage_state =
    StorageNormal | StorageWarning | StorageOptionalJobsStopped | StorageBulkIngestPaused | StorageReadOnlyENOSPC

definition quota_classes :: "string list" where
  "quota_classes = [''live_total'', ''bulk_database'', ''detailed_snapshots'', ''incident_ledger'',
     ''control_ledger'', ''metadata'', ''saved_comparisons'', ''completed_exports'', ''transient'',
     ''live_headroom'', ''emergency_outside_live'', ''request_samples'', ''attachment_staging'']"

definition optional_classes :: "string list" where
  "optional_classes = [''detailed_snapshots'', ''saved_comparisons'', ''completed_exports'', ''transient'',
     ''attachment_staging'']"

definition bulk_classes :: "string list" where
  "bulk_classes = [''bulk_database'', ''request_samples'']"

text \<open>A value of the cursor is null, an integer of 64 bits, or something else.\<close>

datatype cursor_value = CNull | CInt int64 | COther string

datatype cursor_json = NotObject | NullCursor | CursorObject "(string \<times> cursor_value) list"

record maintenance_row =
  MDeployment :: string
  MRetentionRevision :: int64
  MWatermark :: int64
  MLastBackup :: "int64 option"
  MState :: storage_state
  MCursor :: cursor_json
  MUpdated :: int64

record quota_row =
  QDeployment :: string
  QClass :: string
  QLimit :: int64
  QWarning :: float64
  QStop :: float64
  QPause :: float64
  QCurrent :: int64
  QReserved :: int64
  QUpdated :: int64

record capacity_db =
  Maintenance :: "maintenance_row list"
  Quotas :: "quota_row list"

record quota_usage =
  UsageClass :: string
  PhysicalBytes :: int64

record capacity_observation =
  Usage :: "quota_usage list"
  ObsFreeBytes :: int64
  ObservedAt :: int64
  ENOSPC :: bool

record capacity_state =
  CState :: storage_state
  FreeBytes :: int64
  LivePhysicalBytes :: int64
  LiveReservedBytes :: int64
  LiveLimitBytes :: int64
  Reasons :: "string list"
  BulkIngestAllowed :: bool
  OptionalJobsAllowed :: bool
  ControlWritesAllowed :: bool
  MeasurementMS :: "int64 option"
  MeasurementFresh :: bool

record admission_advice =
  Allowed :: bool
  AdmState :: storage_state
  SafeCode :: string
  AvailableBytes :: int64

definition no_rows :: hub_error where
  "no_rows = ErrDatabase ''sql: no rows in result set''"

definition maintenance_of :: "string \<Rightarrow> capacity_db \<Rightarrow> maintenance_row outcome" where
  "maintenance_of d db = (case find (\<lambda>r. MDeployment r = d) (Maintenance db) of None \<Rightarrow> Err no_rows | Some r \<Rightarrow> Ok r)"

definition quota_is :: "string \<Rightarrow> string \<Rightarrow> quota_row \<Rightarrow> bool" where
  "quota_is d c r \<longleftrightarrow> QDeployment r = d \<and> QClass r = c"

definition quota_of :: "string \<Rightarrow> string \<Rightarrow> capacity_db \<Rightarrow> quota_row option" where
  "quota_of d c db = find (quota_is d c) (Quotas db)"

section \<open>The maintenance cursor\<close>

text \<open>Decoding into a nil map: null leaves it nil, which reads as an empty one.\<close>

definition cursor_map :: "cursor_json \<Rightarrow> (string \<times> cursor_value) list option" where
  "cursor_map c = (case c of NotObject \<Rightarrow> None | NullCursor \<Rightarrow> Some [] | CursorObject kvs \<Rightarrow> Some kvs)"

text \<open>\<open>json.Unmarshal\<close> into an \<open>int64\<close> that is zero: null leaves it.\<close>

definition unmarshal_int :: "cursor_value \<Rightarrow> int64 option" where
  "unmarshal_int v = (case v of CNull \<Rightarrow> Some 0 | CInt n \<Rightarrow> Some n | COther _ \<Rightarrow> None)"

definition nonneg_int :: "cursor_value \<Rightarrow> int64 option" where
  "nonneg_int v = (case unmarshal_int v of None \<Rightarrow> None | Some n \<Rightarrow> if n < 0 then None else Some n)"

text \<open>The three readers of one pending total that differ in their errors only: a missing entry is zero.\<close>

definition read_pending_entry :: "string \<Rightarrow> hub_error \<Rightarrow> hub_error \<Rightarrow> cursor_json \<Rightarrow> int64 outcome" where
  "read_pending_entry key malformed invalid c =
     (case cursor_map c of
        None \<Rightarrow> Err malformed
      | Some kvs \<Rightarrow> (case map_of kvs key of
          None \<Rightarrow> Ok 0
        | Some v \<Rightarrow> (case nonneg_int v of None \<Rightarrow> Err invalid | Some n \<Rightarrow> Ok n)))"

definition key_observed :: string where "key_observed = ''capacity_observed_ms''"
definition key_free :: string where "key_free = ''capacity_free_bytes''"
definition key_bulk :: string where "key_bulk = ''capacity_pending_bulk_bytes''"
definition key_recovery :: string where "key_recovery = ''capacity_pending_recovery_bytes''"
definition key_manual :: string where "key_manual = ''capacity_pending_manual_incident_bytes''"
definition key_alert_incident :: string where "key_alert_incident = ''capacity_pending_alert_incident_bytes''"
definition key_alert_metadata :: string where "key_alert_metadata = ''capacity_pending_alert_metadata_bytes''"
definition key_alert_live :: string where "key_alert_live = ''capacity_pending_alert_live_bytes''"

lemmas cursor_keys = key_observed_def key_free_def key_bulk_def key_recovery_def key_manual_def
  key_alert_incident_def key_alert_metadata_def key_alert_live_def

definition read_pending_bulk :: "cursor_json \<Rightarrow> int64 outcome" where
  "read_pending_bulk = read_pending_entry key_bulk (ErrInvalid ''invalid maintenance cursor'')
     (ErrInvalid ''invalid pending bulk capacity'')"

definition read_pending_recovery :: "cursor_json \<Rightarrow> int64 outcome" where
  "read_pending_recovery = read_pending_entry key_recovery ErrRecoveryCapacityBusy ErrRecoveryCapacityBusy"

definition read_pending_manual :: "cursor_json \<Rightarrow> int64 outcome" where
  "read_pending_manual = read_pending_entry key_manual ErrIncidentCapacity ErrIncidentCapacity"

text \<open>The incident, metadata and live totals of the alert ledger.\<close>

definition read_pending_alert :: "cursor_json \<Rightarrow> (int64 \<times> int64 \<times> int64) outcome" where
  "read_pending_alert c =
     result_bind (read_pending_entry key_alert_incident ErrAlertCapacity ErrAlertCapacity c) (\<lambda>i.
     result_bind (read_pending_entry key_alert_metadata ErrAlertCapacity ErrAlertCapacity c) (\<lambda>m.
     result_bind (read_pending_entry key_alert_live ErrAlertCapacity ErrAlertCapacity c) (\<lambda>l. Ok (i, m, l))))"

text \<open>The measurement: its three entries must be there.\<close>

definition read_required :: "string \<Rightarrow> (string \<times> cursor_value) list \<Rightarrow> int64 outcome" where
  "read_required key kvs =
     (case Option.bind (map_of kvs key) nonneg_int of None \<Rightarrow> Err ErrCapacityMeasurementUnavailable | Some n \<Rightarrow> Ok n)"

definition read_capacity_cursor :: "cursor_json \<Rightarrow> (int64 \<times> int64 \<times> int64) outcome" where
  "read_capacity_cursor c =
     (case cursor_map c of
        None \<Rightarrow> Err ErrCapacityMeasurementUnavailable
      | Some kvs \<Rightarrow>
          result_bind (read_required key_observed kvs) (\<lambda>observed.
          result_bind (read_required key_free kvs) (\<lambda>free.
          result_bind (read_required key_bulk kvs) (\<lambda>pending. Ok (observed, free, pending)))))"

text \<open>Writing entries back, with the other entries kept. The incident and alert writers refuse a null cursor.\<close>

type_synonym cursor_length = "(string \<times> cursor_value) list \<Rightarrow> int"

definition put_entries :: "(string \<times> int64) list \<Rightarrow> (string \<times> cursor_value) list \<Rightarrow> (string \<times> cursor_value) list" where
  "put_entries puts kvs = fold (\<lambda>(k, n). AList.update k (CInt n)) puts kvs"

definition write_cursor ::
  "cursor_length \<Rightarrow> string \<Rightarrow> (string \<times> int64) list \<Rightarrow> hub_error \<Rightarrow> hub_error \<Rightarrow> bool \<Rightarrow> capacity_db \<Rightarrow> capacity_db outcome" where
  "write_cursor len d puts malformed too_long null_ok db =
     result_bind (maintenance_of d db) (\<lambda>row.
       case cursor_map (MCursor row) of
         None \<Rightarrow> Err malformed
       | Some kvs \<Rightarrow>
           if MCursor row = NullCursor \<and> \<not> null_ok then Err malformed
           else if len (put_entries puts kvs) > 65536 then Err too_long
           else Ok (db\<lparr>Maintenance := update_where (\<lambda>r. MDeployment r = d)
                  (\<lambda>r. r\<lparr>MCursor := CursorObject (put_entries puts kvs)\<rparr>) (Maintenance db)\<rparr>))"

definition write_capacity_cursor ::
  "cursor_length \<Rightarrow> string \<Rightarrow> int64 \<Rightarrow> int64 \<Rightarrow> int64 \<Rightarrow> capacity_db \<Rightarrow> capacity_db outcome" where
  "write_capacity_cursor len d observed free pending =
     write_cursor len d [(key_observed, observed), (key_free, free), (key_bulk, pending)]
       (ErrInvalid ''invalid maintenance cursor'') (ErrInvalid ''capacity maintenance cursor exceeds bound'') True"

definition write_pending_recovery :: "cursor_length \<Rightarrow> string \<Rightarrow> int64 \<Rightarrow> capacity_db \<Rightarrow> capacity_db outcome" where
  "write_pending_recovery len d pending db =
     (if pending < 0 then Err ErrRecoveryConflict
      else write_cursor len d [(key_recovery, pending)] ErrRecoveryCapacityBusy ErrRecoveryCapacityBusy True db)"

definition write_pending_manual :: "cursor_length \<Rightarrow> string \<Rightarrow> int64 \<Rightarrow> capacity_db \<Rightarrow> capacity_db outcome" where
  "write_pending_manual len d pending db =
     (if pending < 0 then Err ErrIncidentCapacity
      else write_cursor len d [(key_manual, pending)] ErrIncidentCapacity ErrIncidentCapacity False db)"

definition write_pending_alert ::
  "cursor_length \<Rightarrow> string \<Rightarrow> int64 \<Rightarrow> int64 \<Rightarrow> int64 \<Rightarrow> capacity_db \<Rightarrow> capacity_db outcome" where
  "write_pending_alert len d incident metadata live db =
     (if incident < 0 \<or> metadata < 0 \<or> live < 0 then Err ErrAlertCapacity
      else write_cursor len d [(key_alert_incident, incident), (key_alert_metadata, metadata), (key_alert_live, live)]
             ErrAlertCapacity ErrAlertCapacity False db)"

definition clear_pending_alert :: "cursor_length \<Rightarrow> string \<Rightarrow> capacity_db \<Rightarrow> capacity_db outcome" where
  "clear_pending_alert len d = write_pending_alert len d 0 0 0"

section \<open>The pressure state\<close>

definition severity :: "storage_state \<Rightarrow> int" where
  "severity s = (case s of StorageWarning \<Rightarrow> 1 | StorageOptionalJobsStopped \<Rightarrow> 2 | StorageBulkIngestPaused \<Rightarrow> 3
     | StorageReadOnlyENOSPC \<Rightarrow> 4 | StorageNormal \<Rightarrow> 0)"

definition raise_state :: "storage_state \<Rightarrow> string \<Rightarrow> capacity_state \<Rightarrow> capacity_state" where
  "raise_state nxt reason v =
     (let v' = (if severity nxt > severity (CState v) then v\<lparr>CState := nxt\<rparr> else v)
      in v'\<lparr>Reasons := Reasons v' @ [reason]\<rparr>)"

text \<open>\<open>float64(used) / float64(limit)\<close>; the schema keeps limits positive.\<close>

definition used_ratio :: "int64 \<Rightarrow> int64 \<Rightarrow> float64" where
  "used_ratio used limit =
     (if limit = 0 then NaN else Finite (round53 (round53 (of_int used) / round53 (of_int limit))))"

definition quota_pressure :: "quota_row \<Rightarrow> capacity_state \<Rightarrow> capacity_state" where
  "quota_pressure q v =
     (let v = (if QClass q = ''live_total''
               then v\<lparr>LiveLimitBytes := QLimit q, LivePhysicalBytes := QCurrent q, LiveReservedBytes := QReserved q\<rparr>
               else v);
          ratio = used_ratio (add64 (QCurrent q) (QReserved q)) (QLimit q) in
      if QClass q = ''emergency_outside_live'' then v
      else if float_le (QPause q) ratio then raise_state StorageBulkIngestPaused (''quota:'' @ QClass q @ '':pause'') v
      else if float_le (QStop q) ratio then raise_state StorageOptionalJobsStopped (''quota:'' @ QClass q @ '':stop'') v
      else if float_le (QWarning q) ratio then raise_state StorageWarning (''quota:'' @ QClass q @ '':warning'') v
      else v)"

definition control_exhausted :: "quota_row list \<Rightarrow> bool" where
  "control_exhausted qs \<longleftrightarrow> list_ex (\<lambda>q. QClass q = ''control_ledger'' \<and> add64 (QCurrent q) (QReserved q) \<ge> QLimit q) qs"

definition free_pressure :: "int64 \<Rightarrow> bool \<Rightarrow> capacity_state \<Rightarrow> capacity_state" where
  "free_pressure free enospc v =
     (if enospc then raise_state StorageReadOnlyENOSPC ''write:enospc'' v
      else if free < pause_free_bytes then raise_state StorageBulkIngestPaused ''free_space:pause'' v
      else if free < stop_free_bytes then raise_state StorageOptionalJobsStopped ''free_space:stop'' v
      else if free < warning_free_bytes then raise_state StorageWarning ''free_space:warning'' v
      else v)"

definition calm_state :: "int64 \<Rightarrow> capacity_state" where
  "calm_state free = \<lparr>CState = StorageNormal, FreeBytes = free, LivePhysicalBytes = 0, LiveReservedBytes = 0,
     LiveLimitBytes = live_data_limit_bytes, Reasons = [], BulkIngestAllowed = True, OptionalJobsAllowed = True,
     ControlWritesAllowed = True, MeasurementMS = None, MeasurementFresh = False\<rparr>"

definition bulk_allowed :: "storage_state \<Rightarrow> bool" where
  "bulk_allowed s \<longleftrightarrow> s \<noteq> StorageBulkIngestPaused \<and> s \<noteq> StorageReadOnlyENOSPC"

definition optional_allowed :: "storage_state \<Rightarrow> bool" where
  "optional_allowed s \<longleftrightarrow> s = StorageNormal \<or> s = StorageWarning"

definition derive_state :: "string \<Rightarrow> int64 \<Rightarrow> bool \<Rightarrow> capacity_db \<Rightarrow> capacity_state outcome" where
  "derive_state d free enospc db =
     (let qs = sort_key QClass (filter (\<lambda>q. QDeployment q = d) (Quotas db)) in
      if length qs \<noteq> length quota_classes then Err (ErrInvalid ''capacity quota contract is incomplete'')
      else let v = free_pressure free enospc (fold quota_pressure qs (calm_state free)) in
        Ok (v\<lparr>BulkIngestAllowed := bulk_allowed (CState v), OptionalJobsAllowed := optional_allowed (CState v),
              ControlWritesAllowed := CState v \<noteq> StorageReadOnlyENOSPC \<and> \<not> control_exhausted qs,
              Reasons := sort (Reasons v)\<rparr>))"

section \<open>Recording an observation\<close>

fun distinct_usage :: "string list \<Rightarrow> quota_usage list \<Rightarrow> bool" where
  "distinct_usage seen [] = True"
| "distinct_usage seen (u # us) =
     (\<not> (UsageClass u \<notin> set quota_classes \<or> UsageClass u \<in> set seen \<or> PhysicalBytes u < 0)
      \<and> distinct_usage (UsageClass u # seen) us)"

definition validate_observation :: "string \<Rightarrow> capacity_observation \<Rightarrow> unit outcome" where
  "validate_observation d o1 =
     (if d = [] \<or> ObservedAt o1 < 0 \<or> ObsFreeBytes o1 < 0 \<or> length (Usage o1) = 0
         \<or> length (Usage o1) > length quota_classes
      then Err (ErrInvalid ''invalid capacity observation'')
      else if \<not> distinct_usage [] (Usage o1) then Err (ErrInvalid ''invalid capacity class observation'')
      else Ok ())"

text \<open>\<open>known\<close>: the deployment exists, which the foreign key asks for.\<close>

definition insert_maintenance :: "bool \<Rightarrow> string \<Rightarrow> int64 \<Rightarrow> capacity_db \<Rightarrow> capacity_db outcome" where
  "insert_maintenance known d now db =
     (if list_ex (\<lambda>r. MDeployment r = d) (Maintenance db) then Ok db
      else if \<not> known then Err (ErrConstraint ''maintenance'')
      else Ok (db\<lparr>Maintenance := Maintenance db @ [\<lparr>MDeployment = d, MRetentionRevision = 1, MWatermark = 0,
             MLastBackup = None, MState = StorageNormal, MCursor = CursorObject [], MUpdated = now\<rparr>]\<rparr>))"

definition set_usage :: "string \<Rightarrow> int64 \<Rightarrow> quota_usage \<Rightarrow> capacity_db \<Rightarrow> capacity_db outcome" where
  "set_usage d now u db =
     (if length (filter (quota_is d (UsageClass u)) (Quotas db)) \<noteq> 1
      then Err (ErrInvalid (''capacity class '' @ UsageClass u @ '' is not configured''))
      else Ok (db\<lparr>Quotas := update_where (quota_is d (UsageClass u))
             (\<lambda>q. q\<lparr>QCurrent := PhysicalBytes u, QUpdated := now\<rparr>) (Quotas db)\<rparr>))"

definition saw :: "string \<Rightarrow> capacity_observation \<Rightarrow> bool" where
  "saw c o1 \<longleftrightarrow> list_ex (\<lambda>u. UsageClass u = c) (Usage o1)"

definition record_observation_body ::
  "cursor_length \<Rightarrow> bool \<Rightarrow> string \<Rightarrow> capacity_observation \<Rightarrow> bool \<Rightarrow> capacity_db \<Rightarrow> (capacity_state \<times> capacity_db) outcome" where
  "record_observation_body len known d o1 reset_pending db =
     (let now = ObservedAt o1 in
      result_bind (insert_maintenance known d now db) (\<lambda>db1.
      result_bind (for_all (set_usage d now) (Usage o1) db1) (\<lambda>db2.
      result_bind
        (if saw ''live_total'' o1 \<and> saw ''bulk_database'' o1
         then result_bind
           (if reset_pending then Ok 0
            else result_bind (maintenance_of d db2) (\<lambda>row. read_pending_bulk (MCursor row)))
           (\<lambda>pending. write_capacity_cursor len d now (ObsFreeBytes o1) pending db2)
         else Ok db2) (\<lambda>db3.
      result_bind (derive_state d (ObsFreeBytes o1) (ENOSPC o1) db3) (\<lambda>v.
      Ok (v, db3\<lparr>Maintenance := update_where (\<lambda>r. MDeployment r = d)
             (\<lambda>r. r\<lparr>MState := CState v, MUpdated := now\<rparr>) (Maintenance db3)\<rparr>))))))"

definition record_observation ::
  "cursor_length \<Rightarrow> bool \<Rightarrow> hub_env \<Rightarrow> string \<Rightarrow> capacity_observation \<Rightarrow> capacity_db \<Rightarrow> capacity_state outcome \<times> capacity_db" where
  "record_observation len known env d o1 db =
     (case validate_observation d o1 of
        Err e \<Rightarrow> (Err e, db)
      | Ok _ \<Rightarrow> transaction env db (record_observation_body len known d o1 False db))"

section \<open>Admission\<close>

definition stale :: "int64 \<Rightarrow> int64 \<Rightarrow> bool" where
  "stale observed now \<longleftrightarrow> observed > add64 now 5000 \<or> sub64 now observed > measurement_max_age_ms"

text \<open>The bytes charged to a class besides its row: pending bulk bytes, and for the live total the
  recovery bytes as well.\<close>

definition class_pending :: "string \<Rightarrow> int64 \<Rightarrow> int64 \<Rightarrow> int64 outcome" where
  "class_pending c pending recovery =
     (if c = ''live_total''
      then (if pending > sub64 max_int64 recovery then Err ErrCapacityMeasurementUnavailable else Ok (add64 pending recovery))
      else Ok pending)"

definition fits_class :: "int64 \<Rightarrow> int64 \<Rightarrow> quota_row \<Rightarrow> bool" where
  "fits_class requested pending q \<longleftrightarrow>
     \<not> (requested > QLimit q \<or> QCurrent q > sub64 max_int64 (QReserved q)
        \<or> add64 (QCurrent q) (QReserved q) > sub64 max_int64 pending
        \<or> add64 (add64 (QCurrent q) (QReserved q)) pending > sub64 (QLimit q) requested)"

definition admit_class :: "string \<Rightarrow> int64 \<Rightarrow> int64 \<Rightarrow> int64 \<Rightarrow> capacity_db \<Rightarrow> string \<Rightarrow> unit outcome" where
  "admit_class d requested pending recovery db c =
     (case quota_of d c db of
        None \<Rightarrow> Err ErrCapacityMeasurementUnavailable
      | Some q \<Rightarrow> result_bind (class_pending c pending recovery) (\<lambda>p.
          if fits_class requested p q then Ok () else Err ErrBulkIngestPaused))"

definition capacity_admission ::
  "cursor_length \<Rightarrow> string \<Rightarrow> int64 \<Rightarrow> int64 \<Rightarrow> capacity_db \<Rightarrow> capacity_db outcome" where
  "capacity_admission len d now requested db =
     (if requested < 0 then Err ErrBulkIngestPaused
      else case find (\<lambda>r. MDeployment r = d) (Maintenance db) of
        None \<Rightarrow> Err ErrCapacityMeasurementUnavailable
      | Some row \<Rightarrow> (case read_capacity_cursor (MCursor row) of
          Err _ \<Rightarrow> Err ErrCapacityMeasurementUnavailable
        | Ok (observed, free, pending) \<Rightarrow>
            if stale observed now \<or> pending > sub64 max_int64 requested then Err ErrCapacityMeasurementUnavailable
            else (case read_pending_recovery (MCursor row) of
              Err _ \<Rightarrow> Err ErrCapacityMeasurementUnavailable
            | Ok recovery \<Rightarrow>
                if \<not> bulk_allowed (MState row) then Err ErrBulkIngestPaused
                else result_bind (admit_class d requested pending recovery db ''live_total'') (\<lambda>_.
                     result_bind (admit_class d requested pending recovery db ''bulk_database'') (\<lambda>_.
                     write_capacity_cursor len d observed free (add64 pending requested) db)))))"

definition batch_capacity_bytes :: "int64 \<Rightarrow> int64 \<Rightarrow> int64 outcome" where
  "batch_capacity_bytes payload frames =
     (if payload < 0 \<or> frames < 0 \<or> frames > quot64 (sub64 max_int64 payload) frame_safety_bytes
      then Err ErrBulkIngestPaused else Ok (add64 payload (wrap64 (frames * frame_safety_bytes))))"

section \<open>Reservations\<close>

definition read_only :: "maintenance_row \<Rightarrow> bool" where
  "read_only row \<longleftrightarrow> MState row = StorageReadOnlyENOSPC"

text \<open>The guarded \<open>UPDATE\<close> of one class: SQLite turns an integer sum that overflows into a real number,
  so the sums of the guard are those of the integers.\<close>

definition reserve_class :: "string \<Rightarrow> int64 \<Rightarrow> int64 \<Rightarrow> int64 \<Rightarrow> string \<Rightarrow> capacity_db \<Rightarrow> capacity_db outcome" where
  "reserve_class d now bytes pending c db =
     (let p = (\<lambda>q. quota_is d c q \<and> QCurrent q + QReserved q + pending + bytes \<le> QLimit q) in
      if list_ex (\<lambda>q. p q \<and> QReserved q + bytes < 0) (Quotas db) then Err (ErrConstraint ''quota_classes'')
      else if length (filter p (Quotas db)) \<noteq> 1 then Err ErrRecoveryCapacityBusy
      else Ok (db\<lparr>Quotas := update_where p (\<lambda>q. q\<lparr>QReserved := QReserved q + bytes, QUpdated := now\<rparr>) (Quotas db)\<rparr>))"

definition reserve_recovery :: "string \<Rightarrow> int64 \<Rightarrow> int64 \<Rightarrow> capacity_db \<Rightarrow> capacity_db outcome" where
  "reserve_recovery d bytes now db =
     (case find (\<lambda>r. MDeployment r = d) (Maintenance db) of
        None \<Rightarrow> Err ErrRecoveryCapacityBusy
      | Some row \<Rightarrow>
          if read_only row then Err ErrRecoveryCapacityBusy
          else (case (read_capacity_cursor (MCursor row), read_pending_recovery (MCursor row)) of
            (Ok (observed, free, bulk), Ok recovery) \<Rightarrow>
              if stale observed now then Err ErrRecoveryCapacityBusy
              else result_bind (reserve_class d now bytes recovery ''metadata'' db) (\<lambda>db1.
                   if bulk > sub64 max_int64 recovery then Err ErrRecoveryCapacityBusy
                   else reserve_class d now bytes (add64 recovery bulk) ''live_total'' db1)
          | _ \<Rightarrow> Err ErrRecoveryCapacityBusy))"

definition release_class :: "string \<Rightarrow> int64 \<Rightarrow> int64 \<Rightarrow> string \<Rightarrow> capacity_db \<Rightarrow> capacity_db outcome" where
  "release_class d now bytes c db =
     (let p = (\<lambda>q. quota_is d c q \<and> QReserved q \<ge> bytes) in
      if length (filter p (Quotas db)) \<noteq> 1 then Err ErrRecoveryConflict
      else Ok (db\<lparr>Quotas := update_where p (\<lambda>q. q\<lparr>QReserved := QReserved q - bytes, QUpdated := now\<rparr>) (Quotas db)\<rparr>))"

definition release_recovery :: "cursor_length \<Rightarrow> string \<Rightarrow> int64 \<Rightarrow> int64 \<Rightarrow> capacity_db \<Rightarrow> capacity_db outcome" where
  "release_recovery len d bytes now db =
     result_bind (maintenance_of d db) (\<lambda>row.
       case read_pending_recovery (MCursor row) of
         Err _ \<Rightarrow> Err ErrRecoveryConflict
       | Ok pending \<Rightarrow>
           if pending > sub64 max_int64 bytes then Err ErrRecoveryConflict
           else result_bind (write_pending_recovery len d (add64 pending bytes) db) (\<lambda>db1.
                result_bind (release_class d now bytes ''metadata'' db1) (release_class d now bytes ''live_total'')))"

text \<open>The sum of the pending totals, stopping before an overflow.\<close>

fun sum_pending :: "int64 list \<Rightarrow> int64 \<Rightarrow> int64 outcome" where
  "sum_pending [] acc = Ok acc"
| "sum_pending (v # vs) acc =
     (if v > sub64 max_int64 acc then Err ErrIncidentCapacity else sum_pending vs (add64 acc v))"

definition reserve_manual :: "cursor_length \<Rightarrow> string \<Rightarrow> int64 \<Rightarrow> int64 \<Rightarrow> capacity_db \<Rightarrow> capacity_db outcome" where
  "reserve_manual len d requested now db =
     (case find (\<lambda>r. MDeployment r = d) (Maintenance db) of
        None \<Rightarrow> Err ErrIncidentCapacity
      | Some row \<Rightarrow>
          if read_only row then Err ErrIncidentCapacity
          else (case (read_capacity_cursor (MCursor row), read_pending_recovery (MCursor row),
                      read_pending_alert (MCursor row), read_pending_manual (MCursor row)) of
            (Ok (observed, free, bulk), Ok recovery, Ok (i, m, alert_live), Ok manual) \<Rightarrow>
              if stale observed now then Err ErrIncidentCapacity
              else result_bind (sum_pending [bulk, recovery, alert_live, manual] 0) (\<lambda>pending.
                case quota_of d ''live_total'' db of
                  None \<Rightarrow> Err ErrIncidentCapacity
                | Some q \<Rightarrow>
                    if \<not> fits_class requested pending q \<or> requested > sub64 max_int64 manual then Err ErrIncidentCapacity
                    else write_pending_manual len d (add64 manual requested) db)
          | _ \<Rightarrow> Err ErrIncidentCapacity))"

section \<open>Advice and reports\<close>

definition check_admission :: "string \<Rightarrow> string \<Rightarrow> int64 \<Rightarrow> capacity_db \<Rightarrow> admission_advice outcome" where
  "check_admission d c requested db =
     (if d = [] \<or> c \<notin> set quota_classes \<or> requested < 0 then Err (ErrInvalid ''invalid capacity admission request'')
      else case (maintenance_of d db, quota_of d c db) of
        (Ok row, Some q) \<Rightarrow>
          let available = max 0 (sub64 (sub64 (QLimit q) (QCurrent q)) (QReserved q));
              state = MState row;
              fits = requested \<le> available;
              answer = (\<lambda>a code. Ok \<lparr>Allowed = a, AdmState = state, SafeCode = code, AvailableBytes = available\<rparr>)
          in if state = StorageReadOnlyENOSPC then answer False ''storage_read_only_enospc''
             else if c = ''control_ledger'' \<or> c = ''incident_ledger'' \<or> c = ''metadata''
             then answer fits (if \<not> fits then ''protected_capacity_exhausted'' else ''capacity_available'')
             else if state = StorageBulkIngestPaused \<and> c \<in> set bulk_classes then answer False ''bulk_ingest_paused''
             else if severity state \<ge> severity StorageOptionalJobsStopped \<and> c \<in> set optional_classes
             then answer False ''optional_jobs_stopped''
             else answer fits (if \<not> fits then ''class_capacity_exhausted'' else ''capacity_available'')
      | _ \<Rightarrow> Err no_rows)"

definition read_state :: "string \<Rightarrow> int64 \<Rightarrow> capacity_db \<Rightarrow> capacity_state outcome" where
  "read_state d now db =
     (if d = [] \<or> now < 0 then Err (ErrInvalid ''invalid capacity state request'')
      else case maintenance_of d db of
        Err _ \<Rightarrow> Ok \<lparr>CState = StorageBulkIngestPaused, FreeBytes = 0, LivePhysicalBytes = 0, LiveReservedBytes = 0,
          LiveLimitBytes = live_data_limit_bytes, Reasons = [''measurement:unavailable''], BulkIngestAllowed = False,
          OptionalJobsAllowed = False, ControlWritesAllowed = False, MeasurementMS = None, MeasurementFresh = False\<rparr>
      | Ok row \<Rightarrow> (case quota_of d ''live_total'' db of
          None \<Rightarrow> Err no_rows
        | Some q \<Rightarrow>
            let persisted = MState row;
                v = \<lparr>CState = persisted, FreeBytes = 0, LivePhysicalBytes = QCurrent q, LiveReservedBytes = QReserved q,
                     LiveLimitBytes = QLimit q, Reasons = [], BulkIngestAllowed = bulk_allowed persisted,
                     OptionalJobsAllowed = optional_allowed persisted,
                     ControlWritesAllowed = (persisted \<noteq> StorageReadOnlyENOSPC), MeasurementMS = None,
                     MeasurementFresh = False\<rparr>;
                unavailable = v\<lparr>CState := (if persisted \<noteq> StorageReadOnlyENOSPC then StorageBulkIngestPaused else persisted),
                     BulkIngestAllowed := False, OptionalJobsAllowed := False,
                     Reasons := [''measurement:unavailable_or_stale'']\<rparr>
            in (case read_capacity_cursor (MCursor row) of
                  Err _ \<Rightarrow> Ok unavailable
                | Ok (observed, free, pending) \<Rightarrow>
                    if stale observed now then Ok unavailable
                    else Ok (v\<lparr>MeasurementMS := Some observed, MeasurementFresh := True, FreeBytes := free\<rparr>))))"

record backup_forecast =
  MeasuredLiveBytes :: int64
  TwoVerifiedBackupsBytes :: int64
  RotationStagingBytes :: int64
  UpgradeSnapshotBytes :: int64
  FixedReserveBytes :: int64
  PeakInstallationBytes :: int64
  MaximumFleetBytes :: int64

definition forecast_backup_space :: "int64 \<Rightarrow> backup_forecast outcome" where
  "forecast_backup_space live =
     (if live \<le> 0 \<or> live > live_data_limit_bytes \<or> live > quot64 (sub64 max_int64 maintenance_allowance_bytes) 5
      then Err (ErrInvalid ''invalid measured live bytes'')
      else Ok \<lparr>MeasuredLiveBytes = live, TwoVerifiedBackupsBytes = wrap64 (2 * live), RotationStagingBytes = live,
        UpgradeSnapshotBytes = live, FixedReserveBytes = maintenance_allowance_bytes,
        PeakInstallationBytes = add64 (wrap64 (5 * live)) maintenance_allowance_bytes,
        MaximumFleetBytes = maximum_fleet_bytes\<rparr>)"

end
