(* ===== verification/CapacityMeasure.thy ===== *)
theory CapacityMeasure
  imports Capacity
begin

text \<open>
  The exact measurement of \<open>internal/store/capacity.go\<close>: attributing the database's pages to quota
  classes, adding what other subsystems keep outside the database, and recording the result with every
  pending total cleared in the same transaction. What SQLite and the file system report is an argument.
\<close>

record physical_usage =
  MainBytes :: int64
  WALBytes :: int64
  SHMBytes :: int64

definition total_bytes :: "physical_usage \<Rightarrow> int64" where
  "total_bytes p = add64 (add64 (MainBytes p) (WALBytes p)) (SHMBytes p)"

record external_usage =
  DetailedSnapshotsBytes :: int64
  IncidentLedgerBytes :: int64
  MetadataBytes :: int64
  SavedComparisonsBytes :: int64
  CompletedExportsBytes :: int64
  TransientBytes :: int64
  AttachmentStagingBytes :: int64

fun sum_valid :: "int64 list \<Rightarrow> int64 \<Rightarrow> int64 option" where
  "sum_valid [] whole = Some whole"
| "sum_valid (b # bs) whole = (if b < 0 \<or> b > sub64 max_int64 whole then None else sum_valid bs (add64 whole b))"

definition external_values :: "external_usage \<Rightarrow> int64 list" where
  "external_values e = [DetailedSnapshotsBytes e, IncidentLedgerBytes e, MetadataBytes e, SavedComparisonsBytes e,
     CompletedExportsBytes e, TransientBytes e]"

definition valid_external :: "external_usage \<Rightarrow> bool" where
  "valid_external e \<longleftrightarrow> (case sum_valid (external_values e) 0 of
      None \<Rightarrow> False
    | Some whole \<Rightarrow> AttachmentStagingBytes e \<ge> 0 \<and> AttachmentStagingBytes e \<le> TransientBytes e
        \<and> whole \<le> live_data_limit_bytes)"

definition table_class :: "string \<Rightarrow> string" where
  "table_class t =
     (if t \<in> set [''source_frames'', ''counter_epochs'', ''rollup_minutes'', ''rollup_hours'', ''request_runs'',
                  ''request_samples'', ''process_observations'', ''model_load_observations''] then ''bulk_database''
      else if t = ''snapshots'' then ''detailed_snapshots''
      else if t \<in> set [''incidents'', ''incident_capsules'', ''alert_instances'', ''alert_transitions''] then ''incident_ledger''
      else if t = ''comparisons'' then ''saved_comparisons''
      else if t \<in> set [''source_status'', ''coverage_gaps'', ''retention_loss_ledger''] then ''control_ledger''
      else ''metadata'')"

text \<open>A Go map of byte counts: a missing key reads as zero.\<close>

type_synonym byte_map = "(string \<times> int64) list"

definition bytes_at :: "string \<Rightarrow> byte_map \<Rightarrow> int64" where
  "bytes_at k m = (case map_of m k of None \<Rightarrow> 0 | Some n \<Rightarrow> n)"

definition add_at :: "string \<Rightarrow> int64 \<Rightarrow> byte_map \<Rightarrow> byte_map" where
  "add_at k n m = AList.update k (add64 (bytes_at k m) n) m"

text \<open>The rows of the page query: the table a b-tree belongs to and its bytes.\<close>

definition no_pages :: byte_map where
  "no_pages = [(''bulk_database'', 0), (''detailed_snapshots'', 0), (''incident_ledger'', 0), (''control_ledger'', 0),
     (''metadata'', 0)]"

fun class_pages :: "(string \<times> int64) list \<Rightarrow> byte_map \<times> int64 \<Rightarrow> (byte_map \<times> int64) outcome" where
  "class_pages [] acc = Ok acc"
| "class_pages ((table, bytes) # rows) (m, requests) =
     (if bytes < 0 then Err (ErrInvalid ''negative sqlite b-tree allocation'')
      else if bytes_at (table_class table) m > sub64 max_int64 bytes
      then Err (ErrInvalid ''sqlite b-tree allocation overflow'')
      else class_pages rows (add_at (table_class table) bytes m,
        if table = ''request_runs'' \<or> table = ''request_samples'' then add64 requests bytes else requests))"

definition sqlite_class_pages :: "(string \<times> int64) list \<Rightarrow> (byte_map \<times> int64) outcome" where
  "sqlite_class_pages rows = class_pages rows (no_pages, 0)"

fun logical_total :: "byte_map \<Rightarrow> int64 \<Rightarrow> int64 outcome" where
  "logical_total [] whole = Ok whole"
| "logical_total ((k, bytes) # m) whole =
     (if bytes > sub64 max_int64 whole then Err (ErrInvalid ''sqlite class allocation overflow'')
      else logical_total m (add64 whole bytes))"

definition scaled_allocation :: "int64 \<Rightarrow> int64 \<Rightarrow> int64 \<Rightarrow> int64" where
  "scaled_allocation bytes whole allocated =
     (if bytes \<le> 0 \<or> whole \<le> 0 \<or> allocated \<le> 0 then 0 else wrap64 (bytes * allocated div whole))"

text \<open>The proportional attribution, with what rounding leaves over as headroom.\<close>

definition attribute_pages :: "byte_map \<Rightarrow> int64 \<Rightarrow> int64 \<Rightarrow> byte_map" where
  "attribute_pages logical whole main =
     (let scaled = map (\<lambda>(k, bytes). (k, scaled_allocation bytes whole main)) logical;
          assigned = fold (\<lambda>(k, v) a. add64 a v) scaled 0
      in if assigned < main then add_at ''live_headroom'' (sub64 main assigned) scaled else scaled)"

text \<open>Adding the external bytes class by class, each with its own overflow check.\<close>

fun add_external :: "byte_map \<Rightarrow> byte_map \<Rightarrow> byte_map outcome" where
  "add_external [] m = Ok m"
| "add_external ((k, bytes) # es) m =
     (if bytes_at k m > sub64 max_int64 bytes then Err (ErrInvalid ''external capacity allocation overflow'')
      else add_external es (add_at k bytes m))"

definition external_classes :: "external_usage \<Rightarrow> byte_map" where
  "external_classes e = [(''detailed_snapshots'', DetailedSnapshotsBytes e), (''incident_ledger'', IncidentLedgerBytes e),
     (''metadata'', MetadataBytes e), (''saved_comparisons'', SavedComparisonsBytes e),
     (''completed_exports'', CompletedExportsBytes e), (''transient'', TransientBytes e)]"

definition external_total :: "external_usage \<Rightarrow> int64" where
  "external_total e = fold (\<lambda>b a. add64 a b) (external_values e) 0"

text \<open>The usage of every class: the last three assignments overwrite or complete the map.\<close>

definition allocate ::
  "physical_usage \<Rightarrow> byte_map \<Rightarrow> int64 \<Rightarrow> int64 \<Rightarrow> external_usage \<Rightarrow> byte_map outcome" where
  "allocate p logical requests whole e =
     (let m = attribute_pages logical whole (MainBytes p);
          m = add_at ''transient'' (add64 (WALBytes p) (SHMBytes p)) m;
          m = AList.update ''request_samples'' (scaled_allocation requests whole (MainBytes p)) m in
      result_bind (add_external (external_classes e) m) (\<lambda>m.
        let m = AList.update ''attachment_staging'' (AttachmentStagingBytes e) m in
        if total_bytes p > sub64 max_int64 (external_total e)
        then Err (ErrInvalid ''live capacity allocation overflow'')
        else Ok (AList.update ''live_total'' (add64 (total_bytes p) (external_total e)) m)))"

definition measured_usage :: "byte_map \<Rightarrow> quota_usage list" where
  "measured_usage m = map (\<lambda>c. \<lparr>UsageClass = c, PhysicalBytes = bytes_at c m\<rparr>)
     (sort (filter (\<lambda>c. c \<noteq> ''emergency_outside_live'') quota_classes))"

text \<open>What the transaction reads: the allocation of the files, the page rows and the free space, or
  the error of reading them.\<close>

record measurement =
  MPhysical :: "physical_usage outcome"
  MPages :: "(string \<times> int64) list outcome"
  MFree :: "int64 outcome"

definition measure_body ::
  "cursor_length \<Rightarrow> bool \<Rightarrow> string \<Rightarrow> int64 \<Rightarrow> external_usage \<Rightarrow> measurement \<Rightarrow> capacity_db \<Rightarrow>
   (capacity_state \<times> capacity_db) outcome" where
  "measure_body len known d observed e ms db =
     result_bind (MPhysical ms) (\<lambda>p.
     result_bind (MPages ms) (\<lambda>rows.
     result_bind (sqlite_class_pages rows) (\<lambda>(logical, requests).
     result_bind (logical_total logical 0) (\<lambda>whole.
     if whole \<le> 0 then Err (ErrInvalid ''sqlite class allocation unavailable'')
     else result_bind (allocate p logical requests whole e) (\<lambda>m.
     result_bind (MFree ms) (\<lambda>free.
     let o1 = \<lparr>Usage = measured_usage m, ObsFreeBytes = free, ObservedAt = observed, ENOSPC = False\<rparr> in
     result_bind (validate_observation d o1) (\<lambda>_.
     result_bind (record_observation_body len known d o1 True db) (\<lambda>(v, db1).
     result_bind (write_pending_recovery len d 0 db1) (\<lambda>db2.
     result_bind (clear_pending_alert len d db2) (\<lambda>db3.
     result_bind (write_pending_manual len d 0 db3) (\<lambda>db4. Ok (v, db4))))))))))))"

definition measure_and_record ::
  "cursor_length \<Rightarrow> bool \<Rightarrow> hub_env \<Rightarrow> string \<Rightarrow> int64 \<Rightarrow> external_usage \<Rightarrow> measurement \<Rightarrow> capacity_db \<Rightarrow>
   capacity_state outcome \<times> capacity_db" where
  "measure_and_record len known env d observed e ms db =
     (if d = [] \<or> observed < 0 \<or> \<not> valid_external e
      then (Err (ErrInvalid ''invalid capacity measurement request''), db)
      else transaction env db (measure_body len known d observed e ms db))"

end
