(* ===== verification/CapacityProperties.thy ===== *)
theory CapacityProperties
  imports CapacityMeasure
begin

text \<open>
  The properties of the hub's capacity accounting: what is admitted and reserved between two
  measurements stays within the quota of its class, what the page attribution hands out is what was
  measured, and where a reservation is not charged.
\<close>

section \<open>Rows as the schema keeps them\<close>

definition quota_ok :: "quota_row \<Rightarrow> bool" where
  "quota_ok q \<longleftrightarrow> 0 < QLimit q \<and> in_int64 (QLimit q) \<and> 0 \<le> QCurrent q \<and> in_int64 (QCurrent q)
     \<and> 0 \<le> QReserved q \<and> in_int64 (QReserved q)"

definition entry_ok :: "cursor_value \<Rightarrow> bool" where
  "entry_ok v \<longleftrightarrow> (case v of CInt n \<Rightarrow> in_int64 n | _ \<Rightarrow> True)"

definition cursor_ok :: "cursor_json \<Rightarrow> bool" where
  "cursor_ok c \<longleftrightarrow> (case c of CursorObject kvs \<Rightarrow> list_all (\<lambda>(k, v). entry_ok v) kvs | _ \<Rightarrow> True)"

definition capacity_ok :: "capacity_db \<Rightarrow> bool" where
  "capacity_ok db \<longleftrightarrow> list_all quota_ok (Quotas db) \<and> list_all (\<lambda>r. cursor_ok (MCursor r)) (Maintenance db)
     \<and> distinct (map (\<lambda>q. (QDeployment q, QClass q)) (Quotas db))"

text \<open>What is promised since the last measurement, and what a class is charged with.\<close>

definition cursor_of :: "string \<Rightarrow> capacity_db \<Rightarrow> cursor_json" where
  "cursor_of d db = (case find (\<lambda>r. MDeployment r = d) (Maintenance db) of None \<Rightarrow> NotObject | Some r \<Rightarrow> MCursor r)"

definition pending_at :: "string \<Rightarrow> string \<Rightarrow> capacity_db \<Rightarrow> int" where
  "pending_at key d db = (case read_pending_entry key no_rows no_rows (cursor_of d db) of Inr n \<Rightarrow> n | Inl _ \<Rightarrow> 0)"

definition charged :: "string \<Rightarrow> string \<Rightarrow> capacity_db \<Rightarrow> int" where
  "charged c d db = (case quota_of d c db of None \<Rightarrow> 0 | Some q \<Rightarrow>
     QCurrent q + QReserved q + pending_at key_bulk d db +
     (if c = ''live_total'' then pending_at key_recovery d db else 0))"

definition limit_of :: "string \<Rightarrow> string \<Rightarrow> capacity_db \<Rightarrow> int" where
  "limit_of c d db = (case quota_of d c db of None \<Rightarrow> 0 | Some q \<Rightarrow> QLimit q)"

section \<open>The cursor\<close>

lemma put_entries_simps [simp]:
  "put_entries [] kvs = kvs"
  "put_entries ((k, n) # ps) kvs = put_entries ps (AList.update k (CInt n) kvs)"
  by (simp_all add: put_entries_def)

lemma map_of_put_other: "k \<notin> fst ` set puts \<Longrightarrow> map_of (put_entries puts kvs) k = map_of kvs k"
  by (induction puts arbitrary: kvs) (auto simp: update_conv')

lemma map_of_put:
  "distinct (map fst puts) \<Longrightarrow> (k, n) \<in> set puts \<Longrightarrow> map_of (put_entries puts kvs) k = Some (CInt n)"
proof (induction puts arbitrary: kvs)
  case (Cons p ps)
  obtain k' n' where p: "p = (k', n')" by force
  show ?case
  proof (cases "(k, n) \<in> set ps")
    case False
    with Cons.prems p have "k' = k" "n' = n" "k \<notin> fst ` set ps" by auto
    then show ?thesis by (simp add: p map_of_put_other update_conv')
  qed (use Cons p in simp)
qed simp

lemma set_update_alist: "set (AList.update k v kvs) \<subseteq> insert (k, v) (set kvs)"
  by (induction kvs) auto

lemma entries_ok_put:
  "list_all (\<lambda>(k, v). entry_ok v) kvs \<Longrightarrow> list_all (\<lambda>(k, n). in_int64 n) puts \<Longrightarrow>
     list_all (\<lambda>(k, v). entry_ok v) (put_entries puts kvs)"
proof (induction puts arbitrary: kvs)
  case (Cons p ps)
  obtain k n where p: "p = (k, n)" by force
  have "list_all (\<lambda>(k, v). entry_ok v) (AList.update k (CInt n) kvs)"
    using Cons.prems set_update_alist[of k "CInt n" kvs] by (fastforce simp: p list_all_iff entry_ok_def)
  with Cons show ?case by (simp add: p)
qed simp

lemma nonneg_int_value: "nonneg_int v = Some n \<Longrightarrow> 0 \<le> n \<and> (entry_ok v \<longrightarrow> in_int64 n)"
  by (auto simp: nonneg_int_def unmarshal_int_def entry_ok_def in_int64_def split: cursor_value.splits if_splits)

lemma entry_ok_map_of: "list_all (\<lambda>(k, v). entry_ok v) kvs \<Longrightarrow> map_of kvs k = Some v \<Longrightarrow> entry_ok v"
  by (auto simp: list_all_iff dest: map_of_SomeD)

lemma cursor_map_ok: "cursor_ok c \<Longrightarrow> cursor_map c = Some kvs \<Longrightarrow> list_all (\<lambda>(k, v). entry_ok v) kvs"
  by (auto simp: cursor_ok_def cursor_map_def split: cursor_json.splits)

lemma find_update_where:
  "(\<And>x. p x \<Longrightarrow> q (f x) = q x) \<Longrightarrow> find q xs = Some x \<Longrightarrow> find q (update_where p f xs) = Some (if p x then f x else x)"
  by (induction xs) (auto simp: update_where_def split: if_splits)

lemma write_cursor_effect:
  assumes "write_cursor len d puts e1 e2 b db = Ok db'"
  shows "Quotas db' = Quotas db"
    and "\<exists>kvs. cursor_map (cursor_of d db) = Some kvs \<and> cursor_of d db' = CursorObject (put_entries puts kvs)"
    and "capacity_ok db \<Longrightarrow> list_all (\<lambda>(k, n). in_int64 n) puts \<Longrightarrow> capacity_ok db'"
proof -
  from assms obtain row kvs where row: "find (\<lambda>r. MDeployment r = d) (Maintenance db) = Some row"
    and kvs: "cursor_map (MCursor row) = Some kvs"
    and db': "db' = db\<lparr>Maintenance := update_where (\<lambda>r. MDeployment r = d)
        (\<lambda>r. r\<lparr>MCursor := CursorObject (put_entries puts kvs)\<rparr>) (Maintenance db)\<rparr>"
    by (auto simp: write_cursor_def maintenance_of_def go_result split: option.splits if_splits)
  show "Quotas db' = Quotas db" by (simp add: db')
  have "find (\<lambda>r. MDeployment r = d) (Maintenance db') = Some (row\<lparr>MCursor := CursorObject (put_entries puts kvs)\<rparr>)"
    using find_update_where[OF _ row, of "\<lambda>r. MDeployment r = d" "\<lambda>r. r\<lparr>MCursor := CursorObject (put_entries puts kvs)\<rparr>"]
      find_some[OF row] by (simp add: db')
  with row kvs show "\<exists>kvs. cursor_map (cursor_of d db) = Some kvs \<and> cursor_of d db' = CursorObject (put_entries puts kvs)"
    by (simp add: cursor_of_def)
  assume ok: "capacity_ok db" "list_all (\<lambda>(k, n). in_int64 n) puts"
  have "row \<in> set (Maintenance db)" using find_some[OF row] by simp
  with ok(1) have "cursor_ok (MCursor row)" by (auto simp: capacity_ok_def list_all_iff)
  with kvs have "list_all (\<lambda>(k, v). entry_ok v) kvs" by (simp add: cursor_map_ok)
  then have "cursor_ok (CursorObject (put_entries puts kvs))"
    using entries_ok_put[OF _ ok(2)] by (simp add: cursor_ok_def)
  with ok(1) show "capacity_ok db'"
    by (auto simp: capacity_ok_def db' update_where_def list_all_iff)
qed

lemma pending_after_write:
  assumes "write_cursor len d puts e1 e2 b db = Ok db'" "distinct (map fst puts)"
  shows "(key, n) \<in> set puts \<Longrightarrow> 0 \<le> n \<Longrightarrow> pending_at key d db' = n"
    and "key \<notin> fst ` set puts \<Longrightarrow> pending_at key d db' = pending_at key d db"
proof -
  obtain kvs where kvs: "cursor_map (cursor_of d db) = Some kvs" "cursor_of d db' = CursorObject (put_entries puts kvs)"
    using write_cursor_effect(2)[OF assms(1)] by blast
  show "(key, n) \<in> set puts \<Longrightarrow> 0 \<le> n \<Longrightarrow> pending_at key d db' = n"
    by (simp add: pending_at_def read_pending_entry_def kvs cursor_map_def map_of_put[OF assms(2)] nonneg_int_def
        unmarshal_int_def)
  show "key \<notin> fst ` set puts \<Longrightarrow> pending_at key d db' = pending_at key d db"
    by (simp add: pending_at_def read_pending_entry_def kvs(1) map_of_put_other)
      (simp add: kvs(2) cursor_map_def map_of_put_other)
qed

section \<open>Admission\<close>

lemma read_pending_entry_value:
  assumes "read_pending_entry key e1 e2 c = Ok n"
  shows "0 \<le> n" "cursor_ok c \<Longrightarrow> in_int64 n" "read_pending_entry key e3 e4 c = Ok n"
proof -
  from assms obtain kvs where kvs: "cursor_map c = Some kvs"
    and n: "map_of kvs key = None \<and> n = 0 \<or> (\<exists>v. map_of kvs key = Some v \<and> nonneg_int v = Some n)"
    by (auto simp: read_pending_entry_def split: option.splits)
  from n show "0 \<le> n" by (auto dest: nonneg_int_value)
  from n kvs show "read_pending_entry key e3 e4 c = Ok n" by (auto simp: read_pending_entry_def)
  assume "cursor_ok c"
  with kvs have ok: "list_all (\<lambda>(k, v). entry_ok v) kvs" by (simp add: cursor_map_ok)
  from n show "in_int64 n"
  proof
    assume "\<exists>v. map_of kvs key = Some v \<and> nonneg_int v = Some n"
    with ok show ?thesis by (blast dest: nonneg_int_value entry_ok_map_of)
  qed (simp add: in_int64_def)
qed

lemma read_required_value:
  assumes "read_required key kvs = Ok n"
  shows "0 \<le> n" "list_all (\<lambda>(k, v). entry_ok v) kvs \<Longrightarrow> in_int64 n" "\<exists>v. map_of kvs key = Some v \<and> nonneg_int v = Some n"
proof -
  from assms obtain v where v: "map_of kvs key = Some v" "nonneg_int v = Some n"
    by (auto simp: read_required_def split: option.splits bind_splits)
  then show "0 \<le> n" "\<exists>v. map_of kvs key = Some v \<and> nonneg_int v = Some n" by (auto dest: nonneg_int_value)
  show "list_all (\<lambda>(k, v). entry_ok v) kvs \<Longrightarrow> in_int64 n" using v by (blast dest: nonneg_int_value entry_ok_map_of)
qed

lemma sub_small: "in_int64 a \<Longrightarrow> 0 \<le> a \<Longrightarrow> 0 \<le> b \<Longrightarrow> in_int64 b \<Longrightarrow> sub64 a b = a - b"
  by (rule sub64_exact) (simp add: in_int64_def)

lemma fits_class_exact:
  assumes "quota_ok q" "0 \<le> requested" "in_int64 requested" "0 \<le> p" "in_int64 p" "fits_class requested p q"
  shows "QCurrent q + QReserved q + p + requested \<le> QLimit q"
proof -
  note q = assms(1)[unfolded quota_ok_def]
  note f = assms(6)[unfolded fits_class_def de_Morgan_disj not_less]
  have "sub64 max_int64 (QReserved q) = max_int64 - QReserved q" using q by (intro sub_small) (auto simp: in_int64_def)
  with f have used: "add64 (QCurrent q) (QReserved q) = QCurrent q + QReserved q"
    using q by (intro add64_exact) (auto simp: in_int64_def)
  have "sub64 max_int64 p = max_int64 - p" using assms by (intro sub_small) (auto simp: in_int64_def)
  with f used have whole: "add64 (QCurrent q + QReserved q) p = QCurrent q + QReserved q + p"
    using q assms by (intro add64_exact) (auto simp: in_int64_def)
  have "sub64 (QLimit q) requested = QLimit q - requested" using q assms by (intro sub_small) auto
  with f used whole show ?thesis by simp
qed

definition request_fits :: "string \<Rightarrow> string \<Rightarrow> int \<Rightarrow> capacity_db \<Rightarrow> bool" where
  "request_fits c d requested db \<longleftrightarrow> charged c d db + requested \<le> limit_of c d db"

lemma quota_of_ok: "capacity_ok db \<Longrightarrow> quota_of d c db = Some q \<Longrightarrow> quota_ok q"
  by (auto simp: capacity_ok_def quota_of_def list_all_iff dest: find_some)

lemma read_capacity_cursor_value:
  assumes "read_capacity_cursor c = Ok (observed, free, pending)"
  shows "read_pending_entry key_bulk e1 e2 c = Ok pending" "0 \<le> pending" "cursor_ok c \<Longrightarrow> in_int64 pending"
    "cursor_ok c \<Longrightarrow> in_int64 observed \<and> in_int64 free"
proof -
  from assms obtain kvs where kvs: "cursor_map c = Some kvs" and r: "read_required key_observed kvs = Ok observed"
      "read_required key_free kvs = Ok free" "read_required key_bulk kvs = Ok pending"
    by (auto simp: read_capacity_cursor_def go_result split: option.splits)
  show "read_pending_entry key_bulk e1 e2 c = Ok pending"
    using read_required_value(3)[OF r(3)] by (auto simp: read_pending_entry_def kvs)
  show "0 \<le> pending" using read_required_value(1)[OF r(3)] .
  assume "cursor_ok c"
  with kvs have "list_all (\<lambda>(k, v). entry_ok v) kvs" by (simp add: cursor_map_ok)
  then show "in_int64 pending" "in_int64 observed \<and> in_int64 free" using r by (blast intro: read_required_value(2))+
qed

lemma admit_class_fits:
  assumes "admit_class d requested pending recovery db c = Ok ()" "capacity_ok db"
    and "0 \<le> requested" "in_int64 requested" "0 \<le> pending" "in_int64 pending" "0 \<le> recovery" "in_int64 recovery"
    and "pending = pending_at key_bulk d db" "recovery = pending_at key_recovery d db"
  shows "request_fits c d requested db"
proof -
  from assms(1) obtain q p where q: "quota_of d c db = Some q" and p: "class_pending c pending recovery = Ok p"
    and fits: "fits_class requested p q"
    by (auto simp: admit_class_def go_result split: option.splits if_splits)
  have rest: "sub64 max_int64 recovery = max_int64 - recovery" using assms by (intro sub_small) (auto simp: in_int64_def)
  have "p = pending + (if c = ''live_total'' then recovery else 0) \<and> 0 \<le> p \<and> in_int64 p"
    using p assms rest by (auto simp: class_pending_def in_int64_def add64_exact split: if_splits)
  then show ?thesis
    using fits_class_exact[OF quota_of_ok[OF assms(2) q] assms(3,4) _ _ fits] assms(9,10)
    by (auto simp: request_fits_def charged_def limit_of_def q)
qed

lemma admission_effect:
  assumes "capacity_admission len d now requested db = Ok db'" "capacity_ok db" "in_int64 requested"
  shows "0 \<le> requested" "request_fits ''live_total'' d requested db" "request_fits ''bulk_database'' d requested db"
    and "pending_at key_bulk d db' = pending_at key_bulk d db + requested"
    and "pending_at key_recovery d db' = pending_at key_recovery d db"
    and "Quotas db' = Quotas db" "capacity_ok db'"
proof -
  from assms(1) obtain row observed free pending recovery where
    req: "0 \<le> requested" and row: "find (\<lambda>r. MDeployment r = d) (Maintenance db) = Some row"
    and cur: "read_capacity_cursor (MCursor row) = Ok (observed, free, pending)"
    and room: "\<not> pending > sub64 max_int64 requested"
    and rec: "read_pending_recovery (MCursor row) = Ok recovery"
    and live: "admit_class d requested pending recovery db ''live_total'' = Ok ()"
    and bulk: "admit_class d requested pending recovery db ''bulk_database'' = Ok ()"
    and wr: "write_capacity_cursor len d observed free (add64 pending requested) db = Ok db'"
    by (auto simp: capacity_admission_def go_result split: option.splits sum.splits if_splits)
  have "row \<in> set (Maintenance db)" using find_some[OF row] by simp
  with assms(2) have ok: "cursor_ok (MCursor row)" by (auto simp: capacity_ok_def list_all_iff)
  note p = read_capacity_cursor_value[OF cur] and r = read_pending_entry_value[OF rec[unfolded read_pending_recovery_def]]
  have pend: "pending = pending_at key_bulk d db" using p(1) row by (simp add: pending_at_def cursor_of_def)
  have recov: "recovery = pending_at key_recovery d db" using r(3) row by (simp add: pending_at_def cursor_of_def)
  show "0 \<le> requested" by (rule req)
  show "request_fits ''live_total'' d requested db" "request_fits ''bulk_database'' d requested db"
    using admit_class_fits[OF live assms(2) req assms(3) p(2) p(3)[OF ok] r(1) r(2)[OF ok] pend recov]
      admit_class_fits[OF bulk assms(2) req assms(3) p(2) p(3)[OF ok] r(1) r(2)[OF ok] pend recov] by simp_all
  have "sub64 max_int64 requested = max_int64 - requested" using req assms(3) by (intro sub_small) (auto simp: in_int64_def)
  with room p(2) req have range: "in_int64 (pending + requested)" by (simp add: in_int64_def)
  then have sum: "add64 pending requested = pending + requested" by (rule add64_exact)
  note w = wr[unfolded write_capacity_cursor_def]
  note keys = cursor_keys
  have "pending_at key_bulk d db' = add64 pending requested"
    by (rule pending_after_write(1)[OF w]) (use sum p(2) req in \<open>simp_all add: keys\<close>)
  then show "pending_at key_bulk d db' = pending_at key_bulk d db + requested" using sum pend by simp
  show "pending_at key_recovery d db' = pending_at key_recovery d db"
    by (rule pending_after_write(2)[OF w]) (simp_all add: keys)
  show "Quotas db' = Quotas db" by (rule write_cursor_effect(1)[OF w])
  show "capacity_ok db'"
    using write_cursor_effect(3)[OF w assms(2)] p(4)[OF ok] range by (simp add: sum)
qed

section \<open>A run between two measurements\<close>

text \<open>
  The calls that promise bytes between two measurements: ingest requests, reservations of a recovery and
  their release, the reservation of a manual incident, and the totals the alert ledger keeps. A refused
  call changes nothing.
\<close>

datatype capacity_call =
    Ingest int64 int64
  | ReserveRecovery int64 int64
  | ReleaseRecovery int64 int64
  | ReserveIncident int64 int64
  | KeepAlertTotals int64 int64 int64

fun capacity_step :: "cursor_length \<Rightarrow> string \<Rightarrow> capacity_call \<Rightarrow> capacity_db \<Rightarrow> capacity_db outcome" where
  "capacity_step len d (Ingest now n) db = capacity_admission len d now n db"
| "capacity_step len d (ReserveRecovery now n) db = reserve_recovery d n now db"
| "capacity_step len d (ReleaseRecovery now n) db = release_recovery len d n now db"
| "capacity_step len d (ReserveIncident now n) db = reserve_manual len d n now db"
| "capacity_step len d (KeepAlertTotals i m l) db = write_pending_alert len d i m l db"

fun capacity_run :: "cursor_length \<Rightarrow> string \<Rightarrow> capacity_call list \<Rightarrow> capacity_db \<Rightarrow> capacity_call list \<times> capacity_db" where
  "capacity_run len d [] db = ([], db)"
| "capacity_run len d (r # rs) db =
     (case capacity_step len d r db of
        Err e \<Rightarrow> capacity_run len d rs db
      | Ok db' \<Rightarrow> (let (as, db'') = capacity_run len d rs db' in (r # as, db'')))"

text \<open>The numbers of a call: 64-bit, and sizes to reserve or release are not negative.\<close>

fun call_ok :: "capacity_call \<Rightarrow> bool" where
  "call_ok (Ingest now n) \<longleftrightarrow> in_int64 n"
| "call_ok (ReserveRecovery now n) \<longleftrightarrow> 0 \<le> n \<and> in_int64 n"
| "call_ok (ReleaseRecovery now n) \<longleftrightarrow> 0 \<le> n \<and> in_int64 n"
| "call_ok (ReserveIncident now n) \<longleftrightarrow> 0 \<le> n \<and> in_int64 n"
| "call_ok (KeepAlertTotals i m l) \<longleftrightarrow> in_int64 i \<and> in_int64 m \<and> in_int64 l"

text \<open>The bytes an accepted call adds to what a class is charged with, and whether it is checked against it.\<close>

fun claims :: "string \<Rightarrow> capacity_call \<Rightarrow> int" where
  "claims c (Ingest now n) = n"
| "claims c (ReserveRecovery now n) = (if c = ''live_total'' then n else 0)"
| "claims c _ = 0"

fun checks :: "string \<Rightarrow> capacity_call \<Rightarrow> bool" where
  "checks c (Ingest now n) = True"
| "checks c (ReserveRecovery now n) = (c = ''live_total'')"
| "checks c _ = False"

lemma charged_after:
  assumes "pending_at key_bulk d db' = pending_at key_bulk d db + n"
    and "pending_at key_recovery d db' = pending_at key_recovery d db" "Quotas db' = Quotas db"
    and "quota_of d c db \<noteq> None"
  shows "charged c d db' = charged c d db + n" "limit_of c d db' = limit_of c d db"
  using assms by (auto simp: charged_def limit_of_def quota_of_def)

lemma unique_quota:
  "capacity_ok db \<Longrightarrow> x \<in> set (Quotas db) \<Longrightarrow> quota_is d c x \<Longrightarrow> quota_of d c db = Some q \<Longrightarrow> x = q"
  by (auto simp: capacity_ok_def quota_of_def quota_is_def distinct_map inj_on_def dest!: find_some)

text \<open>The guarded update of the row of a class: exactly that row, and only if the guard holds for it.\<close>

definition set_quota :: "string \<Rightarrow> string \<Rightarrow> (quota_row \<Rightarrow> bool) \<Rightarrow> (quota_row \<Rightarrow> quota_row) \<Rightarrow> capacity_db \<Rightarrow> capacity_db" where
  "set_quota d c g f db = db\<lparr>Quotas := update_where (\<lambda>q. quota_is d c q \<and> g q) f (Quotas db)\<rparr>"

lemma set_quota_effect:
  assumes ok: "capacity_ok db" and one: "length (filter (\<lambda>q. quota_is d c q \<and> g q) (Quotas db)) = 1"
    and f: "\<And>q. QDeployment (f q) = QDeployment q \<and> QClass (f q) = QClass q"
    and keep: "\<And>q. quota_ok q \<Longrightarrow> g q \<Longrightarrow> quota_ok (f q)"
  shows "\<exists>q. quota_of d c db = Some q \<and> g q \<and> quota_of d c (set_quota d c g f db) = Some (f q)"
    and "c' \<noteq> c \<Longrightarrow> quota_of d c' (set_quota d c g f db) = quota_of d c' db"
    and "capacity_ok (set_quota d c g f db)" "pending_at key d (set_quota d c g f db) = pending_at key d db"
proof -
  define xs where "xs = filter (\<lambda>q. quota_is d c q \<and> g q) (Quotas db)"
  from one have "hd xs \<in> set xs" by (cases xs) (simp_all add: xs_def)
  then obtain x where x: "x \<in> set (Quotas db)" "quota_is d c x" "g x" by (auto simp: xs_def)
  then obtain q where q: "quota_of d c db = Some q"
    by (cases "quota_of d c db") (auto simp: quota_of_def find_None_iff)
  have "x = q" using unique_quota[OF ok x(1,2) q] .
  have same: "quota_is d c'' (f q) = quota_is d c'' q" for q c'' using f[of q] by (simp add: quota_is_def)
  have "find (quota_is d c) (Quotas (set_quota d c g f db)) = Some (if quota_is d c q \<and> g q then f q else q)"
    using find_update_where[of "\<lambda>q. quota_is d c q \<and> g q" "quota_is d c" f "Quotas db" q] q same
    by (simp add: quota_of_def set_quota_def)
  with q x \<open>x = q\<close> show "\<exists>q. quota_of d c db = Some q \<and> g q \<and> quota_of d c (set_quota d c g f db) = Some (f q)"
    by (simp add: quota_of_def)
  show "c' \<noteq> c \<Longrightarrow> quota_of d c' (set_quota d c g f db) = quota_of d c' db"
  proof -
    assume c: "c' \<noteq> c"
    have "find (quota_is d c') (update_where (\<lambda>q. quota_is d c q \<and> g q) f qs) = find (quota_is d c') qs" for qs
      using c by (induction qs) (auto simp: update_where_def same, auto simp: quota_is_def)
    then show ?thesis by (simp add: quota_of_def set_quota_def)
  qed
  have keys: "map (\<lambda>q. (QDeployment q, QClass q)) (update_where p f qs) = map (\<lambda>q. (QDeployment q, QClass q)) qs" for p qs
    by (induction qs) (auto simp: update_where_def f)
  show "capacity_ok (set_quota d c g f db)"
    using ok keep unfolding capacity_ok_def set_quota_def
    by (simp add: keys) (auto simp: list_all_iff update_where_def)
  show "pending_at key d (set_quota d c g f db) = pending_at key d db"
    by (simp add: pending_at_def cursor_of_def set_quota_def)
qed

lemma reserve_class_effect:
  assumes run: "reserve_class d now n p c db = Ok db'" and ok: "capacity_ok db" and n: "0 \<le> n" and p: "0 \<le> p"
  shows "\<exists>q. quota_of d c db = Some q \<and> QCurrent q + QReserved q + p + n \<le> QLimit q \<and>
      quota_of d c db' = Some (q\<lparr>QReserved := QReserved q + n, QUpdated := now\<rparr>)"
    and "c' \<noteq> c \<Longrightarrow> quota_of d c' db' = quota_of d c' db"
    and "capacity_ok db'" "pending_at key d db' = pending_at key d db"
proof -
  let ?g = "\<lambda>q. QCurrent q + QReserved q + p + n \<le> QLimit q"
  let ?f = "\<lambda>q. q\<lparr>QReserved := QReserved q + n, QUpdated := now\<rparr>"
  from run have one: "length (filter (\<lambda>q. quota_is d c q \<and> ?g q) (Quotas db)) = 1"
    and db': "db' = set_quota d c ?g ?f db"
    by (auto simp: reserve_class_def set_quota_def Let_def split: if_split_asm)
  have keep: "quota_ok (?f q)" if "quota_ok q" "?g q" for q
    using that n p by (auto simp: quota_ok_def in_int64_def)
  note e = set_quota_effect[of db d c ?g ?f, OF ok one _ keep]
  show "\<exists>q. quota_of d c db = Some q \<and> QCurrent q + QReserved q + p + n \<le> QLimit q \<and>
      quota_of d c db' = Some (q\<lparr>QReserved := QReserved q + n, QUpdated := now\<rparr>)" unfolding db' by (rule e(1)) simp
  show "c' \<noteq> c \<Longrightarrow> quota_of d c' db' = quota_of d c' db" unfolding db' by (rule e(2)) simp_all
  show "capacity_ok db'" "pending_at key d db' = pending_at key d db" unfolding db' using e(3,4) by simp_all
qed

lemma release_class_effect:
  assumes run: "release_class d now n c db = Ok db'" and ok: "capacity_ok db" and n: "0 \<le> n"
  shows "\<exists>q. quota_of d c db = Some q \<and> quota_of d c db' = Some (q\<lparr>QReserved := QReserved q - n, QUpdated := now\<rparr>)"
    and "c' \<noteq> c \<Longrightarrow> quota_of d c' db' = quota_of d c' db"
    and "capacity_ok db'" "pending_at key d db' = pending_at key d db"
proof -
  let ?g = "\<lambda>q. QReserved q \<ge> n" and ?f = "\<lambda>q. q\<lparr>QReserved := QReserved q - n, QUpdated := now\<rparr>"
  from run have one: "length (filter (\<lambda>q. quota_is d c q \<and> ?g q) (Quotas db)) = 1"
    and db': "db' = set_quota d c ?g ?f db"
    by (auto simp: release_class_def set_quota_def Let_def split: if_split_asm)
  have keep: "quota_ok (?f q)" if "quota_ok q" "?g q" for q
    using that n by (auto simp: quota_ok_def in_int64_def)
  note e = set_quota_effect[of db d c ?g ?f, OF ok one _ keep]
  have "\<exists>q. quota_of d c db = Some q \<and> ?g q \<and> quota_of d c db' = Some (?f q)" unfolding db' by (rule e(1)) simp
  then show "\<exists>q. quota_of d c db = Some q \<and> quota_of d c db' = Some (q\<lparr>QReserved := QReserved q - n, QUpdated := now\<rparr>)" by blast
  show "c' \<noteq> c \<Longrightarrow> quota_of d c' db' = quota_of d c' db" unfolding db' by (rule e(2)) simp_all
  show "capacity_ok db'" "pending_at key d db' = pending_at key d db" unfolding db' using e(3,4) by simp_all
qed

text \<open>What one accepted call does to the charge of a class.\<close>

definition charges :: "string \<Rightarrow> string \<Rightarrow> capacity_call \<Rightarrow> capacity_db \<Rightarrow> capacity_db \<Rightarrow> bool" where
  "charges c d r db db' \<longleftrightarrow> capacity_ok db' \<and> quota_of d c db' \<noteq> None \<and> limit_of c d db' = limit_of c d db \<and>
     charged c d db' = charged c d db + claims c r \<and> (checks c r \<longrightarrow> charged c d db' \<le> limit_of c d db')"

lemma classes: "''metadata'' \<noteq> ''live_total''" "''metadata'' \<noteq> ''bulk_database''" "''bulk_database'' \<noteq> ''live_total''"
  by simp_all

lemma reserve_recovery_charges:
  assumes run: "reserve_recovery d n now db = Ok db'" and ok: "capacity_ok db" and n: "0 \<le> n" "in_int64 n"
    and q: "quota_of d c db \<noteq> None" and c: "c = ''live_total'' \<or> c = ''bulk_database''"
  shows "charges c d (ReserveRecovery now n) db db'"
proof -
  from run obtain row observed free bulk recovery db1 where
    row: "find (\<lambda>r. MDeployment r = d) (Maintenance db) = Some row"
    and cur: "read_capacity_cursor (MCursor row) = Ok (observed, free, bulk)"
    and rec: "read_pending_recovery (MCursor row) = Ok recovery"
    and one: "reserve_class d now n recovery ''metadata'' db = Ok db1"
    and room: "\<not> bulk > sub64 max_int64 recovery"
    and two: "reserve_class d now n (add64 recovery bulk) ''live_total'' db1 = Ok db'"
    by (auto simp: reserve_recovery_def go_result split: option.splits sum.splits if_splits)
  have "row \<in> set (Maintenance db)" using find_some[OF row] by simp
  with ok have cok: "cursor_ok (MCursor row)" by (auto simp: capacity_ok_def list_all_iff)
  note b = read_capacity_cursor_value[OF cur] and r = read_pending_entry_value[OF rec[unfolded read_pending_recovery_def]]
  have pend: "bulk = pending_at key_bulk d db" using b(1) row by (simp add: pending_at_def cursor_of_def)
  have recov: "recovery = pending_at key_recovery d db" using r(3) row by (simp add: pending_at_def cursor_of_def)
  have "sub64 max_int64 recovery = max_int64 - recovery"
    using r(1) r(2)[OF cok] by (intro sub_small) (auto simp: in_int64_def)
  with room b(2) r(1) have sum: "add64 recovery bulk = recovery + bulk" by (intro add64_exact) (simp add: in_int64_def)
  note e1 = reserve_class_effect[OF one ok n(1) r(1)]
  have nn: "0 \<le> add64 recovery bulk" using b(2) r(1) by (simp add: sum)
  note e2 = reserve_class_effect[OF two e1(3) n(1) nn]
  show ?thesis
  proof (cases "c = ''live_total''")
    case True
    from e2(1) obtain x where x: "quota_of d ''live_total'' db1 = Some x"
      "QCurrent x + QReserved x + add64 recovery bulk + n \<le> QLimit x"
      "quota_of d ''live_total'' db' = Some (x\<lparr>QReserved := QReserved x + n, QUpdated := now\<rparr>)" by blast
    have "quota_of d ''live_total'' db = Some x" using e1(2)[of "''live_total''"] x(1) by simp
    with x(2)[unfolded sum] x(3) e1(3,4) e2(3,4) True pend recov show ?thesis
      by (simp add: charges_def charged_def limit_of_def)
  next
    case False
    with c have b: "c = ''bulk_database''" by simp
    have "quota_of d ''bulk_database'' db' = quota_of d ''bulk_database'' db"
      using e2(2)[of "''bulk_database''"] e1(2)[of "''bulk_database''"] by simp
    with q e1(3,4) e2(3,4) show ?thesis unfolding b
      by (auto simp: charges_def charged_def limit_of_def)
  qed
qed

lemma release_recovery_charges:
  assumes run: "release_recovery len d n now db = Ok db'" and ok: "capacity_ok db" and n: "0 \<le> n" "in_int64 n"
    and q: "quota_of d c db \<noteq> None" and c: "c = ''live_total'' \<or> c = ''bulk_database''"
  shows "charges c d (ReleaseRecovery now n) db db'"
proof -
  from run obtain row pending db1 db2 where
    row: "find (\<lambda>r. MDeployment r = d) (Maintenance db) = Some row"
    and rec: "read_pending_recovery (MCursor row) = Ok pending"
    and room: "\<not> pending > sub64 max_int64 n"
    and wr: "write_pending_recovery len d (add64 pending n) db = Ok db1"
    and one: "release_class d now n ''metadata'' db1 = Ok db2" and two: "release_class d now n ''live_total'' db2 = Ok db'"
    by (auto simp: release_recovery_def maintenance_of_def go_result split: option.splits sum.splits if_splits)
  note r = read_pending_entry_value[OF rec[unfolded read_pending_recovery_def]]
  have recov: "pending = pending_at key_recovery d db" using r(3) row by (simp add: pending_at_def cursor_of_def)
  have "sub64 max_int64 n = max_int64 - n" using n by (intro sub_small) (auto simp: in_int64_def)
  with room r(1) n have range: "in_int64 (pending + n)" by (simp add: in_int64_def)
  then have sum: "add64 pending n = pending + n" by (rule add64_exact)
  from wr have w: "write_cursor len d [(key_recovery, pending + n)] ErrRecoveryCapacityBusy ErrRecoveryCapacityBusy True db = Ok db1"
    by (simp add: write_pending_recovery_def sum split: if_splits)
  have p1: "pending_at key_recovery d db1 = pending_at key_recovery d db + n"
    using pending_after_write(1)[OF w, of key_recovery "pending + n"] r(1) n recov by simp
  have p2: "pending_at key_bulk d db1 = pending_at key_bulk d db"
    by (rule pending_after_write(2)[OF w]) (simp_all add: cursor_keys)
  have q1: "quota_of d x db1 = quota_of d x db" for x using write_cursor_effect(1)[OF w] by (simp add: quota_of_def)
  have ok1: "capacity_ok db1" by (rule write_cursor_effect(3)[OF w ok]) (simp add: range)
  note e1 = release_class_effect[OF one ok1 n(1)]
  note e2 = release_class_effect[OF two e1(3) n(1)]
  show ?thesis
  proof (cases "c = ''live_total''")
    case True
    from e2(1) obtain x where x: "quota_of d ''live_total'' db2 = Some x"
      "quota_of d ''live_total'' db' = Some (x\<lparr>QReserved := QReserved x - n, QUpdated := now\<rparr>)" by blast
    have "quota_of d ''live_total'' db = Some x" using e1(2)[of "''live_total''"] x(1) q1 by simp
    with x e1(3,4) e2(3,4) True p1 p2 show ?thesis
      by (simp add: charges_def charged_def limit_of_def)
  next
    case False
    with c have b: "c = ''bulk_database''" by simp
    have "quota_of d ''bulk_database'' db' = quota_of d ''bulk_database'' db"
      using e2(2)[of "''bulk_database''"] e1(2)[of "''bulk_database''"] q1 by simp
    with q e1(3,4) e2(3,4) p2 show ?thesis unfolding b
      by (auto simp: charges_def charged_def limit_of_def)
  qed
qed

text \<open>A write of other entries of the cursor leaves the charge alone.\<close>

lemma other_entries_charge:
  assumes "write_cursor len d puts e1 e2 b db = Ok db'" "capacity_ok db" "distinct (map fst puts)"
    and "list_all (\<lambda>(k, n). in_int64 n) puts" "key_bulk \<notin> fst ` set puts" "key_recovery \<notin> fst ` set puts"
    and "quota_of d c db \<noteq> None" "claims c r = 0" "\<not> checks c r"
  shows "charges c d r db db'"
  using charged_after[of d db' db 0 c] write_cursor_effect(1,3)[OF assms(1)] pending_after_write(2)[OF assms(1,3)] assms(2-)
  by (simp add: charges_def quota_of_def)

lemma capacity_step_charges:
  assumes run: "capacity_step len d r db = Ok db'" and ok: "capacity_ok db" and r: "call_ok r"
    and q: "quota_of d c db \<noteq> None" and c: "c = ''live_total'' \<or> c = ''bulk_database''"
  shows "charges c d r db db'"
proof (cases r)
  case (Ingest now n)
  with run r have adm: "capacity_admission len d now n db = Ok db'" and n: "in_int64 n" by simp_all
  note e = admission_effect[OF adm ok n]
  from charged_after[OF e(4-6) q] e(2,3,6,7) c q show ?thesis
    by (auto simp: Ingest charges_def request_fits_def quota_of_def)
next
  case (ReserveRecovery now n)
  with run r show ?thesis using reserve_recovery_charges[OF _ ok _ _ q c] by simp
next
  case (ReleaseRecovery now n)
  with run r show ?thesis using release_recovery_charges[OF _ ok _ _ q c] by simp
next
  case (ReserveIncident now n)
  with run have "reserve_manual len d n now db = Ok db'" by simp
  then obtain row m where row: "find (\<lambda>r. MDeployment r = d) (Maintenance db) = Some row"
    and m: "read_pending_manual (MCursor row) = Ok m" "\<not> n > sub64 max_int64 m"
    and wr: "write_pending_manual len d (add64 m n) db = Ok db'"
    by (auto simp: reserve_manual_def go_result split: option.splits sum.splits if_splits prod.splits)
  have "row \<in> set (Maintenance db)" using find_some[OF row] by simp
  with ok have "cursor_ok (MCursor row)" by (auto simp: capacity_ok_def list_all_iff)
  with read_pending_entry_value[OF m(1)[unfolded read_pending_manual_def]] have mm: "0 \<le> m" "in_int64 m" by simp_all
  have "sub64 max_int64 m = max_int64 - m" using mm by (intro sub_small) (auto simp: in_int64_def)
  with m(2) mm r have range: "in_int64 (m + n)" by (simp add: ReserveIncident in_int64_def)
  from wr have w: "write_cursor len d [(key_manual, m + n)] ErrIncidentCapacity ErrIncidentCapacity False db = Ok db'"
    using add64_exact[OF range] by (simp add: write_pending_manual_def split: if_splits)
  show ?thesis
    by (rule other_entries_charge[OF w ok]) (use range q in \<open>simp_all add: cursor_keys ReserveIncident\<close>)
next
  case (KeepAlertTotals i m l)
  with run have w: "write_cursor len d [(key_alert_incident, i), (key_alert_metadata, m), (key_alert_live, l)]
       ErrAlertCapacity ErrAlertCapacity False db = Ok db'"
    by (simp add: write_pending_alert_def split: if_splits)
  show ?thesis
    by (rule other_entries_charge[OF w ok]) (use r q in \<open>simp_all add: cursor_keys KeepAlertTotals\<close>)
qed

lemma capacity_run_effect:
  assumes "capacity_run len d rs db = (as, db')" "capacity_ok db" "list_all call_ok rs"
    and "quota_of d c db \<noteq> None" "c = ''live_total'' \<or> c = ''bulk_database''"
  shows "charged c d db' = charged c d db + sum_list (map (claims c) as) \<and> limit_of c d db' = limit_of c d db
    \<and> (list_ex (checks c) as \<or> charged c d db \<le> limit_of c d db \<longrightarrow> charged c d db' \<le> limit_of c d db')"
  using assms
proof (induction rs arbitrary: db as)
  case (Cons r rs)
  show ?case
  proof (cases "capacity_step len d r db")
    case (Inl e)
    with Cons.prems(1) have "capacity_run len d rs db = (as, db')" by simp
    from Cons.IH[OF this Cons.prems(2) _ Cons.prems(4,5)] Cons.prems(3) show ?thesis by auto
  next
    case (Inr db1)
    with Cons.prems(1) obtain bs where bs: "capacity_run len d rs db1 = (bs, db')" "as = r # bs"
      by (auto split: prod.splits)
    have r: "call_ok r" using Cons.prems(3) by simp
    have one: "charges c d r db db1" by (rule capacity_step_charges[OF Inr Cons.prems(2) r Cons.prems(4,5)])
    have free: "claims c x = 0 \<or> checks c x" for x by (cases x) simp_all
    from one have db1: "capacity_ok db1" "quota_of d c db1 \<noteq> None" by (simp_all add: charges_def)
    have rest: "charged c d db' = charged c d db1 + sum_list (map (claims c) bs)" "limit_of c d db' = limit_of c d db1"
      "list_ex (checks c) bs \<or> charged c d db1 \<le> limit_of c d db1 \<Longrightarrow> charged c d db' \<le> limit_of c d db'"
      using Cons.IH[OF bs(1) db1(1) _ db1(2) Cons.prems(5)] Cons.prems(3) by auto
    have "charged c d db1 \<le> limit_of c d db1" if "checks c r \<or> charged c d db \<le> limit_of c d db"
      using that one free[of r] by (auto simp: charges_def)
    with rest one show ?thesis by (auto simp: bs(2) charges_def)
  qed
qed simp

text \<open>
  (C24) Between two measurements the promises against a class stay within its quota: over any sequence
  of ingest requests, recovery reservations and releases, incident reservations and alert totals, what
  the class is charged with - its measured usage, its reservations, the pending ingest bytes and, for the
  live total, the pending recovery bytes - grows exactly by the accepted ingest requests and (for the live
  total) the accepted recovery reservations, refused calls add nothing, and as soon as one of these is
  accepted the charge is within the limit of the class, and stays so, in exact arithmetic, whatever 64-bit
  sums the code compares. The bound is the quota: the free bytes of the file system that the measurement
  records are compared with nothing here; incident and alert bytes are not part of the charge.
\<close>
theorem admissions_stay_within_limit:
  assumes "capacity_run len d rs db = (as, db')" "capacity_ok db" "list_all call_ok rs"
    and "quota_of d c db = Some q" "c = ''live_total'' \<or> c = ''bulk_database''"
  shows "charged c d db' = charged c d db + sum_list (map (claims c) as) \<and>
    (list_ex (checks c) as \<longrightarrow> charged c d db' \<le> QLimit q)"
  using capacity_run_effect[OF assms(1-3) _ assms(5)] assms(4) by (auto simp: limit_of_def[of _ _ db])

definition demo_quota :: "string \<Rightarrow> int64 \<Rightarrow> int64 \<Rightarrow> quota_row" where
  "demo_quota c limit current = \<lparr>QDeployment = ''d'', QClass = c, QLimit = limit, QWarning = Finite (4 / 5),
     QStop = Finite (9 / 10), QPause = Finite (19 / 20), QCurrent = current, QReserved = 0, QUpdated = 0\<rparr>"

definition demo_capacity :: capacity_db where
  "demo_capacity = \<lparr>Maintenance = [\<lparr>MDeployment = ''d'', MRetentionRevision = 1, MWatermark = 0, MLastBackup = None,
       MState = StorageNormal, MCursor = CursorObject [(key_observed, CInt 1000), (key_free, CInt 900), (key_bulk, CInt 50)],
       MUpdated = 1000\<rparr>],
     Quotas = [demo_quota ''live_total'' 1000 500, demo_quota ''bulk_database'' 800 400, demo_quota ''metadata'' 300 0]\<rparr>"

text \<open>The length of a cursor as \<open>json.Marshal\<close> writes it, for keys and texts that need no escapes.\<close>

definition json_cursor_length :: cursor_length where
  "json_cursor_length kvs = max 2 (1 + sum_list (map (\<lambda>(k, v). int (length k) + 4 +
     (case v of CNull \<Rightarrow> 4 | CInt n \<Rightarrow> (if n < 0 then 1 else 0) + int_digits 19 \<bar>n\<bar> | COther t \<Rightarrow> int (length t))) kvs))"

definition demo_calls :: "capacity_call list" where
  "demo_calls = [Ingest 1000 100, ReserveIncident 1000 50, ReserveRecovery 1000 200, Ingest 1000 300, Ingest 1000 100]"

definition demo_run :: "capacity_call list \<times> capacity_db" where
  "demo_run = capacity_run json_cursor_length ''d'' demo_calls demo_capacity"

text \<open>The third ingest request no longer fits behind the recovery; the last one does.\<close>

lemma admissions_stay_within_limit_witness:
  "fst demo_run = [Ingest 1000 100, ReserveIncident 1000 50, ReserveRecovery 1000 200, Ingest 1000 100] \<and>
   charged ''live_total'' ''d'' (snd demo_run) = charged ''live_total'' ''d'' demo_capacity + 400 \<and>
   charged ''live_total'' ''d'' (snd demo_run) \<le> 1000"
proof -
  have run: "capacity_run json_cursor_length ''d'' demo_calls demo_capacity = (fst demo_run, snd demo_run)"
    by (simp add: demo_run_def)
  have ok: "capacity_ok demo_capacity" "list_all call_ok demo_calls" by code_simp+
  have q: "quota_of ''d'' ''live_total'' demo_capacity = Some (demo_quota ''live_total'' 1000 500)" by code_simp
  have as: "fst demo_run = [Ingest 1000 100, ReserveIncident 1000 50, ReserveRecovery 1000 200, Ingest 1000 100]" by code_simp
  then show ?thesis using admissions_stay_within_limit[OF run ok q] by (simp add: demo_quota_def)
qed

section \<open>A reservation that is not charged\<close>

text \<open>Everything promised of the live total since the last measurement.\<close>

definition promised_live :: "string \<Rightarrow> capacity_db \<Rightarrow> int" where
  "promised_live d db = charged ''live_total'' d db + pending_at key_manual d db + pending_at key_alert_live d db"

definition cursor_reads :: "cursor_json \<Rightarrow> cursor_json \<Rightarrow> bool" where
  "cursor_reads c c' \<longleftrightarrow> read_capacity_cursor c' = read_capacity_cursor c \<and> read_pending_recovery c' = read_pending_recovery c"

lemma manual_entry_unread:
  "cursor_map c = Some kvs \<Longrightarrow> cursor_reads c (CursorObject (put_entries [(key_manual, n)] kvs))"
  by (simp add: cursor_reads_def read_capacity_cursor_def read_pending_recovery_def read_pending_entry_def
      read_required_def cursor_map_def[of "CursorObject _"] update_conv' cursor_keys)

text \<open>The cursor an ingest request writes when it is admitted.\<close>

definition admission_cursor :: "string \<Rightarrow> int64 \<Rightarrow> capacity_db \<Rightarrow> (string \<times> cursor_value) list" where
  "admission_cursor d n db =
     (case (cursor_map (cursor_of d db), read_capacity_cursor (cursor_of d db)) of
        (Some kvs, Ok (observed, free, pending)) \<Rightarrow>
          put_entries [(key_observed, observed), (key_free, free), (key_bulk, add64 pending n)] kvs
      | _ \<Rightarrow> [])"

lemma admission_verdict:
  assumes row: "find (\<lambda>r. MDeployment r = d) (Maintenance db) = Some row"
    and row': "find (\<lambda>r. MDeployment r = d) (Maintenance db') = Some row'"
    and same: "Quotas db' = Quotas db" "MState row' = MState row" "cursor_reads (MCursor row) (MCursor row')"
    and len: "len (admission_cursor d n db) \<le> 65536" "len (admission_cursor d n db') \<le> 65536"
  shows "is_ok (capacity_admission len d now n db') = is_ok (capacity_admission len d now n db)"
proof -
  have ok: "read_capacity_cursor (MCursor row) = Ok (o1, f, p) \<Longrightarrow>
      is_ok (write_capacity_cursor len d o1 f (add64 p n) db) \<longleftrightarrow> cursor_map (MCursor row) \<noteq> None"
    "read_capacity_cursor (MCursor row') = Ok (o1, f, p) \<Longrightarrow>
      is_ok (write_capacity_cursor len d o1 f (add64 p n) db') \<longleftrightarrow> cursor_map (MCursor row') \<noteq> None" for o1 f p
    using row row' len
    by (auto simp: write_capacity_cursor_def write_cursor_def maintenance_of_def not_less[symmetric] admission_cursor_def
        cursor_of_def split: option.splits)
  have none: "read_capacity_cursor c = Ok v \<Longrightarrow> cursor_map c \<noteq> None" for c v
    by (auto simp: read_capacity_cursor_def split: option.splits)
  have cls: "admit_class d n p r db' c = admit_class d n p r db c" for p r c
    by (simp add: admit_class_def quota_of_def same)
  show ?thesis
    using same(3) none[of "MCursor row"] none[of "MCursor row'"]
    by (auto simp: capacity_admission_def row row' same(2) cursor_reads_def cls ok is_ok_bind
        split: sum.splits prod.splits)
qed

text \<open>
  (C34) The bytes reserved for a manual incident are not charged to the live total: whether an ingest
  request is admitted after the reservation is exactly whether it would have been admitted before it,
  for every database, request and time, as long as the cursor the request would write stays within its
  65536 bytes, before and after (the reservation adds one short entry to it); although the reservation
  itself was checked against the same limit with everything promised before. So the two can together
  promise more than the limit.
\<close>
theorem incident_reservation_not_charged:
  assumes "reserve_manual len d requested now db = Ok db1"
    and "len (admission_cursor d n db) \<le> 65536" "len (admission_cursor d n db1) \<le> 65536"
  shows "is_ok (capacity_admission len d now' n db1) = is_ok (capacity_admission len d now' n db)"
proof -
  from assms(1) obtain row m where row: "find (\<lambda>r. MDeployment r = d) (Maintenance db) = Some row"
    and w: "write_pending_manual len d m db = Ok db1"
    by (auto simp: reserve_manual_def go_result split: option.splits sum.splits if_splits prod.splits)
  from w obtain kvs where kvs: "cursor_map (MCursor row) = Some kvs"
    and db1: "db1 = db\<lparr>Maintenance := update_where (\<lambda>r. MDeployment r = d)
        (\<lambda>r. r\<lparr>MCursor := CursorObject (put_entries [(key_manual, m)] kvs)\<rparr>) (Maintenance db)\<rparr>"
    by (auto simp: write_pending_manual_def write_cursor_def maintenance_of_def go_result row
        split: option.splits if_splits)
  have row1: "find (\<lambda>r. MDeployment r = d) (Maintenance db1) =
      Some (row\<lparr>MCursor := CursorObject (put_entries [(key_manual, m)] kvs)\<rparr>)"
    using find_update_where[OF _ row, of "\<lambda>r. MDeployment r = d"
        "\<lambda>r. r\<lparr>MCursor := CursorObject (put_entries [(key_manual, m)] kvs)\<rparr>"] find_some[OF row]
    by (simp add: db1)
  show ?thesis
    using manual_entry_unread[OF kvs] by (intro admission_verdict[OF row row1 _ _ _ assms(2,3)]) (simp_all add: db1)
qed

definition demo_reserved :: capacity_db where
  "demo_reserved = (case reserve_manual json_cursor_length ''d'' 400 1000 demo_capacity of Inr db \<Rightarrow> db | Inl _ \<Rightarrow> demo_capacity)"

definition demo_overcommitted :: capacity_db where
  "demo_overcommitted =
     (case capacity_admission json_cursor_length ''d'' 1000 300 demo_reserved of Inr db \<Rightarrow> db | Inl _ \<Rightarrow> demo_capacity)"

lemma incident_reservation_not_charged_witness:
  "is_ok (capacity_admission json_cursor_length ''d'' 1000 300 demo_reserved) \<and>
   promised_live ''d'' demo_overcommitted = 1250 \<and> limit_of ''live_total'' ''d'' demo_overcommitted = 1000"
proof (intro conjI)
  have r: "is_ok (reserve_manual json_cursor_length ''d'' 400 1000 demo_capacity)" by code_simp
  then have res: "reserve_manual json_cursor_length ''d'' 400 1000 demo_capacity = Ok demo_reserved"
    by (auto simp: is_ok_iff demo_reserved_def)
  have "is_ok (capacity_admission json_cursor_length ''d'' 1000 300 demo_capacity)" by code_simp
  moreover have "json_cursor_length (admission_cursor ''d'' 300 demo_capacity) \<le> 65536"
    "json_cursor_length (admission_cursor ''d'' 300 demo_reserved) \<le> 65536" by code_simp+
  ultimately show "is_ok (capacity_admission json_cursor_length ''d'' 1000 300 demo_reserved)"
    by (subst incident_reservation_not_charged[OF res])
  show "promised_live ''d'' demo_overcommitted = 1250" by code_simp
  show "limit_of ''live_total'' ''d'' demo_overcommitted = 1000" by code_simp
qed

section \<open>The page attribution\<close>

definition pages_ok :: "byte_map \<Rightarrow> bool" where
  "pages_ok m \<longleftrightarrow> distinct (map fst m) \<and> list_all (\<lambda>(k, v). k \<noteq> ''live_headroom'' \<and> 0 \<le> v \<and> in_int64 v) m"

lemma table_class_headroom: "table_class t \<noteq> ''live_headroom''"
  by (simp add: table_class_def)

lemma bytes_at_ok: "pages_ok m \<Longrightarrow> 0 \<le> bytes_at k m \<and> in_int64 (bytes_at k m)"
  by (auto simp: bytes_at_def pages_ok_def list_all_iff in_int64_def split: option.splits dest!: map_of_SomeD)

lemma pages_ok_update:
  "pages_ok m \<Longrightarrow> k \<noteq> ''live_headroom'' \<Longrightarrow> 0 \<le> v \<Longrightarrow> in_int64 v \<Longrightarrow> pages_ok (AList.update k v m)"
  using set_update_alist[of k v m] unfolding pages_ok_def list_all_iff by (auto simp: distinct_update)

lemma pages_ok_add:
  assumes "pages_ok m" "0 \<le> n" "in_int64 n" "\<not> bytes_at (table_class t) m > sub64 max_int64 n"
  shows "pages_ok (add_at (table_class t) n m)"
proof -
  have "sub64 max_int64 n = max_int64 - n" using assms by (intro sub_small) (auto simp: in_int64_def)
  with assms(4) have "in_int64 (bytes_at (table_class t) m + n)"
    using bytes_at_ok[OF assms(1), of "table_class t"] assms(2) by (simp add: in_int64_def)
  then have "0 \<le> add64 (bytes_at (table_class t) m) n" "in_int64 (add64 (bytes_at (table_class t) m) n)"
    using bytes_at_ok[OF assms(1), of "table_class t"] assms(2) by (simp_all add: add64_exact)
  with assms(1) show ?thesis unfolding add_at_def by (intro pages_ok_update table_class_headroom)
qed

lemma class_pages_ok:
  "class_pages rows acc = Ok acc' \<Longrightarrow> pages_ok (fst acc) \<Longrightarrow> list_all (\<lambda>(t, n). in_int64 n) rows \<Longrightarrow>
     pages_ok (fst acc')"
proof (induction rows acc rule: class_pages.induct)
  case (2 t n rows m r)
  from "2.prems"(1) have g: "\<not> n < 0" "\<not> bytes_at (table_class t) m > sub64 max_int64 n"
    by (simp_all split: if_split_asm)
  have "pages_ok (add_at (table_class t) n m)" using g "2.prems" by (intro pages_ok_add) simp_all
  with "2.IH"[OF g] "2.prems" g show ?case by simp
qed simp

lemma logical_total_exact:
  assumes "logical_total m t = Ok whole" "list_all (\<lambda>(k, v). 0 \<le> v \<and> in_int64 v) m" "0 \<le> t" "in_int64 t"
  shows "whole = t + sum_list (map snd m)"
  using assms
proof (induction m t rule: logical_total.induct)
  case (2 k b m t)
  have "sub64 max_int64 t = max_int64 - t" using "2.prems" by (intro sub_small) (auto simp: in_int64_def)
  with "2.prems" have range: "in_int64 (t + b)" by (auto simp: in_int64_def split: if_split_asm)
  have "whole = t + b + sum_list (map snd m)"
    using "2.IH" "2.prems" range by (auto simp: add64_exact split: if_split_asm)
  then show ?case by simp
qed simp

lemma scaled_value:
  assumes "0 \<le> v" "v \<le> whole" "0 < whole" "0 \<le> main" "in_int64 main"
  shows "scaled_allocation v whole main = v * main div whole"
proof -
  have "v * main \<le> whole * main" using assms by (intro mult_right_mono) auto
  then have "v * main div whole \<le> whole * main div whole" using assms by (intro zdiv_mono1) auto
  moreover have "0 \<le> v * main div whole" using assms by (intro pos_imp_zdiv_nonneg_iff[THEN iffD2]) auto
  ultimately have "in_int64 (v * main div whole)" using assms by (simp add: in_int64_def)
  then show ?thesis using assms by (auto simp: scaled_allocation_def wrap64_id)
qed

lemma div_sum_le: "0 < w \<Longrightarrow> sum_list (map (\<lambda>v. v * m div w) vs) \<le> sum_list vs * m div (w::int)"
proof (induction vs)
  case (Cons v vs)
  have "v * m div w + sum_list vs * m div w \<le> (v * m + sum_list vs * m) div w"
    using Cons.prems by (simp add: div_add1_eq[of "v * m" "sum_list vs * m" w] pos_imp_zdiv_nonneg_iff)
  with Cons show ?case by (simp add: distrib_right)
qed simp

lemma fold_add_exact:
  assumes "list_all (\<lambda>v. 0 \<le> v) vs" "0 \<le> a" "in_int64 (a + sum_list vs)"
  shows "fold (\<lambda>v a. add64 a v) vs a = a + sum_list vs"
  using assms
proof (induction vs arbitrary: a)
  case (Cons v vs)
  have "0 \<le> sum_list vs" using Cons.prems(1) by (auto simp: list_all_iff intro: sum_list_nonneg)
  then have "in_int64 (a + v)" using Cons.prems by (simp add: in_int64_def)
  with Cons show ?case by (simp add: add64_exact add.assoc)
qed simp

lemma sum_update_absent: "k \<notin> fst ` set m \<Longrightarrow> sum_list (map snd (AList.update k v m)) = sum_list (map snd m) + (v::int)"
  by (induction m) auto

text \<open>
  Attributing the database file to quota classes neither invents nor loses a byte: the classes,
  with the headroom entry that takes what the proportional division rounds away, add up to exactly the
  allocated size of the main file, no class is negative and no 64-bit sum overflows.
\<close>
theorem page_attribution_exact:
  assumes "sqlite_class_pages rows = Ok (logical, requests)" "list_all (\<lambda>(t, n). in_int64 n) rows"
    and "logical_total logical 0 = Ok whole" "0 < whole" "0 \<le> main" "in_int64 main"
  shows "sum_list (map snd (attribute_pages logical whole main)) = main \<and>
    list_all (\<lambda>(k, v). 0 \<le> v) (attribute_pages logical whole main)"
proof -
  have "pages_ok no_pages" by code_simp
  then have ok: "pages_ok logical" using class_pages_ok[OF assms(1)[unfolded sqlite_class_pages_def]] assms(2) by simp
  have vals: "list_all (\<lambda>(k, v). 0 \<le> v \<and> in_int64 v) logical" using ok by (auto simp: pages_ok_def list_all_iff)
  have whole: "whole = sum_list (map snd logical)"
    using logical_total_exact[OF assms(3) vals] by (simp add: in_int64_def)
  have le: "(k, v) \<in> set logical \<Longrightarrow> 0 \<le> v \<and> v \<le> whole" for k v
    using vals by (force simp: whole list_all_iff intro!: member_le_sum_list)
  define vs where "vs = map (\<lambda>v. v * main div whole) (map snd logical)"
  define sc where "sc = map (\<lambda>(k, b). (k, scaled_allocation b whole main)) logical"
  have "sc = map (\<lambda>(k, v). (k, v * main div whole)) logical"
    unfolding sc_def using le assms(4-6) by (auto intro!: scaled_value)
  then have sc_vs: "map snd sc = vs" by (auto simp: vs_def)
  have nonneg: "list_all (\<lambda>v. 0 \<le> v) vs"
    using le assms(4,5) by (force simp: vs_def list_all_iff pos_imp_zdiv_nonneg_iff)
  have "sum_list vs \<le> whole * main div whole"
    using div_sum_le[OF assms(4), of main "map snd logical"] by (simp add: vs_def whole[symmetric])
  then have small: "sum_list vs \<le> main" using assms(4) by simp
  have pos: "0 \<le> sum_list vs" using nonneg by (auto simp: list_all_iff intro: sum_list_nonneg)
  have "fold (\<lambda>(k, v) a. add64 a v) sc 0 = fold (\<lambda>v a. add64 a v) (map snd sc) 0"
    by (simp add: fold_map comp_def split_def)
  then have assigned: "fold (\<lambda>(k, v) a. add64 a v) sc 0 = sum_list vs"
    using fold_add_exact[OF nonneg, of 0] small pos assms(6) by (simp add: sc_vs in_int64_def)
  have "fst ` set sc = fst ` set logical" by (force simp: sc_def)
  then have absent: "''live_headroom'' \<notin> fst ` set sc" using ok by (auto simp: pages_ok_def list_all_iff)
  then have "map_of sc ''live_headroom'' = None" by (simp add: map_of_eq_None_iff)
  moreover have "sub64 main (sum_list vs) = main - sum_list vs"
    using small pos assms(5,6) by (intro sub_small) (auto simp: in_int64_def)
  moreover have "in_int64 (main - sum_list vs)" using small pos assms(5,6) by (auto simp: in_int64_def)
  ultimately have added: "add_at ''live_headroom'' (sub64 main (sum_list vs)) sc =
      AList.update ''live_headroom'' (main - sum_list vs) sc"
    by (simp add: add_at_def bytes_at_def add64_exact)
  have result: "attribute_pages logical whole main = (if sum_list vs < main
      then AList.update ''live_headroom'' (main - sum_list vs) sc else sc)"
    using added by (simp add: attribute_pages_def sc_def[symmetric] assigned Let_def)
  have "list_all (\<lambda>(k, v). 0 \<le> v) sc" using nonneg by (auto simp: sc_vs[symmetric] list_all_iff)
  then have "list_all (\<lambda>(k, v). 0 \<le> v) (AList.update ''live_headroom'' (main - sum_list vs) sc)"
    using set_update_alist[of "''live_headroom''" "main - sum_list vs" sc] small by (fastforce simp: list_all_iff)
  with \<open>list_all (\<lambda>(k, v). 0 \<le> v) sc\<close> show ?thesis
    using small by (simp add: result sum_update_absent[OF absent] sc_vs)
qed

lemma page_attribution_exact_witness:
  "sum_list (map snd (attribute_pages
     (fst (case sqlite_class_pages [(''source_frames'', 100), (''users'', 50), (''comparisons'', 7)] of Inr x \<Rightarrow> x | Inl _ \<Rightarrow> ([], 0)))
     157 1000)) = 1000"
proof -
  let ?rows = "[(''source_frames'', 100), (''users'', 50), (''comparisons'', 7)] :: (string \<times> int64) list"
  let ?m = "case sqlite_class_pages ?rows of Inr x \<Rightarrow> x | Inl _ \<Rightarrow> ([], 0)"
  have "is_ok (sqlite_class_pages ?rows)" by code_simp
  then have rows: "sqlite_class_pages ?rows = Ok (fst ?m, snd ?m)" by (auto simp: is_ok_iff)
  have whole: "logical_total (fst ?m) 0 = Ok 157" by code_simp
  have "list_all (\<lambda>(t, n). in_int64 n) ?rows" by code_simp
  from page_attribution_exact[OF rows this whole, of 1000] show ?thesis by (simp add: in_int64_def)
qed

end
