(* ===== verification/Frames.thy ===== *)
theory Frames
  imports Protocol
begin

text \<open>
  \<open>internal/collector/scheduler/frames.go\<close>: turning measurements into collector frames, with
  the clock alignment of the last time exchange. A \<open>time.Time\<close> is its wall clock reading and
  its monotonic reading, both in nanoseconds.
\<close>

record instant =
  WallNS :: int
  MonoNS :: int

definition unix_milli :: "int \<Rightarrow> int64" where
  "unix_milli wallNS = wallNS div 1000000"

text \<open>\<open>time.Time.Sub\<close> on the monotonic readings saturates.\<close>

definition sub_instant :: "instant \<Rightarrow> instant \<Rightarrow> int64" where
  "sub_instant a b = max min_int64 (min max_int64 (MonoNS a - MonoNS b))"

record alignment =
  AOffsetMS :: int64
  AUncertaintyMS :: int64
  MeasuredAt :: instant
  AValid :: bool

definition no_alignment :: alignment where
  "no_alignment = \<lparr>AOffsetMS = 0, AUncertaintyMS = 0, MeasuredAt = \<lparr>WallNS = 0, MonoNS = 0\<rparr>, AValid = False\<rparr>"

definition time_exchange :: "instant \<Rightarrow> instant \<Rightarrow> int64 \<Rightarrow> alignment" where
  "time_exchange sent received hubMS =
     (let elapsed = sub_instant received sent in
      if elapsed < 0 \<or> elapsed > 2000000000 then no_alignment
      else let offset = sub64 hubMS (unix_milli (WallNS sent + quot64 elapsed 2)) in
        if offset < -86400000 \<or> offset > 86400000 then no_alignment
        else \<lparr>AOffsetMS = offset, AUncertaintyMS = quot64 (quot64 elapsed 1000000 + 1) 2,
              MeasuredAt = received, AValid = True\<rparr>)"

definition usable :: "alignment \<Rightarrow> instant \<Rightarrow> bool" where
  "usable a now \<longleftrightarrow> AValid a \<and> AUncertaintyMS a \<le> 1000 \<and> sub_instant now (MeasuredAt a) \<ge> 0 \<and>
     sub_instant now (MeasuredAt a) \<le> 120000000000"

definition missing_alignment :: missing_capability where
  "missing_alignment = \<lparr>MissingID = ''clock.alignment'', MissingWhy = MissingAlignmentUnavailable, DetailCode = None\<rparr>"

definition base_frame :: "string \<Rightarrow> component_timing \<Rightarrow> provenance \<Rightarrow> alignment \<Rightarrow> instant \<Rightarrow> collector_frame" where
  "base_frame source timing p a now =
     (let aligned = add64 (TObservedWallMS timing) (AOffsetMS a);
          use = usable a now \<and> aligned \<ge> 0 in
      \<lparr>FSourceID = source, FSequence = 0, FObservedWallMS = TObservedWallMS timing,
       EstimatedUTCMS = (if use then Some aligned else None),
       OffsetMS = (if use then Some (AOffsetMS a) else None),
       UncertaintyMS = (if use then Some (AUncertaintyMS a) else None),
       MonotonicStartNS = TMonotonicStartNS timing, MonotonicEndNS = TMonotonicEndNS timing,
       DurationMS = TDurationMS timing, DefinitionRevision = RegistryRevision, IncarnationID = None,
       FQuality = QualityMeasured, FProvenance = p, FGauges = [], FNetworkObservations = [],
       FModelObservations = [], FProcessObservations = [], FProcessSummary = None,
       FEndpointAssociation = None, FConfigObservation = None,
       FCapabilitiesMissing = (if use then [] else [missing_alignment])\<rparr>)"

text \<open>\<open>json.Marshal\<close> of the value pointer: null for nil; a float that is not finite is an error,
  which leaves no text at all.\<close>

definition encode_float :: "float64 \<Rightarrow> json option" where
  "encode_float x = (if is_nan_or_inf x then None else Some (JNumber (Some x)))"

definition pressure_text :: "pressure_level \<Rightarrow> string" where
  "pressure_text l = (case l of PressureNormal \<Rightarrow> ''normal'' | PressureWarning \<Rightarrow> ''warning''
     | PressureCritical \<Rightarrow> ''critical'' | PressureOther s \<Rightarrow> s)"

definition encode_value :: "('a \<Rightarrow> json option) \<Rightarrow> 'a option \<Rightarrow> json option" where
  "encode_value enc v = (case v of None \<Rightarrow> Some JNull | Some a \<Rightarrow> enc a)"

definition gauge_frame ::
  "('a \<Rightarrow> json option) \<Rightarrow> string \<Rightarrow> string \<Rightarrow> 'a metric_observation \<Rightarrow> component_timing \<Rightarrow> alignment \<Rightarrow> instant
   \<Rightarrow> collector_frame" where
  "gauge_frame enc source gid value timing a now =
     (base_frame source timing (MetricProvenance value) a now)
       \<lparr>FGauges := [(gid, \<lparr>MValue = encode_value enc (MetricValueOf value), MQuality = MetricQuality value,
                         MMissingReason = MetricMissing value, MProvenance = MetricProvenance value\<rparr>)],
        FQuality := MetricQuality value\<rparr>"

text \<open>\<open>strconv.ParseUint\<close> with its error ignored.\<close>

definition parse_uint_or_zero :: "string \<Rightarrow> int" where
  "parse_uint_or_zero s =
     (if s = [] \<or> \<not> list_all is_digit s then 0 else min (int (digits_value s)) max_uint64)"

definition network_provenance :: provenance where
  "network_provenance = \<lparr>PSource = ProvenanceDarwinAPI,
     MethodRevision = ''darwin-net-rt-iflist2-ifdata64-candidate-1'',
     PVerification = VerificationDirectCapture, ObservedAtMS = None, SourceArtifactSHA256 = None\<rparr>"

definition process_frame :: "string \<Rightarrow> process_collection \<Rightarrow> alignment \<Rightarrow> instant \<Rightarrow> collector_frame" where
  "process_frame source pc a now =
     (let f = base_frame source (PCTiming pc)
                (network_provenance\<lparr>MethodRevision := SummaryMethodRevision (PCSummary pc)\<rparr>) a now in
      f\<lparr>FProcessObservations := PCProcesses pc, FProcessSummary := Some (PCSummary pc),
        FEndpointAssociation := (if AssocTargetID (PCAssociation pc) \<noteq> [] then Some (PCAssociation pc) else None),
        FCapabilitiesMissing := FCapabilitiesMissing f @
          (if Coverage (PCSummary pc) \<noteq> ''complete''
           then [\<lparr>MissingID = ''host.process.coverage'', MissingWhy = MissingPopulationPartial, DetailCode = None\<rparr>]
           else [])\<rparr>)"

definition host_component_frames ::
  "string \<Rightarrow> host_observation \<Rightarrow> process_collection option \<Rightarrow> alignment \<Rightarrow> instant \<Rightarrow> collector_frame list" where
  "host_component_frames source host processes a now =
     (let t = ComponentTimings host; g = Gauges host;
          net = base_frame source (NetworkTiming t) network_provenance a now in
      [gauge_frame encode_float source ''host.cpu.busy_ratio'' (CPUBusyRatioGauge g) (CPUTiming t) a now,
       gauge_frame (\<lambda>l. Some (JString (pressure_text l))) source ''host.memory.pressure_level''
         (PressureLevelGauge g) (PressureTiming t) a now,
       gauge_frame (Some \<circ> JString) source ''host.memory.compressed_bytes'' (CompressedBytesGauge g)
         (CompressedTiming t) a now,
       gauge_frame (Some \<circ> JString) source ''host.memory.swap_used_bytes'' (SwapUsedBytesGauge g)
         (SwapTiming t) a now,
       gauge_frame (Some \<circ> JString) source ''host.disk.free_bytes'' (DiskFreeBytesGauge g) (DiskTiming t) a now,
       net\<lparr>FNetworkObservations := NetworkObservations host,
           FCapabilitiesMissing := FCapabilitiesMissing net @ HostCapabilitiesMissing host\<rparr>] @
      (case processes of None \<Rightarrow> [] | Some pc \<Rightarrow> [process_frame source pc a now]))"

text \<open>The stable sort on the monotonic start.\<close>

definition host_frames ::
  "string \<Rightarrow> host_observation \<Rightarrow> process_collection option \<Rightarrow> alignment \<Rightarrow> instant \<Rightarrow> collector_frame list" where
  "host_frames source host processes a now =
     sort_key (\<lambda>f. parse_uint_or_zero (MonotonicStartNS f)) (host_component_frames source host processes a now)"

definition ps_method :: "missing_capability list \<Rightarrow> string" where
  "ps_method missing =
     (if list_ex (\<lambda>m. MissingID m \<in> set [''runtime.model.loaded'', ''runtime.model.digest'', ''runtime.model.identity'']) missing
      then ''ollama-0.34.0-bounded-read-v1'' else ''ollama-0.34.0-bounded-ps-v1'')"

definition runtime_frames ::
  "string \<Rightarrow> runtime_observation \<Rightarrow> bool \<Rightarrow> bool \<Rightarrow> alignment \<Rightarrow> instant \<Rightarrow> collector_frame list" where
  "runtime_frames source r reachability inventory a now =
     (let t = RComponentTimings r in
      (if reachability
       then (let f = gauge_frame (Some \<circ> JBool) source ''runtime.reachable'' (Reachable r) (ReachabilityTiming t) a now
             in [f\<lparr>FCapabilitiesMissing := FCapabilitiesMissing f @ RCapabilitiesMissing r\<rparr>])
       else []) @
      (case (inventory, LoadedModelsTiming t) of
         (True, Some lt) \<Rightarrow>
           (let f = base_frame source lt \<lparr>PSource = ProvenanceRuntimeAPI,
                MethodRevision = ps_method (RCapabilitiesMissing r), PVerification = VerificationDirectCapture,
                ObservedAtMS = None, SourceArtifactSHA256 = None\<rparr> a now
            in [f\<lparr>FQuality := QualityRuntimeReported, FModelObservations := Models r,
                  FCapabilitiesMissing := FCapabilitiesMissing f @ RCapabilitiesMissing r\<rparr>])
       | _ \<Rightarrow> []) @
      (case (inventory, Config r, ConfigTiming t) of
         (True, Some c, Some ct) \<Rightarrow>
           [(base_frame source ct (SrcServerVersion (FieldProvenance c)) a now)
              \<lparr>FQuality := QualityRuntimeReported, FConfigObservation := Some c\<rparr>]
       | _ \<Rightarrow> []))"

end
