(* ===== verification/ProtocolShape.thy ===== *)
theory ProtocolShape
  imports Protocol
begin

text \<open>
  The structural checks of \<open>internal/protocol/collector.go\<close> on decoded JSON: bounded depth,
  no duplicate keys, and the presence of every required property, null included.
\<close>

definition get :: "string \<Rightarrow> (string \<times> json) list \<Rightarrow> json option" where
  "get k kvs = map_of (rev kvs) k"

definition require_object :: "json \<Rightarrow> string list \<Rightarrow> (message, (string \<times> json) list) result" where
  "require_object v required =
     (case v of
        JObject kvs \<Rightarrow> if list_all (\<lambda>k. get k kvs \<noteq> None) required then Ok kvs
                       else Err ''required property is absent''
      | _ \<Rightarrow> Err ''required JSON object is absent'')"

definition require_array :: "json \<Rightarrow> (message, json list) result" where
  "require_array v =
     (case v of
        JArray vs \<Rightarrow> Ok vs
      | JNull \<Rightarrow> Err ''required array is null''
      | _ \<Rightarrow> Err ''required array is invalid'')"

definition property :: "string \<Rightarrow> (string \<times> json) list \<Rightarrow> json" where
  "property k kvs = (case get k kvs of None \<Rightarrow> JNull | Some v \<Rightarrow> v)"

definition provenance_shape :: "json \<Rightarrow> (message, unit) result" where
  "provenance_shape v =
     result_bind (require_object v [''source'', ''method_revision'', ''verification'']) (\<lambda>_. Ok ())"

definition objects_with :: "string list \<Rightarrow> json \<Rightarrow> (message, unit) result" where
  "objects_with required v =
     result_bind (require_array v) (for_each (\<lambda>x. result_bind (require_object x required) (\<lambda>_. Ok ())))"

definition missing_array :: "json \<Rightarrow> (message, unit) result" where
  "missing_array = objects_with [''id'', ''reason'']"

definition observation_array :: "string list \<Rightarrow> json \<Rightarrow> (message, unit) result" where
  "observation_array required v =
     result_bind (require_array v) (for_each (\<lambda>x.
       result_bind (require_object x required) (\<lambda>item.
         checks [missing_array (property ''missing'' item), provenance_shape (property ''provenance'' item)])))"

definition nullable_object :: "string list \<Rightarrow> json \<Rightarrow> (message, unit) result" where
  "nullable_object required v =
     (if v = JNull then Ok () else result_bind (require_object v required) (\<lambda>_. Ok ()))"

definition gauges_shape :: "json \<Rightarrow> (message, unit) result" where
  "gauges_shape v =
     (case v of
        JObject kvs \<Rightarrow> for_each (\<lambda>(_, m).
          result_bind (require_object m [''value'', ''quality'', ''missing_reason'', ''provenance''])
            (\<lambda>metric. provenance_shape (property ''provenance'' metric))) kvs
      | _ \<Rightarrow> Err ''gauges must be an object'')"

definition frame_keys :: "string list" where
  "frame_keys = [''source_id'', ''sequence'', ''observed_wall_ms'', ''estimated_utc_ms'', ''offset_ms'',
     ''uncertainty_ms'', ''monotonic_start_ns'', ''monotonic_end_ns'', ''duration_ms'',
     ''definition_revision'', ''incarnation_id'', ''quality'', ''provenance'', ''gauges'',
     ''network_observations'', ''model_observations'', ''process_observations'', ''process_summary'',
     ''capabilities_missing'']"

definition association_shape :: "json \<Rightarrow> (message, unit) result" where
  "association_shape v =
     result_bind (require_object v [''target_id'', ''endpoint_hash'', ''target_revision'',
       ''manifest_revision'', ''manifest_sha256'', ''selector_sha256'', ''identity_revision'',
       ''runtime_version'', ''runtime_source_pin_id'', ''pid'', ''process_start_identity'',
       ''process_key'', ''quality'', ''reason'', ''verified_exit'', ''provenance'']) (\<lambda>a.
     checks [provenance_shape (property ''provenance'' a),
             nullable_object [''pid'', ''process_start_identity'', ''process_key'', ''last_seen_ms'']
               (property ''verified_exit'' a)])"

definition selected_model_keys :: "string list" where
  "selected_model_keys = [''alias'', ''digest'', ''format'', ''family'', ''quantization'', ''context_length'']"

definition config_shape :: "json \<Rightarrow> (message, unit) result" where
  "config_shape v =
     result_bind (require_object v [''target_id'', ''config_hash'', ''previous_config_hash'',
       ''previous_observed_ms'', ''fields'', ''field_provenance'']) (\<lambda>config.
     result_bind (require_object (property ''fields'' config)
       [''server_version'', ''server_build'', ''selected_model'']) (\<lambda>fields.
     result_bind (require_object (property ''field_provenance'' config)
       [''server_version'', ''server_build'', ''selected_model'']) (\<lambda>source.
     checks
       [provenance_shape (property ''server_version'' source),
        nullable_object selected_model_keys (property ''selected_model'' fields),
        (if property ''selected_model'' source = JNull then Ok ()
         else result_bind (require_object (property ''selected_model'' source) selected_model_keys)
                (\<lambda>selected. provenance_shape (property ''alias'' selected)))])))"

definition optional_shape :: "string \<Rightarrow> (json \<Rightarrow> (message, unit) result) \<Rightarrow> (string \<times> json) list \<Rightarrow>
  (message, unit) result" where
  "optional_shape k shape kvs = (case get k kvs of None \<Rightarrow> Ok () | Some v \<Rightarrow> shape v)"

definition frame_shape :: "json \<Rightarrow> (message, unit) result" where
  "frame_shape v =
     result_bind (require_object v frame_keys) (\<lambda>frame. checks
       [provenance_shape (property ''provenance'' frame),
        gauges_shape (property ''gauges'' frame),
        observation_array [''interface_id'', ''boot_id'', ''counter_epoch_id'', ''loopback'',
          ''received_bytes_total'', ''sent_bytes_total'', ''missing'', ''provenance'']
          (property ''network_observations'' frame),
        observation_array [''model_id'', ''digest'', ''loaded'', ''reported_size_bytes'',
          ''reported_size_vram_bytes'', ''missing'', ''provenance''] (property ''model_observations'' frame),
        observation_array [''host_id'', ''boot_id'', ''pid'', ''process_start_identity'', ''process_key'',
          ''display_basename'', ''category'', ''target_id'', ''association_quality'', ''cpu_busy_ratio'',
          ''physical_footprint_bytes'', ''missing'', ''provenance''] (property ''process_observations'' frame),
        nullable_object [''eligible_pid_count'', ''examined_pid_count'', ''permission_denied_count'',
          ''retained_process_count'', ''enumeration_truncated'', ''coverage'', ''method_revision'',
          ''sample_interval_ms'', ''scan_duration_ms''] (property ''process_summary'' frame),
        optional_shape ''endpoint_association'' association_shape frame,
        optional_shape ''config_observation'' config_shape frame,
        missing_array (property ''capabilities_missing'' frame)])"

definition batch_shape :: "json \<Rightarrow> (message, unit) result" where
  "batch_shape v =
     result_bind (require_object v [''protocol'', ''delivery_mode'', ''security_generation'',
       ''session_generation'', ''deployment_id'', ''host_id'', ''collector_boot_id'', ''batch_id'', ''frames''])
       (\<lambda>top. result_bind (require_array (property ''frames'' top)) (for_each frame_shape))"

definition inventory_shape :: "json \<Rightarrow> (message, unit) result" where
  "inventory_shape v =
     result_bind (require_object v [''protocol'', ''deployment_id'', ''host_id'', ''security_generation'',
       ''session_generation'', ''collector_boot_id'', ''inventory_revision'', ''sources'', ''targets'', ''models''])
       (\<lambda>top. checks
          [objects_with [''source_id'', ''kind'', ''target_id'', ''capability_revision'', ''active'']
             (property ''sources'' top),
           objects_with [''target_id'', ''adapter_id'', ''local_selector_sha256'', ''association_state'']
             (property ''targets'' top),
           objects_with [''model_id'', ''target_id'', ''alias'', ''digest'', ''reported_loaded'']
             (property ''models'' top)])"

definition status_shape :: "json \<Rightarrow> (message, unit) result" where
  "status_shape v =
     result_bind (require_object v [''protocol'', ''deployment_id'', ''host_id'', ''security_generation'',
       ''session_generation'', ''collector_boot_id'', ''sequence'', ''observed_wall_ms'', ''heartbeat'',
       ''sources'', ''loss_intervals''])
       (\<lambda>top. checks
          [objects_with [''source_id'', ''state'', ''last_success_ms'', ''failure_reason'',
             ''first_failure_ms'', ''failure_count''] (property ''sources'' top),
           objects_with [''source_id'', ''start_ms'', ''end_ms'', ''lost_count'', ''reason'']
             (property ''loss_intervals'' top)])"

section \<open>Depth and duplicate keys\<close>

text \<open>\<open>validateNoDuplicates\<close> over the value its decoder reads, entries in the order of the text.\<close>

fun no_duplicates :: "int \<Rightarrow> json \<Rightarrow> (message, unit) result"
  and no_duplicates_members :: "int \<Rightarrow> string list \<Rightarrow> (string \<times> json) list \<Rightarrow> (message, unit) result"
  and no_duplicates_items :: "int \<Rightarrow> json list \<Rightarrow> (message, unit) result" where
  "no_duplicates depth v =
     (if depth > MaxProtocolDepth then Err ''collector JSON depth exceeded''
      else case v of
             JObject kvs \<Rightarrow> no_duplicates_members depth [] kvs
           | JArray vs \<Rightarrow> no_duplicates_items depth vs
           | _ \<Rightarrow> Ok ())"
| "no_duplicates_members depth seen [] = Ok ()"
| "no_duplicates_members depth seen ((k, v) # kvs) =
     (if k \<in> set seen then Err ''duplicate key''
      else result_bind (no_duplicates (depth + 1) v) (\<lambda>_. no_duplicates_members depth (k # seen) kvs))"
| "no_duplicates_items depth [] = Ok ()"
| "no_duplicates_items depth (v # vs) =
     result_bind (no_duplicates (depth + 1) v) (\<lambda>_. no_duplicates_items depth vs)"

end
