(* ===== verification/FrameProperties.thy ===== *)
theory FrameProperties
  imports Frames ProtocolShape
begin

text \<open>
  Properties of the collector protocol: canonical decimal texts, the structural checks against
  their declarative meaning, the accuracy of the clock alignment, and the agreement between what
  the collector builds and what the hub's validation accepts.
\<close>

section \<open>Decimal texts\<close>

lemma digits_value_bound: "list_all is_digit s \<Longrightarrow> digits_value s < 10 ^ length s"
proof (induction s rule: rev_induct)
  case (snoc c s)
  have "digit_value c < 10"
    using snoc.prems by (auto simp: is_digit_def digit_value_def)
  then show ?case using snoc by (simp add: digits_value_snoc)
qed (simp add: digits_value_def)

lemma digit_of_value: "is_digit c \<Longrightarrow> digit (digit_value c) = c"
  by (auto simp: is_digit_def digit_value_def digit_def)

lemma digit_value_zero: "is_digit c \<Longrightarrow> digit_value c = 0 \<longleftrightarrow> c = CHR ''0''"
  by (auto simp: is_digit_def digit_value_def)

lemma digits_value_nonzero:
  "list_all is_digit s \<Longrightarrow> s \<noteq> [] \<Longrightarrow> hd s \<noteq> CHR ''0'' \<Longrightarrow> digits_value s \<noteq> 0"
proof (induction s rule: rev_induct)
  case (snoc c s)
  show ?case
  proof (cases "s = []")
    case True
    then show ?thesis using snoc digit_value_zero[of c] by (simp add: digits_value_def)
  next
    case False
    then show ?thesis using snoc by (simp add: digits_value_snoc)
  qed
qed simp

lemma decimal_of_digits:
  "list_all is_digit s \<Longrightarrow> s \<noteq> [] \<Longrightarrow> length s > 1 \<longrightarrow> hd s \<noteq> CHR ''0'' \<Longrightarrow> decimal (digits_value s) = s"
proof (induction s rule: rev_induct)
  case (snoc c s)
  have c: "digit_value c < 10" "digit (digit_value c) = c"
    using snoc.prems(1) digit_of_value by (auto simp: is_digit_def digit_value_def)
  show ?case
  proof (cases "s = []")
    case True
    then show ?thesis using c by (subst decimal.simps) (simp add: digits_value_def)
  next
    case False
    then have s: "list_all is_digit s" "hd s \<noteq> CHR ''0''" using snoc.prems by auto
    have "digits_value s \<noteq> 0" using digits_value_nonzero[OF s(1) False s(2)] .
    then have "\<not> 10 * digits_value s + digit_value c < 10" by simp
    moreover have "(10 * digits_value s + digit_value c) div 10 = digits_value s"
      "(10 * digits_value s + digit_value c) mod 10 = digit_value c" using c(1) by simp_all
    ultimately have "decimal (digits_value (s @ [c])) = decimal (digits_value s) @ [digit (digit_value c)]"
      by (subst decimal.simps) (simp add: digits_value_snoc)
    then show ?thesis using snoc.IH[OF s(1) False] s(2) c(2) by simp
  qed
qed simp

lemma decimal_zero: "decimal 0 = ''0''"
  by (subst decimal.simps) (simp add: digit_def)

lemma parse_decimal_decimal: "int n \<le> max_uint64 \<Longrightarrow> parse_decimal (decimal n) = Some (int n)"
proof (cases "n = 0")
  case True
  then show ?thesis
    using digits_value_decimal[of 0] by (simp add: decimal_zero parse_decimal_def is_digit_def max_uint64_def)
next
  case False
  then show "int n \<le> max_uint64 \<Longrightarrow> parse_decimal (decimal n) = Some (int n)"
    using decimal_digits[of n] decimal_no_leading_zero[of n] by (simp add: parse_decimal_def)
qed

text \<open>
  (C32) A decimal has one text: what the collector prints parses to the number it printed, and
  the validator accepts no other text for a number, so two accepted texts are the same number
  exactly when they are equal byte by byte, which is how the hub compares process identities.
\<close>
theorem decimal_texts_canonical:
  "parse_decimal s = Some n \<longleftrightarrow> 0 \<le> n \<and> n \<le> max_uint64 \<and> s = decimal_uint64 (nat n)"
proof
  assume p: "parse_decimal s = Some n"
  then have s: "s \<noteq> []" "length s > 1 \<longrightarrow> hd s \<noteq> CHR ''0''" "list_all is_digit s"
    "n = int (digits_value s)" "int (digits_value s) \<le> max_uint64"
    by (auto simp: parse_decimal_def split: if_splits)
  then show "0 \<le> n \<and> n \<le> max_uint64 \<and> s = decimal_uint64 (nat n)"
    using decimal_of_digits[OF s(3,1,2)] by (simp add: decimal_uint64_def)
next
  assume "0 \<le> n \<and> n \<le> max_uint64 \<and> s = decimal_uint64 (nat n)"
  then show "parse_decimal s = Some n"
    using parse_decimal_decimal[of "nat n"] by (simp add: decimal_uint64_def)
qed

section \<open>Depth and duplicate keys\<close>

text \<open>The declarative meaning: nesting below the bound and objects with distinct keys.\<close>

fun nesting :: "json \<Rightarrow> nat" where
  "nesting (JArray vs) = fold max (map (\<lambda>v. Suc (nesting v)) vs) 0"
| "nesting (JObject kvs) = fold max (map (\<lambda>kv. Suc (nesting (snd kv))) kvs) 0"
| "nesting _ = 0"

fun distinct_keys :: "json \<Rightarrow> bool" where
  "distinct_keys (JArray vs) = list_all distinct_keys vs"
| "distinct_keys (JObject kvs) \<longleftrightarrow> distinct (map fst kvs) \<and> list_all (\<lambda>kv. distinct_keys (snd kv)) kvs"
| "distinct_keys _ = True"

lemma fold_max_le: "fold max xs (a::nat) \<le> n \<longleftrightarrow> a \<le> n \<and> list_all (\<lambda>x. x \<le> n) xs"
  by (induction xs arbitrary: a) auto

lemma no_duplicates_spec:
  "no_duplicates depth v = Inr () \<longleftrightarrow> depth + int (nesting v) \<le> MaxProtocolDepth \<and> distinct_keys v"
  "no_duplicates_members depth seen kvs = Inr () \<longleftrightarrow>
     (\<forall>kv \<in> set kvs. depth + 1 + int (nesting (snd kv)) \<le> MaxProtocolDepth \<and> distinct_keys (snd kv)) \<and>
     distinct (map fst kvs) \<and> set (map fst kvs) \<inter> set seen = {}"
  "no_duplicates_items depth vs = Inr () \<longleftrightarrow>
     (\<forall>v \<in> set vs. depth + 1 + int (nesting v) \<le> MaxProtocolDepth \<and> distinct_keys v)"
proof (induction depth v and depth seen kvs and depth vs
    rule: no_duplicates_no_duplicates_members_no_duplicates_items.induct)
  case (1 depth v)
  show ?case
  proof (cases v)
    case (JArray vs)
    have "(depth + int (nesting v) \<le> MaxProtocolDepth) \<longleftrightarrow> depth \<le> MaxProtocolDepth \<and>
      (\<forall>v \<in> set vs. depth + 1 + int (nesting v) \<le> MaxProtocolDepth)"
      using fold_max_le[of "map (\<lambda>v. Suc (nesting v)) vs" 0 "nat (MaxProtocolDepth - depth)"] JArray
      by (auto simp: list_all_iff nat_le_iff le_nat_iff)
    then show ?thesis using 1 JArray by (auto simp: list_all_iff)
  next
    case (JObject kvs)
    have "(depth + int (nesting v) \<le> MaxProtocolDepth) \<longleftrightarrow> depth \<le> MaxProtocolDepth \<and>
      (\<forall>kv \<in> set kvs. depth + 1 + int (nesting (snd kv)) \<le> MaxProtocolDepth)"
      using fold_max_le[of "map (\<lambda>kv. Suc (nesting (snd kv))) kvs" 0 "nat (MaxProtocolDepth - depth)"] JObject
      by (auto simp: list_all_iff nat_le_iff le_nat_iff)
    then show ?thesis using 1 JObject by (auto simp: list_all_iff)
  qed auto
qed (auto simp: go_result)

text \<open>
  (C31) The decoder's guard against ambiguous and deep documents means what it says: it lets a
  document pass exactly when no value is nested deeper than 32 levels and no object anywhere in
  it has the same key twice.
\<close>
theorem strict_json_exact:
  "no_duplicates 0 v = Ok () \<longleftrightarrow> int (nesting v) \<le> 32 \<and> distinct_keys v"
  using no_duplicates_spec(1)[of 0 v] by (simp add: MaxProtocolDepth_def)

section \<open>Clock alignment\<close>

text \<open>
  The alignment is as accurate as it claims: if the hub read its clock at some moment between
  sending and receiving, and that clock runs a fixed number of nanoseconds ahead of the
  collector's, then the offset a valid exchange reports is within its uncertainty of that
  number, up to the rounding of both clocks to milliseconds, and the uncertainty never exceeds
  the second the frames accept.
\<close>
theorem time_exchange_accuracy:
  assumes a: "a = time_exchange sent received hubMS" "AValid a"
    and hub: "hubMS = unix_milli (WallNS sent + x + ahead)"
    and x: "0 \<le> x" "x \<le> MonoNS received - MonoNS sent"
    and range: "\<bar>hubMS\<bar> \<le> MaxUint53" "0 \<le> WallNS sent" "WallNS sent \<le> MaxUint53 * 1000000"
  shows "\<bar>AOffsetMS a * 1000000 - ahead\<bar> \<le> (AUncertaintyMS a + 2) * 1000000 \<and> AUncertaintyMS a \<le> 1000"
proof -
  define e where "e = sub_instant received sent"
  define mid where "mid = WallNS sent + e div 2"
  have valid: "0 \<le> e" "e \<le> 2000000000"
    using a by (auto simp: time_exchange_def e_def no_alignment_def Let_def split: if_splits)
  have e: "e = MonoNS received - MonoNS sent"
    using valid unfolding e_def sub_instant_def by (auto simp: max_def min_def split: if_splits)
  have q: "quot64 e 2 = e div 2" "quot64 e 1000000 = e div 1000000"
    using valid by (auto intro!: quot64_nonneg simp: in_int64_def)
  have um: "in_int64 (e div 1000000 + 1)" "0 \<le> e div 1000000 + 1" "e div 1000000 \<le> 2000"
    using valid by (auto simp: in_int64_def)
  have u: "AUncertaintyMS a = (e div 1000000 + 1) div 2"
    using a q um quot64_nonneg[OF um(2) _ um(1), of 2]
    by (auto simp: time_exchange_def e_def[symmetric] no_alignment_def Let_def split: if_splits)
  have m: "0 \<le> unix_milli mid" "unix_milli mid \<le> MaxUint53 + 1001"
    using valid range(2,3) by (auto simp: unix_milli_def mid_def MaxUint53_def)
  have fits: "in_int64 (hubMS - unix_milli mid)"
    using m range(1) by (auto simp: in_int64_def MaxUint53_def)
  have o: "AOffsetMS a = hubMS - unix_milli mid"
    using a q sub64_exact[OF fits]
    by (auto simp: time_exchange_def e_def[symmetric] mid_def no_alignment_def Let_def split: if_splits)
  have hb: "hubMS * 1000000 \<le> WallNS sent + x + ahead" "WallNS sent + x + ahead < (hubMS + 1) * 1000000"
    unfolding hub unix_milli_def by simp_all
  have mb: "unix_milli mid * 1000000 \<le> mid" "mid < (unix_milli mid + 1) * 1000000"
    unfolding unix_milli_def by simp_all
  have ub: "e \<le> (2 * AUncertaintyMS a + 1) * 1000000"
  proof -
    have "e < (e div 1000000 + 1) * 1000000" by simp
    moreover have "e div 1000000 + 1 \<le> 2 * ((e div 1000000 + 1) div 2) + 1" by simp
    ultimately show ?thesis unfolding u by (smt (verit))
  qed
  have half: "2 * (e div 2) \<le> e" "e \<le> 2 * (e div 2) + 1" by simp_all
  have "x \<le> e" using x(2) e by simp
  then have "AOffsetMS a * 1000000 - ahead \<le> (AUncertaintyMS a + 2) * 1000000"
    "ahead - AOffsetMS a * 1000000 \<le> (AUncertaintyMS a + 2) * 1000000"
    using hb mb ub x(1) half unfolding o mid_def by (simp_all add: algebra_simps)
  moreover have "AUncertaintyMS a \<le> 1000" unfolding u using um(3) by linarith
  ultimately show ?thesis by linarith
qed

lemma time_exchange_accuracy_witness:
  "\<bar>AOffsetMS (time_exchange \<lparr>WallNS = 5000000000, MonoNS = 0\<rparr> \<lparr>WallNS = 5040000000, MonoNS = 40000000\<rparr> 6030) * 1000000
     - 1000000000\<bar> \<le> 22000000"
proof -
  let ?a = "time_exchange \<lparr>WallNS = 5000000000, MonoNS = 0\<rparr> \<lparr>WallNS = 5040000000, MonoNS = 40000000\<rparr> 6030"
  have v: "AValid ?a" "AUncertaintyMS ?a = 20" by code_simp+
  have h: "6030 = unix_milli (WallNS \<lparr>WallNS = 5000000000, MonoNS = 0\<rparr> + 30000000 + 1000000000)" by code_simp
  show ?thesis
    using time_exchange_accuracy[OF refl v(1) h] v(2) by (simp add: MaxUint53_def)
qed

section \<open>Verified associations\<close>

lemma filter_key_unique:
  "distinct (map key xs) \<Longrightarrow> p \<in> set xs \<Longrightarrow> filter (\<lambda>x. key x = key p) xs = [p]"
proof (induction xs)
  case (Cons x xs)
  then show ?case by (cases "p = x") (auto simp: filter_empty_conv image_iff)
qed simp

lemma find_unique:
  "distinct (map key xs) \<Longrightarrow> find (\<lambda>x. key x = k) (rev xs) = Some p \<Longrightarrow> filter (\<lambda>x. key x = k) xs = [p]"
  using find_some[of "\<lambda>x. key x = k" "rev xs" p] filter_key_unique[of key xs p] by auto

lemma frame_process_keys_distinct:
  "validate_frame digest f = Ok () \<Longrightarrow> distinct (map ProcessKey (FProcessObservations f))"
  by (simp add: validate_frame_def validate_observations_def for_each_unique_Ok)

lemma frame_association:
  "validate_frame digest f = Ok () \<Longrightarrow> FEndpointAssociation f = Some a \<Longrightarrow>
   validate_endpoint_association a (FObservedWallMS f) (FProcessObservations f) = Ok ()"
  by (simp add: validate_frame_def validate_components_def)

lemma verified_association_checks:
  "validate_endpoint_association a t ps = Ok () \<Longrightarrow> AssocQuality a = AssociationVerified \<Longrightarrow>
   complete_verified_association a \<and> retained_process a ps"
  by (auto simp: validate_endpoint_association_def split: if_splits)

text \<open>
  (C27) A frame that passes validation never calls an endpoint verified without showing its owner:
  exactly one process of the frame has the association's key, and it has the association's
  process number and start identity, belongs to the same target and is itself verified; the
  endpoint is the one the target selects.
\<close>
theorem verified_association_has_owner:
  assumes "validate_frame digest f = Ok ()"
    and "FEndpointAssociation f = Some a" "AssocQuality a = AssociationVerified"
  shows "\<exists>p. filter (\<lambda>q. AssocProcessKey a = Some (ProcessKey q)) (FProcessObservations f) = [p] \<and>
     AssocPID a = Some (PID p) \<and> AssocStartIdentity a = Some (ProcessStartIdentity p) \<and>
     ProcTargetID p = Some (AssocTargetID a) \<and> ProcAssociation p = AssociationVerified \<and>
     EndpointHash a = SelectorSHA256 a"
proof -
  have c: "complete_verified_association a" "retained_process a (FProcessObservations f)"
    using verified_association_checks[OF frame_association[OF assms(1,2)] assms(3)] by auto
  obtain k where k: "AssocProcessKey a = Some k"
    using c(1) by (cases "AssocProcessKey a") (auto simp: complete_verified_association_def)
  obtain p where p: "process_by_key (FProcessObservations f) k = Some p"
    "AssocPID a = Some (PID p)" "AssocStartIdentity a = Some (ProcessStartIdentity p)"
    "ProcTargetID p = Some (AssocTargetID a)" "ProcAssociation p = AssociationVerified"
    using c(2) k by (auto simp: retained_process_def split: option.splits)
  have "filter (\<lambda>q. ProcessKey q = k) (FProcessObservations f) = [p]"
    using find_unique[OF frame_process_keys_distinct[OF assms(1)]] p(1) unfolding process_by_key_def .
  then have "filter (\<lambda>q. AssocProcessKey a = Some (ProcessKey q)) (FProcessObservations f) = [p]"
    by (simp add: k eq_commute)
  then show ?thesis using p c(1) by (auto simp: complete_verified_association_def)
qed

text \<open>A frame with one verified process.\<close>

definition sample_process :: process_observation where
  "sample_process = \<lparr>ProcHostID = ''11111111-1111-4111-8111-111111111111'',
     ProcBootID = ''22222222-2222-4222-8222-222222222222'', PID = 42, ProcessStartIdentity = ''17'',
     ProcessKey = replicate 64 CHR ''a'', DisplayBasename = Some ''ollama'', ProcCategory = ProcessSelectedOllama,
     ProcTargetID = Some ''33333333-3333-4333-8333-333333333333'', ProcAssociation = AssociationVerified,
     CPUBusyRatio = None, PhysicalFootprintBytes = Some ''1024'', ProcMissing = [],
     ProcProvenance = network_provenance\<rparr>"

definition sample_association :: endpoint_association where
  "sample_association = \<lparr>AssocTargetID = ''33333333-3333-4333-8333-333333333333'',
     EndpointHash = replicate 64 CHR ''b'', TargetRevision = 1, ManifestRevision = 1,
     ManifestSHA256 = replicate 64 CHR ''c'', SelectorSHA256 = replicate 64 CHR ''b'',
     IdentityRevision = replicate 64 CHR ''d'', RuntimeVersion = Some ''0.34.0'',
     RuntimeSourcePinID = Some ''ollama-0.34.0-source'', AssocPID = Some 42, AssocStartIdentity = Some ''17'',
     AssocProcessKey = Some (replicate 64 CHR ''a''), AssocQuality = AssociationVerified, AssocReason = None,
     VerifiedExit = None, AssocProvenance = network_provenance\<rparr>"

definition sample_collection :: process_collection where
  "sample_collection = \<lparr>PCTiming = \<lparr>TObservedWallMS = 5000, TMonotonicStartNS = ''7'', TMonotonicEndNS = ''9'', TDurationMS = 0\<rparr>, PCProcesses = [sample_process],
     PCSummary = \<lparr>EligiblePIDCount = 3, ExaminedPIDCount = 3, PermissionDeniedCount = 0, RetainedProcessCount = 1,
       EnumerationTruncated = False, Coverage = ''partial'', SummaryMethodRevision = ''m1'',
       SampleIntervalMS = 5000, ScanDurationMS = 2\<rparr>,
     PCAssociation = sample_association\<rparr>"

abbreviation sample_process_frame :: collector_frame where
  "sample_process_frame \<equiv> process_frame ''44444444-4444-4444-8444-444444444444'' sample_collection no_alignment
     \<lparr>WallNS = 0, MonoNS = 0\<rparr>"

lemma verified_association_has_owner_witness:
  "filter (\<lambda>q. Some (replicate 64 CHR ''a'') = Some (ProcessKey q)) (FProcessObservations sample_process_frame) \<noteq> []"
proof -
  have v: "validate_frame (\<lambda>_. []) sample_process_frame = Ok ()" by code_simp
  have a: "FEndpointAssociation sample_process_frame = Some sample_association"
    "AssocQuality sample_association = AssociationVerified"
    "AssocProcessKey sample_association = Some (replicate 64 CHR ''a'')" by code_simp+
  show ?thesis using verified_association_has_owner[OF v a(1,2)] unfolding a(3) by fastforce
qed

section \<open>Frames the collector builds\<close>

lemma time_exchange_ranges:
  "AValid (time_exchange s r h) \<Longrightarrow>
   in_range (-86400000) (AOffsetMS (time_exchange s r h)) 86400000 \<and>
   0 \<le> AUncertaintyMS (time_exchange s r h)"
proof -
  assume v: "AValid (time_exchange s r h)"
  define e where "e = sub_instant r s"
  have e: "0 \<le> e" "e \<le> 2000000000"
    using v by (auto simp: time_exchange_def e_def no_alignment_def Let_def split: if_splits)
  have "quot64 e 1000000 = e div 1000000" using e by (auto intro!: quot64_nonneg simp: in_int64_def)
  moreover have "quot64 (e div 1000000 + 1) 2 = (e div 1000000 + 1) div 2"
    using e by (auto intro!: quot64_nonneg simp: in_int64_def)
  ultimately show ?thesis
    using v e by (auto simp: time_exchange_def e_def[symmetric] no_alignment_def Let_def in_range_def split: if_splits)
qed

lemma timing_boundary:
  assumes "s \<le> e" "int e \<le> max_uint64" "e - s \<le> 5000999999"
    and "MonotonicStartNS f = TMonotonicStartNS (new_component_timing w s e)"
    and "MonotonicEndNS f = TMonotonicEndNS (new_component_timing w s e)"
    and "DurationMS f = TDurationMS (new_component_timing w s e)"
  shows "validate_boundary f = Inr () \<and> in_range 0 (DurationMS f) 5000"
proof -
  have p: "parse_decimal (MonotonicStartNS f) = Some (int s)" "parse_decimal (MonotonicEndNS f) = Some (int e)"
    using assms by (simp_all add: new_component_timing_def decimal_uint64_def parse_decimal_decimal)
  define k where "k = int (e - s)"
  have k: "0 \<le> k" "k \<le> 5000999999"
    using assms(3) unfolding k_def by (simp, metis of_nat_le_iff of_nat_numeral)
  have i: "int e - int s = k" using assms(1) by (simp add: k_def of_nat_diff)
  have d: "DurationMS f = k div 1000000"
    using assms(1,6) by (simp add: new_component_timing_def k_def zdiv_int)
  have m: "(k + 1000000) mod 18446744073709551616 = k + 1000000" using k by simp
  have b: "k div 1000000 * 1000000 \<le> k" "k \<le> k div 1000000 * 1000000 + 1000000" "k div 1000000 \<le> 5000"
    using k by linarith+
  show ?thesis
    unfolding validate_boundary_def p d i option.case Let_def in_range_def
    using i k m b by simp
qed

lemmas frame_checks = validate_frame_def validate_frame_head_def validate_frame_options_def validate_gauges_def
  validate_observations_def validate_components_def for_each_Ok for_each_unique_Ok

text \<open>
  Every gauge frame the collector builds is one the hub accepts: for a well-formed metric, a
  component timing of at most five seconds and whatever the last time exchange gave (usable, stale
  or none), validation finds nothing wrong; rounding the duration down to milliseconds never
  contradicts the monotonic readings.
\<close>
theorem gauge_frame_accepted:
  assumes ids: "valid_uuid source" "gid \<in> set allowed_gauges"
    and metric: "validate_metric_value gid \<lparr>MValue = encode_value enc (MetricValueOf v), MQuality = MetricQuality v,
      MMissingReason = MetricMissing v, MProvenance = MetricProvenance v\<rparr> = Ok ()"
    and timing: "startNS \<le> endNS" "int endNS \<le> max_uint64" "endNS - startNS \<le> 5000999999"
    and wall: "0 \<le> wallMS" "wallMS + 86400000 \<le> MaxUint53"
    and a: "a = time_exchange sent received hubMS"
  shows "validate_frame digest
     (gauge_frame enc source gid v (new_component_timing wallMS startNS endNS) a now) = Ok ()"
proof -
  let ?t = "new_component_timing wallMS startNS endNS"
  let ?f = "gauge_frame enc source gid v ?t a now"
  have q: "valid_quality (MetricQuality v)" "valid_provenance (MetricProvenance v)"
    using metric by (auto simp: validate_metric_value_def split: option.splits if_splits)
  have b: "validate_boundary ?f = Inr ()" "in_range 0 (DurationMS ?f) 5000"
    using timing_boundary[OF timing, of ?f wallMS] by (simp_all add: gauge_frame_def base_frame_def Let_def)
  have w: "TObservedWallMS ?t = wallMS" by (simp add: new_component_timing_def)
  have o: "usable a now \<longrightarrow> in_range (-86400000) (AOffsetMS a) 86400000 \<and> in_range 0 (AUncertaintyMS a) 60000"
    using time_exchange_ranges[of sent received hubMS] a by (auto simp: usable_def in_range_def)
  then have al: "usable a now \<longrightarrow> add64 wallMS (AOffsetMS a) = wallMS + AOffsetMS a"
    using wall by (auto intro!: add64_exact simp: in_int64_def in_range_def MaxUint53_def)
  have head: "validate_frame_head ?f = Inr ()"
    using ids(1) wall b(2) w
    by (auto simp: validate_frame_head_def gauge_frame_def base_frame_def Let_def in_range_def MaxUint53_def)
  have opts: "validate_frame_options ?f = Inr ()"
    using o al wall q w
    by (auto simp: validate_frame_options_def gauge_frame_def base_frame_def Let_def opt_all_def in_range_def)
  have gauges: "validate_gauges ?f = Inr ()"
    using ids(2) metric by (simp add: validate_gauges_def gauge_frame_def Let_def require_def go_result)
  have missing: "validate_missing missing_alignment = Inr ()" by code_simp
  have rest: "validate_observations ?f = Inr ()" "validate_components digest ?f = Inr ()"
    using missing by (auto simp: validate_observations_def validate_components_def gauge_frame_def base_frame_def
        Let_def for_each_Ok)
  show ?thesis using head b(1) opts gauges rest by (simp add: validate_frame_def)
qed

lemma gauge_frame_accepted_witness:
  "validate_frame (\<lambda>_. []) (gauge_frame encode_float ''44444444-4444-4444-8444-444444444444'' ''host.cpu.busy_ratio''
     (measured (Finite (1 / 2)) network_provenance) (new_component_timing 5000 1000 2001000)
     (time_exchange \<lparr>WallNS = 5000000000, MonoNS = 0\<rparr> \<lparr>WallNS = 5040000000, MonoNS = 40000000\<rparr> 6030)
     \<lparr>WallNS = 6000000000, MonoNS = 1000000000\<rparr>) = Ok ()"
proof (rule gauge_frame_accepted)
  show "valid_uuid ''44444444-4444-4444-8444-444444444444''" by code_simp
  show "''host.cpu.busy_ratio'' \<in> set allowed_gauges" by code_simp
  have "validate_metric_value ''host.cpu.busy_ratio''
      \<lparr>MValue = encode_value encode_float (Some (Finite (1 / 2))), MQuality = QualityMeasured,
       MMissingReason = None, MProvenance = network_provenance\<rparr> = Ok ()" by code_simp
  then show "validate_metric_value ''host.cpu.busy_ratio''
      \<lparr>MValue = encode_value encode_float (MetricValueOf (measured (Finite (1 / 2)) network_provenance)),
       MQuality = MetricQuality (measured (Finite (1 / 2)) network_provenance),
       MMissingReason = MetricMissing (measured (Finite (1 / 2)) network_provenance),
       MProvenance = MetricProvenance (measured (Finite (1 / 2)) network_provenance)\<rparr> = Ok ()"
    by (simp add: measured_def)
qed (simp_all add: max_uint64_def MaxUint53_def)

end
