(* ===== verification/Pairing.thy ===== *)
theory Pairing
  imports Protocol
begin

text \<open>
  \<open>internal/collector/pairing/state.go\<close> with the private file of \<open>internal/config/paths.go\<close> it
  is kept in: the collector's identity, its activation handshake, the inventory it may have
  had admitted and the model identities it has given out. A \<open>LocalState\<close> is its value in memory
  and the file; its mutex makes every operation one step. Failing system calls, random
  identifiers and the length of the JSON text are arguments.
\<close>

section \<open>Private files\<close>

text \<open>What a reader of the path finds: no file, a file it may not read, a text that is not the
  JSON of a state, one longer than the limit, or a state; a loose text is one that only the
  lenient decoder takes, with keys that are unknown or repeated.\<close>

datatype 'a private_file =
    Absent | Unreadable string | Garbage | Oversized | Loose 'a | Holds 'a

datatype write_step =
    EnsureParent | RefuseSymlink | CreateTemp | ChmodTemp | WriteTemp | SyncTemp | CloseTemp
  | RenameTemp | ChmodPath | OpenDir | SyncDir

text \<open>The error of each step, if it fails.\<close>

type_synonym failures = "write_step \<Rightarrow> string option"

fun first_failure :: "failures \<Rightarrow> write_step list \<Rightarrow> string option" where
  "first_failure fails [] = None"
| "first_failure fails (s # ss) = (case fails s of Some m \<Rightarrow> Some m | None \<Rightarrow> first_failure fails ss)"

definition until_rename :: "write_step list" where
  "until_rename = [EnsureParent, RefuseSymlink, CreateTemp, ChmodTemp, WriteTemp, SyncTemp, CloseTemp, RenameTemp]"

definition after_rename :: "write_step list" where
  "after_rename = [ChmodPath, OpenDir, SyncDir]"

definition write_private_file :: "failures \<Rightarrow> 'a \<Rightarrow> 'a private_file \<Rightarrow> (string, unit) result \<times> 'a private_file" where
  "write_private_file fails content old =
     (case first_failure fails until_rename of
        Some m \<Rightarrow> (Err m, old)
      | None \<Rightarrow> (case first_failure fails after_rename of
          Some m \<Rightarrow> (Err m, Holds content)
        | None \<Rightarrow> (Ok (), Holds content)))"

section \<open>State\<close>

definition max_state_bytes :: int where "max_state_bytes = 262144"

record model_identity =
  MID :: string
  MTargetID :: string
  MAlias :: string
  MDigest :: string

record pairing_state =
  PVersion :: int
  PDeploymentID :: string
  PGeneration :: string
  InstallationID :: string
  PHostID :: string
  HostSourceID :: string
  Registered :: bool
  PreviousSession :: int64
  PendingActivation :: "session_activation option"
  PModels :: "model_identity list"
  InventorySources :: "inventory_source list"
  PendingInventoryRevision :: string

record local_state =
  Value :: pairing_state
  Stored :: "pairing_state private_file"

definition validate_state :: "pairing_state \<Rightarrow> (message, unit) result" where
  "validate_state v =
     require (\<not> (PVersion v \<noteq> 1 \<or> PDeploymentID v = [] \<or> PGeneration v = [] \<or> PHostID v = []
        \<or> HostSourceID v = [] \<or> InstallationID v = [] \<or> PreviousSession v < 0
        \<or> int (length (PModels v)) > 256 \<or> int (length (InventorySources v)) > 8)) ''pairing state is invalid''"

section \<open>Opening and creating\<close>

definition opened ::
  "pairing_state private_file \<Rightarrow> pairing_state \<Rightarrow> string \<Rightarrow> string \<Rightarrow> (message, local_state) result" where
  "opened f v dep gen =
     (if validate_state v \<noteq> Ok () \<or> PDeploymentID v \<noteq> dep \<or> PGeneration v \<noteq> gen
      then Err ''pairing identity changed; explicit recovery required''
      else Ok \<lparr>Value = v, Stored = f\<rparr>)"

definition open_pairing :: "pairing_state private_file \<Rightarrow> string \<Rightarrow> string \<Rightarrow> (message, local_state) result" where
  "open_pairing f dep gen =
     (case f of
        Absent \<Rightarrow> Err ''file does not exist''
      | Unreadable m \<Rightarrow> Err m
      | Oversized \<Rightarrow> Err ''pairing state exceeds limit''
      | Garbage \<Rightarrow> Err ''pairing state invalid; explicit recovery required''
      | Loose v \<Rightarrow> opened f v dep gen
      | Holds v \<Rightarrow> opened f v dep gen)"

text \<open>The first installation writes the file in place: a failing write leaves a text that is no
  state, and a failing sync, close or directory sync leaves the state with an error.\<close>

datatype create_outcome =
    Created | NotCreated message | CreatedBefore "pairing_state private_file" | TornWrite message | NotSynced message

definition install_new ::
  "create_outcome \<Rightarrow> pairing_state \<Rightarrow> pairing_state private_file \<Rightarrow>
   (message, local_state) result \<times> pairing_state private_file" where
  "install_new outcome v old =
     (case outcome of
        NotCreated m \<Rightarrow> (Err m, old)
      | CreatedBefore f \<Rightarrow> (open_pairing f (PDeploymentID v) (PGeneration v), f)
      | TornWrite m \<Rightarrow> (Err m, Garbage)
      | NotSynced m \<Rightarrow> (Err m, Holds v)
      | Created \<Rightarrow> (Ok \<lparr>Value = v, Stored = Holds v\<rparr>, Holds v))"

text \<open>\<open>domain.NewUUID\<close> returns an error when the system has no randomness.\<close>

definition no_randomness :: message where "no_randomness = ''read random''"

definition new_state :: "string \<Rightarrow> string \<Rightarrow> string \<Rightarrow> string \<Rightarrow> string \<Rightarrow> bool \<Rightarrow> pairing_state" where
  "new_state dep gen installation host source registered =
     \<lparr>PVersion = 1, PDeploymentID = dep, PGeneration = gen, InstallationID = installation, PHostID = host,
      HostSourceID = source, Registered = registered, PreviousSession = 0, PendingActivation = None,
      PModels = [], InventorySources = [], PendingInventoryRevision = []\<rparr>"

definition create_pairing ::
  "message option \<Rightarrow> (string \<times> string \<times> string) option \<Rightarrow> create_outcome \<Rightarrow> string \<Rightarrow> string \<Rightarrow>
   pairing_state private_file \<Rightarrow> (message, local_state) result \<times> pairing_state private_file" where
  "create_pairing directory uuids outcome dep gen f =
     (case directory of
        Some m \<Rightarrow> (Err m, f)
      | None \<Rightarrow>
          if f \<noteq> Absent then (open_pairing f dep gen, f)
          else (case uuids of
              None \<Rightarrow> (Err no_randomness, f)
            | Some (installation, host, source) \<Rightarrow>
                install_new outcome (new_state dep gen installation host source False) f))"

definition create_enrolled ::
  "message option \<Rightarrow> string option \<Rightarrow> create_outcome \<Rightarrow> string \<Rightarrow> string \<Rightarrow> string \<Rightarrow> string \<Rightarrow>
   pairing_state private_file \<Rightarrow> (message, local_state) result \<times> pairing_state private_file" where
  "create_enrolled directory uuid outcome dep gen installation host f =
     (if dep = [] \<or> gen = [] \<or> installation = [] \<or> host = []
      then (Err ''remote enrollment identity is incomplete'', f)
      else case directory of
        Some m \<Rightarrow> (Err m, f)
      | None \<Rightarrow>
          if f \<noteq> Absent then (open_pairing f dep gen, f)
          else (case uuid of
              None \<Rightarrow> (Err no_randomness, f)
            | Some source \<Rightarrow> install_new outcome (new_state dep gen installation host source True) f))"

section \<open>Re-enrollment\<close>

definition read_retained ::
  "pairing_state private_file \<Rightarrow> string \<Rightarrow> string \<Rightarrow> (message, pairing_state) result" where
  "read_retained f dep host =
     (let invalid = Err ''retained pairing state is invalid; explicit recovery required'' in
      case f of
        Absent \<Rightarrow> Err ''file does not exist''
      | Unreadable m \<Rightarrow> Err m
      | Holds v \<Rightarrow>
          if validate_state v \<noteq> Ok () then invalid
          else if PDeploymentID v \<noteq> dep \<or> (host \<noteq> [] \<and> PHostID v \<noteq> host)
          then Err ''retained pairing identity does not match reviewed host''
          else Ok v
      | _ \<Rightarrow> invalid)"

text \<open>\<open>targets\<close> is the outcome of \<open>reEnrollTargets\<close>, whose own model is in the theory Targets.\<close>

definition re_enroll ::
  "(pairing_state \<Rightarrow> int) \<Rightarrow> failures \<Rightarrow> (message, unit) result \<Rightarrow> string \<Rightarrow> string \<Rightarrow> string \<Rightarrow> string \<Rightarrow> string \<Rightarrow>
   pairing_state private_file \<Rightarrow> (message, local_state) result \<times> pairing_state private_file" where
  "re_enroll jsonlen fails targets dep previous next installation host f =
     (if dep = [] \<or> previous = [] \<or> next = [] \<or> previous = next \<or> installation = [] \<or> host = []
      then (Err ''re-enrollment identity is incomplete'', f)
      else case read_retained f dep host of
        Err m \<Rightarrow> (Err m, f)
      | Ok v \<Rightarrow>
          if InstallationID v \<noteq> installation \<or> (PGeneration v \<noteq> previous \<and> PGeneration v \<noteq> next)
          then (Err ''retained pairing identity changed during re-enrollment'', f)
          else if PGeneration v = next
          then (if PreviousSession v \<noteq> 0 \<or> PendingActivation v \<noteq> None \<or> PendingInventoryRevision v \<noteq> [] \<or> \<not> Registered v
                then (Err ''new-generation pairing is already active; refusing to reset it'', f)
                else (Ok \<lparr>Value = v, Stored = f\<rparr>, f))
          else (case targets of
              Err m \<Rightarrow> (Err m, f)
            | Ok _ \<Rightarrow>
                let v' = v\<lparr>PGeneration := next, Registered := True, PreviousSession := 0,
                           PendingActivation := None, PendingInventoryRevision := []\<rparr> in
                if jsonlen v' > max_state_bytes then (Err ''re-enrolled pairing state exceeds limit'', f)
                else (case write_private_file fails v' f of
                    (Err m, f') \<Rightarrow> (Err m, f')
                  | (Ok _, f') \<Rightarrow> (Ok \<lparr>Value = v', Stored = f'\<rparr>, f'))))"

section \<open>Operations\<close>

text \<open>The value in memory changes only when the file is known to hold it.\<close>

definition save ::
  "(pairing_state \<Rightarrow> int) \<Rightarrow> failures \<Rightarrow> pairing_state \<Rightarrow> local_state \<Rightarrow> (message, unit) result \<times> local_state" where
  "save jsonlen fails v s =
     (if jsonlen v > max_state_bytes then (Err ''pairing state exceeds limit'', s)
      else case write_private_file fails v (Stored s) of
        (Err m, f) \<Rightarrow> (Err m, s\<lparr>Stored := f\<rparr>)
      | (Ok _, f) \<Rightarrow> (Ok (), s\<lparr>Value := v, Stored := f\<rparr>))"

definition pairing_snapshot :: "local_state \<Rightarrow> pairing_state" where
  "pairing_snapshot s = Value s"

definition source_ids :: "inventory_source list \<Rightarrow> string list" where
  "source_ids xs = map InvSourceID xs"

definition remember_inventory ::
  "(pairing_state \<Rightarrow> int) \<Rightarrow> failures \<Rightarrow> collector_inventory \<Rightarrow> local_state \<Rightarrow> (message, unit) result \<times> local_state" where
  "remember_inventory jsonlen fails i s =
     (case validate_inventory i of
        Err m \<Rightarrow> (Err m, s)
      | Ok _ \<Rightarrow>
          if InvDeploymentID i \<noteq> PDeploymentID (Value s) \<or> InvHostID i \<noteq> PHostID (Value s)
             \<or> InvSecurityGeneration i \<noteq> PGeneration (Value s) \<or> InvSessionGeneration i \<noteq> PreviousSession (Value s)
          then (Err ''inventory does not match local pairing'', s)
          else if \<not> list_all (\<lambda>p. InvSourceID p \<in> set (source_ids (Sources i))) (InventorySources (Value s))
          then (Err ''inventory omitted possibly admitted source retirement'', s)
          else save jsonlen fails ((Value s)\<lparr>InventorySources := Sources i,
                                           PendingInventoryRevision := InventoryRevision i\<rparr>) s)"

definition ack_matches :: "inventory_result \<Rightarrow> pairing_state \<Rightarrow> bool" where
  "ack_matches r v \<longleftrightarrow> \<not> (\<not> ResDurable r \<or> \<not> ResInvCurrent r \<or> ResInventoryRevision r = []
     \<or> ResInventoryRevision r \<noteq> PendingInventoryRevision v)"

definition ack_inventory ::
  "(pairing_state \<Rightarrow> int) \<Rightarrow> failures \<Rightarrow> inventory_result \<Rightarrow> local_state \<Rightarrow> (message, unit) result \<times> local_state" where
  "ack_inventory jsonlen fails r s =
     (if \<not> ack_matches r (Value s) then (Err ''inventory ACK does not match durable local request'', s)
      else save jsonlen fails ((Value s)\<lparr>InventorySources := filter InvActive (InventorySources (Value s)),
                                       PendingInventoryRevision := []\<rparr>) s)"

definition registered :: "(pairing_state \<Rightarrow> int) \<Rightarrow> failures \<Rightarrow> local_state \<Rightarrow> (message, unit) result \<times> local_state" where
  "registered jsonlen fails s = save jsonlen fails ((Value s)\<lparr>Registered := True\<rparr>) s"

definition activation_request :: "string \<Rightarrow> string \<Rightarrow> pairing_state \<Rightarrow> session_activation" where
  "activation_request uuid boot v =
     \<lparr>ActProtocol = ''1.0'', ActDeploymentID = PDeploymentID v, ActHostID = PHostID v,
      ActSecurityGeneration = PGeneration v, ActivationRequestID = uuid, ActCollectorBootID = boot,
      ExpectedPreviousGeneration = PreviousSession v\<rparr>"

definition prepare_activation ::
  "(pairing_state \<Rightarrow> int) \<Rightarrow> failures \<Rightarrow> string option \<Rightarrow> string \<Rightarrow> local_state \<Rightarrow>
   (message, session_activation) result \<times> local_state" where
  "prepare_activation jsonlen fails uuid boot s =
     (case PendingActivation (Value s) of
        Some request \<Rightarrow> (Ok request, s)
      | None \<Rightarrow> (case uuid of
          None \<Rightarrow> (Err no_randomness, s)
        | Some u \<Rightarrow>
            let request = activation_request u boot (Value s) in
            (case validate_activation request of
               Err m \<Rightarrow> (Err m, s)
             | Ok _ \<Rightarrow> (case save jsonlen fails ((Value s)\<lparr>PendingActivation := Some request\<rparr>) s of
                 (Err m, s') \<Rightarrow> (Err m, s')
               | (Ok _, s') \<Rightarrow> (Ok request, s')))))"

definition result_matches :: "session_result \<Rightarrow> session_activation \<Rightarrow> bool" where
  "result_matches r q \<longleftrightarrow> \<not> (ResActivationRequestID r \<noteq> ActivationRequestID q
     \<or> ResSecurityGeneration r \<noteq> ActSecurityGeneration q \<or> ResCollectorBootID r \<noteq> ActCollectorBootID q
     \<or> \<not> ResCurrent r \<or> ResSessionGeneration r \<le> ExpectedPreviousGeneration q
     \<or> ResSessionGeneration r > MaxUint53 \<or> ActivatedMS r < 0)"

definition complete_activation ::
  "(pairing_state \<Rightarrow> int) \<Rightarrow> failures \<Rightarrow> session_result \<Rightarrow> local_state \<Rightarrow> (message, unit) result \<times> local_state" where
  "complete_activation jsonlen fails r s =
     (if \<not> ptr_and (PendingActivation (Value s)) (result_matches r)
      then (Err ''activation result conflicts with durable local request; recovery required'', s)
      else save jsonlen fails ((Value s)\<lparr>PendingActivation := None, PreviousSession := ResSessionGeneration r\<rparr>) s)"

definition known_model :: "string \<Rightarrow> string \<Rightarrow> string \<Rightarrow> model_identity list \<Rightarrow> model_identity option" where
  "known_model target alias dgst ms = find (\<lambda>m. MTargetID m = target \<and> MAlias m = alias \<and> MDigest m = dgst) ms"

definition resolve_model_id ::
  "(pairing_state \<Rightarrow> int) \<Rightarrow> failures \<Rightarrow> message option \<Rightarrow> string option \<Rightarrow> string \<Rightarrow> string \<Rightarrow> string \<Rightarrow> local_state \<Rightarrow>
   (message, string) result \<times> local_state" where
  "resolve_model_id jsonlen fails cancelled uuid target alias dgst s =
     (case cancelled of
        Some m \<Rightarrow> (Err m, s)
      | None \<Rightarrow> (case known_model target alias dgst (PModels (Value s)) of
          Some m \<Rightarrow> (Ok (MID m), s)
        | None \<Rightarrow>
            if int (length (PModels (Value s))) \<ge> 256 \<or> int (length alias) > 256 \<or> int (length dgst) > 256 \<or> target = []
            then (Err ''local model identity capacity exceeded'', s)
            else (case uuid of
                None \<Rightarrow> (Err no_randomness, s)
              | Some u \<Rightarrow>
                  (case save jsonlen fails ((Value s)\<lparr>PModels := PModels (Value s) @
                          [\<lparr>MID = u, MTargetID = target, MAlias = alias, MDigest = dgst\<rparr>]\<rparr>) s of
                     (Err m, s') \<Rightarrow> (Err m, s')
                   | (Ok _, s') \<Rightarrow> (Ok u, s')))))"

end
