(* ===== verification/PairingProperties.thy ===== *)
theory PairingProperties
  imports Pairing "HOL-Library.Sublist"
begin

text \<open>
  The pairing state as a state machine: every method of \<open>LocalState\<close> is an event, with whatever
  fails while it writes its file, and so is a restart of the process, which reads the file
  again. The lemmas show what the next process finds after any history; the properties are about
  sessions, admitted sources, activations and model identities.
\<close>

section \<open>A value and the file it is kept in\<close>

text \<open>
  The contract the operations rely on: a write that succeeds leaves the value in memory and in
  the file, one that fails leaves the value in memory alone and in the file either what was there
  or the new value. An update to a good value that extends the old one then keeps memory and file
  good, whichever of the three happens.
\<close>

definition agree :: "('v \<Rightarrow> bool) \<Rightarrow> ('v \<Rightarrow> 'v \<Rightarrow> bool) \<Rightarrow> 'v \<Rightarrow> 'v option \<Rightarrow> bool" where
  "agree good ext m f \<longleftrightarrow> good m \<and> (case f of None \<Rightarrow> False | Some v \<Rightarrow> good v \<and> ext m v)"

locale stored_value =
  fixes put :: "'v \<Rightarrow> 's \<Rightarrow> (message, unit) result \<times> 's"
    and memory :: "'s \<Rightarrow> 'v"
    and content :: "'s \<Rightarrow> 'v option"
  assumes write_done: "put v s = (Ok u, s') \<Longrightarrow> memory s' = v \<and> content s' = Some v"
    and write_failed: "put v s = (Err m, s') \<Longrightarrow>
      memory s' = memory s \<and> (content s' = content s \<or> content s' = Some v)"
begin

lemma write_cases:
  obtains (written) "fst (put v s) = Ok ()" "memory (snd (put v s)) = v" "content (snd (put v s)) = Some v"
  | (failed) m where "fst (put v s) = Err m" "memory (snd (put v s)) = memory s"
      "content (snd (put v s)) = content s \<or> content (snd (put v s)) = Some v"
proof (cases "put v s")
  case (Pair r s')
  show ?thesis
  proof (cases r)
    case (Inl m)
    then show ?thesis using failed[of m] write_failed[of v s m s'] Pair by simp
  next
    case (Inr u)
    then show ?thesis using written write_done[of v s u s'] Pair by simp
  qed
qed

lemma write_agree:
  assumes "agree good ext (memory s) (content s)" "good v" "ext (memory s) v" "\<And>x. ext x x"
  shows "agree good ext (memory (snd (put v s))) (content (snd (put v s)))"
  using assms by (cases rule: write_cases[of v s]) (auto simp: agree_def split: option.splits)

lemma write_memory:
  "memory (snd (put v s)) = memory s \<or> fst (put v s) = Ok () \<and> memory (snd (put v s)) = v"
  by (cases rule: write_cases[of v s]) auto

end

definition file_value :: "'a private_file \<Rightarrow> 'a option" where
  "file_value f = (case f of Holds v \<Rightarrow> Some v | Loose v \<Rightarrow> Some v | _ \<Rightarrow> None)"

lemma write_private_file_cases:
  "write_private_file fails v f = (r, f') \<Longrightarrow>
   (r = Ok () \<and> f' = Holds v) \<or> (\<exists>m. r = Err m \<and> (f' = f \<or> f' = Holds v))"
  by (auto simp: write_private_file_def split: option.splits)

interpretation saved: stored_value "save jsonlen fails" Value "\<lambda>s. file_value (Stored s)" for jsonlen fails
proof unfold_locales
  fix v s u s'
  assume "save jsonlen fails v s = (Ok u, s')"
  then show "Value s' = v \<and> file_value (Stored s') = Some v"
    using write_private_file_cases[of fails v "Stored s"]
    by (auto simp: save_def file_value_def split: if_splits prod.splits sum.splits)
next
  fix v s m s'
  assume "save jsonlen fails v s = (Err m, s')"
  then show "Value s' = Value s \<and> (file_value (Stored s') = file_value (Stored s) \<or> file_value (Stored s') = Some v)"
    using write_private_file_cases[of fails v "Stored s"]
    by (auto simp: save_def file_value_def split: if_splits prod.splits sum.splits)
qed

section \<open>Events\<close>

datatype pairing_event =
    Remember collector_inventory
  | AckInventory inventory_result
  | Register
  | Prepare "string option" string
  | Complete session_result
  | Resolve "message option" "string option" string string string
  | Restart

text \<open>The history variable holds the sources that the hub may have admitted: those of every
  inventory the collector was allowed to send, less those whose retirement was acknowledged.\<close>

record pairing_history =
  Local :: local_state
  Admitted :: "string set"

definition admitted_after_ack :: "pairing_state \<Rightarrow> inventory_result \<Rightarrow> string set \<Rightarrow> string set" where
  "admitted_after_ack v r A =
     (if ack_matches r v then A - set (source_ids (filter (\<lambda>p. \<not> InvActive p) (InventorySources v))) else A)"

definition restart :: "local_state \<Rightarrow> local_state" where
  "restart s = (case open_pairing (Stored s) (PDeploymentID (Value s)) (PGeneration (Value s)) of
     Err _ \<Rightarrow> s | Ok s' \<Rightarrow> s')"

fun pairing_step :: "(pairing_state \<Rightarrow> int) \<Rightarrow> failures \<times> pairing_event \<Rightarrow> pairing_history \<Rightarrow> pairing_history" where
  "pairing_step n (fails, Remember i) h = (let (r, s) = remember_inventory n fails i (Local h) in
     h\<lparr>Local := s, Admitted := (if r = Ok () then Admitted h \<union> set (source_ids (Sources i)) else Admitted h)\<rparr>)"
| "pairing_step n (fails, AckInventory r) h =
     h\<lparr>Local := snd (ack_inventory n fails r (Local h)),
       Admitted := admitted_after_ack (Value (Local h)) r (Admitted h)\<rparr>"
| "pairing_step n (fails, Register) h = h\<lparr>Local := snd (registered n fails (Local h))\<rparr>"
| "pairing_step n (fails, Prepare u boot) h = h\<lparr>Local := snd (prepare_activation n fails u boot (Local h))\<rparr>"
| "pairing_step n (fails, Complete r) h = h\<lparr>Local := snd (complete_activation n fails r (Local h))\<rparr>"
| "pairing_step n (fails, Resolve c u t a d) h =
     h\<lparr>Local := snd (resolve_model_id n fails c u t a d (Local h))\<rparr>"
| "pairing_step n (fails, Restart) h = h\<lparr>Local := restart (Local h)\<rparr>"

definition pairing_run :: "(pairing_state \<Rightarrow> int) \<Rightarrow> (failures \<times> pairing_event) list \<Rightarrow> pairing_history \<Rightarrow> pairing_history" where
  "pairing_run n es h = fold (pairing_step n) es h"

section \<open>The invariant\<close>

definition sound :: "string set \<Rightarrow> pairing_state \<Rightarrow> bool" where
  "sound A v \<longleftrightarrow> validate_state v = Ok () \<and> A \<subseteq> set (source_ids (InventorySources v)) \<and>
     (\<forall>q. PendingActivation v = Some q \<longrightarrow> ExpectedPreviousGeneration q = PreviousSession v)"

text \<open>What may come after a value: the same identity, no earlier session, the models with more
  behind them.\<close>

definition extends :: "pairing_state \<Rightarrow> pairing_state \<Rightarrow> bool" where
  "extends v w \<longleftrightarrow> PDeploymentID w = PDeploymentID v \<and> PGeneration w = PGeneration v \<and>
     PHostID w = PHostID v \<and> InstallationID w = InstallationID v \<and> HostSourceID w = HostSourceID v \<and>
     PreviousSession v \<le> PreviousSession w \<and> prefix (PModels v) (PModels w)"

definition durable :: "pairing_history \<Rightarrow> bool" where
  "durable h \<longleftrightarrow> agree (sound (Admitted h)) extends (Value (Local h)) (file_value (Stored (Local h)))"

lemma extends_refl [simp]: "extends v v"
  by (simp add: extends_def)

lemma extends_trans: "extends a b \<Longrightarrow> extends b c \<Longrightarrow> extends a c"
  unfolding extends_def using order_trans prefix_order.order_trans by metis

lemma sound_mono: "sound A v \<Longrightarrow> B \<subseteq> A \<Longrightarrow> sound B v"
  by (auto simp: sound_def)

lemma agree_mono: "agree (sound A) extends m f \<Longrightarrow> B \<subseteq> A \<Longrightarrow> agree (sound B) extends m f"
  by (auto simp: agree_def intro: sound_mono split: option.splits)

lemma agree_sound: "agree (sound A) extends m f \<Longrightarrow> sound A m"
  by (simp add: agree_def)

text \<open>One save of a sound extension: the invariant holds afterwards and the value in memory is
  an extension of the one before.\<close>

lemma save_step:
  assumes "agree (sound A) extends (Value s) (file_value (Stored s))" "sound A w" "extends (Value s) w"
  shows "agree (sound A) extends (Value (snd (save n fails w s))) (file_value (Stored (snd (save n fails w s)))) \<and>
     extends (Value s) (Value (snd (save n fails w s)))"
  using saved.write_agree[OF assms(1,2,3) extends_refl] saved.write_memory[of n fails w s] assms(3) by auto

lemma validate_state_iff:
  "validate_state v = Ok () \<longleftrightarrow> PVersion v = 1 \<and> PDeploymentID v \<noteq> [] \<and> PGeneration v \<noteq> [] \<and> PHostID v \<noteq> [] \<and>
     HostSourceID v \<noteq> [] \<and> InstallationID v \<noteq> [] \<and> 0 \<le> PreviousSession v \<and>
     length (PModels v) \<le> 256 \<and> length (InventorySources v) \<le> 8"
  by (auto simp: validate_state_def)

lemma step_remember:
  assumes "agree (sound A) extends (Value s) (file_value (Stored s))" "remember_inventory n fails i s = (r, s')"
    and "B = (if r = Ok () then A \<union> set (source_ids (Sources i)) else A)"
  shows "agree (sound B) extends (Value s') (file_value (Stored s')) \<and> extends (Value s) (Value s')"
proof (cases "s' = s \<and> r \<noteq> Ok ()")
  case True
  then show ?thesis using assms by auto
next
  case False
  let ?w = "(Value s)\<lparr>InventorySources := Sources i, PendingInventoryRevision := InventoryRevision i\<rparr>"
  have i: "validate_inventory i = Ok ()"
    "list_all (\<lambda>p. InvSourceID p \<in> set (source_ids (Sources i))) (InventorySources (Value s))"
    and save: "save n fails ?w s = (r, s')"
    using False assms(2) by (auto simp: remember_inventory_def split: sum.splits if_splits)
  have few: "length (Sources i) \<le> 8" using i(1) by (simp add: validate_inventory_def Let_def)
  have w: "sound (A \<union> set (source_ids (Sources i))) ?w" "extends (Value s) ?w"
    using agree_sound[OF assms(1)] i(2) few
    by (auto simp: sound_def validate_state_iff extends_def list_all_iff source_ids_def)
  have w': "sound A ?w" using sound_mono[OF w(1)] by simp
  show ?thesis
  proof (cases rule: saved.write_cases[of n fails ?w s])
    case written
    then show ?thesis using save w assms(3) by (simp add: agree_def)
  next
    case (failed m)
    then show ?thesis using save_step[OF assms(1) w' w(2), of n fails] save assms(3) by simp
  qed
qed

text \<open>The six methods give such a value.\<close>

lemma sound_acked:
  "sound A v \<Longrightarrow> ack_matches r v \<Longrightarrow>
   sound (admitted_after_ack v r A)
     (v\<lparr>InventorySources := filter InvActive (InventorySources v), PendingInventoryRevision := []\<rparr>)"
  by (auto simp: sound_def validate_state_iff admitted_after_ack_def source_ids_def
      intro: order_trans[OF length_filter_le])

lemma step_ack:
  assumes "agree (sound A) extends (Value s) (file_value (Stored s))"
  shows "agree (sound (admitted_after_ack (Value s) r A)) extends (Value (snd (ack_inventory n fails r s)))
      (file_value (Stored (snd (ack_inventory n fails r s)))) \<and>
    extends (Value s) (Value (snd (ack_inventory n fails r s)))"
proof -
  have B: "agree (sound (admitted_after_ack (Value s) r A)) extends (Value s) (file_value (Stored s))"
    using agree_mono[OF assms] by (simp add: admitted_after_ack_def)
  show ?thesis
  proof (cases "ack_matches r (Value s)")
    case True
    let ?w = "(Value s)\<lparr>InventorySources := filter InvActive (InventorySources (Value s)), PendingInventoryRevision := []\<rparr>"
    have "sound (admitted_after_ack (Value s) r A) ?w"
      using sound_acked[OF agree_sound[OF assms] True] .
    moreover have "extends (Value s) ?w" by (simp add: extends_def)
    ultimately show ?thesis using save_step[OF B, of ?w n fails] True by (simp add: ack_inventory_def)
  next
    case False
    then show ?thesis using B by (simp add: ack_inventory_def)
  qed
qed

lemma step_registered:
  assumes "agree (sound A) extends (Value s) (file_value (Stored s))"
  shows "agree (sound A) extends (Value (snd (registered n fails s))) (file_value (Stored (snd (registered n fails s)))) \<and>
    extends (Value s) (Value (snd (registered n fails s)))"
proof -
  have "sound A ((Value s)\<lparr>Registered := True\<rparr>)"
    using agree_sound[OF assms] by (simp add: sound_def validate_state_iff)
  then show ?thesis
    using save_step[OF assms, of "(Value s)\<lparr>Registered := True\<rparr>" n fails] by (simp add: registered_def extends_def)
qed

lemma step_prepare:
  assumes "agree (sound A) extends (Value s) (file_value (Stored s))"
  shows "agree (sound A) extends (Value (snd (prepare_activation n fails u boot s)))
      (file_value (Stored (snd (prepare_activation n fails u boot s)))) \<and>
    extends (Value s) (Value (snd (prepare_activation n fails u boot s)))"
proof -
  define q where "q = activation_request (the u) boot (Value s)"
  let ?w = "(Value s)\<lparr>PendingActivation := Some q\<rparr>"
  have "ExpectedPreviousGeneration q = PreviousSession (Value s)" by (simp add: q_def activation_request_def)
  then have "sound A ?w" "extends (Value s) ?w"
    using agree_sound[OF assms] by (simp_all add: sound_def validate_state_iff extends_def)
  note saved = save_step[OF assms this, of n fails]
  have "snd (prepare_activation n fails u boot s) = s \<or> snd (prepare_activation n fails u boot s) = snd (save n fails ?w s)"
    by (auto simp: prepare_activation_def q_def Let_def split: option.splits sum.splits prod.splits)
  then show ?thesis using saved assms by auto
qed

lemma step_complete:
  assumes "agree (sound A) extends (Value s) (file_value (Stored s))"
  shows "agree (sound A) extends (Value (snd (complete_activation n fails r s)))
      (file_value (Stored (snd (complete_activation n fails r s)))) \<and>
    extends (Value s) (Value (snd (complete_activation n fails r s)))"
proof (cases "ptr_and (PendingActivation (Value s)) (result_matches r)")
  case True
  then obtain q where q: "PendingActivation (Value s) = Some q" "result_matches r q"
    by (auto simp: ptr_and_iff)
  let ?w = "(Value s)\<lparr>PendingActivation := None, PreviousSession := ResSessionGeneration r\<rparr>"
  have "PreviousSession (Value s) < ResSessionGeneration r" "0 \<le> PreviousSession (Value s)"
    using agree_sound[OF assms] q by (auto simp: sound_def result_matches_def validate_state_iff)
  then have "sound A ?w" "extends (Value s) ?w"
    using agree_sound[OF assms] by (simp_all add: sound_def validate_state_iff extends_def)
  then show ?thesis using save_step[OF assms, of ?w n fails] True by (simp add: complete_activation_def)
next
  case False
  then show ?thesis using assms by (simp add: complete_activation_def)
qed

lemma step_resolve:
  assumes "agree (sound A) extends (Value s) (file_value (Stored s))"
  shows "agree (sound A) extends (Value (snd (resolve_model_id n fails c u t a d s)))
      (file_value (Stored (snd (resolve_model_id n fails c u t a d s)))) \<and>
    extends (Value s) (Value (snd (resolve_model_id n fails c u t a d s)))"
proof -
  let ?w = "(Value s)\<lparr>PModels := PModels (Value s) @ [\<lparr>MID = the u, MTargetID = t, MAlias = a, MDigest = d\<rparr>]\<rparr>"
  have step: "snd (resolve_model_id n fails c u t a d s) = s \<or>
      length (PModels (Value s)) < 256 \<and> snd (resolve_model_id n fails c u t a d s) = snd (save n fails ?w s)"
    by (auto simp: resolve_model_id_def split: option.splits sum.splits prod.splits)
  then show ?thesis
  proof
    assume "snd (resolve_model_id n fails c u t a d s) = s"
    then show ?thesis using assms by simp
  next
    assume *: "length (PModels (Value s)) < 256 \<and> snd (resolve_model_id n fails c u t a d s) = snd (save n fails ?w s)"
    then have "sound A ?w" "extends (Value s) ?w"
      using agree_sound[OF assms] by (simp_all add: sound_def validate_state_iff extends_def)
    then show ?thesis using save_step[OF assms, of ?w n fails] * by simp
  qed
qed

lemma step_restart:
  assumes "agree (sound A) extends (Value s) (file_value (Stored s))"
  shows "agree (sound A) extends (Value (restart s)) (file_value (Stored (restart s))) \<and>
    extends (Value s) (Value (restart s)) \<and> file_value (Stored s) = Some (Value (restart s))"
proof -
  obtain v where v: "file_value (Stored s) = Some v" "sound A v" "extends (Value s) v"
    using assms by (auto simp: agree_def split: option.splits)
  then have "open_pairing (Stored s) (PDeploymentID (Value s)) (PGeneration (Value s)) =
      Ok \<lparr>Value = v, Stored = Stored s\<rparr>"
    by (auto simp: open_pairing_def opened_def file_value_def sound_def extends_def split: private_file.splits)
  then show ?thesis using v by (simp add: restart_def agree_def)
qed

lemma pairing_step_durable:
  "durable h \<Longrightarrow> durable (pairing_step n e h) \<and> extends (Value (Local h)) (Value (Local (pairing_step n e h)))"
proof (induction n e h rule: pairing_step.induct)
  case (1 n fails i h)
  then show ?case
    using step_remember[of "Admitted h" "Local h" n fails i _ _ "Admitted (pairing_step n (fails, Remember i) h)"]
    by (cases "remember_inventory n fails i (Local h)") (simp add: durable_def)
next
  case (7 n fails h)
  then show ?case using step_restart[of "Admitted h" "Local h"] by (simp add: durable_def)
qed (simp_all add: durable_def, (rule step_ack step_registered step_prepare step_complete step_resolve, assumption)+)

lemma pairing_run_durable:
  "durable h \<Longrightarrow> durable (pairing_run n es h) \<and> extends (Value (Local h)) (Value (Local (pairing_run n es h)))"
proof (induction es arbitrary: h)
  case (Cons e es)
  have s: "durable (pairing_step n e h)" "extends (Value (Local h)) (Value (Local (pairing_step n e h)))"
    using pairing_step_durable[OF Cons.prems] by auto
  show ?case using Cons.IH[OF s(1)] extends_trans[OF s(2)] by (auto simp: pairing_run_def)
qed (simp add: pairing_run_def)

section \<open>Properties\<close>

text \<open>A collector that was enrolled and has not talked to the hub yet.\<close>

definition demo_uuid :: "char \<Rightarrow> string" where
  "demo_uuid c = replicate 8 c @ ''-'' @ replicate 4 c @ ''-4'' @ replicate 3 c @ ''-8'' @ replicate 3 c @ ''-'' @ replicate 12 c"

definition demo_state :: pairing_state where
  "demo_state = new_state (demo_uuid (CHR ''1'')) (demo_uuid (CHR ''2'')) (demo_uuid (CHR ''3'')) (demo_uuid (CHR ''4''))
     (demo_uuid (CHR ''5'')) True"

definition demo_history :: pairing_history where
  "demo_history = \<lparr>Local = \<lparr>Value = demo_state, Stored = Holds demo_state\<rparr>, Admitted = {}\<rparr>"

abbreviation no_failures :: failures where
  "no_failures \<equiv> (\<lambda>_. None)"

definition demo_inventory :: "bool \<Rightarrow> collector_inventory" where
  "demo_inventory active = \<lparr>InvProtocol = ''1.0'', InvDeploymentID = demo_uuid (CHR ''1''), InvHostID = demo_uuid (CHR ''4''),
     InvSecurityGeneration = demo_uuid (CHR ''2''), InvSessionGeneration = 7, InvCollectorBootID = demo_uuid (CHR ''6''),
     InventoryRevision = replicate 64 CHR ''a'',
     Sources = [\<lparr>InvSourceID = demo_uuid (CHR ''5''), InvKind = ''host'', InvTargetID = None,
                 CapabilityRevision = ''mac-ollama-1'', InvActive = active\<rparr>],
     Targets = [], InvModels = []\<rparr>"

definition demo_result :: session_result where
  "demo_result = \<lparr>ResActivationRequestID = demo_uuid (CHR ''7''), ResSecurityGeneration = demo_uuid (CHR ''2''),
     ResSessionGeneration = 7, ResCollectorBootID = demo_uuid (CHR ''6''), ActivatedMS = 1, ResCurrent = True\<rparr>"

abbreviation demo_activation :: "(failures \<times> pairing_event) list" where
  "demo_activation \<equiv> [(no_failures, Prepare (Some (demo_uuid (CHR ''7''))) (demo_uuid (CHR ''6''))), (no_failures, Restart)]"

lemma result_pair: "fst p = r \<Longrightarrow> p = (r, snd p)"
  by (simp add: prod_eq_iff)

lemma demo_durable: "durable demo_history"
  by (simp add: durable_def demo_history_def agree_def file_value_def sound_def validate_state_iff demo_state_def
      new_state_def demo_uuid_def)

lemma durable_restart:
  "durable h \<Longrightarrow> extends (Value (Local h)) (Value (restart (Local h))) \<and>
     file_value (Stored (Local h)) = Some (Value (restart (Local h))) \<and> sound (Admitted h) (Value (restart (Local h)))"
  using step_restart[of "Admitted h" "Local h"] by (auto simp: durable_def agree_def)

text \<open>
  (C10) After any history of operations, failed writes and restarts, starting the collector again
  works: the file opens under the same deployment and generation, with the same identity, no
  session earlier than the one in use, and every source the hub may have admitted and whose
  retirement it has not acknowledged.
\<close>
theorem pairing_survives_any_history:
  assumes "durable h" and "h' = pairing_run n es h"
  shows "\<exists>s. open_pairing (Stored (Local h')) (PDeploymentID (Value (Local h))) (PGeneration (Value (Local h))) = Ok s \<and>
    PHostID (Value s) = PHostID (Value (Local h)) \<and> HostSourceID (Value s) = HostSourceID (Value (Local h)) \<and>
    PreviousSession (Value (Local h')) \<le> PreviousSession (Value s) \<and>
    Admitted h' \<subseteq> set (source_ids (InventorySources (Value s)))"
proof -
  have d: "durable h'" "extends (Value (Local h)) (Value (Local h'))"
    using pairing_run_durable[OF assms(1)] assms(2) by auto
  then obtain v where v: "file_value (Stored (Local h')) = Some v" "sound (Admitted h') v" "extends (Value (Local h')) v"
    by (auto simp: durable_def agree_def split: option.splits)
  then have "open_pairing (Stored (Local h')) (PDeploymentID (Value (Local h))) (PGeneration (Value (Local h))) =
      Ok \<lparr>Value = v, Stored = Stored (Local h')\<rparr>"
    using d(2) by (auto simp: open_pairing_def opened_def file_value_def sound_def extends_def split: private_file.splits)
  then show ?thesis using v d(2) by (auto simp: sound_def extends_def)
qed

lemma pairing_survives_any_history_witness:
  "\<exists>s. open_pairing (Stored (Local (pairing_run (\<lambda>_. 100) (demo_activation @ [(no_failures, Complete demo_result)]) demo_history)))
     (demo_uuid (CHR ''1'')) (demo_uuid (CHR ''2'')) = Ok s"
proof -
  have i: "PDeploymentID (Value (Local demo_history)) = demo_uuid (CHR ''1'')"
    "PGeneration (Value (Local demo_history)) = demo_uuid (CHR ''2'')"
    by (simp_all add: demo_history_def demo_state_def new_state_def)
  show ?thesis using pairing_survives_any_history[OF demo_durable refl] unfolding i by blast
qed

text \<open>
  (C16) Every inventory the collector is allowed to send names every source the hub may have
  admitted, as active or as retired, until the hub has acknowledged the retirement: whatever
  writes failed and however often the process restarted in between, no source is dropped silently.
\<close>
theorem no_source_dropped_silently:
  assumes "durable h" and "remember_inventory n fails i (Local (pairing_run n es h)) = (Ok (), s)"
  shows "Admitted (pairing_run n es h) \<subseteq> set (source_ids (Sources i))"
proof -
  have "Admitted (pairing_run n es h) \<subseteq> set (source_ids (InventorySources (Value (Local (pairing_run n es h)))))"
    using pairing_run_durable[OF assms(1), of n es] by (auto simp: durable_def agree_def sound_def)
  moreover have "list_all (\<lambda>p. InvSourceID p \<in> set (source_ids (Sources i)))
      (InventorySources (Value (Local (pairing_run n es h))))"
    using assms(2) by (auto simp: remember_inventory_def split: sum.splits if_splits)
  ultimately show ?thesis by (auto simp: list_all_iff source_ids_def)
qed

lemma no_source_dropped_silently_witness:
  "demo_uuid (CHR ''5'') \<in> set (source_ids (Sources (demo_inventory False)))"
proof -
  let ?es = "demo_activation @ [(no_failures, Complete demo_result), (no_failures, Remember (demo_inventory True)),
    (\<lambda>s. if s = SyncDir then Some ''io'' else None, Register), (no_failures, Restart)]"
  let ?h = "pairing_run (\<lambda>_. 100) ?es demo_history"
  have r: "fst (remember_inventory (\<lambda>_. 100) no_failures (demo_inventory False) (Local ?h)) = Ok ()" by code_simp
  have "Admitted ?h = {demo_uuid (CHR ''5'')}" by code_simp
  then show ?thesis
    using no_source_dropped_silently[OF demo_durable result_pair[OF r]] by simp
qed

text \<open>
  (C15) Session generations only go up: the session of an accepted activation is above the one in
  use before any earlier history, and no later history, with whatever failures and restarts,
  brings an earlier one back.
\<close>
theorem session_generations_increase:
  assumes "durable h"
    and "complete_activation n fails r (Local (pairing_run n es h)) = (Ok (), s)"
    and "h' = pairing_run n es' (pairing_step n (fails, Complete r) (pairing_run n es h))"
  shows "PreviousSession (Value (Local h)) < ResSessionGeneration r \<and>
     ResSessionGeneration r \<le> PreviousSession (Value (Local h'))"
proof -
  let ?a = "pairing_run n es h" and ?b = "pairing_step n (fails, Complete r) (pairing_run n es h)"
  have a: "durable ?a" "extends (Value (Local h)) (Value (Local ?a))" using pairing_run_durable[OF assms(1)] by auto
  have b: "durable ?b" using conjunct1[OF pairing_step_durable[OF a(1)]] .
  have "extends (Value (Local ?b)) (Value (Local h'))" using pairing_run_durable[OF b] assms(3) by auto
  moreover obtain q where q: "PendingActivation (Value (Local ?a)) = Some q" "result_matches r q"
    and saved: "save n fails ((Value (Local ?a))\<lparr>PendingActivation := None, PreviousSession := ResSessionGeneration r\<rparr>)
      (Local ?a) = (Ok (), s)"
    using assms(2) by (auto simp: complete_activation_def ptr_and_iff split: if_splits)
  moreover have "PreviousSession (Value (Local ?a)) < ResSessionGeneration r"
    using a(1) q by (auto simp: durable_def agree_def sound_def result_matches_def)
  moreover have "PreviousSession (Value (Local ?b)) = ResSessionGeneration r"
    using saved.write_done[OF saved] assms(2) by simp
  ultimately show ?thesis using a(2) by (auto simp: extends_def)
qed

lemma session_generations_increase_witness:
  "7 \<le> PreviousSession (Value (Local (pairing_run (\<lambda>_. 100) [(no_failures, Restart)]
     (pairing_step (\<lambda>_. 100) (no_failures, Complete demo_result) (pairing_run (\<lambda>_. 100) demo_activation demo_history)))))"
proof -
  have "fst (complete_activation (\<lambda>_. 100) no_failures demo_result
      (Local (pairing_run (\<lambda>_. 100) demo_activation demo_history))) = Ok ()" by code_simp
  then have "complete_activation (\<lambda>_. 100) no_failures demo_result
      (Local (pairing_run (\<lambda>_. 100) demo_activation demo_history)) =
      (Ok (), snd (complete_activation (\<lambda>_. 100) no_failures demo_result
      (Local (pairing_run (\<lambda>_. 100) demo_activation demo_history))))" by (simp add: prod_eq_iff)
  from session_generations_increase[OF demo_durable this refl] show ?thesis by (simp add: demo_result_def)
qed

text \<open>
  An activation request that was handed out is the one the collector asks with after a
  restart, whatever boot identity the new process has: the handshake cannot fork.
\<close>
theorem activation_request_survives_restart:
  assumes "durable h" "PendingActivation (Value (Local h)) = None"
    and "prepare_activation n fails u boot (Local h) = (Ok q, s)"
  shows "fst (prepare_activation n' fails' u' boot' (restart s)) = Ok q"
proof -
  have s: "s = snd (prepare_activation n fails u boot (Local h))" using assms(3) by simp
  have d: "durable \<lparr>Local = s, Admitted = Admitted h\<rparr>"
    using step_prepare[of "Admitted h" "Local h" n fails u boot] assms(1) unfolding s by (simp add: durable_def)
  obtain w where w: "save n fails w (Local h) = (Ok (), s)" "PendingActivation w = Some q"
    using assms(2,3) by (auto simp: prepare_activation_def Let_def split: option.splits sum.splits prod.splits)
  have "file_value (Stored s) = Some w" using saved.write_done[OF w(1)] by simp
  then have "Value (restart s) = w" using durable_restart[OF d] by simp
  then show ?thesis using w(2) by (simp add: prepare_activation_def)
qed

lemma activation_request_survives_restart_witness:
  "fst (prepare_activation (\<lambda>_. 100) no_failures None [] (restart (snd (prepare_activation (\<lambda>_. 100) no_failures
     (Some (demo_uuid (CHR ''7''))) (demo_uuid (CHR ''6'')) (Local demo_history))))) =
   Ok (activation_request (demo_uuid (CHR ''7'')) (demo_uuid (CHR ''6'')) demo_state)"
proof -
  let ?r = "prepare_activation (\<lambda>_. 100) no_failures (Some (demo_uuid (CHR ''7''))) (demo_uuid (CHR ''6'')) (Local demo_history)"
  have "fst ?r = Ok (activation_request (demo_uuid (CHR ''7'')) (demo_uuid (CHR ''6'')) demo_state)" by code_simp
  then have "?r = (Ok (activation_request (demo_uuid (CHR ''7'')) (demo_uuid (CHR ''6'')) demo_state), snd ?r)"
    by (simp add: prod_eq_iff)
  moreover have "PendingActivation (Value (Local demo_history)) = None" by code_simp
  ultimately show ?thesis using activation_request_survives_restart[OF demo_durable] by blast
qed

lemma find_append_new: "\<forall>x \<in> set xs. \<not> P x \<Longrightarrow> P y \<Longrightarrow> find P (xs @ [y]) = Some y"
  by (induction xs) auto

lemma known_model_prefix:
  "prefix ms ms' \<Longrightarrow> known_model t a d ms = Some m \<Longrightarrow> known_model t a d ms' = Some m"
  by (auto simp: known_model_def prefix_def find_Some_iff nth_append)

text \<open>
  A model keeps its identity: once the collector has resolved a target, alias and digest to
  an identity, it resolves them to the same one after any history of operations, failed writes
  and restarts, also when the identity was created by a call in between.
\<close>
theorem model_identity_stable:
  assumes "durable h" and "resolve_model_id n fails c u t a d (Local h) = (Ok i, s)"
  shows "fst (resolve_model_id n' fails' None u' t a d
     (Local (pairing_run n es (pairing_step n (fails, Resolve c u t a d) h)))) = Ok i"
proof -
  let ?b = "pairing_step n (fails, Resolve c u t a d) h"
  have b: "durable ?b" using conjunct1[OF pairing_step_durable[OF assms(1)]] .
  have "\<exists>m. known_model t a d (PModels (Value s)) = Some m \<and> MID m = i"
  proof (cases "known_model t a d (PModels (Value (Local h)))")
    case (Some m)
    then show ?thesis using assms(2) by (auto simp: resolve_model_id_def split: option.splits)
  next
    case None
    let ?w = "(Value (Local h))\<lparr>PModels := PModels (Value (Local h)) @ [\<lparr>MID = i, MTargetID = t, MAlias = a, MDigest = d\<rparr>]\<rparr>"
    have "save n fails ?w (Local h) = (Ok (), s)"
      using assms(2) None by (auto simp: resolve_model_id_def split: option.splits if_splits sum.splits prod.splits)
    then have "Value s = ?w" using saved.write_done by blast
    moreover have "\<forall>m \<in> set (PModels (Value (Local h))). \<not> (MTargetID m = t \<and> MAlias m = a \<and> MDigest m = d)"
      using None by (simp add: known_model_def find_None_iff)
    ultimately show ?thesis by (simp add: known_model_def find_append_new)
  qed
  then obtain m where m: "known_model t a d (PModels (Value s)) = Some m" "MID m = i" by auto
  have "Local ?b = s" using assms(2) by simp
  then have "extends (Value s) (Value (Local (pairing_run n es ?b)))" using pairing_run_durable[OF b] by auto
  then have "known_model t a d (PModels (Value (Local (pairing_run n es ?b)))) = Some m"
    using known_model_prefix[OF _ m(1)] by (simp add: extends_def)
  then show ?thesis using m(2) by (simp add: resolve_model_id_def)
qed

lemma model_identity_stable_witness:
  "fst (resolve_model_id (\<lambda>_. 100) no_failures None None ''t'' ''llama3'' ''d''
     (Local (pairing_run (\<lambda>_. 100) [(no_failures, Restart)] (pairing_step (\<lambda>_. 100)
       (no_failures, Resolve None (Some ''m1'') ''t'' ''llama3'' ''d'') demo_history)))) = Ok ''m1''"
proof -
  let ?r = "resolve_model_id (\<lambda>_. 100) no_failures None (Some ''m1'') ''t'' ''llama3'' ''d'' (Local demo_history)"
  have "fst ?r = Ok ''m1''" by code_simp
  then have "?r = (Ok ''m1'', snd ?r)" by (simp add: prod_eq_iff)
  from model_identity_stable[OF demo_durable this] show ?thesis .
qed

text \<open>
  An interrupted re-enrollment can be run again: whatever failed the first time, a second run
  in which nothing fails ends with the same error or the same state as if the first had never been
  tried.
\<close>
theorem re_enrollment_retries:
  assumes "re_enroll n fails targets dep previous new_gen installation host f = (r, f')"
  shows "map_sum id Value (fst (re_enroll n (\<lambda>_. None) (Ok ()) dep previous new_gen installation host f')) =
     map_sum id Value (fst (re_enroll n (\<lambda>_. None) (Ok ()) dep previous new_gen installation host f))"
proof (cases "f' = f")
  case False
  then obtain v where v: "read_retained f dep host = Ok v" "PGeneration v = previous" "InstallationID v = installation"
    "dep \<noteq> []" "previous \<noteq> []" "new_gen \<noteq> []" "previous \<noteq> new_gen" "installation \<noteq> []" "host \<noteq> []"
    and w: "f' = Holds (v\<lparr>PGeneration := new_gen, Registered := True, PreviousSession := 0,
        PendingActivation := None, PendingInventoryRevision := []\<rparr>)"
      "n (v\<lparr>PGeneration := new_gen, Registered := True, PreviousSession := 0,
        PendingActivation := None, PendingInventoryRevision := []\<rparr>) \<le> max_state_bytes"
    using assms by (auto simp: re_enroll_def Let_def write_private_file_def split: sum.splits if_splits option.splits prod.splits)
  have ok: "validate_state v = Ok ()" "PDeploymentID v = dep" "PHostID v = host"
    using v by (auto simp: read_retained_def Let_def split: private_file.splits if_splits)
  have none: "first_failure (\<lambda>_. None) ss = None" for ss by (induction ss) auto
  let ?w = "v\<lparr>PGeneration := new_gen, Registered := True, PreviousSession := 0,
        PendingActivation := None, PendingInventoryRevision := []\<rparr>"
  have "read_retained f' dep host = Ok ?w"
    using w(1) v ok by (simp add: read_retained_def validate_state_iff)
  then have "fst (re_enroll n (\<lambda>_. None) (Ok ()) dep previous new_gen installation host f') = Ok \<lparr>Value = ?w, Stored = f'\<rparr>"
    using v by (simp add: re_enroll_def)
  moreover have "map_sum id Value (fst (re_enroll n (\<lambda>_. None) (Ok ()) dep previous new_gen installation host f)) = Ok ?w"
    using v w(2) by (simp add: re_enroll_def write_private_file_def none Let_def)
  ultimately show ?thesis by simp
qed simp

lemma re_enrollment_retries_witness:
  "map_sum id PGeneration (map_sum id Value (fst (re_enroll (\<lambda>_. 100) no_failures (Ok ()) (demo_uuid (CHR ''1''))
     (demo_uuid (CHR ''2'')) (demo_uuid (CHR ''8'')) (demo_uuid (CHR ''3'')) (demo_uuid (CHR ''4''))
     (snd (re_enroll (\<lambda>_. 100) (\<lambda>s. if s = SyncDir then Some ''io'' else None) (Ok ()) (demo_uuid (CHR ''1''))
       (demo_uuid (CHR ''2'')) (demo_uuid (CHR ''8'')) (demo_uuid (CHR ''3'')) (demo_uuid (CHR ''4'')) (Holds demo_state))))))
   = Ok (demo_uuid (CHR ''8''))"
proof -
  have "map_sum id PGeneration (map_sum id Value (fst (re_enroll (\<lambda>_. 100) no_failures (Ok ()) (demo_uuid (CHR ''1''))
     (demo_uuid (CHR ''2'')) (demo_uuid (CHR ''8'')) (demo_uuid (CHR ''3'')) (demo_uuid (CHR ''4'')) (Holds demo_state))))
     = Ok (demo_uuid (CHR ''8''))" by code_simp
  then show ?thesis
    using re_enrollment_retries[OF prod.collapse[symmetric], where f = "Holds demo_state"] by metis
qed

end
