(* ===== verification/Targets.thy ===== *)
theory Targets
  imports Pairing
begin

text \<open>
  \<open>internal/collector/pairing/target.go\<close> and \<open>internal/lifecycle/default_target.go\<close>: the endpoint
  this collector watches. The file holds the configured endpoints, the retired ones with them,
  and the receipts that make a change idempotent. The hashes of a request and of an endpoint are
  parameters: they are SHA-256 over the JSON text.
\<close>

section \<open>Data\<close>

record endpoint =
  Scheme :: string
  EHost :: string
  Port :: int
  BasePath :: string

text \<open>\<open>net.JoinHostPort\<close> puts brackets around a host with a colon. The port of a valid manifest is not
  negative.\<close>

definition join_host_port :: "string \<Rightarrow> string \<Rightarrow> string" where
  "join_host_port host port =
     (if CHR '':'' \<in> set host then ''['' @ host @ '']:'' @ port else host @ '':'' @ port)"

definition endpoint_url :: "endpoint \<Rightarrow> string" where
  "endpoint_url e = Scheme e @ ''://'' @ join_host_port (EHost e) (decimal (nat (Port e)))"

record target_manifest =
  ManSchemaVersion :: string
  ManifestID :: string
  ManManifestRevision :: int
  ManAdapterID :: string
  ManEndpoint :: endpoint
  ManIdentityRevision :: string
  DisplayName :: string

text \<open>A control character is below 32, is 127, or is one of the C1 controls, whose UTF-8 text is the
  byte 194 and a byte from 128 to 159.\<close>

fun no_controls :: "string \<Rightarrow> bool" where
  "no_controls [] = True"
| "no_controls [a] = (\<not> (byte a \<le> 31 \<or> byte a = 127))"
| "no_controls (a # b # s) =
     (\<not> (byte a \<le> 31 \<or> byte a = 127) \<and> \<not> (byte a = 194 \<and> between 128 b 159) \<and> no_controls (b # s))"

definition validate_manifest :: "target_manifest \<Rightarrow> (message, unit) result" where
  "validate_manifest m = checks
     [require (\<not> (ManSchemaVersion m \<noteq> ''1.0'' \<or> \<not> valid_uuid (ManifestID m) \<or> ManManifestRevision m < 1
         \<or> ManManifestRevision m > 1000000 \<or> ManAdapterID m \<noteq> ''ollama'' \<or> \<not> valid_sha256 (ManIdentityRevision m)))
        ''invalid manifest identity or revision'',
      require (\<not> (Scheme (ManEndpoint m) \<noteq> ''http''
         \<or> (EHost (ManEndpoint m) \<noteq> ''127.0.0.1'' \<and> EHost (ManEndpoint m) \<noteq> ''::1'')
         \<or> Port (ManEndpoint m) < 1 \<or> Port (ManEndpoint m) > 65535 \<or> BasePath (ManEndpoint m) \<noteq> []))
        ''manifest endpoint must be literal loopback HTTP with an explicit port and no path'',
      require (\<not> (DisplayName m = [] \<or> int (length (DisplayName m)) > 256 \<or> \<not> valid_utf8 (DisplayName m)))
        ''invalid target display name'',
      require (no_controls (DisplayName m)) ''invalid target display name'']"

record local_target =
  TTargetID :: string
  TSourceID :: string
  TRevision :: int64
  TManifest :: target_manifest
  TManifestSHA256 :: string
  TSelectorSHA256 :: string
  Retired :: bool

record target_result =
  TrStatus :: string
  ResourceID :: "string option"
  SafeCode :: string

record target_receipt =
  ReKey :: string
  ReHash :: string
  ReAtMS :: int64
  ReResult :: target_result

record target_state =
  TsVersion :: int
  TsGeneration :: string
  TsTargets :: "local_target list"
  Receipts :: "target_receipt list"

definition validate_target_state :: "target_state \<Rightarrow> string \<Rightarrow> (message, unit) result" where
  "validate_target_state v gen = checks
     [require (\<not> (TsVersion v \<noteq> 1 \<or> TsGeneration v \<noteq> gen \<or> int (length (TsTargets v)) > 128
         \<or> int (length (Receipts v)) > 256)) ''target state requires recovery'',
      for_each (\<lambda>t. checks
        [validate_manifest (TManifest t),
         require (valid_uuid (TTargetID t) \<and> valid_uuid (TSourceID t) \<and> valid_sha256 (TSelectorSHA256 t))
           ''invalid target state'']) (TsTargets v),
      require (\<not> length (filter (\<lambda>t. \<not> Retired t) (TsTargets v)) > 1) ''more than one local target configured'']"

definition empty_targets :: "string \<Rightarrow> target_state" where
  "empty_targets gen = \<lparr>TsVersion = 1, TsGeneration = gen, TsTargets = [], Receipts = []\<rparr>"

definition read_targets :: "target_state private_file \<Rightarrow> string \<Rightarrow> (message, target_state) result" where
  "read_targets f gen =
     (case f of
        Absent \<Rightarrow> Ok (empty_targets gen)
      | Unreadable m \<Rightarrow> Err m
      | Holds v \<Rightarrow> result_bind (validate_target_state v gen) (\<lambda>_. Ok v)
      | _ \<Rightarrow> Err ''strict JSON'')"

definition re_enroll_targets ::
  "(target_state \<Rightarrow> int) \<Rightarrow> failures \<Rightarrow> string \<Rightarrow> string \<Rightarrow> target_state private_file \<Rightarrow>
   (message, unit) result \<times> target_state private_file" where
  "re_enroll_targets jsonlen fails previous next f =
     (case f of
        Absent \<Rightarrow> (Ok (), f)
      | Unreadable m \<Rightarrow> (Err m, f)
      | Holds v \<Rightarrow>
          if TsGeneration v \<noteq> previous \<and> TsGeneration v \<noteq> next
          then (Err ''target generation changed during re-enrollment'', f)
          else (case validate_target_state v (TsGeneration v) of
              Err m \<Rightarrow> (Err m, f)
            | Ok _ \<Rightarrow>
                if TsGeneration v = next then (Ok (), f)
                else let v' = v\<lparr>TsGeneration := next, Receipts := []\<rparr> in
                  if jsonlen v' > max_state_bytes
                  then (Err ''target state capacity exceeded during re-enrollment'', f)
                  else write_private_file fails v' f)
      | _ \<Rightarrow> (Err ''strict JSON'', f))"

section \<open>Changing the target\<close>

record target_request =
  Key :: string
  Operation :: string
  RTargetID :: string
  ExpectedRevision :: int
  RManifest :: "target_manifest option"
  ManifestHash :: string

text \<open>What the call finds around it: the error of taking the lock, the clock, the two random
  identities and the failing steps of the write.\<close>

record apply_env =
  LockFails :: "message option"
  ApplyNow :: int64
  FreshTarget :: "string option"
  FreshSource :: "string option"
  WriteFails :: failures

definition receipt_ttl_ms :: int64 where "receipt_ttl_ms = 86400000"

datatype receipt_scan = Conflict | Replay target_result | Fresh "target_receipt list"

fun scan_receipts :: "int64 \<Rightarrow> string \<Rightarrow> string \<Rightarrow> target_receipt list \<Rightarrow> target_receipt list \<Rightarrow> receipt_scan" where
  "scan_receipts now key hash kept [] = Fresh kept"
| "scan_receipts now key hash kept (r # rs) =
     (if sub64 now (ReAtMS r) > receipt_ttl_ms then scan_receipts now key hash kept rs
      else if ReKey r = key then (if ReHash r \<noteq> hash then Conflict else Replay (ReResult r))
      else scan_receipts now key hash (kept @ [r]) rs)"

text \<open>The loop keeps the last target that is not retired.\<close>

definition active_index :: "local_target list \<Rightarrow> nat option" where
  "active_index ts = (case filter (\<lambda>i. \<not> Retired (ts ! i)) [0..<length ts] of [] \<Rightarrow> None | i # is \<Rightarrow> Some (last (i # is)))"

definition no_manifest :: target_manifest where
  "no_manifest = \<lparr>ManSchemaVersion = [], ManifestID = [], ManManifestRevision = 0, ManAdapterID = [],
     ManEndpoint = \<lparr>Scheme = [], EHost = [], Port = 0, BasePath = []\<rparr>, ManIdentityRevision = [], DisplayName = []\<rparr>"

definition new_target :: "string \<Rightarrow> string \<Rightarrow> local_target" where
  "new_target t s = \<lparr>TTargetID = t, TSourceID = s, TRevision = 1, TManifest = no_manifest, TManifestSHA256 = [],
     TSelectorSHA256 = [], Retired = False\<rparr>"

definition add_new :: "apply_env \<Rightarrow> local_target list \<Rightarrow> (message, local_target list \<times> nat) result" where
  "add_new env ts =
     (case (FreshTarget env, FreshSource env) of
        (Some t, Some s) \<Rightarrow> Ok (ts @ [new_target t s], length ts)
      | _ \<Rightarrow> Err no_randomness)"

definition reusable :: "(endpoint \<Rightarrow> string) \<Rightarrow> target_manifest \<Rightarrow> local_target list \<Rightarrow> nat \<Rightarrow> nat option" where
  "reusable selector m ts active = find (\<lambda>i. i \<noteq> active \<and> Retired (ts ! i)
     \<and> TSelectorSHA256 (ts ! i) = selector (ManEndpoint m) \<and> ManifestID (TManifest (ts ! i)) = ManifestID m
     \<and> ManAdapterID (TManifest (ts ! i)) = ManAdapterID m) [0..<length ts]"

definition with_manifest :: "(endpoint \<Rightarrow> string) \<Rightarrow> target_manifest \<Rightarrow> string \<Rightarrow> local_target \<Rightarrow> local_target" where
  "with_manifest selector m hash t =
     t\<lparr>TManifest := m, TManifestSHA256 := hash, TSelectorSHA256 := selector (ManEndpoint m)\<rparr>"

text \<open>The three operations give the targets and the index of the one they changed.\<close>

definition apply_add :: "apply_env \<Rightarrow> local_target list \<Rightarrow> (message, local_target list \<times> nat) result" where
  "apply_add env ts =
     (if active_index ts \<noteq> None then Err ''a local target already exists; use targets edit''
      else if int (length ts) \<ge> 128
      then Err ''retired target identity capacity reached; preserve history and review maintenance''
      else add_new env ts)"

definition apply_edit ::
  "(endpoint \<Rightarrow> string) \<Rightarrow> apply_env \<Rightarrow> target_request \<Rightarrow> target_manifest \<Rightarrow> local_target list \<Rightarrow>
   (message, local_target list \<times> nat) result" where
  "apply_edit selector env q m ts =
     (case active_index ts of
        None \<Rightarrow> Err ''target revision changed; reread current state''
      | Some a \<Rightarrow>
          let t = ts ! a in
          if TTargetID t \<noteq> RTargetID q \<or> TRevision t \<noteq> ExpectedRevision q
          then Err ''target revision changed; reread current state''
          else if ManifestID m \<noteq> ManifestID (TManifest t) \<or> ManManifestRevision m \<le> ManManifestRevision (TManifest t)
          then Err ''edited manifest must advance the same manifest revision''
          else if selector (ManEndpoint m) \<noteq> TSelectorSHA256 t
          then (let ts' = ts[a := t\<lparr>Retired := True\<rparr>] in
            case reusable selector m ts' a of
              Some i \<Rightarrow> Ok (ts'[i := (with_manifest selector m (ManifestHash q) (ts' ! i))
                                    \<lparr>TRevision := add64 (TRevision (ts' ! i)) 1, Retired := False\<rparr>], i)
            | None \<Rightarrow> if int (length ts') \<ge> 128 then Err ''retired target identity capacity reached''
                      else add_new env ts')
          else Ok (ts[a := t\<lparr>TRevision := add64 (TRevision t) 1\<rparr>], a))"

definition apply_remove :: "target_request \<Rightarrow> local_target list \<Rightarrow> (message, local_target list \<times> nat) result" where
  "apply_remove q ts =
     (case active_index ts of
        None \<Rightarrow> Err ''target is not active''
      | Some a \<Rightarrow>
          if TTargetID (ts ! a) \<noteq> RTargetID q then Err ''target is not active''
          else Ok (ts[a := (ts ! a)\<lparr>Retired := True, TRevision := add64 (TRevision (ts ! a)) 1\<rparr>], a))"

definition apply_operation ::
  "(endpoint \<Rightarrow> string) \<Rightarrow> apply_env \<Rightarrow> target_request \<Rightarrow> local_target list \<Rightarrow>
   (message, local_target list \<times> nat) result" where
  "apply_operation selector env q ts =
     (if Operation q = ''remove'' then apply_remove q ts
      else case RManifest q of
        None \<Rightarrow> Err ''reviewed manifest and hash required''
      | Some m \<Rightarrow>
          if \<not> valid_sha256 (ManifestHash q) then Err ''reviewed manifest and hash required''
          else result_bind (validate_manifest m) (\<lambda>_.
            result_bind
              (if Operation q = ''add'' then apply_add env ts
               else if Operation q = ''edit'' then apply_edit selector env q m ts
               else Err ''unknown target operation'')
              (\<lambda>(ts', i). Ok (ts'[i := with_manifest selector m (ManifestHash q) (ts' ! i)], i))))"

definition apply_result :: "target_request \<Rightarrow> local_target \<Rightarrow> target_result" where
  "apply_result q t = \<lparr>TrStatus = ''succeeded'', ResourceID = Some (TTargetID t),
                       SafeCode = ''local_target_'' @ Operation q\<rparr>"

definition apply_target ::
  "(target_state \<Rightarrow> int) \<Rightarrow> (target_request \<Rightarrow> string) \<Rightarrow> (endpoint \<Rightarrow> string) \<Rightarrow> apply_env \<Rightarrow> string \<Rightarrow> target_request \<Rightarrow>
   target_state private_file \<Rightarrow> (message, target_result) result \<times> target_state private_file" where
  "apply_target jsonlen request_hash selector env gen q f =
     (if \<not> valid_uuid (Key q) then (Err ''idempotency key must be a UUID'', f)
      else case LockFails env of
        Some m \<Rightarrow> (Err m, f)
      | None \<Rightarrow> (case read_targets f gen of
          Err m \<Rightarrow> (Err m, f)
        | Ok state \<Rightarrow> (case scan_receipts (ApplyNow env) (Key q) (request_hash q) [] (Receipts state) of
            Conflict \<Rightarrow> (Err ''idempotency key was used for different input'', f)
          | Replay result \<Rightarrow> (Ok result, f)
          | Fresh receipts \<Rightarrow>
              if int (length receipts) \<ge> 256
              then (Err ''local action receipt capacity busy; retry after receipts expire'', f)
              else (case apply_operation selector env q (TsTargets state) of
                  Err m \<Rightarrow> (Err m, f)
                | Ok (ts, i) \<Rightarrow>
                    let result = apply_result q (ts ! i);
                        state' = state\<lparr>TsTargets := ts, Receipts := receipts @
                          [\<lparr>ReKey = Key q, ReHash = request_hash q, ReAtMS = ApplyNow env, ReResult = result\<rparr>]\<rparr>
                    in if jsonlen state' > max_state_bytes then (Err ''target state capacity exceeded'', f)
                    else (case write_private_file (WriteFails env) state' f of
                        (Err m, f') \<Rightarrow> (Err m, f')
                      | (Ok _, f') \<Rightarrow> (Ok result, f'))))))"

section \<open>The default target\<close>

definition default_endpoint :: endpoint where
  "default_endpoint = \<lparr>Scheme = ''http'', EHost = ''127.0.0.1'', Port = 11434, BasePath = []\<rparr>"

definition default_manifest :: "(endpoint \<Rightarrow> string) \<Rightarrow> string \<Rightarrow> target_manifest" where
  "default_manifest selector uuid =
     \<lparr>ManSchemaVersion = SchemaVersion, ManifestID = uuid, ManManifestRevision = 1, ManAdapterID = ''ollama'',
      ManEndpoint = default_endpoint, ManIdentityRevision = selector default_endpoint, DisplayName = ''Local Ollama''\<rparr>"

definition has_active_target :: "target_state private_file \<Rightarrow> string \<Rightarrow> (message, bool) result" where
  "has_active_target f gen =
     result_bind (read_targets f gen) (\<lambda>v. Ok (list_ex (\<lambda>t. \<not> Retired t) (TsTargets v)))"

definition ensure_default_target ::
  "(target_state \<Rightarrow> int) \<Rightarrow> (target_request \<Rightarrow> string) \<Rightarrow> (endpoint \<Rightarrow> string) \<Rightarrow> (target_manifest \<Rightarrow> string) \<Rightarrow>
   string option \<Rightarrow> string option \<Rightarrow> apply_env \<Rightarrow> string \<Rightarrow> target_state private_file \<Rightarrow>
   (message, bool) result \<times> target_state private_file" where
  "ensure_default_target jsonlen request_hash selector manifest_hash manifest_id key env gen f =
     (case has_active_target f gen of
        Err m \<Rightarrow> (Err m, f)
      | Ok True \<Rightarrow> (Ok False, f)
      | Ok False \<Rightarrow> (case (manifest_id, key) of
          (Some mid, Some k) \<Rightarrow>
            (let m = default_manifest selector mid in
             case apply_target jsonlen request_hash selector env gen
                \<lparr>Key = k, Operation = ''add'', RTargetID = [], ExpectedRevision = 0, RManifest = Some m,
                 ManifestHash = manifest_hash m\<rparr> f of
               (Err e, f') \<Rightarrow> (Err e, f')
             | (Ok _, f') \<Rightarrow> (Ok True, f'))
        | _ \<Rightarrow> (Err no_randomness, f)))"

definition require_active_target :: "target_state private_file \<Rightarrow> string \<Rightarrow> (message, unit) result" where
  "require_active_target f gen =
     result_bind (has_active_target f gen) (\<lambda>active. require active ''no local Ollama target is configured'')"

text \<open>The manifest file is read once, and the same bytes are hashed and decoded; the hash and the
  strict decoder are parameters.\<close>

definition load_manifest ::
  "(string \<Rightarrow> string) \<Rightarrow> (string \<Rightarrow> (message, target_manifest) result) \<Rightarrow> (message, string) result \<Rightarrow> string \<Rightarrow>
   (message, target_manifest) result" where
  "load_manifest sha256 decode file expected =
     result_bind file (\<lambda>data.
       if int (length data) > 65536 then Err ''manifest exceeds 64KiB''
       else if sha256 data \<noteq> expected then Err ''manifest SHA-256 changed; review the current file''
       else result_bind (decode data) (\<lambda>m. result_bind (validate_manifest m) (\<lambda>_. Ok m)))"

end
