(* ===== verification/HubInventory.thy ===== *)
theory HubInventory
  imports Hub
begin

text \<open>
  \<open>internal/store/inventory.go\<close>: the local host's registration and re-enrollment, and the
  admission of a collector's inventory with its sources, targets and models.
\<close>

section \<open>The local host\<close>

record owner_context =
  OwnerDeployment :: string
  OwnerGeneration :: string
  VerifiedOSOwner :: bool

text \<open>The capabilities are the outcome of encoding them.\<close>

record host_registration =
  RegHost :: string
  RegInstallation :: string
  RegName :: string
  RegVersion :: string
  RegCapabilities :: "string option"

definition nullable_text :: "string \<Rightarrow> string option" where
  "nullable_text s = (if s = [] then None else Some s)"

definition valid_registration_texts :: "host_registration \<Rightarrow> bool" where
  "valid_registration_texts q \<longleftrightarrow> 1 \<le> sql_length (RegName q) \<and> sql_length (RegName q) \<le> 128 \<and>
     sql_length (RegVersion q) \<le> 128"

definition active_hosts :: "string \<Rightarrow> host_row list \<Rightarrow> nat" where
  "active_hosts d hs = length (filter (\<lambda>r. HDeployment r = d \<and> HRetired r = None) hs)"

definition set_registration :: "host_registration \<Rightarrow> string \<Rightarrow> int64 \<Rightarrow> host_row \<Rightarrow> host_row" where
  "set_registration q caps now r =
     r\<lparr>HDisplayName := RegName q, HVersion := nullable_text (RegVersion q), HCapabilities := caps, HUpdated := now\<rparr>"

definition write_audit ::
  "string option \<Rightarrow> string \<Rightarrow> string \<Rightarrow> string \<Rightarrow> int64 \<Rightarrow> (string \<times> string) option \<Rightarrow> hub \<Rightarrow> hub outcome" where
  "write_audit uuid d action resource now generations h =
     (case uuid of
        None \<Rightarrow> Err (ErrDatabase ''read random'')
      | Some u \<Rightarrow>
          if list_ex (\<lambda>a. AuditID a = u) (Audit h) then Err (ErrConstraint ''audit'')
          else Ok (h\<lparr>Audit := Audit h @ [\<lparr>AuditID = u, AuditDeployment = d, AuditAction = action,
                AuditResource = resource, AuditTime = now, AuditGenerations = generations\<rparr>]\<rparr>))"

definition insert_host :: "host_row \<Rightarrow> host_row list \<Rightarrow> host_row list outcome" where
  "insert_host r rs =
     (if active_hosts (HDeployment r) rs \<ge> 2 then Err (ErrConstraint ''active_host_cap_2'')
      else if length (HID r) \<noteq> 36 \<or> length (HInstallation r) \<noteq> 36 \<or> HCreated r < 0 then Err (ErrConstraint ''hosts'')
      else Ok (rs @ [r]))"

definition register_body ::
  "int64 \<Rightarrow> string option \<Rightarrow> owner_context \<Rightarrow> host_registration \<Rightarrow> string \<Rightarrow> hub \<Rightarrow> (unit \<times> hub) outcome" where
  "register_body now uuid owner q caps h =
     (let d = OwnerDeployment owner;
          p = (\<lambda>r. host_is d (RegHost q) r \<and> HInstallation r = RegInstallation q \<and> HRetired r = None) in
      result_bind (deployment h d) (\<lambda>dep.
      if DepRecovery dep \<noteq> ''normal'' \<or> DepGeneration dep \<noteq> OwnerGeneration owner then Err ErrAdmissionFenced
      else if list_ex p (Hosts h) \<and> (\<not> valid_registration_texts q \<or> list_ex (\<lambda>r. p r \<and> now < HCreated r) (Hosts h))
      then Err (ErrConstraint ''hosts'')
      else result_bind
        (if list_ex p (Hosts h) then Ok (update_where p (set_registration q caps now) (Hosts h))
         else if list_ex (\<lambda>r. HID r = RegHost q \<or> (HDeployment r = d \<and> HInstallation r = RegInstallation q)) (Hosts h)
         then Err ErrOwnershipMismatch
         else if \<not> valid_registration_texts q then Err (ErrConstraint ''hosts'')
         else insert_host \<lparr>HID = RegHost q, HDeployment = d, HDisplayName = RegName q, HInstallation = RegInstallation q,
                HCurrentSession = 0, HLastBoot = None, HVersion = nullable_text (RegVersion q), HCapabilities = caps,
                HRetired = None, HCreated = now, HUpdated = now\<rparr> (Hosts h))
        (\<lambda>hs. result_bind (write_audit uuid d ''collector.local_host.register'' (RegHost q) now None (h\<lparr>Hosts := hs\<rparr>))
           (\<lambda>h'. Ok ((), h')))))"

definition register_local_host ::
  "hub_env \<Rightarrow> string option \<Rightarrow> owner_context \<Rightarrow> host_registration \<Rightarrow> hub \<Rightarrow> unit outcome \<times> hub" where
  "register_local_host env uuid owner q h =
     (if \<not> VerifiedOSOwner owner \<or> OwnerDeployment owner = [] \<or> OwnerGeneration owner = [] \<or> RegHost q = []
         \<or> RegInstallation q = [] \<or> RegName q = []
      then (Err ErrOwnershipMismatch, h)
      else case RegCapabilities q of
        None \<Rightarrow> (Err (ErrInvalid ''invalid host capabilities''), h)
      | Some caps \<Rightarrow>
          if length caps > 65536 then (Err (ErrInvalid ''invalid host capabilities''), h)
          else transaction env h (register_body (HubNow env) uuid owner q caps h))"

definition prior_re_enrollment :: "string \<Rightarrow> string \<Rightarrow> string \<Rightarrow> string \<Rightarrow> audit_row list \<Rightarrow> nat" where
  "prior_re_enrollment d host generation previous as =
     length (filter (\<lambda>a. AuditDeployment a = d \<and> AuditAction a = ''collector.local_host.reenroll''
       \<and> AuditResource a = host \<and> AuditGenerations a = Some (previous, generation)) as)"

definition re_enroll_body ::
  "int64 \<Rightarrow> string option \<Rightarrow> owner_context \<Rightarrow> host_registration \<Rightarrow> string \<Rightarrow> string \<Rightarrow> hub \<Rightarrow> (unit \<times> hub) outcome" where
  "re_enroll_body now uuid owner q caps previous h =
     (let d = OwnerDeployment owner; i = RegHost q in
      result_bind (deployment h d) (\<lambda>dep.
      result_bind (owned (find (\<lambda>g. GenDeployment g = d \<and> Generation g = DepGeneration dep) (Generations h))) (\<lambda>g.
      if DepRecovery dep \<noteq> ''normal'' \<or> DepGeneration dep \<noteq> OwnerGeneration owner \<or> GenReason g \<noteq> ''restore_bootstrap''
      then Err ErrAdmissionFenced
      else if length (filter (\<lambda>x. GenDeployment x = d \<and> Generation x = previous \<and> Generation x \<noteq> DepGeneration dep)
                (Generations h)) \<noteq> 1
      then Err ErrReEnrollmentDenied
      else case find (host_is d i) (Hosts h) of
        None \<Rightarrow> Err ErrReEnrollmentDenied
      | Some host \<Rightarrow>
          if HInstallation host \<noteq> RegInstallation q \<or> HCurrentSession host \<noteq> 0 \<or> HLastBoot host \<noteq> None
          then Err ErrReEnrollmentDenied
          else if (d, i) \<in> set (RemoteEnrollments h)
                  \<or> list_ex (\<lambda>r. session_of d i r \<and> SSuperseded r = None) (Sessions h)
          then Err ErrReEnrollmentDenied
          else if HRetired host = None
          then (if prior_re_enrollment d i (DepGeneration dep) previous (Audit h) \<noteq> 1 then Err ErrReEnrollmentDenied
                else Ok ((), h))
          else if active_hosts d (Hosts h) \<ge> 2 then Err (ErrConstraint ''active_host_cap_2'')
          else if \<not> valid_registration_texts q \<or> now < HCreated host then Err (ErrConstraint ''hosts'')
          else result_bind (write_audit uuid d ''collector.local_host.reenroll'' i now (Some (previous, DepGeneration dep))
              (h\<lparr>Hosts := update_where (\<lambda>r. host_is d i r \<and> HInstallation r = RegInstallation q \<and> HRetired r \<noteq> None)
                 (\<lambda>r. (set_registration q caps now r)\<lparr>HRetired := None, HCurrentSession := 0, HLastBoot := None\<rparr>)
                 (Hosts h)\<rparr>))
            (\<lambda>h'. Ok ((), h')))))"

definition re_enroll_local_host ::
  "hub_env \<Rightarrow> string option \<Rightarrow> owner_context \<Rightarrow> host_registration \<Rightarrow> string \<Rightarrow> hub \<Rightarrow> unit outcome \<times> hub" where
  "re_enroll_local_host env uuid owner q previous h =
     (if \<not> VerifiedOSOwner owner \<or> OwnerDeployment owner = [] \<or> OwnerGeneration owner = [] \<or> previous = []
         \<or> previous = OwnerGeneration owner \<or> \<not> valid_uuid (RegHost q) \<or> \<not> valid_uuid (RegInstallation q) \<or> RegName q = []
      then (Err ErrOwnershipMismatch, h)
      else case RegCapabilities q of
        None \<Rightarrow> (Err (ErrInvalid ''invalid host capabilities''), h)
      | Some caps \<Rightarrow>
          if length caps > 65536 then (Err (ErrInvalid ''invalid host capabilities''), h)
          else transaction env h (re_enroll_body (HubNow env) uuid owner q caps previous h))"

section \<open>Sources\<close>

definition passive_kind :: "string \<Rightarrow> bool" where
  "passive_kind k \<longleftrightarrow> k = ''host'' \<or> k = ''runtime''"

definition active_sources :: "(source_row \<Rightarrow> bool) \<Rightarrow> source_row list \<Rightarrow> nat" where
  "active_sources p rs = length (filter (\<lambda>r. SrcRetired r = None \<and> p r) rs)"

text \<open>The caps of the triggers on a source that becomes active.\<close>

definition source_cap_free :: "string \<Rightarrow> string \<Rightarrow> string \<Rightarrow> source_row list \<Rightarrow> bool" where
  "source_cap_free d i kind rs \<longleftrightarrow>
     active_sources (\<lambda>r. SrcDeployment r = d \<and> SrcHost r = i) rs < 8 \<and>
     (passive_kind kind \<longrightarrow>
        active_sources (\<lambda>r. SrcDeployment r = d \<and> SrcHost r = i \<and> passive_kind (SrcKind r)) rs < 2 \<and>
        active_sources (\<lambda>r. SrcDeployment r = d \<and> passive_kind (SrcKind r)) rs < 4)"

definition same_source :: "string \<Rightarrow> string \<Rightarrow> inventory_source \<Rightarrow> source_row \<Rightarrow> bool" where
  "same_source d i s r \<longleftrightarrow> SrcID r = InvSourceID s \<and> SrcDeployment r = d \<and> SrcHost r = i \<and> SrcKind r = InvKind s \<and>
     SrcTarget r = InvTargetID s \<and> SrcRevision r = CapabilityRevision s"

definition target_known :: "string \<Rightarrow> string \<Rightarrow> string option \<Rightarrow> target_row list \<Rightarrow> bool" where
  "target_known d i t ts \<longleftrightarrow> (case t of None \<Rightarrow> True | Some t' \<Rightarrow>
     list_ex (\<lambda>r. TID r = t' \<and> TDeployment r = d \<and> THost r = i) ts)"

definition admit_source ::
  "int64 \<Rightarrow> string \<Rightarrow> string \<Rightarrow> inventory_source \<Rightarrow> target_row list \<Rightarrow> source_row list \<Rightarrow> source_row list outcome" where
  "admit_source now d i s ts rs =
     (let retired = (if InvActive s then None else Some now) in
      case find (same_source d i s) rs of
        Some r \<Rightarrow>
          if InvActive s \<and> SrcRetired r \<noteq> None \<and> \<not> source_cap_free d i (InvKind s) rs
          then Err (ErrConstraint ''source_cap_on_unretire'')
          else if now < SrcCreated r \<or> (\<not> InvActive s \<and> now < 0) then Err (ErrConstraint ''sources'')
          else Ok (update_where (same_source d i s) (\<lambda>x. x\<lparr>SrcRetired := retired, SrcUpdated := now\<rparr>) rs)
      | None \<Rightarrow>
          if list_ex (\<lambda>r. SrcID r = InvSourceID s) rs then Err ErrOwnershipMismatch
          else if InvActive s \<and> \<not> source_cap_free d i (InvKind s) rs then Err (ErrConstraint ''source_cap'')
          else if (\<not> InvActive s \<and> now < 0) \<or> \<not> target_known d i (InvTargetID s) ts
          then Err (ErrConstraint ''sources'')
          else Ok (rs @ [\<lparr>SrcID = InvSourceID s, SrcDeployment = d, SrcHost = i, SrcKind = InvKind s,
                  SrcTarget = InvTargetID s, SrcRevision = CapabilityRevision s, SrcRetired = retired,
                  SrcCreated = now, SrcUpdated = now\<rparr>]))"

text \<open>\<open>validateRetirementIdentity\<close>: is the source known, or one that was never admitted?\<close>

definition retirement_known :: "string \<Rightarrow> string \<Rightarrow> inventory_source \<Rightarrow> hub \<Rightarrow> bool outcome" where
  "retirement_known d i s h =
     (case find (\<lambda>r. SrcID r = InvSourceID s) (HubSources h) of
        Some r \<Rightarrow>
          if SrcDeployment r \<noteq> d \<or> SrcHost r \<noteq> i \<or> SrcKind r \<noteq> InvKind s \<or> SrcTarget r \<noteq> InvTargetID s
          then Err ErrOwnershipMismatch else Ok True
      | None \<Rightarrow> (case InvTargetID s of
          None \<Rightarrow> Ok False
        | Some t \<Rightarrow> (case find (\<lambda>r. TID r = t) (HubTargets h) of
            None \<Rightarrow> Ok False
          | Some r \<Rightarrow> if TDeployment r \<noteq> d \<or> THost r \<noteq> i then Err ErrOwnershipMismatch else Ok False)))"

definition retire_source :: "int64 \<Rightarrow> string \<Rightarrow> string \<Rightarrow> inventory_source \<Rightarrow> hub \<Rightarrow> hub outcome" where
  "retire_source now d i s h =
     (if InvActive s then Ok h
      else result_bind (retirement_known d i s h) (\<lambda>known.
        if \<not> known then Ok h
        else result_bind (admit_source now d i s (HubTargets h) (HubSources h)) (\<lambda>rs. Ok (h\<lparr>HubSources := rs\<rparr>))))"

section \<open>Targets\<close>

definition retire_target :: "int64 \<Rightarrow> string \<Rightarrow> string \<Rightarrow> inventory_source \<Rightarrow> hub \<Rightarrow> hub outcome" where
  "retire_target now d i s h =
     (case InvTargetID s of
        None \<Rightarrow> Ok h
      | Some t \<Rightarrow>
          if InvActive s then Ok h
          else let p = (\<lambda>r. TDeployment r = d \<and> THost r = i \<and> TID r = t \<and> TRetired r = None
                 \<and> \<not> list_ex (\<lambda>x. SrcDeployment x = d \<and> SrcHost x = i \<and> SrcTarget x = Some t \<and> SrcRetired x = None) (HubSources h)) in
            if list_ex (\<lambda>r. p r \<and> (now < TCreated r \<or> now < 0)) (HubTargets h) then Err (ErrConstraint ''targets'')
            else Ok (h\<lparr>HubTargets := update_where p (\<lambda>r. r\<lparr>TRetired := Some now, TUpdated := now\<rparr>) (HubTargets h)\<rparr>))"

definition other_active :: "string \<Rightarrow> string \<Rightarrow> string \<Rightarrow> target_row list \<Rightarrow> bool" where
  "other_active d i t rs \<longleftrightarrow> list_ex (\<lambda>r. TDeployment r = d \<and> THost r = i \<and> TRetired r = None \<and> TID r \<noteq> t) rs"

definition selector_taken :: "string \<Rightarrow> string \<Rightarrow> string \<Rightarrow> target_row list \<Rightarrow> bool" where
  "selector_taken d i selector rs \<longleftrightarrow> list_ex (\<lambda>r. TDeployment r = d \<and> THost r = i \<and> TSelector r = selector) rs"

text \<open>\<open>INSERT ... ON CONFLICT(id) DO UPDATE ... WHERE\<close>: only a row with the same identity is updated; a
  row that clashes with another unique index makes the statement fail.\<close>

definition upsert_target :: "int64 \<Rightarrow> string \<Rightarrow> string \<Rightarrow> inventory_target \<Rightarrow> target_row list \<Rightarrow> target_row list outcome" where
  "upsert_target now d i t rs =
     (case find (\<lambda>r. TID r = ITargetID t) rs of
        Some r \<Rightarrow>
          if TDeployment r \<noteq> d \<or> THost r \<noteq> i \<or> TSelector r \<noteq> LocalSelectorSHA256 t then Err ErrOwnershipMismatch
          else if other_active d i (ITargetID t) rs then Err (ErrConstraint ''targets_one_active_per_host'')
          else if now < TCreated r then Err (ErrConstraint ''targets'')
          else Ok (update_where (\<lambda>x. TID x = ITargetID t) (\<lambda>x. x\<lparr>TRetired := None, TUpdated := now\<rparr>) rs)
      | None \<Rightarrow>
          if selector_taken d i (LocalSelectorSHA256 t) rs
          then Err (ErrConstraint ''targets.deployment_id,host_id,local_selector_hash'')
          else if other_active d i (ITargetID t) rs then Err (ErrConstraint ''targets_one_active_per_host'')
          else Ok (rs @ [\<lparr>TID = ITargetID t, TDeployment = d, THost = i, TAdapter = AdapterID t,
                  TSelector = LocalSelectorSHA256 t, TRetired = None, TCreated = now, TUpdated = now\<rparr>]))"

section \<open>Models\<close>

text \<open>A model row is only ever inserted. Its configuration hash is a parameter: SHA-256 over the JSON
  text of alias and digest. A model of an unknown target violates the foreign key.\<close>

definition insert_model ::
  "(string \<Rightarrow> string option \<Rightarrow> string) \<Rightarrow> int64 \<Rightarrow> string \<Rightarrow> string \<Rightarrow> inventory_model \<Rightarrow> target_row list \<Rightarrow> model_row list \<Rightarrow>
   model_row list outcome" where
  "insert_model config_hash now d i m ts rs =
     (if list_ex (\<lambda>r. ModID r = IModelID m) rs
      then (case find (\<lambda>r. ModDeployment r = d \<and> ModHost r = i \<and> ModTarget r = IModelTargetID m \<and> ModID r = IModelID m) rs of
          None \<Rightarrow> Err ErrOwnershipMismatch
        | Some r \<Rightarrow> if ModAlias r \<noteq> IAlias m \<or> ModDigest r \<noteq> IDigest m then Err ErrOwnershipMismatch else Ok rs)
      else if IDigest m \<noteq> None \<and> list_ex (\<lambda>r. ModDeployment r = d \<and> ModHost r = i \<and> ModTarget r = IModelTargetID m
                \<and> ModDigest r = IDigest m \<and> ModConfig r = config_hash (IAlias m) (IDigest m)) rs
      then Err (ErrConstraint ''model_revision_digest_config'')
      else if \<not> target_known d i (Some (IModelTargetID m)) ts then Err (ErrConstraint ''model_revisions'')
      else Ok (rs @ [\<lparr>ModID = IModelID m, ModDeployment = d, ModHost = i, ModTarget = IModelTargetID m,
              ModAlias = IAlias m, ModDigest = IDigest m, ModConfig = config_hash (IAlias m) (IDigest m),
              ModCreated = now\<rparr>]))"

section \<open>The inventory\<close>

definition admit_active :: "int64 \<Rightarrow> string \<Rightarrow> string \<Rightarrow> inventory_source \<Rightarrow> hub \<Rightarrow> hub outcome" where
  "admit_active now d i s h =
     (if \<not> InvActive s then Ok h
      else result_bind (admit_source now d i s (HubTargets h) (HubSources h)) (\<lambda>rs. Ok (h\<lparr>HubSources := rs\<rparr>)))"

definition inventory_body ::
  "(string \<Rightarrow> string option \<Rightarrow> string) \<Rightarrow> int64 \<Rightarrow> collector_inventory \<Rightarrow> hub \<Rightarrow> (inventory_result \<times> hub) outcome" where
  "inventory_body config_hash now v h =
     (let d = InvDeploymentID v; i = InvHostID v in
      result_bind (validate_current_session h d i (InvSecurityGeneration v) (InvSessionGeneration v) (InvCollectorBootID v))
        (\<lambda>current.
      result_bind (for_all (retire_source now d i) (Sources v) h) (\<lambda>h1.
      result_bind (for_all (retire_target now d i) (Sources v) h1) (\<lambda>h2.
      result_bind (for_all (\<lambda>t h. result_bind (upsert_target now d i t (HubTargets h)) (\<lambda>rs. Ok (h\<lparr>HubTargets := rs\<rparr>)))
          (Targets v) h2) (\<lambda>h3.
      result_bind (for_all (admit_active now d i) (Sources v) h3) (\<lambda>h4.
      result_bind (for_all (\<lambda>m h. result_bind (insert_model config_hash now d i m (HubTargets h) (HubModels h))
            (\<lambda>rs. Ok (h\<lparr>HubModels := rs\<rparr>))) (InvModels v) h4) (\<lambda>h5.
      Ok (\<lparr>ResInventoryRevision = InventoryRevision v, ResDurable = True, ResInvCurrent = current\<rparr>, h5))))))))"

definition register_inventory ::
  "(string \<Rightarrow> string option \<Rightarrow> string) \<Rightarrow> hub_env \<Rightarrow> collector_inventory \<Rightarrow> hub \<Rightarrow> inventory_result outcome \<times> hub" where
  "register_inventory config_hash env v h =
     (case validate_inventory v of
        Err m \<Rightarrow> (Err (ErrInvalid m), h)
      | Ok _ \<Rightarrow> transaction env h (inventory_body config_hash (HubNow env) v h))"

end
