(* ===== verification/TargetProperties.thy ===== *)
theory TargetProperties
  imports Targets HubInventory PairingProperties
begin

text \<open>
  The configured endpoints: a change is applied once however often it is retried, the file stays
  one the next call can read, and what the hub makes of an endpoint that was removed and added
  again.
\<close>

section \<open>The active target\<close>

definition active_count :: "local_target list \<Rightarrow> nat" where
  "active_count ts = length (filter (\<lambda>t. \<not> Retired t) ts)"

definition target_ok :: "local_target \<Rightarrow> bool" where
  "target_ok t \<longleftrightarrow> validate_manifest (TManifest t) = Ok () \<and> valid_uuid (TTargetID t) \<and> valid_uuid (TSourceID t) \<and>
     valid_sha256 (TSelectorSHA256 t)"

lemma validate_target_state_iff:
  "validate_target_state v gen = Ok () \<longleftrightarrow> TsVersion v = 1 \<and> TsGeneration v = gen \<and> length (TsTargets v) \<le> 128 \<and>
     length (Receipts v) \<le> 256 \<and> list_all target_ok (TsTargets v) \<and> active_count (TsTargets v) \<le> 1"
  by (auto simp: validate_target_state_def for_each_Ok list_all_iff target_ok_def active_count_def)

lemma active_index_Some:
  assumes "active_index ts = Some a"
  shows "a < length ts \<and> \<not> Retired (ts ! a)"
proof -
  let ?is = "filter (\<lambda>i. \<not> Retired (ts ! i)) [0..<length ts]"
  have "?is \<noteq> []" "a = last ?is" using assms by (auto simp: active_index_def split: list.splits)
  then have "a \<in> set ?is" using last_in_set by blast
  then show ?thesis by simp
qed

lemma active_count_zero: "active_count ts = 0 \<longleftrightarrow> list_all Retired ts"
  by (auto simp: active_count_def filter_empty_conv list_all_iff)

lemma active_index_None: "active_index ts = None \<longleftrightarrow> active_count ts = 0"
proof -
  have "active_index ts = None \<longleftrightarrow> filter (\<lambda>i. \<not> Retired (ts ! i)) [0..<length ts] = []"
    by (simp add: active_index_def split: list.splits)
  then have "active_index ts = None \<longleftrightarrow> (\<forall>i < length ts. Retired (ts ! i))"
    by (auto simp: filter_empty_conv)
  then show ?thesis by (simp add: active_count_zero list_all_length)
qed

lemma active_count_update:
  "a < length ts \<Longrightarrow> active_count (ts[a := t]) + (if Retired (ts ! a) then 0 else 1) =
   active_count ts + (if Retired t then 0 else 1)"
proof (induction ts arbitrary: a)
  case (Cons x xs)
  show ?case
  proof (cases a)
    case 0
    then show ?thesis by (simp add: active_count_def)
  next
    case (Suc b)
    then show ?thesis using Cons.IH[of b] Cons.prems by (simp add: active_count_def split: if_splits)
  qed
qed simp

lemma active_count_append [simp]: "active_count (ts @ [t]) = active_count ts + (if Retired t then 0 else 1)"
  by (simp add: active_count_def)

lemma list_all_update: "list_all P xs \<Longrightarrow> P x \<Longrightarrow> list_all P (xs[i := x])"
  by (auto simp: list_all_iff dest: set_update_subset_insert[THEN subsetD])

lemma active_count_retire:
  assumes "active_index ts = Some a" "active_count ts \<le> 1" "Retired t"
  shows "active_count (ts[a := t]) = 0"
proof -
  have "a < length ts" "\<not> Retired (ts ! a)" using active_index_Some[OF assms(1)] by auto
  then show ?thesis using active_count_update[of a ts t] assms(2,3) by simp
qed

section \<open>What an operation leaves\<close>

text \<open>Every operation changes one target, keeps at most one active and the number within bounds;
  the others keep their contents, up to the retirement of the one that was active.\<close>

definition changed :: "local_target list \<Rightarrow> local_target list \<times> nat \<Rightarrow> bool" where
  "changed ts r \<longleftrightarrow> (case r of (ts', i) \<Rightarrow> i < length ts' \<and> active_count ts' \<le> 1 \<and> length ts' \<le> 128 \<and>
     (\<forall>j < length ts'. j \<noteq> i \<longrightarrow> target_ok (ts' ! j)) \<and>
     valid_uuid (TTargetID (ts' ! i)) \<and> valid_uuid (TSourceID (ts' ! i)))"

definition sound_targets :: "local_target list \<Rightarrow> bool" where
  "sound_targets ts \<longleftrightarrow> list_all target_ok ts \<and> active_count ts \<le> 1 \<and> length ts \<le> 128"

definition fresh_ok :: "apply_env \<Rightarrow> bool" where
  "fresh_ok env \<longleftrightarrow> opt_all valid_uuid (FreshTarget env) \<and> opt_all valid_uuid (FreshSource env)"

lemma target_ok_retired [simp]: "target_ok (t\<lparr>Retired := b\<rparr>) = target_ok t" "target_ok (t\<lparr>TRevision := r\<rparr>) = target_ok t"
  by (simp_all add: target_ok_def)

lemma add_new_changed:
  assumes "fresh_ok env" "list_all target_ok ts" "active_count ts = 0" "length ts < 128" "add_new env ts = Ok r"
  shows "changed ts r"
  using assms by (auto simp: add_new_def fresh_ok_def opt_all_def changed_def new_target_def nth_append list_all_length
      split: option.splits)

lemma apply_add_changed:
  "fresh_ok env \<Longrightarrow> sound_targets ts \<Longrightarrow> apply_add env ts = Ok r \<Longrightarrow> changed ts r"
  using add_new_changed[of env ts r] by (auto simp: apply_add_def sound_targets_def active_index_None split: if_splits)

lemma apply_remove_changed:
  assumes "sound_targets ts" "apply_remove q ts = Ok r"
  shows "changed ts r"
proof -
  obtain a where a: "active_index ts = Some a" "r = (ts[a := (ts ! a)\<lparr>Retired := True, TRevision := add64 (TRevision (ts ! a)) 1\<rparr>], a)"
    using assms(2) by (auto simp: apply_remove_def split: option.splits if_splits)
  have b: "a < length ts" using active_index_Some[OF a(1)] by simp
  then have t: "target_ok (ts ! a)" using assms(1) by (auto simp: sound_targets_def list_all_length)
  show ?thesis
    using a b t assms(1) active_count_retire[OF a(1)]
    by (auto simp: changed_def sound_targets_def target_ok_def list_all_length)
qed

lemma reusable_Some:
  assumes "reusable selector m ts a = Some i"
  shows "i < length ts \<and> i \<noteq> a \<and> Retired (ts ! i) \<and> TSelectorSHA256 (ts ! i) = selector (ManEndpoint m)"
proof -
  have "i \<in> set [0..<length ts]" "i \<noteq> a \<and> Retired (ts ! i) \<and> TSelectorSHA256 (ts ! i) = selector (ManEndpoint m)"
    using assms unfolding reusable_def by (auto simp: find_Some_iff)
  then show ?thesis by auto
qed

lemma apply_edit_changed:
  assumes "fresh_ok env" "sound_targets ts" "apply_edit selector env q m ts = Ok r"
  shows "changed ts r"
proof -
  obtain a where a: "active_index ts = Some a"
    using assms(3) by (auto simp: apply_edit_def split: option.splits)
  have b: "a < length ts" "\<not> Retired (ts ! a)" using active_index_Some[OF a] by auto
  have t: "list_all target_ok ts" "active_count ts \<le> 1" "length ts \<le> 128" "target_ok (ts ! a)"
    using assms(2) b by (auto simp: sound_targets_def list_all_length)
  define ts1 where "ts1 = ts[a := (ts ! a)\<lparr>Retired := True\<rparr>]"
  have ts: "list_all target_ok ts1" "active_count ts1 = 0" "length ts1 \<le> 128"
    using t active_count_retire[OF a t(2)] unfolding ts1_def by (auto intro: list_all_update)
  define reused where "reused i = (with_manifest selector m (ManifestHash q) (ts1 ! i))
     \<lparr>TRevision := add64 (TRevision (ts1 ! i)) 1, Retired := False\<rparr>" for i
  note edit = assms(3)[unfolded apply_edit_def a option.case Let_def, folded ts1_def, folded reused_def]
  consider (same) "r = (ts[a := (ts ! a)\<lparr>TRevision := add64 (TRevision (ts ! a)) 1\<rparr>], a)"
    | (reuse) i where "reusable selector m ts1 a = Some i" "r = (ts1[i := reused i], i)"
    | (new) "length ts1 < 128" "add_new env ts1 = Ok r"
  proof (cases "selector (ManEndpoint m) = TSelectorSHA256 (ts ! a)")
    case True
    then show thesis using edit that(1) by (simp split: if_split_asm)
  next
    case False
    show thesis
    proof (cases "reusable selector m ts1 a")
      case None
      then show thesis using edit False that(3) by (simp split: if_split_asm)
    next
      case (Some i)
      then show thesis using edit False that(2)[of i] by (simp split: if_split_asm)
    qed
  qed
  then show ?thesis
  proof cases
    case same
    then show ?thesis using b t active_count_update[OF b(1), of "(ts ! a)\<lparr>TRevision := add64 (TRevision (ts ! a)) 1\<rparr>"]
      by (auto simp: changed_def list_all_length target_ok_def)
  next
    case reuse
    have i: "i < length ts1" "Retired (ts1 ! i)" using reusable_Some[OF reuse(1)] by auto
    have "target_ok (ts1 ! i)" using ts(1) i(1) by (auto simp: list_all_length)
    then have "valid_uuid (TTargetID (reused i))" "valid_uuid (TSourceID (reused i))"
      by (simp_all add: reused_def with_manifest_def target_ok_def)
    moreover have "active_count (ts1[i := reused i]) \<le> 1"
      using active_count_update[OF i(1), of "reused i"] ts(2) i(2) by (simp add: reused_def)
    ultimately show ?thesis using i ts(1,3) reuse(2) by (auto simp: changed_def list_all_length)
  next
    case new
    then have "changed ts1 r" using add_new_changed[OF assms(1) ts(1,2)] by simp
    then show ?thesis by (simp add: changed_def)
  qed
qed

lemma apply_operation_sound:
  assumes "fresh_ok env" "\<And>e. valid_sha256 (selector e)" "sound_targets ts"
    and "apply_operation selector env q ts = Ok (ts', i)"
  shows "sound_targets ts' \<and> i < length ts'"
proof (cases "Operation q = ''remove''")
  case True
  then have r: "apply_remove q ts = Ok (ts', i)" using assms(4) by (simp add: apply_operation_def)
  have c: "changed ts (ts', i)" using apply_remove_changed[OF assms(3) r] .
  have "target_ok (ts' ! i)"
    using r assms(3) active_index_Some
    by (auto simp: apply_remove_def sound_targets_def list_all_length split: option.splits if_splits)
  then show ?thesis using c by (auto simp: changed_def sound_targets_def list_all_length)
next
  case False
  then obtain m ts1 where m: "validate_manifest m = Ok ()" "ts' = ts1[i := with_manifest selector m (ManifestHash q) (ts1 ! i)]"
    and r: "apply_add env ts = Ok (ts1, i) \<or> apply_edit selector env q m ts = Ok (ts1, i)"
    using assms(4) by (auto simp: apply_operation_def go_result split: option.splits if_splits)
  have c: "changed ts (ts1, i)" using r apply_add_changed[OF assms(1,3)] apply_edit_changed[OF assms(1,3)] by blast
  have "active_count ts' = active_count ts1"
    using c m(2) active_count_update[of i ts1 "with_manifest selector m (ManifestHash q) (ts1 ! i)"]
    by (auto simp: changed_def with_manifest_def split: if_splits)
  moreover have "target_ok (ts' ! i)" using c m assms(2) by (auto simp: changed_def target_ok_def with_manifest_def)
  ultimately show ?thesis using c m(2) by (auto simp: changed_def sound_targets_def list_all_length nth_list_update)
qed

text \<open>Sample requests on a file that does not exist yet, and what the calls leave.\<close>

definition demo_selector :: "endpoint \<Rightarrow> string" where
  "demo_selector e = (if Port e = 11434 then replicate 64 CHR ''b'' else replicate 64 CHR ''c'')"

definition demo_manifest :: "int \<Rightarrow> int \<Rightarrow> target_manifest" where
  "demo_manifest port revision = \<lparr>ManSchemaVersion = ''1.0'', ManifestID = demo_uuid (CHR ''9''), ManManifestRevision = revision,
     ManAdapterID = ''ollama'', ManEndpoint = \<lparr>Scheme = ''http'', EHost = ''127.0.0.1'', Port = port, BasePath = []\<rparr>,
     ManIdentityRevision = replicate 64 CHR ''a'', DisplayName = ''Local''\<rparr>"

definition demo_request :: "char \<Rightarrow> string \<Rightarrow> int \<Rightarrow> int \<Rightarrow> int \<Rightarrow> target_request" where
  "demo_request key operation expected port revision = \<lparr>Key = demo_uuid key, Operation = operation,
     RTargetID = demo_uuid (CHR ''a''), ExpectedRevision = expected,
     RManifest = (if operation = ''remove'' then None else Some (demo_manifest port revision)),
     ManifestHash = replicate 64 CHR ''d''\<rparr>"

definition demo_env :: "int64 \<Rightarrow> char \<Rightarrow> apply_env" where
  "demo_env now c = \<lparr>LockFails = None, ApplyNow = now, FreshTarget = Some (demo_uuid c), FreshSource = Some (demo_uuid (CHR ''e'')),
     WriteFails = (\<lambda>_. None)\<rparr>"

text \<open>Added, and then removed.\<close>

definition demo_apply :: "apply_env \<Rightarrow> target_request \<Rightarrow> target_state private_file \<Rightarrow>
    (message, target_result) result \<times> target_state private_file" where
  "demo_apply env q f = apply_target (\<lambda>_. 100) Key demo_selector env (demo_uuid (CHR ''2'')) q f"

definition demo_added :: "target_state private_file" where
  "demo_added = snd (demo_apply (demo_env 1000 (CHR ''a'')) (demo_request (CHR ''1'') ''add'' 0 11434 1) Absent)"

definition demo_removed :: "target_state private_file" where
  "demo_removed = snd (demo_apply (demo_env 2000 (CHR ''b'')) (demo_request (CHR ''3'') ''remove'' 0 0 0) demo_added)"

definition demo_again :: "target_state private_file" where
  "demo_again = snd (demo_apply (demo_env 3000 (CHR ''c'')) (demo_request (CHR ''4'') ''add'' 0 11434 1) demo_removed)"

lemma demo_env_ok: "fresh_ok (demo_env now (CHR ''a''))" "valid_sha256 (demo_selector e)"
proof -
  show "valid_sha256 (demo_selector e)"
    by (cases "Port e = 11434") (simp_all add: demo_selector_def, code_simp+)
  have "valid_uuid (demo_uuid (CHR ''a''))" "valid_uuid (demo_uuid (CHR ''e''))" by code_simp+
  then show "fresh_ok (demo_env now (CHR ''a''))" by (simp add: fresh_ok_def demo_env_def opt_all_def)
qed

section \<open>Applying a request\<close>

definition receipt_of ::
  "(target_request \<Rightarrow> string) \<Rightarrow> apply_env \<Rightarrow> target_request \<Rightarrow> local_target \<Rightarrow> target_receipt" where
  "receipt_of request_hash env q t =
     \<lparr>ReKey = Key q, ReHash = request_hash q, ReAtMS = ApplyNow env, ReResult = apply_result q t\<rparr>"

text \<open>A call leaves the file alone or writes one new state, whatever it then reports.\<close>

lemma apply_target_written:
  assumes "apply_target n request_hash selector env gen q f = (r, f')" "f' \<noteq> f"
  obtains st receipts ts i where "read_targets f gen = Ok st" "valid_uuid (Key q)"
    "scan_receipts (ApplyNow env) (Key q) (request_hash q) [] (Receipts st) = Fresh receipts" "length receipts < 256"
    "apply_operation selector env q (TsTargets st) = Ok (ts, i)"
    "f' = Holds (st\<lparr>TsTargets := ts, Receipts := receipts @ [receipt_of request_hash env q (ts ! i)]\<rparr>)"
    "r = Ok (apply_result q (ts ! i)) \<or> (\<exists>m. r = Err m)"
proof -
  obtain st where st: "read_targets f gen = Ok st" "LockFails env = None" "valid_uuid (Key q)"
    using assms by (auto simp: apply_target_def split: if_splits option.splits sum.splits)
  obtain receipts where scan: "scan_receipts (ApplyNow env) (Key q) (request_hash q) [] (Receipts st) = Fresh receipts"
    using assms st by (cases "scan_receipts (ApplyNow env) (Key q) (request_hash q) [] (Receipts st)")
      (auto simp: apply_target_def split: if_splits)
  obtain ts i where op: "apply_operation selector env q (TsTargets st) = Ok (ts, i)"
    using assms st scan by (cases "apply_operation selector env q (TsTargets st)")
      (auto simp: apply_target_def split: if_splits)
  define st' where "st' = st\<lparr>TsTargets := ts, Receipts := receipts @ [receipt_of request_hash env q (ts ! i)]\<rparr>"
  have w: "length receipts < 256" "(case write_private_file (WriteFails env) st' f of
      (Err m, f') \<Rightarrow> (Err m, f') | (Ok _, f') \<Rightarrow> (Ok (apply_result q (ts ! i)), f')) = (r, f')"
    using assms st scan op by (auto simp: apply_target_def Let_def st'_def receipt_of_def split: if_splits)
  then have "f' = Holds st' \<and> (r = Ok (apply_result q (ts ! i)) \<or> (\<exists>m. r = Err m))"
    using write_private_file_cases[of "WriteFails env" st' f] assms(2) by (auto split: prod.splits sum.splits)
  then show thesis using that[OF st(1,3) scan w(1) op] by (simp add: st'_def)
qed

lemma read_targets_sound:
  "read_targets f gen = Ok st \<Longrightarrow> sound_targets (TsTargets st) \<and> TsVersion st = 1 \<and> TsGeneration st = gen \<and>
     (f = Absent \<or> f = Holds st)"
  by (auto simp: read_targets_def empty_targets_def sound_targets_def active_count_def validate_target_state_iff go_result
      split: private_file.splits)

lemma written_readable:
  assumes "read_targets f gen = Ok st" "sound_targets ts" "length rs \<le> 256"
  shows "read_targets (Holds (st\<lparr>TsTargets := ts, Receipts := rs\<rparr>)) gen = Ok (st\<lparr>TsTargets := ts, Receipts := rs\<rparr>)"
proof -
  have "validate_target_state (st\<lparr>TsTargets := ts, Receipts := rs\<rparr>) gen = Ok ()"
    using assms read_targets_sound[OF assms(1)] by (simp add: validate_target_state_iff sound_targets_def)
  then show ?thesis by (simp add: read_targets_def)
qed

text \<open>
  (C29) The configuration never locks itself out: whatever a call does, and whatever fails while it
  writes, the next call can read the file again and finds at most one active endpoint and the
  bounds on endpoints and receipts kept.
\<close>
theorem target_file_stays_readable:
  assumes "read_targets f gen = Ok st" and "apply_target n request_hash selector env gen q f = (r, f')"
    and "fresh_ok env" and "\<And>e. valid_sha256 (selector e)"
  shows "\<exists>st'. read_targets f' gen = Ok st' \<and> active_count (TsTargets st') \<le> 1 \<and> length (TsTargets st') \<le> 128"
proof (cases "f' = f")
  case True
  then show ?thesis using assms(1) read_targets_sound[OF assms(1)] by (auto simp: sound_targets_def)
next
  case False
  obtain st0 receipts ts i where w: "read_targets f gen = Ok st0" "length receipts < 256"
    "apply_operation selector env q (TsTargets st0) = Ok (ts, i)"
    "f' = Holds (st0\<lparr>TsTargets := ts, Receipts := receipts @ [receipt_of request_hash env q (ts ! i)]\<rparr>)"
    by (rule apply_target_written[OF assms(2) False])
  have s: "sound_targets ts"
    using apply_operation_sound[OF assms(3,4) _ w(3)] read_targets_sound[OF w(1)] by simp
  then show ?thesis
    using written_readable[OF w(1) s] w(2,4) by (auto simp: sound_targets_def)
qed

lemma target_file_stays_readable_witness:
  "\<exists>st'. read_targets demo_added (demo_uuid (CHR ''2'')) = Ok st' \<and> active_count (TsTargets st') \<le> 1"
proof -
  have r: "read_targets Absent (demo_uuid (CHR ''2'')) = Ok (empty_targets (demo_uuid (CHR ''2'')))"
    by (simp add: read_targets_def)
  let ?r = "apply_target (\<lambda>_. 100) Key demo_selector (demo_env 1000 (CHR ''a'')) (demo_uuid (CHR ''2''))
     (demo_request (CHR ''1'') ''add'' 0 11434 1) Absent"
  have "?r = (fst ?r, demo_added)" by (simp add: demo_added_def demo_apply_def prod_eq_iff)
  from target_file_stays_readable[OF r this demo_env_ok] show ?thesis by blast
qed

lemma scan_fresh:
  "scan_receipts now key hash kept rs = Fresh out \<Longrightarrow> \<forall>x \<in> set kept. ReKey x \<noteq> key \<Longrightarrow> \<forall>x \<in> set out. ReKey x \<noteq> key"
  by (induction now key hash kept rs rule: scan_receipts.induct) (auto split: if_splits)

lemma scan_replays:
  "\<forall>x \<in> set rs. ReKey x \<noteq> key \<Longrightarrow> ReKey r = key \<Longrightarrow> ReHash r = hash \<Longrightarrow> \<not> sub64 now (ReAtMS r) > receipt_ttl_ms \<Longrightarrow>
   scan_receipts now key hash kept (rs @ [r]) = Replay (ReResult r)"
  by (induction rs arbitrary: kept) auto

text \<open>
  A change is applied once. If a call wrote the file, then repeating the same request with
  the same key within a day gives its result and changes nothing, also when the first call had
  reported an error because it could not tell whether its write had lasted.
\<close>
theorem target_change_applied_once:
  assumes "apply_target n request_hash selector env gen q f = (r, f')" "f' \<noteq> f"
    and "fresh_ok env" "\<And>e. valid_sha256 (selector e)"
    and "LockFails env' = None" "in_int64 (ApplyNow env' - ApplyNow env)" "ApplyNow env' - ApplyNow env \<le> 86400000"
  shows "\<exists>result. apply_target n' request_hash selector env' gen q f' = (Ok result, f') \<and>
     (r = Ok result \<or> (\<exists>m. r = Err m))"
proof -
  obtain st receipts ts i where w: "read_targets f gen = Ok st" "valid_uuid (Key q)"
    "scan_receipts (ApplyNow env) (Key q) (request_hash q) [] (Receipts st) = Fresh receipts" "length receipts < 256"
    "apply_operation selector env q (TsTargets st) = Ok (ts, i)"
    "f' = Holds (st\<lparr>TsTargets := ts, Receipts := receipts @ [receipt_of request_hash env q (ts ! i)]\<rparr>)"
    "r = Ok (apply_result q (ts ! i)) \<or> (\<exists>m. r = Err m)"
    by (rule apply_target_written[OF assms(1,2)])
  let ?st = "st\<lparr>TsTargets := ts, Receipts := receipts @ [receipt_of request_hash env q (ts ! i)]\<rparr>"
  have "sound_targets ts"
    using apply_operation_sound[OF assms(3,4) _ w(5)] read_targets_sound[OF w(1)] by simp
  then have r: "read_targets f' gen = Ok ?st"
    using written_readable[OF w(1)] w(4,6) by simp
  have "scan_receipts (ApplyNow env') (Key q) (request_hash q) [] (Receipts ?st) = Replay (apply_result q (ts ! i))"
    using scan_replays[of receipts "Key q" "receipt_of request_hash env q (ts ! i)" "request_hash q" "ApplyNow env'" "[]"]
      scan_fresh[OF w(3)] assms(6,7) by (simp add: receipt_of_def sub64_exact receipt_ttl_ms_def)
  then have "apply_target n' request_hash selector env' gen q f' = (Ok (apply_result q (ts ! i)), f')"
    using r w(2) assms(5) by (simp add: apply_target_def)
  then show ?thesis using w(7) by blast
qed

lemma target_change_applied_once_witness:
  "\<exists>result. apply_target (\<lambda>_. 100) Key demo_selector (demo_env 5000 (CHR ''b'')) (demo_uuid (CHR ''2''))
     (demo_request (CHR ''1'') ''add'' 0 11434 1) demo_added = (Ok result, demo_added)"
proof -
  let ?r = "apply_target (\<lambda>_. 100) Key demo_selector (demo_env 1000 (CHR ''a'')) (demo_uuid (CHR ''2''))
     (demo_request (CHR ''1'') ''add'' 0 11434 1) Absent"
  have "snd ?r = demo_added" by (simp add: demo_added_def demo_apply_def)
  then have r: "?r = (fst ?r, demo_added)" by (simp add: prod_eq_iff)
  have n: "demo_added \<noteq> Absent" by code_simp
  show ?thesis
    using target_change_applied_once[OF r n demo_env_ok, of "demo_env 5000 (CHR ''b'')"]
    by (simp add: demo_env_def in_int64_def) blast
qed

section \<open>An endpoint removed and added again\<close>

lemma for_all_keeps:
  assumes "\<And>x s s'. f x s = Ok s' \<Longrightarrow> g s' = g s"
  shows "for_all f xs s = Ok s' \<Longrightarrow> g s' = g s"
proof (induction xs arbitrary: s)
  case (Cons x xs)
  then obtain s1 where "f x s = Ok s1" "for_all f xs s1 = Ok s'" by (auto simp: result_bind_Ok)
  then show ?case using Cons.IH assms by metis
qed simp

definition target_identity :: "target_row \<Rightarrow> string \<times> string \<times> string \<times> string" where
  "target_identity r = (TID r, TDeployment r, THost r, TSelector r)"

lemma retire_source_targets: "retire_source now d i s h = Ok h' \<Longrightarrow> HubTargets h' = HubTargets h"
  by (auto simp: retire_source_def go_result split: if_splits)

lemma retire_target_identity:
  "retire_target now d i s h = Ok h' \<Longrightarrow> map target_identity (HubTargets h') = map target_identity (HubTargets h)"
  by (auto simp: retire_target_def Let_def update_where_def target_identity_def split: option.splits if_splits)

text \<open>The identities in the table decide the insertion of a target that is not in it.\<close>

lemma upsert_clash:
  assumes "(t0, d, i, selector) \<in> set (map target_identity rs)" "t0 \<noteq> ITargetID t" "LocalSelectorSHA256 t = selector"
    and "\<forall>x \<in> set (map target_identity rs). \<forall>y \<in> set (map target_identity rs). snd x = snd y \<longrightarrow> fst x = fst y"
  shows "\<exists>e. upsert_target now d i t rs = Err e"
proof (cases "find (\<lambda>r. TID r = ITargetID t) rs")
  case None
  have "selector_taken d i (LocalSelectorSHA256 t) rs"
    using assms(1,3) by (auto simp: selector_taken_def list_ex_iff target_identity_def)
  then show ?thesis using None by (simp add: upsert_target_def)
next
  case (Some r)
  then have r: "target_identity r \<in> set (map target_identity rs)" "TID r = ITargetID t"
    using find_some[of "\<lambda>r. TID r = ITargetID t" rs r] by auto
  have "\<not> (TDeployment r = d \<and> THost r = i \<and> TSelector r = selector)"
    using assms(1,2,4) r by (fastforce simp: target_identity_def)
  then show ?thesis using Some assms(3) by (auto simp: upsert_target_def)
qed

definition selectors_unique :: "target_row list \<Rightarrow> bool" where
  "selectors_unique rs \<longleftrightarrow> (\<forall>x \<in> set rs. \<forall>y \<in> set rs.
     TDeployment x = TDeployment y \<and> THost x = THost y \<and> TSelector x = TSelector y \<longrightarrow> TID x = TID y)"

lemma selectors_unique_ids:
  "selectors_unique rs \<longleftrightarrow> (\<forall>x \<in> set (map target_identity rs). \<forall>y \<in> set (map target_identity rs).
     snd x = snd y \<longrightarrow> fst x = fst y)"
  by (simp add: target_identity_def selectors_unique_def)

lemma inventory_body_targets:
  assumes "inventory_body config_hash now v h = Ok x"
  obtains h1 h2 h3 where "for_all (retire_source now (InvDeploymentID v) (InvHostID v)) (Sources v) h = Ok h1"
    "for_all (retire_target now (InvDeploymentID v) (InvHostID v)) (Sources v) h1 = Ok h2"
    "for_all (\<lambda>t h. result_bind (upsert_target now (InvDeploymentID v) (InvHostID v) t (HubTargets h))
        (\<lambda>rs. Ok (h\<lparr>HubTargets := rs\<rparr>))) (Targets v) h2 = Ok h3"
  using assms unfolding inventory_body_def Let_def by (elim result_bind_OkE) (rule that)

lemma clash_refused:
  assumes "selectors_unique (HubTargets h)" "row \<in> set (HubTargets h)" "TDeployment row = InvDeploymentID v"
    "THost row = InvHostID v" "Targets v = [t]" "TSelector row = LocalSelectorSHA256 t" "TID row \<noteq> ITargetID t"
  shows "\<exists>e. inventory_body config_hash now v h = Err e"
proof (cases "inventory_body config_hash now v h")
  case (Inr x)
  let ?d = "InvDeploymentID v" and ?i = "InvHostID v"
  obtain h1 h2 h3 where h: "for_all (retire_source now ?d ?i) (Sources v) h = Ok h1"
    "for_all (retire_target now ?d ?i) (Sources v) h1 = Ok h2"
    "for_all (\<lambda>t h. result_bind (upsert_target now ?d ?i t (HubTargets h)) (\<lambda>rs. Ok (h\<lparr>HubTargets := rs\<rparr>)))
      (Targets v) h2 = Ok h3"
    by (rule inventory_body_targets[OF Inr])
  have "HubTargets h1 = HubTargets h" using for_all_keeps[OF retire_source_targets h(1)] .
  then have ids: "map target_identity (HubTargets h2) = map target_identity (HubTargets h)"
    using for_all_keeps[where g = "\<lambda>h. map target_identity (HubTargets h)", OF retire_target_identity h(2)] by simp
  have "\<exists>e. upsert_target now ?d ?i t (HubTargets h2) = Err e"
  proof (rule upsert_clash[of "TID row" ?d ?i "TSelector row"])
    show "(TID row, ?d, ?i, TSelector row) \<in> set (map target_identity (HubTargets h2))"
      unfolding ids using assms(2,3,4) by (auto simp: target_identity_def intro!: rev_image_eqI)
    show "\<forall>x \<in> set (map target_identity (HubTargets h2)). \<forall>y \<in> set (map target_identity (HubTargets h2)).
        snd x = snd y \<longrightarrow> fst x = fst y"
      unfolding ids using assms(1) unfolding selectors_unique_ids .
  qed (simp_all add: assms)
  then have False using h(3) assms(5) by auto
  then show ?thesis ..
qed simp

text \<open>The target of the inventory, as the collector builds it from the active target of the file.\<close>

definition inventory_target_of :: "string \<Rightarrow> local_target \<Rightarrow> inventory_target" where
  "inventory_target_of association t = \<lparr>ITargetID = TTargetID t, AdapterID = ''ollama'',
     LocalSelectorSHA256 = TSelectorSHA256 t, AssociationState = association\<rparr>"

lemma active_index_last:
  assumes "active_count ts = 0" "\<not> Retired t"
  shows "active_index (ts @ [t]) = Some (length ts)"
proof -
  have "filter (\<lambda>i. \<not> Retired ((ts @ [t]) ! i)) [0..<length ts] = []"
    using assms(1) by (auto simp: filter_empty_conv active_count_zero list_all_length nth_append)
  then show ?thesis using assms(2) by (simp add: active_index_def)
qed

text \<open>
  (C33) An endpoint that was removed and is added again is lost to the hub: the addition gives it
  a new identity, and since the hub keeps one target for an endpoint of a host for ever, it
  refuses every inventory that names the new one and changes nothing.
\<close>
theorem re_added_endpoint_is_refused:
  assumes state: "f1 = Holds st1" "old \<in> set (TsTargets st1)"
    and add: "apply_target n request_hash selector env gen q f1 = (Ok result, f2)" "f2 \<noteq> f1"
      "Operation q = ''add''" "RManifest q = Some m" "selector (ManEndpoint m) = TSelectorSHA256 old"
      "FreshTarget env \<noteq> Some (TTargetID old)"
    and hub: "selectors_unique (HubTargets h)" "row \<in> set (HubTargets h)" "TID row = TTargetID old"
      "TSelector row = TSelectorSHA256 old" "TDeployment row = InvDeploymentID v" "THost row = InvHostID v"
    and inventory: "read_targets f2 gen = Ok st2" "active_index (TsTargets st2) = Some a"
      "Targets v = [inventory_target_of association (TsTargets st2 ! a)]"
  shows "\<exists>e. register_inventory config_hash henv v h = (Err e, h)"
proof -
  obtain st receipts ts i where w: "read_targets f1 gen = Ok st" "apply_operation selector env q (TsTargets st) = Ok (ts, i)"
    "f2 = Holds (st\<lparr>TsTargets := ts, Receipts := receipts @ [receipt_of request_hash env q (ts ! i)]\<rparr>)"
    by (rule apply_target_written[OF add(1,2)])
  have st: "st = st1" "sound_targets (TsTargets st)" using read_targets_sound[OF w(1)] state(1) by auto
  have st2: "TsTargets st2 = ts" using read_targets_sound[OF inventory(1)] w(3) by auto
  have "result_bind (validate_manifest m) (\<lambda>_. result_bind (apply_add env (TsTargets st))
      (\<lambda>(ts', i). Ok (ts'[i := with_manifest selector m (ManifestHash q) (ts' ! i)], i))) = Ok (ts, i)"
    using w(2) add(3,4) by (simp add: apply_operation_def split: if_splits)
  then obtain ts1 where "apply_add env (TsTargets st) = Ok (ts1, i)"
    and ts: "ts = ts1[i := with_manifest selector m (ManifestHash q) (ts1 ! i)]"
    by (elim result_bind_OkE) auto
  then obtain u s where u: "active_count (TsTargets st) = 0" "FreshTarget env = Some u"
    "ts1 = TsTargets st @ [new_target u s]" "i = length (TsTargets st)"
    by (auto simp: apply_add_def add_new_def active_index_None split: if_splits option.splits)
  let ?t = "with_manifest selector m (ManifestHash q) (new_target u s)"
  have "ts = TsTargets st @ [?t]" using ts u(3,4) by simp
  moreover have "a = length (TsTargets st)"
    using inventory(2) active_index_last[OF u(1), of ?t] calculation st2 by (simp add: with_manifest_def new_target_def)
  ultimately have t: "Targets v = [inventory_target_of association ?t]" using inventory(3) st2 by simp
  have "\<exists>e. inventory_body config_hash (HubNow henv) v h = Err e"
    by (rule clash_refused[OF hub(1,2,5,6) t])
      (use hub(3,4) add(5,6) u(2) in \<open>simp_all add: inventory_target_of_def with_manifest_def new_target_def\<close>)
  then show ?thesis
    by (auto simp: register_inventory_def transaction_def split: sum.splits option.splits)
qed

definition demo_hub :: hub where
  "demo_hub = \<lparr>Deployments = [], Generations = [], Hosts = [], Sessions = [],
     HubTargets = [\<lparr>TID = demo_uuid (CHR ''a''), TDeployment = demo_uuid (CHR ''1''), THost = demo_uuid (CHR ''4''),
       TAdapter = ''ollama'', TSelector = replicate 64 CHR ''b'', TRetired = Some 2500, TCreated = 1500, TUpdated = 2500\<rparr>],
     HubSources = [], HubModels = [], Audit = [], RemoteEnrollments = []\<rparr>"

definition demo_readded :: collector_inventory where
  "demo_readded = (demo_inventory True)\<lparr>Targets :=
     [inventory_target_of ''verified'' (TsTargets (the (file_value demo_again)) ! 1)]\<rparr>"

lemma re_added_endpoint_is_refused_witness:
  "\<exists>e. register_inventory (\<lambda>_ _. []) \<lparr>Admission = None, HubNow = 9000, CommitFails = None\<rparr> demo_readded demo_hub = (Err e, demo_hub)"
proof -
  let ?r = "apply_target (\<lambda>_. 100) Key demo_selector (demo_env 3000 (CHR ''c'')) (demo_uuid (CHR ''2''))
     (demo_request (CHR ''4'') ''add'' 0 11434 1) demo_removed"
  define st1 where "st1 = the (file_value demo_removed)"
  define st2 where "st2 = the (file_value demo_again)"
  have "is_ok (read_targets demo_removed (demo_uuid (CHR ''2'')))" "demo_removed \<noteq> Absent" by code_simp+
  then obtain st where st: "demo_removed = Holds st"
    using read_targets_sound[of demo_removed "demo_uuid (CHR ''2'')"] unfolding is_ok_iff by blast
  have f1: "demo_removed = Holds st1" unfolding st1_def st file_value_def by simp
  have len: "length (TsTargets st1) = 1" unfolding st1_def by code_simp
  then have old: "TsTargets st1 ! 0 \<in> set (TsTargets st1)" "selectors_unique (HubTargets demo_hub)"
    by (simp_all add: demo_hub_def selectors_unique_def)
  have "is_ok (fst ?r)" by code_simp
  then obtain result where "fst ?r = Ok result" by (auto simp: is_ok_iff)
  then have r: "?r = (Ok result, demo_again)" by (simp add: demo_again_def demo_apply_def prod_eq_iff)
  have "length (TsTargets (the (file_value demo_again))) = 2" by code_simp
  then have f2: "demo_again \<noteq> demo_removed" using len unfolding st1_def by auto
  have "is_ok (read_targets demo_again (demo_uuid (CHR ''2'')))" "active_index (TsTargets (the (file_value demo_again))) = Some 1"
    "demo_again \<noteq> Absent" by code_simp+
  then obtain st where again: "demo_again = Holds st" "read_targets demo_again (demo_uuid (CHR ''2'')) = Ok st"
    "active_index (TsTargets (the (file_value demo_again))) = Some 1"
    using read_targets_sound[of demo_again "demo_uuid (CHR ''2'')"] unfolding is_ok_iff by blast
  have same: "st = st2" unfolding st2_def again(1) file_value_def by simp
  have st2: "read_targets demo_again (demo_uuid (CHR ''2'')) = Ok st2" "active_index (TsTargets st2) = Some 1"
    using again(2,3) unfolding same st2_def by simp_all
  have sel: "demo_selector (ManEndpoint (demo_manifest 11434 1)) = TSelectorSHA256 (TsTargets st1 ! 0)"
    "FreshTarget (demo_env 3000 (CHR ''c'')) \<noteq> Some (TTargetID (TsTargets st1 ! 0))"
    "TTargetID (TsTargets st1 ! 0) = demo_uuid (CHR ''a'')" "TSelectorSHA256 (TsTargets st1 ! 0) = replicate 64 CHR ''b''"
    unfolding st1_def by code_simp+
  show ?thesis
    by (rule re_added_endpoint_is_refused[OF f1 old(1) r f2 _ _ sel(1,2) old(2) _ _ _ _ _ st2])
      (auto simp: demo_request_def demo_hub_def sel(3,4) demo_readded_def demo_inventory_def st2_def)
qed

text \<open>
  Editing, by contrast, never gives one endpoint two identities: moving back to an endpoint
  that was configured before takes its old identity, so the selectors of the file stay distinct.
\<close>
theorem edits_keep_endpoints_distinct:
  assumes "sound_targets ts" "distinct (map TSelectorSHA256 ts)" "Operation q = ''edit''" "RManifest q = Some m"
    and "\<forall>t \<in> set ts. ManifestID (TManifest t) = ManifestID m \<and> ManAdapterID (TManifest t) = ManAdapterID m"
    and "apply_operation selector env q ts = Ok (ts', i)"
  shows "distinct (map TSelectorSHA256 ts')"
proof -
  have "result_bind (validate_manifest m) (\<lambda>_. result_bind (apply_edit selector env q m ts)
      (\<lambda>(ts', i). Ok (ts'[i := with_manifest selector m (ManifestHash q) (ts' ! i)], i))) = Ok (ts', i)"
    using assms(3,4,6) by (simp add: apply_operation_def split: if_splits)
  then obtain ts1 where r: "apply_edit selector env q m ts = Ok (ts1, i)"
    and ts': "ts' = ts1[i := with_manifest selector m (ManifestHash q) (ts1 ! i)]"
    by (elim result_bind_OkE) auto
  have s: "map TSelectorSHA256 ts' = (map TSelectorSHA256 ts1)[i := selector (ManEndpoint m)]"
    unfolding ts' by (simp add: map_update with_manifest_def)
  obtain a where a: "active_index ts = Some a" using r by (auto simp: apply_edit_def split: option.splits)
  then have b: "a < length ts" using active_index_Some by simp
  define ts2 where "ts2 = ts[a := (ts ! a)\<lparr>Retired := True\<rparr>]"
  have same: "map TSelectorSHA256 ts2 = map TSelectorSHA256 ts" "\<forall>t \<in> set ts2. ManifestID (TManifest t) = ManifestID m \<and>
      ManAdapterID (TManifest t) = ManAdapterID m" "list_all Retired ts2"
    using assms(1,5) b active_count_retire[OF a] unfolding ts2_def
    by (auto simp: map_update sound_targets_def active_count_zero[symmetric] list_update_same_conv
        dest: set_update_subset_insert[THEN subsetD])
  note edit = r[unfolded apply_edit_def a option.case Let_def, folded ts2_def]
  show ?thesis
  proof (cases "selector (ManEndpoint m) = TSelectorSHA256 (ts ! a)")
    case True
    then have "ts1 = ts[a := (ts ! a)\<lparr>TRevision := add64 (TRevision (ts ! a)) 1\<rparr>]" "i = a"
      using edit True by (auto split: if_split_asm)
    then have "map TSelectorSHA256 ts' = (map TSelectorSHA256 ts)[a := map TSelectorSHA256 ts ! a]"
      using True b unfolding s by (simp add: map_update)
    then show ?thesis using assms(2) by (simp only: list_update_id)
  next
    case False
    show ?thesis
    proof (cases "reusable selector m ts2 a")
      case (Some j)
      then have j: "ts1 = ts2[j := (with_manifest selector m (ManifestHash q) (ts2 ! j))
          \<lparr>TRevision := add64 (TRevision (ts2 ! j)) 1, Retired := False\<rparr>]" "i = j"
        using edit False Some by (auto split: if_split_asm)
      have "j < length ts2" "TSelectorSHA256 (ts2 ! j) = selector (ManEndpoint m)" using reusable_Some[OF Some] by auto
      then have "map TSelectorSHA256 ts' = map TSelectorSHA256 ts2"
        unfolding s j by (simp add: map_update with_manifest_def list_update_same_conv)
      then show ?thesis using assms(2) same(1) by simp
    next
      case None
      have "selector (ManEndpoint m) \<noteq> TSelectorSHA256 (ts2 ! k)" if "k < length ts2" for k
      proof (cases "k = a")
        case True
        then show ?thesis using False b by (simp add: ts2_def)
      next
        case k: False
        have "\<not> (k \<noteq> a \<and> Retired (ts2 ! k) \<and> TSelectorSHA256 (ts2 ! k) = selector (ManEndpoint m)
            \<and> ManifestID (TManifest (ts2 ! k)) = ManifestID m \<and> ManAdapterID (TManifest (ts2 ! k)) = ManAdapterID m)"
          using None that by (auto simp: reusable_def find_None_iff)
        then show ?thesis using k that same(2,3) by (auto simp: list_all_length)
      qed
      then have new: "selector (ManEndpoint m) \<notin> set (map TSelectorSHA256 ts2)"
        by (metis in_set_conv_nth length_map nth_map)
      obtain u v where "ts1 = ts2 @ [new_target u v]" "i = length ts2"
        using edit None False by (auto simp: add_new_def split: if_split_asm option.splits)
      then have "map TSelectorSHA256 ts' = map TSelectorSHA256 ts2 @ [selector (ManEndpoint m)]"
        using s by (simp add: list_update_append)
      then show ?thesis using new same(1) assms(2) by simp
    qed
  qed
qed

lemma edits_keep_endpoints_distinct_witness:
  "distinct (map TSelectorSHA256 (fst (projr (apply_operation demo_selector (demo_env 4000 (CHR ''b''))
     (demo_request (CHR ''5'') ''edit'' 1 11435 2) (TsTargets (the (file_value demo_added)))))))"
proof -
  let ?ts = "TsTargets (the (file_value demo_added))"
  let ?r = "apply_operation demo_selector (demo_env 4000 (CHR ''b'')) (demo_request (CHR ''5'') ''edit'' 1 11435 2) ?ts"
  have a: "sound_targets ?ts" "distinct (map TSelectorSHA256 ?ts)" by code_simp+
  have m: "Operation (demo_request (CHR ''5'') ''edit'' 1 11435 2) = ''edit''"
    "RManifest (demo_request (CHR ''5'') ''edit'' 1 11435 2) = Some (demo_manifest 11435 2)" by (simp_all add: demo_request_def)
  have i: "\<forall>t \<in> set ?ts. ManifestID (TManifest t) = ManifestID (demo_manifest 11435 2) \<and>
      ManAdapterID (TManifest t) = ManAdapterID (demo_manifest 11435 2)" by code_simp
  have "is_ok ?r" by code_simp
  then obtain ts' i' where r: "?r = Ok (ts', i')" by (auto simp: is_ok_iff)
  show ?thesis using edits_keep_endpoints_distinct[OF a m i r] r by simp
qed

end
