(* ===== verification/HubProperties.thy ===== *)
theory HubProperties
  imports Hub FrameProperties PairingProperties
begin

text \<open>
  Sessions on the hub: the table's invariant, the fence that lets through only the messages of the
  latest session, and the activation handshake between collector and hub.
\<close>

section \<open>The invariant\<close>

definition session_ok :: "session_row \<Rightarrow> bool" where
  "session_ok r \<longleftrightarrow> SPredecessor r < SGeneration r \<and> 0 \<le> SPredecessor r \<and> SGeneration r \<le> MaxUint53 \<and> 0 \<le> SActivated r \<and>
     ResActivationRequestID (SResult r) = SRequest r \<and> ResSecurityGeneration (SResult r) = SSecurity r \<and>
     ResCollectorBootID (SResult r) = SBoot r \<and> ResSessionGeneration (SResult r) = SGeneration r \<and>
     ResCurrent (SResult r) \<and> ActivatedMS (SResult r) = SActivated r"

definition live :: "string \<Rightarrow> string \<Rightarrow> session_row list \<Rightarrow> session_row list" where
  "live d i rs = filter (\<lambda>r. session_of d i r \<and> SSuperseded r = None) rs"

text \<open>The rows are consistent, generations are not used twice, and a host has a live session when its
  row points to one, which is then that session.\<close>

definition sessions_ok :: "hub \<Rightarrow> bool" where
  "sessions_ok h \<longleftrightarrow> list_all session_ok (Sessions h) \<and>
     distinct (map (\<lambda>r. (SDeployment r, SHost r, SGeneration r)) (Sessions h)) \<and>
     distinct (map HID (Hosts h)) \<and>
     (\<forall>host \<in> set (Hosts h).
        (\<forall>r \<in> set (live (HDeployment host) (HID host) (Sessions h)).
           SGeneration r = HCurrentSession host \<and> HLastBoot host = Some (SBoot r)) \<and>
        (HCurrentSession host > 0 \<longrightarrow> live (HDeployment host) (HID host) (Sessions h) \<noteq> []))"

lemma update_where_keep: "(\<And>x. g (f x) = g x) \<Longrightarrow> map g (update_where p f xs) = map g xs"
  by (simp add: update_where_def)

lemma set_update_where: "set (update_where p f xs) = {if p x then f x else x |x. x \<in> set xs}"
  by (auto simp: update_where_def)

text \<open>A hub that knows the deployment and the host of the sample collector.\<close>

definition demo_host_row :: host_row where
  "demo_host_row = \<lparr>HID = demo_uuid (CHR ''4''), HDeployment = demo_uuid (CHR ''1''), HDisplayName = ''mac'',
     HInstallation = demo_uuid (CHR ''3''), HCurrentSession = 0, HLastBoot = None, HVersion = None, HCapabilities = ''{}'',
     HRetired = None, HCreated = 0, HUpdated = 0\<rparr>"

definition demo_sessions_hub :: hub where
  "demo_sessions_hub = \<lparr>Deployments = [\<lparr>DepID = demo_uuid (CHR ''1''), DepGeneration = demo_uuid (CHR ''2''),
     DepRecovery = ''normal''\<rparr>], Generations = [], Hosts = [demo_host_row], Sessions = [], HubTargets = [], HubSources = [],
     HubModels = [], Audit = [], RemoteEnrollments = []\<rparr>"

definition demo_hub_env :: hub_env where
  "demo_hub_env = \<lparr>Admission = None, HubNow = 1000, CommitFails = None\<rparr>"

definition demo_activation_request :: session_activation where
  "demo_activation_request = activation_request (demo_uuid (CHR ''7'')) (demo_uuid (CHR ''6'')) demo_state"

lemma demo_sessions_ok: "sessions_ok demo_sessions_hub"
  by (simp add: sessions_ok_def demo_sessions_hub_def demo_host_row_def live_def)

section \<open>One activation\<close>

lemma fold_max_ge: "\<forall>x \<in> set xs. x \<le> fold max xs (a::int)" "a \<le> fold max xs a"
proof -
  have "a \<le> fold max xs a \<and> (\<forall>x \<in> set xs. x \<le> fold max xs a)"
    by (induction xs arbitrary: a) (auto, (meson max.bounded_iff order_refl order_trans)+)
  then show "\<forall>x \<in> set xs. x \<le> fold max xs a" "a \<le> fold max xs a" by auto
qed

lemma highest_session_ge: "r \<in> set rs \<Longrightarrow> session_of d i r \<Longrightarrow> SGeneration r \<le> highest_session d i rs"
  "0 \<le> highest_session d i rs"
  using fold_max_ge[where xs = "map SGeneration (filter (session_of d i) rs)" and a = 0] by (auto simp: highest_session_def)

text \<open>An accepted activation is a replay, which changes nothing, or a new session.\<close>

lemma activate_session_Ok:
  assumes "activate_session env q h = (Ok r, h')"
  obtains (replay) dep host row where "h' = h" "find (\<lambda>x. DepID x = ActDeploymentID q) (Deployments h) = Some dep"
      "DepRecovery dep = ''normal''" "DepGeneration dep = ActSecurityGeneration q"
      "find (host_is (ActDeploymentID q) (ActHostID q)) (Hosts h) = Some host" "HRetired host = None"
      "find (\<lambda>r. session_of (ActDeploymentID q) (ActHostID q) r \<and> SRequest r = ActivationRequestID q) (Sessions h) = Some row"
      "replayed q (HCurrentSession host) row = Ok r" "validate_activation q = Ok ()"
  | (fresh) dep host rs rs' where "find (\<lambda>x. DepID x = ActDeploymentID q) (Deployments h) = Some dep"
      "DepRecovery dep = ''normal''" "DepGeneration dep = ActSecurityGeneration q"
      "find (host_is (ActDeploymentID q) (ActHostID q)) (Hosts h) = Some host" "HRetired host = None"
      "find (\<lambda>r. session_of (ActDeploymentID q) (ActHostID q) r \<and> SRequest r = ActivationRequestID q) (Sessions h) = None"
      "HCurrentSession host = ExpectedPreviousGeneration q" "validate_activation q = Ok ()"
      "r = new_session_result q (highest_session (ActDeploymentID q) (ActHostID q) (Sessions h) + 1) (HubNow env)"
      "highest_session (ActDeploymentID q) (ActHostID q) (Sessions h) < MaxUint53"
      "supersede_session (HubNow env) (ActDeploymentID q) (ActHostID q) (HCurrentSession host) (Sessions h) = Ok rs"
      "insert_session \<lparr>SDeployment = ActDeploymentID q, SHost = ActHostID q, SGeneration = ResSessionGeneration r,
          SSecurity = ActSecurityGeneration q, SRequest = ActivationRequestID q, SBoot = ActCollectorBootID q,
          SPredecessor = HCurrentSession host, SActivated = HubNow env, SSuperseded = None, SResult = r\<rparr> rs = Ok rs'"
      "h' = h\<lparr>Sessions := rs', Hosts := update_where (host_is (ActDeploymentID q) (ActHostID q))
          (\<lambda>x. x\<lparr>HCurrentSession := ResSessionGeneration r, HLastBoot := Some (ActCollectorBootID q), HUpdated := HubNow env\<rparr>) (Hosts h)\<rparr>"
proof -
  have v: "validate_activation q = Ok ()" "activate_body (HubNow env) q h = Ok (r, h')"
    using assms by (auto simp: activate_session_def transaction_def split: sum.splits option.splits prod.splits)
  obtain dep where dep: "find (\<lambda>x. DepID x = ActDeploymentID q) (Deployments h) = Some dep"
    "DepRecovery dep = ''normal''" "DepGeneration dep = ActSecurityGeneration q"
    using v(2) by (auto simp: activate_body_def Let_def deployment_def owned_def result_bind_Ok split: option.splits if_splits)
  obtain host where host: "find (host_is (ActDeploymentID q) (ActHostID q)) (Hosts h) = Some host" "HRetired host = None"
    using v(2) dep by (auto simp: activate_body_def Let_def deployment_def owned_def result_bind_Ok split: option.splits if_splits)
  show thesis
  proof (cases "find (\<lambda>r. session_of (ActDeploymentID q) (ActHostID q) r \<and> SRequest r = ActivationRequestID q) (Sessions h)")
    case (Some row)
    then have "replayed q (HCurrentSession host) row = Ok r" "h' = h"
      using v(2) dep host by (auto simp: activate_body_def Let_def deployment_def owned_def result_bind_Ok)
    then show thesis using replay dep host Some v(1) by blast
  next
    case None
    let ?g = "highest_session (ActDeploymentID q) (ActHostID q) (Sessions h) + 1"
    have c: "HCurrentSession host = ExpectedPreviousGeneration q" "?g - 1 < MaxUint53"
      using v(2) dep host None by (auto simp: activate_body_def Let_def deployment_def owned_def split: if_splits)
    obtain rs where rs: "supersede_session (HubNow env) (ActDeploymentID q) (ActHostID q) (HCurrentSession host) (Sessions h) = Ok rs"
      using v(2) dep host None c
      by (cases "supersede_session (HubNow env) (ActDeploymentID q) (ActHostID q) (HCurrentSession host) (Sessions h)")
        (auto simp: activate_body_def Let_def deployment_def owned_def)
    obtain rs' where rs': "insert_session \<lparr>SDeployment = ActDeploymentID q, SHost = ActHostID q, SGeneration = ?g,
          SSecurity = ActSecurityGeneration q, SRequest = ActivationRequestID q, SBoot = ActCollectorBootID q,
          SPredecessor = HCurrentSession host, SActivated = HubNow env, SSuperseded = None,
          SResult = new_session_result q ?g (HubNow env)\<rparr> rs = Ok rs'"
      "r = new_session_result q ?g (HubNow env)"
      "h' = h\<lparr>Sessions := rs', Hosts := update_where (host_is (ActDeploymentID q) (ActHostID q))
          (\<lambda>x. x\<lparr>HCurrentSession := ?g, HLastBoot := Some (ActCollectorBootID q), HUpdated := HubNow env\<rparr>) (Hosts h)\<rparr>"
      using v(2) dep host None c rs
      by (auto simp: activate_body_def Let_def deployment_def owned_def result_bind_Ok split: if_splits)
    have g: "ResSessionGeneration r = ?g" using rs'(2) by (simp add: new_session_result_def)
    show thesis using fresh[OF dep host None c(1) v(1)] rs rs' c(2) unfolding g by simp
  qed
qed

lemma supersede_live:
  assumes "supersede_session now d i current rs = Ok rs'"
  shows "map (\<lambda>r. (r\<lparr>SSuperseded := None\<rparr>)) rs' = map (\<lambda>r. (r\<lparr>SSuperseded := None\<rparr>)) rs" (is ?rows)
    and "\<forall>r \<in> set rs'. SSuperseded r = None \<longrightarrow> r \<in> set rs" (is ?old)
    and "\<forall>r \<in> set rs. \<not> session_of d i r \<longrightarrow> r \<in> set rs'" (is ?others)
proof -
  define p where "p r \<longleftrightarrow> session_of d i r \<and> SGeneration r = current \<and> SSuperseded r = None" for r
  have r: "rs' = (if current > 0 then update_where p (\<lambda>r. r\<lparr>SSuperseded := Some now\<rparr>) rs else rs)"
    using assms by (auto simp: supersede_session_def Let_def p_def[abs_def] split: if_splits)
  show ?rows unfolding r by (simp add: update_where_def)
  show ?old unfolding r by (auto simp: update_where_def split: if_splits)
  show ?others unfolding r by (auto simp: update_where_def p_def intro!: rev_image_eqI)
qed

lemma session_ok_superseded: "session_ok (r\<lparr>SSuperseded := x\<rparr>) = session_ok r"
  by (simp add: session_ok_def)

lemma rows_map:
  assumes "map (\<lambda>r. (r\<lparr>SSuperseded := None\<rparr>)) rs' = map (\<lambda>r. (r\<lparr>SSuperseded := None\<rparr>)) rs"
    and "\<And>r x. f (r\<lparr>SSuperseded := x\<rparr>) = f r"
  shows "map f rs' = map f rs"
proof -
  have *: "map f xs = map f (map (\<lambda>r. (r\<lparr>SSuperseded := None\<rparr>)) xs)" for xs by (simp add: assms(2))
  show ?thesis by (subst (1 2) *) (simp only: assms(1))
qed

lemma list_all_map_eq: "map f xs = map f ys \<Longrightarrow> list_all (\<lambda>x. P (f x)) xs = list_all (\<lambda>x. P (f x)) ys"
  by (metis list.pred_map comp_apply list.pred_cong)

lemma highest_session_rows: "map (\<lambda>r. (SDeployment r, SHost r, SGeneration r)) rs' = map (\<lambda>r. (SDeployment r, SHost r, SGeneration r)) rs
  \<Longrightarrow> highest_session d i rs' = highest_session d i rs"
proof -
  assume *: "map (\<lambda>r. (SDeployment r, SHost r, SGeneration r)) rs' = map (\<lambda>r. (SDeployment r, SHost r, SGeneration r)) rs"
  have "map SGeneration (filter (session_of d i) xs) =
      map (snd \<circ> snd) (filter (\<lambda>x. fst x = d \<and> fst (snd x) = i) (map (\<lambda>r. (SDeployment r, SHost r, SGeneration r)) xs))" for xs
    by (induction xs) (auto simp: session_of_def)
  then show ?thesis using * by (simp add: highest_session_def)
qed

text \<open>The new session is the one live row of its host, and the rows of other hosts are as before.\<close>

lemma activate_fresh:
  assumes "sessions_ok h" "activate_session env q h = (Ok r, h')" "h' \<noteq> h \<or> Sessions h' \<noteq> Sessions h"
  obtains row rs where "Sessions h' = rs @ [row]" "session_ok row" "SDeployment row = ActDeploymentID q" "SHost row = ActHostID q"
    "SGeneration row = ResSessionGeneration r" "SBoot row = ActCollectorBootID q" "SSecurity row = ActSecurityGeneration q"
    "SRequest row = ActivationRequestID q" "SSuperseded row = None" "SResult row = r"
    "SPredecessor row = ExpectedPreviousGeneration q"
    "live (ActDeploymentID q) (ActHostID q) rs = []" "list_all session_ok rs"
    "distinct (map (\<lambda>r. (SDeployment r, SHost r, SGeneration r)) (rs @ [row]))"
    "\<forall>x \<in> set rs. SSuperseded x = None \<longrightarrow> x \<in> set (Sessions h)"
    "\<forall>x \<in> set (Sessions h). \<not> session_of (ActDeploymentID q) (ActHostID q) x \<longrightarrow> x \<in> set rs"
    "find (\<lambda>x. session_of (ActDeploymentID q) (ActHostID q) x \<and> SRequest x = ActivationRequestID q) rs = None"
    "Hosts h' = update_where (host_is (ActDeploymentID q) (ActHostID q))
        (\<lambda>x. x\<lparr>HCurrentSession := ResSessionGeneration r, HLastBoot := Some (ActCollectorBootID q), HUpdated := HubNow env\<rparr>) (Hosts h)"
  using assms(2)
proof (cases rule: activate_session_Ok)
  case (replay dep host row)
  then show ?thesis using assms(3) by simp
next
  case (fresh dep host rs rs')
  let ?d = "ActDeploymentID q" and ?i = "ActHostID q"
  note rows = supersede_live[OF fresh(11)]
  have r: "ResSessionGeneration r = highest_session ?d ?i (Sessions h) + 1" "ActivatedMS r = HubNow env"
    "ResActivationRequestID r = ActivationRequestID q" "ResSecurityGeneration r = ActSecurityGeneration q"
    "ResCollectorBootID r = ActCollectorBootID q" "ResCurrent r"
    using fresh(9) by (simp_all add: new_session_result_def)
  define row where "row = \<lparr>SDeployment = ?d, SHost = ?i, SGeneration = ResSessionGeneration r,
          SSecurity = ActSecurityGeneration q, SRequest = ActivationRequestID q, SBoot = ActCollectorBootID q,
          SPredecessor = HCurrentSession host, SActivated = HubNow env, SSuperseded = None, SResult = r\<rparr>"
  have ins: "rs' = rs @ [row]" "live ?d ?i rs = []" "0 \<le> HubNow env" "0 \<le> HCurrentSession host"
    "HCurrentSession host < ResSessionGeneration r"
    using fresh(12) by (auto simp: insert_session_def row_def live_def list_ex_iff filter_empty_conv split: if_splits)
  have keys: "map (\<lambda>r. (SDeployment r, SHost r, SGeneration r)) rs = map (\<lambda>r. (SDeployment r, SHost r, SGeneration r)) (Sessions h)"
    by (rule rows_map[OF rows(1)]) simp
  have "list_all session_ok rs"
    using assms(1) list_all_map_eq[where f = "\<lambda>r. r\<lparr>SSuperseded := None\<rparr>" and P = session_ok, OF rows(1)]
    by (simp add: sessions_ok_def session_ok_superseded)
  moreover have "session_ok row" using ins r fresh(10) by (simp add: session_ok_def row_def)
  moreover have "(?d, ?i, ResSessionGeneration r) \<notin> set (map (\<lambda>r. (SDeployment r, SHost r, SGeneration r)) rs)"
    unfolding keys using highest_session_ge(1)[of _ "Sessions h" ?d ?i] r(1) by (fastforce simp: session_of_def)
  then have "distinct (map (\<lambda>r. (SDeployment r, SHost r, SGeneration r)) (rs @ [row]))"
    using assms(1) keys by (simp add: sessions_ok_def row_def)
  moreover have "find (\<lambda>x. session_of ?d ?i x \<and> SRequest x = ActivationRequestID q) rs = None"
  proof -
    have "map (\<lambda>r. (SDeployment r, SHost r, SRequest r)) rs = map (\<lambda>r. (SDeployment r, SHost r, SRequest r)) (Sessions h)"
      by (rule rows_map[OF rows(1)]) simp
    then have "(?d, ?i, ActivationRequestID q) \<notin> set (map (\<lambda>r. (SDeployment r, SHost r, SRequest r)) rs)"
      using fresh(6) by (auto simp: find_None_iff session_of_def)
    then show ?thesis by (force simp: find_None_iff session_of_def)
  qed
  ultimately show ?thesis
    using that[of rs row] ins(1,2) rows(2,3) fresh(7,13) by (simp add: row_def)
qed

lemma live_append: "live d i (rs @ [x]) = live d i rs @ (if session_of d i x \<and> SSuperseded x = None then [x] else [])"
  by (simp add: live_def)

lemma activation_keeps_sessions:
  assumes "sessions_ok h"
  shows "sessions_ok (snd (activate_session env q h))"
proof (cases "snd (activate_session env q h) = h")
  case False
  define h' where "h' = snd (activate_session env q h)"
  obtain r where a: "activate_session env q h = (Ok r, h')" "h' \<noteq> h \<or> Sessions h' \<noteq> Sessions h"
    using False unfolding h'_def
    by (auto simp: activate_session_def transaction_def prod_eq_iff split: sum.splits option.splits prod.splits)
  let ?d = "ActDeploymentID q" and ?i = "ActHostID q"
  obtain row rs where n: "Sessions h' = rs @ [row]" "session_ok row" "SDeployment row = ?d" "SHost row = ?i"
    "SGeneration row = ResSessionGeneration r" "SBoot row = ActCollectorBootID q" "SSuperseded row = None"
    "live ?d ?i rs = []" "list_all session_ok rs"
    "distinct (map (\<lambda>r. (SDeployment r, SHost r, SGeneration r)) (rs @ [row]))"
    "\<forall>x \<in> set rs. SSuperseded x = None \<longrightarrow> x \<in> set (Sessions h)"
    "\<forall>x \<in> set (Sessions h). \<not> session_of (ActDeploymentID q) (ActHostID q) x \<longrightarrow> x \<in> set rs"
    "find (\<lambda>x. session_of (ActDeploymentID q) (ActHostID q) x \<and> SRequest x = ActivationRequestID q) rs = None"
    "Hosts h' = update_where (host_is ?d ?i)
        (\<lambda>x. x\<lparr>HCurrentSession := ResSessionGeneration r, HLastBoot := Some (ActCollectorBootID q), HUpdated := HubNow env\<rparr>) (Hosts h)"
    by (rule activate_fresh[OF assms a])
  have "(\<forall>x \<in> set (live (HDeployment host) (HID host) (Sessions h')).
        SGeneration x = HCurrentSession host \<and> HLastBoot host = Some (SBoot x)) \<and>
      (HCurrentSession host > 0 \<longrightarrow> live (HDeployment host) (HID host) (Sessions h') \<noteq> [])"
    if host: "host \<in> set (Hosts h')" for host
  proof -
    obtain host0 where h0: "host0 \<in> set (Hosts h)" "host = (if host_is ?d ?i host0 then host0\<lparr>HCurrentSession := ResSessionGeneration r,
        HLastBoot := Some (ActCollectorBootID q), HUpdated := HubNow env\<rparr> else host0)"
      using host n(14) by (auto simp: set_update_where)
    show ?thesis
    proof (cases "host_is ?d ?i host0")
      case True
      then have k: "HDeployment host = ?d" "HID host = ?i" using h0(2) by (auto simp: host_is_def)
      then have "live (HDeployment host) (HID host) (Sessions h') = [row]"
        using n(1,3,4,7,8) by (simp add: live_append session_of_def)
      then show ?thesis using h0(2) True n(5,6) by simp
    next
      case no: False
      then have same: "host = host0" using h0(2) by simp
      have "set (live (HDeployment host0) (HID host0) (Sessions h')) = set (live (HDeployment host0) (HID host0) (Sessions h))"
        using n(1,3,4,11,12) no by (auto simp: live_def session_of_def host_is_def)
      then show ?thesis using assms h0(1) same by (fastforce simp: sessions_ok_def)
    qed
  qed
  moreover have "distinct (map HID (Hosts h'))"
    unfolding n(14) by (subst update_where_keep) (use assms in \<open>simp_all add: sessions_ok_def\<close>)
  ultimately show ?thesis using n(1,2,9,10) unfolding h'_def[symmetric] by (simp add: sessions_ok_def)
qed (use assms in simp)

text \<open>
  An activation keeps the session table consistent: generations are never reused, no host has
  two live sessions, and the live session is the one the host's row and boot point to.
\<close>
theorem activation_keeps_sessions_ok:
  assumes "sessions_ok h"
  shows "sessions_ok (snd (activate_session env q h))"
  using activation_keeps_sessions[OF assms] .

lemma activation_keeps_sessions_ok_witness:
  "sessions_ok (snd (activate_session demo_hub_env demo_activation_request demo_sessions_hub))"
  by (rule activation_keeps_sessions_ok[OF demo_sessions_ok])

lemma demo_activated:
  "\<exists>r. activate_session demo_hub_env demo_activation_request demo_sessions_hub =
     (Ok r, snd (activate_session demo_hub_env demo_activation_request demo_sessions_hub)) \<and> ResSessionGeneration r = 1"
proof -
  let ?r = "activate_session demo_hub_env demo_activation_request demo_sessions_hub"
  have "is_ok (fst ?r)" "map_sum id ResSessionGeneration (fst ?r) = Ok 1" by code_simp+
  then show ?thesis by (cases "fst ?r") (auto simp: prod_eq_iff)
qed

lemma distinct_key_eq: "distinct (map f xs) \<Longrightarrow> x \<in> set xs \<Longrightarrow> y \<in> set xs \<Longrightarrow> f x = f y \<Longrightarrow> x = y"
  by (auto simp: distinct_map inj_on_def)

lemma find_append_Some: "find P xs = None \<Longrightarrow> P y \<Longrightarrow> find P (xs @ [y]) = Some y"
  by (induction xs) (auto split: if_splits)

text \<open>What an accepted activation leaves: the session it answered with is the live one.\<close>

lemma activated:
  assumes "sessions_ok h" "activate_session env q h = (Ok r, h')"
  obtains dep host row where "find (\<lambda>x. DepID x = ActDeploymentID q) (Deployments h') = Some dep"
    "DepRecovery dep = ''normal''" "DepGeneration dep = ActSecurityGeneration q"
    "find (host_is (ActDeploymentID q) (ActHostID q)) (Hosts h') = Some host" "HRetired host = None"
    "HCurrentSession host = SGeneration row" "HLastBoot host = Some (SBoot row)"
    "row \<in> set (live (ActDeploymentID q) (ActHostID q) (Sessions h'))" "session_ok row" "SResult row = r"
    "SBoot row = ActCollectorBootID q" "SSecurity row = ActSecurityGeneration q"
    "SPredecessor row = ExpectedPreviousGeneration q"
    "find (\<lambda>x. session_of (ActDeploymentID q) (ActHostID q) x \<and> SRequest x = ActivationRequestID q) (Sessions h') = Some row"
    "validate_activation q = Ok ()"
  using assms(2)
proof (cases rule: activate_session_Ok)
  case (replay dep host row)
  let ?d = "ActDeploymentID q" and ?i = "ActHostID q"
  have row: "row \<in> set (Sessions h)" "session_of ?d ?i row" using find_some[OF replay(7)] by auto
  have host: "host \<in> set (Hosts h)" "HDeployment host = ?d" "HID host = ?i"
    using find_some[OF replay(5)] by (auto simp: host_is_def)
  have ok: "session_ok row" using assms(1) row(1) by (auto simp: sessions_ok_def list_all_iff)
  have r: "SResult row = r" "ResCollectorBootID r = ActCollectorBootID q" "ResSecurityGeneration r = ActSecurityGeneration q"
    "SPredecessor row = ExpectedPreviousGeneration q" "ResSessionGeneration r = HCurrentSession host"
    using replay(8) by (auto simp: replayed_def split: if_splits)
  have gen: "SGeneration row = HCurrentSession host" "HCurrentSession host > 0" using ok r by (auto simp: session_ok_def)
  obtain x where x: "x \<in> set (live ?d ?i (Sessions h))" "SGeneration x = HCurrentSession host" "HLastBoot host = Some (SBoot x)"
    using assms(1) host gen(2) by (fastforce simp: sessions_ok_def neq_Nil_conv)
  have "x = row"
    by (rule distinct_key_eq[where f = "\<lambda>r. (SDeployment r, SHost r, SGeneration r)" and xs = "Sessions h"])
      (use assms(1) x row gen in \<open>auto simp: sessions_ok_def live_def session_of_def\<close>)
  then show ?thesis using that[of dep host row] replay x ok r gen by (auto simp: session_ok_def)
next
  case (fresh dep host rs0 rs')
  let ?d = "ActDeploymentID q" and ?i = "ActHostID q"
  have "length rs0 = length (Sessions h)" using supersede_live(1)[OF fresh(11)] map_eq_imp_length_eq by blast
  moreover have "length rs' = Suc (length rs0)" using fresh(12) by (auto simp: insert_session_def split: if_splits)
  moreover have "Sessions h' = rs'" using fresh(13) by simp
  ultimately have ne: "h' \<noteq> h \<or> Sessions h' \<noteq> Sessions h" by auto
  obtain row rs where n: "Sessions h' = rs @ [row]" "session_ok row" "SDeployment row = ?d" "SHost row = ?i"
    "SGeneration row = ResSessionGeneration r" "SBoot row = ActCollectorBootID q" "SSecurity row = ActSecurityGeneration q"
    "SRequest row = ActivationRequestID q" "SSuperseded row = None" "SResult row = r"
    "SPredecessor row = ExpectedPreviousGeneration q"
    "find (\<lambda>x. session_of ?d ?i x \<and> SRequest x = ActivationRequestID q) rs = None"
    by (rule activate_fresh[OF assms ne])
  let ?f = "\<lambda>x. x\<lparr>HCurrentSession := ResSessionGeneration r, HLastBoot := Some (ActCollectorBootID q), HUpdated := HubNow env\<rparr>"
  have "find (host_is ?d ?i) (update_where (host_is ?d ?i) ?f hs) = map_option ?f (find (host_is ?d ?i) hs)" for hs
    by (induction hs) (auto simp: update_where_def host_is_def)
  then have "find (host_is ?d ?i) (Hosts h') = Some (?f host)" using fresh(4,13) by simp
  moreover have "row \<in> set (live ?d ?i (Sessions h'))" using n(1,3,4,9) by (simp add: live_append session_of_def)
  moreover have "find (\<lambda>x. session_of ?d ?i x \<and> SRequest x = ActivationRequestID q) (Sessions h') = Some row"
    using find_append_Some[OF n(12)] n(1,3,4,8) by (simp add: session_of_def)
  ultimately show ?thesis
    using that[of dep "?f host" row] fresh(1,2,3,5,8,13) n(2,5,6,7,10,11) by simp
qed

lemma only_latest:
  assumes "sessions_ok h" "activate_session env q h = (Ok r, h')"
  shows "validate_current_session h' (ActDeploymentID q) (ActHostID q) security g boot = Ok True \<longleftrightarrow>
     security = ActSecurityGeneration q \<and> g = ResSessionGeneration r \<and> boot = ActCollectorBootID q"
proof -
  let ?d = "ActDeploymentID q" and ?i = "ActHostID q"
  have h': "sessions_ok h'" using activation_keeps_sessions[OF assms(1), of env q] assms(2) by simp
  obtain dep host row where a: "find (\<lambda>x. DepID x = ?d) (Deployments h') = Some dep"
    "DepRecovery dep = ''normal''" "DepGeneration dep = ActSecurityGeneration q"
    "find (host_is ?d ?i) (Hosts h') = Some host" "HRetired host = None"
    "HCurrentSession host = SGeneration row" "HLastBoot host = Some (SBoot row)"
    "row \<in> set (live ?d ?i (Sessions h'))" "session_ok row" "SResult row = r"
    "SBoot row = ActCollectorBootID q" "SSecurity row = ActSecurityGeneration q"
    by (rule activated[OF assms])
  have host: "find (\<lambda>r. host_is ?d ?i r \<and> HRetired r = None) (Hosts h') = Some host"
    using a(4,5) by (auto simp: find_Some_iff)
  have g: "ResSessionGeneration r = SGeneration row" using a(9,10) by (auto simp: session_ok_def)
  have "filter (\<lambda>x. session_of ?d ?i x \<and> SSecurity x = ActSecurityGeneration q \<and> SGeneration x = SGeneration row
      \<and> SBoot x = ActCollectorBootID q \<and> SSuperseded x = None) (Sessions h') = [row]"
  proof -
    have "filter (\<lambda>x. (SDeployment x, SHost x, SGeneration x) = (SDeployment row, SHost row, SGeneration row)) (Sessions h') = [row]"
      by (rule filter_key_unique) (use h' a(8) in \<open>auto simp: sessions_ok_def live_def\<close>)
    moreover have "filter (\<lambda>x. session_of ?d ?i x \<and> SSecurity x = ActSecurityGeneration q \<and> SGeneration x = SGeneration row
      \<and> SBoot x = ActCollectorBootID q \<and> SSuperseded x = None) (Sessions h') =
      filter (\<lambda>x. SSecurity x = ActSecurityGeneration q \<and> SBoot x = ActCollectorBootID q \<and> SSuperseded x = None)
        (filter (\<lambda>x. (SDeployment x, SHost x, SGeneration x) = (SDeployment row, SHost row, SGeneration row)) (Sessions h'))"
      using a(8) by (auto simp: live_def session_of_def intro!: filter_cong)
    ultimately show ?thesis using a(8,11,12) by (simp add: live_def)
  qed
  then show ?thesis using a host g by (auto simp: validate_current_session_def)
qed

text \<open>
  (C8) The fence: once a collector has activated a session, the hub lets through exactly the
  messages that carry this session's generation, its boot and the deployment's security
  generation; every earlier session of the host is refused.
\<close>
theorem only_latest_session_passes:
  assumes "sessions_ok h" "activate_session env q h = (Ok r, h')"
  shows "validate_current_session h' (ActDeploymentID q) (ActHostID q) security g boot = Ok True \<longleftrightarrow>
     security = ActSecurityGeneration q \<and> g = ResSessionGeneration r \<and> boot = ActCollectorBootID q"
  using only_latest[OF assms] .

lemma only_latest_session_passes_witness:
  "validate_current_session (snd (activate_session demo_hub_env demo_activation_request demo_sessions_hub))
     (ActDeploymentID demo_activation_request) (ActHostID demo_activation_request)
     (ActSecurityGeneration demo_activation_request) 1 (ActCollectorBootID demo_activation_request) = Ok True"
  using demo_activated only_latest_session_passes[OF demo_sessions_ok] by metis

text \<open>The length of the text \<open>json.Marshal\<close> makes of a state whose strings need no escapes.\<close>

definition json_int :: "int \<Rightarrow> int" where
  "json_int n = (if n < 0 then 1 else 0) + int_digits 19 \<bar>n\<bar>"

definition json_bool :: "bool \<Rightarrow> int" where
  "json_bool b = (if b then 4 else 5)"

definition json_array :: "('a \<Rightarrow> int) \<Rightarrow> 'a list \<Rightarrow> int" where
  "json_array f xs = max 2 (1 + sum_list (map (\<lambda>x. f x + 1) xs))"

definition activation_json_length :: "session_activation \<Rightarrow> int" where
  "activation_json_length q =
     int (length ''{\"protocol\":\"\",\"deployment_id\":\"\",\"host_id\":\"\",\"security_generation\":\"\",'' +
       length ''\"activation_request_id\":\"\",\"collector_boot_id\":\"\",\"expected_previous_generation\":}'' +
       length (ActProtocol q) + length (ActDeploymentID q) + length (ActHostID q) + length (ActSecurityGeneration q) +
       length (ActivationRequestID q) + length (ActCollectorBootID q)) + json_int (ExpectedPreviousGeneration q)"

definition model_json_length :: "model_identity \<Rightarrow> int" where
  "model_json_length m = int (length ''{\"id\":\"\",\"target_id\":\"\",\"alias\":\"\",\"digest\":\"\"}'' +
     length (MID m) + length (MTargetID m) + length (MAlias m) + length (MDigest m))"

definition source_json_length :: "inventory_source \<Rightarrow> int" where
  "source_json_length x =
     int (length ''{\"source_id\":\"\",\"kind\":\"\",\"target_id\":,\"capability_revision\":\"\",\"active\":}'' +
       length (InvSourceID x) + length (InvKind x) + length (CapabilityRevision x) +
       (case InvTargetID x of None \<Rightarrow> 4 | Some t \<Rightarrow> 2 + length t)) + json_bool (InvActive x)"

definition state_json_length :: "pairing_state \<Rightarrow> int" where
  "state_json_length v =
     int (length ''{\"version\":,\"deployment_id\":\"\",\"security_generation\":\"\",\"installation_id\":\"\",\"host_id\":\"\",'' +
       length ''\"host_source_id\":\"\",\"registered\":,\"previous_session\":,\"pending_activation\":,\"models\":,'' +
       length ''\"inventory_sources\":,\"pending_inventory_revision\":\"\"}'' +
       length (PDeploymentID v) + length (PGeneration v) + length (InstallationID v) + length (PHostID v) +
       length (HostSourceID v) + length (PendingInventoryRevision v)) +
     json_int (PVersion v) + json_bool (Registered v) + json_int (PreviousSession v) +
     (case PendingActivation v of None \<Rightarrow> 4 | Some q \<Rightarrow> activation_json_length q) +
     json_array model_json_length (PModels v) + json_array source_json_length (InventorySources v)"

text \<open>
  (C26) The handshake completes though answers get lost: if the hub accepted a request, it gives the
  same answer to it again, and the collector that kept the request accepts this answer and goes
  on with the session that the hub considers current, provided that the state it then saves - its state
  without the request, with the new session - is not longer than the limit of its file.
\<close>
theorem handshake_completes:
  assumes "sessions_ok h" "activate_session env q h = (Ok r, h')"
    and "Admission env' = None" "CommitFails env' = None"
    and "PendingActivation (Value s) = Some q" 
      "jsonlen ((Value s)\<lparr>PendingActivation := None, PreviousSession := ResSessionGeneration r\<rparr>) \<le> max_state_bytes"
  shows "activate_session env' q h' = (Ok r, h') \<and>
     fst (complete_activation jsonlen no_failures r s) = Ok () \<and>
     validate_current_session h' (ActDeploymentID q) (ActHostID q) (ActSecurityGeneration q)
       (PreviousSession (Value (snd (complete_activation jsonlen no_failures r s)))) (ActCollectorBootID q) = Ok True"
proof -
  let ?d = "ActDeploymentID q" and ?i = "ActHostID q"
  obtain dep host row where a: "find (\<lambda>x. DepID x = ?d) (Deployments h') = Some dep"
    "DepRecovery dep = ''normal''" "DepGeneration dep = ActSecurityGeneration q"
    "find (host_is ?d ?i) (Hosts h') = Some host" "HRetired host = None"
    "HCurrentSession host = SGeneration row" "HLastBoot host = Some (SBoot row)"
    "row \<in> set (live ?d ?i (Sessions h'))" "session_ok row" "SResult row = r"
    "SBoot row = ActCollectorBootID q" "SSecurity row = ActSecurityGeneration q"
    "SPredecessor row = ExpectedPreviousGeneration q"
    "find (\<lambda>x. session_of ?d ?i x \<and> SRequest x = ActivationRequestID q) (Sessions h') = Some row"
    "validate_activation q = Ok ()"
    by (rule activated[OF assms(1,2)])
  have r: "ResActivationRequestID r = ActivationRequestID q" "ResSecurityGeneration r = ActSecurityGeneration q"
    "ResCollectorBootID r = ActCollectorBootID q" "ResCurrent r" "ResSessionGeneration r = SGeneration row"
    "ExpectedPreviousGeneration q < ResSessionGeneration r" "ResSessionGeneration r \<le> MaxUint53" "0 \<le> ActivatedMS r"
    using a(9-13) find_some[OF a(14)] by (auto simp: session_ok_def)
  have "replayed q (HCurrentSession host) row = Ok r" using a r by (simp add: replayed_def)
  then have replay: "activate_session env' q h' = (Ok r, h')"
    using a assms(3,4) by (simp add: activate_session_def transaction_def activate_body_def Let_def deployment_def owned_def)
  have "result_matches r q" using r by (simp add: result_matches_def)
  moreover have none: "first_failure no_failures ss = None" for ss by (induction ss) auto
  ultimately have "complete_activation jsonlen no_failures r s = (Ok (), \<lparr>Value = (Value s)\<lparr>PendingActivation := None,
      PreviousSession := ResSessionGeneration r\<rparr>, Stored = Holds ((Value s)\<lparr>PendingActivation := None,
      PreviousSession := ResSessionGeneration r\<rparr>)\<rparr>)"
    using assms(5,6) by (simp add: complete_activation_def save_def write_private_file_def not_less)
  then show ?thesis using replay only_latest[OF assms(1,2)] by simp
qed

text \<open>The sample's state with the request, and whatever session the hub gives it.\<close>

lemma demo_state_length:
  "0 \<le> n \<Longrightarrow> n \<le> MaxUint53 \<Longrightarrow>
   state_json_length (demo_state\<lparr>PendingActivation := None, PreviousSession := n\<rparr>) \<le> max_state_bytes"
proof -
  have digits: "int_digits k m \<le> int k + 1" for k m
  proof (induction k arbitrary: m)
    case (Suc k)
    show ?case using Suc[of "m div 10"] by simp
  qed simp
  have digit: "int_digits 19 0 = 1" by code_simp
  have "state_json_length (demo_state\<lparr>PendingActivation := None, PreviousSession := 0\<rparr>) \<le> 1000" by code_simp
  then have "state_json_length (demo_state\<lparr>PendingActivation := None, PreviousSession := n\<rparr>) \<le> 1000 + json_int n"
    using digit by (simp add: state_json_length_def json_int_def[of 0])
  moreover have "json_int n \<le> 21" using digits[of 19 "\<bar>n\<bar>"] by (cases "n < 0") (simp_all add: json_int_def abs_if)
  ultimately show ?thesis by (simp add: max_state_bytes_def)
qed

lemma handshake_completes_witness:
  "\<exists>r. activate_session demo_hub_env demo_activation_request
       (snd (activate_session demo_hub_env demo_activation_request demo_sessions_hub)) =
     (Ok r, snd (activate_session demo_hub_env demo_activation_request demo_sessions_hub)) \<and>
     fst (complete_activation state_json_length no_failures r
       \<lparr>Value = demo_state\<lparr>PendingActivation := Some demo_activation_request\<rparr>, Stored = Absent\<rparr>) = Ok ()"
proof -
  let ?s = "\<lparr>Value = demo_state\<lparr>PendingActivation := Some demo_activation_request\<rparr>, Stored = Absent\<rparr>"
  obtain r where r: "activate_session demo_hub_env demo_activation_request demo_sessions_hub =
     (Ok r, snd (activate_session demo_hub_env demo_activation_request demo_sessions_hub))"
    using demo_activated by blast
  have e: "Admission demo_hub_env = None" "CommitFails demo_hub_env = None" by (simp_all add: demo_hub_env_def)
  have p: "PendingActivation (Value ?s) = Some demo_activation_request" by simp
  obtain row where "SResult row = r" "session_ok row"
    by (rule activated[OF demo_sessions_ok r])
  then have "0 \<le> ResSessionGeneration r" "ResSessionGeneration r \<le> MaxUint53" by (auto simp: session_ok_def)
  from demo_state_length[OF this] have n: "state_json_length ((Value ?s)\<lparr>PendingActivation := None,
      PreviousSession := ResSessionGeneration r\<rparr>) \<le> max_state_bytes" by simp
  show ?thesis
    using r handshake_completes[where jsonlen = state_json_length and s = ?s, OF demo_sessions_ok r e p n] by blast
qed

end
