(* ===== verification/HubIngest.thy ===== *)
theory HubIngest
  imports HubInventory Capacity
begin

text \<open>
  \<open>internal/store/ingest.go\<close> and \<open>internal/store/codec.go\<close>: admitting a batch of frames and a source
  status. The tables written here join those of Hub and Capacity; a JSON column holds the value that
  was encoded. CBOR, zstd and SHA-256 are arguments, and so is the random source of new identifiers.
  Constraints that the validation of the message already implies are not repeated in the statements.
\<close>

section \<open>Tables\<close>

datatype event_fields =
    ConfigTransition string string string string
  | ConfigUnavailable string string string
  | EndpointUnavailable association_quality missing_reason string string
  | ProcessExit int64 uint64_decimal string

record frame_row =
  FrDeployment :: string
  FrHost :: string
  FrSecurity :: string
  FrSession :: int64
  FrBoot :: string
  FrSource :: string
  FrSequence :: int64
  FrMode :: string
  FrIncarnation :: "string option"
  FrOriginalWall :: int64
  FrAligned :: "int64 option"
  FrUncertainty :: "int64 option"
  FrDuration :: int64
  FrQuality :: quality
  FrDefinition :: string
  FrPayload :: string
  FrHash :: string
  FrOrigSecurity :: string
  FrOrigBoot :: string
  FrOrigSource :: string
  FrOrigSequence :: int64
  FrOrigHash :: string
  FrAdmitted :: int64

record status_row =
  SsDeployment :: string
  SsHost :: string
  SsSecurity :: string
  SsSession :: int64
  SsBoot :: string
  SsSequence :: int64
  SsObserved :: int64
  SsPayload :: source_status
  SsHash :: string
  SsAdmitted :: int64

record incarnation_row =
  InID :: string
  InDeployment :: string
  InHost :: string
  InTarget :: string
  InBoot :: string
  InPID :: int64
  InStart :: uint64_decimal
  InKey :: string
  InBasename :: "string option"
  InFirstSeen :: int64
  InLastSeen :: int64

record process_row =
  PrDeployment :: string
  PrHost :: string
  PrTarget :: "string option"
  PrIncarnation :: "string option"
  PrSource :: string
  PrKey :: string
  PrObserved :: int64
  PrBusy :: "float64 option"
  PrFootprint :: "uint64_decimal option"
  PrAssociation :: association_quality
  PrMethod :: string
  PrProvenance :: provenance

record load_row =
  LoDeployment :: string
  LoHost :: string
  LoTarget :: string
  LoModel :: string
  LoObserved :: int64
  LoLoaded :: bool
  LoSize :: "uint64_decimal option"
  LoVRAM :: "uint64_decimal option"
  LoProvenance :: provenance

record config_row =
  CoID :: string
  CoDeployment :: string
  CoHost :: string
  CoTarget :: string
  CoHash :: string
  CoObserved :: int64
  CoPreceding :: "int64 option"
  CoFields :: runtime_config_fields
  CoProvenance :: runtime_config_provenance

record event_row =
  EvID :: string
  EvDeployment :: string
  EvHost :: string
  EvTarget :: string
  EvIncarnation :: "string option"
  EvStart :: int64
  EvEnd :: int64
  EvDetected :: int64
  EvCode :: string
  EvSeverity :: string
  EvFields :: event_fields
  EvSource :: string
  EvProvenance :: provenance
  EvRepeat :: int64

record association_row =
  AsDeployment :: string
  AsHost :: string
  AsTarget :: string
  AsIncarnation :: string
  AsChecked :: int64
  AsEndpoint :: string
  AsEvidence :: endpoint_association
  AsRevision :: string

text \<open>\<open>Uuids\<close>: what \<open>domain.NewUUID\<close> is going to return; it fails when nothing is left.\<close>

record store_db =
  Core :: hub
  Capacities :: capacity_db
  FrameRows :: "frame_row list"
  StatusRows :: "status_row list"
  Incarnations :: "incarnation_row list"
  ProcessRows :: "process_row list"
  LoadRows :: "load_row list"
  ConfigRows :: "config_row list"
  EventRows :: "event_row list"
  AssociationRows :: "association_row list"
  Uuids :: "string list"

section \<open>The frame codec\<close>

definition MaxFrameBytes :: int where "MaxFrameBytes = 262144"

record frame_codec =
  Marshal :: "collector_frame \<Rightarrow> (message, string) result"
  Compress :: "string \<Rightarrow> string"
  Decompress :: "string \<Rightarrow> (message, string) result"
  Unmarshal :: "string \<Rightarrow> (message, collector_frame) result"
  PayloadDigest :: "string \<Rightarrow> string"
  ConfigDigest :: "canonical_config \<Rightarrow> string"

definition codec_encode :: "frame_codec \<Rightarrow> collector_frame \<Rightarrow> (message, string \<times> string) result" where
  "codec_encode k f =
     result_bind (validate_frame (ConfigDigest k) f) (\<lambda>_.
     result_bind (Marshal k f) (\<lambda>plain.
     if int (length plain) > MaxFrameBytes then Err ''canonical frame exceeds decoded limit''
     else let packed = Compress k plain in
       if int (length packed) > MaxFrameBytes then Err ''compressed frame exceeds storage limit''
       else Ok (packed, PayloadDigest k packed)))"

definition codec_decode :: "frame_codec \<Rightarrow> string \<Rightarrow> (message, collector_frame) result" where
  "codec_decode k packed =
     (if int (length packed) > MaxFrameBytes then Err ''compressed frame exceeds storage limit''
      else result_bind (Decompress k packed) (\<lambda>plain.
        if int (length plain) > MaxFrameBytes then Err ''decoded frame exceeds limit''
        else result_bind (Unmarshal k plain) (\<lambda>f.
        result_bind (validate_frame (ConfigDigest k) f) (\<lambda>_. Ok f))))"

definition invalid_as :: "(message, 'a) result \<Rightarrow> 'a outcome" where
  "invalid_as r = (case r of Inl m \<Rightarrow> Err (ErrInvalid m) | Inr a \<Rightarrow> Ok a)"

section \<open>Admission checks\<close>

definition validate_batch_session :: "collector_batch \<Rightarrow> hub \<Rightarrow> unit outcome" where
  "validate_batch_session b h =
     (let d = BDeploymentID b; i = BHostID b in
      case (find (\<lambda>r. DepID r = d) (Deployments h), find (\<lambda>r. host_is d i r \<and> HRetired r = None) (Hosts h)) of
        (Some dep, Some host) \<Rightarrow>
          if DepRecovery dep \<noteq> ''normal'' \<or> DepGeneration dep \<noteq> BSecurityGeneration b then Err ErrAdmissionFenced
          else (case find (\<lambda>r. session_of d i r \<and> SSecurity r = BSecurityGeneration b \<and> SGeneration r = BSessionGeneration b
                  \<and> SBoot r = BCollectorBootID b) (Sessions h) of
            None \<Rightarrow> Err ErrGenerationConflict
          | Some s \<Rightarrow>
              if DeliveryMode b = ''current'' \<and> (HCurrentSession host \<noteq> BSessionGeneration b
                   \<or> HLastBoot host \<noteq> Some (BCollectorBootID b) \<or> SSuperseded s \<noteq> None)
              then Err ErrGenerationConflict else Ok ())
      | _ \<Rightarrow> Err ErrOwnershipMismatch)"

definition target_of :: "string \<Rightarrow> string \<Rightarrow> string \<Rightarrow> hub \<Rightarrow> target_row option" where
  "target_of d i t h = find (\<lambda>r. TDeployment r = d \<and> THost r = i \<and> TID r = t) (HubTargets h)"

definition source_of :: "string \<Rightarrow> string \<Rightarrow> string \<Rightarrow> hub \<Rightarrow> source_row option" where
  "source_of d i s h = find (\<lambda>r. SrcDeployment r = d \<and> SrcHost r = i \<and> SrcID r = s) (HubSources h)"

text \<open>What a frame of a host and of a runtime source may carry.\<close>

definition has_runtime_gauge :: "collector_frame \<Rightarrow> bool" where
  "has_runtime_gauge f \<longleftrightarrow> list_ex (\<lambda>(g, v). g = ''runtime.reachable'') (FGauges f)"

definition has_host_gauge :: "collector_frame \<Rightarrow> bool" where
  "has_host_gauge f \<longleftrightarrow> list_ex (\<lambda>(g, v). g \<noteq> ''runtime.reachable'') (FGauges f)"

definition kind_allows :: "string \<Rightarrow> collector_frame \<Rightarrow> bool" where
  "kind_allows kind f \<longleftrightarrow>
     (if kind = ''host''
      then \<not> (has_runtime_gauge f \<or> FModelObservations f \<noteq> [] \<or> FConfigObservation f \<noteq> None)
      else kind = ''runtime'' \<and>
        \<not> (has_host_gauge f \<or> FNetworkObservations f \<noteq> [] \<or> FProcessObservations f \<noteq> []
           \<or> FProcessSummary f \<noteq> None \<or> FEndpointAssociation f \<noteq> None))"

definition matched_process :: "endpoint_association \<Rightarrow> process_observation \<Rightarrow> bool" where
  "matched_process a p \<longleftrightarrow> ProcTargetID p = Some (AssocTargetID a) \<and> AssocProcessKey a = Some (ProcessKey p)
     \<and> AssocPID a = Some (PID p) \<and> AssocStartIdentity a = Some (ProcessStartIdentity p)
     \<and> ProcAssociation p = AssociationVerified"

definition association_owned :: "string \<Rightarrow> string \<Rightarrow> collector_frame \<Rightarrow> hub \<Rightarrow> endpoint_association \<Rightarrow> bool" where
  "association_owned d i f h a \<longleftrightarrow>
     (case target_of d i (AssocTargetID a) h of
        None \<Rightarrow> False
      | Some t \<Rightarrow> TSelector t = SelectorSHA256 a \<and> TSelector t = EndpointHash a)
     \<and> (AssocQuality a = AssociationVerified \<longrightarrow> list_ex (matched_process a) (FProcessObservations f))"

definition incarnation_known :: "string \<Rightarrow> string \<Rightarrow> string option \<Rightarrow> store_db \<Rightarrow> string \<Rightarrow> bool" where
  "incarnation_known d i target db n \<longleftrightarrow> (case target of None \<Rightarrow> False | Some t \<Rightarrow>
     length (filter (\<lambda>r. InDeployment r = d \<and> InHost r = i \<and> InTarget r = t \<and> InID r = n) (Incarnations db)) = 1)"

definition model_known :: "string \<Rightarrow> string \<Rightarrow> string option \<Rightarrow> hub \<Rightarrow> model_observation \<Rightarrow> bool" where
  "model_known d i target h m \<longleftrightarrow> (case target of None \<Rightarrow> False | Some t \<Rightarrow>
     length (filter (\<lambda>r. ModDeployment r = d \<and> ModHost r = i \<and> ModTarget r = t \<and> ModID r = ModelID m
       \<and> ModDigest r = Some (ModelDigest m)) (HubModels h)) = 1)"

definition process_owned :: "string \<Rightarrow> string \<Rightarrow> hub \<Rightarrow> process_observation \<Rightarrow> bool" where
  "process_owned d i h p \<longleftrightarrow> ProcHostID p = i \<and> opt_all (\<lambda>t. target_of d i t h \<noteq> None) (ProcTargetID p)"

definition validate_frame_ownership :: "collector_batch \<Rightarrow> store_db \<Rightarrow> collector_frame \<Rightarrow> unit outcome" where
  "validate_frame_ownership b db f =
     (let d = BDeploymentID b; i = BHostID b; h = Core db in
      result_bind (owned (source_of d i (FSourceID f) h)) (\<lambda>src.
        ensure
          (\<not> (DeliveryMode b = ''current'' \<and> SrcRetired src \<noteq> None)
           \<and> kind_allows (SrcKind src) f
           \<and> opt_all (\<lambda>c. SrcTarget src = Some (CfgTargetID c)) (FConfigObservation f)
           \<and> opt_all (association_owned d i f h) (FEndpointAssociation f)
           \<and> opt_all (incarnation_known d i (SrcTarget src) db) (IncarnationID f)
           \<and> list_all (model_known d i (SrcTarget src) h) (FModelObservations f)
           \<and> list_all (process_owned d i h) (FProcessObservations f))
          ErrOwnershipMismatch))"

text \<open>Current frames of one source keep their order in sequence number and monotonic start.\<close>

definition current_of :: "collector_batch \<Rightarrow> string \<Rightarrow> frame_row \<Rightarrow> bool" where
  "current_of b source r \<longleftrightarrow> FrDeployment r = BDeploymentID b \<and> FrHost r = BHostID b \<and> FrSession r = BSessionGeneration b
     \<and> FrBoot r = BCollectorBootID b \<and> FrSource r = source \<and> FrMode r = ''current''"

definition latest_by :: "('a \<Rightarrow> int) \<Rightarrow> 'a list \<Rightarrow> 'a option" where
  "latest_by key rows = (case sort_key (\<lambda>r. - key r) rows of [] \<Rightarrow> None | r # rs \<Rightarrow> Some r)"

definition stored_decimal :: "uint64_decimal \<Rightarrow> int option" where
  "stored_decimal s = (if s = [] \<or> \<not> list_all is_digit s \<or> int (digits_value s) > max_uint64 then None
     else Some (int (digits_value s)))"

definition validate_current_frame_order ::
  "frame_codec \<Rightarrow> int64 \<Rightarrow> collector_batch \<Rightarrow> frame_row list \<Rightarrow> collector_frame \<Rightarrow> unit outcome" where
  "validate_current_frame_order k now b rows f =
     (if ptr_and (EstimatedUTCMS f) (\<lambda>t. t > add64 now 60000) then Err ErrGenerationConflict
      else case latest_by FrSequence (filter (current_of b (FSourceID f)) rows) of
        None \<Rightarrow> Ok ()
      | Some r \<Rightarrow>
          if FSequence f \<le> FrSequence r then Err ErrGenerationConflict
          else result_bind (invalid_as (codec_decode k (FrPayload r))) (\<lambda>prev.
            case stored_decimal (MonotonicStartNS prev) of
              None \<Rightarrow> Err (ErrInvalid ''strconv.ParseUint'')
            | Some p \<Rightarrow> (case stored_decimal (MonotonicStartNS f) of
                None \<Rightarrow> Err ErrGenerationConflict
              | Some c \<Rightarrow> ensure (\<not> c < p) ErrGenerationConflict)))"

section \<open>New identifiers and events\<close>

definition new_uuid :: "store_db \<Rightarrow> (string \<times> store_db) outcome" where
  "new_uuid db = (case Uuids db of [] \<Rightarrow> Err (ErrDatabase ''read random'') | u # us \<Rightarrow> Ok (u, db\<lparr>Uuids := us\<rparr>))"

definition insert_event :: "event_row \<Rightarrow> store_db \<Rightarrow> store_db outcome" where
  "insert_event e db =
     (if list_ex (\<lambda>r. EvID r = EvID e) (EventRows db) \<or> length (EvID e) \<noteq> 36 then Err (ErrConstraint ''events.id'')
      else if EvEnd e < EvStart e then Err (ErrConstraint ''occurred_end_ms>=occurred_start_ms'')
      else if target_of (EvDeployment e) (EvHost e) (EvTarget e) (Core db) = None
      then Err (ErrConstraint ''events.target_id'')
      else Ok (db\<lparr>EventRows := EventRows db @ [e]\<rparr>))"

definition effective_time :: "collector_frame \<Rightarrow> int64" where
  "effective_time f = (case EstimatedUTCMS f of Some t \<Rightarrow> t | None \<Rightarrow> FObservedWallMS f)"

section \<open>Endpoint associations\<close>

definition batch_event ::
  "collector_batch \<Rightarrow> string \<Rightarrow> string option \<Rightarrow> int64 \<Rightarrow> int64 \<Rightarrow> int64 \<Rightarrow> string \<Rightarrow> string \<Rightarrow> event_fields \<Rightarrow> string \<Rightarrow>
   provenance \<Rightarrow> string \<Rightarrow> event_row" where
  "batch_event b target inc st en detected code sev what source p u =
     \<lparr>EvID = u, EvDeployment = BDeploymentID b, EvHost = BHostID b, EvTarget = target, EvIncarnation = inc,
      EvStart = st, EvEnd = en, EvDetected = detected, EvCode = code, EvSeverity = sev, EvFields = what,
      EvSource = source, EvProvenance = p, EvRepeat = 1\<rparr>"

text \<open>The latest unavailability of the target that no verified association has ended since.\<close>

definition open_unavailability :: "collector_batch \<Rightarrow> string \<Rightarrow> store_db \<Rightarrow> event_row option" where
  "open_unavailability b target db = latest_by EvDetected (filter (\<lambda>e.
     EvDeployment e = BDeploymentID b \<and> EvHost e = BHostID b \<and> EvTarget e = target
     \<and> EvCode e = ''endpoint_association_unavailable''
     \<and> \<not> list_ex (\<lambda>a. AsDeployment a = EvDeployment e \<and> AsHost a = EvHost e \<and> AsTarget a = EvTarget e
           \<and> AsChecked a > EvEnd e) (AssociationRows db)) (EventRows db))"

definition persist_endpoint_unavailable ::
  "collector_batch \<Rightarrow> endpoint_association \<Rightarrow> int64 \<Rightarrow> int64 \<Rightarrow> store_db \<Rightarrow> store_db outcome" where
  "persist_endpoint_unavailable b a observed admitted db =
     (case AssocReason a of
        None \<Rightarrow> Err (ErrInvalid ''nil association reason'')
      | Some reason \<Rightarrow>
          let what = EndpointUnavailable (AssocQuality a) reason (SelectorSHA256 a) (ManifestSHA256 a) in
          (case open_unavailability b (AssocTargetID a) db of
            Some e \<Rightarrow>
              if EvFields e = what
              then Ok (db\<lparr>EventRows := update_where (\<lambda>r. EvDeployment r = BDeploymentID b \<and> EvHost r = BHostID b
                     \<and> EvID r = EvID e \<and> EvEnd r \<le> observed)
                   (\<lambda>r. r\<lparr>EvEnd := observed, EvDetected := admitted, EvRepeat := EvRepeat r + 1\<rparr>) (EventRows db)\<rparr>)
              else result_bind (new_uuid db) (\<lambda>(u, db). insert_event (batch_event b (AssocTargetID a) None observed observed
                     admitted ''endpoint_association_unavailable'' ''unknown'' what ''collector'' (AssocProvenance a) u) db)
          | None \<Rightarrow> result_bind (new_uuid db) (\<lambda>(u, db). insert_event (batch_event b (AssocTargetID a) None observed observed
                     admitted ''endpoint_association_unavailable'' ''unknown'' what ''collector'' (AssocProvenance a) u) db)))"

definition incarnation_is ::
  "collector_batch \<Rightarrow> string \<Rightarrow> int64 \<Rightarrow> uint64_decimal \<Rightarrow> string \<Rightarrow> incarnation_row \<Rightarrow> bool" where
  "incarnation_is b target pid st key r \<longleftrightarrow> InDeployment r = BDeploymentID b \<and> InHost r = BHostID b
     \<and> InTarget r = target \<and> InBoot r = BCollectorBootID b \<and> InPID r = pid \<and> InStart r = st \<and> InKey r = key"

definition persist_verified_exit ::
  "collector_batch \<Rightarrow> endpoint_association \<Rightarrow> int64 \<Rightarrow> int64 \<Rightarrow> store_db \<Rightarrow> store_db outcome" where
  "persist_verified_exit b a observed admitted db =
     (case VerifiedExit a of
        None \<Rightarrow> Ok db
      | Some e \<Rightarrow>
          (case find (incarnation_is b (AssocTargetID a) (ExitPID e) (ExitStartIdentity e) (ExitProcessKey e)) (Incarnations db) of
            None \<Rightarrow> Ok db
          | Some inc \<Rightarrow> result_bind (new_uuid db) (\<lambda>(u, db).
              insert_event (batch_event b (AssocTargetID a) (Some (InID inc)) (LastSeenMS e) observed admitted
                ''selected_process_exit_verified'' ''info'' (ProcessExit (ExitPID e) (ExitStartIdentity e) (ExitProcessKey e))
                ''collector'' (AssocProvenance a) u) db)))"

text \<open>The display name the frame gives the selected process.\<close>

definition display_name :: "endpoint_association \<Rightarrow> collector_frame \<Rightarrow> string option" where
  "display_name a f = (case find (\<lambda>p. AssocProcessKey a = Some (ProcessKey p)) (FProcessObservations f) of
     None \<Rightarrow> None | Some p \<Rightarrow> DisplayBasename p)"

definition insert_incarnation :: "incarnation_row \<Rightarrow> store_db \<Rightarrow> store_db outcome" where
  "insert_incarnation r db =
     (if list_ex (\<lambda>x. InID x = InID r) (Incarnations db) \<or> length (InID r) \<noteq> 36
         \<or> list_ex (\<lambda>x. InDeployment x = InDeployment r \<and> InHost x = InHost r \<and> InBoot x = InBoot r \<and> InPID x = InPID r
              \<and> InStart x = InStart r) (Incarnations db)
         \<or> target_of (InDeployment r) (InHost r) (InTarget r) (Core db) = None
      then Err ErrOwnershipMismatch else Ok (db\<lparr>Incarnations := Incarnations db @ [r]\<rparr>))"

definition observe_incarnation ::
  "collector_batch \<Rightarrow> endpoint_association \<Rightarrow> collector_frame \<Rightarrow> int64 \<Rightarrow> int64 \<Rightarrow> uint64_decimal \<Rightarrow> string \<Rightarrow> store_db \<Rightarrow>
   (string \<times> store_db) outcome" where
  "observe_incarnation b a f observed pid st key db =
     (case find (incarnation_is b (AssocTargetID a) pid st key) (Incarnations db) of
        None \<Rightarrow> result_bind (new_uuid db) (\<lambda>(u, db).
          result_bind (insert_incarnation \<lparr>InID = u, InDeployment = BDeploymentID b, InHost = BHostID b,
              InTarget = AssocTargetID a, InBoot = BCollectorBootID b, InPID = pid, InStart = st, InKey = key,
              InBasename = display_name a f, InFirstSeen = observed, InLastSeen = observed\<rparr> db) (\<lambda>db. Ok (u, db)))
      | Some r \<Rightarrow> Ok (InID r, db\<lparr>Incarnations := update_where (\<lambda>x. InDeployment x = BDeploymentID b \<and> InHost x = BHostID b
            \<and> InTarget x = AssocTargetID a \<and> InID x = InID r)
          (\<lambda>x. x\<lparr>InFirstSeen := min (InFirstSeen x) observed, InLastSeen := max (InLastSeen x) observed\<rparr>)
          (Incarnations db)\<rparr>))"

definition insert_association :: "association_row \<Rightarrow> store_db \<Rightarrow> store_db" where
  "insert_association r db =
     (if list_ex (\<lambda>x. AsDeployment x = AsDeployment r \<and> AsHost x = AsHost r \<and> AsTarget x = AsTarget r
          \<and> AsIncarnation x = AsIncarnation r \<and> AsChecked x = AsChecked r) (AssociationRows db)
      then db else db\<lparr>AssociationRows := AssociationRows db @ [r]\<rparr>)"

text \<open>A verified association without its process identity does not pass the frame's validation.\<close>

definition persist_verified_association ::
  "collector_batch \<Rightarrow> collector_frame \<Rightarrow> endpoint_association \<Rightarrow> int64 \<Rightarrow> int64 \<Rightarrow> store_db \<Rightarrow>
   (string option \<times> store_db) outcome" where
  "persist_verified_association b f a observed admitted db =
     (case (AssocPID a, AssocStartIdentity a, AssocProcessKey a) of
        (Some pid, Some st, Some key) \<Rightarrow>
          result_bind (observe_incarnation b a f observed pid st key db) (\<lambda>(inc, db).
          let db = insert_association \<lparr>AsDeployment = BDeploymentID b, AsHost = BHostID b, AsTarget = AssocTargetID a,
                AsIncarnation = inc, AsChecked = observed, AsEndpoint = EndpointHash a, AsEvidence = a,
                AsRevision = IdentityRevision a\<rparr> db in
          result_bind (if DeliveryMode b = ''current'' then persist_verified_exit b a observed admitted db else Ok db)
            (\<lambda>db. Ok (Some inc, db)))
      | _ \<Rightarrow> Err (ErrInvalid ''nil association identity''))"

definition persist_endpoint_association ::
  "collector_batch \<Rightarrow> collector_frame \<Rightarrow> int64 \<Rightarrow> int64 \<Rightarrow> store_db \<Rightarrow> (string option \<times> store_db) outcome" where
  "persist_endpoint_association b f observed admitted db =
     (case FEndpointAssociation f of
        None \<Rightarrow> Ok (None, db)
      | Some a \<Rightarrow>
          if AssocQuality a = AssociationVerified then persist_verified_association b f a observed admitted db
          else if DeliveryMode b \<noteq> ''current'' then Ok (None, db)
          else result_bind (persist_endpoint_unavailable b a observed admitted db) (\<lambda>db.
               result_bind (persist_verified_exit b a observed admitted db) (\<lambda>db. Ok (None, db))))"

section \<open>Processes and models\<close>

definition process_row_ok :: "process_row \<Rightarrow> store_db \<Rightarrow> unit outcome" where
  "process_row_ok r db =
     (if length (filter (\<lambda>x. PrDeployment x = PrDeployment r \<and> PrHost x = PrHost r \<and> PrSource x = PrSource r
            \<and> PrObserved x = PrObserved r) (ProcessRows db)) \<ge> 32
      then Err (ErrConstraint ''process_observation_cap_32'')
      else ensure (sql_length (PrMethod r) \<le> 128) (ErrConstraint ''length(method_revision)<=128''))"

text \<open>\<open>ON CONFLICT DO NOTHING\<close> passes over a row whose key is there; a trigger and a check still fail.\<close>

definition insert_process :: "process_row \<Rightarrow> store_db \<Rightarrow> store_db outcome" where
  "insert_process r db = result_bind (process_row_ok r db) (\<lambda>_.
     Ok (if list_ex (\<lambda>x. PrDeployment x = PrDeployment r \<and> PrHost x = PrHost r \<and> PrSource x = PrSource r
              \<and> PrKey x = PrKey r \<and> PrObserved x = PrObserved r) (ProcessRows db)
         then db else db\<lparr>ProcessRows := ProcessRows db @ [r]\<rparr>))"

definition process_row_of ::
  "collector_batch \<Rightarrow> collector_frame \<Rightarrow> int64 \<Rightarrow> string option \<Rightarrow> process_observation \<Rightarrow> process_row" where
  "process_row_of b f observed inc p =
     \<lparr>PrDeployment = BDeploymentID b, PrHost = BHostID b, PrTarget = ProcTargetID p,
      PrIncarnation = (if ptr_and (FEndpointAssociation f) (\<lambda>a. AssocProcessKey a = Some (ProcessKey p)) then inc else None),
      PrSource = FSourceID f, PrKey = ProcessKey p, PrObserved = observed, PrBusy = CPUBusyRatio p,
      PrFootprint = PhysicalFootprintBytes p, PrAssociation = ProcAssociation p,
      PrMethod = MethodRevision (ProcProvenance p), PrProvenance = ProcProvenance p\<rparr>"

definition persist_process_observations ::
  "collector_batch \<Rightarrow> collector_frame \<Rightarrow> int64 \<Rightarrow> store_db \<Rightarrow> store_db outcome" where
  "persist_process_observations b f admitted db =
     (let observed = effective_time f in
      result_bind (persist_endpoint_association b f observed admitted db) (\<lambda>(inc, db).
        for_all (\<lambda>p. insert_process (process_row_of b f observed inc p)) (FProcessObservations f) db))"

definition insert_load :: "load_row \<Rightarrow> store_db \<Rightarrow> store_db outcome" where
  "insert_load r db =
     (if LoLoaded r \<and> length (filter (\<lambda>x. LoDeployment x = LoDeployment r \<and> LoHost x = LoHost r \<and> LoTarget x = LoTarget r
            \<and> LoObserved x = LoObserved r \<and> LoLoaded x) (LoadRows db)) \<ge> 2
      then Err (ErrConstraint ''loaded_model_cap_2'')
      else if list_ex (\<lambda>x. LoDeployment x = LoDeployment r \<and> LoHost x = LoHost r \<and> LoTarget x = LoTarget r
            \<and> LoModel x = LoModel r \<and> LoObserved x = LoObserved r) (LoadRows db)
      then Ok db else Ok (db\<lparr>LoadRows := LoadRows db @ [r]\<rparr>))"

text \<open>\<open>INSERT ... SELECT\<close> from the source's row: nothing is inserted for a source without a target.\<close>

definition persist_model ::
  "collector_batch \<Rightarrow> collector_frame \<Rightarrow> int64 \<Rightarrow> model_observation \<Rightarrow> store_db \<Rightarrow> store_db outcome" where
  "persist_model b f observed m db =
     (case Option.bind (source_of (BDeploymentID b) (BHostID b) (FSourceID f) (Core db)) SrcTarget of
        None \<Rightarrow> Ok db
      | Some t \<Rightarrow> insert_load \<lparr>LoDeployment = BDeploymentID b, LoHost = BHostID b, LoTarget = t, LoModel = ModelID m,
            LoObserved = observed, LoLoaded = Loaded m, LoSize = ReportedSizeBytes m, LoVRAM = ReportedSizeVRAMBytes m,
            LoProvenance = ModelProvenance m\<rparr> db)"

definition persist_model_observations ::
  "collector_batch \<Rightarrow> collector_frame \<Rightarrow> store_db \<Rightarrow> store_db outcome" where
  "persist_model_observations b f db = for_all (persist_model b f (effective_time f)) (FModelObservations f) db"

section \<open>Configurations\<close>

record config_boundary =
  BoundaryID :: string
  BoundaryHash :: string
  BoundaryMS :: int64

definition config_of :: "collector_batch \<Rightarrow> string \<Rightarrow> string \<Rightarrow> store_db \<Rightarrow> config_row option" where
  "config_of b target hash db = find (\<lambda>r. CoDeployment r = BDeploymentID b \<and> CoHost r = BHostID b \<and> CoTarget r = target
     \<and> CoHash r = hash) (ConfigRows db)"

text \<open>The claimed predecessor under the same source and boot: the latest admitted sixteen rows at the
  claimed time, passed over until one decodes to the claimed observation.\<close>

definition is_predecessor :: "collector_frame \<Rightarrow> runtime_config_observation \<Rightarrow> string \<Rightarrow> int64 \<Rightarrow> collector_frame \<Rightarrow> bool" where
  "is_predecessor f ob hash ms prev \<longleftrightarrow>
     ptr_and (FConfigObservation prev) (\<lambda>p. CfgTargetID p = CfgTargetID ob \<and> ConfigHash p = hash)
     \<and> FObservedWallMS prev = ms \<and> (EstimatedUTCMS prev = None) = (EstimatedUTCMS f = None)
     \<and> effective_time prev \<le> effective_time f"

fun same_boot_predecessor ::
  "frame_codec \<Rightarrow> collector_batch \<Rightarrow> collector_frame \<Rightarrow> runtime_config_observation \<Rightarrow> string \<Rightarrow> int64 \<Rightarrow> store_db \<Rightarrow>
   frame_row list \<Rightarrow> config_boundary option outcome" where
  "same_boot_predecessor k b f ob hash ms db [] = Ok None"
| "same_boot_predecessor k b f ob hash ms db (r # rs) =
     (if FrOrigBoot r \<noteq> BCollectorBootID b \<or> FrOrigSequence r \<ge> FSequence f
      then same_boot_predecessor k b f ob hash ms db rs
      else result_bind (invalid_as (codec_decode k (FrPayload r))) (\<lambda>prev.
        if \<not> is_predecessor f ob hash ms prev then same_boot_predecessor k b f ob hash ms db rs
        else (case config_of b (CfgTargetID ob) hash db of
            None \<Rightarrow> Ok None
          | Some c \<Rightarrow> Ok (Some \<lparr>BoundaryID = CoID c, BoundaryHash = hash, BoundaryMS = effective_time prev\<rparr>))))"

text \<open>Across boots: the latest aligned thirty-two rows before the frame.\<close>

fun cross_boot_predecessor ::
  "frame_codec \<Rightarrow> collector_batch \<Rightarrow> runtime_config_observation \<Rightarrow> store_db \<Rightarrow> frame_row list \<Rightarrow>
   config_boundary option outcome" where
  "cross_boot_predecessor k b ob db [] = Ok None"
| "cross_boot_predecessor k b ob db (r # rs) =
     (if FrOrigBoot r = BCollectorBootID b then cross_boot_predecessor k b ob db rs
      else result_bind (invalid_as (codec_decode k (FrPayload r))) (\<lambda>prev.
        case FConfigObservation prev of
          None \<Rightarrow> cross_boot_predecessor k b ob db rs
        | Some p \<Rightarrow>
            if CfgTargetID p \<noteq> CfgTargetID ob then cross_boot_predecessor k b ob db rs
            else (case (config_of b (CfgTargetID ob) (ConfigHash p) db, FrAligned r) of
                (Some c, Some t) \<Rightarrow> Ok (Some \<lparr>BoundaryID = CoID c, BoundaryHash = ConfigHash p, BoundaryMS = t\<rparr>)
              | _ \<Rightarrow> Ok None)))"

definition host_frame :: "collector_batch \<Rightarrow> frame_row \<Rightarrow> bool" where
  "host_frame b r \<longleftrightarrow> FrDeployment r = BDeploymentID b \<and> FrHost r = BHostID b"

definition verified_config_predecessor ::
  "frame_codec \<Rightarrow> collector_batch \<Rightarrow> collector_frame \<Rightarrow> runtime_config_observation \<Rightarrow> store_db \<Rightarrow>
   config_boundary option outcome" where
  "verified_config_predecessor k b f ob db =
     (case (PreviousConfigHash ob, PreviousObservedMS ob) of
        (Some hash, Some ms) \<Rightarrow> same_boot_predecessor k b f ob hash ms db
          (take 16 (sort_key (\<lambda>r. - FrAdmitted r) (filter (\<lambda>r. host_frame b r \<and> FrOrigSource r = FSourceID f
             \<and> FrOriginalWall r = ms) (FrameRows db))))
      | _ \<Rightarrow> (case EstimatedUTCMS f of
            None \<Rightarrow> Ok None
          | Some t \<Rightarrow>
              if DeliveryMode b \<noteq> ''current'' then Ok None
              else cross_boot_predecessor k b ob db
                (take 32 (sort_key (\<lambda>r. - the (FrAligned r)) (sort_key (\<lambda>r. - FrAdmitted r) (filter (\<lambda>r. host_frame b r
                   \<and> FrSource r = FSourceID f \<and> ptr_and (FrAligned r) (\<lambda>a. a < t)) (FrameRows db)))))))"

definition insert_config :: "config_row \<Rightarrow> store_db \<Rightarrow> store_db outcome" where
  "insert_config r db =
     (if list_ex (\<lambda>x. CoID x = CoID r) (ConfigRows db) \<or> length (CoID r) \<noteq> 36
         \<or> ptr_and (CoPreceding r) (\<lambda>p. p > CoObserved r)
         \<or> target_of (CoDeployment r) (CoHost r) (CoTarget r) (Core db) = None
      then Err (ErrConstraint ''config_snapshots'') else Ok (db\<lparr>ConfigRows := ConfigRows db @ [r]\<rparr>))"

text \<open>The snapshot of the configuration: the one that is there, if its fields agree, or a new one.\<close>

definition config_identity ::
  "collector_batch \<Rightarrow> runtime_config_observation \<Rightarrow> int64 \<Rightarrow> config_boundary option \<Rightarrow> store_db \<Rightarrow> (string \<times> store_db) outcome" where
  "config_identity b ob observed boundary db =
     (case config_of b (CfgTargetID ob) (ConfigHash ob) db of
        Some c \<Rightarrow> if CoFields c \<noteq> Fields ob then Err ErrOwnershipMismatch else Ok (CoID c, db)
      | None \<Rightarrow> result_bind (new_uuid db) (\<lambda>(u, db).
          result_bind (insert_config \<lparr>CoID = u, CoDeployment = BDeploymentID b, CoHost = BHostID b,
              CoTarget = CfgTargetID ob, CoHash = ConfigHash ob, CoObserved = observed,
              CoPreceding = map_option BoundaryMS boundary, CoFields = Fields ob, CoProvenance = FieldProvenance ob\<rparr> db)
            (\<lambda>db. Ok (u, db))))"

definition unavailable_reason :: "runtime_config_observation \<Rightarrow> bool \<Rightarrow> string" where
  "unavailable_reason ob unaligned =
     (if PreviousConfigHash ob \<noteq> None then ''claimed_predecessor_unverified''
      else if unaligned then ''clock_alignment_unavailable'' else ''cross_boot_predecessor_unavailable'')"

definition persist_unavailable_boundary ::
  "collector_batch \<Rightarrow> runtime_config_observation \<Rightarrow> string \<Rightarrow> int64 \<Rightarrow> int64 \<Rightarrow> bool \<Rightarrow> store_db \<Rightarrow> store_db outcome" where
  "persist_unavailable_boundary b ob config observed admitted unaligned db =
     result_bind (new_uuid db) (\<lambda>(u, db).
       insert_event (batch_event b (CfgTargetID ob) None observed observed admitted ''config_transition_unavailable''
         ''unknown'' (ConfigUnavailable config (ConfigHash ob) (unavailable_reason ob unaligned)) ''hub''
         (SrcServerVersion (FieldProvenance ob)) u) db)"

definition persist_config_observation ::
  "frame_codec \<Rightarrow> collector_batch \<Rightarrow> collector_frame \<Rightarrow> int64 \<Rightarrow> store_db \<Rightarrow> store_db outcome" where
  "persist_config_observation k b f admitted db =
     (case FConfigObservation f of
        None \<Rightarrow> Ok db
      | Some ob \<Rightarrow>
          let had = list_ex (\<lambda>r. CoDeployment r = BDeploymentID b \<and> CoHost r = BHostID b \<and> CoTarget r = CfgTargetID ob)
                (ConfigRows db);
              observed = effective_time f in
          result_bind (verified_config_predecessor k b f ob db) (\<lambda>boundary.
          result_bind (config_identity b ob observed boundary db) (\<lambda>(config, db).
          case boundary of
            None \<Rightarrow>
              if DeliveryMode b = ''current'' \<and> had
              then persist_unavailable_boundary b ob config observed admitted (EstimatedUTCMS f = None) db
              else Ok db
          | Some p \<Rightarrow>
              if BoundaryHash p = ConfigHash ob then Ok db
              else result_bind (new_uuid db) (\<lambda>(u, db).
                insert_event (batch_event b (CfgTargetID ob) None (BoundaryMS p) observed admitted ''config_change_detected''
                  ''info'' (ConfigTransition (BoundaryID p) config (BoundaryHash p) (ConfigHash ob)) ''runtime_api''
                  (SrcServerVersion (FieldProvenance ob)) u) db))))"

section \<open>The batch\<close>

definition frame_identity :: "frame_row \<Rightarrow> string \<times> string \<times> string \<times> string \<times> int64" where
  "frame_identity r = (FrDeployment r, FrHost r, FrOrigBoot r, FrOrigSource r, FrOrigSequence r)"

definition batch_identity :: "collector_batch \<Rightarrow> collector_frame \<Rightarrow> string \<times> string \<times> string \<times> string \<times> int64" where
  "batch_identity b f = (BDeploymentID b, BHostID b, BCollectorBootID b, FSourceID f, FSequence f)"

definition stored_quality :: "quality \<Rightarrow> bool" where
  "stored_quality q \<longleftrightarrow> q \<noteq> QualityOperatorImportedUnverified"

definition frame_row_of :: "collector_batch \<Rightarrow> int64 \<Rightarrow> collector_frame \<times> string \<times> string \<Rightarrow> frame_row" where
  "frame_row_of b now = (\<lambda>(f, payload, hash).
     \<lparr>FrDeployment = BDeploymentID b, FrHost = BHostID b, FrSecurity = BSecurityGeneration b,
      FrSession = BSessionGeneration b, FrBoot = BCollectorBootID b, FrSource = FSourceID f, FrSequence = FSequence f,
      FrMode = DeliveryMode b, FrIncarnation = IncarnationID f, FrOriginalWall = FObservedWallMS f,
      FrAligned = EstimatedUTCMS f, FrUncertainty = UncertaintyMS f, FrDuration = DurationMS f, FrQuality = FQuality f,
      FrDefinition = DefinitionRevision f, FrPayload = payload, FrHash = hash, FrOrigSecurity = BSecurityGeneration b,
      FrOrigBoot = BCollectorBootID b, FrOrigSource = FSourceID f, FrOrigSequence = FSequence f, FrOrigHash = hash,
      FrAdmitted = now\<rparr>)"

definition insert_frame :: "frame_row \<Rightarrow> store_db \<Rightarrow> store_db outcome" where
  "insert_frame r db =
     (if list_ex (\<lambda>x. frame_identity x = frame_identity r) (FrameRows db) \<or> \<not> stored_quality (FrQuality r)
      then Err (ErrConstraint ''source_frames'') else Ok (db\<lparr>FrameRows := FrameRows db @ [r]\<rparr>))"

fun encode_frames :: "frame_codec \<Rightarrow> collector_frame list \<Rightarrow> (collector_frame \<times> string \<times> string) list outcome" where
  "encode_frames k [] = Ok []"
| "encode_frames k (f # fs) =
     result_bind (invalid_as (codec_encode k f)) (\<lambda>(payload, hash).
     result_bind (encode_frames k fs) (\<lambda>items. Ok ((f, payload, hash) # items)))"

text \<open>The first loop: ownership of every frame, and which frames are stored already.\<close>

fun sort_out ::
  "collector_batch \<Rightarrow> store_db \<Rightarrow> (collector_frame \<times> string \<times> string) list \<Rightarrow>
   ((collector_frame \<times> string \<times> string) list \<times> int64) outcome" where
  "sort_out b db [] = Ok ([], 0)"
| "sort_out b db ((f, payload, hash) # items) =
     result_bind (validate_frame_ownership b db f) (\<lambda>_.
       case find (\<lambda>r. frame_identity r = batch_identity b f) (FrameRows db) of
         Some r \<Rightarrow>
           if FrOrigHash r \<noteq> hash then Err ErrOwnershipMismatch
           else result_bind (sort_out b db items) (\<lambda>(pending, dups). Ok (pending, dups + 1))
       | None \<Rightarrow> result_bind (sort_out b db items) (\<lambda>(pending, dups). Ok ((f, payload, hash) # pending, dups)))"

definition payload_bytes :: "(collector_frame \<times> string \<times> string) list \<Rightarrow> int64" where
  "payload_bytes items = sum_list (map (\<lambda>(f, payload, hash). int (length payload)) items)"

definition admit_capacity ::
  "cursor_length \<Rightarrow> collector_batch \<Rightarrow> int64 \<Rightarrow> (collector_frame \<times> string \<times> string) list \<Rightarrow> store_db \<Rightarrow> store_db outcome" where
  "admit_capacity len b now items db =
     (if items = [] then Ok db
      else result_bind (batch_capacity_bytes (payload_bytes items) (int (length items))) (\<lambda>requested.
           result_bind (capacity_admission len (BDeploymentID b) now requested (Capacities db)) (\<lambda>c.
           Ok (db\<lparr>Capacities := c\<rparr>))))"

text \<open>The second loop: one frame and the observations in it.\<close>

definition store_frame ::
  "frame_codec \<Rightarrow> collector_batch \<Rightarrow> int64 \<Rightarrow> collector_frame \<times> string \<times> string \<Rightarrow> store_db \<Rightarrow> store_db outcome" where
  "store_frame k b now item db =
     (let f = fst item in
      result_bind (if DeliveryMode b = ''current'' then validate_current_frame_order k now b (FrameRows db) f else Ok ()) (\<lambda>_.
      result_bind (insert_frame (frame_row_of b now item) db) (\<lambda>db1.
      result_bind (persist_process_observations b f now db1) (\<lambda>db2.
      result_bind (persist_model_observations b f db2) (\<lambda>db3.
      persist_config_observation k b f now db3)))))"

definition ingest_body ::
  "frame_codec \<Rightarrow> cursor_length \<Rightarrow> int64 \<Rightarrow> collector_batch \<Rightarrow> store_db \<Rightarrow> (batch_ack \<times> store_db) outcome" where
  "ingest_body k len now b db =
     result_bind (encode_frames k (Frames b)) (\<lambda>items.
     result_bind (validate_batch_session b (Core db)) (\<lambda>_.
     result_bind (sort_out b db items) (\<lambda>(pending, dups).
     result_bind (admit_capacity len b now pending db) (\<lambda>db1.
     result_bind (for_all (store_frame k b now) pending db1) (\<lambda>db2.
     Ok (\<lparr>AckBatchID = BatchID b, AckDurable = True, Accepted = int (length pending), Duplicate = dups\<rparr>, db2))))))"

definition ingest_batch ::
  "frame_codec \<Rightarrow> cursor_length \<Rightarrow> hub_env \<Rightarrow> collector_batch \<Rightarrow> store_db \<Rightarrow> batch_ack outcome \<times> store_db" where
  "ingest_batch k len env b db =
     (case validate_batch (ConfigDigest k) b of
        Err m \<Rightarrow> (Err (ErrInvalid m), db)
      | Ok _ \<Rightarrow> transaction env db (ingest_body k len (HubNow env) b db))"

section \<open>Source status\<close>

record status_codec =
  StatusLength :: "source_status \<Rightarrow> int"
  StatusDigest :: "source_status \<Rightarrow> string"

definition require_source_owner :: "string \<Rightarrow> string \<Rightarrow> string \<Rightarrow> bool \<Rightarrow> hub \<Rightarrow> unit outcome" where
  "require_source_owner d i source active h =
     ensure (length (filter (\<lambda>r. SrcDeployment r = d \<and> SrcHost r = i \<and> SrcID r = source
       \<and> (active \<longrightarrow> SrcRetired r = None)) (HubSources h)) = 1) ErrOwnershipMismatch"

definition status_of_boot :: "source_status \<Rightarrow> status_row \<Rightarrow> bool" where
  "status_of_boot s r \<longleftrightarrow> SsDeployment r = StDeploymentID s \<and> SsHost r = StHostID s \<and> SsBoot r = StCollectorBootID s"

definition admit_status ::
  "status_codec \<Rightarrow> int64 \<Rightarrow> source_status \<Rightarrow> store_db \<Rightarrow> (bool \<times> store_db) outcome" where
  "admit_status k now s db =
     (case find (\<lambda>r. status_of_boot s r \<and> SsSequence r = StSequence s) (StatusRows db) of
        Some r \<Rightarrow> if SsHash r \<noteq> StatusDigest k s then Err ErrOwnershipMismatch else Ok (True, db)
      | None \<Rightarrow>
          if StObservedWallMS s < sub64 now 60000 then Err ErrStatusObservationExpired
          else if StObservedWallMS s > add64 now 60000 then Err ErrGenerationConflict
          else if ptr_and (latest_by SsSequence (filter (status_of_boot s) (StatusRows db))) (\<lambda>r. StSequence s \<le> SsSequence r)
          then Err ErrGenerationConflict
          else Ok (False, db\<lparr>StatusRows := StatusRows db @ [\<lparr>SsDeployment = StDeploymentID s, SsHost = StHostID s,
                 SsSecurity = StSecurityGeneration s, SsSession = StSessionGeneration s, SsBoot = StCollectorBootID s,
                 SsSequence = StSequence s, SsObserved = StObservedWallMS s, SsPayload = s, SsHash = StatusDigest k s,
                 SsAdmitted = now\<rparr>]\<rparr>))"

definition status_body :: "status_codec \<Rightarrow> int64 \<Rightarrow> source_status \<Rightarrow> store_db \<Rightarrow> (status_ack \<times> store_db) outcome" where
  "status_body k now s db =
     (let d = StDeploymentID s; i = StHostID s; h = Core db in
      result_bind (validate_current_session h d i (StSecurityGeneration s) (StSessionGeneration s) (StCollectorBootID s)) (\<lambda>_.
      result_bind (for_all (\<lambda>x _. require_source_owner d i (StSourceID x) True h) (StSources s) ()) (\<lambda>_.
      result_bind (for_all (\<lambda>x _. require_source_owner d i (LossSourceID x) False h) (LossIntervals s) ()) (\<lambda>_.
      result_bind (admit_status k now s db) (\<lambda>(dup, db1).
      Ok (\<lparr>SAckCollectorBootID = StCollectorBootID s, SAckSequence = StSequence s, SAckDurable = True,
           SAckDuplicate = dup\<rparr>, db1))))))"

definition ingest_status :: "status_codec \<Rightarrow> hub_env \<Rightarrow> source_status \<Rightarrow> store_db \<Rightarrow> status_ack outcome \<times> store_db" where
  "ingest_status k env s db =
     (case validate_status s of
        Err m \<Rightarrow> (Err (ErrInvalid m), db)
      | Ok _ \<Rightarrow>
          if StatusLength k s > MaxStatusBytes then (Err (ErrInvalid ''status payload exceeds control lane''), db)
          else transaction env db (status_body k (HubNow env) s db))"

end
