(* ===== verification/IngestFacts.thy ===== *)
theory IngestFacts
  imports HubIngest
begin

text \<open>
  What the parts of an ingest do to the tables: which rows they add, and which tables they leave alone.
\<close>

section \<open>The tables an observation leaves alone\<close>

definition inc_identity :: "incarnation_row \<Rightarrow> string \<times> string \<times> string \<times> string \<times> string \<times> int64 \<times> uint64_decimal \<times> string" where
  "inc_identity r = (InID r, InDeployment r, InHost r, InTarget r, InBoot r, InPID r, InStart r, InKey r)"

text \<open>Only observations are added: frames, statuses, the capacity and the hub's own tables stay, and
  incarnations keep their identities.\<close>

definition observes :: "store_db \<Rightarrow> store_db \<Rightarrow> bool" where
  "observes db db' \<longleftrightarrow> FrameRows db' = FrameRows db \<and> Core db' = Core db \<and> StatusRows db' = StatusRows db
     \<and> Capacities db' = Capacities db
     \<and> (\<exists>new. map inc_identity (Incarnations db') = map inc_identity (Incarnations db) @ map inc_identity new
          \<and> (\<forall>r\<in>set new. \<forall>x\<in>set (Incarnations db). InID r \<noteq> InID x))"

lemma observes_refl: "observes db db"
  by (auto simp: observes_def intro: exI[of _ "[]"])

lemma inc_ids:
  assumes "map inc_identity xs = map inc_identity ys @ zs"
  shows "InID ` set ys \<subseteq> InID ` set xs"
proof -
  have id: "InID ` A = fst ` inc_identity ` A" for A by (simp add: image_image inc_identity_def)
  have "set (map inc_identity ys) \<subseteq> set (map inc_identity xs)" by (simp add: assms del: set_map list.set_map)
  then show ?thesis by (simp add: id image_mono)
qed

lemma observes_trans:
  assumes "observes a b" "observes b c"
  shows "observes a c"
proof -
  from assms obtain n m where n: "map inc_identity (Incarnations b) = map inc_identity (Incarnations a) @ map inc_identity n"
      "\<forall>r\<in>set n. \<forall>x\<in>set (Incarnations a). InID r \<noteq> InID x"
    and m: "map inc_identity (Incarnations c) = map inc_identity (Incarnations b) @ map inc_identity m"
      "\<forall>r\<in>set m. \<forall>x\<in>set (Incarnations b). InID r \<noteq> InID x"
    by (auto simp: observes_def)
  have "\<forall>r\<in>set m. \<forall>x\<in>set (Incarnations a). InID r \<noteq> InID x" using inc_ids[OF n(1)] m(2) by fastforce
  with n m have "map inc_identity (Incarnations c) = map inc_identity (Incarnations a) @ map inc_identity (n @ m)
      \<and> (\<forall>r\<in>set (n @ m). \<forall>x\<in>set (Incarnations a). InID r \<noteq> InID x)" by auto
  with assms show ?thesis unfolding observes_def by metis
qed

lemma observes_same:
  "FrameRows db' = FrameRows db \<Longrightarrow> Core db' = Core db \<Longrightarrow> StatusRows db' = StatusRows db \<Longrightarrow>
     Capacities db' = Capacities db \<Longrightarrow> Incarnations db' = Incarnations db \<Longrightarrow> observes db db'"
  by (auto simp: observes_def intro: exI[of _ "[]"])

lemma new_uuid_observes: "new_uuid db = Ok (u, db') \<Longrightarrow> observes db db'"
  by (auto simp: new_uuid_def split: list.splits intro!: observes_same)

lemma insert_event_observes: "insert_event e db = Ok db' \<Longrightarrow> observes db db'"
  by (auto simp: insert_event_def split: if_splits intro!: observes_same)

lemma event_observes:
  "result_bind (new_uuid db) (\<lambda>(u, db). insert_event (e u) db) = Ok db' \<Longrightarrow> observes db db'"
  by (auto elim!: result_bind_OkE intro: observes_trans[OF new_uuid_observes insert_event_observes])

lemma unavailable_observes: "persist_endpoint_unavailable b a o1 t db = Ok db' \<Longrightarrow> observes db db'"
  by (auto simp: persist_endpoint_unavailable_def Let_def split: option.splits if_splits
      intro: observes_same dest!: event_observes)

lemma exit_observes: "persist_verified_exit b a o1 t db = Ok db' \<Longrightarrow> observes db db'"
  by (auto simp: persist_verified_exit_def observes_refl split: option.splits dest: event_observes)

lemma insert_incarnation_observes: "insert_incarnation r db = Ok db' \<Longrightarrow> observes db db'"
  by (auto simp: insert_incarnation_def observes_def list_ex_iff split: if_splits intro!: exI[of _ "[r]"])

lemma observe_incarnation_observes:
  assumes "observe_incarnation b a f o1 pid st key db = Ok (u, db')"
  shows "observes db db'"
proof (cases "find (incarnation_is b (AssocTargetID a) pid st key) (Incarnations db)")
  case None
  with assms show ?thesis
    by (auto simp: observe_incarnation_def elim!: result_bind_OkE
        intro: observes_trans[OF new_uuid_observes insert_incarnation_observes])
next
  case (Some r)
  have "map inc_identity (update_where p (\<lambda>x. x\<lparr>InFirstSeen := g x, InLastSeen := h x\<rparr>) xs) = map inc_identity xs"
    for p g h xs by (simp add: update_where_def inc_identity_def)
  with Some assms show ?thesis
    by (auto simp: observe_incarnation_def observes_def intro: exI[of _ "[]"])
qed

lemma insert_association_observes: "observes db (insert_association r db)"
  by (auto simp: insert_association_def observes_refl intro!: observes_same)

lemma verified_association_observes:
  assumes "persist_verified_association b f a o1 t db = Ok (inc, db')"
  shows "observes db db'"
proof -
  from assms obtain pid st key where id: "AssocPID a = Some pid" "AssocStartIdentity a = Some st" "AssocProcessKey a = Some key"
    by (auto simp: persist_verified_association_def split: option.splits)
  from assms obtain u db1 where one: "observe_incarnation b a f o1 pid st key db = Ok (u, db1)"
    and rest: "(if DeliveryMode b = ''current'' then persist_verified_exit b a o1 t (insert_association
        \<lparr>AsDeployment = BDeploymentID b, AsHost = BHostID b, AsTarget = AssocTargetID a, AsIncarnation = u,
         AsChecked = o1, AsEndpoint = EndpointHash a, AsEvidence = a, AsRevision = IdentityRevision a\<rparr> db1)
      else Ok (insert_association \<lparr>AsDeployment = BDeploymentID b, AsHost = BHostID b, AsTarget = AssocTargetID a,
         AsIncarnation = u, AsChecked = o1, AsEndpoint = EndpointHash a, AsEvidence = a,
         AsRevision = IdentityRevision a\<rparr> db1)) = Ok db'"
    by (auto simp: persist_verified_association_def id Let_def elim!: result_bind_OkE)
  note first = observes_trans[OF observe_incarnation_observes[OF one] insert_association_observes]
  from rest show ?thesis by (auto split: if_split_asm intro: first observes_trans[OF first exit_observes])
qed

lemma association_observes: "persist_endpoint_association b f o1 t db = Ok (inc, db') \<Longrightarrow> observes db db'"
  by (auto simp: persist_endpoint_association_def observes_refl split: option.splits if_split_asm
      elim!: result_bind_OkE intro: observes_trans[OF unavailable_observes exit_observes]
      dest: verified_association_observes)

lemma for_all_observes:
  "(\<And>x a b. f x a = Ok b \<Longrightarrow> observes a b) \<Longrightarrow> for_all f xs db = Ok db' \<Longrightarrow> observes db db'"
proof (induction xs arbitrary: db)
  case (Cons x xs)
  then obtain db1 where "f x db = Ok db1" "for_all f xs db1 = Ok db'" by (auto elim!: result_bind_OkE)
  with Cons.IH Cons.prems(1) show ?case by (blast intro: observes_trans)
qed (simp add: observes_refl)

lemma insert_process_observes: "insert_process r db = Ok db' \<Longrightarrow> observes db db'"
  by (auto simp: insert_process_def observes_refl elim!: result_bind_OkE intro!: observes_same)

lemma processes_observe: "persist_process_observations b f t db = Ok db' \<Longrightarrow> observes db db'"
  by (auto simp: persist_process_observations_def Let_def elim!: result_bind_OkE
      intro: observes_trans[OF association_observes for_all_observes] dest: insert_process_observes)

lemma insert_load_observes: "insert_load r db = Ok db' \<Longrightarrow> observes db db'"
  by (auto simp: insert_load_def observes_refl split: if_split_asm intro!: observes_same)

lemma models_observe: "persist_model_observations b f db = Ok db' \<Longrightarrow> observes db db'"
  unfolding persist_model_observations_def
  by (rule for_all_observes) (auto simp: persist_model_def observes_refl split: option.splits dest: insert_load_observes)

lemma insert_config_observes: "insert_config r db = Ok db' \<Longrightarrow> observes db db'"
  by (auto simp: insert_config_def split: if_split_asm intro!: observes_same)

lemma config_identity_observes: "config_identity b ob o1 bd db = Ok (u, db') \<Longrightarrow> observes db db'"
  by (auto simp: config_identity_def observes_refl split: option.splits if_split_asm elim!: result_bind_OkE
      intro: observes_trans[OF new_uuid_observes insert_config_observes])

lemma configs_observe:
  assumes "persist_config_observation k b f t db = Ok db'"
  shows "observes db db'"
proof (cases "FConfigObservation f")
  case None
  with assms show ?thesis by (simp add: persist_config_observation_def observes_refl)
next
  case (Some ob)
  let ?had = "list_ex (\<lambda>r. CoDeployment r = BDeploymentID b \<and> CoHost r = BHostID b \<and> CoTarget r = CfgTargetID ob)
    (ConfigRows db)"
  from assms obtain bd u db1 where one: "config_identity b ob (effective_time f) bd db = Ok (u, db1)"
    and rest: "(case bd of
        None \<Rightarrow> if DeliveryMode b = ''current'' \<and> ?had
          then persist_unavailable_boundary b ob u (effective_time f) t (EstimatedUTCMS f = None) db1 else Ok db1
      | Some p \<Rightarrow> if BoundaryHash p = ConfigHash ob then Ok db1
          else result_bind (new_uuid db1) (\<lambda>(i, db). insert_event (batch_event b (CfgTargetID ob) None (BoundaryMS p)
            (effective_time f) t ''config_change_detected'' ''info''
            (ConfigTransition (BoundaryID p) u (BoundaryHash p) (ConfigHash ob)) ''runtime_api''
            (SrcServerVersion (FieldProvenance ob)) i) db)) = Ok db'"
    by (auto simp: persist_config_observation_def Some Let_def elim!: result_bind_OkE)
  from rest have rest: "observes db1 db'"
    by (auto simp: persist_unavailable_boundary_def split: option.splits if_split_asm
        intro: observes_refl dest: event_observes)
  show ?thesis by (rule observes_trans[OF config_identity_observes[OF one] rest])
qed

section \<open>The frames a batch adds\<close>

text \<open>Everything but frames stays or is an observation.\<close>

definition adds_frames :: "store_db \<Rightarrow> frame_row list \<Rightarrow> store_db \<Rightarrow> bool" where
  "adds_frames db rows db' \<longleftrightarrow> FrameRows db' = FrameRows db @ rows \<and> observes (db\<lparr>FrameRows := FrameRows db'\<rparr>) db'"

lemma adds_none: "adds_frames db [] db"
  by (simp add: adds_frames_def observes_refl)

lemma observes_frames: "observes (a\<lparr>FrameRows := xs\<rparr>) b \<Longrightarrow> observes (a\<lparr>FrameRows := ys\<rparr>) (b\<lparr>FrameRows := ys\<rparr>)"
  by (auto simp: observes_def)

lemma adds_append:
  assumes "adds_frames a xs b" "adds_frames b ys c"
  shows "adds_frames a (xs @ ys) c"
proof -
  from assms(1) have "observes (a\<lparr>FrameRows := FrameRows c\<rparr>) (b\<lparr>FrameRows := FrameRows c\<rparr>)"
    unfolding adds_frames_def by (blast intro: observes_frames)
  moreover have "observes (b\<lparr>FrameRows := FrameRows c\<rparr>) c"
    using assms(2) unfolding adds_frames_def by (rule conjunct2)
  ultimately show ?thesis using assms observes_trans by (auto simp: adds_frames_def)
qed

lemma insert_frame_adds:
  assumes "insert_frame r db = Ok db'"
  shows "db' = db\<lparr>FrameRows := FrameRows db @ [r]\<rparr>" "frame_identity r \<notin> frame_identity ` set (FrameRows db)"
  using assms by (auto simp: insert_frame_def list_ex_iff split: if_split_asm)

lemma store_frame_effect:
  assumes "store_frame k b now item db = Ok db'"
  shows "adds_frames db [frame_row_of b now item] db'"
    and "frame_identity (frame_row_of b now item) \<notin> frame_identity ` set (FrameRows db)"
proof -
  from assms obtain db1 db2 db3 where ins: "insert_frame (frame_row_of b now item) db = Ok db1"
    and p: "persist_process_observations b (fst item) now db1 = Ok db2"
    and m: "persist_model_observations b (fst item) db2 = Ok db3"
    and c: "persist_config_observation k b (fst item) now db3 = Ok db'"
    by (auto simp: store_frame_def Let_def elim!: result_bind_OkE)
  note i = insert_frame_adds[OF ins]
  have "observes db1 db'"
    by (rule observes_trans[OF observes_trans[OF processes_observe[OF p] models_observe[OF m]] configs_observe[OF c]])
  then show "adds_frames db [frame_row_of b now item] db'"
    using i(1) by (simp add: adds_frames_def) (simp add: observes_def)
  show "frame_identity (frame_row_of b now item) \<notin> frame_identity ` set (FrameRows db)" by (rule i(2))
qed

definition frames_ok :: "store_db \<Rightarrow> bool" where
  "frames_ok db \<longleftrightarrow> distinct (map frame_identity (FrameRows db))"

lemma store_frames_effect:
  "for_all (store_frame k b now) items db = Ok db' \<Longrightarrow>
     adds_frames db (map (frame_row_of b now) items) db' \<and> (frames_ok db \<longrightarrow> frames_ok db')"
proof (induction items arbitrary: db)
  case (Cons item items)
  then obtain db1 where one: "store_frame k b now item db = Ok db1" and rest: "for_all (store_frame k b now) items db1 = Ok db'"
    by (auto elim!: result_bind_OkE)
  note e = store_frame_effect[OF one]
  have "frames_ok db \<longrightarrow> frames_ok db1" using e by (auto simp: frames_ok_def adds_frames_def)
  with Cons.IH[OF rest] adds_append[OF e(1)] show ?case by auto
qed (simp add: adds_none)

text \<open>The frame is stored under its identity with the hash of its encoding.\<close>

definition stored_with :: "frame_codec \<Rightarrow> collector_batch \<Rightarrow> store_db \<Rightarrow> collector_frame \<Rightarrow> bool" where
  "stored_with k b db f \<longleftrightarrow> (\<exists>payload hash. codec_encode k f = Ok (payload, hash) \<and>
     (\<exists>r\<in>set (FrameRows db). frame_identity r = batch_identity b f \<and> FrOrigHash r = hash))"

lemma frame_row_identity [simp]:
  "frame_identity (frame_row_of b now (f, payload, hash)) = batch_identity b f"
  "FrOrigHash (frame_row_of b now (f, payload, hash)) = hash"
  by (simp_all add: frame_row_of_def frame_identity_def batch_identity_def)

lemma encode_frames_Ok:
  "encode_frames k fs = Ok items \<Longrightarrow> map fst items = fs \<and>
     (\<forall>(f, payload, hash) \<in> set items. codec_encode k f = Ok (payload, hash))"
  by (induction fs arbitrary: items)
    (auto simp: invalid_as_def elim!: result_bind_OkE split: sum.splits prod.splits)

lemma encoded_item:
  assumes "encode_frames k fs = Ok items" "(f, payload, hash) \<in> set items"
  shows "f \<in> set fs" "codec_encode k f = Ok (payload, hash)"
proof -
  note e = encode_frames_Ok[OF assms(1)]
  have "fst (f, payload, hash) \<in> set (map fst items)" unfolding set_map by (rule imageI, rule assms(2))
  with e show "f \<in> set fs" by simp
  from e have "\<forall>(f, payload, hash) \<in> set items. codec_encode k f = Ok (payload, hash)" by (rule conjunct2)
  from bspec[OF this assms(2)] show "codec_encode k f = Ok (payload, hash)" by simp
qed

lemma encoded_frame:
  assumes "encode_frames k fs = Ok items" "f \<in> set fs"
  obtains payload hash where "(f, payload, hash) \<in> set items" "codec_encode k f = Ok (payload, hash)"
proof -
  from assms have "f \<in> set (map fst items)" by (simp add: encode_frames_Ok del: set_map)
  then obtain payload hash where "(f, payload, hash) \<in> set items" by (metis imageE prod.collapse set_map)
  with encoded_item(2)[OF assms(1) this] that show thesis by blast
qed

lemma sort_out_effect:
  assumes "sort_out b db items = Ok (pending, dups)"
  shows "dups + int (length pending) = int (length items)" "0 \<le> dups" "set pending \<subseteq> set items"
    and "\<And>f payload hash. (f, payload, hash) \<in> set items \<Longrightarrow> (f, payload, hash) \<in> set pending \<or>
      (\<exists>r\<in>set (FrameRows db). frame_identity r = batch_identity b f \<and> FrOrigHash r = hash)"
    and "\<And>f payload hash. (f, payload, hash) \<in> set items \<Longrightarrow> validate_frame_ownership b db f = Ok ()"
proof -
  have "dups + int (length pending) = int (length items) \<and> 0 \<le> dups \<and> set pending \<subseteq> set items \<and>
    (\<forall>(f, payload, hash) \<in> set items. validate_frame_ownership b db f = Ok () \<and> ((f, payload, hash) \<in> set pending \<or>
      (\<exists>r\<in>set (FrameRows db). frame_identity r = batch_identity b f \<and> FrOrigHash r = hash)))"
    using assms
  proof (induction items arbitrary: pending dups)
    case (Cons item items)
    obtain f payload hash where item: "item = (f, payload, hash)" by (cases item) auto
    from Cons.prems have own: "validate_frame_ownership b db f = Ok ()" by (auto simp: item elim!: result_bind_OkE)
    show ?case
    proof (cases "find (\<lambda>r. frame_identity r = batch_identity b f) (FrameRows db)")
      case None
      with Cons.prems own obtain p where p: "sort_out b db items = Ok (p, dups)" "pending = (f, payload, hash) # p"
        by (auto simp: item elim!: result_bind_OkE)
      from Cons.IH[OF p(1)] own show ?thesis by (fastforce simp: item p(2))
    next
      case (Some r)
      with Cons.prems own obtain n where p: "sort_out b db items = Ok (pending, n)" "dups = n + 1" "FrOrigHash r = hash"
        by (auto simp: item elim!: result_bind_OkE split: if_split_asm)
      from find_some[OF Some] p(3) have "\<exists>r\<in>set (FrameRows db). frame_identity r = batch_identity b f \<and> FrOrigHash r = hash"
        by blast
      with Cons.IH[OF p(1)] own show ?thesis by (auto simp: item p(2))
    qed
  qed simp
  then show "dups + int (length pending) = int (length items)" "0 \<le> dups" "set pending \<subseteq> set items"
    "\<And>f payload hash. (f, payload, hash) \<in> set items \<Longrightarrow> (f, payload, hash) \<in> set pending \<or>
      (\<exists>r\<in>set (FrameRows db). frame_identity r = batch_identity b f \<and> FrOrigHash r = hash)"
    "\<And>f payload hash. (f, payload, hash) \<in> set items \<Longrightarrow> validate_frame_ownership b db f = Ok ()"
    by auto
qed

lemma transaction_Ok:
  "transaction env db r = (Ok a, db') \<longleftrightarrow> Admission env = None \<and> r = Ok (a, db') \<and> CommitFails env = None"
  by (auto simp: transaction_def split: option.splits sum.splits prod.splits)

lemma transaction_Err: "transaction env db r = (Err e, db') \<Longrightarrow> db' = db"
  by (auto simp: transaction_def split: option.splits sum.splits prod.splits)

lemma ingest_body_effect:
  assumes "ingest_body k len now b db = Ok (ack, db')"
  obtains items pending db1 where "encode_frames k (Frames b) = Ok items" "validate_batch_session b (Core db) = Ok ()"
    "sort_out b db items = Ok (pending, Duplicate ack)" "admit_capacity len b now pending db = Ok db1"
    "for_all (store_frame k b now) pending db1 = Ok db'"
    "ack = \<lparr>AckBatchID = BatchID b, AckDurable = True, Accepted = int (length pending), Duplicate = Duplicate ack\<rparr>"
  using assms by (auto simp: ingest_body_def elim!: result_bind_OkE)

lemma admit_capacity_effect:
  "admit_capacity len b now items db = Ok db1 \<Longrightarrow> \<exists>c. db1 = db\<lparr>Capacities := c\<rparr>"
proof (cases "items = []")
  case True
  assume "admit_capacity len b now items db = Ok db1"
  with True have "db1 = db\<lparr>Capacities := Capacities db\<rparr>" by (simp add: admit_capacity_def)
  then show ?thesis by blast
qed (auto simp: admit_capacity_def elim!: result_bind_OkE)

section \<open>Sending the same batch again\<close>

lemma incarnation_known_observes:
  assumes "observes db db'" "incarnation_known d i t db n"
  shows "incarnation_known d i t db' n"
proof -
  from assms(2) obtain t' where t: "t = Some t'" by (auto simp: incarnation_known_def split: option.splits)
  define P where "P = (\<lambda>q :: string \<times> string \<times> string \<times> string \<times> string \<times> int64 \<times> uint64_decimal \<times> string.
    fst q = n \<and> fst (snd q) = d \<and> fst (snd (snd q)) = i \<and> fst (snd (snd (snd q))) = t')"
  have count: "incarnation_known d i t x n \<longleftrightarrow> length (filter P (map inc_identity (Incarnations x))) = 1" for x
    by (simp add: incarnation_known_def t filter_map comp_def P_def inc_identity_def conj_commute conj_left_commute)
  from assms(1) obtain new where new: "map inc_identity (Incarnations db') = map inc_identity (Incarnations db) @ map inc_identity new"
      "\<forall>r\<in>set new. \<forall>x\<in>set (Incarnations db). InID r \<noteq> InID x"
    by (auto simp: observes_def)
  have "filter P (map inc_identity (Incarnations db)) \<noteq> []"
    using assms(2) unfolding count by (metis list.size(3) zero_neq_one)
  then obtain x where "x \<in> set (Incarnations db)" "P (inc_identity x)" by (auto simp: filter_empty_conv)
  then have "filter P (map inc_identity new) = []"
    using new(2) by (fastforce simp: filter_empty_conv P_def inc_identity_def)
  with assms(2) show ?thesis by (simp add: count new(1) del: map_map)
qed

lemma ownership_observes:
  assumes "observes db db'" "validate_frame_ownership b db f = Ok ()"
  shows "validate_frame_ownership b db' f = Ok ()"
proof -
  have "Core db' = Core db" using assms(1) by (simp add: observes_def)
  with assms show ?thesis
    by (auto simp: validate_frame_ownership_def Let_def ensure_def opt_all_def
        split: if_split_asm option.splits elim!: result_bind_OkE intro: incarnation_known_observes)
qed

lemma sort_out_stored:
  assumes "\<And>f payload hash. (f, payload, hash) \<in> set items \<Longrightarrow> validate_frame_ownership b db f = Ok () \<and>
      (\<exists>r\<in>set (FrameRows db). frame_identity r = batch_identity b f \<and> FrOrigHash r = hash)" "frames_ok db"
  shows "sort_out b db items = Ok ([], int (length items))"
  using assms(1)
proof (induction items)
  case (Cons item items)
  obtain f payload hash where item: "item = (f, payload, hash)" by (cases item) auto
  from Cons.prems[of f payload hash] obtain r where r: "r \<in> set (FrameRows db)" "frame_identity r = batch_identity b f"
      "FrOrigHash r = hash" "validate_frame_ownership b db f = Ok ()" by (auto simp: item)
  obtain r' where f: "find (\<lambda>r. frame_identity r = batch_identity b f) (FrameRows db) = Some r'"
    using r(1,2) by (cases "find (\<lambda>r. frame_identity r = batch_identity b f) (FrameRows db)") (auto simp: find_None_iff)
  have "r' = r"
    using find_some[OF f] r(1,2) assms(2) by (auto simp: frames_ok_def distinct_map inj_on_def)
  moreover have "sort_out b db items = Ok ([], int (length items))"
    by (rule Cons.IH, rule Cons.prems, rule list.set_intros(2))
  ultimately show ?case using f r by (simp add: item)
qed simp

end
