(* ===== verification/IngestSample.thy ===== *)
theory IngestSample
  imports IngestFacts Frames
begin

text \<open>
  A small hub to evaluate an ingest on: one deployment, one host with a current session, a source and a
  target, and a process that was seen before. The batch holds one process frame that reports its exit.
\<close>

definition sample_id :: "char \<Rightarrow> string" where
  "sample_id c = replicate 8 c @ ''-'' @ replicate 4 c @ ''-4'' @ replicate 3 c @ ''-8'' @ replicate 3 c @ ''-'' @ replicate 12 c"

definition sample_sha :: "char \<Rightarrow> string" where
  "sample_sha c = replicate 64 c"

definition ingest_hub :: hub where
  "ingest_hub = \<lparr>Deployments = [\<lparr>DepID = sample_id (CHR ''1''), DepGeneration = sample_id (CHR ''2''), DepRecovery = ''normal''\<rparr>],
     Generations = [],
     Hosts = [\<lparr>HID = sample_id (CHR ''4''), HDeployment = sample_id (CHR ''1''), HDisplayName = ''mac'',
       HInstallation = sample_id (CHR ''3''), HCurrentSession = 1, HLastBoot = Some (sample_id (CHR ''6'')), HVersion = None,
       HCapabilities = ''{}'', HRetired = None, HCreated = 0, HUpdated = 0\<rparr>],
     Sessions = [\<lparr>SDeployment = sample_id (CHR ''1''), SHost = sample_id (CHR ''4''), SGeneration = 1,
       SSecurity = sample_id (CHR ''2''), SRequest = sample_id (CHR ''7''), SBoot = sample_id (CHR ''6''), SPredecessor = 0,
       SActivated = 0, SSuperseded = None, SResult = \<lparr>ResActivationRequestID = sample_id (CHR ''7''),
         ResSecurityGeneration = sample_id (CHR ''2''), ResSessionGeneration = 1, ResCollectorBootID = sample_id (CHR ''6''),
         ActivatedMS = 0, ResCurrent = True\<rparr>\<rparr>],
     HubTargets = [\<lparr>TID = sample_id (CHR ''8''), TDeployment = sample_id (CHR ''1''), THost = sample_id (CHR ''4''),
       TAdapter = ''ollama'', TSelector = sample_sha (CHR ''b''), TRetired = None, TCreated = 0, TUpdated = 0\<rparr>],
     HubSources = [\<lparr>SrcID = sample_id (CHR ''5''), SrcDeployment = sample_id (CHR ''1''), SrcHost = sample_id (CHR ''4''),
       SrcKind = ''host'', SrcTarget = None, SrcRevision = RegistryRevision, SrcRetired = None, SrcCreated = 0, SrcUpdated = 0\<rparr>],
     HubModels = [], Audit = [], RemoteEnrollments = []\<rparr>"

definition ingest_quota :: "string \<Rightarrow> quota_row" where
  "ingest_quota c = \<lparr>QDeployment = sample_id (CHR ''1''), QClass = c, QLimit = 1000000, QWarning = Finite (4 / 5),
     QStop = Finite (9 / 10), QPause = Finite (19 / 20), QCurrent = 500, QReserved = 0, QUpdated = 0\<rparr>"

definition ingest_db :: store_db where
  "ingest_db = \<lparr>Core = ingest_hub,
     Capacities = \<lparr>Maintenance = [\<lparr>MDeployment = sample_id (CHR ''1''), MRetentionRevision = 1, MWatermark = 0,
         MLastBackup = None, MState = StorageNormal,
         MCursor = CursorObject [(key_observed, CInt 80000), (key_free, CInt 900000), (key_bulk, CInt 0)], MUpdated = 80000\<rparr>],
       Quotas = [ingest_quota ''live_total'', ingest_quota ''bulk_database'']\<rparr>,
     FrameRows = [], StatusRows = [],
     Incarnations = [\<lparr>InID = sample_id (CHR ''9''), InDeployment = sample_id (CHR ''1''), InHost = sample_id (CHR ''4''),
       InTarget = sample_id (CHR ''8''), InBoot = sample_id (CHR ''6''), InPID = 42, InStart = ''17'',
       InKey = sample_sha (CHR ''a''), InBasename = None, InFirstSeen = 60000, InLastSeen = 65000\<rparr>],
     ProcessRows = [], LoadRows = [], ConfigRows = [], EventRows = [], AssociationRows = [],
     Uuids = [sample_id (CHR ''a''), sample_id (CHR ''b''), sample_id (CHR ''c'')]\<rparr>"

definition ingest_codec :: frame_codec where
  "ingest_codec = \<lparr>Marshal = (\<lambda>f. Ok (MonotonicStartNS f)), Compress = (\<lambda>s. s), Decompress = (\<lambda>s. Ok s),
     Unmarshal = (\<lambda>s. Err ''unused''), PayloadDigest = (\<lambda>s. s), ConfigDigest = (\<lambda>_. [])\<rparr>"

definition ingest_env :: hub_env where
  "ingest_env = \<lparr>Admission = None, HubNow = 80000, CommitFails = None\<rparr>"

definition exit_association :: endpoint_association where
  "exit_association = \<lparr>AssocTargetID = sample_id (CHR ''8''), EndpointHash = sample_sha (CHR ''b''), TargetRevision = 1,
     ManifestRevision = 1, ManifestSHA256 = sample_sha (CHR ''c''), SelectorSHA256 = sample_sha (CHR ''b''),
     IdentityRevision = sample_sha (CHR ''d''), RuntimeVersion = None, RuntimeSourcePinID = None, AssocPID = None,
     AssocStartIdentity = None, AssocProcessKey = None, AssocQuality = AssociationAmbiguous,
     AssocReason = Some MissingIdentityUnverified,
     VerifiedExit = Some \<lparr>ExitPID = 42, ExitStartIdentity = ''17'', ExitProcessKey = sample_sha (CHR ''a''), LastSeenMS = 85000\<rparr>,
     AssocProvenance = network_provenance\<rparr>"

text \<open>The collector's wall clock reads 100 s; \<open>utc\<close> is its estimate of the hub's clock.\<close>

definition exit_frame :: "int64 \<Rightarrow> collector_frame" where
  "exit_frame utc = \<lparr>FSourceID = sample_id (CHR ''5''), FSequence = 1, FObservedWallMS = 100000, EstimatedUTCMS = Some utc,
     OffsetMS = Some (utc - 100000), UncertaintyMS = Some 5, MonotonicStartNS = ''7'', MonotonicEndNS = ''9'',
     DurationMS = 0, DefinitionRevision = RegistryRevision, IncarnationID = None, FQuality = QualityMeasured,
     FProvenance = network_provenance, FGauges = [], FNetworkObservations = [], FModelObservations = [],
     FProcessObservations = [],
     FProcessSummary = Some \<lparr>EligiblePIDCount = 3, ExaminedPIDCount = 3, PermissionDeniedCount = 0, RetainedProcessCount = 0,
       EnumerationTruncated = False, Coverage = ''complete'', SummaryMethodRevision = ''m1'', SampleIntervalMS = 5000,
       ScanDurationMS = 2\<rparr>,
     FEndpointAssociation = Some exit_association, FConfigObservation = None, FCapabilitiesMissing = []\<rparr>"

definition exit_batch :: "int64 \<Rightarrow> collector_batch" where
  "exit_batch utc = \<lparr>BProtocol = ProtocolVersion, DeliveryMode = ''current'', BSecurityGeneration = sample_id (CHR ''2''),
     BSessionGeneration = 1, BDeploymentID = sample_id (CHR ''1''), BHostID = sample_id (CHR ''4''),
     BCollectorBootID = sample_id (CHR ''6''), BatchID = sample_id (CHR ''d''), Frames = [exit_frame utc]\<rparr>"

definition ingest_run :: "int64 \<Rightarrow> batch_ack outcome \<times> store_db" where
  "ingest_run utc = ingest_batch ingest_codec (\<lambda>_. 0) ingest_env (exit_batch utc) ingest_db"

lemma exit_batch_valid: "validate_batch (\<lambda>_. []) (exit_batch 80000) = Ok ()"
  by code_simp

lemma ingest_run_ok: "is_ok (fst (ingest_run 100000))"
  by code_simp

end
