(* ===== verification/IngestProperties.thy ===== *)
theory IngestProperties
  imports IngestSample
begin

text \<open>
  The properties of the hub's ingest: what an acknowledgement means, why a lost one does no harm, and
  where a valid frame is refused.
\<close>

lemma ingest_effect:
  assumes "ingest_batch k len env b db = (Ok ack, db')" "frames_ok db"
  obtains items pending where "encode_frames k (Frames b) = Ok items" "validate_batch_session b (Core db) = Ok ()"
    "sort_out b db items = Ok (pending, Duplicate ack)"
    "\<exists>c. adds_frames (db\<lparr>Capacities := c\<rparr>) (map (frame_row_of b (HubNow env)) pending) db'"
    "frames_ok db'" "validate_batch (ConfigDigest k) b = Ok ()" "Admission env = None" "CommitFails env = None"
    "ack = \<lparr>AckBatchID = BatchID b, AckDurable = True, Accepted = int (length pending), Duplicate = Duplicate ack\<rparr>"
proof -
  from assms(1) have v: "validate_batch (ConfigDigest k) b = Ok ()"
    and t: "Admission env = None" "CommitFails env = None" "ingest_body k len (HubNow env) b db = Ok (ack, db')"
    by (auto simp: ingest_batch_def transaction_Ok split: sum.splits)
  from ingest_body_effect[OF t(3)] obtain items pending db1 where i: "encode_frames k (Frames b) = Ok items"
    "validate_batch_session b (Core db) = Ok ()" "sort_out b db items = Ok (pending, Duplicate ack)"
    "admit_capacity len b (HubNow env) pending db = Ok db1" "for_all (store_frame k b (HubNow env)) pending db1 = Ok db'"
    "ack = \<lparr>AckBatchID = BatchID b, AckDurable = True, Accepted = int (length pending), Duplicate = Duplicate ack\<rparr>"
    by blast
  from admit_capacity_effect[OF i(4)] obtain c where c: "db1 = db\<lparr>Capacities := c\<rparr>" by blast
  have "frames_ok db1" using assms(2) by (simp add: c frames_ok_def)
  with store_frames_effect[OF i(5)] c i v t show thesis by (intro that) auto
qed

lemma ingest_stores:
  assumes "ingest_batch k len env b db = (Ok ack, db')" "frames_ok db"
  shows "frames_ok db'" "AckDurable ack" "AckBatchID ack = BatchID b" "Accepted ack + Duplicate ack = int (length (Frames b))"
    "0 \<le> Accepted ack" "0 \<le> Duplicate ack"
    "\<exists>new. FrameRows db' = FrameRows db @ new \<and> int (length new) = Accepted ack"
    "f \<in> set (Frames b) \<Longrightarrow> stored_with k b db' f"
proof -
  obtain items pending c where i: "encode_frames k (Frames b) = Ok items"
    "sort_out b db items = Ok (pending, Duplicate ack)"
    and c: "adds_frames (db\<lparr>Capacities := c\<rparr>) (map (frame_row_of b (HubNow env)) pending) db'" "frames_ok db'"
    and ack: "ack = \<lparr>AckBatchID = BatchID b, AckDurable = True, Accepted = int (length pending), Duplicate = Duplicate ack\<rparr>"
    by (rule ingest_effect[OF assms]) blast
  have a: "AckDurable ack" "AckBatchID ack = BatchID b" "Accepted ack = int (length pending)" by (subst ack, simp)+
  note e = encode_frames_Ok[OF i(1)] and s = sort_out_effect[OF i(2)]
  have n: "length items = length (Frames b)" using e by (metis length_map)
  have rows: "FrameRows db' = FrameRows db @ map (frame_row_of b (HubNow env)) pending"
    using c(1) by (simp add: adds_frames_def)
  show "frames_ok db'" by (rule c(2))
  show "AckDurable ack" "AckBatchID ack = BatchID b" by (rule a)+
  show "Accepted ack + Duplicate ack = int (length (Frames b))" "0 \<le> Accepted ack" "0 \<le> Duplicate ack"
    using s(1,2) a(3) n by auto
  show "\<exists>new. FrameRows db' = FrameRows db @ new \<and> int (length new) = Accepted ack"
    using rows a(3) by (intro exI[of _ "map (frame_row_of b (HubNow env)) pending"]) simp
  assume "f \<in> set (Frames b)"
  then obtain payload hash where item: "(f, payload, hash) \<in> set items"
    and enc: "codec_encode k f = Ok (payload, hash)" by (rule encoded_frame[OF i(1)])
  from s(4)[OF item] show "stored_with k b db' f"
  proof
    assume "(f, payload, hash) \<in> set pending"
    then have "frame_row_of b (HubNow env) (f, payload, hash) \<in> set (FrameRows db')" by (simp add: rows)
    with enc show ?thesis unfolding stored_with_def by force
  next
    assume "\<exists>r\<in>set (FrameRows db). frame_identity r = batch_identity b f \<and> FrOrigHash r = hash"
    with enc show ?thesis unfolding stored_with_def rows by auto
  qed
qed

text \<open>
  (C2) What an acknowledgement means: if the hub answers a batch, then every frame of it is stored under
  its original identity with the hash of its encoding, no identity is stored twice, the rows that were
  there before are still there unchanged, exactly the accepted ones were added, and accepted and
  duplicate frames together are all frames of the batch.
\<close>
theorem ingest_stores_exactly_once:
  assumes "ingest_batch k len env b db = (Ok ack, db')" "frames_ok db"
  shows "frames_ok db' \<and> list_all (stored_with k b db') (Frames b) \<and>
    (\<exists>new. FrameRows db' = FrameRows db @ new \<and> int (length new) = Accepted ack) \<and>
    Accepted ack + Duplicate ack = int (length (Frames b))"
  using ingest_stores[OF assms] by (simp add: list_all_iff)

lemma ingest_run_result:
  "ingest_batch ingest_codec (\<lambda>_. 0) ingest_env (exit_batch 100000) ingest_db =
     (Ok (projr (fst (ingest_run 100000))), snd (ingest_run 100000))"
  using ingest_run_ok by (auto simp: ingest_run_def is_ok_iff prod_eq_iff)

lemma ingest_db_ok: "frames_ok ingest_db"
  by (simp add: frames_ok_def ingest_db_def)

lemma ingest_stores_exactly_once_witness:
  "stored_with ingest_codec (exit_batch 100000) (snd (ingest_run 100000)) (exit_frame 100000)"
  using ingest_stores_exactly_once[OF ingest_run_result ingest_db_ok] by (simp add: exit_batch_def)

lemma redelivery:
  assumes "ingest_batch k len env b db = (Ok ack, db')" "frames_ok db"
    and "Admission env' = None" "CommitFails env' = None"
  shows "ingest_batch k len env' b db' =
    (Ok \<lparr>AckBatchID = BatchID b, AckDurable = True, Accepted = 0, Duplicate = int (length (Frames b))\<rparr>, db')"
proof -
  obtain items pending c where i: "encode_frames k (Frames b) = Ok items" "validate_batch_session b (Core db) = Ok ()"
    "sort_out b db items = Ok (pending, Duplicate ack)"
    and c: "adds_frames (db\<lparr>Capacities := c\<rparr>) (map (frame_row_of b (HubNow env)) pending) db'" "frames_ok db'"
    and v: "validate_batch (ConfigDigest k) b = Ok ()"
    by (rule ingest_effect[OF assms(1,2)]) blast
  note e = encode_frames_Ok[OF i(1)] and s = sort_out_effect[OF i(3)]
  have core: "Core db' = Core db" using c(1) by (simp add: adds_frames_def observes_def)
  have n: "length items = length (Frames b)" using e by (metis length_map)
  have own: "validate_frame_ownership b db f = Ok () \<Longrightarrow> validate_frame_ownership b db' f = Ok ()" for f
  proof -
    assume "validate_frame_ownership b db f = Ok ()"
    moreover have "incarnation_known d i t (db\<lparr>Capacities := c, FrameRows := FrameRows db'\<rparr>) = incarnation_known d i t db"
      for d i t by (simp add: incarnation_known_def fun_eq_iff split: option.splits)
    ultimately have "validate_frame_ownership b (db\<lparr>Capacities := c, FrameRows := FrameRows db'\<rparr>) f = Ok ()"
      by (simp add: validate_frame_ownership_def)
    with c(1) show ?thesis unfolding adds_frames_def by (auto intro: ownership_observes)
  qed
  have "sort_out b db' items = Ok ([], int (length items))"
  proof (rule sort_out_stored[OF _ c(2)])
    fix f payload hash assume item: "(f, payload, hash) \<in> set items"
    note encoded_item[OF i(1) item]
    with ingest_stores(8)[OF assms(1,2), of f] have "\<exists>r\<in>set (FrameRows db'). frame_identity r = batch_identity b f \<and> FrOrigHash r = hash"
      by (simp add: stored_with_def)
    with own[OF s(5)[OF item]] show "validate_frame_ownership b db' f = Ok () \<and>
      (\<exists>r\<in>set (FrameRows db'). frame_identity r = batch_identity b f \<and> FrOrigHash r = hash)" by blast
  qed
  with i core n have "ingest_body k len (HubNow env') b db' =
      Ok (\<lparr>AckBatchID = BatchID b, AckDurable = True, Accepted = 0, Duplicate = int (length (Frames b))\<rparr>, db')"
    by (simp add: ingest_body_def admit_capacity_def)
  with v assms(3,4) show ?thesis by (simp add: ingest_batch_def transaction_def)
qed

text \<open>
  (C13) A lost acknowledgement does no harm: after a batch was stored, sending it again is accepted as
  long as the hub takes requests at all, every frame counts as a duplicate, and nothing is written a
  second time, for a live session and for a replay alike, whatever the capacity left and the clock.
\<close>
theorem redelivery_is_accepted:
  assumes "ingest_batch k len env b db = (Ok ack, db')" "frames_ok db"
    and "Admission env' = None" "CommitFails env' = None"
  shows "ingest_batch k len env' b db' =
    (Ok \<lparr>AckBatchID = BatchID b, AckDurable = True, Accepted = 0, Duplicate = int (length (Frames b))\<rparr>, db')"
  by (rule redelivery[OF assms])

lemma redelivery_is_accepted_witness:
  "Duplicate (projr (fst (ingest_batch ingest_codec (\<lambda>_. 0) ingest_env (exit_batch 100000) (snd (ingest_run 100000))))) = 1"
  using redelivery_is_accepted[OF ingest_run_result ingest_db_ok, where env' = ingest_env]
  by (simp add: ingest_env_def exit_batch_def)

section \<open>An exit seen on a fast clock\<close>

definition knows_exit :: "collector_batch \<Rightarrow> endpoint_association \<Rightarrow> verified_process_exit \<Rightarrow> store_db \<Rightarrow> bool" where
  "knows_exit b a e db \<longleftrightarrow>
     list_ex (incarnation_is b (AssocTargetID a) (ExitPID e) (ExitStartIdentity e) (ExitProcessKey e)) (Incarnations db)"

text \<open>A known incarnation stays known.\<close>

lemma knows_exit_observes:
  assumes "observes db db'" "knows_exit b a e db"
  shows "knows_exit b a e db'"
proof -
  let ?P = "\<lambda>(n, d, h, t, o1, p, s, k). d = BDeploymentID b \<and> h = BHostID b \<and> t = AssocTargetID a \<and> o1 = BCollectorBootID b
    \<and> p = ExitPID e \<and> s = ExitStartIdentity e \<and> k = ExitProcessKey e"
  have as_map: "knows_exit b a e x \<longleftrightarrow> list_ex ?P (map inc_identity (Incarnations x))" for x
    by (simp add: knows_exit_def list_ex_iff incarnation_is_def inc_identity_def)
  from assms(1) obtain new where
    "map inc_identity (Incarnations db') = map inc_identity (Incarnations db) @ map inc_identity new"
    by (auto simp: observes_def)
  with assms(2) show ?thesis unfolding as_map by (simp only: list_ex_append simp_thms)
qed

lemma exit_refused:
  assumes "VerifiedExit a = Some e" "knows_exit b a e db" "observed < LastSeenMS e"
  shows "\<not> is_ok (persist_verified_exit b a observed admitted db)"
proof -
  obtain r where "find (incarnation_is b (AssocTargetID a) (ExitPID e) (ExitStartIdentity e) (ExitProcessKey e))
      (Incarnations db) = Some r"
    using assms(2) by (fastforce simp: knows_exit_def list_ex_iff find_None_iff)
  with assms(1,3) show ?thesis
    by (auto simp: persist_verified_exit_def insert_event_def batch_event_def is_ok_bind)
qed

lemma exit_association_refused:
  assumes "FEndpointAssociation f = Some a" "VerifiedExit a = Some e" "knows_exit b a e db" "observed < LastSeenMS e"
    and "DeliveryMode b = ''current''"
  shows "\<not> is_ok (persist_endpoint_association b f observed admitted db)"
proof (cases "AssocQuality a = AssociationVerified")
  case True
  have "\<not> is_ok (persist_verified_association b f a observed admitted db)"
  proof (cases "\<exists>pid st key. AssocPID a = Some pid \<and> AssocStartIdentity a = Some st \<and> AssocProcessKey a = Some key")
    case True
    then obtain pid st key where id: "AssocPID a = Some pid" "AssocStartIdentity a = Some st" "AssocProcessKey a = Some key"
      by blast
    have "\<not> is_ok (persist_verified_exit b a observed admitted (insert_association r db1))"
      if "observe_incarnation b a f observed pid st key db = Ok (u, db1)" for u db1 r
      by (rule exit_refused[where e = e, OF assms(2) knows_exit_observes[OF observes_trans[OF observe_incarnation_observes[OF that]
          insert_association_observes] assms(3)] assms(4)])
    then show ?thesis using assms(5)
      by (fastforce simp: persist_verified_association_def id is_ok_iff Let_def elim!: result_bind_OkE)
  qed (auto simp: persist_verified_association_def split: option.splits)
  with True assms(1) show ?thesis by (simp add: persist_endpoint_association_def)
next
  case False
  have "\<not> is_ok (persist_verified_exit b a observed admitted db1)"
    if "persist_endpoint_unavailable b a observed admitted db = Ok db1" for db1
    by (rule exit_refused[where e = e, OF assms(2) knows_exit_observes[OF unavailable_observes[OF that] assms(3)] assms(4)])
  with False assms(1,5) show ?thesis by (auto simp: persist_endpoint_association_def is_ok_bind)
qed

lemma exit_frame_refused:
  assumes "FEndpointAssociation f = Some a" "VerifiedExit a = Some e" "knows_exit b a e db"
    and "effective_time f < LastSeenMS e" "DeliveryMode b = ''current''"
  shows "\<not> is_ok (store_frame k b now (f, payload, hash) db)"
proof -
  have "\<not> is_ok (persist_process_observations b f now db1)"
    if "insert_frame (frame_row_of b now (f, payload, hash)) db = Ok db1" for db1
  proof -
    have "knows_exit b a e db1" using assms(3) insert_frame_adds(1)[OF that] by (simp add: knows_exit_def)
    from exit_association_refused[OF assms(1,2) this assms(4,5)] show ?thesis
      by (simp add: persist_process_observations_def Let_def is_ok_bind) (auto simp: is_ok_iff)
  qed
  then show ?thesis by (fastforce simp: store_frame_def Let_def is_ok_iff elim!: result_bind_OkE)
qed

lemma exit_frames_refused:
  assumes "FEndpointAssociation f = Some a" "VerifiedExit a = Some e" "effective_time f < LastSeenMS e"
    and "DeliveryMode b = ''current''"
  shows "(f, payload, hash) \<in> set items \<Longrightarrow> knows_exit b a e db \<Longrightarrow> \<not> is_ok (for_all (store_frame k b now) items db)"
proof (induction items arbitrary: db)
  case (Cons item items)
  show ?case
  proof (cases "item = (f, payload, hash)")
    case True
    have "\<not> is_ok (store_frame k b now item db)"
      unfolding True by (rule exit_frame_refused[OF assms(1,2) Cons.prems(2) assms(3,4)])
    then show ?thesis by (auto simp: is_ok_bind)
  next
    case False
    have "knows_exit b a e db1" if "store_frame k b now item db = Ok db1" for db1
    proof -
      have "observes (db\<lparr>FrameRows := FrameRows db1\<rparr>) db1" using store_frame_effect(1)[OF that]
        unfolding adds_frames_def by (rule conjunct2)
      then show ?thesis by (rule knows_exit_observes) (use Cons.prems(2) in \<open>simp add: knows_exit_def\<close>)
    qed
    with Cons False show ?thesis by (auto simp: is_ok_bind)
  qed
qed simp

text \<open>
  (C35) A verified exit is refused where the collector's clock runs ahead. The exit's last sighting is a
  reading of the collector's own clock, the time of the frame is its estimate of the hub's clock, and
  the message is only checked against the collector's clock. If the estimate lies before the sighting, a
  live batch with such a frame that the hub has not stored yet is refused as a whole, because the event
  would end before it starts.
\<close>
theorem exit_on_fast_clock_is_refused:
  assumes "f \<in> set (Frames b)" "DeliveryMode b = ''current''" "FEndpointAssociation f = Some a" "VerifiedExit a = Some e"
    and "EstimatedUTCMS f = Some t" "t < LastSeenMS e" "knows_exit b a e db"
    and "batch_identity b f \<notin> frame_identity ` set (FrameRows db)"
  shows "\<not> is_ok (fst (ingest_batch k len env b db))"
proof
  assume "is_ok (fst (ingest_batch k len env b db))"
  then obtain ack db' where "ingest_body k len (HubNow env) b db = Ok (ack, db')"
    by (fastforce simp: ingest_batch_def transaction_def split: sum.splits option.splits prod.splits)
  from ingest_body_effect[OF this] obtain items pending db1 where i: "encode_frames k (Frames b) = Ok items"
    "sort_out b db items = Ok (pending, Duplicate ack)" "admit_capacity len b (HubNow env) pending db = Ok db1"
    "for_all (store_frame k b (HubNow env)) pending db1 = Ok db'" by blast
  obtain payload hash where "(f, payload, hash) \<in> set items" by (rule encoded_frame[OF i(1) assms(1)])
  from sort_out_effect(4)[OF i(2) this] assms(8) have p: "(f, payload, hash) \<in> set pending" by force
  from admit_capacity_effect[OF i(3)] assms(7) have "knows_exit b a e db1" by (auto simp: knows_exit_def)
  from exit_frames_refused[OF assms(3,4) _ assms(2) p this, of k "HubNow env"] assms(5,6) i(4)
  show False by (simp add: effective_time_def)
qed

text \<open>The same message is stored where the clocks agree, and refused where the collector's is 20 s ahead.\<close>

lemma exit_on_fast_clock_is_refused_witness:
  "is_ok (fst (ingest_run 100000)) \<and> validate_batch (ConfigDigest ingest_codec) (exit_batch 80000) = Ok () \<and>
     \<not> is_ok (fst (ingest_run 80000))"
proof (intro conjI)
  show "is_ok (fst (ingest_run 100000))" by (rule ingest_run_ok)
  show "validate_batch (ConfigDigest ingest_codec) (exit_batch 80000) = Ok ()"
    using exit_batch_valid by (simp add: ingest_codec_def)
  show "\<not> is_ok (fst (ingest_run 80000))" unfolding ingest_run_def
    by (rule exit_on_fast_clock_is_refused[where f = "exit_frame 80000" and a = exit_association and t = 80000
          and e = "the (VerifiedExit exit_association)"])
      (simp_all add: exit_batch_def exit_frame_def exit_association_def ingest_db_def knows_exit_def incarnation_is_def)
qed

end
