(* ===== verification/Transport.thy ===== *)
theory Transport
  imports Frames
begin

text \<open>
  The collector's link to the hub: \<open>internal/collector/scheduler/transport.go\<close> (the owner-socket
  client, its error classes and the check of every acknowledgement) and
  \<open>internal/collector/scheduler/budget.go\<close> (the byte budget). The network is an argument: what one
  exchange meets. Times are nanoseconds; \<open>HubTimeMS\<close> and the pacing fields of an acknowledgement are
  not read by the collector and not part of the answers.
\<close>

section \<open>Errors\<close>

text \<open>An \<open>AdmissionError\<close> with its status and its Retry-After, or any other error.\<close>

datatype send_error = AdmissionRefused int int64 | SendFailed message

fun retryable :: "send_error \<Rightarrow> bool" where
  "retryable (AdmissionRefused status wait) = (status = 429 \<or> status = 503 \<or> status \<ge> 500)"
| "retryable (SendFailed m) = False"

fun poison :: "send_error \<Rightarrow> bool" where
  "poison (AdmissionRefused status wait) = (status = 422)"
| "poison (SendFailed m) = False"

fun fenced :: "send_error \<Rightarrow> bool" where
  "fenced (AdmissionRefused status wait) = (status = 401 \<or> status = 403 \<or> status = 409)"
| "fenced (SendFailed m) = False"

text \<open>\<open>strconv.Atoi\<close>.\<close>

definition atoi :: "string \<Rightarrow> int option" where
  "atoi s =
     (let (neg, ds) = (case s of [] \<Rightarrow> (False, []) | c # cs \<Rightarrow>
            if c = CHR ''-'' then (True, cs) else if c = CHR ''+'' then (False, cs) else (False, s));
          n = (if neg then - int (digits_value ds) else int (digits_value ds)) in
      if ds = [] \<or> \<not> list_all is_digit ds \<or> \<not> in_int64 n then None else Some n)"

definition retry_after :: "string \<Rightarrow> int64" where
  "retry_after raw = (case atoi raw of
     None \<Rightarrow> 1000000000
   | Some n \<Rightarrow> if n < 1 \<or> n > 60 then 1000000000 else n * 1000000000)"

section \<open>One exchange\<close>

text \<open>What \<open>http.Client.Do\<close> brings back: its error, or a status, a Retry-After header and the body,
  \<open>None\<close> where the body is not the strict JSON of the answer.\<close>

datatype 'a reply = NoReply message | Reply int string "'a option"

text \<open>\<open>Opened\<close>: the client was not closed; \<open>SocketCheck\<close>: the error of the socket's check, if any.\<close>

record link =
  Opened :: bool
  SocketCheck :: "message option"

definition transport_do :: "link \<Rightarrow> 'a reply \<Rightarrow> (send_error, 'a) result" where
  "transport_do l r =
     (if \<not> Opened l then Err (SendFailed ''collector transport closed'')
      else case SocketCheck l of
        Some m \<Rightarrow> Err (SendFailed m)
      | None \<Rightarrow> (case r of
          NoReply m \<Rightarrow> Err (SendFailed m)
        | Reply status retry body \<Rightarrow>
            if status \<noteq> 200 then Err (AdmissionRefused status (retry_after retry))
            else (case body of None \<Rightarrow> Err (SendFailed ''strict JSON'') | Some a \<Rightarrow> Ok a)))"

text \<open>\<open>body\<close>: the length of the request's JSON, or the encoder's error.\<close>

definition transport_post :: "link \<Rightarrow> (message, int) result \<Rightarrow> int \<Rightarrow> 'a reply \<Rightarrow> (send_error, 'a) result" where
  "transport_post l body limit r =
     (case body of
        Err m \<Rightarrow> Err (SendFailed m)
      | Ok n \<Rightarrow> if n > limit then Err (SendFailed ''collector request exceeds route limit'') else transport_do l r)"

definition MaxBatchBytes :: int where "MaxBatchBytes = 4194304"
definition MaxInventoryBytes :: int where "MaxInventoryBytes = 1048576"

definition checked_reply :: "('a \<Rightarrow> bool) \<Rightarrow> message \<Rightarrow> (send_error, 'a) result \<Rightarrow> (send_error, 'a) result" where
  "checked_reply p m r = result_bind r (\<lambda>a. if p a then Ok a else Err (SendFailed m))"

text \<open>The pair result is \<open>durable\<close> and the host.\<close>

definition transport_pair ::
  "link \<Rightarrow> (message, int) result \<Rightarrow> string \<Rightarrow> (bool \<times> string) reply \<Rightarrow> (send_error, bool \<times> string) result" where
  "transport_pair l body host r =
     checked_reply (\<lambda>(durable, h). durable \<and> h = host) ''local pair acknowledgement conflicts with request''
       (transport_post l body 4096 r)"

definition activation_ack_ok :: "session_activation \<Rightarrow> session_result \<Rightarrow> bool" where
  "activation_ack_ok q r \<longleftrightarrow> \<not> (ResActivationRequestID r \<noteq> ActivationRequestID q
     \<or> ResSecurityGeneration r \<noteq> ActSecurityGeneration q \<or> ResCollectorBootID r \<noteq> ActCollectorBootID q
     \<or> \<not> ResCurrent r \<or> ResSessionGeneration r \<le> ExpectedPreviousGeneration q
     \<or> ResSessionGeneration r > MaxUint53 \<or> ActivatedMS r < 0)"

definition transport_activate ::
  "link \<Rightarrow> (message, int) result \<Rightarrow> session_activation \<Rightarrow> session_result reply \<Rightarrow> (send_error, session_result) result" where
  "transport_activate l body q r =
     checked_reply (activation_ack_ok q) ''session acknowledgement conflicts with activation''
       (transport_post l body MaxInventoryBytes r)"

definition inventory_ack_ok :: "collector_inventory \<Rightarrow> inventory_result \<Rightarrow> bool" where
  "inventory_ack_ok q r \<longleftrightarrow> ResDurable r \<and> ResInvCurrent r \<and> ResInventoryRevision r = InventoryRevision q"

definition transport_inventory ::
  "link \<Rightarrow> (message, int) result \<Rightarrow> collector_inventory \<Rightarrow> inventory_result reply \<Rightarrow>
   (send_error, inventory_result) result" where
  "transport_inventory l body q r =
     checked_reply (inventory_ack_ok q) ''inventory acknowledgement conflicts with request''
       (transport_post l body MaxInventoryBytes r)"

definition batch_ack_ok :: "collector_batch \<Rightarrow> batch_ack \<Rightarrow> bool" where
  "batch_ack_ok q r \<longleftrightarrow> \<not> (\<not> AckDurable r \<or> AckBatchID r \<noteq> BatchID q \<or> Accepted r < 0 \<or> Duplicate r < 0
     \<or> add64 (Accepted r) (Duplicate r) \<noteq> int (length (Frames q)))"

definition transport_batch ::
  "link \<Rightarrow> (message, int) result \<Rightarrow> collector_batch \<Rightarrow> batch_ack reply \<Rightarrow> (send_error, batch_ack) result" where
  "transport_batch l body q r =
     checked_reply (batch_ack_ok q) ''batch acknowledgement conflicts with request''
       (transport_post l body MaxBatchBytes r)"

definition status_ack_ok :: "source_status \<Rightarrow> status_ack \<Rightarrow> bool" where
  "status_ack_ok q r \<longleftrightarrow> SAckDurable r \<and> SAckCollectorBootID r = StCollectorBootID q \<and> SAckSequence r = StSequence q"

definition transport_status ::
  "link \<Rightarrow> (message, int) result \<Rightarrow> source_status \<Rightarrow> status_ack reply \<Rightarrow> (send_error, status_ack) result" where
  "transport_status l body q r =
     checked_reply (status_ack_ok q) ''source status acknowledgement conflicts with request''
       (transport_post l body MaxStatusBytes r)"

definition transport_time :: "link \<Rightarrow> int64 reply \<Rightarrow> (send_error, int64) result" where
  "transport_time l r =
     checked_reply (\<lambda>t. \<not> (t < 0 \<or> t > MaxUint53)) ''invalid hub time response'' (transport_do l r)"

text \<open>The hub's status names its process, unless it could not read it.\<close>

record hub_status =
  HubSchema :: string
  HubService :: string
  HubProcess :: "(int64 \<times> uint64_decimal) option"

definition parse_uint64 :: "string \<Rightarrow> int option" where
  "parse_uint64 s = (if s = [] \<or> \<not> list_all is_digit s \<or> int (digits_value s) > max_uint64 then None
     else Some (int (digits_value s)))"

definition hub_process_identity :: "link \<Rightarrow> string \<Rightarrow> hub_status reply \<Rightarrow> (send_error, (int64 \<times> int) option) result" where
  "hub_process_identity l schema r =
     result_bind (transport_do l r) (\<lambda>st.
       if HubSchema st \<noteq> schema \<or> HubService st \<noteq> ''hub'' then Err (SendFailed ''invalid hub status identity'')
       else case HubProcess st of
         None \<Rightarrow> Ok None
       | Some (pid, text) \<Rightarrow> (case parse_uint64 text of
           None \<Rightarrow> Err (SendFailed ''invalid hub process identity'')
         | Some start \<Rightarrow>
             if start = 0 \<or> pid < 1 \<or> pid > 2147483647 then Err (SendFailed ''invalid hub process identity'')
             else Ok (Some (pid, start))))"

section \<open>The byte budget\<close>

definition total_bytes_per_second :: int where "total_bytes_per_second = 262144"
definition replay_bytes_per_second :: int where "replay_bytes_per_second = 131072"
definition total_burst_bytes :: int where "total_burst_bytes = 262144"
definition current_reserve_bytes :: int where "current_reserve_bytes = 65536"
definition protocol_control_bytes :: int where "protocol_control_bytes = 4096"

lemmas budget_constants = total_bytes_per_second_def replay_bytes_per_second_def total_burst_bytes_def
  current_reserve_bytes_def protocol_control_bytes_def

record byte_budget =
  BudgetUpdated :: instant
  BudgetTotal :: rat
  BudgetReplay :: rat
  LastControl :: "instant option"

definition new_budget :: "instant \<Rightarrow> byte_budget" where
  "new_budget now = \<lparr>BudgetUpdated = now, BudgetTotal = of_int total_burst_bytes,
     BudgetReplay = of_int replay_bytes_per_second, LastControl = None\<rparr>"

text \<open>\<open>Duration.Seconds\<close>.\<close>

definition go_seconds :: "int64 \<Rightarrow> rat" where
  "go_seconds d = round53 (of_int (d div 1000000000) + round53 (of_int (d mod 1000000000) / 1000000000))"

definition refilled :: "int \<Rightarrow> int \<Rightarrow> int64 \<Rightarrow> rat \<Rightarrow> rat" where
  "refilled cap rate elapsed level =
     min (of_int cap) (round53 (level + round53 (go_seconds elapsed * of_int rate)))"

definition refill_budget :: "instant \<Rightarrow> byte_budget \<Rightarrow> byte_budget" where
  "refill_budget now b =
     (let elapsed = max 0 (sub_instant now (BudgetUpdated b)) in
      b\<lparr>BudgetUpdated := now,
        BudgetTotal := refilled total_burst_bytes total_bytes_per_second elapsed (BudgetTotal b),
        BudgetReplay := refilled replay_bytes_per_second replay_bytes_per_second elapsed (BudgetReplay b)\<rparr>)"

definition budget_allow :: "instant \<Rightarrow> int \<Rightarrow> bool \<Rightarrow> byte_budget \<Rightarrow> bool \<times> byte_budget" where
  "budget_allow now n replay b =
     (if n < 0 \<or> n > total_burst_bytes then (False, b)
      else let b = refill_budget now b; left = round53 (BudgetTotal b - of_int n) in
        if of_int n > BudgetTotal b then (False, b)
        else if replay \<and> (of_int n > BudgetReplay b \<or> left < of_int current_reserve_bytes) then (False, b)
        else (True, b\<lparr>BudgetTotal := left,
          BudgetReplay := (if replay then round53 (BudgetReplay b - of_int n) else BudgetReplay b)\<rparr>))"

definition allow_current :: "instant \<Rightarrow> int \<Rightarrow> byte_budget \<Rightarrow> bool \<times> byte_budget" where
  "allow_current now n = budget_allow now n False"

definition allow_replay :: "instant \<Rightarrow> int \<Rightarrow> byte_budget \<Rightarrow> bool \<times> byte_budget" where
  "allow_replay now n = budget_allow now n True"

definition allow_control :: "instant \<Rightarrow> int \<Rightarrow> byte_budget \<Rightarrow> bool \<times> byte_budget" where
  "allow_control now n b =
     (if n < 0 \<or> n > protocol_control_bytes \<or> ptr_and (LastControl b) (\<lambda>t. sub_instant now t < 5000000000)
      then (False, b) else (True, b\<lparr>LastControl := Some now\<rparr>))"

end
