(* ===== verification/Delivery.thy ===== *)
theory Delivery
  imports Spool Pairing Transport HubIngest
begin

text \<open>
  The delivering half of \<open>internal/collector/scheduler/runner.go\<close>: frames go into the spool, batches
  and source statuses go to the hub, and what the hub answers decides what leaves the spool. The clock
  readings, the identifiers and the hub's replies of each step are arguments.
\<close>

section \<open>State\<close>

datatype runner_error = SpoolError spool_error | SendError send_error | RunnerError message

record source_health =
  HealthState :: string
  HealthSuccess :: "int64 option"
  HealthFirstFailure :: "int64 option"
  HealthReason :: "missing_reason option"
  HealthFailures :: int64

definition no_health :: source_health where
  "no_health = \<lparr>HealthState = '''', HealthSuccess = None, HealthFirstFailure = None, HealthReason = None,
     HealthFailures = 0\<rparr>"

text \<open>\<open>CollectorStatus\<close> without the diagnostic category of the last failure.\<close>

record collector_status =
  CsState :: string
  CsTarget :: string
  CsStarted :: bool
  CsSession :: int64
  CsLastCycle :: "int64 option"
  CsLastSend :: "int64 option"
  CsErrorCode :: "string option"

record runner =
  RunPairing :: local_state
  RunSpool :: spool
  RunBudget :: byte_budget
  RunBoot :: string
  RunSession :: session_result
  RunTarget :: "string option"
  RunSequence :: "(string \<times> int64) list"
  StatusSequence :: int64
  RunHealth :: "(string \<times> source_health) list"
  PendingStatus :: "source_status option"
  PendingLossRev :: nat
  PendingLosses :: int
  RunStatus :: collector_status

definition sequence_of :: "runner \<Rightarrow> string \<Rightarrow> int64" where
  "sequence_of r source = (case map_of (RunSequence r) source of None \<Rightarrow> 0 | Some n \<Rightarrow> n)"

definition health_of :: "runner \<Rightarrow> string \<Rightarrow> source_health" where
  "health_of r source = (case map_of (RunHealth r) source of None \<Rightarrow> no_health | Some h \<Rightarrow> h)"

definition set_health :: "string \<Rightarrow> source_health \<Rightarrow> runner \<Rightarrow> runner" where
  "set_health source h r = r\<lparr>RunHealth := AList.update source h (RunHealth r)\<rparr>"

type_synonym 'a step = "runner \<Rightarrow> (runner_error, 'a) result \<times> runner"

text \<open>A call on the spool.\<close>

definition on_spool :: "'a op \<Rightarrow> 'a step" where
  "on_spool m r = (case m (RunSpool r) of
     (Inl e, s) \<Rightarrow> (Inl (SpoolError e), r\<lparr>RunSpool := s\<rparr>)
   | (Inr a, s) \<Rightarrow> (Inr a, r\<lparr>RunSpool := s\<rparr>))"

section \<open>Frames into the spool\<close>

text \<open>What one \<open>Append\<close> meets: the spool's clock and the random source of a segment name.\<close>

record append_env =
  AppendNow :: int64
  AppendUUID :: "string option"

definition next_sequence :: "string \<Rightarrow> runner \<Rightarrow> runner" where
  "next_sequence source r =
     r\<lparr>RunSequence := AList.update source (add64 (sequence_of r source) 1) (RunSequence r)\<rparr>"

definition record_of :: "runner \<Rightarrow> collector_frame \<Rightarrow> int64 \<Rightarrow> string \<Rightarrow> spool_record" where
  "record_of r f n payload =
     \<lparr>DeploymentID = PDeploymentID (pairing_snapshot (RunPairing r)),
      Generation = PGeneration (pairing_snapshot (RunPairing r)),
      SessionGeneration = ResSessionGeneration (RunSession r), HostID = PHostID (pairing_snapshot (RunPairing r)),
      BootID = RunBoot r, SourceID = FSourceID f, Sequence = nat n, ObservedMS = FObservedWallMS f, Payload = payload\<rparr>"

definition append_frame :: "frame_codec \<Rightarrow> append_env \<Rightarrow> collector_frame \<Rightarrow> unit step" where
  "append_frame k env f r =
     (let n = sequence_of r (FSourceID f); r' = next_sequence (FSourceID f) r in
      case codec_encode k (f\<lparr>FSequence := n\<rparr>) of
        Err m \<Rightarrow> (Err (RunnerError m), r')
      | Ok (payload, hash) \<Rightarrow>
          on_spool (Spool.append (AppendNow env) (AppendUUID env) (record_of r f n payload)) r')"

fun append_frames :: "frame_codec \<Rightarrow> (nat \<Rightarrow> append_env) \<Rightarrow> collector_frame list \<Rightarrow> unit step" where
  "append_frames k env [] r = (Ok (), r)"
| "append_frames k env (f # fs) r =
     (case append_frame k (env 0) f r of
        (Inl e, r') \<Rightarrow> (Inl e, r')
      | (Inr _, r') \<Rightarrow> append_frames k (\<lambda>n. env (Suc n)) fs r')"

section \<open>A delivery lane\<close>

text \<open>What one attempt of a lane meets; \<open>BatchJSON\<close> is \<open>json.Marshal\<close>, whose error the budget takes for
  no bytes at all.\<close>

record lane_env =
  ReadNow :: int64
  BatchUUID :: "string option"
  BatchJSON :: "collector_batch \<Rightarrow> (message, int) result"
  BudgetNow :: instant
  LaneLink :: link
  BatchReply :: "collector_batch \<Rightarrow> batch_ack reply"
  AckNow :: int64
  SentNow :: int64

definition json_size :: "(message, int) result \<Rightarrow> int" where
  "json_size r = (case r of Err m \<Rightarrow> 0 | Ok n \<Rightarrow> n)"

definition same_owner :: "spool_record \<Rightarrow> spool_record \<Rightarrow> bool" where
  "same_owner a b \<longleftrightarrow> DeploymentID b = DeploymentID a \<and> Spool.Generation b = Spool.Generation a
     \<and> SessionGeneration b = SessionGeneration a \<and> HostID b = HostID a \<and> BootID b = BootID a"

definition decode_record :: "frame_codec \<Rightarrow> spool_record \<Rightarrow> spool_record \<Rightarrow> (message, collector_frame) result" where
  "decode_record k first r =
     (if \<not> same_owner first r then Err ''spool batch ownership mismatch''
      else case codec_decode k (Payload r) of
        Err m \<Rightarrow> Err ''spool frame decode mismatch''
      | Ok f \<Rightarrow> if FSourceID f \<noteq> SourceID r \<or> FSequence f \<noteq> wrap64 (int (Sequence r))
                   \<or> FObservedWallMS f \<noteq> ObservedMS r
               then Err ''spool frame decode mismatch'' else Ok f)"

fun decode_records :: "frame_codec \<Rightarrow> spool_record \<Rightarrow> spool_record list \<Rightarrow> (message, collector_frame list) result" where
  "decode_records k first [] = Ok []"
| "decode_records k first (r # rs) =
     result_bind (decode_record k first r) (\<lambda>f. result_bind (decode_records k first rs) (\<lambda>fs. Ok (f # fs)))"

definition batch_of :: "bool \<Rightarrow> string \<Rightarrow> spool_record \<Rightarrow> collector_frame list \<Rightarrow> collector_batch" where
  "batch_of current uuid first frames =
     \<lparr>BProtocol = ProtocolVersion, DeliveryMode = (if current then ''current'' else ''replay''),
      BSecurityGeneration = Spool.Generation first, BSessionGeneration = SessionGeneration first,
      BDeploymentID = DeploymentID first, BHostID = HostID first, BCollectorBootID = BootID first, BatchID = uuid,
      Frames = frames\<rparr>"

text \<open>An attempt returns, or asks for another one with half the frames.\<close>

datatype lane_result = Returns bool "runner_error option" | Halve

definition quarantined :: "cursor \<Rightarrow> string \<Rightarrow> runner \<Rightarrow> runner_error option \<times> runner" where
  "quarantined c code r = (case on_spool (Spool.quarantine c code) r of
     (Inl e, r') \<Rightarrow> (Some e, r') | (Inr _, r') \<Rightarrow> (None, r'))"

definition lane_reply ::
  "lane_env \<Rightarrow> pending \<Rightarrow> collector_batch \<Rightarrow> (send_error, batch_ack) result \<Rightarrow> runner \<Rightarrow> lane_result \<times> runner" where
  "lane_reply env p batch answer r =
     (case answer of
        Err (AdmissionRefused status wait) \<Rightarrow>
          if status = 413 then
            (if length (Frames batch) > 1 then (Halve, r)
             else (case quarantined (PendingCursor p) ''oversized_frame'' r of (e, r') \<Rightarrow> (Returns True e, r')))
          else if poison (AdmissionRefused status wait) then
            (case quarantined (PendingCursor p) ''invalid_frame'' r of (e, r') \<Rightarrow> (Returns True e, r'))
          else (Returns True (Some (SendError (AdmissionRefused status wait))), r)
      | Err (SendFailed m) \<Rightarrow> (Returns True (Some (SendError (SendFailed m))), r)
      | Ok a \<Rightarrow>
          if \<not> AckDurable a then (Returns True (Some (RunnerError ''non-durable batch acknowledgement'')), r)
          else (case on_spool (Spool.ack (AckNow env) (PendingCursor p)) r of
            (Inl e, r') \<Rightarrow> (Returns True (Some e), r')
          | (Inr _, r') \<Rightarrow> (Returns True None, r'\<lparr>RunStatus := (RunStatus r')\<lparr>CsLastSend := Some (SentNow env)\<rparr>\<rparr>)))"

definition lane_budget :: "lane_env \<Rightarrow> bool \<Rightarrow> collector_batch \<Rightarrow> runner \<Rightarrow> bool \<times> runner" where
  "lane_budget env current batch r =
     (case (if current then allow_current else allow_replay) (BudgetNow env) (json_size (BatchJSON env batch)) (RunBudget r) of
        (allowed, b) \<Rightarrow> (allowed, r\<lparr>RunBudget := b\<rparr>))"

definition lane_send :: "lane_env \<Rightarrow> bool \<Rightarrow> pending \<Rightarrow> collector_batch \<Rightarrow> runner \<Rightarrow> lane_result \<times> runner" where
  "lane_send env current p batch r =
     (case lane_budget env current batch r of (allowed, r') \<Rightarrow>
        if \<not> allowed then (Returns True None, r')
        else lane_reply env p batch (transport_batch (LaneLink env) (BatchJSON env batch) batch (BatchReply env batch)) r')"

definition lane_attempt :: "frame_codec \<Rightarrow> lane_env \<Rightarrow> bool \<Rightarrow> int \<Rightarrow> runner \<Rightarrow> lane_result \<times> runner" where
  "lane_attempt k env current maxFrames r =
     (case on_spool (read_pending (ReadNow env) (RunBoot r) (PGeneration (pairing_snapshot (RunPairing r))) current
             262144 maxFrames) r of
        (Inl e, r') \<Rightarrow> (Returns False (Some e), r')
      | (Inr p, r') \<Rightarrow> (case Records p of
          [] \<Rightarrow> (Returns False None, r')
        | first # rest \<Rightarrow> (case decode_records k first (first # rest) of
            Err m \<Rightarrow> (Returns True (Some (RunnerError m)), snd (quarantined (PendingCursor p) ''invalid_frame'' r'))
          | Ok frames \<Rightarrow> (case BatchUUID env of
              None \<Rightarrow> (Returns True (Some (RunnerError ''read random'')), r')
            | Some u \<Rightarrow> lane_send env current p (batch_of current u first frames) r'))))"

text \<open>Halving is asked for only when there was more than one frame, so the bound decreases.\<close>

lemma read_loop_bound:
  "read_loop bytes n torn rs p = Ok q \<Longrightarrow> length (Records p) \<le> n \<Longrightarrow> length (Records q) \<le> n"
proof (induction bytes n torn rs p rule: read_loop.induct)
  case (1 bytes n torn p)
  then show ?case by (auto split: if_splits)
next
  case (2 bytes n torn r rs p)
  show ?case
  proof (cases "length (Records p) < n")
    case True
    with 2 show ?thesis by (auto split: if_split_asm)
  next
    case False
    with 2 show ?thesis by simp
  qed
qed

lemma read_pending_bound:
  assumes "read_pending now boot g current mb mf s = (Inr p, s')"
  shows "int (length (Records p)) \<le> max 0 mf"
proof -
  have "int (length (Records q)) \<le> max 0 mf" if "read_segment mb (nat mf) seg t = (Inr q, t')" for seg t q t'
    using that by (auto simp: read_segment_def op_bind_def from_result_def
        split: sum.splits option.splits prod.splits dest!: read_loop_bound)
  then show ?thesis using assms
    by (auto simp: read_pending_def op_bind_def fail_with_def no_pending_def
        split: sum.splits option.splits prod.splits if_split_asm)
qed

lemma decode_records_length: "decode_records k first rs = Ok fs \<Longrightarrow> length fs = length rs"
  by (induction rs arbitrary: fs) (auto elim!: result_bind_OkE)

lemma lane_reply_halves:
  "lane_reply env p batch answer r = (Halve, r') \<Longrightarrow> 1 < length (Frames batch)"
  by (auto simp: lane_reply_def split: sum.splits send_error.splits if_split_asm prod.splits)

lemma lane_attempt_halves:
  assumes "lane_attempt k env current maxFrames r = (Halve, r')"
  shows "1 < maxFrames"
proof -
  from assms obtain p r1 where read: "on_spool (read_pending (ReadNow env) (RunBoot r)
      (PGeneration (pairing_snapshot (RunPairing r))) current 262144 maxFrames) r = (Inr p, r1)"
    by (auto simp: lane_attempt_def split: sum.splits prod.splits)
  with assms obtain first rest frames u where rs: "Records p = first # rest"
      "decode_records k first (first # rest) = Ok frames"
    and send: "lane_send env current p (batch_of current u first frames) r1 = (Halve, r')"
    by (auto simp: lane_attempt_def split: list.splits sum.splits option.splits)
  have "1 < length (Frames (batch_of current u first frames))"
    using send by (simp only: lane_send_def split: prod.splits if_split_asm) (auto dest: lane_reply_halves)
  then have "1 < length (Records p)" using decode_records_length[OF rs(2)] rs(1) by (simp add: batch_of_def)
  moreover have "int (length (Records p)) \<le> max 0 maxFrames"
    using read by (auto simp: on_spool_def split: sum.splits prod.splits intro: read_pending_bound)
  ultimately show ?thesis by linarith
qed

function send_lane ::
  "frame_codec \<Rightarrow> (nat \<Rightarrow> lane_env) \<Rightarrow> bool \<Rightarrow> int \<Rightarrow> runner \<Rightarrow> (bool \<times> runner_error option) \<times> runner" where
  "send_lane k env current maxFrames r =
     (case lane_attempt k (env 0) current maxFrames r of
        (Returns b e, r') \<Rightarrow> ((b, e), r')
      | (Halve, r') \<Rightarrow> send_lane k (\<lambda>n. env (Suc n)) current (max 1 (maxFrames div 2)) r')"
  by auto

termination
  by (relation "measure (\<lambda>(k, env, current, maxFrames, r). nat maxFrames)")
    (auto dest!: lane_attempt_halves[OF sym])

declare send_lane.simps [simp del]

definition send_pending ::
  "frame_codec \<Rightarrow> (nat \<Rightarrow> lane_env) \<Rightarrow> (nat \<Rightarrow> lane_env) \<Rightarrow> runner \<Rightarrow> runner_error option \<times> runner" where
  "send_pending k live replay r =
     (case send_lane k live True 64 r of
        ((b, Some e), r') \<Rightarrow> (Some e, r')
      | ((b, None), r') \<Rightarrow> (case send_lane k replay False 64 r' of ((b', e), r'') \<Rightarrow> (e, r'')))"

end
