(* ===== verification/Runner.thy ===== *)
theory Runner
  imports Delivery
begin

text \<open>
  The rest of the runner's own state in \<open>internal/collector/scheduler/runner.go\<close>: source health, the
  source status with its losses, the owner-facing status, retries and their delays, the handshake of
  \<open>bootstrap\<close>, and the delivering end of a cycle. Times in milliseconds are wall-clock readings.
\<close>

section \<open>Source health\<close>

definition record_source_success :: "string \<Rightarrow> int64 \<Rightarrow> runner \<Rightarrow> runner" where
  "record_source_success source nowMS =
     set_health source (no_health\<lparr>HealthState := ''fresh'', HealthSuccess := Some nowMS\<rparr>)"

definition record_source_failure :: "string \<Rightarrow> string \<Rightarrow> missing_reason \<Rightarrow> int64 \<Rightarrow> runner \<Rightarrow> runner" where
  "record_source_failure source state reason nowMS r =
     (let h = health_of r source; n = add64 (HealthFailures h) 1 in
      set_health source (h\<lparr>HealthFirstFailure := (case HealthFirstFailure h of None \<Rightarrow> Some nowMS | t \<Rightarrow> t),
        HealthState := state, HealthReason := Some reason, HealthFailures := (if n > 1000000 then 1000000 else n)\<rparr>) r)"

section \<open>The source status\<close>

definition unknown_health :: source_health where
  "unknown_health = no_health\<lparr>HealthState := ''unavailable'', HealthReason := Some MissingCollectionGap, HealthFailures := 1\<rparr>"

definition source_state_of :: "string \<Rightarrow> source_health \<Rightarrow> source_state" where
  "source_state_of source h =
     \<lparr>StSourceID = source, StState = HealthState h, LastSuccessMS = HealthSuccess h, FailureReason = HealthReason h,
      FirstFailureMS = HealthFirstFailure h, FailureCount = HealthFailures h\<rparr>"

definition status_sources :: "runner \<Rightarrow> source_state list" where
  "status_sources r =
     (let v = pairing_snapshot (RunPairing r);
          active = map (\<lambda>s. source_state_of (InvSourceID s)
              (case map_of (RunHealth r) (InvSourceID s) of None \<Rightarrow> unknown_health | Some h \<Rightarrow> h))
            (filter InvActive (InventorySources v)) in
      sort_key StSourceID
        (if active = [] then [source_state_of (HostSourceID v) (health_of r (HostSourceID v))] else active))"

definition loss_interval_of :: "loss \<Rightarrow> loss_interval" where
  "loss_interval_of l = \<lparr>LossSourceID = LossSource l, LossStartMS = StartMS l, LossEndMS = EndMS l,
     LostCount = wrap64 (int (LossCount l)), LossWhy = LossReason l\<rparr>"

definition build_status :: "int64 \<Rightarrow> runner \<Rightarrow> source_status" where
  "build_status nowMS r =
     (let v = pairing_snapshot (RunPairing r); sources = status_sources r in
      \<lparr>StProtocol = ProtocolVersion, StDeploymentID = PDeploymentID v, StHostID = PHostID v,
       StSecurityGeneration = PGeneration v, StSessionGeneration = ResSessionGeneration (RunSession r),
       StCollectorBootID = RunBoot r, StSequence = StatusSequence r, StObservedWallMS = nowMS,
       Heartbeat = (if list_ex (\<lambda>s. StState s \<noteq> ''fresh'') sources then ''degraded'' else ''fresh''),
       StSources = sources,
       LossIntervals = map loss_interval_of (take 16 (fst (Spool.losses (RunSpool r))))\<rparr>)"

definition prepare_status :: "int64 \<Rightarrow> runner \<Rightarrow> runner" where
  "prepare_status nowMS r =
     (let s = build_status nowMS r in
      r\<lparr>PendingStatus := Some s, PendingLossRev := snd (Spool.losses (RunSpool r)),
        PendingLosses := int (length (LossIntervals s))\<rparr>)"

definition clear_pending :: "runner \<Rightarrow> runner" where
  "clear_pending r = r\<lparr>PendingStatus := None, PendingLossRev := 0, PendingLosses := 0\<rparr>"

text \<open>What one status meets.\<close>

record status_env =
  StatusBudgetNow :: instant
  StatusLink :: link
  StatusJSON :: "source_status \<Rightarrow> (message, int) result"
  StatusReply :: "source_status \<Rightarrow> status_ack reply"

definition transmit_status :: "status_env \<Rightarrow> source_status \<Rightarrow> runner \<Rightarrow> runner_error option \<times> runner" where
  "transmit_status env s r =
     (case transport_status (StatusLink env) (StatusJSON env s) s (StatusReply env s) of
        Err e \<Rightarrow> (Some (SendError e), r)
      | Ok a \<Rightarrow>
          (case (if PendingLosses r > 0 then on_spool (ack_losses_prefix (PendingLossRev r) (PendingLosses r)) r
                 else (Ok (), r)) of
            (Inl e, r') \<Rightarrow> (Some e, r')
          | (Inr _, r') \<Rightarrow> (None, clear_pending (r'\<lparr>StatusSequence := add64 (StatusSequence r') 1\<rparr>))))"

fun gone :: "runner_error option \<Rightarrow> bool" where
  "gone (Some (SendError (AdmissionRefused status wait))) = (status = 410)"
| "gone _ = False"

definition send_status :: "status_env \<Rightarrow> int64 \<Rightarrow> runner \<Rightarrow> runner_error option \<times> runner" where
  "send_status env nowMS r =
     (case allow_control (StatusBudgetNow env) 4096 (RunBudget r) of (allowed, b) \<Rightarrow>
        let r = r\<lparr>RunBudget := b\<rparr> in
        if \<not> allowed then (None, r)
        else (case PendingStatus r of
            Some s \<Rightarrow> (case transmit_status env s r of (e, r') \<Rightarrow>
              if sub64 nowMS (StObservedWallMS s) > 60000 \<and> gone e then (e, clear_pending r') else (e, r'))
          | None \<Rightarrow> (let r' = prepare_status nowMS r in transmit_status env (the (PendingStatus r')) r')))"

section \<open>The owner's view\<close>

definition target_text :: "runner \<Rightarrow> string" where
  "target_text r = (if RunTarget r = None then ''none'' else ''configured'')"

definition set_status :: "string \<Rightarrow> string \<Rightarrow> bool \<Rightarrow> string \<Rightarrow> runner \<Rightarrow> runner" where
  "set_status state target started code r =
     r\<lparr>RunStatus := (RunStatus r)\<lparr>CsState := state, CsTarget := target, CsStarted := started,
        CsErrorCode := (if code = [] then None else Some code)\<rparr>\<rparr>"

fun error_code :: "runner_error \<Rightarrow> string" where
  "error_code (SendError (AdmissionRefused status wait)) =
     (if fenced (AdmissionRefused status wait) then ''collector_admission_fenced''
      else if poison (AdmissionRefused status wait) then ''collector_payload_quarantined''
      else ''collector_transport_unavailable'')"
| "error_code (SpoolError e) = (if e = ErrCapacity then ''collector_spool_capacity'' else ''collector_degraded'')"
| "error_code _ = ''collector_degraded''"

definition set_error :: "runner_error \<Rightarrow> runner \<Rightarrow> runner" where
  "set_error e r = set_status ''degraded'' (target_text r) (CsStarted (RunStatus r)) (error_code e) r"

section \<open>Retries\<close>

text \<open>\<open>draw\<close>: what \<open>rand.Int\<close> returns for a bound, or \<open>None\<close> for its error.\<close>

definition decorrelated :: "(int \<Rightarrow> int option) \<Rightarrow> int64 \<Rightarrow> int64" where
  "decorrelated draw previous =
     (let upper = min 60000000000 (max 3000000000 (previous * 3)); span = upper - 1000000000 in
      case draw (span + 1) of
        None \<Rightarrow> min 60000000000 (previous * 2)
      | Some n \<Rightarrow> 1000000000 + n)"

fun admission_wait :: "runner_error \<Rightarrow> int64" where
  "admission_wait (SendError (AdmissionRefused status wait)) = wait"
| "admission_wait _ = 0"

fun gives_up :: "runner_error \<Rightarrow> bool" where
  "gives_up (SendError (AdmissionRefused status wait)) = (\<not> retryable (AdmissionRefused status wait))"
| "gives_up _ = False"

definition retry_wait :: "(int \<Rightarrow> int option) \<Rightarrow> runner_error \<Rightarrow> int64 \<Rightarrow> int64" where
  "retry_wait draw e delay = max (decorrelated draw delay) (admission_wait e)"

text \<open>Draws of the waits, and whether the context ends while waiting.\<close>

record retry_env =
  Draw :: "int \<Rightarrow> int option"
  Cancelled :: bool

partial_function (option) retry_loop ::
  "(nat \<Rightarrow> retry_env) \<Rightarrow> (nat \<Rightarrow> 'a step) \<Rightarrow> nat \<Rightarrow> int64 \<Rightarrow> runner \<Rightarrow> ((runner_error, 'a) result \<times> runner) option" where
  "retry_loop env operation n delay r =
     (case operation n r of (res, r') \<Rightarrow> (case res of
        Inr a \<Rightarrow> Some (Inr a, r')
      | Inl e \<Rightarrow>
          if gives_up e then Some (Inl e, r')
          else if Cancelled (env n) then Some (Inl (RunnerError ''context canceled''), set_error e r')
          else retry_loop env operation (Suc n)
            (min 60000000000 (max 1000000000 (retry_wait (Draw (env n)) e delay))) (set_error e r')))"

definition retrying :: "(nat \<Rightarrow> retry_env) \<Rightarrow> (nat \<Rightarrow> 'a step) \<Rightarrow> runner \<Rightarrow> ((runner_error, 'a) result \<times> runner) option" where
  "retrying env operation = retry_loop env operation 0 1000000000"

section \<open>The handshake\<close>

definition on_pairing :: "(local_state \<Rightarrow> (message, 'a) result \<times> local_state) \<Rightarrow> 'a step" where
  "on_pairing f r = (case f (RunPairing r) of
     (Inl m, v) \<Rightarrow> (Inl (RunnerError m), r\<lparr>RunPairing := v\<rparr>)
   | (Inr a, v) \<Rightarrow> (Inr a, r\<lparr>RunPairing := v\<rparr>))"

definition asked :: "(send_error, 'a) result \<Rightarrow> 'a step" where
  "asked res r = (case res of Inl e \<Rightarrow> (Inl (SendError e), r) | Inr a \<Rightarrow> (Inr a, r))"

text \<open>What the bootstrap meets: the maintenance of the credential where the transport has one, the hub's
  replies attempt by attempt, the random identifiers and the writes of the pairing file.\<close>

record boot_env =
  Maintain :: "(nat \<Rightarrow> (send_error, unit) result) option"
  MaintainRetry :: "nat \<Rightarrow> retry_env"
  PairReply :: "nat \<Rightarrow> (bool \<times> string) reply"
  PairJSON :: "(message, int) result"
  PairRetry :: "nat \<Rightarrow> retry_env"
  BootLink :: link
  BootUUID :: "string option"
  RequestUUID :: "string option"
  PairingLength :: "pairing_state \<Rightarrow> int"
  RegisteredWrites :: failures
  PrepareWrites :: failures
  CompleteWrites :: failures
  ActivateReply :: "session_activation \<Rightarrow> nat \<Rightarrow> session_result reply"
  ActivateJSON :: "session_activation \<Rightarrow> (message, int) result"
  ActivateRetry :: "nat \<Rightarrow> retry_env"

text \<open>Sequencing of steps that may not return.\<close>

definition then_step ::
  "((runner_error, 'a) result \<times> runner) option \<Rightarrow> ('a \<Rightarrow> runner \<Rightarrow> ((runner_error, 'b) result \<times> runner) option) \<Rightarrow>
   ((runner_error, 'b) result \<times> runner) option" where
  "then_step m f = (case m of
     None \<Rightarrow> None
   | Some (Inl e, r) \<Rightarrow> Some (Inl e, r)
   | Some (Inr a, r) \<Rightarrow> f a r)"

definition boot_register :: "boot_env \<Rightarrow> runner \<Rightarrow> ((runner_error, unit) result \<times> runner) option" where
  "boot_register env r =
     (let v = pairing_snapshot (RunPairing r) in
      if Registered v then Some (Inr (), r)
      else then_step (retrying (PairRetry env)
             (\<lambda>n. asked (transport_pair (BootLink env) (PairJSON env) (PHostID v) (PairReply env n))) r)
           (\<lambda>_ r. Some (on_pairing (registered (PairingLength env) (RegisteredWrites env)) r)))"

definition boot_activate :: "boot_env \<Rightarrow> runner \<Rightarrow> ((runner_error, unit) result \<times> runner) option" where
  "boot_activate env r =
     then_step (Some (on_pairing (prepare_activation (PairingLength env) (PrepareWrites env) (RequestUUID env) (RunBoot r)) r))
       (\<lambda>q r. then_step (retrying (ActivateRetry env)
          (\<lambda>n. asked (transport_activate (BootLink env) (ActivateJSON env q) q (ActivateReply env q n))) r)
       (\<lambda>res r. then_step (Some (on_pairing (complete_activation (PairingLength env) (CompleteWrites env) res) r))
       (\<lambda>_ r. Some (Inr (), r\<lparr>RunSession := res,
          RunStatus := (RunStatus r)\<lparr>CsSession := ResSessionGeneration res\<rparr>\<rparr>))))"

definition boot_identity :: "boot_env \<Rightarrow> unit step" where
  "boot_identity env r = (case PendingActivation (pairing_snapshot (RunPairing r)) of
     Some q \<Rightarrow> (Inr (), r\<lparr>RunBoot := ActCollectorBootID q\<rparr>)
   | None \<Rightarrow> (case BootUUID env of
       None \<Rightarrow> (Inl (RunnerError ''read random''), r)
     | Some u \<Rightarrow> (Inr (), r\<lparr>RunBoot := u\<rparr>)))"

definition boot_maintain :: "boot_env \<Rightarrow> runner \<Rightarrow> ((runner_error, unit) result \<times> runner) option" where
  "boot_maintain env r = (case Maintain env of
     None \<Rightarrow> Some (Inr (), r)
   | Some f \<Rightarrow> retrying (MaintainRetry env) (\<lambda>n. asked (f n)) r)"

definition bootstrap :: "boot_env \<Rightarrow> runner \<Rightarrow> ((runner_error, unit) result \<times> runner) option" where
  "bootstrap env r =
     then_step (boot_maintain env r) (\<lambda>_ r.
     then_step (boot_register env r) (\<lambda>_ r.
     then_step (Some (boot_identity env r)) (\<lambda>_ r. boot_activate env r)))"

section \<open>The end of a cycle\<close>

text \<open>The frames of a cycle are stored, then the status and the two lanes go out; an error ends the
  cycle. \<open>earlier\<close> is the first error of the collecting half.\<close>

record cycle_env =
  CycleNowMS :: int64
  Appends :: "nat \<Rightarrow> append_env"
  StatusStep :: status_env
  LiveLane :: "nat \<Rightarrow> lane_env"
  ReplayLane :: "nat \<Rightarrow> lane_env"

definition deliver_cycle ::
  "frame_codec \<Rightarrow> cycle_env \<Rightarrow> runner_error option \<Rightarrow> collector_frame list \<Rightarrow> runner \<Rightarrow> runner_error option \<times> runner" where
  "deliver_cycle k env earlier frames r =
     (case append_frames k (Appends env) frames r of
        (Inl e, r) \<Rightarrow> (Some e, r)
      | (Inr _, r) \<Rightarrow> (case send_status (StatusStep env) (CycleNowMS env) r of
          (Some e, r) \<Rightarrow> (Some e, r)
        | (None, r) \<Rightarrow> (case send_pending k (LiveLane env) (ReplayLane env) r of
            (Some e, r) \<Rightarrow> (Some e, r)
          | (None, r) \<Rightarrow> (earlier, r\<lparr>RunStatus := (RunStatus r)\<lparr>CsLastCycle := Some (CycleNowMS env)\<rparr>\<rparr>))))"

end
