(* ===== verification/HubSocket.thy ===== *)
theory HubSocket
  imports HubIngest Pairing Targets Transport
begin

text \<open>
  The hub's end of the owner socket, \<open>internal/lifecycle/collector_socket.go\<close>: what each POST route
  checks before the store is asked, the rate limits, and the status every error is answered with. A
  response is an HTTP status with its Retry-After header, or the answer's JSON. The recovery replay
  route and the two GET routes are not part of it.
\<close>

section \<open>Errors\<close>

datatype admission_error = StoreError hub_error | DecoderBusy | BadBody message

fun conflict_error :: "hub_error \<Rightarrow> bool" where
  "conflict_error ErrGenerationConflict = True"
| "conflict_error ErrAdmissionFenced = True"
| "conflict_error ErrRecoveryConflict = True"
| "conflict_error _ = False"

fun busy_error :: "hub_error \<Rightarrow> bool" where
  "busy_error ErrWriterBackpressure = True"
| "busy_error ErrCapacityMeasurementUnavailable = True"
| "busy_error ErrBulkIngestPaused = True"
| "busy_error ErrRecoveryCapacityBusy = True"
| "busy_error _ = False"

text \<open>Status and Retry-After.\<close>

definition local_admission_error :: "admission_error \<Rightarrow> int \<times> string" where
  "local_admission_error e =
     (case e of
        DecoderBusy \<Rightarrow> (503, ''1'')
      | BadBody m \<Rightarrow> (422, '''')
      | StoreError x \<Rightarrow>
          if x = ErrStatusObservationExpired then (410, '''')
          else if busy_error x then (503, ''1'')
          else if conflict_error x then (409, '''')
          else if x = ErrOwnershipMismatch then (403, '''')
          else (422, ''''))"

section \<open>Rate limits\<close>

record limiter =
  LimUpdated :: instant
  LimTotal :: rat
  LimReplay :: rat
  LimControl :: "instant option"

definition new_limiter :: "instant \<Rightarrow> limiter" where
  "new_limiter now = \<lparr>LimUpdated = now, LimTotal = 262144, LimReplay = 131072, LimControl = None\<rparr>"

definition limiter_refill :: "instant \<Rightarrow> limiter \<Rightarrow> limiter" where
  "limiter_refill now b =
     (let s = go_seconds (sub_instant now (LimUpdated b)) in
      b\<lparr>LimUpdated := now, LimTotal := min 262144 (round53 (LimTotal b + round53 (s * 262144))),
        LimReplay := min 262144 (round53 (LimReplay b + round53 (s * 131072)))\<rparr>)"

definition limiter_take :: "instant \<Rightarrow> int64 \<Rightarrow> bool \<Rightarrow> limiter \<Rightarrow> bool \<times> limiter" where
  "limiter_take now n control b =
     (let b = limiter_refill now b in
      if control then
        (if n > 4096 \<or> ptr_and (LimControl b) (\<lambda>t. sub_instant now t < 5000000000) then (False, b)
         else (True, b\<lparr>LimControl := Some now\<rparr>))
      else if of_int n > LimTotal b then (False, b)
      else (True, b\<lparr>LimTotal := round53 (LimTotal b - of_int n)\<rparr>))"

definition limiter_take_replay :: "instant \<Rightarrow> int64 \<Rightarrow> limiter \<Rightarrow> bool \<times> limiter" where
  "limiter_take_replay now n b =
     (let b = limiter_refill now b in
      if of_int n > LimReplay b then (False, b) else (True, b\<lparr>LimReplay := round53 (LimReplay b - of_int n)\<rparr>))"

section \<open>Routes\<close>

text \<open>A request by its path, with the decoded body; the pair body is the host and the installation.\<close>

datatype collector_call =
    LocalPair "(admission_error, string \<times> string) result"
  | Activate "(admission_error, session_activation) result"
  | Inventory "(admission_error, collector_inventory) result"
  | Batch "(admission_error, collector_batch) result"
  | Status "(admission_error, source_status) result"
  | UnknownRoute

datatype collector_answer =
    PairAnswer string | SessionAnswer session_result | InventoryAnswer inventory_result
  | BatchAnswer batch_ack | StatusAnswer status_ack

datatype response = HttpError int string | HttpOK collector_answer

text \<open>What a request meets: the peer check, the one-slot gate, the deployment row, the two private files
  of the collector, the headers, the clock, the write transaction, and the hub's codecs and
  identifiers.\<close>

record socket_env =
  OwnerVerified :: bool
  GateFree :: bool
  DeploymentRead :: "(string \<times> string) option"
  PairingFile :: "pairing_state private_file"
  TargetsFile :: "target_state private_file"
  Encoding :: string
  ContentLength :: int64
  Clock :: instant
  StoreEnv :: hub_env
  AuditUUID :: "string option"
  CollectorVersion :: string
  FrameCodec :: frame_codec
  StatusCodec :: status_codec
  CursorLength :: cursor_length
  ConfigHashOf :: "string \<Rightarrow> string option \<Rightarrow> string"

record hub_socket =
  Db :: store_db
  Limiter :: limiter

definition matches_identity :: "pairing_state \<Rightarrow> string \<Rightarrow> string \<Rightarrow> string \<Rightarrow> bool" where
  "matches_identity v dep host generation \<longleftrightarrow>
     dep = PDeploymentID v \<and> host = PHostID v \<and> generation = PGeneration v"

definition configured_target :: "target_state \<Rightarrow> inventory_target \<Rightarrow> bool" where
  "configured_target ts p \<longleftrightarrow> list_ex (\<lambda>t. \<not> Retired t \<and> TTargetID t = ITargetID p
     \<and> TSelectorSHA256 t = LocalSelectorSHA256 p) (TsTargets ts)"

definition configured_source :: "pairing_state \<Rightarrow> target_state \<Rightarrow> inventory_source \<Rightarrow> bool" where
  "configured_source v ts p \<longleftrightarrow>
     (InvKind p = ''host'' \<and> InvSourceID p = HostSourceID v \<and> InvTargetID p = None \<and> InvActive p)
     \<or> list_ex (\<lambda>t. TSourceID t = InvSourceID p \<and> InvKind p = ''runtime'' \<and> InvTargetID p = Some (TTargetID t)
          \<and> InvActive p = (\<not> Retired t)) (TsTargets ts)"

definition local_inventory_matches :: "collector_inventory \<Rightarrow> pairing_state \<Rightarrow> target_state \<Rightarrow> bool" where
  "local_inventory_matches i v ts \<longleftrightarrow>
     list_all (configured_target ts) (collector_inventory.Targets i) \<and> list_all (configured_source v ts) (Sources i)"

text \<open>A store call that works on the hub's own tables.\<close>

definition on_core :: "('a outcome \<times> hub) \<Rightarrow> store_db \<Rightarrow> (hub_error, 'a) result \<times> store_db" where
  "on_core r db = (fst r, db\<lparr>Core := snd r\<rparr>)"

definition respond :: "('a \<Rightarrow> collector_answer) \<Rightarrow> 'a outcome \<times> store_db \<Rightarrow> hub_socket \<Rightarrow> response \<times> hub_socket" where
  "respond answer r s =
     (case fst r of
        Err e \<Rightarrow> (case local_admission_error (StoreError e) of (status, retry) \<Rightarrow> HttpError status retry)
      | Ok a \<Rightarrow> HttpOK (answer a), s\<lparr>Db := snd r\<rparr>)"

definition refuse :: "admission_error \<Rightarrow> hub_socket \<Rightarrow> response \<times> hub_socket" where
  "refuse e s = (case local_admission_error e of (status, retry) \<Rightarrow> (HttpError status retry, s))"

definition pair_route :: "socket_env \<Rightarrow> pairing_state \<Rightarrow> (admission_error, string \<times> string) result \<Rightarrow> hub_socket \<Rightarrow>
   response \<times> hub_socket" where
  "pair_route env v body s =
     (if body \<noteq> Ok (PHostID v, InstallationID v) then (HttpError 403 '''', s)
      else respond (\<lambda>_. PairAnswer (PHostID v))
        (on_core (register_local_host (StoreEnv env) (AuditUUID env)
           \<lparr>OwnerDeployment = PDeploymentID v, OwnerGeneration = PGeneration v, VerifiedOSOwner = True\<rparr>
           \<lparr>RegHost = PHostID v, RegInstallation = InstallationID v, RegName = ''This Mac'',
            RegVersion = CollectorVersion env, RegCapabilities = Some ''{\"darwin\":true,\"ollama_read_only\":true}''\<rparr>
           (Core (Db s))) (Db s)) s)"

definition session_route :: "socket_env \<Rightarrow> pairing_state \<Rightarrow> (admission_error, session_activation) result \<Rightarrow>
   hub_socket \<Rightarrow> response \<times> hub_socket" where
  "session_route env v body s =
     (case body of
        Err e \<Rightarrow> refuse e s
      | Ok q \<Rightarrow>
          if \<not> matches_identity v (ActDeploymentID q) (ActHostID q) (ActSecurityGeneration q) then (HttpError 403 '''', s)
          else respond SessionAnswer (on_core (activate_session (StoreEnv env) q (Core (Db s))) (Db s)) s)"

definition inventory_route :: "socket_env \<Rightarrow> pairing_state \<Rightarrow> (admission_error, collector_inventory) result \<Rightarrow>
   hub_socket \<Rightarrow> response \<times> hub_socket" where
  "inventory_route env v body s =
     (case body of
        Err e \<Rightarrow> refuse e s
      | Ok q \<Rightarrow>
          if \<not> matches_identity v (InvDeploymentID q) (InvHostID q) (InvSecurityGeneration q) then (HttpError 403 '''', s)
          else (case read_targets (TargetsFile env) (PGeneration v) of
            Err m \<Rightarrow> (HttpError 403 '''', s)
          | Ok ts \<Rightarrow>
              if \<not> local_inventory_matches q v ts then (HttpError 403 '''', s)
              else respond InventoryAnswer
                (on_core (register_inventory (ConfigHashOf env) (StoreEnv env) q (Core (Db s))) (Db s)) s))"

definition batch_route :: "socket_env \<Rightarrow> pairing_state \<Rightarrow> (admission_error, collector_batch) result \<Rightarrow> hub_socket \<Rightarrow>
   response \<times> hub_socket" where
  "batch_route env v body s =
     (case body of
        Err e \<Rightarrow> refuse e s
      | Ok q \<Rightarrow>
          if \<not> matches_identity v (BDeploymentID q) (BHostID q) (BSecurityGeneration q) then (HttpError 403 '''', s)
          else (case (if DeliveryMode q = ''replay'' then limiter_take_replay (Clock env) (ContentLength env) (Limiter s)
                      else (True, Limiter s)) of (allowed, lm) \<Rightarrow>
            if \<not> allowed then (HttpError 429 ''1'', s\<lparr>Limiter := lm\<rparr>)
            else respond BatchAnswer
              (ingest_batch (FrameCodec env) (CursorLength env) (StoreEnv env) q (Db s)) (s\<lparr>Limiter := lm\<rparr>)))"

definition status_route :: "socket_env \<Rightarrow> pairing_state \<Rightarrow> (admission_error, source_status) result \<Rightarrow> hub_socket \<Rightarrow>
   response \<times> hub_socket" where
  "status_route env v body s =
     (case body of
        Err e \<Rightarrow> refuse e s
      | Ok q \<Rightarrow>
          if \<not> matches_identity v (StDeploymentID q) (StHostID q) (StSecurityGeneration q) then (HttpError 403 '''', s)
          else respond StatusAnswer (ingest_status (StatusCodec env) (StoreEnv env) q (Db s)) s)"

definition route :: "socket_env \<Rightarrow> pairing_state \<Rightarrow> collector_call \<Rightarrow> hub_socket \<Rightarrow> response \<times> hub_socket" where
  "route env v call s =
     (case call of
        LocalPair body \<Rightarrow> pair_route env v body s
      | Activate body \<Rightarrow> session_route env v body s
      | Inventory body \<Rightarrow> inventory_route env v body s
      | Batch body \<Rightarrow> batch_route env v body s
      | Status body \<Rightarrow> status_route env v body s
      | UnknownRoute \<Rightarrow> (HttpError 404 '''', s))"

definition status_lane :: "collector_call \<Rightarrow> bool" where
  "status_lane call = (case call of Status body \<Rightarrow> True | _ \<Rightarrow> False)"

definition collector_post :: "socket_env \<Rightarrow> collector_call \<Rightarrow> hub_socket \<Rightarrow> response \<times> hub_socket" where
  "collector_post env call s =
     (if \<not> OwnerVerified env then (HttpError 403 '''', s)
      else if \<not> GateFree env then (HttpError 503 ''1'', s)
      else case DeploymentRead env of
        None \<Rightarrow> (HttpError 503 '''', s)
      | Some (dep, generation) \<Rightarrow>
          (case open_pairing (PairingFile env) dep generation of
            Err m \<Rightarrow> (HttpError 409 '''', s)
          | Ok local \<Rightarrow>
              if Encoding env \<noteq> '''' \<and> Encoding env \<noteq> ''identity'' then (HttpError 415 '''', s)
              else if ContentLength env < 0 \<or> ContentLength env > MaxBatchBytes then (HttpError 413 '''', s)
              else (case limiter_take (Clock env) (ContentLength env) (status_lane call) (Limiter s) of (allowed, lm) \<Rightarrow>
                if \<not> allowed then (HttpError 429 ''1'', s\<lparr>Limiter := lm\<rparr>)
                else route env (pairing_snapshot local) call (s\<lparr>Limiter := lm\<rparr>))))"

end
