(* ===== verification/HubLink.thy ===== *)
theory HubLink
  imports Runner HubSocket SpoolAccount IngestProperties
begin

text \<open>
  The two ends of a delivery together: the collector's lane and the hub's batch route, with requests and
  answers that may get lost. What the lane needs of the hub is a locale; the hub's handler provides it.
\<close>

section \<open>The lane on a link\<close>

text \<open>One attempt against a hub in a state \<open>h\<close>: \<open>deliver\<close> is what happens to a batch on the wire.\<close>

type_synonym ('e, 'h) delivery = "'e \<Rightarrow> collector_batch \<Rightarrow> 'h \<Rightarrow> batch_ack reply \<times> 'h"

definition reaches_wire :: "lane_env \<Rightarrow> collector_batch \<Rightarrow> bool" where
  "reaches_wire env b \<longleftrightarrow> Opened (LaneLink env) \<and> SocketCheck (LaneLink env) = None \<and>
     (case BatchJSON env b of Err m \<Rightarrow> False | Ok n \<Rightarrow> n \<le> MaxBatchBytes)"

definition offered_batch :: "frame_codec \<Rightarrow> lane_env \<Rightarrow> bool \<Rightarrow> int \<Rightarrow> runner \<Rightarrow> collector_batch option" where
  "offered_batch k env current maxFrames r =
     (case on_spool (read_pending (ReadNow env) (RunBoot r) (PGeneration (pairing_snapshot (RunPairing r))) current
             262144 maxFrames) r of
        (Inl e, r') \<Rightarrow> None
      | (Inr p, r') \<Rightarrow> (case Records p of
          [] \<Rightarrow> None
        | first # rest \<Rightarrow> (case (decode_records k first (first # rest), BatchUUID env) of
            (Inr frames, Some u) \<Rightarrow> (let b = batch_of current u first frames in
              if fst (lane_budget env current b r') \<and> reaches_wire env b then Some b else None)
          | _ \<Rightarrow> None)))"

definition linked_attempt ::
  "('e, 'h) delivery \<Rightarrow> frame_codec \<Rightarrow> 'e \<Rightarrow> lane_env \<Rightarrow> bool \<Rightarrow> int \<Rightarrow> runner \<Rightarrow> 'h \<Rightarrow> (lane_result \<times> runner) \<times> 'h" where
  "linked_attempt deliver k e env current maxFrames r h =
     (lane_attempt k (env\<lparr>BatchReply := (\<lambda>b. fst (deliver e b h))\<rparr>) current maxFrames r,
      case offered_batch k env current maxFrames r of None \<Rightarrow> h | Some b \<Rightarrow> snd (deliver e b h))"

function linked_lane ::
  "('e, 'h) delivery \<Rightarrow> frame_codec \<Rightarrow> (nat \<Rightarrow> 'e) \<Rightarrow> (nat \<Rightarrow> lane_env) \<Rightarrow> bool \<Rightarrow> int \<Rightarrow> runner \<Rightarrow> 'h \<Rightarrow>
   ((bool \<times> runner_error option) \<times> runner) \<times> 'h" where
  "linked_lane deliver k e env current maxFrames r h =
     (case linked_attempt deliver k (e 0) (env 0) current maxFrames r h of
        ((Returns b x, r'), h') \<Rightarrow> (((b, x), r'), h')
      | ((Halve, r'), h') \<Rightarrow>
          linked_lane deliver k (\<lambda>n. e (Suc n)) (\<lambda>n. env (Suc n)) current (max 1 (maxFrames div 2)) r' h')"
  by auto

termination
  by (relation "measure (\<lambda>(deliver, k, e, env, current, maxFrames, r, h). nat maxFrames)")
    (auto simp: linked_attempt_def dest!: lane_attempt_halves[OF sym])

declare linked_lane.simps [simp del]

text \<open>The lane on a link is the lane, with the replies the link gave.\<close>

lemma linked_lane_is_lane:
  "\<exists>replies. fst (linked_lane deliver k e env current mf r h) =
     send_lane k (\<lambda>i. (env i)\<lparr>BatchReply := replies i\<rparr>) current mf r"
proof (induction deliver k e env current mf r h rule: linked_lane.induct)
  case (1 deliver k e env current mf r h)
  let ?reply = "\<lambda>b. fst (deliver (e 0) b h)"
  obtain res r' where a: "lane_attempt k ((env 0)\<lparr>BatchReply := ?reply\<rparr>) current mf r = (res, r')"
    by (cases "lane_attempt k ((env 0)\<lparr>BatchReply := ?reply\<rparr>) current mf r") auto
  define h' where "h' = (case offered_batch k (env 0) current mf r of None \<Rightarrow> h | Some b \<Rightarrow> snd (deliver (e 0) b h))"
  have l: "linked_attempt deliver k (e 0) (env 0) current mf r h = ((res, r'), h')"
    by (simp add: linked_attempt_def a h'_def)
  show ?case
  proof (cases res)
    case (Returns b x)
    show ?thesis
      by (rule exI[of _ "\<lambda>_. ?reply"], subst linked_lane.simps, subst send_lane.simps) (simp add: l a Returns)
  next
    case Halve
    from "1.IH"[OF l[symmetric] refl Halve] obtain replies where
      ih: "fst (linked_lane deliver k (\<lambda>n. e (Suc n)) (\<lambda>n. env (Suc n)) current (max 1 (mf div 2)) r' h') =
        send_lane k (\<lambda>i. (env (Suc i))\<lparr>BatchReply := replies i\<rparr>) current (max 1 (mf div 2)) r'" by blast
    show ?thesis
      by (rule exI[of _ "\<lambda>i. case i of 0 \<Rightarrow> ?reply | Suc n \<Rightarrow> replies n"], subst linked_lane.simps, subst send_lane.simps)
        (simp add: l a Halve ih)
  qed
qed

section \<open>What the lane needs\<close>

lemma decode_record_Ok:
  "decode_record k first rec = Ok f \<Longrightarrow> same_owner first rec \<and> codec_decode k (Payload rec) = Ok f \<and>
     FSourceID f = SourceID rec \<and> FSequence f = wrap64 (int (Sequence rec))"
  by (auto simp: decode_record_def split: if_split_asm sum.splits)

lemma decode_records_member:
  "decode_records k first rs = Ok fs \<Longrightarrow> rec \<in> set rs \<Longrightarrow> \<exists>f\<in>set fs. decode_record k first rec = Ok f"
  by (induction rs arbitrary: fs) (auto elim!: result_bind_OkE)

lemma transport_batch_Ok:
  assumes "transport_batch (LaneLink env) (BatchJSON env b) b r = Ok a"
  shows "reaches_wire env b" "AckDurable a" "\<exists>x. r = Reply 200 x (Some a)"
  using assms by (auto simp: transport_batch_def checked_reply_def transport_post_def transport_do_def batch_ack_ok_def
      reaches_wire_def elim!: result_bind_OkE split: sum.splits if_split_asm option.splits reply.splits)

text \<open>Setting a segment aside changes nothing in the account.\<close>

lemma accounted_same_offsets:
  "Offsets j = Offsets (stored_offsets d) \<Longrightarrow> accounted (d\<lparr>OffsetsFile := Sealed j\<rparr>) src = accounted d src"
proof -
  assume "Offsets j = Offsets (stored_offsets d)"
  then have "file_share j l src = file_share (stored_offsets d) l src" for l by (simp add: file_share_def fun_eq_iff)
  then show ?thesis by (simp add: accounted_def stored_of_file(1)[where j = j])
qed

lemma quarantine_account:
  assumes "steady s" "quarantine c code s = (res, s')"
  shows "accounted (Disk s') src = accounted (Disk s) src" "keeps (Disk s) (Disk s')"
proof -
  have "accounted (Disk s') src = accounted (Disk s) src \<and> keeps (Disk s) (Disk s')"
  proof -
  have o: "Offsets (stored_offsets (Disk s)) = Offsets (Journal s)" using assms(1) by (simp add: steady_def stored_offsets_def)
  have w: "accounted (Disk t') src = accounted (Disk s) src \<and> keeps (Disk s) (Disk t')"
    if "faulting (write_offsets j) t = (x, t')" "Offsets j = Offsets (Journal s)" "Disk t = Disk s" for j t t' x
    using that o by (auto simp: faulting_def write_offsets_def fail_with_def os_call_def next_outcome_def
        accounted_same_offsets stored_offsets_def intro!: keeps_same
        split: if_split_asm prod.splits sum.splits list.splits outcome.splits)
  from assms(2) show ?thesis
    by (auto simp: quarantine_def op_bind_def Let_def split: if_split_asm prod.splits sum.splits option.splits
        dest!: writable_spec w)
  qed
  then show "accounted (Disk s') src = accounted (Disk s) src" "keeps (Disk s) (Disk s')" by simp_all
qed

text \<open>
  The records \<open>sent\<close> are what leaves the spool: every file that is still there is as it was, the
  acknowledged offset of one segment has moved over exactly these records, which were the next ones
  waiting in it, and no other offset has changed; of every source the account is smaller by them.
\<close>

definition leaves :: "disk \<Rightarrow> spool_record list \<Rightarrow> disk \<Rightarrow> bool" where
  "leaves d sent d' \<longleftrightarrow> (sent = [] \<and> keeps d d' \<or> moves d sent d') \<and>
     (\<forall>src. accounted d' src + count_source src sent = accounted d src)"

lemma leaves_nothing: "keeps d d' \<Longrightarrow> \<forall>src. accounted d' src = accounted d src \<Longrightarrow> leaves d [] d'"
  by (simp add: leaves_def count_source_def)

lemma leaves_same [simp]: "leaves d [] d"
  by (simp add: leaves_nothing)

lemma leaves_after:
  "keeps d d1 \<Longrightarrow> \<forall>src. accounted d1 src = accounted d src \<Longrightarrow> leaves d1 sent d' \<Longrightarrow> leaves d sent d'"
  by (auto simp: leaves_def intro: keeps_trans keeps_moves)

lemma lane_reply_account:
  assumes "steady (RunSpool r)" "seg \<in> set (Segments (RunSpool r))" "reads_prefix mb mf (RunSpool r) seg p"
    and "lane_reply env p b answer r = (res, r')"
  shows "case res of
      Halve \<Rightarrow> RunSpool r' = RunSpool r
    | Returns x y \<Rightarrow> leaves (Disk (RunSpool r)) [] (Disk (RunSpool r')) \<or>
        (\<exists>a. answer = Ok a) \<and> leaves (Disk (RunSpool r)) (Records p) (Disk (RunSpool r'))"
proof -
  have q: "leaves (Disk (RunSpool r)) [] (Disk (RunSpool r1))"
    if "quarantined (PendingCursor p) code r = (x, r1)" for code x r1 using that by (cases "quarantine (PendingCursor p) code (RunSpool r)")
      (auto simp: quarantined_def on_spool_def quarantine_account[OF assms(1)] intro!: leaves_nothing split: sum.splits)
  show ?thesis
  proof (cases answer)
    case (Inl e)
    with assms(4) q show ?thesis
      by (cases e) (auto simp: lane_reply_def split: if_split_asm prod.splits dest: q)
  next
    case (Inr a)
    obtain y t where ack: "ack (AckNow env) (PendingCursor p) (RunSpool r) = (y, t)" by fastforce
    with Inr assms(4) have "(RunSpool r' = RunSpool r \<or> RunSpool r' = t) \<and> (\<exists>x y. res = Returns x y)"
      by (auto simp: lane_reply_def on_spool_def split: if_split_asm sum.splits)
    then show ?thesis
    proof (elim conjE exE disjE)
      fix x z assume "RunSpool r' = RunSpool r" "res = Returns x z"
      then show ?thesis by (simp add: leaves_nothing)
    next
      fix x z assume "RunSpool r' = t" "res = Returns x z"
      with ack_moves[OF assms(1-3) ack] Inr show ?thesis by (auto simp: leaves_def count_source_def)
    qed
  qed
qed

text \<open>A record is at the hub if the frame it holds is stored in a batch of the same owner and boot.\<close>

definition record_stored ::
  "frame_codec \<Rightarrow> (collector_batch \<Rightarrow> collector_frame \<Rightarrow> 'h \<Rightarrow> bool) \<Rightarrow> 'h \<Rightarrow> spool_record \<Rightarrow> bool" where
  "record_stored k stored h rec \<longleftrightarrow> (\<exists>b f. stored b f h \<and> codec_decode k (Payload rec) = Ok f
     \<and> BDeploymentID b = DeploymentID rec \<and> BHostID b = HostID rec \<and> BCollectorBootID b = BootID rec
     \<and> FSourceID f = SourceID rec \<and> FSequence f = wrap64 (int (Sequence rec)))"

locale hub_link =
  fixes deliver :: "('e, 'h) delivery"
    and stored :: "collector_batch \<Rightarrow> collector_frame \<Rightarrow> 'h \<Rightarrow> bool"
    and sound :: "'h \<Rightarrow> bool"
  assumes deliver_sound: "sound h \<Longrightarrow> sound (snd (deliver e b h))"
    and deliver_keeps: "sound h \<Longrightarrow> stored b f h \<Longrightarrow> stored b f (snd (deliver e b' h))"
    and answer_stored: "sound h \<Longrightarrow> fst (deliver e b h) = Reply 200 x (Some a) \<Longrightarrow> f \<in> set (Frames b) \<Longrightarrow>
      stored b f (snd (deliver e b h))"

context hub_link
begin

lemma attempt_keeps:
  assumes "sound h" "linked_attempt deliver k e env current mf r h = (y, h')"
  shows "sound h'" "stored b f h \<Longrightarrow> stored b f h'"
  using assms deliver_sound deliver_keeps by (auto simp: linked_attempt_def split: option.splits)

lemma attempt_accounts:
  assumes st: "steady (RunSpool r)" and so: "sound h"
    and run: "linked_attempt deliver k e env current mf r h = ((res, r'), h')"
  shows "case res of
      Halve \<Rightarrow> steady (RunSpool r') \<and> keeps (Disk (RunSpool r)) (Disk (RunSpool r')) \<and>
        (\<forall>src. accounted (Disk (RunSpool r')) src = accounted (Disk (RunSpool r)) src)
    | Returns b x \<Rightarrow> \<exists>sent. leaves (Disk (RunSpool r)) sent (Disk (RunSpool r')) \<and> list_all (record_stored k stored h') sent"
proof -
  let ?env = "env\<lparr>BatchReply := (\<lambda>b. fst (deliver e b h))\<rparr>"
  from run have a: "lane_attempt k ?env current mf r = (res, r')"
    and h': "h' = (case offered_batch k env current mf r of None \<Rightarrow> h | Some b \<Rightarrow> snd (deliver e b h))"
    by (auto simp: linked_attempt_def)
  have none: "\<exists>sent. leaves (Disk (RunSpool r)) sent d \<and> list_all (record_stored k stored h') sent"
    if "leaves (Disk (RunSpool r)) [] d" for d
    using that by (intro exI[of _ "[]"]) simp
  obtain y s where read: "read_pending (ReadNow env) (RunBoot r) (PGeneration (pairing_snapshot (RunPairing r))) current
      262144 mf (RunSpool r) = (y, s)" by fastforce
  have same: "\<forall>src. accounted (Disk s) src = accounted (Disk (RunSpool r)) src"
    using read_pending_steady(1)[OF st read] by simp
  have kept: "keeps (Disk (RunSpool r)) (Disk s)" using read_pending_keeps[OF st read] .
  note read_only = leaves_nothing[OF kept same]
  show ?thesis
  proof (cases y)
    case (Inl x)
    with a read have "res = Returns False (Some (SpoolError x))" "RunSpool r' = s" by (auto simp: lane_attempt_def on_spool_def)
    then show ?thesis using none[OF read_only] by simp
  next
    case (Inr p)
    note s = read_pending_steady(2)[OF st read Inr]
    show ?thesis
    proof (cases "Records p")
      case Nil
      with a read Inr have "res = Returns False None" "RunSpool r' = s" by (auto simp: lane_attempt_def on_spool_def)
      then show ?thesis using none[OF read_only] by simp
    next
      case rs: (Cons first rest)
      then obtain seg where seg: "seg \<in> set (Segments s)" "reads_prefix 262144 mf s seg p"
        using s by (auto simp: no_pending_def split: option.splits dest!: find_some)
      show ?thesis
      proof (cases "decode_records k first (first # rest)")
        case (Inl m)
        with a read \<open>y = Inr p\<close> rs have res: "res = Returns True (Some (RunnerError m))"
          and "r' = snd (quarantined (PendingCursor p) ''invalid_frame'' (r\<lparr>RunSpool := s\<rparr>))"
          by (auto simp: lane_attempt_def on_spool_def)
        with quarantine_account[of s] s
        have "leaves (Disk s) [] (Disk (RunSpool r'))"
          by (cases "quarantine (PendingCursor p) ''invalid_frame'' s") (auto simp: quarantined_def on_spool_def
              intro!: leaves_nothing split: sum.splits)
        from none[OF leaves_after[OF kept same this]] show ?thesis by (simp add: res)
      next
        case frames: (Inr frames)
        show ?thesis
        proof (cases "BatchUUID env")
          case None
          with a read \<open>y = Inr p\<close> rs frames have "RunSpool r' = s" "\<exists>x y. res = Returns x y"
            by (auto simp: lane_attempt_def on_spool_def)
          then show ?thesis using none[OF read_only] by auto
        next
          case (Some u)
          define b where "b = batch_of current u first frames"
          obtain al r2 where bud: "lane_budget env current b (r\<lparr>RunSpool := s\<rparr>) = (al, r2)" "RunSpool r2 = s"
            by (cases "lane_budget env current b (r\<lparr>RunSpool := s\<rparr>)") (auto simp: lane_budget_def split: prod.splits)
          have env: "lane_budget ?env current b = lane_budget env current b" by (simp add: lane_budget_def fun_eq_iff)
          have off: "offered_batch k env current mf r = (if al \<and> reaches_wire env b then Some b else None)"
            using read \<open>y = Inr p\<close> rs frames Some bud by (simp add: offered_batch_def on_spool_def b_def Let_def del: decode_records.simps)
          let ?answer = "transport_batch (LaneLink env) (BatchJSON env b) b (fst (deliver e b h))"
          have send: "(res, r') = (if al then lane_reply ?env p b ?answer r2 else (Returns True None, r2))"
            using a read \<open>y = Inr p\<close> rs frames Some bud env
            by (cases al) (simp_all add: lane_attempt_def on_spool_def lane_send_def b_def del: decode_records.simps)
          show ?thesis
          proof (cases al)
            case False
            with send bud none[OF read_only] show ?thesis by simp
          next
            case True
            with send have "lane_reply ?env p b ?answer r2 = (res, r')" by simp
            from lane_reply_account[OF _ _ _ this, of seg 262144 mf] bud s seg same
            have acc: "case res of Halve \<Rightarrow> RunSpool r' = s
              | Returns x y \<Rightarrow> leaves (Disk s) [] (Disk (RunSpool r')) \<or>
                  (\<exists>a. ?answer = Ok a) \<and> leaves (Disk s) (Records p) (Disk (RunSpool r'))"
              by (cases res) simp_all
            have sent: "list_all (record_stored k stored h') (Records p)" if ok: "?answer = Ok a" for a
            proof -
              note wire = transport_batch_Ok[OF ok]
              from wire(3) obtain x where x: "fst (deliver e b h) = Reply 200 x (Some a)" by blast
              have h'': "h' = snd (deliver e b h)" using h' off True wire(1) by simp
              show ?thesis unfolding list_all_iff
              proof
                fix rec assume "rec \<in> set (Records p)"
                with decode_records_member[OF frames, of rec] rs obtain f where f: "f \<in> set frames"
                  "decode_record k first rec = Ok f" by auto
                have "stored b f h'" unfolding h'' by (rule answer_stored[OF so x]) (use f in \<open>simp add: b_def batch_of_def\<close>)
                with decode_record_Ok[OF f(2)] show "record_stored k stored h' rec"
                  unfolding record_stored_def by (intro exI[of _ b] exI[of _ f]) (auto simp: b_def batch_of_def same_owner_def)
              qed
            qed
            show ?thesis
            proof (cases res)
              case Halve
              with acc s same kept show ?thesis by simp
            next
              case (Returns x y)
              with acc consider "leaves (Disk s) [] (Disk (RunSpool r'))"
                | a where "?answer = Ok a" "leaves (Disk s) (Records p) (Disk (RunSpool r'))" by auto
              then show ?thesis
              proof cases
                case 1
                from none[OF leaves_after[OF kept same this]] show ?thesis by (simp add: Returns)
              next
                case (2 a)
                from leaves_after[OF kept same 2(2)] sent[OF 2(1)] show ?thesis by (auto simp: Returns)
              qed
            qed
          qed
        qed
      qed
    qed
  qed
qed

lemma lane_accounts:
  assumes "steady (RunSpool r)" "sound h"
    and "linked_lane deliver k e env current mf r h = ((res, r'), h')"
  shows "\<exists>sent. leaves (Disk (RunSpool r)) sent (Disk (RunSpool r')) \<and> list_all (record_stored k stored h') sent"
  using assms
proof (induction "nat mf" arbitrary: e env mf r h rule: less_induct)
  case less
  obtain res1 r1 h1 where one: "linked_attempt deliver k (e 0) (env 0) current mf r h = ((res1, r1), h1)"
    by (metis surj_pair)
  note acc = attempt_accounts[OF less.prems(1,2) one]
  show ?case
  proof (cases res1)
    case (Returns x y)
    with less.prems(3) one have "r1 = r'" "h1 = h'" by (simp_all add: linked_lane.simps[of deliver k e env current mf r h])
    with acc Returns show ?thesis by simp
  next
    case Halve
    have "1 < mf" using one Halve by (auto simp: linked_attempt_def dest: lane_attempt_halves)
    then have smaller: "nat (max 1 (mf div 2)) < nat mf" by auto
    from less.prems(3) one Halve have rest: "linked_lane deliver k (\<lambda>n. e (Suc n)) (\<lambda>n. env (Suc n)) current
        (max 1 (mf div 2)) r1 h1 = ((res, r'), h')" by (simp add: linked_lane.simps[of deliver k e env current mf r h])
    from acc Halve have a: "steady (RunSpool r1)" "keeps (Disk (RunSpool r)) (Disk (RunSpool r1))"
      "\<forall>src. accounted (Disk (RunSpool r1)) src = accounted (Disk (RunSpool r)) src"
      by simp_all
    from less.hyps[OF smaller a(1) attempt_keeps(1)[OF less.prems(2) one] rest] leaves_after[OF a(2,3)]
    show ?thesis by blast
  qed
qed

end

section \<open>The hub as the other end\<close>

text \<open>What a batch meets on its way: it may get lost before or after the hub has handled it. The hub decodes
  the JSON of a batch to that batch, or reports an error.\<close>

record wire_env =
  RequestArrives :: bool
  AnswerArrives :: bool
  Hop :: socket_env
  DecodeFails :: "collector_batch \<Rightarrow> admission_error option"

definition to_reply :: "response \<Rightarrow> batch_ack reply" where
  "to_reply resp = (case resp of
     HttpError status retry \<Rightarrow> Reply status retry None
   | HttpOK answer \<Rightarrow> Reply 200 '''' (case answer of BatchAnswer a \<Rightarrow> Some a | _ \<Rightarrow> None))"

definition hub_answer :: "frame_codec \<Rightarrow> (wire_env, hub_socket) delivery" where
  "hub_answer k e b h =
     (if \<not> RequestArrives e then (NoReply ''connection'', h)
      else case collector_post ((Hop e)\<lparr>FrameCodec := k\<rparr>)
             (Batch (case DecodeFails e b of Some x \<Rightarrow> Err x | None \<Rightarrow> Ok b)) h of (resp, h') \<Rightarrow>
        (if AnswerArrives e then to_reply resp else NoReply ''timeout'', h'))"

definition batch_response :: "batch_ack outcome \<Rightarrow> response" where
  "batch_response r = (case r of
     Err e \<Rightarrow> (case local_admission_error (StoreError e) of (status, retry) \<Rightarrow> HttpError status retry)
   | Ok a \<Rightarrow> HttpOK (BatchAnswer a))"

text \<open>A batch is refused before the store, or the store decides.\<close>

lemma local_admission_status: "local_admission_error x = (status, retry) \<Longrightarrow> status \<noteq> 200"
  by (auto simp: local_admission_error_def split: admission_error.splits if_split_asm)

lemma collector_post_batch:
  assumes "collector_post env (Batch body) h = (resp, h')"
  obtains "Db h' = Db h" "\<And>a. resp \<noteq> HttpOK a" "\<And>status retry. resp = HttpError status retry \<Longrightarrow> status \<noteq> 200"
  | b r db where "body = Ok b" "ingest_batch (FrameCodec env) (CursorLength env) (StoreEnv env) b (Db h) = (r, db)"
      "Db h' = db" "resp = batch_response r"
proof -
  let ?refused = "Db h' = Db h \<and> (\<exists>status retry. resp = HttpError status retry \<and> status \<noteq> 200)"
  note outcome = that
  have refused: thesis if ?refused by (rule outcome(1)) (use that in auto)
  consider ?refused | v lm where "batch_route env v body (h\<lparr>Limiter := lm\<rparr>) = (resp, h')"
    using assms by (auto simp: collector_post_def route_def split: if_split_asm option.splits sum.splits prod.splits)
  then show thesis
  proof cases
    case (2 v lm)
    show thesis
    proof (cases body)
      case (Inl e)
      with 2 have ?refused by (auto simp: batch_route_def refuse_def dest: local_admission_status split: prod.splits)
      then show thesis by (rule refused)
    next
      case (Inr b)
      with 2 consider ?refused
        | lm' where "respond BatchAnswer (ingest_batch (FrameCodec env) (CursorLength env) (StoreEnv env) b (Db h))
            (h\<lparr>Limiter := lm'\<rparr>) = (resp, h')"
        by (auto simp: batch_route_def split: if_split_asm prod.splits)
      then show thesis
      proof cases
        case (2 lm')
        then show thesis
          by (intro outcome(2)[OF Inr surjective_pairing]) (auto simp: respond_def batch_response_def)
      qed (rule refused)
    qed
  qed (rule refused)
qed

lemma ingest_batch_error: "ingest_batch k len env b db = (Err e, db') \<Longrightarrow> db' = db"
  by (auto simp: ingest_batch_def transaction_def split: sum.splits option.splits prod.splits)

lemma ingest_batch_keeps:
  assumes "ingest_batch k len env b db = (r, db')" "frames_ok db"
  shows "frames_ok db'" "\<exists>new. FrameRows db' = FrameRows db @ new"
proof -
  have "frames_ok db' \<and> (\<exists>new. FrameRows db' = FrameRows db @ new)"
  proof (cases r)
    case (Inl e)
    with assms ingest_batch_error[of k len env b db e db'] show ?thesis by (auto intro: exI[of _ "[]"])
  next
    case (Inr a)
    with ingest_stores(1,7)[of k len env b db a db'] assms show ?thesis by auto
  qed
  then show "frames_ok db'" "\<exists>new. FrameRows db' = FrameRows db @ new" by blast+
qed

lemma stored_with_append: "FrameRows db' = FrameRows db @ new \<Longrightarrow> stored_with k b db f \<Longrightarrow> stored_with k b db' f"
  by (auto simp: stored_with_def)

text \<open>What a delivery does to the hub's rows.\<close>

lemma hub_answer_effect:
  assumes "hub_answer k e b h = (r, h')" "frames_ok (Db h)"
  shows "frames_ok (Db h')" "stored_with k b' (Db h) f \<Longrightarrow> stored_with k b' (Db h') f"
    and "r = Reply 200 x (Some a) \<Longrightarrow> f \<in> set (Frames b) \<Longrightarrow> stored_with k b (Db h') f"
proof -
  have "frames_ok (Db h') \<and> (\<exists>new. FrameRows (Db h') = FrameRows (Db h) @ new) \<and>
    (r = Reply 200 x (Some a) \<longrightarrow> f \<in> set (Frames b) \<longrightarrow> stored_with k b (Db h') f)"
  proof (cases "RequestArrives e")
    case False
    with assms show ?thesis by (auto simp: hub_answer_def intro: exI[of _ "[]"])
  next
    case True
    let ?body = "case DecodeFails e b of Some x \<Rightarrow> Err x | None \<Rightarrow> Ok b"
    from True assms(1) obtain resp where post: "collector_post ((Hop e)\<lparr>FrameCodec := k\<rparr>) (Batch ?body) h = (resp, h')"
      and r: "r = (if AnswerArrives e then to_reply resp else NoReply ''timeout'')"
      by (auto simp: hub_answer_def split: prod.splits)
    from post show ?thesis
    proof (cases rule: collector_post_batch)
      case 1
      with r assms(2) show ?thesis
        by (auto simp: to_reply_def frames_ok_def intro: exI[of _ "[]"] split: response.splits if_split_asm)
    next
      case (2 b2 res db)
      then have b: "b2 = b" "ingest_batch k (CursorLength (Hop e)) (StoreEnv (Hop e)) b (Db h) = (res, Db h')"
        by (auto split: option.splits)
      note keeps = ingest_batch_keeps[OF b(2) assms(2)]
      have "stored_with k b (Db h') f" if "r = Reply 200 x (Some a)" "f \<in> set (Frames b)"
      proof -
        from that(1) r 2(4) have "\<exists>a. res = Ok a"
          by (auto simp: to_reply_def batch_response_def split: if_split_asm sum.splits prod.splits)
        with b(2) ingest_stores(8)[OF _ assms(2) that(2)] show ?thesis by blast
      qed
      with keeps show ?thesis by blast
    qed
  qed
  then show "frames_ok (Db h')" "stored_with k b' (Db h) f \<Longrightarrow> stored_with k b' (Db h') f"
    "r = Reply 200 x (Some a) \<Longrightarrow> f \<in> set (Frames b) \<Longrightarrow> stored_with k b (Db h') f"
    by (auto intro: stored_with_append)
qed

interpretation hub: hub_link "hub_answer k" "\<lambda>b f h. stored_with k b (Db h) f" "\<lambda>h. frames_ok (Db h)" for k
proof
  fix h :: hub_socket and e b assume h: "frames_ok (Db h)"
  note effect = hub_answer_effect[OF prod.collapse[symmetric] h]
  show "frames_ok (Db (snd (hub_answer k e b h)))" by (rule effect(1))
  fix b' f
  show "stored_with k b' (Db h) f \<Longrightarrow> stored_with k b' (Db (snd (hub_answer k e b h))) f" by (rule effect(2))
  fix x a
  show "fst (hub_answer k e b h) = Reply 200 x (Some a) \<Longrightarrow> f \<in> set (Frames b) \<Longrightarrow>
      stored_with k b (Db (snd (hub_answer k e b h))) f" by (rule effect(3))
qed

end
