(* ===== verification/DeliverySample.thy ===== *)
theory DeliverySample
  imports HubLink
begin

text \<open>
  A paired collector with one frame in its spool, and a hub that knows it: the sample world of the
  delivery properties.
\<close>

section \<open>A collector and a hub\<close>

text \<open>The hub of the ingest sample, and a paired collector with one frame in its spool.\<close>

definition link_frame :: collector_frame where
  "link_frame = (exit_frame 10)\<lparr>FObservedWallMS := 10, OffsetMS := Some 0, FEndpointAssociation := None\<rparr>"

definition link_codec :: frame_codec where
  "link_codec = ingest_codec\<lparr>Unmarshal := (\<lambda>s. Ok link_frame)\<rparr>"

definition link_pairing :: pairing_state where
  "link_pairing = (new_state (sample_id (CHR ''1'')) (sample_id (CHR ''2'')) (sample_id (CHR ''3'')) (sample_id (CHR ''4''))
     (sample_id (CHR ''5'')) True)\<lparr>PreviousSession := 1\<rparr>"

definition link_record :: spool_record where
  "link_record = \<lparr>DeploymentID = sample_id (CHR ''1''), Generation = sample_id (CHR ''2''), SessionGeneration = 1,
     HostID = sample_id (CHR ''4''), BootID = sample_id (CHR ''6''), SourceID = sample_id (CHR ''5''), Sequence = 1,
     ObservedMS = 10, Payload = ''7''\<rparr>"

definition link_spool :: spool where
  "link_spool = snd (Spool.append 10 (Some (sample_id (CHR ''e''))) link_record
     (snd (open_spool 1 10 \<lparr>OptBytes = 0, OptAge = 0\<rparr> False True False
        \<lparr>SegFiles = [], OffsetsFile = Missing, LossesFile = Missing\<rparr> [])))"

definition clock0 :: instant where "clock0 = \<lparr>WallNS = 0, MonoNS = 0\<rparr>"

definition link_runner :: runner where
  "link_runner = \<lparr>RunPairing = \<lparr>Value = link_pairing, Stored = Holds link_pairing\<rparr>, RunSpool = link_spool,
     RunBudget = new_budget clock0, RunBoot = sample_id (CHR ''6''),
     RunSession = \<lparr>ResActivationRequestID = sample_id (CHR ''7''), ResSecurityGeneration = sample_id (CHR ''2''),
       ResSessionGeneration = 1, ResCollectorBootID = sample_id (CHR ''6''), ActivatedMS = 0, ResCurrent = True\<rparr>,
     RunTarget = None, RunSequence = [], StatusSequence = 0, RunHealth = [], PendingStatus = None, PendingLossRev = 0,
     PendingLosses = 0, RunStatus = \<lparr>CsState = ''running'', CsTarget = ''none'', CsStarted = True, CsSession = 1,
       CsLastCycle = None, CsLastSend = None, CsErrorCode = None\<rparr>\<rparr>"

definition link_lane :: "int \<Rightarrow> lane_env" where
  "link_lane n = \<lparr>ReadNow = 10, BatchUUID = Some (sample_id (CHR ''d'')), BatchJSON = (\<lambda>_. Ok n), BudgetNow = clock0,
     LaneLink = \<lparr>Opened = True, SocketCheck = None\<rparr>, BatchReply = (\<lambda>_. NoReply ''''), AckNow = 10, SentNow = 10\<rparr>"

definition link_wire :: "hub_env \<Rightarrow> wire_env" where
  "link_wire env = \<lparr>RequestArrives = True, AnswerArrives = True,
     Hop = \<lparr>OwnerVerified = True, GateFree = True, DeploymentRead = Some (sample_id (CHR ''1''), sample_id (CHR ''2'')),
       PairingFile = Holds link_pairing, TargetsFile = Absent, Encoding = ''identity'', ContentLength = 1000, Clock = clock0,
       StoreEnv = env, AuditUUID = None, CollectorVersion = ''0.1'', FrameCodec = link_codec,
       StatusCodec = \<lparr>StatusLength = (\<lambda>_. 100), StatusDigest = (\<lambda>_. [])\<rparr>, CursorLength = (\<lambda>_. 0),
       ConfigHashOf = (\<lambda>_ _. [])\<rparr>, DecodeFails = (\<lambda>_. None)\<rparr>"

definition link_hub :: hub_socket where
  "link_hub = \<lparr>Db = ingest_db, Limiter = new_limiter clock0\<rparr>"

definition link_run :: "hub_env \<Rightarrow> ((bool \<times> runner_error option) \<times> runner) \<times> hub_socket" where
  "link_run env = linked_lane (hub_answer link_codec) link_codec (\<lambda>_. link_wire env) (\<lambda>_. link_lane 1000) True 64 link_runner link_hub"

lemma link_steady: "steady (RunSpool link_runner)" by code_simp

lemma link_hub_ok: "frames_ok (Db link_hub)"
  by (simp add: link_hub_def ingest_db_ok)

lemma link_account: "accounted (Disk (RunSpool link_runner)) (sample_id (CHR ''5'')) = 1" by code_simp

text \<open>The run, step by step: the batch read, the hub's answer, and the acknowledgement in the spool.\<close>

definition link_batch :: collector_batch where
  "link_batch = batch_of True (sample_id (CHR ''d'')) link_record [link_frame]"

definition link_item :: "collector_frame \<times> string \<times> string" where
  "link_item = (link_frame, ''7'', ''7'')"

definition link_admitted :: store_db where
  "link_admitted = projr (admit_capacity (\<lambda>_. 0) link_batch 80000 [link_item] ingest_db)"

lemma link_parts:
  "validate_batch (ConfigDigest link_codec) link_batch = Ok ()"
  "encode_frames link_codec (Frames link_batch) = Ok [link_item]"
  "validate_batch_session link_batch (Core ingest_db) = Ok ()"
  "sort_out link_batch ingest_db [link_item] = Ok ([link_item], 0)"
  "is_ok (admit_capacity (\<lambda>_. 0) link_batch 80000 [link_item] ingest_db)"
  "is_ok (store_frame link_codec link_batch 80000 link_item link_admitted)"
  by code_simp+

definition link_ack :: batch_ack where
  "link_ack = \<lparr>AckBatchID = BatchID link_batch, AckDurable = True, Accepted = 1, Duplicate = 0\<rparr>"

lemma link_body: "\<exists>db. ingest_body link_codec (\<lambda>_. 0) 80000 link_batch ingest_db = Ok (link_ack, db)"
proof -
  have "admit_capacity (\<lambda>_. 0) link_batch 80000 [link_item] ingest_db = Ok link_admitted"
    using link_parts(5) by (auto simp: link_admitted_def is_ok_iff)
  with link_parts show ?thesis by (auto simp: ingest_body_def link_ack_def is_ok_iff)
qed

lemma link_ingest:
  "Admission env = None \<Longrightarrow> HubNow env = 80000 \<Longrightarrow> fst (ingest_batch link_codec (\<lambda>_. 0) env link_batch ingest_db) =
     (case CommitFails env of None \<Rightarrow> Ok link_ack | Some m \<Rightarrow> Err (ErrDatabase m))"
  using link_body link_parts(1) by (auto simp: ingest_batch_def transaction_def split: option.splits)

lemma link_gate:
  "open_pairing (Holds link_pairing) (sample_id (CHR ''1'')) (sample_id (CHR ''2'')) =
     Ok \<lparr>Value = link_pairing, Stored = Holds link_pairing\<rparr>"
  "matches_identity link_pairing (BDeploymentID link_batch) (BHostID link_batch) (BSecurityGeneration link_batch)"
  "DeliveryMode link_batch = ''current''"
  "fst (limiter_take clock0 1000 False (new_limiter clock0))"
  by code_simp+

text \<open>What the hub says to the batch: a commit that fails is answered with 422.\<close>

lemma link_answer:
  assumes "Admission env = None" "HubNow env = 80000"
  shows "fst (hub_answer link_codec (link_wire env) link_batch link_hub) =
     (case CommitFails env of None \<Rightarrow> Reply 200 [] (Some link_ack) | Some m \<Rightarrow> Reply 422 [] None)"
proof -
  obtain lm where lm: "limiter_take clock0 1000 False (new_limiter clock0) = (True, lm)"
    using link_gate(4) by (cases "limiter_take clock0 1000 False (new_limiter clock0)") auto
  show ?thesis using link_gate(1-3) lm link_ingest[OF assms]
    by (auto simp: hub_answer_def link_wire_def link_hub_def collector_post_def status_lane_def route_def batch_route_def
        respond_def to_reply_def local_admission_error_def pairing_snapshot_def MaxBatchBytes_def split: option.splits)
qed

definition link_read :: "(spool_error, pending) result \<times> spool" where
  "link_read = read_pending 10 (sample_id (CHR ''6'')) (sample_id (CHR ''2'')) True 262144 64 link_spool"

definition link_pending :: pending where "link_pending = projr (fst link_read)"

lemma link_read_parts:
  "is_ok (fst link_read)" "Records link_pending = [link_record]"
  "decode_records link_codec link_record [link_record] = Ok [link_frame]"
  "fst (allow_current clock0 1000 (new_budget clock0))"
  by code_simp+

lemma link_read_pair: "read_pending 10 (sample_id (CHR ''6'')) (sample_id (CHR ''2'')) True 262144 64 link_spool =
    (Ok link_pending, snd link_read)"
  using link_read_parts(1) by (auto simp: link_read_def link_pending_def is_ok_iff prod_eq_iff)

end
