(* ===== verification/BudgetProperties.thy ===== *)
theory BudgetProperties
  imports Transport
begin

text \<open>
  The collector's byte budget: what its levels stay within, what a replay leaves for live frames, and
  which sizes it can never allow.
\<close>

definition budget_ok :: "byte_budget \<Rightarrow> bool" where
  "budget_ok b \<longleftrightarrow> 0 \<le> BudgetTotal b \<and> BudgetTotal b \<le> of_int total_burst_bytes \<and>
     0 \<le> BudgetReplay b \<and> BudgetReplay b \<le> of_int replay_bytes_per_second"

lemma new_budget_ok: "budget_ok (new_budget now)"
  by (simp add: budget_ok_def new_budget_def budget_constants)

lemma pow2_52: "pow2 52 = 4503599627370496"
  by (simp add: pow2_def)

lemma round53_le: "0 \<le> x \<Longrightarrow> x \<le> of_int m \<Longrightarrow> of_int m < pow2 52 \<Longrightarrow> round53 x \<le> of_int m"
  by (rule round53_int_bounds(2)) auto

lemma round53_ge: "of_int m \<le> x \<Longrightarrow> 0 \<le> m \<Longrightarrow> x < pow2 52 \<Longrightarrow> of_int m \<le> round53 x"
  by (rule round53_int_bounds(1)) (auto intro: order_trans[of _ "of_int m"])

text \<open>A duration that fits an \<open>int64\<close> is less than ten billion seconds.\<close>

lemma go_seconds_bounds:
  assumes "0 \<le> d" "d \<le> max_int64"
  shows "0 \<le> go_seconds d" "go_seconds d \<le> 9223372037" "1000000000 \<le> d \<Longrightarrow> 1 \<le> go_seconds d"
proof -
  let ?s = "d div 1000000000" and ?f = "round53 (of_int (d mod 1000000000) / 1000000000)"
  have s: "0 \<le> ?s" "?s \<le> 9223372036" using assms by (auto simp: pos_imp_zdiv_nonneg_iff)
  have f: "0 \<le> ?f" "?f \<le> 1"
    using round53_nonneg[of "of_int (d mod 1000000000) / 1000000000"] round53_le[of "of_int (d mod 1000000000) / 1000000000" 1]
    by (auto simp: pow2_52 divide_le_eq)
  have sum: "0 \<le> of_int ?s + ?f" "of_int ?s + ?f \<le> of_int (?s + 1)" using s f by auto
  show "0 \<le> go_seconds d" unfolding go_seconds_def by (rule round53_nonneg[OF sum(1)])
  have "go_seconds d \<le> of_int (?s + 1)" unfolding go_seconds_def
    by (rule round53_le[OF sum]) (use s(2) in \<open>simp add: pow2_52 flip: of_int_less_numeral_iff\<close>)
  also have "\<dots> \<le> of_int 9223372037" unfolding of_int_le_iff using s(2) by simp
  finally show "go_seconds d \<le> 9223372037" by simp
  assume "1000000000 \<le> d"
  then have "1 \<le> ?s" by linarith
  then have "of_int 1 \<le> (of_int ?s :: rat)" by (simp only: of_int_le_iff)
  then have "of_int 1 \<le> of_int ?s + ?f" using f by simp
  moreover have "of_int ?s + ?f < pow2 52"
  proof -
    have "(of_int ?s :: rat) \<le> of_int 9223372036" using s(2) by (simp only: of_int_le_iff)
    with f show ?thesis by (simp add: pow2_52)
  qed
  ultimately show "1 \<le> go_seconds d" unfolding go_seconds_def using round53_ge[of 1] by simp
qed

lemma elapsed_bounds: "0 \<le> max 0 (sub_instant a b)" "max 0 (sub_instant a b) \<le> max_int64"
  by (auto simp: sub_instant_def)

text \<open>Refilling keeps a level between what it was, rounded down to an integer, and the cap.\<close>

lemma refilled_bounds:
  assumes d: "0 \<le> d" "d \<le> max_int64" and r: "0 \<le> rate" "rate \<le> 262144" and l: "0 \<le> level" "level \<le> 262144"
    and c: "0 \<le> cap"
  shows "0 \<le> refilled cap rate d level" "refilled cap rate d level \<le> of_int cap"
    "of_int m \<le> level \<Longrightarrow> 0 \<le> m \<Longrightarrow> m \<le> cap \<Longrightarrow> of_int m \<le> refilled cap rate d level"
    "1000000000 \<le> d \<Longrightarrow> cap \<le> rate \<Longrightarrow> refilled cap rate d level = of_int cap"
proof -
  note s = go_seconds_bounds[OF d]
  let ?x = "go_seconds d * of_int rate"
  have prod: "0 \<le> ?x" using s(1) r by simp
  have "?x \<le> 9223372037 * 262144" using s r by (intro mult_mono) auto
  then have x: "?x \<le> of_int 2417851639267328" by simp
  have gain: "0 \<le> round53 ?x" "round53 ?x \<le> of_int 2417851639267328"
    using round53_nonneg[OF prod] round53_le[OF prod x] by (auto simp: pow2_52)
  have small: "level + round53 ?x < pow2 52" using gain l by (simp add: pow2_52)
  have nn: "0 \<le> round53 (level + round53 ?x)" using l gain by (intro round53_nonneg) simp
  show "0 \<le> refilled cap rate d level" "refilled cap rate d level \<le> of_int cap"
    using nn c by (simp_all add: refilled_def)
  show "of_int m \<le> refilled cap rate d level" if "of_int m \<le> level" "0 \<le> m" "m \<le> cap"
    using round53_ge[of m "level + round53 ?x"] that gain small by (simp add: refilled_def)
  show "refilled cap rate d level = of_int cap" if "1000000000 \<le> d" "cap \<le> rate"
  proof -
    have "of_int rate \<le> ?x" using s(3)[OF that(1)] r by (simp add: mult_le_cancel_right1)
    then have "of_int cap \<le> ?x" using that(2) by (meson of_int_le_iff order_trans)
    then have "of_int cap \<le> round53 ?x" using c x by (intro round53_ge) (auto simp: pow2_52)
    then have "of_int cap \<le> round53 (level + round53 ?x)" using c l small by (intro round53_ge) auto
    then show ?thesis by (simp add: refilled_def)
  qed
qed

lemma refill_budget_ok:
  assumes "budget_ok b"
  shows "budget_ok (refill_budget now b)"
    "of_int m \<le> BudgetTotal b \<Longrightarrow> 0 \<le> m \<Longrightarrow> m \<le> total_burst_bytes \<Longrightarrow> of_int m \<le> BudgetTotal (refill_budget now b)"
    "1000000000 \<le> sub_instant now (BudgetUpdated b) \<Longrightarrow>
       BudgetTotal (refill_budget now b) = of_int total_burst_bytes \<and>
       BudgetReplay (refill_budget now b) = of_int replay_bytes_per_second"
proof -
  note e = elapsed_bounds[of now "BudgetUpdated b"]
  have t: "0 \<le> BudgetTotal b" "BudgetTotal b \<le> 262144" and r: "0 \<le> BudgetReplay b" "BudgetReplay b \<le> 262144"
    using assms by (auto simp: budget_ok_def budget_constants)
  note T = refilled_bounds[OF e _ _ t, of 262144 262144] and R = refilled_bounds[OF e _ _ r, of 131072 131072]
  show "budget_ok (refill_budget now b)"
    using T(1,2) R(1,2) by (simp add: budget_ok_def refill_budget_def Let_def budget_constants)
  show "of_int m \<le> BudgetTotal (refill_budget now b)" if "of_int m \<le> BudgetTotal b" "0 \<le> m" "m \<le> total_burst_bytes"
    using T(3) that by (simp add: refill_budget_def Let_def budget_constants)
  show "BudgetTotal (refill_budget now b) = of_int total_burst_bytes \<and>
       BudgetReplay (refill_budget now b) = of_int replay_bytes_per_second"
    if "1000000000 \<le> sub_instant now (BudgetUpdated b)"
    using T(4) R(4) that by (simp add: refill_budget_def Let_def budget_constants)
qed

lemma budget_left:
  assumes "0 \<le> level" "level \<le> 262144" "0 \<le> n" "of_int n \<le> level"
  shows "0 \<le> round53 (level - of_int n)" "round53 (level - of_int n) \<le> 262144"
    "level \<le> of_int m \<Longrightarrow> m \<le> 262144 \<Longrightarrow> round53 (level - of_int n) \<le> of_int m"
proof -
  have d: "0 \<le> level - of_int n" "level - of_int n \<le> level" using assms by auto
  show "0 \<le> round53 (level - of_int n)" by (rule round53_nonneg[OF d(1)])
  show "round53 (level - of_int n) \<le> 262144" using round53_le[OF d(1), of 262144] assms d by (simp add: pow2_52)
  show "round53 (level - of_int n) \<le> of_int m" if "level \<le> of_int m" "m \<le> 262144"
  proof (rule round53_le[OF d(1)])
    show "level - of_int n \<le> of_int m" using d that by linarith
    have "(of_int m :: rat) \<le> of_int 262144" using that(2) by (simp only: of_int_le_iff)
    then show "of_int m < pow2 52" by (simp add: pow2_52)
  qed
qed

lemma budget_allow_ok:
  assumes "budget_ok b"
  shows "budget_ok (snd (budget_allow now n replay b))"
proof -
  note ok = refill_budget_ok(1)[OF assms, of now]
  show ?thesis
    using ok budget_left(1,2)[of "BudgetTotal (refill_budget now b)" n] budget_left(1)[of "BudgetReplay (refill_budget now b)" n]
      budget_left(3)[of "BudgetReplay (refill_budget now b)" n 131072] assms
    by (auto simp: budget_allow_def Let_def budget_ok_def budget_constants not_less)
qed

lemma control_ok: "budget_ok b \<Longrightarrow> budget_ok (snd (allow_control now n b))"
  by (simp add: allow_control_def budget_ok_def)

text \<open>No replay is allowed beyond what a second of replay may carry.\<close>

lemma replay_never_allowed:
  assumes "budget_ok b" "replay_bytes_per_second < n"
  shows "\<not> fst (allow_replay now n b)"
proof -
  have "BudgetReplay (refill_budget now b) \<le> of_int replay_bytes_per_second"
    using refill_budget_ok(1)[OF assms(1), of now] by (simp add: budget_ok_def)
  also have "\<dots> < of_int n" using assms(2) by (simp only: of_int_less_iff)
  finally show ?thesis by (simp add: allow_replay_def budget_allow_def Let_def)
qed

lemma current_never_allowed: "total_burst_bytes < n \<Longrightarrow> \<not> fst (allow_current now n b)"
  by (simp add: allow_current_def budget_allow_def)

text \<open>
  (C17) The budget never starves live frames, and nothing that fits is refused for ever: its levels stay
  within their bounds, in floating point as it is computed; right after an allowed replay, and at every
  later time, a live batch of up to 64 KiB is allowed; and one second without a batch is enough for any
  live batch of up to 256 KiB.
\<close>
theorem budget_reserves_for_current:
  assumes "budget_ok b" "0 \<le> m"
  shows "budget_ok (snd (budget_allow now n replay b)) \<and>
    (fst (allow_replay now n b) \<longrightarrow> m \<le> current_reserve_bytes \<longrightarrow> fst (allow_current later m (snd (allow_replay now n b)))) \<and>
    (1000000000 \<le> sub_instant now (BudgetUpdated b) \<longrightarrow> m \<le> total_burst_bytes \<longrightarrow> fst (allow_current now m b))"
proof (intro conjI impI)
  show "budget_ok (snd (budget_allow now n replay b))" by (rule budget_allow_ok[OF assms(1)])
  show "fst (allow_current later m (snd (allow_replay now n b)))"
    if allowed: "fst (allow_replay now n b)" and m: "m \<le> current_reserve_bytes"
  proof -
    let ?b = "snd (allow_replay now n b)"
    have ok: "budget_ok ?b" unfolding allow_replay_def by (rule budget_allow_ok[OF assms(1)])
    have "of_int current_reserve_bytes \<le> BudgetTotal ?b"
      using allowed by (auto simp: allow_replay_def budget_allow_def Let_def not_less split: if_split_asm)
    then have "of_int current_reserve_bytes \<le> BudgetTotal (refill_budget later ?b)"
      by (rule refill_budget_ok(2)[OF ok]) (simp_all add: budget_constants)
    moreover have "(of_int m :: rat) \<le> of_int current_reserve_bytes" using m by (simp only: of_int_le_iff)
    ultimately have "of_int m \<le> BudgetTotal (refill_budget later ?b)" by (rule order_trans[rotated])
    then show ?thesis using m assms(2)
      by (simp add: allow_current_def budget_allow_def[of later] Let_def not_less budget_constants)
  qed
  show "fst (allow_current now m b)"
    if "1000000000 \<le> sub_instant now (BudgetUpdated b)" and m: "m \<le> total_burst_bytes"
  proof -
    have "BudgetTotal (refill_budget now b) = of_int total_burst_bytes"
      using refill_budget_ok(3)[OF assms(1) that(1)] by blast
    moreover have "(of_int m :: rat) \<le> of_int total_burst_bytes" using m by (simp only: of_int_le_iff)
    ultimately show ?thesis using m assms(2) by (simp add: allow_current_def budget_allow_def Let_def)
  qed
qed

text \<open>A fresh budget allows a replay of 100000 bytes and then a live batch of 65536.\<close>

lemma budget_reserves_for_current_witness:
  "fst (allow_replay \<lparr>WallNS = 0, MonoNS = 0\<rparr> 100000 (new_budget \<lparr>WallNS = 0, MonoNS = 0\<rparr>)) \<and>
   fst (allow_current \<lparr>WallNS = 5, MonoNS = 5\<rparr> 65536
     (snd (allow_replay \<lparr>WallNS = 0, MonoNS = 0\<rparr> 100000 (new_budget \<lparr>WallNS = 0, MonoNS = 0\<rparr>))))"
proof
  show *: "fst (allow_replay \<lparr>WallNS = 0, MonoNS = 0\<rparr> 100000 (new_budget \<lparr>WallNS = 0, MonoNS = 0\<rparr>))"
    by code_simp
  show "fst (allow_current \<lparr>WallNS = 5, MonoNS = 5\<rparr> 65536
     (snd (allow_replay \<lparr>WallNS = 0, MonoNS = 0\<rparr> 100000 (new_budget \<lparr>WallNS = 0, MonoNS = 0\<rparr>))))"
    using budget_reserves_for_current[OF new_budget_ok, of 65536] * by (simp add: current_reserve_bytes_def)
qed

end
