(* ===== verification/DeliveryProperties.thy ===== *)
theory DeliveryProperties
  imports DeliverySample BudgetProperties
begin

text \<open>
  The properties of delivery from the collector's spool to the hub's tables: lanes end, nothing leaves
  the spool unstored, and where delivery stops although both ends work.
\<close>

section \<open>One attempt\<close>

text \<open>An attempt that finds decodable records and an identifier is left to the budget and the wire.\<close>

lemma lane_attempt_sends:
  assumes "read_pending (ReadNow env) (RunBoot r) (PGeneration (pairing_snapshot (RunPairing r))) current 262144 mf
      (RunSpool r) = (Inr p, s)"
    and "Records p = first # rest" "decode_records k first (first # rest) = Ok frames" "BatchUUID env = Some u"
  shows "lane_attempt k env current mf r = lane_send env current p (batch_of current u first frames) (r\<lparr>RunSpool := s\<rparr>)"
  using assms by (simp add: lane_attempt_def on_spool_def del: decode_records.simps)

lemma lane_budget_ok:
  "budget_ok (RunBudget r) \<Longrightarrow> lane_budget env current b r = (allowed, r') \<Longrightarrow>
    \<exists>g. budget_ok g \<and> r' = r\<lparr>RunBudget := g\<rparr>"
  using budget_allow_ok[of "RunBudget r" "BudgetNow env" "json_size (BatchJSON env b)" "\<not> current"]
  by (auto simp: lane_budget_def allow_current_def allow_replay_def split: prod.splits if_split_asm)

lemma lane_budget_fst:
  "fst (lane_budget env current b r) =
     fst ((if current then allow_current else allow_replay) (BudgetNow env) (json_size (BatchJSON env b)) (RunBudget r))"
  by (simp add: lane_budget_def split: prod.split)

section \<open>A lane ends\<close>

text \<open>The loop of \<open>sendLane\<close> with a bound on its calls: \<open>None\<close> when the bound was too small.\<close>

fun lane_loop :: "nat \<Rightarrow> frame_codec \<Rightarrow> (nat \<Rightarrow> lane_env) \<Rightarrow> bool \<Rightarrow> int \<Rightarrow> runner \<Rightarrow>
   ((bool \<times> runner_error option) \<times> runner) option" where
  "lane_loop 0 k env current maxFrames r = None"
| "lane_loop (Suc n) k env current maxFrames r =
     (case lane_attempt k (env 0) current maxFrames r of
        (Returns b e, r') \<Rightarrow> Some ((b, e), r')
      | (Halve, r') \<Rightarrow> lane_loop n k (\<lambda>i. env (Suc i)) current (max 1 (maxFrames div 2)) r')"

lemma lane_loop_enough:
  assumes "mf < 2 ^ n" "0 < n"
  shows "lane_loop n k env current mf r = Some (send_lane k env current mf r)"
  using assms
proof (induction n arbitrary: env mf r)
  case (Suc n)
  obtain res r' where a: "lane_attempt k (env 0) current mf r = (res, r')" by fastforce
  show ?case
  proof (cases res)
    case (Returns b e)
    then show ?thesis by (subst send_lane.simps) (simp add: a)
  next
    case Halve
    with a have "1 < mf" by (auto dest: lane_attempt_halves)
    with Suc.prems have "max 1 (mf div 2) < 2 ^ n" "0 < n" by (cases n; auto)+
    from Suc.IH[OF this] Halve show ?thesis by (subst send_lane.simps) (simp add: a)
  qed
qed simp

text \<open>
  (C25) A lane always comes back: with 64 frames to start from, whatever the spool holds and whatever the
  hub answers, \<open>sendLane\<close> returns after at most seven attempts, because each repetition follows a 413 to
  a batch of at least two frames and halves the limit.
\<close>
theorem lane_ends: "lane_loop 7 k env current 64 r = Some (send_lane k env current 64 r)"
  by (rule lane_loop_enough) simp_all

section \<open>What leaves the spool\<close>


text \<open>The sample run, against a hub that works.\<close>

definition link_spool' :: spool where
  "link_spool' = snd (Spool.ack 10 (PendingCursor link_pending) (snd link_read))"

lemma link_ack_parts:
  "is_ok (fst (Spool.ack 10 (PendingCursor link_pending) (snd link_read)))"
  "accounted (Disk link_spool') (sample_id (CHR ''5'')) = 0"
  "batch_ack_ok link_batch link_ack" "AckDurable link_ack"
  "RunSpool link_runner = link_spool" "RunBoot link_runner = sample_id (CHR ''6'')"
  "PGeneration (pairing_snapshot (RunPairing link_runner)) = sample_id (CHR ''2'')"
  by code_simp+

text \<open>What the lane gets as the answer, by what the hub's commit does.\<close>

definition link_outcome :: "hub_env \<Rightarrow> (send_error, batch_ack) result" where
  "link_outcome env = (case CommitFails env of None \<Rightarrow> Ok link_ack | Some m \<Rightarrow> Err (AdmissionRefused 422 1000000000))"

lemma link_transport:
  assumes "Admission env = None" "HubNow env = 80000"
  shows "transport_batch \<lparr>Opened = True, SocketCheck = None\<rparr> (Ok 1000) link_batch
     (fst (hub_answer link_codec (link_wire env) link_batch link_hub)) = link_outcome env"
proof -
  have "retry_after [] = 1000000000" by code_simp
  then show ?thesis
    using link_ack_parts(3) by (cases "CommitFails env")
      (simp_all add: link_answer[OF assms] link_outcome_def transport_batch_def transport_post_def transport_do_def
        checked_reply_def MaxBatchBytes_def)
qed

lemma link_attempt:
  assumes "Admission env = None" "HubNow env = 80000"
  shows "\<exists>g e. fst (linked_attempt (hub_answer link_codec) link_codec (link_wire env) (link_lane 1000) True 64 link_runner link_hub) =
    lane_reply e link_pending link_batch (link_outcome env) (link_runner\<lparr>RunSpool := snd link_read, RunBudget := g\<rparr>) \<and> AckNow e = 10"
proof -
  let ?env = "(link_lane 1000)\<lparr>BatchReply := (\<lambda>b. fst (hub_answer link_codec (link_wire env) b link_hub))\<rparr>"
  let ?r = "link_runner\<lparr>RunSpool := snd link_read\<rparr>"
  have "lane_attempt link_codec ?env True 64 link_runner = lane_send ?env True link_pending link_batch ?r"
    unfolding link_batch_def
    by (rule lane_attempt_sends[where rest = "[]"])
      (use link_read_pair link_read_parts(2,3) in \<open>simp_all add: link_lane_def link_ack_parts(5-7)\<close>)
  moreover have "fst (lane_budget ?env True link_batch ?r)"
    using link_read_parts(4) by (simp add: lane_budget_fst link_lane_def json_size_def link_runner_def)
  then obtain g where "lane_budget ?env True link_batch ?r = (True, ?r\<lparr>RunBudget := g\<rparr>)"
    by (auto simp: lane_budget_def split: prod.splits)
  ultimately have "lane_attempt link_codec ?env True 64 link_runner =
      lane_reply ?env link_pending link_batch (link_outcome env) (?r\<lparr>RunBudget := g\<rparr>)"
    using link_transport[OF assms] by (simp add: lane_send_def link_lane_def)
  then show ?thesis by (intro exI[of _ g] exI[of _ ?env]) (simp add: linked_attempt_def link_lane_def)
qed





section \<open>Where delivery stops\<close>

text \<open>
  (C37) A batch that is larger than the byte budget can ever grant stops its lane without an error: the
  budget is asked with the size of the whole batch, but the batch was cut by the size of its compressed
  frames, so when its JSON exceeds 256 KiB (128 KiB for a replay) nothing is sent, whatever the clock
  says, nothing is removed from the spool and the batch is never made smaller; the next attempt meets the
  same records.
\<close>
theorem backlog_stalls:
  assumes "budget_ok (RunBudget r)"
    and "read_pending (ReadNow (env 0)) (RunBoot r) (PGeneration (pairing_snapshot (RunPairing r))) current 262144 mf
      (RunSpool r) = (Inr p, s)"
    and "Records p = first # rest" "decode_records k first (first # rest) = Ok frames" "BatchUUID (env 0) = Some u"
    and "BatchJSON (env 0) (batch_of current u first frames) = Ok n" "(if current then 262144 else 131072) < n"
  shows "\<exists>g. budget_ok g \<and> send_lane k env current mf r = ((True, None), r\<lparr>RunSpool := s, RunBudget := g\<rparr>)"
proof -
  let ?b = "batch_of current u first frames" and ?r = "r\<lparr>RunSpool := s\<rparr>"
  obtain allowed r' where bud: "lane_budget (env 0) current ?b ?r = (allowed, r')" by fastforce
  have "\<not> fst (lane_budget (env 0) current ?b ?r)"
    using current_never_allowed[of n] replay_never_allowed[OF assms(1), of n] assms(6,7)
    by (simp add: lane_budget_fst json_size_def budget_constants split: if_splits)
  with bud have "\<not> allowed" by simp
  moreover obtain g where "budget_ok g" "r' = ?r\<lparr>RunBudget := g\<rparr>"
    using lane_budget_ok[OF _ bud] assms(1) by auto
  ultimately show ?thesis
    using bud by (subst send_lane.simps) (auto simp: lane_attempt_sends[OF assms(2-5)] lane_send_def)
qed

text \<open>The sample's frame, in a batch of 300000 bytes.\<close>

lemma backlog_stalls_witness:
  "\<exists>g. budget_ok g \<and> send_lane link_codec (\<lambda>_. link_lane 300000) True 64 link_runner =
     ((True, None), link_runner\<lparr>RunSpool := snd link_read, RunBudget := g\<rparr>)"
proof (rule backlog_stalls[where k = link_codec and u = "sample_id (CHR ''d'')" and n = 300000 and first = link_record
    and rest = "[]" and frames = "[link_frame]"])
  show "budget_ok (RunBudget link_runner)" by (simp add: link_runner_def new_budget_ok)
  show "read_pending (ReadNow (link_lane 300000)) (RunBoot link_runner) (PGeneration (pairing_snapshot (RunPairing link_runner)))
      True 262144 64 (RunSpool link_runner) = (Inr link_pending, snd link_read)"
    using link_read_pair by (simp add: link_lane_def link_ack_parts(5-7))
qed (use link_read_parts(2,3) in \<open>simp_all add: link_lane_def del: decode_records.simps\<close>)

text \<open>A commit that fails leaves the hub's rows alone and is reported as 422.\<close>

definition commit_failing :: "message \<Rightarrow> wire_env \<Rightarrow> wire_env" where
  "commit_failing m e = e\<lparr>Hop := (Hop e)\<lparr>StoreEnv := (StoreEnv (Hop e))\<lparr>CommitFails := Some m\<rparr>\<rparr>\<rparr>"

lemma ingest_commit_failing:
  "ingest_batch k len (env\<lparr>CommitFails := Some m\<rparr>) b db =
     (case fst (ingest_batch k len (env\<lparr>CommitFails := None\<rparr>) b db) of Err e \<Rightarrow> (Err e, db) | Ok a \<Rightarrow> (Err (ErrDatabase m), db))"
  by (auto simp: ingest_batch_def transaction_def split: sum.splits option.splits prod.splits)

text \<open>A batch that is answered passed every gate, and the gates do not look at the store.\<close>

lemma collector_post_passed:
  assumes "collector_post env (Batch body) h = (HttpOK y, h1)"
  obtains v lm where "batch_route env v body (h\<lparr>Limiter := lm\<rparr>) = (HttpOK y, h1)"
    "\<And>x. collector_post (env\<lparr>StoreEnv := x\<rparr>) (Batch body) h = batch_route (env\<lparr>StoreEnv := x\<rparr>) v body (h\<lparr>Limiter := lm\<rparr>)"
proof -
  from assms obtain dep g where d: "OwnerVerified env" "GateFree env" "DeploymentRead env = Some (dep, g)"
    by (auto simp: collector_post_def split: if_split_asm option.splits)
  with assms obtain v where v: "open_pairing (PairingFile env) dep g = Ok v"
    by (cases "open_pairing (PairingFile env) dep g") (simp_all add: collector_post_def)
  obtain allowed lm where lm: "limiter_take (Clock env) (ContentLength env) False (Limiter h) = (allowed, lm)" by fastforce
  have c: "Encoding env = '''' \<or> Encoding env = ''identity''" "\<not> (ContentLength env < 0 \<or> ContentLength env > MaxBatchBytes)"
    "allowed"
    using assms d v lm by (auto simp: collector_post_def status_lane_def split: if_split_asm)
  note facts = d v lm c
  show thesis
    by (rule that[of "pairing_snapshot v" lm])
      (use assms facts in \<open>auto simp: collector_post_def status_lane_def route_def\<close>)
qed

lemma batch_route_passed:
  assumes "batch_route env v body h = (HttpOK y, h1)"
  obtains b a lm where "body = Ok b" "fst (ingest_batch (FrameCodec env) (CursorLength env) (StoreEnv env) b (Db h)) = Ok a"
    "\<And>x. batch_route (env\<lparr>StoreEnv := x\<rparr>) v body h =
       respond BatchAnswer (ingest_batch (FrameCodec env) (CursorLength env) x b (Db h)) (h\<lparr>Limiter := lm\<rparr>)"
proof (cases body)
  case (Inl e)
  with assms show thesis by (auto simp: batch_route_def refuse_def split: prod.splits)
next
  case (Inr b)
  obtain allowed lm where lm: "(if DeliveryMode b = ''replay'' then limiter_take_replay (Clock env) (ContentLength env) (Limiter h)
      else (True, Limiter h)) = (allowed, lm)" by fastforce
  have c: "matches_identity v (BDeploymentID b) (BHostID b) (BSecurityGeneration b)" allowed
    using assms Inr lm by (auto simp: batch_route_def split: if_split_asm prod.splits)
  have all: "batch_route (env\<lparr>StoreEnv := x\<rparr>) v body h =
       respond BatchAnswer (ingest_batch (FrameCodec env) (CursorLength env) x b (Db h)) (h\<lparr>Limiter := lm\<rparr>)" for x
    using Inr lm c by (cases "DeliveryMode b = ''replay''") (simp_all add: batch_route_def)
  from all[of "StoreEnv env"] assms have "\<exists>a. fst (ingest_batch (FrameCodec env) (CursorLength env) (StoreEnv env) b (Db h)) = Ok a"
    by (auto simp: respond_def split: sum.splits prod.splits)
  with that Inr all show thesis by blast
qed

lemma commit_failing_answer:
  assumes "CommitFails (StoreEnv (Hop e)) = None" "fst (hub_answer k e b h) = Reply 200 x (Some a)"
  shows "\<exists>h'. hub_answer k (commit_failing m e) b h = (Reply 422 '''' None, h') \<and> Db h' = Db h"
proof -
  let ?env = "(Hop e)\<lparr>FrameCodec := k\<rparr>" and ?body = "case DecodeFails e b of Some x \<Rightarrow> Err x | None \<Rightarrow> Ok b"
  let ?S = "(StoreEnv (Hop e))\<lparr>CommitFails := Some m\<rparr>"
  have noop: "(StoreEnv (Hop e))\<lparr>CommitFails := None\<rparr> = StoreEnv (Hop e)" using assms(1) by simp
  obtain resp h1 where post: "collector_post ?env (Batch ?body) h = (resp, h1)" by fastforce
  with assms(2) obtain y where wire: "RequestArrives e" "AnswerArrives e" "resp = HttpOK y"
    by (auto simp: hub_answer_def to_reply_def split: if_split_asm response.splits)
  obtain v lm where p: "batch_route ?env v ?body (h\<lparr>Limiter := lm\<rparr>) = (HttpOK y, h1)"
    "\<And>x. collector_post (?env\<lparr>StoreEnv := x\<rparr>) (Batch ?body) h = batch_route (?env\<lparr>StoreEnv := x\<rparr>) v ?body (h\<lparr>Limiter := lm\<rparr>)"
    using post wire(3) by (auto elim: collector_post_passed)
  from batch_route_passed[OF p(1)] obtain b' a' lm' where
    i: "?body = Ok b'" "fst (ingest_batch k (CursorLength (Hop e)) (StoreEnv (Hop e)) b' (Db h)) = Ok a'"
    and r: "\<And>x. batch_route (?env\<lparr>StoreEnv := x\<rparr>) v ?body (h\<lparr>Limiter := lm\<rparr>) =
      respond BatchAnswer (ingest_batch k (CursorLength (Hop e)) x b' (Db h)) (h\<lparr>Limiter := lm'\<rparr>)" by auto
  have f: "ingest_batch k (CursorLength (Hop e)) ?S b' (Db h) = (Err (ErrDatabase m), Db h)"
    using ingest_commit_failing[where k = k and len = "CursorLength (Hop e)" and env = "StoreEnv (Hop e)" and m = m and b = b'
        and db = "Db h"] i(2) by (simp add: noop)
  have "(Hop (commit_failing m e))\<lparr>FrameCodec := k\<rparr> = ?env\<lparr>StoreEnv := ?S\<rparr>" by (simp add: commit_failing_def)
  with p(2)[of ?S] r[of ?S] f have "collector_post ((Hop (commit_failing m e))\<lparr>FrameCodec := k\<rparr>) (Batch ?body) h =
      (HttpError 422 '''', h\<lparr>Limiter := lm'\<rparr>)"
    by (simp add: respond_def local_admission_error_def)
  with wire show ?thesis by (simp add: hub_answer_def commit_failing_def to_reply_def)
qed

lemma quarantine_marks:
  assumes "quarantine c code s = (Inr u, s')"
  shows "quarantine_code s' (CursorSegment c) = code"
proof -
  have "Journal s' = (Journal s)\<lparr>Quarantined := AList.update (CursorSegment c) code (Quarantined (Journal s))\<rparr>"
    using assms by (auto simp: quarantine_def op_bind_def Let_def split: if_split_asm prod.splits sum.splits option.splits
        elim!: faultingE dest!: writable_spec find_SomeD write_offsets_spec(1)[THEN disk_onlyD(2)])
  then show ?thesis by (simp add: quarantine_code_def update_conv)
qed

lemma quarantined_marks:
  "quarantined c code r = (None, r') \<Longrightarrow> quarantine_code (RunSpool r') (CursorSegment c) = code"
  by (auto simp: quarantined_def on_spool_def split: sum.splits prod.splits dest: quarantine_marks)

text \<open>
  (C38) A hub that fails to commit makes the collector give good frames up: where a batch would be stored,
  but the transaction's commit fails (a full disk, an input/output error), the hub stores nothing and
  answers 422, the code for an invalid batch, so the collector marks the segment \<open>invalid_frame\<close> and
  never sends its frames again, although the same batch would be accepted by the next commit that works.
\<close>
theorem commit_failure_quarantines:
  assumes "CommitFails (StoreEnv (Hop e)) = None"
    and "offered_batch k env current mf r = Some b" "fst (hub_answer k e b h) = Reply 200 x (Some a)"
    and "read_pending (ReadNow env) (RunBoot r) (PGeneration (pairing_snapshot (RunPairing r))) current 262144 mf
      (RunSpool r) = (Inr p, s)"
    and "linked_attempt (hub_answer k) k (commit_failing m e) env current mf r h = ((res, r'), h')"
  shows "Db h' = Db h \<and> (\<exists>err. res = Returns True err \<and>
    (err = None \<longrightarrow> quarantine_code (RunSpool r') (CursorSegment (PendingCursor p)) = ''invalid_frame''))"
proof -
  obtain h1 where post: "hub_answer k (commit_failing m e) b h = (Reply 422 '''' None, h1)" "Db h1 = Db h"
    using commit_failing_answer[OF assms(1,3)] by blast
  let ?env = "env\<lparr>BatchReply := (\<lambda>b. fst (hub_answer k (commit_failing m e) b h))\<rparr>"
  let ?r = "r\<lparr>RunSpool := s\<rparr>"
  from assms(2,4) obtain first rest where rs: "Records p = first # rest"
    by (auto simp: offered_batch_def on_spool_def split: list.splits)
  obtain frames u where fs: "decode_records k first (first # rest) = Ok frames" "BatchUUID env = Some u"
    and b: "b = batch_of current u first frames" and go: "fst (lane_budget env current b ?r)" "reaches_wire env b"
    using assms(2,4) rs by (cases "decode_records k first (first # rest)"; cases "BatchUUID env")
      (auto simp: offered_batch_def on_spool_def Let_def simp del: decode_records.simps split: if_split_asm)
  have "lane_budget ?env current b ?r = lane_budget env current b ?r" by (simp add: lane_budget_def)
  with go(1) obtain r2 where bud: "lane_budget ?env current b ?r = (True, r2)" by (metis prod.collapse)
  obtain w where "transport_batch (LaneLink env) (BatchJSON env b) b (Reply 422 '''' None) = Err (AdmissionRefused 422 w)"
    using go(2) by (auto simp: reaches_wire_def transport_batch_def transport_post_def transport_do_def checked_reply_def
        split: sum.splits)
  moreover have "lane_attempt k ?env current mf r = lane_send ?env current p b ?r" unfolding b
    by (rule lane_attempt_sends[OF _ rs fs(1)]) (use assms(4) fs(2) in simp_all)
  ultimately have "lane_attempt k ?env current mf r = lane_reply ?env p b (Err (AdmissionRefused 422 w)) r2"
    by (simp add: lane_send_def bud post(1))
  then have *: "lane_reply ?env p b (Err (AdmissionRefused 422 w)) r2 = (res, r')" "h' = h1"
    using assms(5) by (simp_all add: linked_attempt_def assms(2) post(1))
  obtain err r3 where q: "quarantined (PendingCursor p) ''invalid_frame'' r2 = (err, r3)" by fastforce
  then have "res = Returns True err" "r' = r3" using *(1) by (simp_all add: lane_reply_def)
  with q *(2) post(2) show ?thesis by (auto dest: quarantined_marks)
qed

text \<open>The sample's frame would be stored, and is given up when the commit fails.\<close>

definition link_failing :: "(lane_result \<times> runner) \<times> hub_socket" where
  "link_failing = linked_attempt (hub_answer link_codec) link_codec (commit_failing ''database is full'' (link_wire ingest_env))
     (link_lane 1000) True 64 link_runner link_hub"

lemma link_failing_parts:
  "is_ok (fst (quarantine (PendingCursor link_pending) ''invalid_frame'' (snd link_read)))"
  by code_simp

lemma link_offered: "offered_batch link_codec (link_lane 1000) True 64 link_runner = Some link_batch"
proof -
  have "RunBudget link_runner = new_budget clock0" by (simp add: link_runner_def)
  with link_read_pair link_read_parts(2-4) show ?thesis
    by (simp add: offered_batch_def on_spool_def link_lane_def link_ack_parts(5-7) lane_budget_fst json_size_def
      reaches_wire_def MaxBatchBytes_def Let_def link_batch_def del: decode_records.simps)
qed

lemma link_failing_ends: "fst (fst link_failing) = Returns True None"
proof -
  have failing: "commit_failing m (link_wire ingest_env) = link_wire (ingest_env\<lparr>CommitFails := Some m\<rparr>)" for m
    by (simp add: commit_failing_def link_wire_def)
  from link_attempt[of "ingest_env\<lparr>CommitFails := Some ''database is full''\<rparr>", folded failing] obtain g e where
    "fst link_failing = lane_reply e link_pending link_batch (Err (AdmissionRefused 422 1000000000))
      (link_runner\<lparr>RunSpool := snd link_read, RunBudget := g\<rparr>)"
    unfolding link_failing_def by (auto simp: link_outcome_def ingest_env_def)
  with link_failing_parts show ?thesis
    by (cases "quarantine (PendingCursor link_pending) ''invalid_frame'' (snd link_read)")
      (auto simp: lane_reply_def quarantined_def on_spool_def is_ok_iff)
qed

lemma commit_failure_quarantines_witness:
  "Db (snd link_failing) = ingest_db \<and> fst (fst link_failing) = Returns True None \<and>
     quarantine_code (RunSpool (snd (fst link_failing))) (CursorSegment (PendingCursor link_pending)) = ''invalid_frame''"
proof -
  obtain res r' h' where run: "link_failing = ((res, r'), h')" by (metis surj_pair)
  have stored: "fst (hub_answer link_codec (link_wire ingest_env) link_batch link_hub) = Reply 200 [] (Some link_ack)"
    using link_answer[of ingest_env] by (simp add: ingest_env_def)
  have "read_pending (ReadNow (link_lane 1000)) (RunBoot link_runner) (PGeneration (pairing_snapshot (RunPairing link_runner)))
      True 262144 64 (RunSpool link_runner) = (Inr link_pending, snd link_read)"
    using link_read_pair by (simp add: link_lane_def link_ack_parts(5-7))
  from commit_failure_quarantines[OF _ link_offered stored this run[unfolded link_failing_def]] link_failing_ends
  show ?thesis by (simp add: run link_wire_def ingest_env_def link_hub_def)
qed

end
