(* ===== verification/StatusProperties.thy ===== *)
theory StatusProperties
  imports DeliverySample
begin

text \<open>
  The source status: how a lost acknowledgement is made good, and how a status whose losses have moved
  on blocks every later one.
\<close>

section \<open>The loss ledger only moves forward\<close>

definition advances :: "'a op \<Rightarrow> bool" where
  "advances m \<longleftrightarrow> (\<forall>s. Revision (LossJournal s) \<le> Revision (LossJournal (snd (m s))))"

named_theorems advances

lemma advancesI: "(\<And>s. Revision (LossJournal s) \<le> Revision (LossJournal (snd (m s)))) \<Longrightarrow> advances m"
  by (simp add: advances_def)

lemma advancesD: "advances m \<Longrightarrow> m s = (r, s') \<Longrightarrow> Revision (LossJournal s) \<le> Revision (LossJournal s')"
  by (metis advances_def snd_conv)

lemma advances_bind [advances]:
  assumes "advances m" "\<And>a. advances (f a)"
  shows "advances (op_bind m f)"
proof (rule advancesI)
  fix s
  obtain r s1 where m: "m s = (r, s1)" by fastforce
  with assms(1) have "Revision (LossJournal s) \<le> Revision (LossJournal s1)" by (rule advancesD)
  also have "Revision (LossJournal s1) \<le> Revision (LossJournal (snd (op_bind m f s)))"
    using assms(2) m by (cases r) (simp_all add: op_bind_def advances_def)
  finally show "Revision (LossJournal s) \<le> Revision (LossJournal (snd (op_bind m f s)))" .
qed

lemma advances_faulting [advances]: "advances m \<Longrightarrow> advances (faulting m)"
  by (rule advancesI) (auto simp: faulting_def split: prod.splits sum.splits dest: advancesD)

lemma advances_disk_only: "(\<And>s r s'. m s = (r, s') \<Longrightarrow> disk_only s s') \<Longrightarrow> advances m"
  by (rule advancesI) (metis disk_onlyD(3) order_refl surjective_pairing)

lemma advances_pure: "(\<And>s. LossJournal (snd (m s)) = LossJournal s) \<Longrightarrow> advances m"
  by (rule advancesI) simp

lemma advances_calls [advances]:
  "advances (write_offsets j)" "advances (write_losses l)" "advances (remove_seg name)" "advances sync_dir"
  "advances (create_seg name)" "advances (open_seg name)" "advances (write_record name r)"
  by (rule advances_disk_only, erule write_offsets_spec write_losses_spec remove_seg_spec sync_dir_spec)+
    (rule advances_disk_only; auto simp: create_seg_def open_seg_def write_record_def os_call_def next_outcome_def disk_only_def
      split: if_split_asm list.splits outcome.splits prod.splits option.splits)+

lemma advances_guards [advances]: "advances writable" "advances (from_result r)" "advances (return_ok a)" "advances (fail_with e)"
  by (rule advances_pure, simp add: writable_def ready_def from_result_def return_ok_def fail_with_def op_bind_def
      split: option.split)+

text \<open>An operation that looks at the state first.\<close>

lemma advances_here: "(\<And>s. advances (f s)) \<Longrightarrow> advances (\<lambda>s. f s s)"
  by (simp add: advances_def)

lemma advances_record_loss [advances]: "advances (record_segment_loss seg reason)"
proof (rule advancesI)
  fix s
  show "Revision (LossJournal s) \<le> Revision (LossJournal (snd (record_segment_loss seg reason s)))"
    by (auto simp: record_segment_loss_def op_bind_def from_result_def Let_def
        split: prod.splits sum.splits dest!: advancesD[OF advances_calls(6)] advancesD[OF advances_calls(2)])
qed

text \<open>One step of a run, for the operations that look at the state in between.\<close>

lemmas advances_steps = advancesD[OF advances_record_loss] advancesD[OF advances_calls(3)]
  advancesD[OF advances_faulting[OF advances_calls(4)]] advancesD[OF advances_faulting[OF advances_calls(1)]]
  advancesD[OF advances_faulting[OF advances_calls(2)]] advancesD[OF advances_calls(5)] advancesD[OF advances_calls(4)]
  advancesD[OF advances_calls(6)] advancesD[OF advances_faulting[OF advances_calls(7)]]

lemma forget_drop_revision [simp]:
  "LossJournal (forget_offset name s) = LossJournal s"
  "Revision (LossJournal (drop_segment i name s)) = Revision (LossJournal s)"
  by (simp_all add: forget_offset_def drop_segment_def)

lemma advances_evict [advances]: "advances (evict i reason)"
proof (rule advancesI)
  fix s
  obtain r s' where e: "evict i reason s = (r, s')" by fastforce
  show "Revision (LossJournal s) \<le> Revision (LossJournal (snd (evict i reason s)))"
    using e by (auto simp: evict_def Let_def return_ok_def elim!: op_bindE split: if_split_asm dest!: advances_steps)
qed

lemma advances_prune [advances]: "advances (prune now n)"
proof (rule advancesI)
  fix s
  show "Revision (LossJournal s) \<le> Revision (LossJournal (snd (prune now n s)))"
  proof (induction now n s rule: prune.induct)
    case (1 now n s)
    show ?case
    proof (cases "select_victim now n s")
      case None
      then show ?thesis by (simp add: prune.simps)
    next
      case (Some v)
      obtain i reason where v: "v = (i, reason)" by fastforce
      obtain x s1 where e: "evict i reason s = (x, s1)" by fastforce
      have "Revision (LossJournal s) \<le> Revision (LossJournal s1)" by (rule advancesD[OF advances_evict e])
      with 1[OF Some v[symmetric] e[symmetric]] Some v e show ?thesis
        by (cases x) (force simp: prune.simps[of now n s])+
    qed
  qed
qed

lemma advances_open_segment [advances]: "advances (open_segment uuid r)"
  by (rule advancesI) (auto simp: open_segment_def op_bind_def Let_def split: option.split sum.split prod.split
      dest!: advances_steps)

lemma advances_append [advances]: "advances (Spool.append now uuid r)"
proof (rule advancesI)
  fix s
  obtain x s' where a: "Spool.append now uuid r s = (x, s')" by fastforce
  show "Revision (LossJournal s) \<le> Revision (LossJournal (snd (Spool.append now uuid r s)))"
    using a by (auto simp: append_def Let_def from_result_def fail_with_def grow_last_def elim!: op_bindE split: if_split_asm
        dest!: advances_steps advancesD[OF advances_prune] advancesD[OF advances_open_segment] advancesD[OF advances_guards(1)])
qed

lemma advances_read_pending [advances]: "advances (read_pending now boot g current mb mf)"
proof (rule advancesI)
  fix s
  obtain x s' where a: "read_pending now boot g current mb mf s = (x, s')" by fastforce
  show "Revision (LossJournal s) \<le> Revision (LossJournal (snd (read_pending now boot g current mb mf s)))"
    using a by (auto simp: read_pending_def read_segment_def Let_def from_result_def fail_with_def elim!: op_bindE
        split: if_split_asm option.split_asm
        dest!: advances_steps advancesD[OF advances_prune] advancesD[OF advances_guards(1)])
qed

lemma advances_ack [advances]: "advances (ack now c)"
proof (rule advancesI)
  fix s
  obtain x s' where a: "ack now c s = (x, s')" by fastforce
  show "Revision (LossJournal s) \<le> Revision (LossJournal (snd (ack now c s)))"
    using a by (auto simp: ack_def Let_def set_offset_def set_ack_def elim!: op_bindE
        split: if_split_asm option.split_asm
        dest!: advances_steps advancesD[OF advances_prune] advancesD[OF advances_guards(1)])
qed

lemma advances_quarantine [advances]: "advances (quarantine c code)"
proof (rule advancesI)
  fix s
  obtain x s' where a: "quarantine c code s = (x, s')" by fastforce
  show "Revision (LossJournal s) \<le> Revision (LossJournal (snd (quarantine c code s)))"
    using a by (auto simp: quarantine_def Let_def elim!: op_bindE
        split: if_split_asm option.split_asm
        dest!: advances_steps advancesD[OF advances_guards(1)])
qed

section \<open>What a cycle leaves of a pending status\<close>

definition ledger :: "runner \<Rightarrow> nat" where
  "ledger r = Revision (LossJournal (RunSpool r))"

definition status_kept :: "runner \<Rightarrow> runner \<Rightarrow> bool" where
  "status_kept r r' \<longleftrightarrow> PendingStatus r' = PendingStatus r \<and> PendingLossRev r' = PendingLossRev r
     \<and> PendingLosses r' = PendingLosses r \<and> StatusSequence r' = StatusSequence r \<and> ledger r \<le> ledger r'"

lemma status_kept_refl [simp]: "status_kept r r" and status_kept_trans: "status_kept r s \<Longrightarrow> status_kept s t \<Longrightarrow> status_kept r t"
  by (auto simp: status_kept_def)

lemma status_kept_simps [simp]:
  "status_kept r (r\<lparr>RunBudget := g\<rparr>)" "status_kept r (r\<lparr>RunStatus := v\<rparr>)" "status_kept r (next_sequence source r)"
  by (simp_all add: status_kept_def ledger_def next_sequence_def)

lemma on_spool_kept: "advances m \<Longrightarrow> on_spool m r = (x, r') \<Longrightarrow> status_kept r r'"
  by (auto simp: on_spool_def status_kept_def ledger_def split: prod.splits sum.splits dest: advancesD)

lemma append_frames_kept: "append_frames k env fs r = (x, r') \<Longrightarrow> status_kept r r'"
proof (induction k env fs r rule: append_frames.induct)
  case (2 k env f fs r)
  obtain y r1 where a: "append_frame k (env 0) f r = (y, r1)" by fastforce
  then have "status_kept r r1"
    by (auto simp: append_frame_def Let_def split: sum.splits prod.splits
        dest!: on_spool_kept[OF advances_append] intro: status_kept_trans[rotated])
  with 2 a show ?case by (cases y) (auto intro: status_kept_trans)
qed simp

lemma quarantined_kept: "quarantined c code r = (e, r') \<Longrightarrow> status_kept r r'"
  by (auto simp: quarantined_def split: sum.splits prod.splits dest: on_spool_kept[OF advances_quarantine])

lemma lane_reply_kept: "lane_reply env p b answer r = (x, r') \<Longrightarrow> status_kept r r'"
  by (auto simp: lane_reply_def split: sum.splits send_error.splits prod.splits if_split_asm
      dest!: quarantined_kept on_spool_kept[OF advances_ack] intro: status_kept_trans)

lemma lane_send_kept: "lane_send env current p b r = (x, r') \<Longrightarrow> status_kept r r'"
  by (auto simp: lane_send_def lane_budget_def split: prod.splits if_split_asm dest!: lane_reply_kept
      intro: status_kept_trans[rotated])

lemma lane_attempt_kept:
  assumes "lane_attempt k env current mf r = (x, r')"
  shows "status_kept r r'"
proof -
  obtain y r1 where read: "on_spool (read_pending (ReadNow env) (RunBoot r) (PGeneration (pairing_snapshot (RunPairing r))) current
      262144 mf) r = (y, r1)" by fastforce
  note one = on_spool_kept[OF advances_read_pending read]
  have "status_kept r1 r'"
  proof (cases y)
    case (Inl e)
    with assms read show ?thesis by (auto simp: lane_attempt_def)
  next
    case (Inr p)
    with assms read show ?thesis
      by (auto simp: lane_attempt_def split: list.splits sum.splits option.splits prod.splits
          intro: lane_send_kept quarantined_kept[OF prod.collapse[symmetric]])
  qed
  with one show ?thesis by (rule status_kept_trans)
qed

lemma send_lane_kept: "send_lane k env current mf r = (x, r') \<Longrightarrow> status_kept r r'"
proof (induction k env current mf r rule: send_lane.induct)
  case (1 k env current mf r)
  obtain y r1 where a: "lane_attempt k (env 0) current mf r = (y, r1)" by fastforce
  show ?case
  proof (cases y)
    case (Returns b e)
    with 1(2) a show ?thesis by (auto simp: send_lane.simps[of k env] dest: lane_attempt_kept)
  next
    case Halve
    with 1(2) a have "send_lane k (\<lambda>n. env (Suc n)) current (max 1 (mf div 2)) r1 = (x, r')"
      by (simp add: send_lane.simps[of k env])
    from status_kept_trans[OF lane_attempt_kept[OF a] 1(1)[OF a[symmetric] Halve this]] show ?thesis .
  qed
qed

lemma send_pending_kept: "send_pending k live replay r = (x, r') \<Longrightarrow> status_kept r r'"
  by (auto simp: send_pending_def split: prod.splits option.splits dest!: send_lane_kept intro: status_kept_trans)

section \<open>A status whose losses have moved on\<close>

text \<open>A pending status that names losses, and a loss ledger that has been revised since.\<close>

definition status_stuck :: "runner \<Rightarrow> bool" where
  "status_stuck r \<longleftrightarrow> PendingStatus r \<noteq> None \<and> 0 < PendingLosses r \<and> PendingLossRev r < ledger r"

text \<open>The hub does not call the status gone.\<close>

definition not_gone :: "source_status \<Rightarrow> status_env \<Rightarrow> bool" where
  "not_gone s env \<longleftrightarrow> (case StatusReply env s of Reply status w a \<Rightarrow> status \<noteq> 410 | NoReply m \<Rightarrow> True)"

lemma not_gone_error: "not_gone s env \<Longrightarrow> transport_status l j s (StatusReply env s) = Err e \<Longrightarrow> \<not> gone (Some (SendError e))"
  by (auto simp: not_gone_def transport_status_def checked_reply_def transport_post_def transport_do_def
      result_bind_Err split: reply.splits sum.splits if_split_asm option.splits)

lemma transmit_stuck:
  assumes "status_stuck r" "PendingStatus r = Some s" "not_gone s env" "transmit_status env s r = (e, r')"
  shows "r' = r" "e \<noteq> None" "\<not> gone e"
proof -
  have ack: "\<exists>e. on_spool (ack_losses_prefix (PendingLossRev r) (PendingLosses r)) r = (Inl (SpoolError e), r)"
    using assms(1) by (auto simp: on_spool_def ack_losses_prefix_def op_bind_def writable_def ready_def status_stuck_def
        ledger_def split: option.split)
  have "r' = r \<and> e \<noteq> None \<and> \<not> gone e"
    using assms ack by (auto simp: transmit_status_def status_stuck_def split: sum.splits dest: not_gone_error)
  then show "r' = r" "e \<noteq> None" "\<not> gone e" by auto
qed

text \<open>What a cycle is given besides the runner.\<close>

type_synonym cycle_input = "cycle_env \<times> runner_error option \<times> collector_frame list"

fun run_cycles :: "frame_codec \<Rightarrow> cycle_input list \<Rightarrow> runner \<Rightarrow> runner" where
  "run_cycles k [] r = r"
| "run_cycles k ((env, earlier, frames) # cs) r = run_cycles k cs (snd (deliver_cycle k env earlier frames r))"

lemma send_status_stuck:
  assumes "status_stuck r" "PendingStatus r = Some s" "not_gone s env" "send_status env now r = (e, r')"
  shows "\<exists>g. r' = r\<lparr>RunBudget := g\<rparr>" "fst (allow_control (StatusBudgetNow env) 4096 (RunBudget r)) \<Longrightarrow> e \<noteq> None"
proof -
  obtain allowed g where b: "allow_control (StatusBudgetNow env) 4096 (RunBudget r) = (allowed, g)" by fastforce
  let ?r = "r\<lparr>RunBudget := g\<rparr>"
  have st: "status_stuck ?r" "PendingStatus ?r = Some s" using assms(1,2) by (simp_all add: status_stuck_def ledger_def)
  obtain e1 r1 where t: "transmit_status env s ?r = (e1, r1)" by fastforce
  note stuck = transmit_stuck[OF st assms(3) t]
  have "r' = ?r \<and> (allowed \<longrightarrow> e \<noteq> None)"
    using assms(2,4) b t stuck by (cases allowed) (auto simp: send_status_def Let_def split: if_split_asm)
  with b show "\<exists>g. r' = r\<lparr>RunBudget := g\<rparr>" "fst (allow_control (StatusBudgetNow env) 4096 (RunBudget r)) \<Longrightarrow> e \<noteq> None"
    by auto
qed

lemma append_frames_budget: "append_frames k env fs r = (x, r') \<Longrightarrow> RunBudget r' = RunBudget r"
proof (induction k env fs r rule: append_frames.induct)
  case (2 k env f fs r)
  obtain y r1 where a: "append_frame k (env 0) f r = (y, r1)" by fastforce
  then have "RunBudget r1 = RunBudget r"
    by (auto simp: append_frame_def Let_def on_spool_def next_sequence_def split: sum.splits prod.splits)
  with 2 a show ?case by (cases y) auto
qed simp

lemma cycle_stuck:
  assumes "status_stuck r" "PendingStatus r = Some s" "not_gone s (StatusStep env)"
    and "deliver_cycle k env earlier frames r = (e, r')"
  shows "status_kept r r'" "fst (allow_control (StatusBudgetNow (StatusStep env)) 4096 (RunBudget r)) \<Longrightarrow>
     e \<noteq> None \<and> RunSpool r' = RunSpool (snd (append_frames k (Appends env) frames r))"
proof -
  obtain x r1 where a: "append_frames k (Appends env) frames r = (x, r1)" by fastforce
  note one = append_frames_kept[OF a]
  then have st: "status_stuck r1" "PendingStatus r1 = Some s"
    using assms(1,2) by (auto simp: status_kept_def status_stuck_def)
  obtain y r2 where t: "send_status (StatusStep env) (CycleNowMS env) r1 = (y, r2)" by fastforce
  note stuck = send_status_stuck[OF st assms(3) t]
  from stuck(1) obtain g where r2: "r2 = r1\<lparr>RunBudget := g\<rparr>" by blast
  then have two: "status_kept r r2" using one by (auto intro: status_kept_trans)
  show "status_kept r r'"
  proof (cases "(\<exists>e. x = Inl e) \<or> y \<noteq> None")
    case True
    with assms(4) a t one two show ?thesis by (cases x; cases y) (auto simp: deliver_cycle_def)
  next
    case False
    obtain z r3 where p: "send_pending k (LiveLane env) (ReplayLane env) r2 = (z, r3)" by fastforce
    note three = status_kept_trans[OF two send_pending_kept[OF p]]
    with False assms(4) a t p show ?thesis
      by (cases x; cases z) (auto simp: deliver_cycle_def intro: status_kept_trans)
  qed
  assume "fst (allow_control (StatusBudgetNow (StatusStep env)) 4096 (RunBudget r))"
  with stuck(2) append_frames_budget[OF a] have "y \<noteq> None" by simp
  then show "e \<noteq> None \<and> RunSpool r' = RunSpool (snd (append_frames k (Appends env) frames r))"
    using assms(4) a t r2 by (cases x) (auto simp: deliver_cycle_def)
qed

text \<open>
  (C36) As long as the hub does not answer 410 to it, a status can block every later one and the batches
  behind it: once the loss ledger has been revised after a status with losses was built (by an eviction
  between its first transmission and an acknowledged one), its acknowledgement can never be matched with the
  ledger. So through every sequence of cycles in none of which the answer to it is a 410, the same status
  stays pending, its sequence number never advances and its losses are never acknowledged; and each such
  cycle whose turn on the control lane comes reports an error and sends no batch. A 410 clears the pending
  status; the hub answers it to an old status that it has not stored, and never to one that it has.
\<close>
theorem stale_status_blocks_delivery:
  assumes "status_stuck r" "PendingStatus r = Some s" "\<forall>(env, earlier, frames) \<in> set cs. not_gone s (StatusStep env)"
  shows "PendingStatus (run_cycles k cs r) = Some s \<and> StatusSequence (run_cycles k cs r) = StatusSequence r
    \<and> status_stuck (run_cycles k cs r) \<and>
    (not_gone s (StatusStep env) \<longrightarrow>
      fst (allow_control (StatusBudgetNow (StatusStep env)) 4096 (RunBudget (run_cycles k cs r))) \<longrightarrow>
      fst (deliver_cycle k env earlier frames (run_cycles k cs r)) \<noteq> None \<and>
      RunSpool (snd (deliver_cycle k env earlier frames (run_cycles k cs r))) =
        RunSpool (snd (append_frames k (Appends env) frames (run_cycles k cs r))))"
proof -
  have kept: "status_kept r (run_cycles k cs r)" using assms
  proof (induction cs arbitrary: r)
    case (Cons c cs)
    obtain env earlier frames where c: "c = (env, earlier, frames)" using prod_cases3 by blast
    obtain e r1 where d: "deliver_cycle k env earlier frames r = (e, r1)" by fastforce
    have "status_kept r r1" by (rule cycle_stuck(1)[OF Cons.prems(1,2) _ d]) (use Cons.prems(3) c in simp)
    moreover from this have "status_kept r1 (run_cycles k cs r1)"
      using Cons.prems by (intro Cons.IH) (auto simp: status_kept_def status_stuck_def)
    ultimately show ?case by (auto simp: c d intro: status_kept_trans)
  qed simp
  then have here: "status_stuck (run_cycles k cs r)" "PendingStatus (run_cycles k cs r) = Some s"
    using assms(1,2) by (auto simp: status_kept_def status_stuck_def)
  show ?thesis
    using here kept cycle_stuck(2)[OF here _ prod.collapse[symmetric]] by (auto simp: status_kept_def)
qed

text \<open>
  The sample runner with a status that names one loss of revision 1; then an eviction moved the ledger to
  revision 2. Three cycles of a hub that acknowledges the status each time change nothing.
\<close>

definition sample_loss :: loss where
  "sample_loss = \<lparr>LossSource = sample_id (CHR ''5''), StartMS = 1, EndMS = 2, LossCount = 1, LossReason = ''spool_age''\<rparr>"

definition stuck_runner :: runner where
  "stuck_runner = (let s = RunSpool link_runner; j = LossJournal s;
       r = prepare_status 10 (link_runner\<lparr>RunSpool := s\<lparr>LossJournal := j\<lparr>Revision := 1, Losses := [sample_loss]\<rparr>\<rparr>\<rparr>) in
     r\<lparr>RunSpool := s\<lparr>LossJournal := j\<lparr>Revision := 2, Losses := [bump_loss link_record sample_loss]\<rparr>\<rparr>\<rparr>)"

definition stuck_cycle :: "instant \<Rightarrow> cycle_env" where
  "stuck_cycle t = \<lparr>CycleNowMS = 70000, Appends = (\<lambda>_. \<lparr>AppendNow = 70000, AppendUUID = None\<rparr>),
     StatusStep = \<lparr>StatusBudgetNow = t, StatusLink = \<lparr>Opened = True, SocketCheck = None\<rparr>, StatusJSON = (\<lambda>_. Ok 100),
       StatusReply = (\<lambda>s. Reply 200 [] (Some \<lparr>SAckCollectorBootID = StCollectorBootID s, SAckSequence = StSequence s,
          SAckDurable = True, SAckDuplicate = True\<rparr>))\<rparr>,
     LiveLane = (\<lambda>_. link_lane 1000), ReplayLane = (\<lambda>_. link_lane 1000)\<rparr>"

lemma stuck_runner: "status_stuck stuck_runner" "StatusSequence stuck_runner = 0" by code_simp+

lemma stale_status_blocks_delivery_witness:
  "PendingStatus (run_cycles link_codec (replicate 3 (stuck_cycle clock0, None, [])) stuck_runner) \<noteq> None \<and>
   StatusSequence (run_cycles link_codec (replicate 3 (stuck_cycle clock0, None, [])) stuck_runner) = 0"
proof -
  obtain s where s: "PendingStatus stuck_runner = Some s" using stuck_runner by (auto simp: status_stuck_def)
  have "not_gone s (StatusStep (stuck_cycle clock0))" by (simp add: not_gone_def stuck_cycle_def)
  with stale_status_blocks_delivery[OF stuck_runner(1) s, of "replicate 3 (stuck_cycle clock0, None, [])" link_codec]
  show ?thesis by (simp add: stuck_runner(2))
qed

section \<open>A status that was stored is never called gone\<close>

definition to_status_reply :: "response \<Rightarrow> status_ack reply" where
  "to_status_reply resp = (case resp of
     HttpError status retry \<Rightarrow> Reply status retry None
   | HttpOK answer \<Rightarrow> Reply 200 '''' (case answer of StatusAnswer a \<Rightarrow> Some a | _ \<Rightarrow> None))"

definition status_answer :: "wire_env \<Rightarrow> source_status \<Rightarrow> hub_socket \<Rightarrow> status_ack reply \<times> hub_socket" where
  "status_answer e s h =
     (if \<not> RequestArrives e then (NoReply ''connection'', h)
      else case collector_post (Hop e) (Status (Ok s)) h of (resp, h') \<Rightarrow>
        (if AnswerArrives e then to_status_reply resp else NoReply ''timeout'', h'))"

definition status_is_stored :: "status_codec \<Rightarrow> source_status \<Rightarrow> store_db \<Rightarrow> bool" where
  "status_is_stored k s db \<longleftrightarrow>
     ptr_and (find (\<lambda>r. status_of_boot s r \<and> SsSequence r = StSequence s) (StatusRows db)) (\<lambda>r. SsHash r = StatusDigest k s)"

lemma for_all_unit_Err: "for_all (\<lambda>x _. f x) xs () = Err e \<Longrightarrow> \<exists>x\<in>set xs. f x = Err e"
  by (induction xs) (auto simp: result_bind_Err)

lemma owners_not_expired: "for_all (\<lambda>x _. require_source_owner d i (f x) active h) xs () \<noteq> Err ErrStatusObservationExpired"
  by (auto dest!: for_all_unit_Err simp: require_source_owner_def ensure_def split: if_splits)

lemma status_body_stored:
  assumes "status_is_stored k s db" "status_body k now s db = r"
  shows "case r of Err e \<Rightarrow> e \<noteq> ErrStatusObservationExpired | Ok (a, db') \<Rightarrow> SAckDuplicate a \<and> db' = db"
proof -
  have "admit_status k now s db = Ok (True, db)"
    using assms(1) by (cases "find (\<lambda>r. status_of_boot s r \<and> SsSequence r = StSequence s) (StatusRows db)")
      (auto simp: status_is_stored_def admit_status_def)
  moreover have "validate_current_session h d i g n b \<noteq> Err ErrStatusObservationExpired" for h d i g n b
    by (auto simp: validate_current_session_def split: option.splits)
  ultimately show ?thesis
    using assms(2) by (auto simp: status_body_def Let_def result_bind_Err owners_not_expired split: sum.splits elim!: result_bind_OkE)
qed

lemma ingest_status_stored:
  assumes "status_is_stored k s db" "Admission env \<noteq> Some ErrStatusObservationExpired" "ingest_status k env s db = (r, db')"
  shows "db' = db" "case r of Err e \<Rightarrow> e \<noteq> ErrStatusObservationExpired | Ok a \<Rightarrow> SAckDuplicate a"
  using assms status_body_stored[OF assms(1) refl, of "HubNow env"]
  by (auto simp: ingest_status_def transaction_def split: sum.splits if_splits option.splits)

lemma local_admission_gone: "local_admission_error (StoreError x) = (status, wait) \<Longrightarrow> status = 410 \<Longrightarrow> x = ErrStatusObservationExpired"
  by (auto simp: local_admission_error_def split: if_split_asm)

lemma status_post_stored:
  assumes "status_is_stored (StatusCodec env) s (Db h)" "Admission (StoreEnv env) \<noteq> Some ErrStatusObservationExpired"
    and "collector_post env (Status (Ok s)) h = (resp, h')"
  shows "Db h' = Db h" "case resp of HttpError status wait \<Rightarrow> status \<noteq> 410 \<and> status \<noteq> 200
    | HttpOK y \<Rightarrow> (\<exists>a. y = StatusAnswer a \<and> SAckDuplicate a)"
proof -
  let ?good = "Db h' = Db h \<and> (case resp of HttpError status wait \<Rightarrow> status \<noteq> 410 \<and> status \<noteq> 200
    | HttpOK y \<Rightarrow> (\<exists>a. y = StatusAnswer a \<and> SAckDuplicate a))"
  consider ?good | v lm where "status_route env v (Ok s) (h\<lparr>Limiter := lm\<rparr>) = (resp, h')"
    using assms(3) by (auto simp: collector_post_def route_def split: if_split_asm option.splits sum.splits prod.splits)
  then have ?good
  proof cases
    case (2 v lm)
    obtain r db' where i: "ingest_status (StatusCodec env) (StoreEnv env) s (Db h) = (r, db')" by fastforce
    note stored = ingest_status_stored[OF assms(1,2) i]
    from 2 i stored show ?good
      by (auto simp: status_route_def respond_def split: if_split_asm sum.splits prod.splits
          dest: local_admission_gone local_admission_status)
  qed
  then show "Db h' = Db h" "case resp of HttpError status wait \<Rightarrow> status \<noteq> 410 \<and> status \<noteq> 200
    | HttpOK y \<Rightarrow> (\<exists>a. y = StatusAnswer a \<and> SAckDuplicate a)" by auto
qed

text \<open>
  (C30) A lost acknowledgement of a status is made good at any age: to a status it has stored, the hub
  never answers 410, however old the observation is by then, so the collector never builds a second
  status for the same losses; when it acknowledges, it says the status is a duplicate, and the stored
  rows stay as they are.
\<close>
theorem stored_status_is_never_gone:
  assumes "status_is_stored (StatusCodec (Hop e)) s (Db h)" "Admission (StoreEnv (Hop e)) \<noteq> Some ErrStatusObservationExpired"
    and "status_answer e s h = (r, h')"
  shows "Db h' = Db h \<and> (case r of
      Reply status wait a \<Rightarrow> status \<noteq> 410 \<and> (status = 200 \<longrightarrow> ptr_and a SAckDuplicate)
    | NoReply m \<Rightarrow> True)"
proof (cases "RequestArrives e")
  case True
  obtain resp h1 where post: "collector_post (Hop e) (Status (Ok s)) h = (resp, h1)" by fastforce
  from status_post_stored[OF assms(1,2) post] post assms(3) True show ?thesis
    by (auto simp: status_answer_def to_status_reply_def split: if_split_asm response.splits)
qed (use assms(3) in \<open>auto simp: status_answer_def\<close>)

text \<open>A status of the sample collector, stored by the sample hub, comes again.\<close>

definition stored_status :: source_status where
  "stored_status = build_status 10 link_runner"

definition status_hub :: hub_socket where
  "status_hub = link_hub\<lparr>Db := ingest_db\<lparr>StatusRows := [\<lparr>SsDeployment = StDeploymentID stored_status, SsHost = StHostID stored_status,
     SsSecurity = StSecurityGeneration stored_status, SsSession = StSessionGeneration stored_status,
     SsBoot = StCollectorBootID stored_status, SsSequence = StSequence stored_status,
     SsObserved = StObservedWallMS stored_status, SsPayload = stored_status, SsHash = [], SsAdmitted = 10\<rparr>]\<rparr>\<rparr>"

lemma stored_status_is_never_gone_witness:
  "Db (snd (status_answer (link_wire ingest_env) stored_status status_hub)) = Db status_hub"
proof -
  have "status_is_stored (StatusCodec (Hop (link_wire ingest_env))) stored_status (Db status_hub)"
    by (simp add: status_is_stored_def status_hub_def link_wire_def status_of_boot_def)
  from stored_status_is_never_gone[OF this _ prod.collapse[symmetric]]
  show ?thesis by (simp add: link_wire_def ingest_env_def)
qed

end
