(* ===== verification/RetryProperties.thy ===== *)
theory RetryProperties
  imports Runner
begin

text \<open>
  The retries of the handshake: when the loop of \<open>retry\<close> comes back, and how long it waits.
\<close>

section \<open>When a retry comes back\<close>

text \<open>The runner at the start of attempt \<open>n\<close>, and whether that attempt is the last.\<close>

primrec attempt_state :: "(nat \<Rightarrow> 'a step) \<Rightarrow> nat \<Rightarrow> runner \<Rightarrow> nat \<Rightarrow> runner" where
  "attempt_state operation n r 0 = r"
| "attempt_state operation n r (Suc i) = (case operation (n + i) (attempt_state operation n r i) of
     (Inl e, r') \<Rightarrow> set_error e r' | (Inr a, r') \<Rightarrow> r')"

definition last_attempt :: "(nat \<Rightarrow> retry_env) \<Rightarrow> (nat \<Rightarrow> 'a step) \<Rightarrow> nat \<Rightarrow> runner \<Rightarrow> bool" where
  "last_attempt env operation n r \<longleftrightarrow> (case fst (operation n r) of
     Inl e \<Rightarrow> gives_up e \<or> Cancelled (env n) | Inr a \<Rightarrow> True)"

lemma attempt_state_shift:
  "operation n r = (Inl e, r') \<Longrightarrow> attempt_state operation (Suc n) (set_error e r') i = attempt_state operation n r (Suc i)"
  by (induction i) simp_all

lemma retry_step_last: "last_attempt env operation n r \<Longrightarrow> \<exists>y. retry_loop env operation n delay r = Some y"
  by (subst retry_loop.simps) (auto simp: last_attempt_def split: sum.splits prod.splits)

lemma retry_step_more:
  assumes "\<not> last_attempt env operation n r"
  obtains e r' where "operation n r = (Inl e, r')"
    "\<And>delay. \<exists>d. retry_loop env operation n delay r = retry_loop env operation (Suc n) d (set_error e r')"
proof -
  obtain x r' where o: "operation n r = (x, r')" by fastforce
  with assms obtain e where e: "x = Inl e" "\<not> gives_up e" "\<not> Cancelled (env n)"
    by (cases x) (auto simp: last_attempt_def)
  show thesis
    by (rule that[of e r'], use o e in simp, subst retry_loop.simps) (auto simp: o e)
qed

lemma retry_returns:
  "last_attempt env operation (n + i) (attempt_state operation n r i) \<Longrightarrow> \<exists>y. retry_loop env operation n delay r = Some y"
proof (induction i arbitrary: n r delay)
  case 0
  then show ?case using retry_step_last by simp
next
  case (Suc i)
  show ?case
  proof (cases "last_attempt env operation n r")
    case False
    then obtain e r' d where s: "operation n r = (Inl e, r')"
      "retry_loop env operation n delay r = retry_loop env operation (Suc n) d (set_error e r')" by (metis retry_step_more)
    with Suc.prems have "last_attempt env operation (Suc n + i) (attempt_state operation (Suc n) (set_error e r') i)"
      using attempt_state_shift[where operation = operation and i = i and n = n and r = r] by simp
    from Suc.IH[OF this] s(2) show ?thesis by simp
  qed (rule retry_step_last)
qed

lemma retry_last:
  assumes "retry_loop env operation n delay r = Some y"
  shows "\<exists>i. last_attempt env operation (n + i) (attempt_state operation n r i)"
proof (rule retry_loop.raw_induct[OF _ assms])
  fix f :: "(nat \<Rightarrow> retry_env) \<Rightarrow> (nat \<Rightarrow> 'a step) \<Rightarrow> nat \<Rightarrow> int64 \<Rightarrow> runner \<Rightarrow> ((runner_error, 'a) result \<times> runner) option"
    and env operation n delay r y
  assume IH: "\<And>env operation n delay r y. f env operation n delay r = Some y \<Longrightarrow>
      \<exists>i. last_attempt env operation (n + i) (attempt_state operation n r i)"
    and run: "(case operation n r of (res, r') \<Rightarrow> (case res of
        Inl e \<Rightarrow> if gives_up e then Some (Inl e, r')
          else if Cancelled (env n) then Some (Inl (RunnerError ''context canceled''), set_error e r')
          else f env operation (Suc n) (min 60000000000 (max 1000000000 (retry_wait (Draw (env n)) e delay))) (set_error e r')
      | Inr a \<Rightarrow> Some (Inr a, r'))) = Some y"
  show "\<exists>i. last_attempt env operation (n + i) (attempt_state operation n r i)"
  proof (cases "last_attempt env operation n r")
    case True
    then show ?thesis by (intro exI[of _ 0]) simp
  next
    case False
    obtain x r' where o: "operation n r = (x, r')" by fastforce
    with False obtain e where e: "x = Inl e" "\<not> gives_up e" "\<not> Cancelled (env n)"
      by (cases x) (auto simp: last_attempt_def)
    have "f env operation (Suc n) (min 60000000000 (max 1000000000 (retry_wait (Draw (env n)) e delay))) (set_error e r') = Some y"
      using run by (simp add: o e)
    from IH[OF this] obtain i where "last_attempt env operation (Suc n + i) (attempt_state operation (Suc n) (set_error e r') i)" ..
    then show ?thesis
      using attempt_state_shift[where operation = operation and i = i and n = n and r = r] o e
      by (intro exI[of _ "Suc i"]) simp
  qed
qed

text \<open>
  A retried call comes back exactly when some attempt ends it: one that succeeds, is refused for good
  (any status but 429, 503 and 5xx), or meets a cancelled context while waiting; each attempt starts from
  the runner that the failure before it left, which reports that error. Otherwise the loop goes on for
  ever.
\<close>
theorem retry_returns_iff:
  "(\<exists>y. retrying env operation r = Some y) \<longleftrightarrow> (\<exists>i. last_attempt env operation i (attempt_state operation 0 r i))"
  using retry_returns[where n = 0 and env = env and operation = operation and r = r]
    retry_last[where n = 0 and env = env and operation = operation and r = r] by (auto simp: retrying_def)

section \<open>How long it waits\<close>

definition draws_in_range :: "(int \<Rightarrow> int option) \<Rightarrow> int64 \<Rightarrow> bool" where
  "draws_in_range draw previous \<longleftrightarrow>
     (let bound = min 60000000000 (max 3000000000 (previous * 3)) - 1000000000 + 1 in
      case draw bound of None \<Rightarrow> True | Some n \<Rightarrow> 0 \<le> n \<and> n < bound)"

lemma retry_after_bounds: "1000000000 \<le> retry_after raw \<and> retry_after raw \<le> 60000000000"
  by (auto simp: retry_after_def split: option.split)

text \<open>The wait a failed call asks for.\<close>

lemma transport_wait:
  "transport_do l (x :: 'a reply) = Err e \<Longrightarrow> admission_wait (SendError e) \<le> 60000000000"
  using retry_after_bounds by (auto simp: transport_do_def split: if_split_asm option.split_asm reply.split_asm)

text \<open>
  A retry never hammers the hub and never sleeps long: after any failure of a call, with a random
  source that answers in its range or fails, the next wait is at least a second and at least what the
  hub asked for, at most a minute, and at most three times the last wait (three seconds at first) unless
  the hub asked for more; so the delay carried to the next round stays between one second and one minute.
\<close>
theorem retry_wait_bounds:
  assumes "transport_do l (x :: 'a reply) = Err e" "1000000000 \<le> previous" "previous \<le> 60000000000" "draws_in_range draw previous"
  shows "1000000000 \<le> retry_wait draw (SendError e) previous \<and> retry_wait draw (SendError e) previous \<le> 60000000000 \<and>
    admission_wait (SendError e) \<le> retry_wait draw (SendError e) previous \<and>
    retry_wait draw (SendError e) previous \<le> max (max 3000000000 (3 * previous)) (admission_wait (SendError e))"
proof -
  have d: "1000000000 \<le> decorrelated draw previous" "decorrelated draw previous \<le> 60000000000"
    "decorrelated draw previous \<le> max 3000000000 (3 * previous)"
    using assms(2-4) by (auto simp: decorrelated_def draws_in_range_def Let_def split: option.splits)
  then show ?thesis using transport_wait[OF assms(1)] by (auto simp: retry_wait_def)
qed

lemma retry_wait_bounds_witness:
  "retry_wait (\<lambda>b. Some 7) (SendError (AdmissionRefused 429 5000000000)) 1000000000 \<le> 60000000000"
proof -
  have "retry_after ''5'' = 5000000000" by code_simp
  then have "transport_do \<lparr>Opened = True, SocketCheck = None\<rparr> (Reply 429 ''5'' (None :: unit option)) =
      Err (AdmissionRefused 429 5000000000)" by (simp add: transport_do_def)
  from retry_wait_bounds[OF this, of 1000000000 "\<lambda>b. Some 7"] show ?thesis by (simp add: draws_in_range_def)
qed

end
