(* ===== verification/Notification.thy ===== *)
theory Notification
  imports Hub AlertTypes Targets
begin

text \<open>
  \<open>internal/domain/notification.go\<close> and the tables of \<open>internal/store/schema.sql\<close> that the notification
  outbox works on. Parsing a URL, a mail address, an IP address and a JSON text is the libraries' and is
  an argument.
\<close>

section \<open>Receivers\<close>

record url =
  UrlScheme :: string
  UrlHostname :: string
  UrlPort :: string
  UrlHasUser :: bool
  UrlFragment :: string

record net_libs =
  ParseURL :: "string \<Rightarrow> url option"
  ParseAddress :: "string \<Rightarrow> string option"
  IsIP :: "string \<Rightarrow> bool"

record webhook_destination =
  HTTPSURL :: string
  HMACEnabled :: bool

record smtp_destination =
  SmtpHost :: string
  SmtpPort :: int64
  TLSMode :: string
  MailFrom :: string
  MailTo :: string
  SmtpUsername :: "string option"

record notification_config =
  Webhook :: "webhook_destination option"
  SMTP :: "smtp_destination option"

definition needs_secret :: "notification_config \<Rightarrow> bool" where
  "needs_secret c \<longleftrightarrow> ptr_and (Webhook c) HMACEnabled \<or> ptr_and (SMTP c) (\<lambda>s. SmtpUsername s \<noteq> None)"

text \<open>The UTF-8 texts of Unicode's white space. A text is trimmed when it neither starts nor ends with one.\<close>

definition bytes :: "nat list \<Rightarrow> string" where "bytes ns = map char_of ns"

definition white_space :: "string list" where
  "white_space = map bytes ([[9], [10], [11], [12], [13], [32], [194, 133], [194, 160], [225, 154, 128],
     [226, 128, 168], [226, 128, 169], [226, 128, 175], [226, 129, 159], [227, 128, 128]] @
     map (\<lambda>n. [226, 128, n]) [128..<139])"

definition trimmed :: "string \<Rightarrow> bool" where
  "trimmed s \<longleftrightarrow> \<not> list_ex (\<lambda>w. take (length w) s = w \<or> take (length w) (rev s) = rev w) white_space"

definition atoi_port :: "string \<Rightarrow> bool" where
  "atoi_port p = (let ds = (if p \<noteq> [] \<and> (hd p = CHR ''-'' \<or> hd p = CHR ''+'') then tl p else p) in
     ds \<noteq> [] \<and> list_all is_digit ds \<and> (p = ds \<or> hd p = CHR ''+'') \<and> 1 \<le> digits_value ds \<and> digits_value ds \<le> 65535)"

definition valid_webhook :: "net_libs \<Rightarrow> webhook_destination \<Rightarrow> bool" where
  "valid_webhook l w \<longleftrightarrow> (case ParseURL l (HTTPSURL w) of
     None \<Rightarrow> False
   | Some u \<Rightarrow> int (length (HTTPSURL w)) \<le> 2048 \<and> no_controls (HTTPSURL w) \<and> UrlScheme u = ''https''
       \<and> UrlHostname u \<noteq> [] \<and> \<not> UrlHasUser u \<and> UrlFragment u = [] \<and> (UrlPort u = [] \<or> atoi_port (UrlPort u)))"

definition valid_address :: "net_libs \<Rightarrow> string \<Rightarrow> bool" where
  "valid_address l a \<longleftrightarrow> ParseAddress l a = Some a \<and> int (length a) \<le> 254 \<and> no_controls a"

definition valid_smtp :: "net_libs \<Rightarrow> smtp_destination \<Rightarrow> bool" where
  "valid_smtp l s \<longleftrightarrow>
     SmtpHost s \<noteq> [] \<and> int (length (SmtpHost s)) \<le> 253 \<and> trimmed (SmtpHost s)
     \<and> \<not> list_ex (\<lambda>c. c \<in> set ''/@[] '') (SmtpHost s) \<and> no_controls (SmtpHost s)
     \<and> (CHR '':'' \<in> set (SmtpHost s) \<longrightarrow> IsIP l (SmtpHost s)) \<and> 1 \<le> SmtpPort s \<and> SmtpPort s \<le> 65535
     \<and> (TLSMode s = ''starttls_required'' \<or> TLSMode s = ''implicit_tls'')
     \<and> valid_address l (MailFrom s) \<and> valid_address l (MailTo s)
     \<and> (case SmtpUsername s of None \<Rightarrow> True | Some u \<Rightarrow> u \<noteq> [] \<and> int (length u) \<le> 256 \<and> no_controls u)"

definition validate_notification_config :: "net_libs \<Rightarrow> string \<Rightarrow> notification_config \<Rightarrow> bool" where
  "validate_notification_config l kind c \<longleftrightarrow>
     (case (Webhook c, SMTP c) of
        (Some w, None) \<Rightarrow> kind = ''webhook'' \<and> valid_webhook l w
      | (None, Some s) \<Rightarrow> kind = ''smtp'' \<and> valid_smtp l s
      | _ \<Rightarrow> False)"

section \<open>Tables\<close>

datatype delivery_state =
    DeliveryPending | DeliveryLeased | DeliverySent | DeliveryFailed | DeliveryExpired | DeliverySuperseded | DeliveryMuted

record outbox_row =
  OxID :: string
  OxDeployment :: string
  OxInstance :: "string option"
  OxTransition :: "int64 option"
  OxDestination :: string
  OxDestRevision :: int64
  OxSecretRef :: "string option"
  OxRuleRevision :: "int64 option"
  OxGeneration :: int64
  OxKey :: string
  OxPayload :: string
  OxState :: delivery_state
  OxAttempts :: int64
  OxToken :: "string option"
  OxLease :: "int64 option"
  OxNext :: "int64 option"
  OxError :: "string option"
  OxStarted :: "int64 option"
  OxSent :: "int64 option"
  OxAck :: "int64 option"
  OxCompleted :: "int64 option"
  OxUnknown :: bool
  OxJob :: "string option"
  OxExpires :: int64
  OxCreated :: int64

record destination_row =
  DsID :: string
  DsDeployment :: string
  DsType :: string
  DsName :: string
  DsConfig :: string
  DsSecret :: "string option"
  DsVersion :: int64
  DsDisabled :: "int64 option"
  DsLastTest :: "int64 option"
  DsLastResult :: "string option"
  DsLastJob :: "string option"
  DsCreated :: int64
  DsUpdated :: int64

record instance_row =
  AiID :: string
  AiDeployment :: string
  AiRule :: string
  AiRuleVersion :: int64
  AiGeneration :: int64
  AiState :: state
  AiMuted :: "int64 option"
  AiTransition :: int64

record rule_row =
  RuID :: string
  RuDeployment :: string
  RuVersion :: int64

record revision_row =
  RvDeployment :: string
  RvRule :: string
  RvVersion :: int64
  RvScope :: string
  RvEvaluator :: rule_type

record transition_row =
  TnDeployment :: string
  TnInstance :: string
  TnSequence :: int64
  TnNew :: state

record alert_incident_row =
  AcDeployment :: string
  AcInstance :: "string option"
  AcStart :: int64
  AcEnd :: "int64 option"
  AcCreated :: int64

record window_row =
  WnDeployment :: string
  WnScope :: string
  WnStarts :: int64
  WnExpires :: int64
  WnCancelled :: "int64 option"

text \<open>A job of the type \<open>destination_test\<close> with the fields of its request.\<close>

record test_job_row =
  TjID :: string
  TjDeployment :: string
  TjGeneration :: string
  TjState :: string
  TjProgress :: rat
  TjDestination :: string
  TjDestRevision :: int64
  TjDelivery :: string
  TjActor :: string
  TjError :: "string option"
  TjLease :: "int64 option"
  TjCreated :: int64
  TjUpdated :: int64
  TjExpires :: int64

record user_row =
  UsID :: string
  UsDeployment :: string
  UsRole :: string
  UsTrust :: string
  UsDisabled :: bool
  UsHistorical :: bool

record notice_audit =
  NaID :: string
  NaDeployment :: string
  NaActor :: "string option"
  NaAction :: string
  NaResource :: string
  NaTime :: int64
  NaDetail :: "(string \<times> string) list"

end
