(* ===== verification/Outbox.thy ===== *)
theory Outbox
  imports Notification "HOL-Library.AList" "HOL-Library.List_Lexorder" "HOL-Library.Char_ord"
begin

text \<open>
  \<open>internal/store/outbox.go\<close>: the notification deliveries of a deployment, from the claim of the next
  delivery that is due to its completion or its retry by an administrator. Each operation is one
  transaction; the constraints of the table that a statement can meet are part of the statement.
\<close>

section \<open>State\<close>

datatype store_error =
    HubError hub_error | ErrDeliveryNotFound | ErrDeliveryConflict | ErrDeliveryStale | ErrDeliveryExpired
  | ErrDeliveryInvalid | ErrDestinationInvalid | ErrDestinationRevision | ErrDestinationConflict
  | ErrDestinationTestBusy | ErrDestinationNotFound | ErrDestinationLimit | NoRows

datatype json_scalar = JInt int | JBool bool | JText string | JOther string

type_synonym json_object = "(string \<times> json_scalar) list"

record rule_scope =
  ScopeID :: string
  ScopeKind :: string

text \<open>The scope of a maintenance window: \<open>scope_kind\<close>, \<open>scope_id\<close>, \<open>kind\<close> and \<open>id\<close>.\<close>

record window_scope =
  WScopeKind :: string
  WScopeID :: string
  WKind :: string
  WID :: string

text \<open>What a mutation answers: a destination, a test of it, or a delivery. The receipt of its key keeps it.\<close>

record destination_record =
  DrID :: string
  DrVersion :: int64
  DrKind :: string
  DrName :: string
  DrConfig :: notification_config
  DrSecret :: bool
  DrLastTest :: "int64 option"
  DrLastResult :: "string option"
  DrLastJob :: "string option"
  DrDisabled :: "int64 option"
  DrCreated :: int64
  DrUpdated :: int64

record test_job =
  JobID :: string
  JobDestination :: string
  JobRevision :: int64
  JobDelivery :: string
  JobState :: string
  JobError :: "string option"
  JobAck :: "int64 option"
  JobCreated :: int64
  JobUpdated :: int64
  JobExpires :: int64

datatype destination_op = CreateDestination | UpdateDestination | DisableDestination

datatype receipt_result =
  DeliveryReceipt outbox_row | TestReceipt test_job | DestinationReceipt destination_op destination_record | OtherReceipt

text \<open>The JSON library on the stored texts, and the validity checks of the network libraries.\<close>

record outbox_codec =
  Libs :: net_libs
  ConfigOf :: "string \<Rightarrow> notification_config option"
  ConfigText :: "notification_config \<Rightarrow> string"
  JsonValid :: "string \<Rightarrow> bool"
  JsonObject :: "string \<Rightarrow> json_object option"
  JsonText :: "json_object \<Rightarrow> string"
  RuleScopeOf :: "string \<Rightarrow> rule_scope option"
  ScopeIDAt :: "string \<Rightarrow> string option"
  WindowScopeOf :: "string \<Rightarrow> window_scope option"
  ReceiptLength :: "receipt_result \<Rightarrow> int"

record receipt =
  RtDeployment :: string
  RtGeneration :: string
  RtActor :: string
  RtKey :: string
  RtHash :: string
  RtStatus :: int64
  RtResult :: receipt_result
  RtCreated :: int64
  RtExpires :: int64

record outbox_db =
  OxHub :: hub
  Outbox :: "outbox_row list"
  Destinations :: "destination_row list"
  Instances :: "instance_row list"
  Rules :: "rule_row list"
  Revisions :: "revision_row list"
  Transitions :: "transition_row list"
  AlertIncidents :: "alert_incident_row list"
  Windows :: "window_row list"
  TestJobs :: "test_job_row list"
  Users :: "user_row list"
  Notices :: "notice_audit list"
  Receipts :: "receipt list"
  Random :: "string list"

type_synonym 'a tx = "outbox_db \<Rightarrow> (store_error, 'a \<times> outbox_db) result"

definition tx_bind :: "'a tx \<Rightarrow> ('a \<Rightarrow> 'b tx) \<Rightarrow> 'b tx" where
  "tx_bind m f db = result_bind (m db) (\<lambda>(a, db'). f a db')"

definition tx_ok :: "'a \<Rightarrow> 'a tx" where "tx_ok a db = Ok (a, db)"

definition tx_err :: "store_error \<Rightarrow> 'a tx" where "tx_err e db = Err e"

text \<open>A write transaction: the writer queue, then the statements, then the commit.\<close>

definition atomically :: "hub_env \<Rightarrow> 'a tx \<Rightarrow> outbox_db \<Rightarrow> (store_error, 'a) result \<times> outbox_db" where
  "atomically env m db =
     (case Admission env of
        Some e \<Rightarrow> (Err (HubError e), db)
      | None \<Rightarrow> (case m db of
          Err e \<Rightarrow> (Err e, db)
        | Ok (a, db') \<Rightarrow> (case CommitFails env of
            Some t \<Rightarrow> (Err (HubError (ErrDatabase t)), db)
          | None \<Rightarrow> (Ok a, db'))))"

definition fresh_uuid :: "string tx" where
  "fresh_uuid db = (case Random db of
     [] \<Rightarrow> Err (HubError (ErrDatabase ''read random'')) | u # us \<Rightarrow> Ok (u, db\<lparr>Random := us\<rparr>))"

section \<open>Updates of the outbox\<close>

definition row_is :: "string \<Rightarrow> string \<Rightarrow> outbox_row \<Rightarrow> bool" where
  "row_is d i r \<longleftrightarrow> OxDeployment r = d \<and> OxID r = i"

definition find_row :: "string \<Rightarrow> string \<Rightarrow> outbox_db \<Rightarrow> outbox_row option" where
  "find_row d i db = find (row_is d i) (Outbox db)"

definition update_outbox :: "(outbox_row \<Rightarrow> bool) \<Rightarrow> (outbox_row \<Rightarrow> outbox_row) \<Rightarrow> unit tx" where
  "update_outbox p f db = Ok ((), db\<lparr>Outbox := update_where p f (Outbox db)\<rparr>)"

definition waiting :: "delivery_state \<Rightarrow> bool" where
  "waiting s \<longleftrightarrow> s = DeliveryPending \<or> s = DeliveryFailed \<or> s = DeliveryMuted"

definition open_delivery :: "delivery_state \<Rightarrow> bool" where
  "open_delivery s \<longleftrightarrow> waiting s \<or> s = DeliveryLeased"

text \<open>A delivery that ends: without a lease and without a next attempt.\<close>

definition ended :: "delivery_state \<Rightarrow> string option \<Rightarrow> int64 \<Rightarrow> outbox_row \<Rightarrow> outbox_row" where
  "ended s code now r = r\<lparr>OxState := s, OxToken := None, OxLease := None, OxNext := None, OxError := code,
     OxCompleted := Some now\<rparr>"

definition lost_in_flight :: "outbox_row \<Rightarrow> outbox_row" where
  "lost_in_flight r = r\<lparr>OxUnknown := (OxState r = DeliveryLeased \<or> OxUnknown r)\<rparr>"

definition lease_ms :: int64 where "lease_ms = 30000"

definition supersede_delivery :: "string \<Rightarrow> string \<Rightarrow> string \<Rightarrow> int64 \<Rightarrow> unit tx" where
  "supersede_delivery d i code now =
     update_outbox (\<lambda>r. row_is d i r \<and> open_delivery (OxState r)) (\<lambda>r. ended DeliverySuperseded (Some code) now (lost_in_flight r))"

definition put_off :: "string \<Rightarrow> string \<Rightarrow> string \<Rightarrow> int64 \<Rightarrow> unit tx" where
  "put_off d i code until = update_outbox (row_is d i) (\<lambda>r. r\<lparr>OxState := DeliveryMuted, OxNext := Some until, OxError := Some code\<rparr>)"

definition suppress_in_flight :: "string \<Rightarrow> string \<Rightarrow> int64 \<Rightarrow> string \<Rightarrow> unit tx" where
  "suppress_in_flight d i until code =
     update_outbox (\<lambda>r. row_is d i r \<and> OxState r = DeliveryLeased) (\<lambda>r. r\<lparr>OxState := DeliveryMuted, OxToken := None,
       OxLease := None, OxNext := Some until, OxError := Some code, OxCompleted := None, OxUnknown := True\<rparr>)"

text \<open>Test jobs; their table refuses an update before the creation.\<close>

definition update_jobs :: "(test_job_row \<Rightarrow> bool) \<Rightarrow> (test_job_row \<Rightarrow> test_job_row) \<Rightarrow> nat tx" where
  "update_jobs p f db =
     (let rows = update_where p f (TestJobs db) in
      if list_ex (\<lambda>j. TjUpdated j < TjCreated j) rows then Err (HubError (ErrConstraint ''updated_ms>=created_ms''))
      else Ok (length (filter p (TestJobs db)), db\<lparr>TestJobs := rows\<rparr>))"

definition active_job :: "test_job_row \<Rightarrow> bool" where
  "active_job j \<longleftrightarrow> TjState j = ''queued'' \<or> TjState j = ''running''"

definition reconcile_leases :: "string \<Rightarrow> int64 \<Rightarrow> unit tx" where
  "reconcile_leases d now =
     tx_bind (update_outbox (\<lambda>r. OxDeployment r = d \<and> open_delivery (OxState r) \<and> OxExpires r \<le> now)
       (\<lambda>r. ended DeliveryExpired (Some ''delivery_expired'') now (lost_in_flight r))) (\<lambda>_.
     tx_bind (\<lambda>db. update_jobs (\<lambda>j. TjDeployment j = d \<and> active_job j \<and>
         list_ex (\<lambda>r. OxDeployment r = TjDeployment j \<and> OxJob r = Some (TjID j) \<and> OxState r = DeliveryExpired) (Outbox db))
       (\<lambda>j. j\<lparr>TjState := ''failed'', TjProgress := 1, TjError := Some ''delivery_expired'', TjLease := None, TjUpdated := now\<rparr>) db)
     (\<lambda>_. update_outbox (\<lambda>r. OxDeployment r = d \<and> OxState r = DeliveryLeased \<and> ptr_and (OxLease r) (\<lambda>t. t \<le> now) \<and> OxExpires r > now)
       (\<lambda>r. r\<lparr>OxState := DeliveryFailed, OxToken := None, OxLease := None, OxNext := Some now,
          OxError := Some ''receiver_ack_unknown'', OxUnknown := True\<rparr>)))"

section \<open>What holds a delivery back\<close>

definition valid_secret_ref :: "string \<Rightarrow> bool" where
  "valid_secret_ref s \<longleftrightarrow> length s = 64 \<and> list_all is_lower_hex s"

definition secret_refs_match :: "string \<Rightarrow> string \<Rightarrow> notification_config \<Rightarrow> bool" where
  "secret_refs_match stored current c \<longleftrightarrow>
     \<not> (stored \<noteq> [] \<and> \<not> valid_secret_ref stored \<or> current \<noteq> [] \<and> \<not> valid_secret_ref current) \<and>
     (if needs_secret c then stored \<noteq> [] \<and> current \<noteq> [] \<and> stored = current else stored = current)"

definition ref_text :: "string option \<Rightarrow> string" where
  "ref_text r = (case r of None \<Rightarrow> [] | Some s \<Rightarrow> s)"

definition find_destination :: "string \<Rightarrow> string \<Rightarrow> outbox_db \<Rightarrow> destination_row option" where
  "find_destination d i db = find (\<lambda>r. DsDeployment r = d \<and> DsID r = i) (Destinations db)"

definition find_instance :: "string \<Rightarrow> string \<Rightarrow> outbox_db \<Rightarrow> instance_row option" where
  "find_instance d i db = find (\<lambda>r. AiDeployment r = d \<and> AiID r = i) (Instances db)"

definition revision_of :: "string \<Rightarrow> string \<Rightarrow> outbox_db \<Rightarrow> revision_row option" where
  "revision_of d i db = Option.bind (find_instance d i db) (\<lambda>a.
     find (\<lambda>r. RvDeployment r = d \<and> RvRule r = AiRule a \<and> RvVersion r = AiRuleVersion a) (Revisions db))"

definition host_of_target :: "string \<Rightarrow> string \<Rightarrow> outbox_db \<Rightarrow> string option" where
  "host_of_target d t db =
     map_option THost (find (\<lambda>r. TDeployment r = d \<and> TID r = t) (HubTargets (OxHub db)))"

definition scope_matches :: "outbox_codec \<Rightarrow> string \<Rightarrow> rule_scope \<Rightarrow> string \<Rightarrow> outbox_db \<Rightarrow> bool" where
  "scope_matches k d scope encoded db =
     (case WindowScopeOf k encoded of
        None \<Rightarrow> True
      | Some w \<Rightarrow>
          (let kind = (if WScopeKind w = [] then WKind w else WScopeKind w);
               i = (if WScopeID w = [] then WID w else WScopeID w) in
           if kind = ''deployment'' \<or> kind = [] \<and> i = [] then i = [] \<or> i = d
           else if kind = ScopeKind scope \<and> i = ScopeID scope then True
           else if kind = ''host'' \<and> ScopeKind scope = ''target'' then host_of_target d (ScopeID scope) db = Some i
           else False))"

definition window_active :: "string \<Rightarrow> int64 \<Rightarrow> window_row \<Rightarrow> bool" where
  "window_active d now w \<longleftrightarrow> WnDeployment w = d \<and> WnStarts w \<le> now \<and> now < WnExpires w \<and> WnCancelled w = None"

definition maintenance_until :: "outbox_codec \<Rightarrow> string \<Rightarrow> string \<Rightarrow> int64 \<Rightarrow> outbox_db \<Rightarrow> (store_error, int64) result" where
  "maintenance_until k d i now db =
     (case revision_of d i db of
        None \<Rightarrow> Err NoRows
      | Some rv \<Rightarrow> (case RuleScopeOf k (RvScope rv) of
          None \<Rightarrow> Err ErrDeliveryInvalid
        | Some scope \<Rightarrow>
            (let ws = filter (window_active d now) (Windows db) in
             if length ws > 64 then Err ErrDeliveryConflict
             else Ok (fold (\<lambda>w m. if scope_matches k d scope (WnScope w) db \<and> WnExpires w > m then WnExpires w else m) ws 0))))"

definition host_down :: "outbox_codec \<Rightarrow> string \<Rightarrow> string \<Rightarrow> outbox_db \<Rightarrow> bool" where
  "host_down k d host db \<longleftrightarrow> list_ex (\<lambda>a. AiDeployment a = d \<and> (AiState a = StateFiring \<or> AiState a = StateRecovering) \<and>
     list_ex (\<lambda>r. RuDeployment r = d \<and> RuID r = AiRule a \<and> RuVersion r = AiRuleVersion a) (Rules db) \<and>
     list_ex (\<lambda>v. RvDeployment v = d \<and> RvRule v = AiRule a \<and> RvVersion v = AiRuleVersion a
       \<and> RvEvaluator v = RuleHostNotReporting \<and> ScopeIDAt k (RvScope v) = Some host) (Revisions db)) (Instances db)"

definition parent_suppressed :: "outbox_codec \<Rightarrow> string \<Rightarrow> string \<Rightarrow> outbox_db \<Rightarrow> (store_error, bool) result" where
  "parent_suppressed k d i db =
     (case revision_of d i db of
        None \<Rightarrow> Err NoRows
      | Some rv \<Rightarrow>
          if RvEvaluator rv = RuleHostNotReporting then Ok False
          else (case RuleScopeOf k (RvScope rv) of
            None \<Rightarrow> Err ErrDeliveryInvalid
          | Some scope \<Rightarrow>
              if ScopeKind scope = ''host'' then Ok (host_down k d (ScopeID scope) db)
              else if ScopeKind scope = ''target'' then
                (case host_of_target d (ScopeID scope) db of None \<Rightarrow> Err NoRows | Some h \<Rightarrow> Ok (host_down k d h db))
              else Ok False))"

text \<open>The verdict on a delivery: send it, drop it with a code, or put it off.\<close>

datatype verdict = Sendable notification_config string | Drop string | PutOff int64 string

definition destination_verdict :: "outbox_codec \<Rightarrow> outbox_row \<Rightarrow> outbox_db \<Rightarrow> verdict" where
  "destination_verdict k r db =
     (case find_destination (OxDeployment r) (OxDestination r) db of
        None \<Rightarrow> Drop ''destination_superseded''
      | Some ds \<Rightarrow>
          if DsDisabled ds \<noteq> None \<or> DsVersion ds \<noteq> OxDestRevision r then Drop ''destination_superseded''
          else (case ConfigOf k (DsConfig ds) of
            None \<Rightarrow> Drop ''destination_invalid''
          | Some c \<Rightarrow>
              if \<not> validate_notification_config (Libs k) (DsType ds) c \<or> \<not> JsonValid k (OxPayload r) then Drop ''destination_invalid''
              else if \<not> secret_refs_match (ref_text (OxSecretRef r)) (ref_text (DsSecret ds)) c
              then Drop ''destination_secret_superseded''
              else Sendable c (DsType ds)))"

text \<open>The alert must still be where the delivery says, and nothing may mute it.\<close>

definition alert_verdict :: "outbox_codec \<Rightarrow> outbox_row \<Rightarrow> string \<Rightarrow> int64 \<Rightarrow> outbox_db \<Rightarrow> (store_error, verdict option) result" where
  "alert_verdict k r i now db =
     (let d = OxDeployment r in
      case (OxTransition r, OxRuleRevision r) of
        (Some tn, Some rv) \<Rightarrow>
          (case find_instance d i db of
            None \<Rightarrow> Ok (Some (Drop ''newer_alert_state''))
          | Some a \<Rightarrow>
              if AiGeneration a \<noteq> OxGeneration r \<or> AiTransition a \<noteq> tn \<or> AiRuleVersion a \<noteq> rv \<or> AiState a = StateSuperseded
              then Ok (Some (Drop ''newer_alert_state''))
              else if map_option RuVersion (find (\<lambda>u. RuDeployment u = d \<and> RuID u = AiRule a) (Rules db)) \<noteq> Some rv
              then Ok (Some (Drop ''rule_superseded''))
              else if ptr_and (AiMuted a) (\<lambda>t. t > now) then Ok (Some (PutOff (the (AiMuted a)) ''operator_muted''))
              else result_bind (maintenance_until k d i now db) (\<lambda>t.
                if t > now then Ok (Some (PutOff t ''maintenance_suppressed''))
                else result_bind (parent_suppressed k d i db) (\<lambda>s.
                  if s then Ok (Some (PutOff (add64 now lease_ms) ''parent_host_disconnected'')) else Ok None)))
      | _ \<Rightarrow> Ok (Some (Drop ''alert_identity_invalid'')))"

section \<open>The candidate of a claim\<close>

definition coalesce_obsolete :: "string \<Rightarrow> string \<Rightarrow> string \<Rightarrow> int64 \<Rightarrow> string \<Rightarrow> int64 \<Rightarrow> unit tx" where
  "coalesce_obsolete d i destination tn keep now db =
     (let p = (\<lambda>r. OxDeployment r = d \<and> OxInstance r = Some i \<and> OxDestination r = destination \<and> OxID r \<noteq> keep
          \<and> (case OxTransition r of None \<Rightarrow> False | Some t \<Rightarrow> t \<noteq> tn) \<and> waiting (OxState r));
          n = length (filter p (Outbox db)) in
      if n = 0 then Ok ((), db)
      else tx_bind (update_outbox p (ended DeliverySuperseded (Some ''newer_alert_state'') now)) (\<lambda>_.
        tx_bind fresh_uuid (\<lambda>u db. Ok ((), db\<lparr>Notices := Notices db @ [\<lparr>NaID = u, NaDeployment = d, NaActor = None,
          NaAction = ''notification.delivery.superseded_before_delivery'', NaResource = i, NaTime = now,
          NaDetail = [(''destination_id'', destination), (''current_transition_sequence'', decimal (nat tn)),
            (''superseded_count'', decimal n)]\<rparr>]\<rparr>))) db)"

text \<open>The newest incident of an alert instance.\<close>

definition newest_incident :: "string \<Rightarrow> string \<Rightarrow> outbox_db \<Rightarrow> alert_incident_row option" where
  "newest_incident d i db =
     (let rows = filter (\<lambda>c. AcDeployment c = d \<and> AcInstance c = Some i) (AlertIncidents db) in
      find (\<lambda>c. list_all (\<lambda>x. AcCreated x \<le> AcCreated c) rows) rows)"

definition firing_sent :: "string \<Rightarrow> string \<Rightarrow> string \<Rightarrow> outbox_db \<Rightarrow> bool" where
  "firing_sent d i destination db \<longleftrightarrow> list_ex (\<lambda>r. OxDeployment r = d \<and> OxInstance r = Some i \<and> OxDestination r = destination
     \<and> OxState r = DeliverySent \<and> list_ex (\<lambda>t. TnDeployment t = d \<and> TnInstance t = i \<and> OxTransition r = Some (TnSequence t)
          \<and> TnNew t = StateFiring) (Transitions db)) (Outbox db)"

definition earlier_unknown :: "string \<Rightarrow> string \<Rightarrow> string \<Rightarrow> int64 \<Rightarrow> outbox_db \<Rightarrow> bool" where
  "earlier_unknown d i destination tn db \<longleftrightarrow> list_ex (\<lambda>r. OxDeployment r = d \<and> OxInstance r = Some i
     \<and> OxDestination r = destination \<and> ptr_and (OxTransition r) (\<lambda>t. t < tn) \<and> OxUnknown r) (Outbox db)"

definition summary_payload :: "outbox_codec \<Rightarrow> string \<Rightarrow> string \<Rightarrow> string \<Rightarrow> int64 \<Rightarrow> string \<Rightarrow> outbox_db \<Rightarrow> (store_error, string) result" where
  "summary_payload k d i destination tn encoded db =
     (case JsonObject k encoded of
        None \<Rightarrow> Err ErrDeliveryInvalid
      | Some p \<Rightarrow> (case (find_instance d i db, newest_incident d i db) of
          (Some a, Some c) \<Rightarrow>
            (let p1 = AList.update ''onset_ms'' (JInt (AcStart c)) p;
                 p2 = (case AcEnd c of None \<Rightarrow> p1 | Some t \<Rightarrow> AList.update ''recovery_ms'' (JInt t) p1);
                 p3 = AList.update ''summary_kind'' (JText (if AiState a = StateResolved \<and> \<not> firing_sent d i destination db
                        then ''occurred_and_recovered'' else ''current_state'')) p2;
                 p4 = AList.update ''accepted_unknown'' (JBool (earlier_unknown d i destination tn db)) p3;
                 text = JsonText k p4 in
             if int (length text) > 65536 then Err ErrDeliveryInvalid else Ok text)
        | _ \<Rightarrow> Err NoRows))"

definition test_active :: "string \<Rightarrow> string \<Rightarrow> outbox_db \<Rightarrow> bool" where
  "test_active d i db \<longleftrightarrow> (case Option.bind (find_row d i db) OxJob of
     None \<Rightarrow> False
   | Some job \<Rightarrow> list_ex (\<lambda>j. TjDeployment j = d \<and> TjID j = job \<and> active_job j \<and>
       list_ex (\<lambda>x. DepID x = d \<and> DepGeneration x = TjGeneration j) (Deployments (OxHub db))) (TestJobs db))"

text \<open>What the sender gets: the destination's kind and configuration, the reference of its secret, the payload.\<close>

record prepared =
  PrKind :: string
  PrConfig :: notification_config
  PrSecretRef :: string
  PrPayload :: string

text \<open>\<open>None\<close>: the delivery is not ready, and its row says why.\<close>

definition reconcile_candidate :: "outbox_codec \<Rightarrow> string \<Rightarrow> string \<Rightarrow> int64 \<Rightarrow> prepared option tx" where
  "reconcile_candidate k d i now db =
     (case find_row d i db of
        None \<Rightarrow> Err NoRows
      | Some r \<Rightarrow> (case destination_verdict k r db of
          Drop code \<Rightarrow> tx_bind (supersede_delivery d i code now) (\<lambda>_. tx_ok None) db
        | PutOff t code \<Rightarrow> tx_bind (put_off d i code t) (\<lambda>_. tx_ok None) db
        | Sendable c kind \<Rightarrow>
            (let lease = \<lparr>PrKind = kind, PrConfig = c, PrSecretRef = ref_text (OxSecretRef r), PrPayload = OxPayload r\<rparr> in
             case OxInstance r of
               None \<Rightarrow> if test_active d i db then Ok (Some lease, db)
                       else tx_bind (supersede_delivery d i ''destination_test_stale'' now) (\<lambda>_. tx_ok None) db
             | Some a \<Rightarrow> (case alert_verdict k r a now db of
                 Err e \<Rightarrow> Err e
               | Ok (Some (Drop code)) \<Rightarrow> tx_bind (supersede_delivery d i code now) (\<lambda>_. tx_ok None) db
               | Ok (Some (PutOff t code)) \<Rightarrow> tx_bind (put_off d i code t) (\<lambda>_. tx_ok None) db
               | Ok _ \<Rightarrow>
                   tx_bind (coalesce_obsolete d a (OxDestination r) (the (OxTransition r)) i now) (\<lambda>_ db.
                   result_bind (summary_payload k d a (OxDestination r) (the (OxTransition r)) (OxPayload r) db) (\<lambda>text.
                   tx_bind (update_outbox (row_is d i) (\<lambda>r. r\<lparr>OxState := DeliveryPending, OxPayload := text, OxNext := Some now,
                     OxError := None\<rparr>)) (\<lambda>_. tx_ok (Some (lease\<lparr>PrPayload := text\<rparr>))) db)) db))))"

section \<open>Claiming\<close>

definition in_flight_with :: "outbox_row \<Rightarrow> outbox_row \<Rightarrow> bool" where
  "in_flight_with c r \<longleftrightarrow> OxDeployment r = OxDeployment c \<and> OxInstance c \<noteq> None \<and> OxInstance r = OxInstance c
     \<and> OxDestination r = OxDestination c \<and> OxID r \<noteq> OxID c \<and> OxState r = DeliveryLeased"

definition defer_contended :: "string \<Rightarrow> string \<Rightarrow> int64 \<Rightarrow> bool tx" where
  "defer_contended d i now db =
     (case Option.bind (find_row d i db) (\<lambda>c. find (in_flight_with c) (Outbox db)) of
        None \<Rightarrow> Ok (False, db)
      | Some leased \<Rightarrow>
          (let next = add64 now lease_ms;
               until = (case OxLease leased of Some t \<Rightarrow> if t > next then t else next | None \<Rightarrow> next) in
           tx_bind (update_outbox (\<lambda>r. row_is d i r \<and> waiting (OxState r))
             (\<lambda>r. r\<lparr>OxNext := Some until, OxError := Some ''delivery_in_flight''\<rparr>)) (\<lambda>_. tx_ok True) db))"

definition one_in_flight :: store_error where
  "one_in_flight = HubError (ErrConstraint ''outbox.deployment_id, outbox.instance_id, outbox.destination_id'')"

definition attempts_bound :: store_error where
  "attempts_bound = HubError (ErrConstraint ''attempts BETWEEN 0 AND 1000'')"

text \<open>The lease: the table bounds the attempts, and its unique index allows one delivery in flight.\<close>

definition lease_row :: "string \<Rightarrow> string \<Rightarrow> string \<Rightarrow> int64 \<Rightarrow> bool tx" where
  "lease_row d i token now db =
     (case find (\<lambda>r. row_is d i r \<and> waiting (OxState r)) (Outbox db) of
        None \<Rightarrow> Ok (False, db)
      | Some r \<Rightarrow>
          if OxAttempts r + 1 > 1000 then Err attempts_bound
          else if list_ex (in_flight_with r) (Outbox db) then Err one_in_flight
          else tx_bind (update_outbox (\<lambda>r. row_is d i r \<and> waiting (OxState r))
            (\<lambda>r. r\<lparr>OxState := DeliveryLeased, OxAttempts := OxAttempts r + 1, OxToken := Some token,
               OxLease := Some (add64 now lease_ms), OxNext := None, OxError := None, OxStarted := Some now\<rparr>)) (\<lambda>_. tx_ok True) db)"

definition due :: "string \<Rightarrow> int64 \<Rightarrow> outbox_row \<Rightarrow> bool" where
  "due d now r \<longleftrightarrow> OxDeployment r = d \<and> waiting (OxState r) \<and> ptr_and (OxNext r) (\<lambda>t. t \<le> now)"

text \<open>\<open>ORDER BY next_attempt_ms,created_ms,id LIMIT 1\<close>.\<close>

definition sooner :: "outbox_row \<Rightarrow> outbox_row \<Rightarrow> bool" where
  "sooner a b \<longleftrightarrow> the (OxNext a) < the (OxNext b) \<or> the (OxNext a) = the (OxNext b) \<and>
     (OxCreated a < OxCreated b \<or> OxCreated a = OxCreated b \<and> OxID a \<le> OxID b)"

definition first_due :: "string \<Rightarrow> int64 \<Rightarrow> outbox_db \<Rightarrow> outbox_row option" where
  "first_due d now db = (let rows = filter (due d now) (Outbox db) in find (\<lambda>r. list_all (sooner r) rows) rows)"

record delivery_lease =
  LeasedRow :: outbox_row
  LeaseToken :: string
  Prepared :: prepared

text \<open>The test job of a claimed delivery runs.\<close>

definition start_test :: "outbox_row \<Rightarrow> int64 \<Rightarrow> unit tx" where
  "start_test r now = (case OxJob r of
     None \<Rightarrow> tx_ok ()
   | Some job \<Rightarrow> tx_bind (update_jobs (\<lambda>j. TjDeployment j = OxDeployment r \<and> TjID j = job \<and> active_job j)
       (\<lambda>j. j\<lparr>TjState := ''running'', TjProgress := 1 / 2, TjLease := Some (add64 now lease_ms), TjUpdated := now\<rparr>)) (\<lambda>_. tx_ok ()))"

text \<open>One turn of the scan: the next candidate is claimed, or something else happened to it.\<close>

datatype scan = Claimed delivery_lease | Nothing | Again

definition scan_once :: "outbox_codec \<Rightarrow> string \<Rightarrow> int64 \<Rightarrow> scan tx" where
  "scan_once k d now db =
     (case first_due d now db of
        None \<Rightarrow> Ok (Nothing, db)
      | Some c \<Rightarrow>
          tx_bind (reconcile_candidate k d (OxID c) now) (\<lambda>p. case p of
              None \<Rightarrow> tx_ok Again
            | Some lease \<Rightarrow> tx_bind (defer_contended d (OxID c) now) (\<lambda>contended.
                if contended then tx_ok Again
                else tx_bind fresh_uuid (\<lambda>token db.
                  case lease_row d (OxID c) token now db of
                    Err e \<Rightarrow> if e = one_in_flight then tx_bind (defer_contended d (OxID c) now) (\<lambda>_. tx_ok Again) db else Err e
                  | Ok (changed, db) \<Rightarrow>
                      if \<not> changed then Ok (Again, db)
                      else (case find_row d (OxID c) db of
                        None \<Rightarrow> Err ErrDeliveryNotFound
                      | Some r \<Rightarrow> tx_bind (start_test r now)
                          (\<lambda>_. tx_ok (Claimed \<lparr>LeasedRow = r, LeaseToken = token, Prepared = lease\<rparr>)) db)))) db)"

fun scan_due :: "nat \<Rightarrow> outbox_codec \<Rightarrow> string \<Rightarrow> int64 \<Rightarrow> delivery_lease option tx" where
  "scan_due 0 k d now = tx_ok None"
| "scan_due (Suc n) k d now = tx_bind (scan_once k d now) (\<lambda>s. case s of
     Claimed l \<Rightarrow> tx_ok (Some l) | Nothing \<Rightarrow> tx_ok None | Again \<Rightarrow> scan_due n k d now)"

definition valid_uuid_text :: "string \<Rightarrow> bool" where
  "valid_uuid_text s \<longleftrightarrow> matches valid_uuid_pattern s"

definition claim_body :: "outbox_codec \<Rightarrow> string \<Rightarrow> string \<Rightarrow> int64 \<Rightarrow> delivery_lease option tx" where
  "claim_body k d g now db =
     (case find (\<lambda>x. DepID x = d) (Deployments (OxHub db)) of
        None \<Rightarrow> Err (HubError ErrAdmissionFenced)
      | Some x \<Rightarrow>
          if DepGeneration x \<noteq> g \<or> DepRecovery x \<noteq> ''normal'' then Err (HubError ErrAdmissionFenced)
          else tx_bind (reconcile_leases d now) (\<lambda>_. scan_due 32 k d now) db)"

definition claim_delivery ::
  "outbox_codec \<Rightarrow> hub_env \<Rightarrow> string \<Rightarrow> string \<Rightarrow> outbox_db \<Rightarrow> (store_error, delivery_lease option) result \<times> outbox_db" where
  "claim_delivery k env d g db =
     (if \<not> valid_uuid_text d \<or> \<not> valid_uuid_text g then (Err ErrDeliveryInvalid, db)
      else atomically env (claim_body k d g (HubNow env)) db)"

end
