(* ===== verification/OutboxDelivery.thy ===== *)
theory OutboxDelivery
  imports Outbox
begin

text \<open>
  The rest of \<open>internal/store/outbox.go\<close> and \<open>internal/store/outbox_jobs.go\<close>: completing and retrying a
  delivery, reading them, and testing a destination.
\<close>

section \<open>Completing\<close>

record completion =
  CpID :: string
  CpAttempt :: int64
  CpToken :: string
  CpSucceeded :: bool
  CpPermanent :: bool
  CpCode :: string
  CpRetryAfter :: int64
  CpAck :: "int64 option"

definition safe_delivery_code :: "string \<Rightarrow> bool" where
  "safe_delivery_code v \<longleftrightarrow> v \<noteq> [] \<and> length v \<le> 64 \<and> is_lower (hd v) \<and> list_all code_char v"

text \<open>In nanoseconds; thirty minutes is the largest delay.\<close>

definition delivery_retry_delay :: "int64 \<Rightarrow> int64 \<Rightarrow> int64" where
  "delivery_retry_delay attempt retryAfter =
     (if retryAfter > 0 then min retryAfter 1800000000000
      else if attempt \<le> 1 then 10000000000
      else if attempt = 2 then 30000000000
      else if attempt = 3 then 120000000000
      else if attempt = 4 then 600000000000
      else 1800000000000)"

definition valid_completion :: "completion \<Rightarrow> bool" where
  "valid_completion c \<longleftrightarrow>
     valid_uuid_text (CpID c) \<and> 1 \<le> CpAttempt c \<and> valid_uuid_text (CpToken c) \<and> 0 \<le> CpRetryAfter c \<and>
     CpRetryAfter c \<le> 1800000000000 \<and> (CpSucceeded c \<longrightarrow> \<not> CpPermanent c \<and> CpCode c = []) \<and>
     (\<not> CpSucceeded c \<longrightarrow> safe_delivery_code (CpCode c))"

text \<open>The lease a completion names.\<close>

definition holds_lease :: "completion \<Rightarrow> outbox_row \<Rightarrow> bool" where
  "holds_lease c r \<longleftrightarrow> OxID r = CpID c \<and> OxState r = DeliveryLeased \<and> OxAttempts r = CpAttempt c \<and> OxToken r = Some (CpToken c)"

text \<open>The end of the test job of a delivery, and the destination's last test.\<close>

definition complete_test :: "string \<Rightarrow> string \<Rightarrow> string \<Rightarrow> bool \<Rightarrow> string \<Rightarrow> int64 \<Rightarrow> unit tx" where
  "complete_test d job delivery succeeded code now =
     tx_bind (update_jobs (\<lambda>j. TjDeployment j = d \<and> TjID j = job \<and> active_job j \<and> TjDelivery j = delivery)
       (\<lambda>j. j\<lparr>TjState := (if succeeded then ''succeeded'' else ''failed''), TjProgress := 1,
          TjError := (if succeeded then None else Some code), TjLease := None, TjUpdated := now\<rparr>)) (\<lambda>n db.
     if n \<noteq> 1 then Err ErrDeliveryConflict
     else (case find (\<lambda>j. TjDeployment j = d \<and> TjID j = job) (TestJobs db) of
         None \<Rightarrow> Ok ((), db)
       | Some j \<Rightarrow>
           (let rows = update_where (\<lambda>s. DsDeployment s = d \<and> DsID s = TjDestination j \<and> DsVersion s = TjDestRevision j)
                 (\<lambda>s. s\<lparr>DsLastTest := Some now, DsLastResult := Some (if succeeded then ''succeeded'' else ''failed''),
                    DsUpdated := now\<rparr>) (Destinations db) in
            if list_ex (\<lambda>s. DsUpdated s < DsCreated s) rows then Err (HubError (ErrConstraint ''updated_ms>=created_ms''))
            else Ok ((), db\<lparr>Destinations := rows\<rparr>))))"

definition finish_test :: "outbox_row \<Rightarrow> bool \<Rightarrow> string \<Rightarrow> int64 \<Rightarrow> unit tx" where
  "finish_test r succeeded code now = (case OxJob r of
     None \<Rightarrow> tx_ok () | Some job \<Rightarrow> complete_test (OxDeployment r) job (OxID r) succeeded code now)"

text \<open>May the delivery be tried again? If not, its row says why.\<close>

definition revalidate_for_retry :: "outbox_codec \<Rightarrow> string \<Rightarrow> string \<Rightarrow> int64 \<Rightarrow> bool tx" where
  "revalidate_for_retry k d i now db =
     (case find_row d i db of
        None \<Rightarrow> Err NoRows
      | Some r \<Rightarrow> (case destination_verdict k r db of
          Drop code \<Rightarrow> tx_bind (supersede_delivery d i code now) (\<lambda>_. tx_ok False) db
        | PutOff t code \<Rightarrow> tx_bind (suppress_in_flight d i t code) (\<lambda>_. tx_ok False) db
        | Sendable c kind \<Rightarrow> (case OxInstance r of
            None \<Rightarrow> Ok (True, db)
          | Some a \<Rightarrow> (case alert_verdict k r a now db of
              Err e \<Rightarrow> Err e
            | Ok (Some (Drop code)) \<Rightarrow> tx_bind (supersede_delivery d i code now) (\<lambda>_. tx_ok False) db
            | Ok (Some (PutOff t code)) \<Rightarrow> tx_bind (suppress_in_flight d i t code) (\<lambda>_. tx_ok False) db
            | Ok _ \<Rightarrow> Ok (True, db)))))"

definition uncertain_code :: "string \<Rightarrow> bool" where
  "uncertain_code c \<longleftrightarrow> c = ''notification_connection_failed'' \<or> c = ''notification_timeout_or_cancelled''"

definition complete_sent :: "completion \<Rightarrow> outbox_row \<Rightarrow> int64 \<Rightarrow> unit tx" where
  "complete_sent c r now =
     (if (case CpAck c of None \<Rightarrow> False | Some t \<Rightarrow> t < 0 \<or> t > now) then tx_err ErrDeliveryInvalid
      else tx_bind (update_outbox (holds_lease c) (\<lambda>x. (ended DeliverySent None now x)\<lparr>OxSent := Some now, OxAck := CpAck c\<rparr>))
        (\<lambda>_. finish_test r True [] now))"

definition complete_failed :: "completion \<Rightarrow> outbox_row \<Rightarrow> int64 \<Rightarrow> unit tx" where
  "complete_failed c r now =
     tx_bind (update_outbox (holds_lease c) (ended DeliveryFailed (Some (CpCode c)) now)) (\<lambda>_. finish_test r False (CpCode c) now)"

definition complete_again :: "completion \<Rightarrow> outbox_row \<Rightarrow> int64 \<Rightarrow> unit tx" where
  "complete_again c r now =
     (let next = add64 now (quot64 (delivery_retry_delay (CpAttempt c) (CpRetryAfter c)) 1000000) in
      if next \<ge> OxExpires r
      then tx_bind (update_outbox (holds_lease c) (ended DeliveryExpired (Some ''delivery_expired'') now))
        (\<lambda>_. finish_test r False ''delivery_expired'' now)
      else update_outbox (holds_lease c) (\<lambda>x. x\<lparr>OxState := DeliveryFailed, OxToken := None, OxLease := None,
        OxNext := Some next, OxError := Some (CpCode c), OxUnknown := (uncertain_code (CpCode c) \<or> OxUnknown x)\<rparr>))"

definition read_delivery :: "string \<Rightarrow> string \<Rightarrow> outbox_row tx" where
  "read_delivery d i db = (case find_row d i db of None \<Rightarrow> Err ErrDeliveryNotFound | Some r \<Rightarrow> Ok (r, db))"

definition complete_body :: "outbox_codec \<Rightarrow> completion \<Rightarrow> int64 \<Rightarrow> outbox_row tx" where
  "complete_body k c now db =
     (case find (\<lambda>r. OxID r = CpID c) (Outbox db) of
        None \<Rightarrow> Err ErrDeliveryNotFound
      | Some r \<Rightarrow>
          if OxState r \<noteq> DeliveryLeased \<or> OxAttempts r \<noteq> CpAttempt c \<or> OxToken r \<noteq> Some (CpToken c)
             \<or> \<not> ptr_and (OxLease r) (\<lambda>t. t > now)
          then Err ErrDeliveryConflict
          else tx_bind
            (if CpSucceeded c then complete_sent c r now
             else if CpPermanent c \<or> OxJob r \<noteq> None then complete_failed c r now
             else tx_bind (revalidate_for_retry k (OxDeployment r) (CpID c) now) (\<lambda>allowed.
               if allowed then complete_again c r now else tx_ok ()))
            (\<lambda>_. read_delivery (OxDeployment r) (CpID c)) db)"

definition complete_delivery ::
  "outbox_codec \<Rightarrow> hub_env \<Rightarrow> completion \<Rightarrow> outbox_db \<Rightarrow> (store_error, outbox_row) result \<times> outbox_db" where
  "complete_delivery k env c db =
     (if \<not> valid_completion c then (Err ErrDeliveryInvalid, db)
      else atomically env (complete_body k c (HubNow env)) db)"

section \<open>What the API shows\<close>

definition delivery_status :: "outbox_row \<Rightarrow> string" where
  "delivery_status r = (case OxState r of
     DeliveryPending \<Rightarrow> if OxNext r \<noteq> None \<and> OxAttempts r > 0 \<and> OxError r \<noteq> None then ''retrying'' else ''queued''
   | DeliveryLeased \<Rightarrow> ''attempted''
   | DeliverySent \<Rightarrow> if OxAck r \<noteq> None then ''acknowledged'' else ''attempted''
   | DeliveryFailed \<Rightarrow> if OxNext r \<noteq> None then ''retrying'' else ''terminal_failure''
   | DeliveryMuted \<Rightarrow> ''suppressed''
   | DeliverySuperseded \<Rightarrow> ''suppressed''
   | DeliveryExpired \<Rightarrow> ''terminal_failure'')"

section \<open>Retrying\<close>

record actor =
  AcUser :: string
  AcUserDisabled :: bool
  AcHistorical :: bool
  AcDeploymentID :: string
  AcTrust :: string

definition find_user :: "actor \<Rightarrow> outbox_db \<Rightarrow> (user_row \<times> deployment_row) option" where
  "find_user a db =
     Option.bind (find (\<lambda>x. DepID x = AcDeploymentID a) (Deployments (OxHub db))) (\<lambda>x.
       map_option (\<lambda>u. (u, x)) (find (\<lambda>u. UsDeployment u = AcDeploymentID a \<and> UsID u = AcUser a \<and> UsTrust u = DepGeneration x) (Users db)))"

definition validate_actor :: "actor \<Rightarrow> outbox_db \<Rightarrow> (store_error, string) result" where
  "validate_actor a db =
     (if AcDeploymentID a = [] \<or> AcTrust a = [] \<or> AcUser a = [] \<or> AcUserDisabled a \<or> AcHistorical a
      then Err (HubError ErrOwnershipMismatch)
      else case find_user a db of
        None \<Rightarrow> Err (HubError ErrOwnershipMismatch)
      | Some (u, x) \<Rightarrow>
          if UsDisabled u \<or> UsHistorical u \<or> DepGeneration x \<noteq> AcTrust a \<or> DepRecovery x \<noteq> ''normal''
             \<or> UsRole u \<noteq> ''admin'' \<and> UsRole u \<noteq> ''viewer''
          then Err (HubError ErrAdmissionFenced) else Ok (UsRole u))"

definition valid_receipt_key :: "string \<Rightarrow> string \<Rightarrow> bool" where
  "valid_receipt_key key hash \<longleftrightarrow> 16 \<le> length key \<and> length key \<le> 128 \<and> valid_sha256 hash"

definition receipt_is :: "actor \<Rightarrow> string \<Rightarrow> receipt \<Rightarrow> bool" where
  "receipt_is a key r \<longleftrightarrow> RtDeployment r = AcDeploymentID a \<and> RtGeneration r = AcTrust a \<and> RtActor r = AcUser a \<and> RtKey r = key"

definition day_ms :: int64 where "day_ms = 86400000"

text \<open>A receipt that has expired is dropped; one that does not fit the request refuses it.\<close>

definition read_receipt :: "actor \<Rightarrow> string \<Rightarrow> store_error \<Rightarrow> (receipt \<Rightarrow> 'a option) \<Rightarrow> int64 \<Rightarrow> 'a option tx" where
  "read_receipt a key refused pick now db =
     (case find (receipt_is a key) (Receipts db) of
        None \<Rightarrow> Ok (None, db)
      | Some r \<Rightarrow>
          if RtExpires r \<le> now then Ok (None, db\<lparr>Receipts := filter (\<lambda>r. \<not> receipt_is a key r) (Receipts db)\<rparr>)
          else (case pick r of None \<Rightarrow> Err refused | Some x \<Rightarrow> Ok (Some x, db)))"

definition read_retry_receipt :: "actor \<Rightarrow> string \<Rightarrow> string \<Rightarrow> string \<Rightarrow> int64 \<Rightarrow> outbox_row option tx" where
  "read_retry_receipt a key hash delivery = read_receipt a key ErrDeliveryConflict (\<lambda>r. case RtResult r of
     DeliveryReceipt x \<Rightarrow> if RtHash r = hash \<and> OxID x = delivery then Some x else None | _ \<Rightarrow> None)"

text \<open>The audit row and the receipt of a mutation.\<close>

definition persist_receipt ::
  "outbox_codec \<Rightarrow> store_error \<Rightarrow> actor \<Rightarrow> string \<Rightarrow> string \<Rightarrow> string \<Rightarrow> string \<Rightarrow> (string \<times> string) list \<Rightarrow> int64 \<Rightarrow> receipt_result \<Rightarrow> int64 \<Rightarrow> unit tx" where
  "persist_receipt k e a key hash action resource detail status x now =
     (if ReceiptLength k x > 65536 then tx_err e
      else tx_bind fresh_uuid (\<lambda>u db. Ok ((), db\<lparr>
        Notices := Notices db @ [\<lparr>NaID = u, NaDeployment = AcDeploymentID a, NaActor = Some (AcUser a), NaAction = action,
          NaResource = resource, NaTime = now, NaDetail = detail\<rparr>],
        Receipts := Receipts db @ [\<lparr>RtDeployment = AcDeploymentID a, RtGeneration = AcTrust a, RtActor = AcUser a, RtKey = key,
          RtHash = hash, RtStatus = status, RtResult = x, RtCreated = now, RtExpires = add64 now day_ms\<rparr>]\<rparr>)))"

definition persist_retry :: "outbox_codec \<Rightarrow> actor \<Rightarrow> string \<Rightarrow> string \<Rightarrow> outbox_row \<Rightarrow> int64 \<Rightarrow> unit tx" where
  "persist_retry k a key hash r now =
     persist_receipt k ErrDeliveryInvalid a key hash ''notification.delivery.retry'' (OxID r) [] 200 (DeliveryReceipt r) now"

text \<open>The commit is skipped when an earlier answer is given again.\<close>

definition replayable :: "hub_env \<Rightarrow> (bool \<times> 'a) tx \<Rightarrow> outbox_db \<Rightarrow> (store_error, 'a) result \<times> outbox_db" where
  "replayable env m db =
     (case Admission env of
        Some e \<Rightarrow> (Err (HubError e), db)
      | None \<Rightarrow> (case m db of
          Err e \<Rightarrow> (Err e, db)
        | Ok ((True, x), db') \<Rightarrow> (Ok x, db)
        | Ok ((False, x), db') \<Rightarrow> (case CommitFails env of
            Some t \<Rightarrow> (Err (HubError (ErrDatabase t)), db)
          | None \<Rightarrow> (Ok x, db'))))"

text \<open>Only an administrator changes anything, and a request that was answered is answered again.\<close>

definition as_admin :: "actor \<Rightarrow> 'a option tx \<Rightarrow> 'a tx \<Rightarrow> (bool \<times> 'a) tx" where
  "as_admin a earlier change db =
     result_bind (validate_actor a db) (\<lambda>role.
     if role \<noteq> ''admin'' then Err (HubError ErrOwnershipMismatch)
     else tx_bind earlier (\<lambda>found. case found of
         Some x \<Rightarrow> tx_ok (True, x)
       | None \<Rightarrow> tx_bind change (\<lambda>x. tx_ok (False, x))) db)"

text \<open>A failed delivery that is still ready goes back into the queue.\<close>

definition requeue :: "outbox_codec \<Rightarrow> actor \<Rightarrow> string \<Rightarrow> string \<Rightarrow> string \<Rightarrow> int64 \<Rightarrow> outbox_row tx" where
  "requeue k a i key hash now =
     tx_bind (reconcile_candidate k (AcDeploymentID a) i now) (\<lambda>p.
     if p = None then tx_err ErrDeliveryStale
     else tx_bind (update_outbox (\<lambda>r. row_is (AcDeploymentID a) i r \<and> waiting (OxState r))
            (\<lambda>r. r\<lparr>OxState := DeliveryPending, OxNext := Some now, OxError := None, OxCompleted := None\<rparr>)) (\<lambda>_.
          tx_bind (read_delivery (AcDeploymentID a) i) (\<lambda>x.
          tx_bind (persist_retry k a key hash x now) (\<lambda>_. tx_ok x))))"

definition retry_failed :: "outbox_codec \<Rightarrow> actor \<Rightarrow> string \<Rightarrow> string \<Rightarrow> string \<Rightarrow> int64 \<Rightarrow> outbox_row tx" where
  "retry_failed k a i key hash now =
     tx_bind (read_delivery (AcDeploymentID a) i) (\<lambda>r.
     if OxExpires r \<le> now \<or> OxState r = DeliveryExpired then tx_err ErrDeliveryExpired
     else if OxState r \<noteq> DeliveryFailed then tx_err ErrDeliveryConflict
     else requeue k a i key hash now)"

definition retry_delivery ::
  "outbox_codec \<Rightarrow> hub_env \<Rightarrow> actor \<Rightarrow> string \<Rightarrow> string \<Rightarrow> string \<Rightarrow> outbox_db \<Rightarrow> (store_error, outbox_row) result \<times> outbox_db" where
  "retry_delivery k env a i key hash db =
     (if \<not> valid_uuid_text i \<or> \<not> valid_receipt_key key hash then (Err ErrDeliveryInvalid, db)
      else replayable env (as_admin a (read_retry_receipt a key hash i (HubNow env)) (retry_failed k a i key hash (HubNow env))) db)"

end
