(* ===== verification/OutboxFacts.thy ===== *)
theory OutboxFacts
  imports OutboxDelivery
begin

text \<open>
  The life of a delivery as a state machine, what holds of every row and of the table as a whole, and
  that each statement of the outbox keeps it.
\<close>

section \<open>The life of a delivery\<close>

inductive delivery_step :: "delivery_state \<Rightarrow> delivery_state \<Rightarrow> bool" where
  claimed: "waiting s \<Longrightarrow> delivery_step s DeliveryLeased"
| rescheduled: "waiting s \<Longrightarrow> waiting s' \<Longrightarrow> delivery_step s s'"
| superseded: "open_delivery s \<Longrightarrow> delivery_step s DeliverySuperseded"
| expired: "open_delivery s \<Longrightarrow> delivery_step s DeliveryExpired"
| received: "delivery_step DeliveryLeased DeliverySent"
| failed: "delivery_step DeliveryLeased DeliveryFailed"
| muted: "delivery_step DeliveryLeased DeliveryMuted"

code_pred delivery_step .

inductive_cases delivery_stepE: "delivery_step s s'"

definition final_state :: "delivery_state \<Rightarrow> bool" where
  "final_state s \<longleftrightarrow> s = DeliverySent \<or> s = DeliveryExpired \<or> s = DeliverySuperseded"

lemma waiting_simps [simp]:
  "waiting DeliveryPending" "waiting DeliveryFailed" "waiting DeliveryMuted" "\<not> waiting DeliveryLeased"
  "\<not> waiting DeliverySent" "\<not> waiting DeliveryExpired" "\<not> waiting DeliverySuperseded"
  by (simp_all add: waiting_def)

lemma open_simps [simp]: "open_delivery s \<longleftrightarrow> \<not> final_state s" "waiting s \<Longrightarrow> \<not> final_state s" "\<not> final_state DeliveryLeased"
  "final_state DeliverySent" "final_state DeliveryExpired" "final_state DeliverySuperseded"
  by (cases s; simp add: open_delivery_def waiting_def final_state_def)+

lemma final_is_final: "delivery_step s s' \<Longrightarrow> \<not> final_state s"
  by (erule delivery_stepE) auto

section \<open>What an operation may do to a row\<close>

definition same_delivery :: "outbox_row \<Rightarrow> outbox_row \<Rightarrow> bool" where
  "same_delivery r r' \<longleftrightarrow> OxID r' = OxID r \<and> OxDeployment r' = OxDeployment r \<and> OxInstance r' = OxInstance r
     \<and> OxTransition r' = OxTransition r \<and> OxDestination r' = OxDestination r \<and> OxDestRevision r' = OxDestRevision r
     \<and> OxSecretRef r' = OxSecretRef r \<and> OxRuleRevision r' = OxRuleRevision r \<and> OxGeneration r' = OxGeneration r
     \<and> OxKey r' = OxKey r \<and> OxJob r' = OxJob r \<and> OxExpires r' = OxExpires r \<and> OxCreated r' = OxCreated r"

definition follows :: "outbox_row \<Rightarrow> outbox_row \<Rightarrow> bool" where
  "follows r r' \<longleftrightarrow> same_delivery r r' \<and> delivery_step\<^sup>*\<^sup>* (OxState r) (OxState r') \<and> OxAttempts r \<le> OxAttempts r'
     \<and> (OxUnknown r \<longrightarrow> OxUnknown r') \<and> (final_state (OxState r) \<longrightarrow> r' = r)"

definition evolves :: "outbox_db \<Rightarrow> outbox_db \<Rightarrow> bool" where
  "evolves db db' \<longleftrightarrow> list_all2 follows (Outbox db) (Outbox db')"

lemma follows_refl [simp]: "follows r r"
  by (simp add: follows_def same_delivery_def)

lemma follows_trans: "follows a b \<Longrightarrow> follows b c \<Longrightarrow> follows a c"
  by (auto simp: follows_def same_delivery_def)

lemma evolves_refl [simp]: "evolves db db"
  by (simp add: evolves_def list.rel_refl)

lemma evolves_same: "Outbox db' = Outbox db \<Longrightarrow> evolves db db'"
  by (simp add: evolves_def list.rel_refl)

lemma evolves_trans: "evolves a b \<Longrightarrow> evolves b c \<Longrightarrow> evolves a c"
  unfolding evolves_def by (rule list_all2_trans[OF follows_trans])

lemma evolves_ids: "evolves db db' \<Longrightarrow> map OxID (Outbox db') = map OxID (Outbox db)"
  unfolding evolves_def by (induction rule: list_all2_induct) (auto simp: follows_def same_delivery_def)

section \<open>The table\<close>

definition row_ok :: "outbox_row \<Rightarrow> bool" where
  "row_ok r \<longleftrightarrow> (OxToken r \<noteq> None \<longleftrightarrow> OxState r = DeliveryLeased) \<and> (OxLease r \<noteq> None \<longleftrightarrow> OxState r = DeliveryLeased)
     \<and> (OxNext r \<noteq> None \<longrightarrow> waiting (OxState r)) \<and> (final_state (OxState r) \<longrightarrow> OxCompleted r \<noteq> None)
     \<and> (OxState r = DeliverySent \<longrightarrow> OxSent r \<noteq> None) \<and> 0 \<le> OxAttempts r \<and> OxAttempts r \<le> 1000"

definition rivals :: "outbox_row \<Rightarrow> outbox_row \<Rightarrow> bool" where
  "rivals a b \<longleftrightarrow> OxDeployment a = OxDeployment b \<and> OxInstance a \<noteq> None \<and> OxInstance a = OxInstance b
     \<and> OxDestination a = OxDestination b \<and> OxState a = DeliveryLeased \<and> OxState b = DeliveryLeased"

definition single_flight :: "outbox_row list \<Rightarrow> bool" where
  "single_flight rs \<longleftrightarrow> (\<forall>a\<in>set rs. \<forall>b\<in>set rs. rivals a b \<longrightarrow> OxID a = OxID b)"

definition outbox_ok :: "outbox_db \<Rightarrow> bool" where
  "outbox_ok db \<longleftrightarrow> distinct (map OxID (Outbox db)) \<and> list_all row_ok (Outbox db) \<and> single_flight (Outbox db)"

lemma outbox_ok_same: "Outbox db' = Outbox db \<Longrightarrow> outbox_ok db \<Longrightarrow> outbox_ok db'"
  by (simp add: outbox_ok_def)

text \<open>A statement is sound if it keeps the table in order and moves every delivery along its life.\<close>

definition sound_at :: "'a tx \<Rightarrow> outbox_db \<Rightarrow> bool" where
  "sound_at m db \<longleftrightarrow> (outbox_ok db \<longrightarrow> (\<forall>a db'. m db = Ok (a, db') \<longrightarrow> outbox_ok db' \<and> evolves db db'))"

definition sound_tx :: "'a tx \<Rightarrow> bool" where
  "sound_tx m \<longleftrightarrow> (\<forall>db. sound_at m db)"

named_theorems sound_tx

lemma sound_atD: "sound_at m db \<Longrightarrow> outbox_ok db \<Longrightarrow> m db = Ok (a, db') \<Longrightarrow> outbox_ok db' \<and> evolves db db'"
  by (simp add: sound_at_def)

lemma sound_txD: "sound_tx m \<Longrightarrow> outbox_ok db \<Longrightarrow> m db = Ok (a, db') \<Longrightarrow> outbox_ok db' \<and> evolves db db'"
  by (simp add: sound_tx_def sound_at_def)

lemma sound_at_bind:
  assumes "sound_at m db" "\<And>a db'. m db = Ok (a, db') \<Longrightarrow> outbox_ok db' \<Longrightarrow> sound_at (f a) db'"
  shows "sound_at (tx_bind m f) db"
  using assms by (fastforce simp: sound_at_def tx_bind_def elim!: result_bind_OkE intro: evolves_trans)

lemma sound_bind [sound_tx]: "sound_tx m \<Longrightarrow> (\<And>a. sound_tx (f a)) \<Longrightarrow> sound_tx (tx_bind m f)"
  by (simp add: sound_tx_def sound_at_bind)

lemma sound_same: "(\<And>db a db'. m db = Ok (a, db') \<Longrightarrow> Outbox db' = Outbox db) \<Longrightarrow> sound_tx m"
  by (auto simp: sound_tx_def sound_at_def intro: outbox_ok_same evolves_same)

lemma sound_simple [sound_tx]: "sound_tx (tx_ok a)" "sound_tx (tx_err e)" "sound_tx fresh_uuid" "sound_tx (update_jobs p g)"
  by (rule sound_same; auto simp: tx_ok_def tx_err_def fresh_uuid_def update_jobs_def Let_def split: list.splits if_splits)+

text \<open>An update that starts no delivery.\<close>

lemma single_flight_update:
  assumes "single_flight rs" "\<And>r. r \<in> set rs \<Longrightarrow> p r \<Longrightarrow> OxState (f r) \<noteq> DeliveryLeased"
  shows "single_flight (update_where p f rs)"
  using assms by (auto simp: single_flight_def update_where_def rivals_def split: if_splits)

lemma update_sound:
  assumes "\<And>r. r \<in> set (Outbox db) \<Longrightarrow> p r \<Longrightarrow> row_ok r \<Longrightarrow> row_ok (f r) \<and> follows r (f r) \<and> OxState (f r) \<noteq> DeliveryLeased"
  shows "sound_at (update_outbox p f) db"
proof -
  have "outbox_ok (db\<lparr>Outbox := update_where p f (Outbox db)\<rparr>) \<and> evolves db (db\<lparr>Outbox := update_where p f (Outbox db)\<rparr>)"
    if ok: "outbox_ok db"
  proof -
    have each: "row_ok (if p r then f r else r) \<and> follows r (if p r then f r else r)" if "r \<in> set (Outbox db)" for r
      using ok assms that by (auto simp: outbox_ok_def list_all_iff)
    then have ev: "evolves db (db\<lparr>Outbox := update_where p f (Outbox db)\<rparr>)"
      by (auto simp: evolves_def update_where_def list_all2_map2 list_all2_same)
    moreover have "list_all row_ok (update_where p f (Outbox db))" unfolding list_all_iff update_where_def set_map using each by blast
    moreover have "single_flight (update_where p f (Outbox db))"
      using ok assms by (intro single_flight_update) (auto simp: outbox_ok_def list_all_iff)
    ultimately show ?thesis using ok evolves_ids[OF ev] by (simp add: outbox_ok_def)
  qed
  then show ?thesis by (simp add: sound_at_def update_outbox_def)
qed

lemma update_sound_tx: "(\<And>r. p r \<Longrightarrow> row_ok r \<Longrightarrow> row_ok (f r) \<and> follows r (f r) \<and> OxState (f r) \<noteq> DeliveryLeased) \<Longrightarrow> sound_tx (update_outbox p f)"
  by (simp add: sound_tx_def update_sound)

lemma step_star: "delivery_step s s' \<Longrightarrow> delivery_step\<^sup>*\<^sup>* s s'"
  by (rule r_into_rtranclp)

lemmas follow_rules = follows_def same_delivery_def row_ok_def

lemma ended_row: "\<not> final_state (OxState r) \<Longrightarrow> row_ok r \<Longrightarrow> s = DeliverySuperseded \<or> s = DeliveryExpired \<Longrightarrow>
    row_ok (ended s code now (lost_in_flight r)) \<and> follows r (ended s code now (lost_in_flight r))"
  by (auto simp: ended_def lost_in_flight_def follow_rules intro!: step_star delivery_step.intros)

lemma sound_supersede [sound_tx]: "sound_tx (supersede_delivery d i code now)"
  unfolding supersede_delivery_def by (rule update_sound_tx) (use ended_row in \<open>auto simp: ended_def\<close>)

lemma sound_suppress [sound_tx]: "sound_tx (suppress_in_flight d i t code)"
  unfolding suppress_in_flight_def
  by (rule update_sound_tx) (auto simp: follow_rules intro!: step_star delivery_step.intros)

lemma sound_reconcile_leases [sound_tx]: "sound_tx (reconcile_leases d now)"
proof -
  have jobs: "sound_tx (\<lambda>db. update_jobs (p db) g db)" for p g
    by (rule sound_same) (auto simp: update_jobs_def Let_def split: if_splits)
  have expire: "sound_tx (update_outbox (\<lambda>r. OxDeployment r = d \<and> open_delivery (OxState r) \<and> OxExpires r \<le> now)
       (\<lambda>r. ended DeliveryExpired (Some ''delivery_expired'') now (lost_in_flight r)))"
    by (rule update_sound_tx) (use ended_row in \<open>auto simp: ended_def\<close>)
  have lapse: "sound_tx (update_outbox (\<lambda>r. OxDeployment r = d \<and> OxState r = DeliveryLeased \<and> ptr_and (OxLease r) (\<lambda>t. t \<le> now) \<and> OxExpires r > now)
       (\<lambda>r. r\<lparr>OxState := DeliveryFailed, OxToken := None, OxLease := None, OxNext := Some now,
          OxError := Some ''receiver_ack_unknown'', OxUnknown := True\<rparr>))"
    by (rule update_sound_tx) (auto simp: follow_rules intro!: step_star delivery_step.intros)
  show ?thesis unfolding reconcile_leases_def by (intro sound_bind expire jobs lapse)
qed

lemma sound_at_tx: "sound_tx m \<Longrightarrow> sound_at m db"
  by (simp add: sound_tx_def)

lemma sound_at_cong: "m db = m' db \<Longrightarrow> sound_at m' db \<Longrightarrow> sound_at m db"
  by (simp add: sound_at_def)

lemma sound_at_err: "m db = Err e \<Longrightarrow> sound_at m db"
  by (simp add: sound_at_def)

lemma find_result: "find P xs = Some x \<Longrightarrow> x \<in> set xs \<and> P x"
  by (auto simp: find_Some_iff)

lemma ended_simps [simp]:
  "OxID (ended s code now r) = OxID r" "OxDeployment (ended s code now r) = OxDeployment r"
  "OxInstance (ended s code now r) = OxInstance r" "OxDestination (ended s code now r) = OxDestination r"
  "OxState (ended s code now r) = s" "OxJob (ended s code now r) = OxJob r" "OxExpires (ended s code now r) = OxExpires r"
  by (simp_all add: ended_def)

section \<open>The statements of a claim\<close>

definition row_waits :: "string \<Rightarrow> string \<Rightarrow> outbox_db \<Rightarrow> bool" where
  "row_waits d i db \<longleftrightarrow> (\<forall>r\<in>set (Outbox db). row_is d i r \<longrightarrow> waiting (OxState r))"

lemma row_waits_same: "Outbox db' = Outbox db \<Longrightarrow> row_waits d i db \<Longrightarrow> row_waits d i db'"
  by (simp add: row_waits_def)

lemma row_waits_update:
  "row_waits d i db \<Longrightarrow> (\<And>r. p r \<Longrightarrow> row_is d i r \<Longrightarrow> waiting (OxState (f r))) \<Longrightarrow> (\<And>r. row_is d i (f r) \<longleftrightarrow> row_is d i r) \<Longrightarrow>
    update_outbox p f db = Ok (a, db') \<Longrightarrow> row_waits d i db'"
  by (auto simp: row_waits_def update_outbox_def update_where_def)

lemma fresh_uuid_same: "fresh_uuid db = Ok (u, db') \<Longrightarrow> Outbox db' = Outbox db"
  by (auto simp: fresh_uuid_def split: list.splits)

lemma sound_put_off: "row_waits d i db \<Longrightarrow> sound_at (put_off d i code t) db"
  unfolding put_off_def
  by (rule update_sound) (auto simp: row_waits_def follow_rules intro!: step_star delivery_step.intros)

lemma sound_coalesce [sound_tx]: "sound_tx (coalesce_obsolete d i destination tn keep now)"
proof -
  have audit: "sound_tx (tx_bind fresh_uuid (\<lambda>u db. Ok ((), db\<lparr>Notices := g u db\<rparr>)))" for g
    by (rule sound_same) (auto simp: tx_bind_def fresh_uuid_def split: list.splits)
  have upd: "sound_tx (update_outbox (\<lambda>r. OxDeployment r = d \<and> OxInstance r = Some i \<and> OxDestination r = destination \<and> OxID r \<noteq> keep
          \<and> (case OxTransition r of None \<Rightarrow> False | Some t \<Rightarrow> t \<noteq> tn) \<and> waiting (OxState r))
      (ended DeliverySuperseded (Some ''newer_alert_state'') now))"
    by (rule update_sound_tx) (auto simp: ended_def follow_rules intro!: step_star delivery_step.intros)
  show ?thesis unfolding sound_tx_def sound_at_def
    using sound_bind[OF upd audit] by (auto simp: coalesce_obsolete_def Let_def sound_tx_def sound_at_def split: if_splits)
qed

lemma coalesce_keeps_row:
  assumes "coalesce_obsolete d i destination tn keep now db = Ok (u, db')" "row_waits d keep db"
  shows "row_waits d keep db'"
proof -
  let ?p = "\<lambda>r. OxDeployment r = d \<and> OxInstance r = Some i \<and> OxDestination r = destination \<and> OxID r \<noteq> keep
     \<and> (case OxTransition r of None \<Rightarrow> False | Some t \<Rightarrow> t \<noteq> tn) \<and> waiting (OxState r)"
  have "Outbox db' = Outbox db \<or> Outbox db' = update_where ?p (ended DeliverySuperseded (Some ''newer_alert_state'') now) (Outbox db)"
  proof (cases "filter ?p (Outbox db) = []")
    case True
    with assms(1) show ?thesis by (simp add: coalesce_obsolete_def Let_def)
  next
    case False
    then obtain u1 db1 where "fresh_uuid (db\<lparr>Outbox := update_where ?p (ended DeliverySuperseded (Some ''newer_alert_state'') now) (Outbox db)\<rparr>) = Ok (u1, db1)"
      "Outbox db' = Outbox db1"
      using assms(1) by (auto simp: coalesce_obsolete_def Let_def tx_bind_def update_outbox_def elim!: result_bind_OkE)
    with fresh_uuid_same show ?thesis by fastforce
  qed
  then show ?thesis
  proof
    assume rows: "Outbox db' = update_where ?p (ended DeliverySuperseded (Some ''newer_alert_state'') now) (Outbox db)"
    have "waiting (OxState x)" if "x \<in> set (Outbox db')" "row_is d keep x" for x
    proof -
      from that(1) obtain y where y: "y \<in> set (Outbox db)" "x = (if ?p y then ended DeliverySuperseded (Some ''newer_alert_state'') now y else y)"
        unfolding rows update_where_def by auto
      then have "OxID y = keep" using that(2) by (cases "?p y") (simp_all add: row_is_def)
      then have "\<not> ?p y" by simp
      with y(2) have "x = y" by (simp only: if_False)
      with y(1) that(2) assms(2) show ?thesis by (simp add: row_waits_def)
    qed
    then show ?thesis by (simp add: row_waits_def)
  qed (rule row_waits_same[OF _ assms(2)])
qed

lemma sound_reconcile_candidate:
  assumes "row_waits d i db"
  shows "sound_at (reconcile_candidate k d i now) db"
proof -
  have drop: "sound_at (tx_bind (supersede_delivery d i code now) (\<lambda>_. tx_ok x)) db" for code and x :: "prepared option"
    by (rule sound_at_tx) (intro sound_tx)
  have off: "sound_at (tx_bind (put_off d i code t) (\<lambda>_. tx_ok x)) db" for code t and x :: "prepared option"
    by (rule sound_at_bind[OF sound_put_off[OF assms]]) (rule sound_at_tx[OF sound_simple(1)])
  have pend: "sound_at (tx_bind (update_outbox (row_is d i) (\<lambda>r. r\<lparr>OxState := DeliveryPending, OxPayload := payload, OxNext := Some now,
      OxError := None\<rparr>)) (\<lambda>_. tx_ok x)) db'" if "row_waits d i db'" for payload db' and x :: "prepared option"
    by (rule sound_at_bind[OF update_sound]) (use that sound_at_tx[OF sound_simple(1)] in
        \<open>auto simp: row_waits_def follow_rules intro!: step_star delivery_step.intros\<close>)
  have send: "sound_at (tx_bind (coalesce_obsolete d a dest tn i now) (\<lambda>_ db.
      result_bind (g db) (\<lambda>payload. tx_bind (update_outbox (row_is d i) (\<lambda>r. r\<lparr>OxState := DeliveryPending, OxPayload := payload, OxNext := Some now,
      OxError := None\<rparr>)) (\<lambda>_. tx_ok (h payload)) db))) db" for a dest tn g and h :: "string \<Rightarrow> prepared option"
  proof (rule sound_at_bind)
    show "sound_at (coalesce_obsolete d a dest tn i now) db" by (rule sound_at_tx[OF sound_coalesce])
    fix u db1 assume "coalesce_obsolete d a dest tn i now db = Ok (u, db1)"
    then have "row_waits d i db1" using assms by (rule coalesce_keeps_row)
    with pend show "sound_at (\<lambda>db. result_bind (g db) (\<lambda>payload. tx_bind (update_outbox (row_is d i)
        (\<lambda>r. r\<lparr>OxState := DeliveryPending, OxPayload := payload, OxNext := Some now, OxError := None\<rparr>)) (\<lambda>_. tx_ok (h payload)) db)) db1"
      by (fastforce simp: sound_at_def elim!: result_bind_OkE)
  qed
  show ?thesis
  proof (cases "find_row d i db")
    case None
    then show ?thesis by (intro sound_at_err) (simp add: reconcile_candidate_def)
  next
    case row: (Some r)
    show ?thesis
    proof (cases "destination_verdict k r db")
      case (Drop code)
      then show ?thesis by (intro sound_at_cong[OF _ drop]) (simp add: reconcile_candidate_def row)
    next
      case (PutOff t code)
      then show ?thesis by (intro sound_at_cong[OF _ off]) (simp add: reconcile_candidate_def row)
    next
      case v: (Sendable c kind)
      let ?l = "\<lparr>PrKind = kind, PrConfig = c, PrSecretRef = ref_text (OxSecretRef r), PrPayload = OxPayload r\<rparr>"
      show ?thesis
      proof (cases "OxInstance r")
        case None
        have ok: "sound_at (tx_ok x) db" for x :: "prepared option" by (rule sound_at_tx[OF sound_simple(1)])
        show ?thesis
        proof (cases "test_active d i db")
          case True
          with None v show ?thesis by (intro sound_at_cong[OF _ ok[of "Some ?l"]]) (simp add: reconcile_candidate_def row tx_ok_def)
        next
          case False
          with None v show ?thesis by (intro sound_at_cong[OF _ drop]) (simp add: reconcile_candidate_def row)
        qed
      next
        case inst: (Some a)
        consider e where "alert_verdict k r a now db = Err e" | code where "alert_verdict k r a now db = Ok (Some (Drop code))"
          | t code where "alert_verdict k r a now db = Ok (Some (PutOff t code))"
          | "alert_verdict k r a now db = Ok None" | x y where "alert_verdict k r a now db = Ok (Some (Sendable x y))"
          by (metis not_None_eq sum.exhaust verdict.exhaust)
        then show ?thesis
        proof cases
          case 1
          with inst v show ?thesis by (intro sound_at_err) (simp add: reconcile_candidate_def row)
        next
          case 2
          with inst v show ?thesis by (intro sound_at_cong[OF _ drop]) (simp add: reconcile_candidate_def row)
        next
          case 3
          with inst v show ?thesis by (intro sound_at_cong[OF _ off]) (simp add: reconcile_candidate_def row)
        qed (use inst v in \<open>(intro sound_at_cong[OF _ send], simp add: reconcile_candidate_def row)+\<close>)
      qed
    qed
  qed
qed

lemma sound_defer [sound_tx]: "sound_tx (defer_contended d i now)"
proof -
  have "sound_tx (tx_bind (update_outbox (\<lambda>r. row_is d i r \<and> waiting (OxState r))
     (\<lambda>r. r\<lparr>OxNext := Some t, OxError := Some c\<rparr>)) (\<lambda>_. tx_ok True))" for t c
    by (intro sound_bind update_sound_tx sound_tx) (auto simp: follow_rules)
  then show ?thesis
    by (auto simp: sound_tx_def sound_at_def defer_contended_def Let_def split: option.splits)
qed

lemma follows_leased:
  "waiting (OxState r) \<Longrightarrow> row_ok r \<Longrightarrow> OxAttempts r + 1 \<le> 1000 \<Longrightarrow>
    row_ok (r\<lparr>OxState := DeliveryLeased, OxAttempts := OxAttempts r + 1, OxToken := Some token,
       OxLease := Some t, OxNext := None, OxError := None, OxStarted := Some now\<rparr>) \<and>
    follows r (r\<lparr>OxState := DeliveryLeased, OxAttempts := OxAttempts r + 1, OxToken := Some token,
       OxLease := Some t, OxNext := None, OxError := None, OxStarted := Some now\<rparr>)"
  by (auto simp: follow_rules intro!: step_star delivery_step.intros)

lemma sound_lease_row [sound_tx]: "sound_tx (lease_row d i token now)"
  unfolding sound_tx_def sound_at_def
proof (intro allI impI)
  fix db a db' assume ok: "outbox_ok db" and run: "lease_row d i token now db = Ok (a, db')"
  let ?p = "\<lambda>r. row_is d i r \<and> waiting (OxState r)"
  let ?f = "\<lambda>r. r\<lparr>OxState := DeliveryLeased, OxAttempts := OxAttempts r + 1, OxToken := Some token,
     OxLease := Some (add64 now lease_ms), OxNext := None, OxError := None, OxStarted := Some now\<rparr>"
  show "outbox_ok db' \<and> evolves db db'"
  proof (cases "find ?p (Outbox db)")
    case None
    with run ok show ?thesis by (simp add: lease_row_def)
  next
    case (Some r)
    then have r: "r \<in> set (Outbox db)" "?p r" by (auto dest: find_result)
    from run Some have few: "OxAttempts r + 1 \<le> 1000" and free: "\<not> list_ex (in_flight_with r) (Outbox db)"
      and rows: "Outbox db' = update_where ?p ?f (Outbox db)"
      by (auto simp: lease_row_def update_outbox_def tx_bind_def tx_ok_def split: if_splits)
    have only: "x = r" if "x \<in> set (Outbox db)" "?p x" for x
      using ok r that by (auto simp: outbox_ok_def row_is_def distinct_map dest: inj_onD)
    have each: "row_ok (if ?p x then ?f x else x) \<and> follows x (if ?p x then ?f x else x)" if "x \<in> set (Outbox db)" for x
      using follows_leased[of x] only[OF that] few ok that by (auto simp: outbox_ok_def list_all_iff)
    then have ev: "evolves db db'" by (auto simp: evolves_def rows update_where_def list_all2_map2 list_all2_same)
    moreover have "list_all row_ok (Outbox db')" unfolding list_all_iff rows update_where_def set_map using each by blast
    moreover have "single_flight (Outbox db')"
    proof -
      have clash: "\<not> rivals (?f r) y" "\<not> rivals y (?f r)" if "y \<in> set (Outbox db)" "OxID y \<noteq> OxID r" for y
        using free that by (auto simp: list_ex_iff in_flight_with_def rivals_def)
      have "OxID a = OxID b" if "a \<in> set (Outbox db')" "b \<in> set (Outbox db')" "rivals a b" for a b
      proof -
        from that(1,2) obtain x y where xy: "x \<in> set (Outbox db)" "a = (if ?p x then ?f x else x)" "y \<in> set (Outbox db)" "b = (if ?p y then ?f y else y)"
          by (auto simp: rows update_where_def)
        then show ?thesis
        proof (cases "?p x \<or> ?p y")
          case True
          then have "x = r \<or> y = r" using xy only by blast
          then show ?thesis using xy clash that(3) r(2) by (cases "OxID x = OxID y") (auto simp: row_is_def split: if_split_asm)
        next
          case False
          with xy ok that(3) show ?thesis by (auto simp: outbox_ok_def single_flight_def)
        qed
      qed
      then show ?thesis by (simp add: single_flight_def)
    qed
    ultimately show ?thesis using ok evolves_ids[OF ev] by (simp add: outbox_ok_def)
  qed
qed

section \<open>The operations\<close>

lemma sound_jobs [sound_tx]: "sound_tx (start_test r now)" "sound_tx (finish_test r succeeded code now)"
proof -
  have complete: "sound_tx (complete_test d job delivery succeeded code now)" for d job delivery
    by (rule sound_same) (auto simp: complete_test_def tx_bind_def update_jobs_def Let_def
        split: if_splits option.splits elim!: result_bind_OkE)
  show "sound_tx (start_test r now)" "sound_tx (finish_test r succeeded code now)"
    by (auto simp: start_test_def finish_test_def intro!: sound_tx complete split: option.split)
qed

lemma first_due_Some:
  assumes "first_due d now db = Some c" "distinct (map OxID (Outbox db))"
  shows "c \<in> set (Outbox db)" "due d now c" "row_waits d (OxID c) db"
proof -
  show c: "c \<in> set (Outbox db)" "due d now c" using assms(1) by (auto simp: first_due_def Let_def dest!: find_result)
  then show "row_waits d (OxID c) db" using assms(2) by (auto simp: row_waits_def row_is_def due_def distinct_map dest: inj_onD)
qed

lemma sound_scan_once: "outbox_ok db \<Longrightarrow> sound_at (scan_once k d now) db"
proof (cases "first_due d now db")
  case None
  then show ?thesis by (simp add: sound_at_def scan_once_def)
next
  case (Some c)
  assume ok: "outbox_ok db"
  have waits: "row_waits d (OxID c) db" using first_due_Some(3)[OF Some] ok by (simp add: outbox_ok_def)
  have tail: "sound_tx (\<lambda>db. case lease_row d (OxID c) token now db of
          Err e \<Rightarrow> if e = one_in_flight then tx_bind (defer_contended d (OxID c) now) (\<lambda>_. tx_ok Again) db else Err e
        | Ok (changed, db) \<Rightarrow> if \<not> changed then Ok (Again, db)
            else (case find_row d (OxID c) db of None \<Rightarrow> Err ErrDeliveryNotFound
              | Some r \<Rightarrow> tx_bind (start_test r now) (\<lambda>_. tx_ok (Claimed \<lparr>LeasedRow = r, LeaseToken = token, Prepared = lease\<rparr>)) db))"
    for token lease
    unfolding sound_tx_def sound_at_def
  proof (intro allI impI)
    fix db a db' assume db: "outbox_ok db" and run: "(case lease_row d (OxID c) token now db of
          Err e \<Rightarrow> if e = one_in_flight then tx_bind (defer_contended d (OxID c) now) (\<lambda>_. tx_ok Again) db else Err e
        | Ok (changed, db) \<Rightarrow> if \<not> changed then Ok (Again, db)
            else (case find_row d (OxID c) db of None \<Rightarrow> Err ErrDeliveryNotFound
              | Some r \<Rightarrow> tx_bind (start_test r now) (\<lambda>_. tx_ok (Claimed \<lparr>LeasedRow = r, LeaseToken = token, Prepared = lease\<rparr>)) db)) = Ok (a, db')"
    show "outbox_ok db' \<and> evolves db db'"
    proof (cases "lease_row d (OxID c) token now db")
      case (Inl e)
      with run have "tx_bind (defer_contended d (OxID c) now) (\<lambda>_. tx_ok Again) db = Ok (a, db')" by (simp split: if_split_asm)
      then show ?thesis by (rule sound_txD[OF sound_bind[OF sound_defer sound_simple(1)] db])
    next
      case (Inr x)
      obtain changed db1 where x: "x = (changed, db1)" by fastforce
      note one = sound_txD[OF sound_lease_row db Inr[unfolded x]]
      from run Inr x consider "db' = db1" | r where
        "tx_bind (start_test r now) (\<lambda>_. tx_ok (Claimed \<lparr>LeasedRow = r, LeaseToken = token, Prepared = lease\<rparr>)) db1 = Ok (a, db')"
        by (auto split: if_split_asm option.splits)
      then show ?thesis
      proof cases
        case (2 r)
        with one sound_txD[OF sound_bind[OF sound_jobs(1) sound_simple(1)] _ 2] show ?thesis by (auto intro: evolves_trans)
      qed (use one in simp)
    qed
  qed
  have "sound_at (tx_bind (reconcile_candidate k d (OxID c) now) (\<lambda>p. case p of
              None \<Rightarrow> tx_ok Again
            | Some lease \<Rightarrow> tx_bind (defer_contended d (OxID c) now) (\<lambda>contended.
                if contended then tx_ok Again
                else tx_bind fresh_uuid (\<lambda>token db. case lease_row d (OxID c) token now db of
          Err e \<Rightarrow> if e = one_in_flight then tx_bind (defer_contended d (OxID c) now) (\<lambda>_. tx_ok Again) db else Err e
        | Ok (changed, db) \<Rightarrow> if \<not> changed then Ok (Again, db)
            else (case find_row d (OxID c) db of None \<Rightarrow> Err ErrDeliveryNotFound
              | Some r \<Rightarrow> tx_bind (start_test r now) (\<lambda>_. tx_ok (Claimed \<lparr>LeasedRow = r, LeaseToken = token, Prepared = lease\<rparr>)) db)))))
      db"
    by (rule sound_at_bind[OF sound_reconcile_candidate[OF waits]], rule sound_at_tx)
      (auto intro!: sound_tx tail split: option.split)
  then show ?thesis by (simp add: sound_at_def scan_once_def Some)
qed

lemma sound_scan_due: "outbox_ok db \<Longrightarrow> sound_at (scan_due n k d now) db"
proof (induction n arbitrary: db)
  case 0
  show ?case by (simp add: sound_at_tx[OF sound_simple(1)])
next
  case (Suc n)
  show ?case unfolding scan_due.simps
  proof (rule sound_at_bind[OF sound_scan_once[OF Suc.prems]])
    fix s db' assume "outbox_ok db'"
    then show "sound_at (case s of Claimed l \<Rightarrow> tx_ok (Some l) | Nothing \<Rightarrow> tx_ok None | Again \<Rightarrow> scan_due n k d now) db'"
      using Suc.IH by (cases s) (auto intro: sound_at_tx sound_simple(1))
  qed
qed

lemma sound_claim [sound_tx]: "sound_tx (claim_body k d g now)"
proof -
  have "sound_tx (tx_bind (reconcile_leases d now) (\<lambda>_. scan_due 32 k d now))"
    unfolding sound_tx_def by (intro allI sound_at_bind sound_at_tx sound_reconcile_leases sound_scan_due)
  then show ?thesis by (auto simp: sound_tx_def sound_at_def claim_body_def split: option.splits if_splits)
qed

lemma sound_complete_steps [sound_tx]:
  "sound_tx (complete_sent c r now)" "sound_tx (complete_failed c r now)" "sound_tx (complete_again c r now)"
proof -
  have sent: "sound_tx (update_outbox (holds_lease c) (\<lambda>x. (ended DeliverySent None now x)\<lparr>OxSent := Some now, OxAck := CpAck c\<rparr>))"
    by (rule update_sound_tx) (auto simp: holds_lease_def ended_def follow_rules intro!: step_star delivery_step.intros)
  have failed: "sound_tx (update_outbox (holds_lease c) (ended DeliveryFailed code now))" for code
    by (rule update_sound_tx) (auto simp: holds_lease_def ended_def follow_rules intro!: step_star delivery_step.intros)
  have expired: "sound_tx (update_outbox (holds_lease c) (ended DeliveryExpired code now))" for code
    by (rule update_sound_tx) (auto simp: holds_lease_def ended_def follow_rules intro!: step_star delivery_step.intros)
  have again: "sound_tx (update_outbox (holds_lease c) (\<lambda>x. x\<lparr>OxState := DeliveryFailed, OxToken := None, OxLease := None,
        OxNext := Some t, OxError := Some (CpCode c), OxUnknown := (u \<or> OxUnknown x)\<rparr>))" for t u
    by (rule update_sound_tx) (auto simp: holds_lease_def follow_rules intro!: step_star delivery_step.intros)
  show "sound_tx (complete_sent c r now)" "sound_tx (complete_failed c r now)" "sound_tx (complete_again c r now)"
    by (auto simp: complete_sent_def complete_failed_def complete_again_def Let_def intro!: sound_tx sent failed expired again)
qed

lemma revalidate_cases:
  assumes "\<And>code db (x :: bool). sound_at (tx_bind (supersede_delivery d i code now) (\<lambda>_. tx_ok x)) db"
    and "\<And>t code db (x :: bool). sound_at (tx_bind (suppress_in_flight d i t code) (\<lambda>_. tx_ok x)) db"
    and "\<And>db (x :: bool). sound_at (\<lambda>db. Ok (x, db)) db"
  shows "sound_at (revalidate_for_retry k d i now) db"
proof (cases "find_row d i db")
  case None
  then show ?thesis by (intro sound_at_err) (simp add: revalidate_for_retry_def)
next
  case row: (Some r)
  show ?thesis
  proof (cases "destination_verdict k r db")
    case v: (Sendable c kind)
    show ?thesis
    proof (cases "OxInstance r")
      case None
      with v show ?thesis by (intro sound_at_cong[where m' = "\<lambda>db. Ok (True, db)", OF _ assms(3)]) (simp add: revalidate_for_retry_def row)
    next
      case inst: (Some a)
      consider e where "alert_verdict k r a now db = Err e" | code where "alert_verdict k r a now db = Ok (Some (Drop code))"
        | t code where "alert_verdict k r a now db = Ok (Some (PutOff t code))"
        | "alert_verdict k r a now db = Ok None" | x y where "alert_verdict k r a now db = Ok (Some (Sendable x y))"
        by (metis not_None_eq sum.exhaust verdict.exhaust)
      then show ?thesis
      proof cases
        case 1
        with inst v show ?thesis by (intro sound_at_err) (simp add: revalidate_for_retry_def row)
      next
        case 2
        with inst v show ?thesis by (intro sound_at_cong[OF _ assms(1)]) (simp add: revalidate_for_retry_def row)
      next
        case 3
        with inst v show ?thesis by (intro sound_at_cong[OF _ assms(2)]) (simp add: revalidate_for_retry_def row)
      qed (use inst v in \<open>(intro sound_at_cong[where m' = "\<lambda>db. Ok (True, db)", OF _ assms(3)], simp add: revalidate_for_retry_def row)+\<close>)
    qed
  qed (intro sound_at_cong[OF _ assms(1)] sound_at_cong[OF _ assms(2)], simp add: revalidate_for_retry_def row)+
qed

lemma sound_revalidate [sound_tx]: "sound_tx (revalidate_for_retry k d i now)"
proof -
  have "sound_at (tx_bind (supersede_delivery d i code now) (\<lambda>_. tx_ok x)) db"
    "sound_at (tx_bind (suppress_in_flight d i t code) (\<lambda>_. tx_ok x)) db" for code t db and x :: bool
    by (rule sound_at_tx; intro sound_tx)+
  moreover have "sound_at (\<lambda>db. Ok (x, db)) db" for x :: bool and db by (simp add: sound_at_def)
  ultimately have "sound_at (revalidate_for_retry k d i now) db" for db
    by (rule revalidate_cases)
  then show ?thesis by (simp add: sound_tx_def)
qed

lemma sound_read [sound_tx]: "sound_tx (read_delivery d i)"
  by (rule sound_same) (auto simp: read_delivery_def split: option.splits)

lemma sound_complete [sound_tx]: "sound_tx (complete_body k c now)"
proof -
  have "sound_tx (tx_bind
            (if CpSucceeded c then complete_sent c r now
             else if CpPermanent c \<or> OxJob r \<noteq> None then complete_failed c r now
             else tx_bind (revalidate_for_retry k (OxDeployment r) (CpID c) now) (\<lambda>allowed.
               if allowed then complete_again c r now else tx_ok ()))
            (\<lambda>_. read_delivery (OxDeployment r) (CpID c)))" for r
    by (auto intro!: sound_tx)
  then show ?thesis by (auto simp: sound_tx_def sound_at_def complete_body_def split: option.splits if_splits)
qed

lemma sound_atomically:
  assumes "sound_tx m" "outbox_ok db" "atomically env m db = (r, db')"
  shows "outbox_ok db' \<and> evolves db db'"
  using assms sound_txD[OF assms(1,2)]
  by (auto simp: atomically_def split: option.splits sum.splits prod.splits)

end
