(* ===== verification/OutboxReady.thy ===== *)
theory OutboxReady
  imports OutboxFacts
begin

text \<open>
  What a claim hands out: the retry keeps the table in order too, no statement of a claim changes what
  it is decided by, and so the delivery that is handed out is ready when it is handed out.
\<close>

section \<open>The retry of an administrator\<close>

lemma read_receipt_same: "read_receipt a key e pick now db = Ok (x, db') \<Longrightarrow> Outbox db' = Outbox db"
  by (auto simp: read_receipt_def split: option.splits if_splits)

lemma sound_read_receipt [sound_tx]: "sound_tx (read_receipt a key e pick now)"
  by (rule sound_same) (erule read_receipt_same)

lemma sound_persist [sound_tx]: "sound_tx (persist_receipt k e a key hash action resource detail status x now)"
  by (rule sound_same) (auto simp: persist_receipt_def tx_bind_def tx_err_def elim!: result_bind_OkE dest!: fresh_uuid_same split: if_splits)

lemma read_delivery_Ok: "read_delivery d i db = Ok (r, db') \<longleftrightarrow> db' = db \<and> find_row d i db = Some r"
  by (auto simp: read_delivery_def split: option.splits)

lemma sound_retry [sound_tx]: "sound_tx (retry_failed k a i key hash now)"
proof -
  let ?d = "AcDeploymentID a"
  have again: "sound_tx (update_outbox (\<lambda>r. row_is ?d i r \<and> waiting (OxState r))
      (\<lambda>r. r\<lparr>OxState := DeliveryPending, OxNext := Some now, OxError := None, OxCompleted := None\<rparr>))"
    by (rule update_sound_tx) (auto simp: follow_rules intro!: step_star delivery_step.intros)
  have requeue: "sound_at (requeue k a i key hash now) db" if "row_waits ?d i db" for db
    unfolding requeue_def
    by (rule sound_at_bind[OF sound_reconcile_candidate[OF that]], rule sound_at_tx) (auto intro!: sound_tx again simp: persist_retry_def)
  have failed: "row_waits ?d i db" if "outbox_ok db" "find_row ?d i db = Some r" "OxState r = DeliveryFailed" for db r
  proof -
    from that(2) have r: "r \<in> set (Outbox db)" "row_is ?d i r" by (auto simp: find_row_def dest: find_result)
    then have "x = r" if "x \<in> set (Outbox db)" "row_is ?d i x" for x
      using \<open>outbox_ok db\<close> that by (auto simp: outbox_ok_def row_is_def distinct_map dest: inj_onD)
    with that(3) show ?thesis by (auto simp: row_waits_def)
  qed
  have "sound_at (retry_failed k a i key hash now) db" for db
    unfolding retry_failed_def
  proof (rule sound_at_bind[OF sound_at_tx[OF sound_read]])
    fix r db2 assume a: "read_delivery ?d i db = Ok (r, db2)" "outbox_ok db2"
    have err: "sound_at (tx_err e :: outbox_row tx) db2" for e by (simp add: sound_at_def tx_err_def)
    show "sound_at (if OxExpires r \<le> now \<or> OxState r = DeliveryExpired then tx_err ErrDeliveryExpired
        else if OxState r \<noteq> DeliveryFailed then tx_err ErrDeliveryConflict else requeue k a i key hash now) db2"
    proof (cases "OxState r = DeliveryFailed")
      case True
      with a have "sound_at (requeue k a i key hash now) db2" by (intro requeue failed) (simp_all add: read_delivery_Ok)
      then show ?thesis using err by simp
    qed (use err in simp)
  qed
  then show ?thesis by (simp add: sound_tx_def)
qed

text \<open>Every operation of an administrator reads the receipt of its key first, and only then changes something.\<close>

lemma replayable_Ok:
  assumes "replayable env m db = (Ok x, db')"
  shows "\<exists>b db1. m db = Ok ((b, x), db1) \<and> db' = (if b then db else db1)"
  using assms by (auto simp: replayable_def split: option.splits sum.splits prod.splits bool.splits)

lemma replayable_Err: "replayable env m db = (Err e, db') \<Longrightarrow> db' = db"
  by (auto simp: replayable_def split: option.splits sum.splits prod.splits bool.splits)

lemma as_admin_Ok:
  assumes "replayable env (as_admin a earlier change) db = (Ok x, db')"
  obtains (again) db1 where "validate_actor a db = Ok ''admin''" "db' = db" "earlier db = Ok (Some x, db1)"
  | (new) db1 where "validate_actor a db = Ok ''admin''" "earlier db = Ok (None, db1)" "change db1 = Ok (x, db')"
proof -
  note cases = that
  from replayable_Ok[OF assms] obtain b db1 where run: "as_admin a earlier change db = Ok ((b, x), db1)"
    and db': "db' = (if b then db else db1)" by auto
  from run have admin: "validate_actor a db = Ok ''admin''"
    by (auto simp: as_admin_def elim!: result_bind_OkE split: if_split_asm)
  with run obtain found db2 where read: "earlier db = Ok (found, db2)"
    and rest: "(case found of Some x \<Rightarrow> tx_ok (True, x) | None \<Rightarrow> tx_bind change (\<lambda>x. tx_ok (False, x))) db2 = Ok ((b, x), db1)"
    by (auto simp: as_admin_def tx_bind_def elim!: result_bind_OkE)
  show ?thesis
  proof (cases found)
    case (Some y)
    with rest have "b" "y = x" by (simp_all add: tx_ok_def)
    with db' read Some show ?thesis by (intro cases(1)[OF admin]) simp_all
  next
    case None
    with rest have "\<not> b" "change db2 = Ok (x, db1)" by (auto simp: tx_bind_def tx_ok_def elim!: result_bind_OkE)
    with db' read None show ?thesis by (intro cases(2)[OF admin]) simp_all
  qed
qed

lemma as_admin_outcome:
  assumes "replayable env (as_admin a earlier change) db = (r, db')"
  shows "db' = db \<or> (\<exists>db1 x. validate_actor a db = Ok ''admin'' \<and> earlier db = Ok (None, db1) \<and> change db1 = Ok (x, db') \<and> r = Ok x)"
proof (cases r)
  case (Inl e)
  with assms show ?thesis by (auto dest: replayable_Err)
next
  case (Inr x)
  with assms show ?thesis by (auto elim: as_admin_Ok)
qed

lemma sound_as_admin:
  assumes "sound_tx earlier" "sound_tx change" "outbox_ok db" "replayable env (as_admin a earlier change) db = (r, db')"
  shows "outbox_ok db' \<and> evolves db db'"
  using as_admin_outcome[OF assms(4)]
proof (elim disjE exE conjE)
  fix db1 x assume one: "earlier db = Ok (None, db1)" and two: "change db1 = Ok (x, db')"
  note first = sound_txD[OF assms(1,3) one]
  from sound_txD[OF assms(2) conjunct1[OF first] two] first show ?thesis by (auto intro: evolves_trans)
qed (use assms(3) in simp)

section \<open>What the statements of a claim leave alone\<close>

definition frame :: "outbox_db \<Rightarrow> (hub \<times> destination_row list \<times> instance_row list \<times> rule_row list \<times> revision_row list) \<times>
    transition_row list \<times> alert_incident_row list \<times> window_row list \<times> user_row list \<times> receipt list" where
  "frame db = ((OxHub db, Destinations db, Instances db, Rules db, Revisions db),
     Transitions db, AlertIncidents db, Windows db, Users db, Receipts db)"

definition keeps :: "'a tx \<Rightarrow> bool" where
  "keeps m \<longleftrightarrow> (\<forall>db a db'. m db = Ok (a, db') \<longrightarrow> frame db' = frame db \<and> TestJobs db' = TestJobs db)"

named_theorems keeps

lemma keepsI: "(\<And>db a db'. m db = Ok (a, db') \<Longrightarrow> frame db' = frame db \<and> TestJobs db' = TestJobs db) \<Longrightarrow> keeps m"
  by (simp add: keeps_def)

lemma keepsD: "keeps m \<Longrightarrow> m db = Ok (a, db') \<Longrightarrow> frame db' = frame db"
  by (simp add: keeps_def)

lemma keeps_jobsD: "keeps m \<Longrightarrow> m db = Ok (a, db') \<Longrightarrow> TestJobs db' = TestJobs db"
  by (simp add: keeps_def)

lemma keeps_bind [keeps]: "keeps m \<Longrightarrow> (\<And>a. keeps (f a)) \<Longrightarrow> keeps (tx_bind m f)"
  by (fastforce simp: keeps_def tx_bind_def elim!: result_bind_OkE)

lemma keeps_simple [keeps]: "keeps (tx_ok a)" "keeps (tx_err e)" "keeps fresh_uuid" "keeps (update_outbox q h)"
  by (rule keepsI; auto simp: frame_def tx_ok_def tx_err_def fresh_uuid_def update_outbox_def split: list.splits)+

lemma keeps_updates [keeps]: "keeps (supersede_delivery d i code now)" "keeps (put_off d i code t)"
  by (simp_all add: supersede_delivery_def put_off_def keeps)

lemma keeps_coalesce [keeps]: "keeps (coalesce_obsolete d i destination tn keep now)"
  by (rule keepsI) (auto simp: coalesce_obsolete_def Let_def tx_bind_def update_outbox_def fresh_uuid_def frame_def
      split: if_splits list.splits elim!: result_bind_OkE)

lemma update_jobs_frame: "update_jobs p g db = Ok (n, db') \<Longrightarrow> frame db' = frame db"
  by (auto simp: update_jobs_def frame_def Let_def split: if_splits)

lemma leases_frame: "reconcile_leases d now db = Ok (a, db') \<Longrightarrow> frame db' = frame db"
  by (auto simp: reconcile_leases_def tx_bind_def elim!: result_bind_OkE dest!: update_jobs_frame keepsD[OF keeps_simple(4)])

lemma start_test_frame: "start_test r now db = Ok (a, db') \<Longrightarrow> frame db' = frame db"
  by (auto simp: start_test_def tx_bind_def tx_ok_def elim!: result_bind_OkE dest!: update_jobs_frame split: option.splits)

lemma keeps_cases: "keeps m \<Longrightarrow> m db = Ok (a, db') \<Longrightarrow> frame db' = frame db \<and> TestJobs db' = TestJobs db"
  by (simp add: keeps_def)

lemma keeps_defer [keeps]: "keeps (defer_contended d i now)"
proof (rule keepsI)
  fix db a db' assume "defer_contended d i now db = Ok (a, db')"
  then show "frame db' = frame db \<and> TestJobs db' = TestJobs db"
    by (auto simp: defer_contended_def Let_def split: option.splits dest!: keeps_cases[rotated] intro!: keeps)
qed

lemma keeps_lease_row [keeps]: "keeps (lease_row d i token now)"
proof (rule keepsI)
  fix db a db' assume "lease_row d i token now db = Ok (a, db')"
  then show "frame db' = frame db \<and> TestJobs db' = TestJobs db"
    by (auto simp: lease_row_def split: option.splits if_splits dest!: keeps_cases[rotated] intro!: keeps)
qed

section \<open>A candidate that is ready\<close>

text \<open>What must hold of a delivery before the sender gets it.\<close>

definition ready_for :: "outbox_codec \<Rightarrow> int64 \<Rightarrow> outbox_db \<Rightarrow> outbox_row \<Rightarrow> prepared \<Rightarrow> bool" where
  "ready_for k now db r lease \<longleftrightarrow>
     (case find_destination (OxDeployment r) (OxDestination r) db of None \<Rightarrow> False | Some ds \<Rightarrow>
        DsDisabled ds = None \<and> DsVersion ds = OxDestRevision r \<and> DsType ds = PrKind lease \<and>
        ConfigOf k (DsConfig ds) = Some (PrConfig lease) \<and> validate_notification_config (Libs k) (PrKind lease) (PrConfig lease) \<and>
        secret_refs_match (PrSecretRef lease) (ref_text (DsSecret ds)) (PrConfig lease)) \<and>
     PrSecretRef lease = ref_text (OxSecretRef r) \<and>
     (case OxInstance r of None \<Rightarrow> True | Some a \<Rightarrow> alert_verdict k r a now db = Ok None)"

lemma frame_tables:
  assumes "frame db' = frame db"
  shows "OxHub db' = OxHub db" "Destinations db' = Destinations db" "Instances db' = Instances db" "Rules db' = Rules db"
    "Revisions db' = Revisions db" "Windows db' = Windows db" "Users db' = Users db" "Receipts db' = Receipts db"
  using assms by (simp_all add: frame_def)

lemma frame_lookups:
  assumes "frame db' = frame db"
  shows "find_destination d i db' = find_destination d i db" "find_instance d i db' = find_instance d i db"
    "revision_of d i db' = revision_of d i db" "host_of_target d i db' = host_of_target d i db" "Rules db' = Rules db"
    "Windows db' = Windows db" "host_down k d i db' = host_down k d i db" "scope_matches k d s e db' = scope_matches k d s e db"
  by (simp_all only: find_destination_def find_instance_def revision_of_def host_of_target_def host_down_def scope_matches_def
      frame_tables[OF assms])

lemma frame_holding:
  assumes "frame db' = frame db"
  shows "maintenance_until k d i now db' = maintenance_until k d i now db" "parent_suppressed k d i db' = parent_suppressed k d i db"
  by (simp_all only: maintenance_until_def parent_suppressed_def frame_lookups[OF assms])

lemma alert_verdict_frame:
  assumes "same_delivery r r'" "frame db' = frame db"
  shows "alert_verdict k r' i now db' = alert_verdict k r i now db"
proof -
  have r: "OxDeployment r' = OxDeployment r" "OxTransition r' = OxTransition r" "OxRuleRevision r' = OxRuleRevision r"
    "OxGeneration r' = OxGeneration r" using assms(1) by (simp_all add: same_delivery_def)
  show ?thesis unfolding alert_verdict_def Let_def r frame_lookups[OF assms(2)] frame_holding[OF assms(2)] ..
qed

lemma ready_frame:
  assumes "same_delivery r r'" "frame db' = frame db"
  shows "ready_for k now db' r' lease = ready_for k now db r lease"
proof -
  have r: "OxDeployment r' = OxDeployment r" "OxDestination r' = OxDestination r" "OxDestRevision r' = OxDestRevision r"
    "OxSecretRef r' = OxSecretRef r" "OxInstance r' = OxInstance r" using assms(1) by (simp_all add: same_delivery_def)
  show ?thesis unfolding ready_for_def r frame_lookups[OF assms(2)] alert_verdict_frame[OF assms] ..
qed

lemma alert_verdict_not_sendable: "alert_verdict k r i now db \<noteq> Ok (Some (Sendable c kind))"
  by (auto simp: alert_verdict_def Let_def split: option.splits if_splits elim!: result_bind_OkE)

lemma destination_verdict_Sendable:
  "destination_verdict k r db = Sendable c kind \<Longrightarrow> \<exists>ds. find_destination (OxDeployment r) (OxDestination r) db = Some ds \<and>
     DsDisabled ds = None \<and> DsVersion ds = OxDestRevision r \<and> DsType ds = kind \<and> ConfigOf k (DsConfig ds) = Some c \<and>
     validate_notification_config (Libs k) kind c \<and> secret_refs_match (ref_text (OxSecretRef r)) (ref_text (DsSecret ds)) c"
  by (auto simp: destination_verdict_def split: option.splits if_splits)

lemma keeps_tail: "keeps m \<Longrightarrow> tx_bind m (\<lambda>_. tx_ok a) db = Ok (b, db') \<Longrightarrow> frame db' = frame db \<and> TestJobs db' = TestJobs db \<and> b = a"
  by (auto simp: tx_bind_def tx_ok_def elim!: result_bind_OkE dest: keepsD keeps_jobsD)

lemma reconcile_ready:
  assumes "reconcile_candidate k d i now db = Ok (p, db')"
  shows "frame db' = frame db \<and> TestJobs db' = TestJobs db \<and> (\<forall>lease. p = Some lease \<longrightarrow> (\<exists>r. find_row d i db = Some r \<and> ready_for k now db r lease) \<and>
     (db' = db \<or> (\<forall>y\<in>set (Outbox db'). row_is d i y \<longrightarrow> OxState y = DeliveryPending)))"
proof -
  obtain r where r: "find_row d i db = Some r" using assms by (auto simp: reconcile_candidate_def split: option.splits)
  then have d: "OxDeployment r = d" by (auto simp: find_row_def row_is_def dest!: find_result)
  show ?thesis
  proof (cases "destination_verdict k r db")
    case v: (Sendable c kind)
    note ds = destination_verdict_Sendable[OF v]
    show ?thesis
    proof (cases "OxInstance r")
      case None
      with assms r v ds show ?thesis
        by (auto simp: reconcile_candidate_def ready_for_def Let_def dest!: keeps_tail[rotated] intro: keeps split: if_split_asm)
    next
      case a: (Some a)
      show ?thesis
      proof (cases "alert_verdict k r a now db")
        case (Inl e)
        with assms r v a show ?thesis by (simp add: reconcile_candidate_def Let_def)
      next
        case (Inr x)
        consider code where "x = Some (Drop code)" | t code where "x = Some (PutOff t code)" | "x = None"
          using alert_verdict_not_sendable[of k r a now db] Inr by (metis not_None_eq verdict.exhaust)
        then show ?thesis
        proof cases
          case 1
          with assms r v a Inr show ?thesis
            by (auto simp: reconcile_candidate_def Let_def dest!: keeps_tail[rotated] intro: keeps)
        next
          case 2
          with assms r v a Inr show ?thesis
            by (auto simp: reconcile_candidate_def Let_def dest!: keeps_tail[rotated] intro: keeps)
        next
          case 3
          let ?tn = "the (OxTransition r)"
          from assms r v a Inr 3 obtain db1 out where
            one: "coalesce_obsolete d a (OxDestination r) ?tn i now db = Ok ((), db1)"
            and two: "update_outbox (row_is d i) (\<lambda>r. r\<lparr>OxState := DeliveryPending, OxPayload := out, OxNext := Some now,
                     OxError := None\<rparr>) db1 = Ok ((), db')"
            and p: "p = Some \<lparr>PrKind = kind, PrConfig = c, PrSecretRef = ref_text (OxSecretRef r), PrPayload = out\<rparr>"
            by (auto simp: reconcile_candidate_def Let_def tx_bind_def tx_ok_def elim!: result_bind_OkE)
          from two have rows: "Outbox db' = update_where (row_is d i) (\<lambda>r. r\<lparr>OxState := DeliveryPending, OxPayload := out,
              OxNext := Some now, OxError := None\<rparr>) (Outbox db1)"
            by (auto simp: update_outbox_def)
          have "\<forall>y\<in>set (Outbox db'). row_is d i y \<longrightarrow> OxState y = DeliveryPending"
            unfolding rows update_where_def by (auto split: if_split_asm)
          moreover have "frame db' = frame db" using keepsD[OF keeps_coalesce one] keepsD[OF keeps_simple(4) two] by simp
          moreover have "TestJobs db' = TestJobs db" using keeps_jobsD[OF keeps_coalesce one] keeps_jobsD[OF keeps_simple(4) two] by simp
          moreover have "ready_for k now db r \<lparr>PrKind = kind, PrConfig = c, PrSecretRef = ref_text (OxSecretRef r), PrPayload = out\<rparr>"
            using ds a Inr 3 by (auto simp: ready_for_def)
          ultimately show ?thesis using p r by blast
        qed
      qed
    qed
  qed (use assms r in \<open>auto simp: reconcile_candidate_def dest!: keeps_tail[rotated] intro: keeps\<close>)
qed

lemma keeps_candidate [keeps]: "keeps (reconcile_candidate k d i now)"
  using reconcile_ready by (intro keepsI) blast

section \<open>A claim that returns a delivery\<close>

lemma evolves_back: "evolves db db' \<Longrightarrow> y \<in> set (Outbox db') \<Longrightarrow> \<exists>x\<in>set (Outbox db). follows x y"
  unfolding evolves_def list_all2_conv_all_nth by (metis in_set_conv_nth)

lemma evolves_row:
  assumes "evolves db db'" "outbox_ok db" "x \<in> set (Outbox db)" "y \<in> set (Outbox db')" "OxID x = OxID y"
  shows "follows x y"
proof -
  obtain z where z: "z \<in> set (Outbox db)" "follows z y" using evolves_back assms(1,4) by blast
  with assms(2,3,5) have "z = x"
    by (auto simp: outbox_ok_def follows_def same_delivery_def distinct_map dest: inj_onD)
  with z show ?thesis by simp
qed

lemma find_append: "find P (xs @ ys) = (case find P xs of None \<Rightarrow> find P ys | Some x \<Rightarrow> Some x)"
  by (induction xs) auto

lemma find_rowD: "find_row d i db = Some r \<Longrightarrow> r \<in> set (Outbox db) \<and> OxDeployment r = d \<and> OxID r = i"
  by (auto simp: find_row_def row_is_def dest: find_result)

definition leased_to :: "string \<Rightarrow> int64 \<Rightarrow> outbox_db \<Rightarrow> delivery_lease \<Rightarrow> bool" where
  "leased_to d now db l \<longleftrightarrow> (let r = LeasedRow l in r \<in> set (Outbox db) \<and> OxDeployment r = d \<and> OxState r = DeliveryLeased \<and>
     OxToken r = Some (LeaseToken l) \<and> OxLease r = Some (add64 now lease_ms))"

definition handed_out :: "outbox_codec \<Rightarrow> string \<Rightarrow> int64 \<Rightarrow> outbox_db \<Rightarrow> delivery_lease \<Rightarrow> outbox_db \<Rightarrow> bool" where
  "handed_out k d now db l db' \<longleftrightarrow> leased_to d now db' l \<and> ready_for k now db (LeasedRow l) (Prepared l) \<and>
     (\<exists>r\<in>set (Outbox db). follows r (LeasedRow l) \<and> OxAttempts r < OxAttempts (LeasedRow l))"

lemma handed_out_before:
  assumes "evolves db db1" "frame db1 = frame db" "handed_out k d now db1 l db'"
  shows "handed_out k d now db l db'"
proof -
  from assms(3) obtain y where y: "y \<in> set (Outbox db1)" "follows y (LeasedRow l)" "OxAttempts y < OxAttempts (LeasedRow l)"
    by (auto simp: handed_out_def)
  then obtain x where x: "x \<in> set (Outbox db)" "follows x y" using evolves_back assms(1) by blast
  have "follows x (LeasedRow l)" by (rule follows_trans[OF x(2) y(2)])
  moreover have "OxAttempts x < OxAttempts (LeasedRow l)" using x(2) y(3) by (simp add: follows_def)
  moreover have "ready_for k now db (LeasedRow l) (Prepared l)"
    using assms(3) ready_frame[OF _ assms(2), of "LeasedRow l" "LeasedRow l"] by (simp add: handed_out_def same_delivery_def)
  ultimately show ?thesis using x assms(3) by (auto simp: handed_out_def)
qed

lemma lease_row_result:
  assumes "outbox_ok db" "lease_row d i token now db = Ok (True, db')" "find_row d i db' = Some r"
  shows "\<exists>r0\<in>set (Outbox db). OxID r0 = i \<and> OxAttempts r = OxAttempts r0 + 1 \<and> OxState r = DeliveryLeased
     \<and> OxToken r = Some token \<and> OxLease r = Some (add64 now lease_ms)"
proof -
  let ?p = "\<lambda>r. row_is d i r \<and> waiting (OxState r)"
  let ?f = "\<lambda>r. r\<lparr>OxState := DeliveryLeased, OxAttempts := OxAttempts r + 1, OxToken := Some token,
     OxLease := Some (add64 now lease_ms), OxNext := None, OxError := None, OxStarted := Some now\<rparr>"
  from assms(2) obtain r0 where r0: "find ?p (Outbox db) = Some r0"
    and rows: "Outbox db' = update_where ?p ?f (Outbox db)"
    by (auto simp: lease_row_def update_outbox_def tx_bind_def tx_ok_def split: option.splits if_splits)
  from r0 have in0: "r0 \<in> set (Outbox db)" "?p r0" by (auto dest: find_result)
  from find_rowD[OF assms(3)] obtain x where x: "x \<in> set (Outbox db)" "r = (if ?p x then ?f x else x)" "OxID r = i"
    by (auto simp: rows update_where_def)
  then have "x = r0" using assms(1) in0 by (auto simp: outbox_ok_def row_is_def distinct_map dest: inj_onD split: if_split_asm)
  with in0 x show ?thesis by (auto simp: row_is_def intro!: bexI[of _ r0])
qed

lemma start_test_same: "start_test r now db = Ok ((), db') \<Longrightarrow> Outbox db' = Outbox db"
  by (auto simp: start_test_def tx_bind_def tx_ok_def update_jobs_def Let_def split: option.splits if_splits elim!: result_bind_OkE)

lemma scan_once_outcome:
  assumes ok: "outbox_ok db" and run: "scan_once k d now db = Ok (s, db')"
  shows "frame db' = frame db \<and> (\<forall>l. s = Claimed l \<longrightarrow> handed_out k d now db l db') \<and>
    (TestJobs db' = TestJobs db \<or> (\<exists>r db4. TestJobs db4 = TestJobs db \<and> r \<in> set (Outbox db') \<and> OxState r = DeliveryLeased
       \<and> start_test r now db4 = Ok ((), db')))"
proof (cases "first_due d now db")
  case None
  with run show ?thesis by (simp add: scan_once_def)
next
  case (Some c)
  let ?i = "OxID c"
  have waits: "row_waits d ?i db" using first_due_Some(3)[OF Some] ok by (simp add: outbox_ok_def)
  from run Some obtain p db1 where cand: "reconcile_candidate k d ?i now db = Ok (p, db1)"
    by (auto simp: scan_once_def tx_bind_def elim!: result_bind_OkE)
  note one = reconcile_ready[OF cand] sound_atD[OF sound_reconcile_candidate[OF waits] ok cand]
  show ?thesis
  proof (cases p)
    case None
    with run Some cand one show ?thesis by (simp add: scan_once_def tx_bind_def tx_ok_def)
  next
    case lease: (Some lease)
    from run Some cand lease obtain contended db2 where def: "defer_contended d ?i now db1 = Ok (contended, db2)"
      by (auto simp: scan_once_def tx_bind_def elim!: result_bind_OkE)
    note two = keeps_cases[OF keeps_defer def] sound_txD[OF sound_defer conjunct1[OF one(2)] def]
    show ?thesis
    proof (cases contended)
      case True
      with run Some cand lease def one two show ?thesis by (simp add: scan_once_def tx_bind_def tx_ok_def)
    next
      case False
      with run Some cand lease def obtain token db3 where token: "fresh_uuid db2 = Ok (token, db3)"
        by (auto simp: scan_once_def tx_bind_def elim!: result_bind_OkE)
      note three = keeps_cases[OF keeps_simple(3) token] sound_txD[OF sound_simple(3) conjunct1[OF two(2)] token]
      from run Some cand lease def False token have tail: "(case lease_row d ?i token now db3 of
                    Err e \<Rightarrow> if e = one_in_flight then tx_bind (defer_contended d ?i now) (\<lambda>_. tx_ok Again) db3 else Err e
                  | Ok (changed, db) \<Rightarrow>
                      if \<not> changed then Ok (Again, db)
                      else (case find_row d ?i db of
                        None \<Rightarrow> Err ErrDeliveryNotFound
                      | Some r \<Rightarrow> tx_bind (start_test r now)
                          (\<lambda>_. tx_ok (Claimed \<lparr>LeasedRow = r, LeaseToken = token, Prepared = lease\<rparr>)) db)) = Ok (s, db')"
        by (simp add: scan_once_def tx_bind_def)
      show ?thesis
      proof (cases "lease_row d ?i token now db3")
        case (Inl e)
        with tail have "tx_bind (defer_contended d ?i now) (\<lambda>_. tx_ok Again) db3 = Ok (s, db')" by (simp split: if_split_asm)
        with one two three keeps_tail[OF keeps_defer] show ?thesis by fastforce
      next
        case (Inr x)
        obtain changed db4 where x: "x = (changed, db4)" by fastforce
        note four = keeps_cases[OF keeps_lease_row Inr[unfolded x]] sound_txD[OF sound_lease_row conjunct1[OF three(2)] Inr[unfolded x]]
        show ?thesis
        proof (cases changed)
          case False
          with tail Inr x one two three four show ?thesis by simp
        next
          case True
          with tail Inr x obtain r where r: "find_row d ?i db4 = Some r"
            and start: "tx_bind (start_test r now) (\<lambda>_. tx_ok (Claimed \<lparr>LeasedRow = r, LeaseToken = token, Prepared = lease\<rparr>)) db4 = Ok (s, db')"
            by (auto split: option.splits)
          from start have five: "frame db' = frame db4 \<and> s = Claimed \<lparr>LeasedRow = r, LeaseToken = token, Prepared = lease\<rparr>"
            by (auto simp: tx_bind_def tx_ok_def elim!: result_bind_OkE dest: start_test_frame)
          from start have same: "Outbox db' = Outbox db4"
            by (auto simp: tx_bind_def tx_ok_def elim!: result_bind_OkE dest: start_test_same)
          obtain r0 where r0: "r0 \<in> set (Outbox db3)" "OxID r0 = ?i" "OxAttempts r = OxAttempts r0 + 1" "OxState r = DeliveryLeased"
            "OxToken r = Some token" "OxLease r = Some (add64 now lease_ms)"
            using lease_row_result[OF conjunct1[OF three(2)] _ r] Inr x True by auto
          obtain rc where rc: "find_row d ?i db = Some rc" "ready_for k now db rc lease" using one(1) lease by auto
          have ev: "evolves db db3" using one two three evolves_trans by blast
          have f3: "follows rc r0" by (rule evolves_row[OF ev ok]) (use find_rowD[OF rc(1)] r0 in auto)
          have f4: "follows r0 r" by (rule evolves_row[OF conjunct2[OF four(2)] conjunct1[OF three(2)]]) (use find_rowD[OF r] r0 in auto)
          have f: "follows rc r" using f3 f4 by (rule follows_trans)
          moreover have "OxAttempts rc < OxAttempts r" using f3 r0 by (simp add: follows_def)
          moreover have "ready_for k now db r lease" using ready_frame[of rc r db db] rc f by (simp add: follows_def)
          ultimately have "handed_out k d now db \<lparr>LeasedRow = r, LeaseToken = token, Prepared = lease\<rparr> db'"
            using find_rowD[OF r] find_rowD[OF rc(1)] r0 same by (auto simp: handed_out_def leased_to_def Let_def)
          moreover from start have "start_test r now db4 = Ok ((), db')" by (auto simp: tx_bind_def tx_ok_def elim!: result_bind_OkE)
          moreover have "TestJobs db4 = TestJobs db" using one two three four by simp
          ultimately show ?thesis using five one two three four same find_rowD[OF r] r0(4) by auto
        qed
      qed
    qed
  qed
qed

lemma scan_due_outcome:
  "outbox_ok db \<Longrightarrow> scan_due n k d now db = Ok (Some l, db') \<Longrightarrow> handed_out k d now db l db'"
proof (induction n arbitrary: db)
  case 0
  then show ?case by (simp add: tx_ok_def)
next
  case (Suc n)
  from Suc.prems(2) obtain s db1 where s: "scan_once k d now db = Ok (s, db1)"
    by (auto simp: tx_bind_def elim!: result_bind_OkE)
  note one = scan_once_outcome[OF Suc.prems(1) s] sound_atD[OF sound_scan_once[OF Suc.prems(1)] Suc.prems(1) s]
  show ?case
  proof (cases s)
    case Again
    with s Suc.prems(2) have "scan_due n k d now db1 = Ok (Some l, db')" by (simp add: tx_bind_def)
    then show ?thesis using Suc.IH one handed_out_before by blast
  qed (use s Suc.prems(2) one in \<open>simp_all add: tx_bind_def tx_ok_def\<close>)
qed

end
