(* ===== verification/OutboxJobs.thy ===== *)
theory OutboxJobs
  imports OutboxDelivery
begin

text \<open>
  \<open>internal/store/destinations.go\<close> and \<open>internal/store/outbox_jobs.go\<close>: what an administrator does with
  the destinations of notifications: creating, revising and disabling them, and testing one.
\<close>

section \<open>Destinations\<close>

record destination_definition =
  DfExpected :: "int64 option"
  DfKind :: string
  DfName :: string
  DfConfig :: notification_config
  DfSecretRef :: string

definition destination_active_limit :: nat where "destination_active_limit = 16"

definition safe_rule_string :: "string \<Rightarrow> int \<Rightarrow> bool" where
  "safe_rule_string v maximum \<longleftrightarrow> 1 \<le> length v \<and> int (length v) \<le> maximum \<and> valid_utf8 v \<and> no_controls v"

definition valid_destination_definition :: "outbox_codec \<Rightarrow> destination_definition \<Rightarrow> bool" where
  "valid_destination_definition k f \<longleftrightarrow> trimmed (DfName f) \<and> safe_rule_string (DfName f) 128 \<and>
     validate_notification_config (Libs k) (DfKind f) (DfConfig f) \<and> (DfSecretRef f = [] \<or> valid_secret_ref (DfSecretRef f))"

definition nullable_ref :: "string \<Rightarrow> string option" where
  "nullable_ref v = (if v = [] then None else Some v)"

definition active_destination :: "string \<Rightarrow> destination_row \<Rightarrow> bool" where
  "active_destination d r \<longleftrightarrow> DsDeployment r = d \<and> DsDisabled r = None"

definition destination_record_of :: "destination_row \<Rightarrow> notification_config \<Rightarrow> destination_record" where
  "destination_record_of r c = \<lparr>DrID = DsID r, DrVersion = DsVersion r, DrKind = DsType r, DrName = DsName r, DrConfig = c,
     DrSecret = (ref_text (DsSecret r) \<noteq> []), DrLastTest = DsLastTest r, DrLastResult = DsLastResult r, DrLastJob = DsLastJob r,
     DrDisabled = DsDisabled r, DrCreated = DsCreated r, DrUpdated = DsUpdated r\<rparr>"

definition read_destination :: "outbox_codec \<Rightarrow> string \<Rightarrow> string \<Rightarrow> bool \<Rightarrow> destination_record tx" where
  "read_destination k d i disabled_too db =
     (case find (\<lambda>r. DsDeployment r = d \<and> DsID r = i \<and> (disabled_too \<or> DsDisabled r = None)) (Destinations db) of
        None \<Rightarrow> Err ErrDestinationNotFound
      | Some r \<Rightarrow> (case ConfigOf k (DsConfig r) of
          None \<Rightarrow> Err ErrDestinationInvalid
        | Some c \<Rightarrow> if \<not> validate_notification_config (Libs k) (DsType r) c then Err ErrDestinationInvalid
                    else Ok (destination_record_of r c, db)))"

text \<open>The table of destinations refuses an update before the creation.\<close>

definition update_destinations :: "(destination_row \<Rightarrow> bool) \<Rightarrow> (destination_row \<Rightarrow> destination_row) \<Rightarrow> nat tx" where
  "update_destinations p f db =
     (let rows = update_where p f (Destinations db) in
      if list_ex (\<lambda>s. DsUpdated s < DsCreated s) rows then Err (HubError (ErrConstraint ''updated_ms>=created_ms''))
      else Ok (length (filter p (Destinations db)), db\<lparr>Destinations := rows\<rparr>))"

definition invalidate_outbox :: "string \<Rightarrow> string \<Rightarrow> int64 \<Rightarrow> string \<Rightarrow> int64 \<Rightarrow> unit tx" where
  "invalidate_outbox d i prior code now =
     update_outbox (\<lambda>r. OxDeployment r = d \<and> OxDestination r = i \<and> OxDestRevision r = prior \<and> waiting (OxState r))
       (ended DeliverySuperseded (Some code) now)"

definition read_destination_receipt ::
  "actor \<Rightarrow> string \<Rightarrow> string \<Rightarrow> destination_op \<Rightarrow> int64 \<Rightarrow> destination_record option tx" where
  "read_destination_receipt a key hash op = read_receipt a key ErrDestinationConflict (\<lambda>r. case RtResult r of
     DestinationReceipt op' x \<Rightarrow> if RtHash r = hash \<and> op' = op \<and> valid_uuid_text (DrID x) then Some x else None | _ \<Rightarrow> None)"

definition op_text :: "destination_op \<Rightarrow> string" where
  "op_text op = (case op of CreateDestination \<Rightarrow> ''create'' | UpdateDestination \<Rightarrow> ''update'' | DisableDestination \<Rightarrow> ''disable'')"

definition persist_destination ::
  "outbox_codec \<Rightarrow> actor \<Rightarrow> string \<Rightarrow> string \<Rightarrow> destination_op \<Rightarrow> int64 \<Rightarrow> destination_record \<Rightarrow> int64 \<Rightarrow> unit tx" where
  "persist_destination k a key hash op status x now =
     persist_receipt k ErrDestinationInvalid a key hash (''notification.destination.'' @ op_text op) (DrID x)
       [(''kind'', DrKind x), (''version'', decimal (nat (DrVersion x))),
        (''secret_configured'', if DrSecret x then ''true'' else ''false'')] status (DestinationReceipt op x) now"

definition create_row :: "outbox_codec \<Rightarrow> actor \<Rightarrow> destination_definition \<Rightarrow> int64 \<Rightarrow> string tx" where
  "create_row k a f now db =
     (if length (filter (active_destination (AcDeploymentID a)) (Destinations db)) \<ge> destination_active_limit
      then Err ErrDestinationLimit
      else tx_bind fresh_uuid (\<lambda>u db.
        if list_ex (\<lambda>r. DsID r = u) (Destinations db) then Err (HubError (ErrConstraint ''destinations.id''))
        else Ok (u, db\<lparr>Destinations := Destinations db @ [\<lparr>DsID = u, DsDeployment = AcDeploymentID a, DsType = DfKind f,
          DsName = DfName f, DsConfig = ConfigText k (DfConfig f), DsSecret = nullable_ref (DfSecretRef f), DsVersion = 1,
          DsDisabled = None, DsLastTest = None, DsLastResult = None, DsLastJob = None, DsCreated = now, DsUpdated = now\<rparr>]\<rparr>)) db)"

definition at_version :: "actor \<Rightarrow> string \<Rightarrow> int64 \<Rightarrow> destination_row \<Rightarrow> bool" where
  "at_version a i v r \<longleftrightarrow> DsDeployment r = AcDeploymentID a \<and> DsID r = i \<and> DsVersion r = v \<and> DsDisabled r = None"

text \<open>A new revision, or the end of the destination: whatever waits for the old revision is superseded.\<close>

definition revise_row ::
  "outbox_codec \<Rightarrow> actor \<Rightarrow> string \<Rightarrow> int64 \<Rightarrow> (destination_row \<Rightarrow> destination_row) \<Rightarrow> string \<Rightarrow> int64 \<Rightarrow> string tx" where
  "revise_row k a i v change code now =
     tx_bind (read_destination k (AcDeploymentID a) i True) (\<lambda>x.
     if DrDisabled x \<noteq> None \<or> DrVersion x \<noteq> v then tx_err ErrDestinationRevision
     else tx_bind (update_destinations (at_version a i v) change) (\<lambda>n.
       if n \<noteq> 1 then tx_err ErrDestinationRevision
       else tx_bind (invalidate_outbox (AcDeploymentID a) i v code now) (\<lambda>_. tx_ok i)))"

definition updated_row :: "outbox_codec \<Rightarrow> destination_definition \<Rightarrow> int64 \<Rightarrow> destination_row \<Rightarrow> destination_row" where
  "updated_row k f now r = r\<lparr>DsType := DfKind f, DsName := DfName f, DsConfig := ConfigText k (DfConfig f),
     DsSecret := (if DfSecretRef f \<noteq> [] then Some (DfSecretRef f) else DsSecret r), DsVersion := add64 (DsVersion r) 1,
     DsLastTest := None, DsLastResult := None, DsLastJob := None, DsUpdated := now\<rparr>"

definition disabled_row :: "int64 \<Rightarrow> destination_row \<Rightarrow> destination_row" where
  "disabled_row now r = r\<lparr>DsVersion := add64 (DsVersion r) 1, DsDisabled := Some now, DsUpdated := now\<rparr>"

definition change_destination ::
  "outbox_codec \<Rightarrow> actor \<Rightarrow> string \<Rightarrow> destination_definition \<Rightarrow> destination_op \<Rightarrow> int64 \<Rightarrow> string tx" where
  "change_destination k a i f op now = (case op of
     CreateDestination \<Rightarrow> create_row k a f now
   | UpdateDestination \<Rightarrow> revise_row k a i (the (DfExpected f)) (updated_row k f now) ''destination_revised'' now
   | DisableDestination \<Rightarrow> revise_row k a i (the (DfExpected f)) (disabled_row now) ''destination_disabled'' now)"

definition mutate_rows ::
  "outbox_codec \<Rightarrow> actor \<Rightarrow> string \<Rightarrow> string \<Rightarrow> string \<Rightarrow> destination_definition \<Rightarrow> destination_op \<Rightarrow> int64 \<Rightarrow> destination_record tx" where
  "mutate_rows k a i key hash f op now =
     tx_bind (change_destination k a i f op now) (\<lambda>i.
     tx_bind (read_destination k (AcDeploymentID a) i True) (\<lambda>x.
     tx_bind (persist_destination k a key hash op (if op = CreateDestination then 201 else 200) x now) (\<lambda>_. tx_ok x)))"

definition mutate_destination ::
  "outbox_codec \<Rightarrow> hub_env \<Rightarrow> actor \<Rightarrow> string \<Rightarrow> string \<Rightarrow> string \<Rightarrow> destination_definition \<Rightarrow> destination_op \<Rightarrow> outbox_db \<Rightarrow>
    (store_error, destination_record) result \<times> outbox_db" where
  "mutate_destination k env a i key hash f op db =
     (if \<not> valid_receipt_key key hash \<or> op \<noteq> DisableDestination \<and> \<not> valid_destination_definition k f
      then (Err ErrDestinationInvalid, db)
      else replayable env (as_admin a (read_destination_receipt a key hash op (HubNow env)) (mutate_rows k a i key hash f op (HubNow env))) db)"

definition create_destination where
  "create_destination k env a key hash f db =
     (if DfExpected f \<noteq> None \<or> DfSecretRef f = [] \<and> needs_secret (DfConfig f) \<or> DfSecretRef f \<noteq> [] \<and> \<not> valid_secret_ref (DfSecretRef f)
      then (Err ErrDestinationInvalid, db) else mutate_destination k env a [] key hash f CreateDestination db)"

definition update_destination where
  "update_destination k env a i key hash f db =
     (if \<not> valid_uuid_text i \<or> \<not> ptr_and (DfExpected f) (\<lambda>v. v \<ge> 1) then (Err ErrDestinationInvalid, db)
      else mutate_destination k env a i key hash f UpdateDestination db)"

definition no_definition :: "int64 \<Rightarrow> destination_definition" where
  "no_definition v = \<lparr>DfExpected = Some v, DfKind = [], DfName = [], DfConfig = \<lparr>Webhook = None, SMTP = None\<rparr>, DfSecretRef = []\<rparr>"

definition disable_destination where
  "disable_destination k env a i key hash v db =
     (if \<not> valid_uuid_text i \<or> v < 1 \<or> \<not> valid_receipt_key key hash then (Err ErrDestinationInvalid, db)
      else mutate_destination k env a i key hash (no_definition v) DisableDestination db)"

section \<open>Testing a destination\<close>

definition test_active_per_actor :: nat where "test_active_per_actor = 4"

definition read_test_receipt :: "actor \<Rightarrow> string \<Rightarrow> string \<Rightarrow> string \<Rightarrow> int64 \<Rightarrow> test_job option tx" where
  "read_test_receipt a key hash destination = read_receipt a key ErrDestinationConflict (\<lambda>r. case RtResult r of
     TestReceipt x \<Rightarrow> if RtHash r = hash \<and> JobDestination x = destination then Some x else None | _ \<Rightarrow> None)"

definition actor_jobs :: "actor \<Rightarrow> outbox_db \<Rightarrow> test_job_row list" where
  "actor_jobs a db = filter (\<lambda>j. TjDeployment j = AcDeploymentID a \<and> TjActor j = AcUser a \<and> active_job j) (TestJobs db)"

definition destination_jobs :: "string \<Rightarrow> string \<Rightarrow> outbox_db \<Rightarrow> test_job_row list" where
  "destination_jobs d i db = filter (\<lambda>j. TjDeployment j = d \<and> active_job j \<and> TjDestination j = i) (TestJobs db)"

text \<open>The secret of the revision that is tested.\<close>

definition tested_secret :: "string \<Rightarrow> string \<Rightarrow> int64 \<Rightarrow> destination_record \<Rightarrow> outbox_db \<Rightarrow> (store_error, string) result" where
  "tested_secret d i v x db =
     (case find (\<lambda>r. DsDeployment r = d \<and> DsID r = i \<and> DsVersion r = v \<and> DsDisabled r = None) (Destinations db) of
        None \<Rightarrow> Err ErrDestinationInvalid
      | Some r \<Rightarrow> (let s = ref_text (DsSecret r) in
          if s = [] \<and> needs_secret (DrConfig x) \<or> s \<noteq> [] \<and> \<not> valid_secret_ref s then Err ErrDestinationInvalid else Ok s))"

definition test_payload :: "outbox_codec \<Rightarrow> string \<Rightarrow> string \<Rightarrow> string \<Rightarrow> int64 \<Rightarrow> string" where
  "test_payload k delivery key destination now =
     JsonText k [(''schema_version'', JText ''notification-test-1''), (''event_id'', JText delivery), (''idempotency_key'', JText key),
       (''test'', JBool True), (''destination_id'', JText destination), (''created_ms'', JInt now)]"

text \<open>The job and its delivery, under ids that must be new.\<close>

definition insert_test :: "outbox_codec \<Rightarrow> actor \<Rightarrow> string \<Rightarrow> int64 \<Rightarrow> string \<Rightarrow> string \<Rightarrow> string \<Rightarrow> int64 \<Rightarrow> unit tx" where
  "insert_test k a i v secret job delivery now db =
     (let key = ''destination-test:'' @ job; expires = add64 now day_ms in
      if list_ex (\<lambda>j. TjID j = job) (TestJobs db) then Err (HubError (ErrConstraint ''jobs.id''))
      else if list_ex (\<lambda>r. OxID r = delivery) (Outbox db) then Err (HubError (ErrConstraint ''outbox.id''))
      else if list_ex (\<lambda>r. OxDeployment r = AcDeploymentID a \<and> OxKey r = key) (Outbox db)
      then Err (HubError (ErrConstraint ''outbox.deployment_id, outbox.idempotency_key''))
      else Ok ((), db\<lparr>TestJobs := TestJobs db @ [\<lparr>TjID = job, TjDeployment = AcDeploymentID a, TjGeneration = AcTrust a,
          TjState = ''queued'', TjProgress = 0, TjDestination = i, TjDestRevision = v, TjDelivery = delivery, TjActor = AcUser a,
          TjError = None, TjLease = None, TjCreated = now, TjUpdated = now, TjExpires = expires\<rparr>],
        Outbox := Outbox db @ [\<lparr>OxID = delivery, OxDeployment = AcDeploymentID a, OxInstance = None, OxTransition = None,
          OxDestination = i, OxDestRevision = v, OxSecretRef = nullable_ref secret, OxRuleRevision = None, OxGeneration = 1,
          OxKey = key, OxPayload = test_payload k delivery key i now, OxState = DeliveryPending, OxAttempts = 0, OxToken = None,
          OxLease = None, OxNext = Some now, OxError = None, OxStarted = None, OxSent = None, OxAck = None, OxCompleted = None,
          OxUnknown = False, OxJob = Some job, OxExpires = expires, OxCreated = now\<rparr>]\<rparr>))"

definition new_test :: "outbox_codec \<Rightarrow> actor \<Rightarrow> string \<Rightarrow> int64 \<Rightarrow> string \<Rightarrow> string \<Rightarrow> string \<Rightarrow> int64 \<Rightarrow> test_job tx" where
  "new_test k a i v secret key hash now =
     tx_bind fresh_uuid (\<lambda>job. tx_bind fresh_uuid (\<lambda>delivery.
     tx_bind (insert_test k a i v secret job delivery now) (\<lambda>_.
     tx_bind (update_destinations (\<lambda>r. DsDeployment r = AcDeploymentID a \<and> DsID r = i \<and> DsVersion r = v)
       (\<lambda>r. r\<lparr>DsLastJob := Some job, DsUpdated := now\<rparr>)) (\<lambda>_.
     let x = \<lparr>JobID = job, JobDestination = i, JobRevision = v, JobDelivery = delivery, JobState = ''queued'', JobError = None,
           JobAck = None, JobCreated = now, JobUpdated = now, JobExpires = add64 now day_ms\<rparr> in
     tx_bind (persist_receipt k ErrDestinationInvalid a key hash ''notification.destination.test.enqueue'' i
       [(''destination_revision'', decimal (nat v)), (''delivery_id'', delivery)] 202 (TestReceipt x) now) (\<lambda>_. tx_ok x)))))"

definition start_new_test :: "outbox_codec \<Rightarrow> actor \<Rightarrow> string \<Rightarrow> string \<Rightarrow> string \<Rightarrow> int64 \<Rightarrow> int64 \<Rightarrow> test_job tx" where
  "start_new_test k a i key hash v now =
     tx_bind (read_destination k (AcDeploymentID a) i False) (\<lambda>x db.
     if DrVersion x \<noteq> v then Err ErrDestinationRevision
     else result_bind (tested_secret (AcDeploymentID a) i v x db) (\<lambda>secret.
       if length (actor_jobs a db) \<ge> test_active_per_actor \<or> destination_jobs (AcDeploymentID a) i db \<noteq> [] then Err ErrDestinationTestBusy
       else new_test k a i v secret key hash now db))"

definition enqueue_test ::
  "outbox_codec \<Rightarrow> hub_env \<Rightarrow> actor \<Rightarrow> string \<Rightarrow> string \<Rightarrow> string \<Rightarrow> int64 \<Rightarrow> outbox_db \<Rightarrow> (store_error, test_job) result \<times> outbox_db" where
  "enqueue_test k env a i key hash v db =
     (if \<not> valid_uuid_text i \<or> v < 1 \<or> \<not> valid_receipt_key key hash then (Err ErrDestinationInvalid, db)
      else replayable env (as_admin a (read_test_receipt a key hash i (HubNow env)) (start_new_test k a i key hash v (HubNow env))) db)"

definition read_test :: "string \<Rightarrow> string \<Rightarrow> outbox_db \<Rightarrow> (store_error, test_job) result" where
  "read_test d job db =
     (case find (\<lambda>j. TjDeployment j = d \<and> TjID j = job) (TestJobs db) of
        None \<Rightarrow> Err ErrDeliveryNotFound
      | Some j \<Rightarrow>
          if \<not> valid_uuid_text (TjDestination j) \<or> \<not> valid_uuid_text (TjDelivery j) \<or> TjDestRevision j < 1 then Err ErrDeliveryInvalid
          else Ok \<lparr>JobID = TjID j, JobDestination = TjDestination j, JobRevision = TjDestRevision j, JobDelivery = TjDelivery j,
            JobState = TjState j, JobError = TjError j,
            JobAck = Option.bind (find (\<lambda>r. OxDeployment r = d \<and> OxJob r = Some job) (Outbox db)) OxAck,
            JobCreated = TjCreated j, JobUpdated = TjUpdated j, JobExpires = TjExpires j\<rparr>)"

section \<open>Reading\<close>

definition validate_actor_read :: "actor \<Rightarrow> outbox_db \<Rightarrow> (store_error, string) result" where
  "validate_actor_read a db = (case find_user a db of
     None \<Rightarrow> Err (HubError ErrOwnershipMismatch)
   | Some (u, x) \<Rightarrow> if UsDisabled u \<or> UsHistorical u \<or> DepGeneration x \<noteq> AcTrust a \<or> DepRecovery x \<noteq> ''normal''
       then Err (HubError ErrOwnershipMismatch) else Ok (UsRole u))"

definition read_notification_delivery :: "actor \<Rightarrow> string \<Rightarrow> outbox_db \<Rightarrow> (store_error, outbox_row) result" where
  "read_notification_delivery a i db =
     (if \<not> valid_uuid_text i then Err ErrDeliveryInvalid
      else result_bind (validate_actor_read a db) (\<lambda>_.
        result_bind (read_delivery (AcDeploymentID a) i db) (\<lambda>(r, _). Ok r)))"

definition read_destination_test :: "actor \<Rightarrow> string \<Rightarrow> outbox_db \<Rightarrow> (store_error, test_job) result" where
  "read_destination_test a job db =
     (if \<not> valid_uuid_text job then Err ErrDestinationInvalid
      else result_bind (validate_actor_read a db) (\<lambda>_. read_test (AcDeploymentID a) job db))"

text \<open>A page of ids in order, and the record of each.\<close>

fun read_each :: "('i \<Rightarrow> (store_error, 'r) result) \<Rightarrow> 'i list \<Rightarrow> (store_error, 'r list) result" where
  "read_each f [] = Ok []"
| "read_each f (i # is) = result_bind (f i) (\<lambda>r. result_bind (read_each f is) (\<lambda>rs. Ok (r # rs)))"

definition list_deliveries :: "actor \<Rightarrow> string \<Rightarrow> string \<Rightarrow> int64 \<Rightarrow> outbox_db \<Rightarrow> (store_error, outbox_row list) result" where
  "list_deliveries a destination after limit db =
     (if limit < 1 \<or> limit > 100 \<or> after \<noteq> [] \<and> \<not> valid_uuid_text after \<or> destination \<noteq> [] \<and> \<not> valid_uuid_text destination
      then Err ErrDeliveryInvalid
      else result_bind (validate_actor_read a db) (\<lambda>_.
        read_each (\<lambda>i. result_bind (read_delivery (AcDeploymentID a) i db) (\<lambda>(r, _). Ok r))
          (take (nat limit) (sort (map OxID (filter (\<lambda>r. OxDeployment r = AcDeploymentID a \<and> OxID r > after \<and>
             (destination = [] \<or> OxDestination r = destination)) (Outbox db)))))))"

definition read_destination_of :: "outbox_codec \<Rightarrow> actor \<Rightarrow> string \<Rightarrow> outbox_db \<Rightarrow> (store_error, destination_record) result" where
  "read_destination_of k a i db =
     (if \<not> valid_uuid_text i then Err ErrDestinationInvalid
      else result_bind (validate_actor_read a db) (\<lambda>_.
        result_bind (read_destination k (AcDeploymentID a) i True db) (\<lambda>(r, _). Ok r)))"

definition list_destinations ::
  "outbox_codec \<Rightarrow> actor \<Rightarrow> bool \<Rightarrow> string \<Rightarrow> int64 \<Rightarrow> outbox_db \<Rightarrow> (store_error, destination_record list) result" where
  "list_destinations k a disabled_too after limit db =
     (if limit < 1 \<or> limit > 100 \<or> after \<noteq> [] \<and> \<not> valid_uuid_text after then Err ErrDestinationInvalid
      else result_bind (validate_actor_read a db) (\<lambda>_.
        read_each (\<lambda>i. result_bind (read_destination k (AcDeploymentID a) i True db) (\<lambda>(r, _). Ok r))
          (take (nat limit) (take (nat limit + 1) (sort (map DsID (filter (\<lambda>r. DsDeployment r = AcDeploymentID a \<and> DsID r > after \<and>
             (disabled_too \<or> DsDisabled r = None)) (Destinations db))))))))"

text \<open>The secrets the vault must keep: those of all destinations and of the deliveries in flight.\<close>

definition referenced_secrets :: "outbox_db \<Rightarrow> (store_error, string list) result" where
  "referenced_secrets db = (case Deployments (OxHub db) of
     [] \<Rightarrow> Err (HubError ErrAdmissionFenced)
   | x # _ \<Rightarrow>
       if DepRecovery x \<noteq> ''normal'' then Err (HubError ErrAdmissionFenced)
       else (let refs = map (\<lambda>r. ref_text (DsSecret r)) (filter (\<lambda>r. DsDeployment r = DepID x) (Destinations db)) @
                   map (\<lambda>r. ref_text (OxSecretRef r)) (filter (\<lambda>r. OxDeployment r = DepID x \<and> OxState r = DeliveryLeased) (Outbox db));
                 page = take 117 (sort (remdups (filter (\<lambda>s. s \<noteq> []) refs))) in
             if \<not> list_all valid_secret_ref page then Err ErrDestinationInvalid
             else if length page > 116 then Err ErrDestinationLimit else Ok page))"

end
