(* ===== verification/DestinationFacts.thy ===== *)
theory DestinationFacts
  imports OutboxReady OutboxJobs
begin

text \<open>
  The operations on destinations beside those on deliveries: the table of deliveries stays in order
  under all of them, and no operation ends a test job whose delivery was superseded.
\<close>

section \<open>Changing a destination\<close>

lemma update_destinations_same: "update_destinations p f db = Ok (n, db') \<Longrightarrow> Outbox db' = Outbox db \<and> TestJobs db' = TestJobs db"
  by (auto simp: update_destinations_def Let_def split: if_splits)

lemma read_destination_same: "read_destination k d i b db = Ok (x, db') \<Longrightarrow> db' = db"
  by (auto simp: read_destination_def split: option.splits if_splits)

lemma create_row_same: "create_row k a f now db = Ok (i, db') \<Longrightarrow> Outbox db' = Outbox db \<and> TestJobs db' = TestJobs db"
  by (auto simp: create_row_def tx_bind_def fresh_uuid_def elim!: result_bind_OkE split: if_splits list.splits)

lemma sound_invalidate [sound_tx]: "sound_tx (invalidate_outbox d i v code now)"
  unfolding invalidate_outbox_def
  by (rule update_sound_tx) (auto simp: ended_def follow_rules intro!: step_star delivery_step.intros)

lemma sound_destinations [sound_tx]:
  "sound_tx (update_destinations p f)" "sound_tx (read_destination k d i b)" "sound_tx (create_row k a g now)"
  by (rule sound_same, auto dest: update_destinations_same read_destination_same create_row_same)+

lemma sound_revise [sound_tx]: "sound_tx (revise_row k a i v change code now)"
  by (auto simp: revise_row_def intro!: sound_tx)

lemma sound_change [sound_tx]: "sound_tx (change_destination k a i f op now)"
  by (cases op) (simp_all add: change_destination_def sound_tx)

lemma sound_mutate_rows [sound_tx]: "sound_tx (mutate_rows k a i key hash f op now)"
  by (auto simp: mutate_rows_def persist_destination_def intro!: sound_tx)

lemma mutate_outcome:
  assumes "mutate_destination k env a i key hash f op db = (x, db')"
  shows "db' = db \<or> (\<exists>db1 y. read_destination_receipt a key hash op (HubNow env) db = Ok (None, db1) \<and>
     mutate_rows k a i key hash f op (HubNow env) db1 = Ok (y, db'))"
  using assms by (auto simp: mutate_destination_def split: if_split_asm dest!: as_admin_outcome)

lemma sound_mutate:
  assumes "outbox_ok db" "mutate_destination k env a i key hash f op db = (x, db')"
  shows "outbox_ok db' \<and> evolves db db'"
  using mutate_outcome[OF assms(2)]
proof (elim disjE exE conjE)
  fix db1 y assume one: "read_destination_receipt a key hash op (HubNow env) db = Ok (None, db1)"
    and two: "mutate_rows k a i key hash f op (HubNow env) db1 = Ok (y, db')"
  note first = sound_txD[OF sound_read_receipt assms(1) one[unfolded read_destination_receipt_def]]
  from sound_txD[OF sound_mutate_rows conjunct1[OF first] two] first show ?thesis by (auto intro: evolves_trans)
qed (use assms(1) in simp)

section \<open>Starting a test\<close>

lemma persist_same: "persist_receipt k e a key hash action resource detail status x now db = Ok ((), db') \<Longrightarrow>
    Outbox db' = Outbox db \<and> TestJobs db' = TestJobs db \<and> Destinations db' = Destinations db"
  by (auto simp: persist_receipt_def tx_err_def tx_bind_def fresh_uuid_def split: if_splits list.splits elim!: result_bind_OkE)

lemma insert_test_result:
  assumes "insert_test k a i v secret job delivery now db = Ok ((), db')"
  shows "\<exists>r j. Outbox db' = Outbox db @ [r] \<and> TestJobs db' = TestJobs db @ [j] \<and> Destinations db' = Destinations db \<and>
     OxID r = delivery \<and> OxState r = DeliveryPending \<and> row_ok r \<and> OxJob r = Some job \<and> delivery \<notin> OxID ` set (Outbox db) \<and>
     TjID j = job \<and> job \<notin> TjID ` set (TestJobs db) \<and> TjDeployment j = AcDeploymentID a \<and> TjDestination j = i \<and> TjActor j = AcUser a"
  using assms by (auto simp: insert_test_def Let_def list_ex_iff row_ok_def split: if_splits)

lemma new_test_result:
  assumes "new_test k a i v secret key hash now db = Ok (x, db')"
  shows "\<exists>r j. Outbox db' = Outbox db @ [r] \<and> TestJobs db' = TestJobs db @ [j] \<and> OxState r = DeliveryPending \<and> row_ok r \<and>
     OxID r \<notin> OxID ` set (Outbox db) \<and> OxJob r = Some (TjID j) \<and> TjID j \<notin> TjID ` set (TestJobs db) \<and>
     TjDeployment j = AcDeploymentID a \<and> TjDestination j = i \<and> TjActor j = AcUser a"
proof -
  from assms obtain job delivery db1 db2 n db3 db4 where
    u: "fresh_uuid db = Ok (job, db1)" "fresh_uuid db1 = Ok (delivery, db2)" and
    ins: "insert_test k a i v secret job delivery now db2 = Ok ((), db3)" and
    upd: "update_destinations (\<lambda>r. DsDeployment r = AcDeploymentID a \<and> DsID r = i \<and> DsVersion r = v)
       (\<lambda>r. r\<lparr>DsLastJob := Some job, DsUpdated := now\<rparr>) db3 = Ok (n, db4)" and
    per: "Outbox db' = Outbox db4 \<and> TestJobs db' = TestJobs db4"
    by (auto simp: new_test_def tx_bind_def tx_ok_def Let_def elim!: result_bind_OkE dest: persist_same)
  have "Outbox db2 = Outbox db" using u[THEN fresh_uuid_same] by simp
  moreover have "TestJobs db2 = TestJobs db" using u[THEN keeps_jobsD[OF keeps_simple(3)]] by simp
  ultimately show ?thesis using insert_test_result[OF ins] update_destinations_same[OF upd] per by auto
qed

lemma start_new_test_result:
  assumes "start_new_test k a i key hash v now db = Ok (x, db')"
  shows "(\<exists>s. new_test k a i v s key hash now db = Ok (x, db')) \<and> length (actor_jobs a db) < 4 \<and> destination_jobs (AcDeploymentID a) i db = []"
  using assms by (auto simp: start_new_test_def tx_bind_def test_active_per_actor_def not_le
      elim!: result_bind_OkE split: if_splits dest!: read_destination_same) (blast)

text \<open>Either nothing changes, or one test and its delivery are added.\<close>

lemma enqueue_outcome:
  assumes "enqueue_test k env a i key hash v db = (x, db')"
  shows "db' = db \<or> (\<exists>r j. Outbox db' = Outbox db @ [r] \<and> TestJobs db' = TestJobs db @ [j] \<and> OxState r = DeliveryPending \<and> row_ok r \<and>
     OxID r \<notin> OxID ` set (Outbox db) \<and> OxJob r = Some (TjID j) \<and> TjID j \<notin> TjID ` set (TestJobs db) \<and>
     TjDeployment j = AcDeploymentID a \<and> TjDestination j = i \<and> TjActor j = AcUser a \<and>
     length (actor_jobs a db) < 4 \<and> destination_jobs (AcDeploymentID a) i db = [])"
proof -
  have "db' = db \<or> (\<exists>db1 x. read_test_receipt a key hash i (HubNow env) db = Ok (None, db1) \<and> start_new_test k a i key hash v (HubNow env) db1 = Ok (x, db'))"
    using assms by (auto simp: enqueue_test_def split: if_splits dest!: as_admin_outcome)
  then show ?thesis
  proof (elim disjE exE conjE)
    fix db1 x assume one: "read_test_receipt a key hash i (HubNow env) db = Ok (None, db1)"
      and two: "start_new_test k a i key hash v (HubNow env) db1 = Ok (x, db')"
    from one have "Outbox db1 = Outbox db" "TestJobs db1 = TestJobs db"
      by (auto simp: read_test_receipt_def read_receipt_def split: option.splits if_splits)
    with start_new_test_result[OF two] show ?thesis
      by (auto dest!: new_test_result simp: actor_jobs_def destination_jobs_def)
  qed simp
qed

lemma sound_enqueue:
  assumes "outbox_ok db" "enqueue_test k env a i key hash v db = (x, db')"
  shows "outbox_ok db' \<and> (\<exists>new. Outbox db' = Outbox db @ new)"
  using enqueue_outcome[OF assms(2)]
proof (elim disjE exE conjE)
  fix r j assume r: "Outbox db' = Outbox db @ [r]" "OxState r = DeliveryPending" "row_ok r" "OxID r \<notin> OxID ` set (Outbox db)"
  with assms(1) show ?thesis by (auto simp: outbox_ok_def single_flight_def rivals_def)
qed (use assms(1) in simp)

end
