(* ===== verification/OutboxSample.thy ===== *)
theory OutboxSample
  imports OutboxJobs IngestSample
begin

text \<open>
  A small outbox to evaluate on: one deployment with a webhook that an alert has fired for, the delivery
  of that alert, and an administrator.
\<close>

definition sample_webhook :: notification_config where
  "sample_webhook = \<lparr>Webhook = Some \<lparr>HTTPSURL = ''u'', HMACEnabled = False\<rparr>, SMTP = None\<rparr>"

definition sample_codec :: outbox_codec where
  "sample_codec = \<lparr>Libs = \<lparr>ParseURL = (\<lambda>_. Some \<lparr>UrlScheme = ''https'', UrlHostname = ''h'', UrlPort = '''', UrlHasUser = False,
       UrlFragment = ''''\<rparr>), ParseAddress = (\<lambda>_. None), IsIP = (\<lambda>_. False)\<rparr>,
     ConfigOf = (\<lambda>_. Some sample_webhook), ConfigText = (\<lambda>_. ''c''), JsonValid = (\<lambda>_. True), JsonObject = (\<lambda>_. Some []), JsonText = (\<lambda>_. ''{}''),
     RuleScopeOf = (\<lambda>_. Some \<lparr>ScopeID = ''h'', ScopeKind = ''host''\<rparr>), ScopeIDAt = (\<lambda>_. None), WindowScopeOf = (\<lambda>_. None),
     ReceiptLength = (\<lambda>_. 100)\<rparr>"

definition sample_row :: outbox_row where
  "sample_row = \<lparr>OxID = sample_id (CHR ''a''), OxDeployment = sample_id (CHR ''1''), OxInstance = Some ''i'', OxTransition = Some 1,
     OxDestination = sample_id (CHR ''e''), OxDestRevision = 1, OxSecretRef = None, OxRuleRevision = Some 1, OxGeneration = 1, OxKey = ''0123456789abcdef'',
     OxPayload = ''{}'', OxState = DeliveryPending, OxAttempts = 0, OxToken = None, OxLease = None, OxNext = Some 10,
     OxError = None, OxStarted = None, OxSent = None, OxAck = None, OxCompleted = None, OxUnknown = False, OxJob = None,
     OxExpires = 86400000, OxCreated = 10\<rparr>"

definition sample_outbox :: "outbox_row list \<Rightarrow> outbox_db" where
  "sample_outbox rows = \<lparr>OxHub = ingest_hub, Outbox = rows,
     Destinations = [\<lparr>DsID = sample_id (CHR ''e''), DsDeployment = sample_id (CHR ''1''), DsType = ''webhook'', DsName = ''n'', DsConfig = ''c'', DsSecret = None,
       DsVersion = 1, DsDisabled = None, DsLastTest = None, DsLastResult = None, DsLastJob = None, DsCreated = 1, DsUpdated = 1\<rparr>],
     Instances = [\<lparr>AiID = ''i'', AiDeployment = sample_id (CHR ''1''), AiRule = ''r'', AiRuleVersion = 1, AiGeneration = 1,
       AiState = StateFiring, AiMuted = None, AiTransition = 1\<rparr>],
     Rules = [\<lparr>RuID = ''r'', RuDeployment = sample_id (CHR ''1''), RuVersion = 1\<rparr>],
     Revisions = [\<lparr>RvDeployment = sample_id (CHR ''1''), RvRule = ''r'', RvVersion = 1, RvScope = ''s'',
       RvEvaluator = RuleHostNotReporting\<rparr>],
     Transitions = [], AlertIncidents = [\<lparr>AcDeployment = sample_id (CHR ''1''), AcInstance = Some ''i'', AcStart = 5, AcEnd = None,
       AcCreated = 5\<rparr>],
     Windows = [], TestJobs = [],
     Users = [\<lparr>UsID = ''u'', UsDeployment = sample_id (CHR ''1''), UsRole = ''admin'', UsTrust = sample_id (CHR ''2''),
       UsDisabled = False, UsHistorical = False\<rparr>],
     Notices = [], Receipts = [], Random = [sample_id (CHR ''b''), sample_id (CHR ''c''), sample_id (CHR ''d''), sample_id (CHR ''f'')]\<rparr>"

definition outbox_env :: "int64 \<Rightarrow> hub_env" where
  "outbox_env t = \<lparr>Admission = None, HubNow = t, CommitFails = None\<rparr>"

definition sample_claim :: "(store_error, delivery_lease option) result \<times> outbox_db" where
  "sample_claim = claim_delivery sample_codec (outbox_env 20) (sample_id (CHR ''1'')) (sample_id (CHR ''2'')) (sample_outbox [sample_row])"

definition sample_lease :: delivery_lease where
  "sample_lease = \<lparr>LeasedRow = sample_row\<lparr>OxState := DeliveryLeased, OxAttempts := 1, OxToken := Some (sample_id (CHR ''b'')),
       OxLease := Some 30020, OxNext := None, OxStarted := Some 20\<rparr>,
     LeaseToken = sample_id (CHR ''b''),
     Prepared = \<lparr>PrKind = ''webhook'', PrConfig = sample_webhook, PrSecretRef = '''', PrPayload = ''{}''\<rparr>\<rparr>"

lemma sample_claimed: "sample_claim = (Ok (Some sample_lease), (sample_outbox [LeasedRow sample_lease])\<lparr>Random := [sample_id (CHR ''c''), sample_id (CHR ''d''), sample_id (CHR ''f'')]\<rparr>)"
  by code_simp
text \<open>The receiver answers, and the delivery is complete.\<close>

definition sample_completion :: completion where
  "sample_completion = \<lparr>CpID = sample_id (CHR ''a''), CpAttempt = 1, CpToken = sample_id (CHR ''b''), CpSucceeded = True,
     CpPermanent = False, CpCode = '''', CpRetryAfter = 0, CpAck = Some 25\<rparr>"

definition sample_sent :: outbox_row where
  "sample_sent = (LeasedRow sample_lease)\<lparr>OxState := DeliverySent, OxToken := None, OxLease := None, OxCompleted := Some 30,
     OxSent := Some 30, OxAck := Some 25\<rparr>"

lemma sample_completed: "complete_delivery sample_codec (outbox_env 30) sample_completion (sample_outbox [LeasedRow sample_lease])
    = (Ok sample_sent, sample_outbox [sample_sent])"
  by code_simp

text \<open>A delivery that failed for good, retried by the administrator.\<close>

definition sample_failed :: outbox_row where
  "sample_failed = sample_row\<lparr>OxState := DeliveryFailed, OxAttempts := 1, OxNext := None, OxError := Some ''e'', OxCompleted := Some 12\<rparr>"

definition sample_actor :: actor where
  "sample_actor = \<lparr>AcUser = ''u'', AcUserDisabled = False, AcHistorical = False, AcDeploymentID = sample_id (CHR ''1''),
     AcTrust = sample_id (CHR ''2'')\<rparr>"

definition sample_key :: string where "sample_key = ''0123456789abcdef''"

definition sample_retry :: "(store_error, outbox_row) result \<times> outbox_db" where
  "sample_retry = retry_delivery sample_codec (outbox_env 20) sample_actor (sample_id (CHR ''a'')) sample_key (sample_sha (CHR ''d''))
     (sample_outbox [sample_failed])"

definition sample_retried :: outbox_row where
  "sample_retried = sample_failed\<lparr>OxState := DeliveryPending, OxNext := Some 20, OxError := None, OxCompleted := None\<rparr>"

lemma sample_retry_ok: "fst sample_retry = Ok sample_retried"
  by code_simp

text \<open>A delivery with a thousand attempts behind it.\<close>

definition sample_tired :: outbox_row where
  "sample_tired = sample_row\<lparr>OxAttempts := 1000\<rparr>"

lemma sample_tired_run:
  "reconcile_leases (sample_id (CHR ''1'')) 20 (sample_outbox [sample_tired]) = Ok ((), sample_outbox [sample_tired])"
  "first_due (sample_id (CHR ''1'')) 20 (sample_outbox [sample_tired]) = Some sample_tired"
  "reconcile_candidate sample_codec (sample_id (CHR ''1'')) (OxID sample_tired) 20 (sample_outbox [sample_tired])
     = Ok (Some (Prepared sample_lease), sample_outbox [sample_tired\<lparr>OxNext := Some 20\<rparr>])"
  "defer_contended (sample_id (CHR ''1'')) (OxID sample_tired) 20 (sample_outbox [sample_tired\<lparr>OxNext := Some 20\<rparr>])
     = Ok (False, sample_outbox [sample_tired\<lparr>OxNext := Some 20\<rparr>])"
  by code_simp+
text \<open>A test of the webhook, which is disabled before the test is sent.\<close>

definition sample_tested :: "(store_error, test_job) result \<times> outbox_db" where
  "sample_tested = enqueue_test sample_codec (outbox_env 20) sample_actor (sample_id (CHR ''e'')) sample_key (sample_sha (CHR ''d'')) 1
     (sample_outbox [])"

definition sample_disabled :: "(store_error, destination_record) result \<times> outbox_db" where
  "sample_disabled = mutate_destination sample_codec (outbox_env 25) sample_actor (sample_id (CHR ''e'')) (sample_key @ ''2'')
     (sample_sha (CHR ''e'')) (no_definition 1) DisableDestination (snd sample_tested)"

lemma sample_tested_ok: "map OxState (Outbox (snd sample_tested)) = [DeliveryPending]"
  "map TjState (TestJobs (snd sample_tested)) = [''queued'']"
  by code_simp+

lemma sample_disabled_ok: "map OxState (Outbox (snd sample_disabled)) = [DeliverySuperseded]"
  "map OxJob (Outbox (snd sample_disabled)) = [Some (sample_id (CHR ''b''))]"
  "map TjID (TestJobs (snd sample_disabled)) = [sample_id (CHR ''b'')]"
  "map TjState (TestJobs (snd sample_disabled)) = [''queued'']"
  by code_simp+

end
