(* ===== verification/OutboxProperties.thy ===== *)
theory OutboxProperties
  imports OutboxReady OutboxSample
begin

text \<open>
  The properties of the notification outbox: one delivery in flight, a life that ends once, completions
  that only the holder of a lease can make, and a bound that stops the whole queue.
\<close>

section \<open>Every operation\<close>

lemma sound_claim_delivery: "outbox_ok db \<Longrightarrow> claim_delivery k env d g db = (x, db') \<Longrightarrow> outbox_ok db' \<and> evolves db db'"
  by (auto simp: claim_delivery_def split: if_splits dest: sound_atomically[OF sound_claim])

lemma sound_complete_delivery: "outbox_ok db \<Longrightarrow> complete_delivery k env c db = (x, db') \<Longrightarrow> outbox_ok db' \<and> evolves db db'"
  by (auto simp: complete_delivery_def split: if_splits dest: sound_atomically[OF sound_complete])

lemma sound_retry_delivery: "outbox_ok db \<Longrightarrow> retry_delivery k env a i key hash db = (x, db') \<Longrightarrow> outbox_ok db' \<and> evolves db db'"
  by (auto simp: retry_delivery_def read_retry_receipt_def split: if_splits dest: sound_as_admin[OF sound_read_receipt sound_retry])

lemma sample_outbox_ok: "outbox_ok (sample_outbox [sample_row])" "outbox_ok (sample_outbox [LeasedRow sample_lease])"
  "outbox_ok (sample_outbox [sample_tired])"
  by (simp_all add: outbox_ok_def single_flight_def row_ok_def sample_outbox_def sample_row_def sample_lease_def sample_tired_def)

section \<open>Claiming\<close>

lemma leases_are_fresh:
  assumes "reconcile_leases d now db = Ok ((), db')" "r \<in> set (Outbox db')" "OxDeployment r = d" "open_delivery (OxState r)"
  shows "OxExpires r > now"
proof (rule ccontr)
  assume late: "\<not> OxExpires r > now"
  let ?p = "\<lambda>r. OxDeployment r = d \<and> open_delivery (OxState r) \<and> OxExpires r \<le> now"
  let ?f = "\<lambda>r. ended DeliveryExpired (Some ''delivery_expired'') now (lost_in_flight r)"
  let ?q = "\<lambda>r. OxDeployment r = d \<and> OxState r = DeliveryLeased \<and> ptr_and (OxLease r) (\<lambda>t. t \<le> now) \<and> OxExpires r > now"
  let ?g = "\<lambda>r. r\<lparr>OxState := DeliveryFailed, OxToken := None, OxLease := None, OxNext := Some now,
          OxError := Some ''receiver_ack_unknown'', OxUnknown := True\<rparr>"
  have "Outbox db' = update_where ?q ?g (update_where ?p ?f (Outbox db))"
    using assms(1) by (auto simp: reconcile_leases_def tx_bind_def update_outbox_def update_jobs_def Let_def
      split: if_splits elim!: result_bind_OkE)
  with assms(2) obtain x where x: "x \<in> set (Outbox db)" "r = (let y = (if ?p x then ?f x else x) in if ?q y then ?g y else y)"
    by (auto simp: update_where_def)
  show False
  proof (cases "?p x")
    case True
    then have "r = ?f x" unfolding x(2) Let_def by (simp add: ended_def)
    then show False using assms(4) by (simp add: ended_def)
  next
    case no: False
    show False
    proof (cases "?q x")
      case True
      have "r = ?g x" unfolding x(2) Let_def if_not_P[OF no] if_P[OF True] ..
      then show False using late True by simp
    next
      case False
      have "r = x" unfolding x(2) Let_def if_not_P[OF no] if_not_P[OF False] ..
      then show False using no assms(3,4) late by simp
    qed
  qed
qed

lemma claim_hands_out:
  assumes "outbox_ok db" "claim_delivery k env d g db = (Ok (Some l), db')"
  shows "handed_out k d (HubNow env) db l db'" "HubNow env < OxExpires (LeasedRow l)"
proof -
  let ?now = "HubNow env" and ?r = "LeasedRow l"
  from assms(2) obtain db1 where lease: "reconcile_leases d ?now db = Ok ((), db1)"
    and scan: "scan_due 32 k d ?now db1 = Ok (Some l, db')"
    by (auto simp: claim_delivery_def atomically_def claim_body_def tx_bind_def
        split: if_splits option.splits sum.splits prod.splits elim!: result_bind_OkE)
  note one = sound_atD[OF sound_at_tx[OF sound_reconcile_leases] assms(1) lease]
  have out1: "handed_out k d ?now db1 l db'" using scan_due_outcome[OF conjunct1[OF one] scan] .
  then show out: "handed_out k d ?now db l db'"
    using handed_out_before[OF conjunct2[OF one] leases_frame[OF lease]] by blast
  from out1 obtain y where y: "y \<in> set (Outbox db1)" "follows y ?r" by (auto simp: handed_out_def)
  have "OxExpires y > ?now"
    by (rule leases_are_fresh[OF lease y(1)]) (use y out in \<open>auto simp: handed_out_def leased_to_def Let_def follows_def same_delivery_def\<close>)
  then show "?now < OxExpires ?r" using y by (simp add: follows_def same_delivery_def)
qed

text \<open>
  (C4) A delivery that a claim returns is leased to the claimer, under a token of its own, for thirty
  seconds; it has not expired and this is a new attempt. It is still wanted when it is handed out:
  its destination exists, is enabled and has the revision and the secret the delivery was made for, and
  the configuration that is handed out is the destination's and is valid. If an alert asked for it, the
  alert is still in the transition the delivery reports, its rule has not changed, and neither an
  operator nor a maintenance window nor a parent host that is down holds it back.
\<close>
theorem claimed_delivery_is_wanted:
  assumes "outbox_ok db" "claim_delivery k env d g db = (Ok (Some l), db')"
  shows "let r = LeasedRow l; now = HubNow env in
    r \<in> set (Outbox db') \<and> OxDeployment r = d \<and> OxState r = DeliveryLeased \<and> OxToken r = Some (LeaseToken l) \<and>
    OxLease r = Some (add64 now lease_ms) \<and> now < OxExpires r \<and>
    (\<exists>r0\<in>set (Outbox db). OxID r0 = OxID r \<and> OxAttempts r0 < OxAttempts r) \<and>
    (\<exists>ds. find_destination d (OxDestination r) db = Some ds \<and> DsDisabled ds = None \<and> DsVersion ds = OxDestRevision r \<and>
       ConfigOf k (DsConfig ds) = Some (PrConfig (Prepared l)) \<and>
       validate_notification_config (Libs k) (DsType ds) (PrConfig (Prepared l)) \<and>
       secret_refs_match (ref_text (OxSecretRef r)) (ref_text (DsSecret ds)) (PrConfig (Prepared l))) \<and>
    (\<forall>a. OxInstance r = Some a \<longrightarrow> alert_verdict k r a now db = Ok None)"
proof -
  let ?now = "HubNow env" and ?r = "LeasedRow l"
  note out = claim_hands_out(1)[OF assms] and fresh = claim_hands_out(2)[OF assms]
  from out have leased: "?r \<in> set (Outbox db')" "OxDeployment ?r = d" "OxState ?r = DeliveryLeased"
    "OxToken ?r = Some (LeaseToken l)" "OxLease ?r = Some (add64 ?now lease_ms)"
    by (simp_all add: handed_out_def leased_to_def Let_def)
  from out have "\<exists>r0\<in>set (Outbox db). OxID r0 = OxID ?r \<and> OxAttempts r0 < OxAttempts ?r"
    unfolding handed_out_def follows_def same_delivery_def by metis
  moreover from out have ready: "ready_for k ?now db ?r (Prepared l)" by (simp add: handed_out_def)
  moreover from ready have "\<forall>a. OxInstance ?r = Some a \<longrightarrow> alert_verdict k ?r a ?now db = Ok None" by (auto simp: ready_for_def)
  ultimately show ?thesis using leased fresh by (auto simp: Let_def ready_for_def split: option.splits)
qed

lemma claimed_delivery_is_wanted_witness:
  "20 < OxExpires (LeasedRow sample_lease) \<and> OxToken (LeasedRow sample_lease) = Some (LeaseToken sample_lease)"
  using claimed_delivery_is_wanted[OF sample_outbox_ok(1) sample_claimed[unfolded sample_claim_def]]
  by (simp add: Let_def outbox_env_def)

text \<open>
  (C39) The bound of a thousand attempts stops the whole queue. Once the delivery that is due first has a
  thousand attempts behind it and is still wanted, the claim fails on the constraint of its own row and
  is rolled back. Nothing has changed then, so that every later claim of the deployment meets the same
  row and fails as well, whatever else is due.
\<close>
theorem thousand_attempts_stop_the_queue:
  assumes "outbox_ok db" "valid_uuid_text d" "valid_uuid_text g" "Admission env = None"
    and "find (\<lambda>x. DepID x = d) (Deployments (OxHub db)) = Some x" "DepGeneration x = g" "DepRecovery x = ''normal''"
    and lease: "reconcile_leases d (HubNow env) db = Ok ((), db1)"
    and due: "first_due d (HubNow env) db1 = Some r" and many: "OxAttempts r = 1000"
    and cand: "reconcile_candidate k d (OxID r) (HubNow env) db1 = Ok (Some l, db2)"
    and free: "defer_contended d (OxID r) (HubNow env) db2 = Ok (False, db2)" and "Random db2 \<noteq> []"
  shows "claim_delivery k env d g db = (Err attempts_bound, db)"
proof -
  let ?now = "HubNow env" and ?i = "OxID r"
  have ok1: "outbox_ok db1" using sound_atD[OF sound_at_tx[OF sound_reconcile_leases] assms(1) lease] by simp
  have r: "r \<in> set (Outbox db1)" "due d ?now r" "row_waits d ?i db1"
    using first_due_Some[OF due] ok1 by (simp_all add: outbox_ok_def)
  have ev: "outbox_ok db2" "evolves db1 db2" using sound_atD[OF sound_reconcile_candidate[OF r(3)] ok1 cand] by simp_all
  obtain token us where random: "Random db2 = token # us" using assms(13) by (cases "Random db2") auto
  let ?db = "db2\<lparr>Random := us\<rparr>"
  from ev(2) r(1) obtain y where y: "y \<in> set (Outbox db2)" "OxID y = ?i"
    using evolves_ids[OF ev(2)] by (metis image_eqI image_iff list.set_map)
  have f: "follows r y" by (rule evolves_row[OF ev(2) ok1 r(1) y(1)]) (simp add: y)
  then have row: "row_is d ?i y" using r(2) by (simp add: row_is_def follows_def same_delivery_def due_def)
  have "waiting (OxState y)"
  proof (cases "db2 = db1")
    case True
    with r(3) y(1) row show ?thesis by (auto simp: row_waits_def)
  next
    case False
    with reconcile_ready[OF cand] y(1) row have "OxState y = DeliveryPending" by auto
    then show ?thesis by simp
  qed
  then obtain z where z: "find (\<lambda>r. row_is d ?i r \<and> waiting (OxState r)) (Outbox db2) = Some z"
    using y(1) row by (cases "find (\<lambda>r. row_is d ?i r \<and> waiting (OxState r)) (Outbox db2)") (auto simp: find_None_iff)
  have "follows r z"
    by (rule evolves_row[OF ev(2) ok1 r(1)]) (use find_result[OF z] in \<open>auto simp: row_is_def\<close>)
  with many z have "lease_row d ?i token ?now ?db = Err attempts_bound"
    by (simp add: lease_row_def follows_def)
  then have "scan_once k d ?now db1 = Err attempts_bound"
    using due cand free random by (simp add: scan_once_def tx_bind_def fresh_uuid_def one_in_flight_def attempts_bound_def)
  then have "scan_due 32 k d ?now db1 = Err attempts_bound"
    by (simp add: numeral_eq_Suc tx_bind_def)
  then show ?thesis using assms(2-7) lease
    by (simp add: claim_delivery_def atomically_def claim_body_def tx_bind_def)
qed

lemma thousand_attempts_stop_the_queue_witness:
  "claim_delivery sample_codec (outbox_env 20) (sample_id (CHR ''1'')) (sample_id (CHR ''2'')) (sample_outbox [sample_tired])
     = (Err attempts_bound, sample_outbox [sample_tired])"
proof (rule thousand_attempts_stop_the_queue[OF sample_outbox_ok(3)])
  show "valid_uuid_text (sample_id (CHR ''1''))" "valid_uuid_text (sample_id (CHR ''2''))" by code_simp+
  show "find (\<lambda>x. DepID x = sample_id (CHR ''1'')) (Deployments (OxHub (sample_outbox [sample_tired])))
      = Some \<lparr>DepID = sample_id (CHR ''1''), DepGeneration = sample_id (CHR ''2''), DepRecovery = ''normal''\<rparr>"
    by (simp add: sample_outbox_def ingest_hub_def)
  show "reconcile_leases (sample_id (CHR ''1'')) (HubNow (outbox_env 20)) (sample_outbox [sample_tired]) = Ok ((), sample_outbox [sample_tired])"
    "first_due (sample_id (CHR ''1'')) (HubNow (outbox_env 20)) (sample_outbox [sample_tired]) = Some sample_tired"
    "reconcile_candidate sample_codec (sample_id (CHR ''1'')) (OxID sample_tired) (HubNow (outbox_env 20)) (sample_outbox [sample_tired])
     = Ok (Some (Prepared sample_lease), sample_outbox [sample_tired\<lparr>OxNext := Some 20\<rparr>])"
    "defer_contended (sample_id (CHR ''1'')) (OxID sample_tired) (HubNow (outbox_env 20)) (sample_outbox [sample_tired\<lparr>OxNext := Some 20\<rparr>])
     = Ok (False, sample_outbox [sample_tired\<lparr>OxNext := Some 20\<rparr>])"
    using sample_tired_run by (simp_all add: outbox_env_def)
qed (simp_all add: outbox_env_def sample_tired_def sample_outbox_def)

section \<open>Completing\<close>

lemma update_ends_lease:
  assumes "outbox_ok db" "r \<in> set (Outbox db)" "p r" "OxState (f r) \<noteq> DeliveryLeased" "\<And>x. OxID (f x) = OxID x"
  shows "\<forall>y\<in>set (update_where p f (Outbox db)). OxID y = OxID r \<longrightarrow> OxState y \<noteq> DeliveryLeased"
proof (intro ballI impI)
  fix y assume y: "y \<in> set (update_where p f (Outbox db))" "OxID y = OxID r"
  then obtain x where x: "x \<in> set (Outbox db)" "y = (if p x then f x else x)" by (auto simp: update_where_def)
  then have "OxID x = OxID r" using y(2) assms(5) by (simp split: if_splits)
  then have "x = r" using assms(1,2) x(1) by (auto simp: outbox_ok_def distinct_map dest: inj_onD)
  then show "OxState y \<noteq> DeliveryLeased" using x(2) assms(3,4) by simp
qed

lemma finish_test_same: "finish_test r b code now db = Ok ((), db') \<Longrightarrow> Outbox db' = Outbox db"
  by (auto simp: finish_test_def complete_test_def tx_bind_def tx_ok_def update_jobs_def Let_def
      split: option.splits if_splits elim!: result_bind_OkE)

lemma revalidate_result:
  assumes "revalidate_for_retry k d i now db = Ok (b, db')" "find_row d i db = Some r"
  shows "b \<and> db' = db \<or> \<not> b \<and> ((\<exists>code. supersede_delivery d i code now db = Ok ((), db')) \<or> (\<exists>t code. suppress_in_flight d i t code db = Ok ((), db')))"
proof (cases "destination_verdict k r db")
  case (Drop code)
  with assms show ?thesis by (auto simp: revalidate_for_retry_def tx_bind_def tx_ok_def elim!: result_bind_OkE)
next
  case (PutOff t code)
  with assms show ?thesis by (auto simp: revalidate_for_retry_def tx_bind_def tx_ok_def elim!: result_bind_OkE)
next
  case v: (Sendable c kind)
  show ?thesis
  proof (cases "OxInstance r")
    case None
    with v assms show ?thesis by (simp add: revalidate_for_retry_def)
  next
    case a: (Some a)
    show ?thesis
    proof (cases "alert_verdict k r a now db")
      case (Inl e)
      with a v assms show ?thesis by (simp add: revalidate_for_retry_def)
    next
      case (Inr x)
      consider code where "x = Some (Drop code)" | t code where "x = Some (PutOff t code)" | "x = None"
        using alert_verdict_not_sendable[of k r a now db] Inr by (metis not_None_eq verdict.exhaust)
      then show ?thesis
        by cases (use Inr a v assms in \<open>auto simp: revalidate_for_retry_def tx_bind_def tx_ok_def elim!: result_bind_OkE\<close>)
    qed
  qed
qed

lemma completed_not_leased:
  assumes ok: "outbox_ok db" and run: "complete_body k c now db = Ok (x, db')"
  obtains r where "r \<in> set (Outbox db)" "holds_lease c r" "ptr_and (OxLease r) (\<lambda>t. t > now)"
    "\<And>y. y \<in> set (Outbox db') \<Longrightarrow> OxID y = CpID c \<Longrightarrow> OxState y \<noteq> DeliveryLeased"
    "x \<in> set (Outbox db')" "OxID x = CpID c"
proof -
  note result = that
  from run obtain r where r: "find (\<lambda>r. OxID r = CpID c) (Outbox db) = Some r" and lease: "OxState r = DeliveryLeased"
    "OxAttempts r = CpAttempt c" "OxToken r = Some (CpToken c)" "ptr_and (OxLease r) (\<lambda>t. t > now)"
    by (auto simp: complete_body_def split: option.splits if_splits)
  then have inr: "r \<in> set (Outbox db)" "OxID r = CpID c" by (auto dest: find_result)
  let ?d = "OxDeployment r" and ?i = "CpID c"
  from run r lease obtain db1 where
    one: "(if CpSucceeded c then complete_sent c r now
             else if CpPermanent c \<or> OxJob r \<noteq> None then complete_failed c r now
             else tx_bind (revalidate_for_retry k ?d ?i now) (\<lambda>allowed. if allowed then complete_again c r now else tx_ok ())) db
          = Ok ((), db1)" and last: "read_delivery ?d ?i db1 = Ok (x, db')"
    by (auto simp: complete_body_def tx_bind_def elim!: result_bind_OkE split: if_split_asm)
  have x: "db' = db1" "find_row ?d ?i db1 = Some x" using last by (simp_all add: read_delivery_Ok)
  have holds: "holds_lease c r" using lease inr by (simp add: holds_lease_def)
  have done1: ?thesis if out: "\<forall>y\<in>set (Outbox db1). OxID y = OxID r \<longrightarrow> OxState y \<noteq> DeliveryLeased"
    by (rule result[OF inr(1) holds lease(4)]) (use out inr x find_rowD[OF x(2)] in auto)
  have upd: ?thesis if "Outbox db1 = update_where p f (Outbox db)" "p r" "OxState (f r) \<noteq> DeliveryLeased" "\<And>x. OxID (f x) = OxID x" for p f
    by (rule done1) (use update_ends_lease[OF ok inr(1), of p f] that in simp)
  have ends: "find_row ?d ?i db = Some r"
    using r ok by (auto simp: find_row_def row_is_def find_Some_iff) 
  have again: ?thesis if "complete_again c r now db = Ok ((), db1)"
    using that by (auto simp: complete_again_def Let_def tx_bind_def update_outbox_def elim!: result_bind_OkE
      split: if_splits dest!: finish_test_same intro: upd[where p = "holds_lease c"] simp: holds ended_def)
  show ?thesis
  proof (cases "CpSucceeded c \<or> CpPermanent c \<or> OxJob r \<noteq> None")
    case True
    with one show ?thesis
      by (auto simp: complete_sent_def complete_failed_def tx_err_def tx_bind_def update_outbox_def elim!: result_bind_OkE
        split: if_splits option.splits dest!: finish_test_same intro: upd[where p = "holds_lease c"] simp: holds ended_def)
  next
    case False
    with one obtain b db2 where re: "revalidate_for_retry k ?d ?i now db = Ok (b, db2)"
      and tail: "(if b then complete_again c r now else tx_ok ()) db2 = Ok ((), db1)"
      by (auto simp: tx_bind_def elim!: result_bind_OkE)
    show ?thesis
    proof (cases b)
      case True
      with revalidate_result[OF re ends] tail show ?thesis by (intro again) simp
    next
      case no: False
      with tail have [simp]: "db2 = db1" by (simp add: tx_ok_def)
      from revalidate_result[OF re ends] no consider code where "supersede_delivery ?d ?i code now db = Ok ((), db1)"
        | t code where "suppress_in_flight ?d ?i t code db = Ok ((), db1)" by auto
      then show ?thesis
      proof cases
        case 1
        then have "Outbox db1 = update_where (\<lambda>x. row_is ?d ?i x \<and> open_delivery (OxState x))
            (\<lambda>x. ended DeliverySuperseded (Some code) now (lost_in_flight x)) (Outbox db)"
          by (auto simp: supersede_delivery_def update_outbox_def)
        then show ?thesis by (rule upd) (simp_all add: row_is_def inr lease ended_def lost_in_flight_def)
      next
        case 2
        then have "Outbox db1 = update_where (\<lambda>x. row_is ?d ?i x \<and> OxState x = DeliveryLeased)
            (\<lambda>x. x\<lparr>OxState := DeliveryMuted, OxToken := None, OxLease := None, OxNext := Some t, OxError := Some code,
               OxCompleted := None, OxUnknown := True\<rparr>) (Outbox db)"
          by (auto simp: suppress_in_flight_def update_outbox_def)
        then show ?thesis by (rule upd) (simp_all add: row_is_def inr lease)
      qed
    qed
  qed
qed

text \<open>
  (C7) A completion succeeds only for the holder of the lease, while the lease runs: the delivery is in
  flight with the attempt and the token the completion names. And it succeeds once: it takes the delivery
  out of flight, and the same completion made again, at any time and whatever it found before, is refused
  and changes nothing.
\<close>
theorem completion_is_once:
  assumes "outbox_ok db" "complete_delivery k env c db = (Ok r, db')"
  shows "(\<exists>r0\<in>set (Outbox db). OxID r0 = OxID r \<and> holds_lease c r0 \<and> ptr_and (OxLease r0) (\<lambda>t. t > HubNow env)) \<and>
    OxState r \<noteq> DeliveryLeased \<and>
    complete_delivery k' env' c db' = ((case Admission env' of None \<Rightarrow> Err ErrDeliveryConflict | Some e \<Rightarrow> Err (HubError e)), db')"
proof -
  from assms(2) have valid: "valid_completion c" and run: "complete_body k c (HubNow env) db = Ok (r, db')"
    by (auto simp: complete_delivery_def atomically_def split: if_splits option.splits sum.splits prod.splits)
  obtain r0 where r0: "r0 \<in> set (Outbox db)" "holds_lease c r0" "ptr_and (OxLease r0) (\<lambda>t. t > HubNow env)"
    and out: "\<And>y. y \<in> set (Outbox db') \<Longrightarrow> OxID y = CpID c \<Longrightarrow> OxState y \<noteq> DeliveryLeased"
    and r: "r \<in> set (Outbox db')" "OxID r = CpID c"
    by (rule completed_not_leased[OF assms(1) run]) blast
  obtain y where y: "find (\<lambda>r. OxID r = CpID c) (Outbox db') = Some y"
    using r by (cases "find (\<lambda>r. OxID r = CpID c) (Outbox db')") (auto simp: find_None_iff)
  then have "OxState y \<noteq> DeliveryLeased" using out[of y] by (auto dest: find_result)
  then have "complete_body k' c (HubNow env') db' = Err ErrDeliveryConflict" by (simp add: complete_body_def y)
  then have "complete_delivery k' env' c db' = ((case Admission env' of None \<Rightarrow> Err ErrDeliveryConflict | Some e \<Rightarrow> Err (HubError e)), db')"
    using valid by (simp add: complete_delivery_def atomically_def split: option.split)
  then show ?thesis using r0 r out[of r] by (auto simp: holds_lease_def)
qed

lemma completion_is_once_witness:
  "complete_delivery sample_codec (outbox_env 31) sample_completion (sample_outbox [sample_sent])
     = (Err ErrDeliveryConflict, sample_outbox [sample_sent])"
  using completion_is_once[OF sample_outbox_ok(2) sample_completed, of sample_codec "outbox_env 31"]
  by (simp add: outbox_env_def)

section \<open>Retrying\<close>

lemma read_receipt_None:
  assumes "read_receipt a key e pick now db = Ok (None, db')"
  shows "OxHub db' = OxHub db \<and> Users db' = Users db \<and> find (receipt_is a key) (Receipts db') = None"
  using assms by (auto simp: read_receipt_def find_None_iff split: option.splits if_splits)

lemma read_receipt_Some:
  assumes "read_receipt a key e pick now db = Ok (Some x, db')"
  shows "db' = db \<and> (\<exists>rt. find (receipt_is a key) (Receipts db) = Some rt \<and> now < RtExpires rt \<and> pick rt = Some x)"
  using assms by (auto simp: read_receipt_def split: option.splits if_splits)

lemma persist_result:
  assumes "persist_receipt k e a key hash action resource detail status x now db = Ok ((), db')"
  shows "OxHub db' = OxHub db \<and> Users db' = Users db \<and> Receipts db' = Receipts db @ [\<lparr>RtDeployment = AcDeploymentID a,
     RtGeneration = AcTrust a, RtActor = AcUser a, RtKey = key, RtHash = hash, RtStatus = status, RtResult = x, RtCreated = now,
     RtExpires = add64 now day_ms\<rparr>]"
  using assms by (auto simp: persist_receipt_def tx_err_def tx_bind_def fresh_uuid_def split: if_splits list.splits elim!: result_bind_OkE)

lemma retry_failed_result:
  assumes "retry_failed k a i key hash now db = Ok (x, db')"
  shows "OxHub db' = OxHub db \<and> Users db' = Users db \<and> OxID x = i \<and> Receipts db' = Receipts db @ [\<lparr>RtDeployment = AcDeploymentID a,
     RtGeneration = AcTrust a, RtActor = AcUser a, RtKey = key, RtHash = hash, RtStatus = 200, RtResult = DeliveryReceipt x, RtCreated = now,
     RtExpires = add64 now day_ms\<rparr>]"
proof -
  from assms have "requeue k a i key hash now db = Ok (x, db')"
    by (auto simp: retry_failed_def tx_bind_def tx_err_def read_delivery_Ok elim!: result_bind_OkE split: if_split_asm)
  then obtain p db1 db2 db3 where one: "reconcile_candidate k (AcDeploymentID a) i now db = Ok (p, db1)"
    and two: "update_outbox (\<lambda>r. row_is (AcDeploymentID a) i r \<and> waiting (OxState r))
            (\<lambda>r. r\<lparr>OxState := DeliveryPending, OxNext := Some now, OxError := None, OxCompleted := None\<rparr>) db1 = Ok ((), db2)"
    and three: "read_delivery (AcDeploymentID a) i db2 = Ok (x, db3)" and four: "persist_retry k a key hash x now db3 = Ok ((), db')"
    by (auto simp: requeue_def tx_bind_def tx_err_def tx_ok_def elim!: result_bind_OkE split: if_split_asm)
  have "frame db3 = frame db"
    using keepsD[OF keeps_candidate one] keepsD[OF keeps_simple(4) two] three by (simp add: read_delivery_Ok)
  then show ?thesis using persist_result[OF four[unfolded persist_retry_def]] find_rowD[of "AcDeploymentID a" i db2 x] three
    by (simp add: frame_def read_delivery_Ok)
qed

lemma validate_actor_same: "OxHub db' = OxHub db \<Longrightarrow> Users db' = Users db \<Longrightarrow> validate_actor a db' = validate_actor a db"
  by (simp add: validate_actor_def find_user_def)

lemma retry_leaves_receipt:
  assumes "retry_delivery k env a i key hash db = (Ok x, db')"
  shows "valid_uuid_text i \<and> valid_receipt_key key hash \<and> validate_actor a db' = Ok ''admin'' \<and>
    (\<exists>rt. find (receipt_is a key) (Receipts db') = Some rt \<and> RtHash rt = hash \<and> RtResult rt = DeliveryReceipt x \<and> OxID x = i \<and>
      (find (receipt_is a key) (Receipts db) = Some rt \<and> HubNow env < RtExpires rt \<or> RtExpires rt = add64 (HubNow env) day_ms))"
proof -
  from assms have valid: "valid_uuid_text i" "valid_receipt_key key hash"
    and run: "replayable env (as_admin a (read_retry_receipt a key hash i (HubNow env)) (retry_failed k a i key hash (HubNow env))) db = (Ok x, db')"
    by (auto simp: retry_delivery_def split: if_splits)
  from run show ?thesis
  proof (cases rule: as_admin_Ok)
    case (again db1)
    from read_receipt_Some[OF again(3)[unfolded read_retry_receipt_def]] obtain rt where
      rt: "find (receipt_is a key) (Receipts db) = Some rt" "HubNow env < RtExpires rt" and
      x: "(case RtResult rt of DeliveryReceipt x \<Rightarrow> if RtHash rt = hash \<and> OxID x = i then Some x else None | _ \<Rightarrow> None) = Some x"
      by blast
    from x have "RtHash rt = hash" "RtResult rt = DeliveryReceipt x" "OxID x = i"
      by (auto split: receipt_result.split_asm if_split_asm)
    then show ?thesis using valid again rt by auto
  next
    case (new db1)
    note one = read_receipt_None[OF new(2)[unfolded read_retry_receipt_def]] and two = retry_failed_result[OF new(3)]
    have "find (receipt_is a key) (Receipts db') = Some \<lparr>RtDeployment = AcDeploymentID a, RtGeneration = AcTrust a,
        RtActor = AcUser a, RtKey = key, RtHash = hash, RtStatus = 200, RtResult = DeliveryReceipt x, RtCreated = HubNow env,
        RtExpires = add64 (HubNow env) day_ms\<rparr>"
      using one two by (simp add: find_append receipt_is_def)
    then show ?thesis using valid one two validate_actor_same[of db' db a] new(1) by auto
  qed
qed

text \<open>
  (C18) The key of a retry makes it idempotent for a day. A retry that succeeded leaves a receipt: the one of an
  earlier retry under this key that had not expired, or a new one, which expires 86,400,000 ms after the time
  of this retry. As long as the hub's clock is before that time, the same retry made again gives the
  delivery as it was answered the first time and changes nothing, and the same key with another delivery or
  another request is refused.
\<close>
theorem retry_is_idempotent:
  assumes "retry_delivery k env a i key hash db = (Ok x, db1)" and "Admission env' = None"
  shows "\<exists>rt. find (receipt_is a key) (Receipts db1) = Some rt \<and>
   (find (receipt_is a key) (Receipts db) = Some rt \<and> HubNow env < RtExpires rt \<or>
    RtExpires rt = add64 (HubNow env) day_ms) \<and>
   (HubNow env' < RtExpires rt \<longrightarrow>
    retry_delivery k env' a i key hash db1 = (Ok x, db1) \<and>
    (valid_uuid_text i' \<and> valid_receipt_key key hash' \<and> (i' \<noteq> i \<or> hash' \<noteq> hash) \<longrightarrow>
      retry_delivery k env' a i' key hash' db1 = (Err ErrDeliveryConflict, db1)))"
proof -
  from retry_leaves_receipt[OF assms(1)] obtain rt where rt: "find (receipt_is a key) (Receipts db1) = Some rt"
    "RtHash rt = hash" "RtResult rt = DeliveryReceipt x" "OxID x = i" and
    ex: "find (receipt_is a key) (Receipts db) = Some rt \<and> HubNow env < RtExpires rt \<or> RtExpires rt = add64 (HubNow env) day_ms"
    and ok: "valid_uuid_text i" "valid_receipt_key key hash"
    "validate_actor a db1 = Ok ''admin''" by auto
  have read: "read_retry_receipt a key h j t db1 = (if h \<noteq> hash \<or> i \<noteq> j then Err ErrDeliveryConflict else Ok (Some x, db1))"
    if "t < RtExpires rt" for h j t using rt that by (auto simp: read_retry_receipt_def read_receipt_def)
  show ?thesis
    by (intro exI[of _ rt] conjI rt(1) ex)
      (use rt ok assms(2) in \<open>auto simp: retry_delivery_def replayable_def as_admin_def tx_bind_def tx_ok_def read\<close>)
qed

text \<open>Made again ten milliseconds and almost a day later, and again with another request.\<close>

lemma sample_receipts:
  "find (receipt_is sample_actor sample_key) (Receipts (sample_outbox [sample_failed])) = None"
  "add64 20 day_ms = 86400020" "valid_uuid_text (sample_id (CHR ''a''))"
  "valid_receipt_key sample_key (sample_sha (CHR ''e''))" "sample_sha (CHR ''e'') \<noteq> sample_sha (CHR ''d'')"
  by code_simp+

lemma retry_is_idempotent_witness:
  "list_all (\<lambda>now. retry_delivery sample_codec (outbox_env now) sample_actor (sample_id (CHR ''a'')) sample_key
      (sample_sha (CHR ''d'')) (snd sample_retry) = (Ok sample_retried, snd sample_retry) \<and>
    retry_delivery sample_codec (outbox_env now) sample_actor (sample_id (CHR ''a'')) sample_key
      (sample_sha (CHR ''e'')) (snd sample_retry) = (Err ErrDeliveryConflict, snd sample_retry)) [30, 86400000]"
proof -
  have run: "retry_delivery sample_codec (outbox_env 20) sample_actor (sample_id (CHR ''a'')) sample_key
      (sample_sha (CHR ''d'')) (sample_outbox [sample_failed]) = (Ok sample_retried, snd sample_retry)"
    using sample_retry_ok by (simp add: sample_retry_def prod_eq_iff)
  have env: "Admission (outbox_env now) = None" "HubNow (outbox_env now) = now" for now by (simp_all add: outbox_env_def)
  have again: "retry_delivery sample_codec (outbox_env now) sample_actor (sample_id (CHR ''a'')) sample_key
      (sample_sha (CHR ''d'')) (snd sample_retry) = (Ok sample_retried, snd sample_retry) \<and>
    retry_delivery sample_codec (outbox_env now) sample_actor (sample_id (CHR ''a'')) sample_key
      (sample_sha (CHR ''e'')) (snd sample_retry) = (Err ErrDeliveryConflict, snd sample_retry)" if "now < 86400020" for now
    using retry_is_idempotent[OF run env(1)[of now], of "sample_id (CHR ''a'')" "sample_sha (CHR ''e'')"] sample_receipts that
    by (auto simp: env)
  show ?thesis by (simp add: again)
qed

end
