(* ===== verification/DestinationProperties.thy ===== *)
theory DestinationProperties
  imports DestinationFacts OutboxProperties
begin

text \<open>
  Histories of the outbox: whatever the dispatcher and the administrators do, the table of deliveries
  stays in order and the limits hold; and a test whose delivery was superseded never ends.
\<close>

section \<open>Histories\<close>

inductive outbox_step :: "outbox_codec \<Rightarrow> outbox_db \<Rightarrow> outbox_db \<Rightarrow> bool" for k where
  claims: "claim_delivery k env d g db = (x, db') \<Longrightarrow> outbox_step k db db'"
| completes: "complete_delivery k env c db = (y, db') \<Longrightarrow> outbox_step k db db'"
| retries: "retry_delivery k env a i key hash db = (y, db') \<Longrightarrow> outbox_step k db db'"
| mutates: "mutate_destination k env a i key hash f op db = (z, db') \<Longrightarrow> outbox_step k db db'"
| tests: "enqueue_test k env a i key hash v db = (w, db') \<Longrightarrow> outbox_step k db db'"

inductive_cases outbox_stepE: "outbox_step k db db'"

definition grows :: "outbox_db \<Rightarrow> outbox_db \<Rightarrow> bool" where
  "grows db db' \<longleftrightarrow> (\<exists>rows new. Outbox db' = rows @ new \<and> list_all2 follows (Outbox db) rows)"

lemma grows_evolves: "evolves db db' \<Longrightarrow> grows db db'"
  unfolding grows_def evolves_def by (metis append_Nil2)

lemma grows_append: "Outbox db' = Outbox db @ new \<Longrightarrow> grows db db'"
  unfolding grows_def by (metis list.rel_refl follows_refl)

lemma grows_trans: "grows a b \<Longrightarrow> grows b c \<Longrightarrow> grows a c"
proof -
  assume "grows a b" "grows b c"
  then obtain r1 n1 r2 n2 where one: "Outbox b = r1 @ n1" "list_all2 follows (Outbox a) r1"
    and two: "Outbox c = r2 @ n2" "list_all2 follows (r1 @ n1) r2" by (auto simp: grows_def)
  from two(2) obtain s1 s2 where s: "r2 = s1 @ s2" "list_all2 follows r1 s1" by (auto simp: list_all2_append1)
  with one two have "Outbox c = s1 @ (s2 @ n2)" "list_all2 follows (Outbox a) s1"
    using list_all2_trans[OF follows_trans] by auto
  then show "grows a c" unfolding grows_def by blast
qed

lemma step_sound:
  assumes "outbox_ok db" "outbox_step k db db'"
  shows "outbox_ok db' \<and> grows db db'"
  using assms(2)
proof cases
  case (claims env d g x)
  with sound_claim_delivery[OF assms(1)] show ?thesis by (blast intro: grows_evolves)
next
  case (completes env c y)
  with sound_complete_delivery[OF assms(1)] show ?thesis by (blast intro: grows_evolves)
next
  case (retries env a i key hash y)
  with sound_retry_delivery[OF assms(1)] show ?thesis by (blast intro: grows_evolves)
next
  case (mutates env a i key hash f op z)
  with sound_mutate[OF assms(1)] show ?thesis by (blast intro: grows_evolves)
next
  case (tests env a i key hash v w)
  with sound_enqueue[OF assms(1)] show ?thesis by (blast intro: grows_append)
qed

text \<open>
  (C5) After any history of claims, completions, retries, tests and changes of destinations, the outbox
  is in order: one row per delivery, a token and a lease on exactly the rows in flight, a next attempt
  only on waiting rows, at most a thousand attempts, and at most one delivery in flight per alert and
  destination. New deliveries come at the end, and every delivery there was has moved only along its
  life: what identifies it stays, its attempts never shrink, an acknowledgement once unknown stays
  unknown, and a delivery that was sent, has expired or was superseded never changes again.
\<close>
theorem deliveries_follow_their_life:
  assumes "outbox_ok db" "(outbox_step k)\<^sup>*\<^sup>* db db'"
  shows "outbox_ok db' \<and> (\<exists>rows new. Outbox db' = rows @ new \<and>
    list_all2 (\<lambda>r r'. same_delivery r r' \<and> delivery_step\<^sup>*\<^sup>* (OxState r) (OxState r') \<and> OxAttempts r \<le> OxAttempts r' \<and>
      (OxUnknown r \<longrightarrow> OxUnknown r') \<and> (final_state (OxState r) \<longrightarrow> r' = r)) (Outbox db) rows)"
proof -
  from assms(2,1) have "outbox_ok db' \<and> grows db db'"
  proof (induction rule: rtranclp_induct)
    case base
    then show ?case by (simp add: grows_evolves)
  next
    case (step y z)
    then show ?case using step_sound[OF _ step.hyps(2)] grows_trans by blast
  qed
  then show ?thesis unfolding grows_def follows_def .
qed

lemma deliveries_follow_their_life_witness:
  "\<exists>rows new. Outbox (snd sample_claim) = rows @ new \<and> list_all2 (\<lambda>r r'. OxAttempts r \<le> OxAttempts r') [sample_row] rows"
proof -
  have "outbox_step sample_codec (sample_outbox [sample_row]) (snd sample_claim)"
    by (rule outbox_step.claims[of _ "outbox_env 20" "sample_id (CHR ''1'')" "sample_id (CHR ''2'')" _ "fst sample_claim"])
      (simp add: sample_claim_def)
  from deliveries_follow_their_life[OF sample_outbox_ok(1) r_into_rtranclp[of "outbox_step sample_codec", OF this]] obtain rows new where
    "Outbox (snd sample_claim) = rows @ new" and rows: "list_all2 (\<lambda>r r'. same_delivery r r' \<and> delivery_step\<^sup>*\<^sup>* (OxState r) (OxState r')
      \<and> OxAttempts r \<le> OxAttempts r' \<and> (OxUnknown r \<longrightarrow> OxUnknown r') \<and> (final_state (OxState r) \<longrightarrow> r' = r)) [sample_row] rows"
    by (auto simp: sample_outbox_def)
  moreover have "list_all2 (\<lambda>r r'. OxAttempts r \<le> OxAttempts r') [sample_row] rows"
    by (rule list_all2_mono[OF rows]) simp
  ultimately show ?thesis by blast
qed

section \<open>A test that never ends\<close>

text \<open>A test that runs, with its delivery superseded.\<close>

definition abandoned :: "test_job_row \<Rightarrow> outbox_db \<Rightarrow> bool" where
  "abandoned j db \<longleftrightarrow> j \<in> set (TestJobs db) \<and> active_job j \<and>
     (\<forall>r\<in>set (Outbox db). OxDeployment r = TjDeployment j \<and> OxJob r = Some (TjID j) \<longrightarrow> OxState r = DeliverySuperseded)"

lemma abandoned_evolves:
  assumes "abandoned j db" "evolves db db'" "j \<in> set (TestJobs db')"
  shows "abandoned j db'"
  unfolding abandoned_def
proof (intro conjI ballI impI)
  fix y assume y: "y \<in> set (Outbox db')" "OxDeployment y = TjDeployment j \<and> OxJob y = Some (TjID j)"
  obtain x where x: "x \<in> set (Outbox db)" "follows x y" using evolves_back[OF assms(2) y(1)] by blast
  with y assms(1) have "OxState x = DeliverySuperseded" by (auto simp: abandoned_def follows_def same_delivery_def)
  with x show "OxState y = DeliverySuperseded" by (auto simp: follows_def)
qed (use assms in \<open>auto simp: abandoned_def\<close>)

lemma jobs_spared: "update_jobs p g db = Ok (n, db') \<Longrightarrow> j \<in> set (TestJobs db) \<Longrightarrow> \<not> p j \<Longrightarrow> j \<in> set (TestJobs db')"
  by (force simp: update_jobs_def update_where_def Let_def split: if_splits)

lemma start_spares:
  assumes "start_test r now db = Ok ((), db')" "j \<in> set (TestJobs db)" "OxDeployment r = TjDeployment j \<Longrightarrow> OxJob r \<noteq> Some (TjID j)"
  shows "j \<in> set (TestJobs db')"
  using assms by (auto simp: start_test_def tx_bind_def tx_ok_def elim!: result_bind_OkE dest!: jobs_spared split: option.splits)

lemma finish_spares:
  assumes "finish_test r b code now db = Ok ((), db')" "j \<in> set (TestJobs db)" "OxDeployment r = TjDeployment j \<Longrightarrow> OxJob r \<noteq> Some (TjID j)"
  shows "j \<in> set (TestJobs db')"
proof (cases "OxJob r")
  case None
  with assms show ?thesis by (simp add: finish_test_def tx_ok_def)
next
  case (Some job)
  with assms(1) obtain n db1 where one: "update_jobs (\<lambda>j. TjDeployment j = OxDeployment r \<and> TjID j = job \<and> active_job j \<and> TjDelivery j = OxID r)
       (\<lambda>j. j\<lparr>TjState := (if b then ''succeeded'' else ''failed''), TjProgress := 1,
          TjError := (if b then None else Some code), TjLease := None, TjUpdated := now\<rparr>) db = Ok (n, db1)"
    and two: "TestJobs db' = TestJobs db1"
    by (auto simp: finish_test_def complete_test_def tx_bind_def Let_def elim!: result_bind_OkE split: if_splits option.splits)
  have "\<not> (TjDeployment j = OxDeployment r \<and> TjID j = job \<and> active_job j \<and> TjDelivery j = OxID r)"
    using Some assms(3) by auto
  from jobs_spared[OF one assms(2) this] two show ?thesis by simp
qed

lemma leases_spare:
  assumes "abandoned j db" "reconcile_leases d now db = Ok ((), db')"
  shows "j \<in> set (TestJobs db')"
proof -
  let ?p = "\<lambda>r. OxDeployment r = d \<and> open_delivery (OxState r) \<and> OxExpires r \<le> now"
  let ?f = "\<lambda>r. ended DeliveryExpired (Some ''delivery_expired'') now (lost_in_flight r)"
  let ?q = "\<lambda>db j. TjDeployment j = d \<and> active_job j \<and>
      list_ex (\<lambda>r. OxDeployment r = TjDeployment j \<and> OxJob r = Some (TjID j) \<and> OxState r = DeliveryExpired) (Outbox db)"
  let ?g = "\<lambda>j. j\<lparr>TjState := ''failed'', TjProgress := 1, TjError := Some ''delivery_expired'', TjLease := None, TjUpdated := now\<rparr>"
  let ?db = "db\<lparr>Outbox := update_where ?p ?f (Outbox db)\<rparr>"
  from assms(2) obtain n db1 where one: "update_jobs (?q ?db) ?g ?db = Ok (n, db1)" and two: "TestJobs db' = TestJobs db1"
    by (auto simp: reconcile_leases_def tx_bind_def update_outbox_def elim!: result_bind_OkE)
  have sup: "OxState y = DeliverySuperseded" if y: "y \<in> set (Outbox ?db)" "OxDeployment y = TjDeployment j" "OxJob y = Some (TjID j)" for y
  proof -
    from y(1) obtain x where x: "x \<in> set (Outbox db)" "y = (if ?p x then ?f x else x)" by (auto simp: update_where_def)
    have "OxDeployment x = OxDeployment y" "OxJob x = OxJob y" unfolding x(2) by (simp_all add: ended_def lost_in_flight_def)
    then have "OxState x = DeliverySuperseded" using assms(1) x(1) y(2,3) by (simp add: abandoned_def)
    then have "\<not> ?p x" by simp
    with \<open>OxState x = DeliverySuperseded\<close> show ?thesis unfolding x(2) by (simp only: if_False)
  qed
  have "OxState y \<noteq> DeliveryExpired" if "y \<in> set (Outbox ?db)" "OxDeployment y = TjDeployment j" "OxJob y = Some (TjID j)" for y
    unfolding sup[OF that] by (rule delivery_state.distinct)
  then have "\<not> ?q ?db j" unfolding list_ex_iff by blast
  from jobs_spared[OF one _ this] assms(1) two show ?thesis by (simp add: abandoned_def)
qed

lemma claim_spares:
  assumes "outbox_ok db" "abandoned j db" "claim_delivery k env d g db = (x, db')"
  shows "j \<in> set (TestJobs db')"
proof -
  let ?now = "HubNow env"
  have scan: "outbox_ok db1 \<Longrightarrow> abandoned j db1 \<Longrightarrow> scan_due n k d ?now db1 = Ok (l, db2) \<Longrightarrow> abandoned j db2" for n l db1 db2
  proof (induction n arbitrary: db1)
    case 0
    then show ?case by (simp add: tx_ok_def)
  next
    case (Suc n)
    from Suc.prems(3) obtain s db3 where s: "scan_once k d ?now db1 = Ok (s, db3)"
      and rest: "(case s of Claimed l \<Rightarrow> tx_ok (Some l) | Nothing \<Rightarrow> tx_ok None | Again \<Rightarrow> scan_due n k d ?now) db3 = Ok (l, db2)"
      by (auto simp: tx_bind_def elim!: result_bind_OkE)
    note one = sound_atD[OF sound_scan_once[OF Suc.prems(1)] Suc.prems(1) s]
    have rows: "OxState y = DeliverySuperseded" if "y \<in> set (Outbox db3)" "OxDeployment y = TjDeployment j" "OxJob y = Some (TjID j)" for y
    proof -
      from evolves_back[OF conjunct2[OF one] that(1)] obtain z where "z \<in> set (Outbox db1)" "follows z y" by blast
      with that Suc.prems(2) show ?thesis by (auto simp: abandoned_def follows_def same_delivery_def)
    qed
    have "j \<in> set (TestJobs db3)"
      using scan_once_outcome[OF Suc.prems(1) s] Suc.prems(2) rows by (auto simp: abandoned_def intro: start_spares)
    then have "abandoned j db3" by (rule abandoned_evolves[OF Suc.prems(2) conjunct2[OF one]])
    then show ?case using Suc.IH[OF conjunct1[OF one]] rest by (cases s) (auto simp: tx_ok_def)
  qed
  show ?thesis
  proof (cases "db' = db")
    case True
    with assms(2) show ?thesis by (simp add: abandoned_def)
  next
    case False
    with assms(3) obtain l db1 where lease: "reconcile_leases d ?now db = Ok ((), db1)" and due: "scan_due 32 k d ?now db1 = Ok (l, db')"
      by (auto simp: claim_delivery_def atomically_def claim_body_def tx_bind_def
          split: if_splits option.splits sum.splits prod.splits elim!: result_bind_OkE)
    note one = sound_atD[OF sound_at_tx[OF sound_reconcile_leases] assms(1) lease]
    have "j \<in> set (TestJobs db1)" by (rule leases_spare[OF assms(2) lease])
    then have "abandoned j db1" by (rule abandoned_evolves[OF assms(2) conjunct2[OF one]])
    from scan[OF conjunct1[OF one] this due] show ?thesis by (simp add: abandoned_def)
  qed
qed

lemma revalidate_keeps: "revalidate_for_retry k d i now db = Ok (b, db') \<Longrightarrow> find_row d i db = Some r \<Longrightarrow> TestJobs db' = TestJobs db"
  by (drule (1) revalidate_result) (auto simp: supersede_delivery_def suppress_in_flight_def update_outbox_def)

lemma end_spares:
  assumes "tx_bind (update_outbox p f) (\<lambda>_. finish_test r b code now) db = Ok ((), db')" "j \<in> set (TestJobs db)"
    and "OxDeployment r = TjDeployment j \<Longrightarrow> OxJob r \<noteq> Some (TjID j)"
  shows "j \<in> set (TestJobs db')"
  using assms by (auto simp: tx_bind_def update_outbox_def intro: finish_spares)

lemma complete_spares:
  assumes "abandoned j db" "complete_body k c now db = Ok (x, db')"
  shows "j \<in> set (TestJobs db')"
proof -
  from assms(2) obtain r where r: "find (\<lambda>r. OxID r = CpID c) (Outbox db) = Some r" and leased: "OxState r = DeliveryLeased"
    by (auto simp: complete_body_def split: option.splits if_splits)
  have inr: "r \<in> set (Outbox db)" using find_result[OF r] by simp
  have other: "OxDeployment r = TjDeployment j \<Longrightarrow> OxJob r \<noteq> Some (TjID j)"
    using assms(1) inr leased by (auto simp: abandoned_def)
  from assms(2) r leased obtain db1 where
    one: "(if CpSucceeded c then complete_sent c r now
             else if CpPermanent c \<or> OxJob r \<noteq> None then complete_failed c r now
             else tx_bind (revalidate_for_retry k (OxDeployment r) (CpID c) now) (\<lambda>allowed. if allowed then complete_again c r now else tx_ok ())) db
          = Ok ((), db1)" and last: "read_delivery (OxDeployment r) (CpID c) db1 = Ok (x, db')"
    by (auto simp: complete_body_def tx_bind_def elim!: result_bind_OkE split: if_split_asm)
  have j: "j \<in> set (TestJobs db)" using assms(1) by (simp add: abandoned_def)
  have again: "j \<in> set (TestJobs db1)" if "complete_again c r now db2 = Ok ((), db1)" "TestJobs db2 = TestJobs db" for db2
  proof (cases "add64 now (quot64 (delivery_retry_delay (CpAttempt c) (CpRetryAfter c)) 1000000) \<ge> OxExpires r")
    case True
    with that(1) have "tx_bind (update_outbox (holds_lease c) (ended DeliveryExpired (Some ''delivery_expired'') now))
        (\<lambda>_. finish_test r False ''delivery_expired'' now) db2 = Ok ((), db1)" by (simp add: complete_again_def Let_def)
    then show ?thesis by (rule end_spares) (use j that(2) other in auto)
  next
    case False
    with that j show ?thesis by (auto simp: complete_again_def Let_def update_outbox_def)
  qed
  have "j \<in> set (TestJobs db1)"
  proof (cases "CpSucceeded c")
    case True
    with one have "tx_bind (update_outbox (holds_lease c) (\<lambda>x. (ended DeliverySent None now x)\<lparr>OxSent := Some now, OxAck := CpAck c\<rparr>))
        (\<lambda>_. finish_test r True [] now) db = Ok ((), db1)" by (simp add: complete_sent_def tx_err_def split: if_split_asm)
    then show ?thesis by (rule end_spares[OF _ j other])
  next
    case no: False
    show ?thesis
    proof (cases "CpPermanent c \<or> OxJob r \<noteq> None")
      case True
      with one no have "tx_bind (update_outbox (holds_lease c) (ended DeliveryFailed (Some (CpCode c)) now)) (\<lambda>_. finish_test r False (CpCode c) now) db
          = Ok ((), db1)" by (simp add: complete_failed_def)
      then show ?thesis by (rule end_spares[OF _ j other])
    next
      case False
      with one no obtain b db2 where re: "revalidate_for_retry k (OxDeployment r) (CpID c) now db = Ok (b, db2)"
        and tail: "(if b then complete_again c r now else tx_ok ()) db2 = Ok ((), db1)"
        by (auto simp: tx_bind_def elim!: result_bind_OkE)
      have "find_row (OxDeployment r) (CpID c) db \<noteq> None"
        using re by (auto simp: revalidate_for_retry_def split: option.splits)
      then have "TestJobs db2 = TestJobs db" using revalidate_keeps[OF re] by auto
      with again tail j show ?thesis by (cases b) (auto simp: tx_ok_def)
    qed
  qed
  with last show ?thesis by (simp add: read_delivery_Ok)
qed

lemma retry_spares: "retry_delivery k env a i key hash db = (x, db') \<Longrightarrow> TestJobs db' = TestJobs db"
proof -
  assume "retry_delivery k env a i key hash db = (x, db')"
  then have "db' = db \<or> (\<exists>db1 y. read_retry_receipt a key hash i (HubNow env) db = Ok (None, db1) \<and> retry_failed k a i key hash (HubNow env) db1 = Ok (y, db'))"
    by (auto simp: retry_delivery_def split: if_splits dest!: as_admin_outcome)
  then show ?thesis
  proof (elim disjE exE conjE)
    fix db1 y assume one: "read_retry_receipt a key hash i (HubNow env) db = Ok (None, db1)" and two: "retry_failed k a i key hash (HubNow env) db1 = Ok (y, db')"
    have "TestJobs db1 = TestJobs db" using one by (auto simp: read_retry_receipt_def read_receipt_def split: option.splits if_splits)
    from two have "requeue k a i key hash (HubNow env) db1 = Ok (y, db')"
      by (auto simp: retry_failed_def tx_bind_def tx_err_def read_delivery_Ok elim!: result_bind_OkE split: if_split_asm)
    then obtain p db2 where "reconcile_candidate k (AcDeploymentID a) i (HubNow env) db1 = Ok (p, db2)" "TestJobs db' = TestJobs db2"
      by (auto simp: requeue_def tx_bind_def tx_err_def tx_ok_def update_outbox_def read_delivery_Ok persist_retry_def
          elim!: result_bind_OkE dest!: persist_same split: if_split_asm)
    with keeps_jobsD[OF keeps_candidate] \<open>TestJobs db1 = TestJobs db\<close> show ?thesis by simp
  qed simp
qed

lemma mutate_spares: "mutate_destination k env a i key hash f op db = (x, db') \<Longrightarrow> TestJobs db' = TestJobs db"
proof -
  assume "mutate_destination k env a i key hash f op db = (x, db')"
  from mutate_outcome[OF this] show ?thesis
  proof (elim disjE exE conjE)
    fix db1 y assume one: "read_destination_receipt a key hash op (HubNow env) db = Ok (None, db1)" and two: "mutate_rows k a i key hash f op (HubNow env) db1 = Ok (y, db')"
    have "TestJobs db1 = TestJobs db" using one by (auto simp: read_destination_receipt_def read_receipt_def split: option.splits if_splits)
    from two obtain i' db2 where change: "change_destination k a i f op (HubNow env) db1 = Ok (i', db2)" and "TestJobs db' = TestJobs db2"
      by (auto simp: mutate_rows_def tx_bind_def tx_ok_def persist_destination_def elim!: result_bind_OkE dest!: read_destination_same persist_same)
    moreover have "TestJobs db2 = TestJobs db1"
    proof -
      have revise: "TestJobs db2 = TestJobs db1" if "revise_row k a i v g code (HubNow env) db1 = Ok (i', db2)" for v g code
        using that by (auto simp: revise_row_def tx_bind_def tx_err_def tx_ok_def invalidate_outbox_def update_outbox_def
            elim!: result_bind_OkE dest!: read_destination_same update_destinations_same split: if_split_asm)
      show ?thesis using change by (cases op) (auto simp: change_destination_def dest: revise create_row_same)
    qed
    ultimately show ?thesis using \<open>TestJobs db1 = TestJobs db\<close> by simp
  qed simp
qed

lemma step_spares:
  assumes "outbox_ok db" "abandoned j db" "outbox_step k db db'"
  shows "abandoned j db'"
  using assms(3)
proof cases
  case (claims env d g x)
  from sound_claim_delivery[OF assms(1) this] claim_spares[OF assms(1,2) this] show ?thesis by (blast intro: abandoned_evolves[OF assms(2)])
next
  case (completes env c y)
  have "j \<in> set (TestJobs db')"
  proof (cases "db' = db")
    case True
    with assms(2) show ?thesis by (simp add: abandoned_def)
  next
    case False
    with completes obtain x where "complete_body k c (HubNow env) db = Ok (x, db')"
      by (auto simp: complete_delivery_def atomically_def split: if_splits option.splits sum.splits prod.splits)
    then show ?thesis by (rule complete_spares[OF assms(2)])
  qed
  with sound_complete_delivery[OF assms(1) completes] show ?thesis by (blast intro: abandoned_evolves[OF assms(2)])
next
  case (retries env a i key hash y)
  with sound_retry_delivery[OF assms(1) retries] retry_spares[OF retries] assms(2) show ?thesis
    by (intro abandoned_evolves[OF assms(2)]) (auto simp: abandoned_def)
next
  case (mutates env a i key hash f op z)
  with sound_mutate[OF assms(1) mutates] mutate_spares[OF mutates] assms(2) show ?thesis
    by (intro abandoned_evolves[OF assms(2)]) (auto simp: abandoned_def)
next
  case (tests env a i key hash v w)
  from enqueue_outcome[OF tests] assms(2) show ?thesis by (auto simp: abandoned_def)
qed

lemma abandoned_blocks:
  assumes "abandoned j db" "AcDeploymentID a = TjDeployment j" "enqueue_test k env a (TjDestination j) key hash v db = (Ok x, db')"
  shows "db' = db \<and> (\<exists>rt\<in>set (Receipts db). RtResult rt = TestReceipt x)"
proof -
  have busy: "destination_jobs (AcDeploymentID a) (TjDestination j) db1 \<noteq> []" if "TestJobs db1 = TestJobs db" for db1
    using assms(1,2) that by (auto simp: abandoned_def destination_jobs_def filter_empty_conv)
  from assms(3) have "replayable env (as_admin a (read_test_receipt a key hash (TjDestination j) (HubNow env))
      (start_new_test k a (TjDestination j) key hash v (HubNow env))) db = (Ok x, db')"
    by (auto simp: enqueue_test_def split: if_splits)
  then show ?thesis
  proof (cases rule: as_admin_Ok)
    case (again db1)
    from read_receipt_Some[OF again(3)[unfolded read_test_receipt_def]] obtain rt where
      rt: "find (receipt_is a key) (Receipts db) = Some rt" and
      y: "(case RtResult rt of TestReceipt y \<Rightarrow> if RtHash rt = hash \<and> JobDestination y = TjDestination j then Some y else None | _ \<Rightarrow> None) = Some x"
      by blast
    from y have "RtResult rt = TestReceipt x" by (auto split: receipt_result.split_asm if_split_asm)
    with rt again(2) show ?thesis by (auto dest: find_result)
  next
    case (new db1)
    have "TestJobs db1 = TestJobs db" using new(2) by (auto simp: read_test_receipt_def read_receipt_def split: option.splits if_splits)
    with start_new_test_result[OF new(3)] busy[of db1] show ?thesis by simp
  qed
qed

text \<open>
  (C40) A test whose delivery was superseded never ends, and it blocks its destination. When a destination
  is revised or disabled, or its secret changes, a waiting test delivery is superseded but its job stays
  queued. From then on, whatever happens to the outbox, the job stays as it is, and no new test of that
  destination is ever started: a request is either refused or answered from the receipt of an earlier one.
\<close>
theorem superseded_test_blocks_destination:
  assumes "outbox_ok db" "abandoned j db" "(outbox_step k)\<^sup>*\<^sup>* db db'"
  shows "j \<in> set (TestJobs db') \<and> active_job j \<and>
    (\<forall>env a key hash v x db2. AcDeploymentID a = TjDeployment j \<and>
       enqueue_test k env a (TjDestination j) key hash v db' = (Ok x, db2) \<longrightarrow>
       db2 = db' \<and> (\<exists>rt\<in>set (Receipts db'). RtResult rt = TestReceipt x))"
proof -
  from assms(3,1,2) have "outbox_ok db' \<and> abandoned j db'"
  proof (induction rule: rtranclp_induct)
    case (step y z)
    then show ?case using step_sound[OF _ step.hyps(2)] step_spares[OF _ _ step.hyps(2)] by blast
  qed simp
  then show ?thesis using abandoned_blocks by (simp add: abandoned_def) blast
qed

lemma sample_disabled_history: "outbox_ok (snd sample_disabled)"
proof -
  have "outbox_ok (sample_outbox [])" by (simp add: outbox_ok_def single_flight_def sample_outbox_def)
  then have "outbox_ok (snd sample_tested)" using sound_enqueue[of "sample_outbox []"] by (metis prod.collapse sample_tested_def)
  then show ?thesis using sound_mutate[of "snd sample_tested"] by (metis prod.collapse sample_disabled_def)
qed

lemma sample_abandoned: "abandoned (hd (TestJobs (snd sample_disabled))) (snd sample_disabled)"
proof -
  from sample_disabled_ok(1) obtain r where r: "Outbox (snd sample_disabled) = [r]" "OxState r = DeliverySuperseded" by auto
  from sample_disabled_ok(4) obtain j where j: "TestJobs (snd sample_disabled) = [j]" "TjState j = ''queued''" by auto
  from r j show ?thesis by (simp add: abandoned_def active_job_def)
qed

lemma superseded_test_blocks_destination_witness:
  "hd (TestJobs (snd sample_disabled)) \<in> set (TestJobs (snd (claim_delivery sample_codec (outbox_env 40) (sample_id (CHR ''1''))
     (sample_id (CHR ''2'')) (snd sample_disabled))))"
proof -
  have "outbox_step sample_codec (snd sample_disabled) (snd (claim_delivery sample_codec (outbox_env 40) (sample_id (CHR ''1''))
     (sample_id (CHR ''2'')) (snd sample_disabled)))" (is "outbox_step _ _ (snd ?c)")
    by (rule outbox_step.claims[of _ "outbox_env 40" "sample_id (CHR ''1'')" "sample_id (CHR ''2'')" _ "fst ?c"]) simp
  from superseded_test_blocks_destination[OF sample_disabled_history sample_abandoned r_into_rtranclp[of "outbox_step sample_codec", OF this]] show ?thesis by blast
qed

end
