(* ===== verification/Dispatcher.thy ===== *)
theory Dispatcher
  imports OutboxDelivery Transport
begin

text \<open>
  \<open>internal/notify/dispatcher.go\<close> and \<open>internal/notify/transport.go\<close>: a turn of the dispatcher, which
  claims a delivery, sends it and records the result, and how the sender turns what the network does into
  that result. The network, the mail server and the vault of secrets are arguments.
\<close>

section \<open>The network\<close>

datatype net_error = CertificateError | SmtpReply int64 | OtherFailure

text \<open>An error, and whether the time of the call had run out.\<close>

type_synonym failure = "bool \<times> net_error"

datatype webhook_reply = NoAnswer failure | Answer int64 string

datatype smtp_step =
    SmtpDial | SmtpGreeting | SmtpHello | SmtpOffersTLS | SmtpStartTLS | SmtpAuth | SmtpMail | SmtpRcpt | SmtpData
  | SmtpHeaders | SmtpBody | SmtpClose

record network =
  RequestBuilt :: bool
  WebhookReply :: webhook_reply
  SmtpFails :: "smtp_step \<Rightarrow> failure option"
  OffersTLS :: bool
  NetNow :: int64
  ParseTime :: "string \<Rightarrow> int64 option"

section \<open>Sending\<close>

record send_result =
  Succeeded :: bool
  Permanent :: bool
  ResultCode :: string
  ResultRetryAfter :: int64
  ReceiverAck :: "int64 option"

definition failed_with :: "bool \<Rightarrow> string \<Rightarrow> send_result" where
  "failed_with p code = \<lparr>Succeeded = False, Permanent = p, ResultCode = code, ResultRetryAfter = 0, ReceiverAck = None\<rparr>"

definition acknowledged :: "network \<Rightarrow> send_result" where
  "acknowledged net = \<lparr>Succeeded = True, Permanent = False, ResultCode = [], ResultRetryAfter = 0,
     ReceiverAck = Some (NetNow net div 1000000)\<rparr>"

definition transport_failure :: "failure \<Rightarrow> send_result" where
  "transport_failure f = (if fst f then failed_with False ''notification_timeout_or_cancelled''
     else case snd f of
       CertificateError \<Rightarrow> failed_with True ''notification_tls_verification_failed''
     | SmtpReply code \<Rightarrow> failed_with (code \<ge> 500) ''smtp_receiver_rejected''
     | OtherFailure \<Rightarrow> failed_with False ''notification_connection_failed'')"

definition half_hour :: int64 where "half_hour = 1800000000000"

text \<open>\<open>Time.Sub\<close> stays at the ends of the range.\<close>

definition time_sub :: "int64 \<Rightarrow> int64 \<Rightarrow> int64" where
  "time_sub a b = max min_int64 (min max_int64 (a - b))"

definition webhook_retry_after :: "network \<Rightarrow> string \<Rightarrow> int64" where
  "webhook_retry_after net header =
     (case atoi header of
        Some n \<Rightarrow> if n > 1800 then half_hour else if n > 0 then n * 1000000000 else 0
      | None \<Rightarrow> (let d = (case ParseTime net header of Some t \<Rightarrow> time_sub t (NetNow net) | None \<Rightarrow> 0) in
          if d < 0 then 0 else if d > half_hour then half_hour else d))"

definition webhook_result :: "network \<Rightarrow> send_result" where
  "webhook_result net =
     (if \<not> RequestBuilt net then failed_with True ''notification_configuration_invalid''
      else case WebhookReply net of
        NoAnswer f \<Rightarrow> transport_failure f
      | Answer status header \<Rightarrow>
          if 200 \<le> status \<and> status < 300 then acknowledged net
          else (let r = (failed_with False ''webhook_transient_failure'')\<lparr>ResultRetryAfter :=
                  (if status = 429 then webhook_retry_after net header else 0)\<rparr> in
            if 300 \<le> status \<and> status < 500 \<and> status \<noteq> 408 \<and> status \<noteq> 429
            then r\<lparr>Permanent := True, ResultCode := ''webhook_receiver_rejected''\<rparr> else r))"

text \<open>The conversation with a mail server, up to the first step that fails.\<close>

fun smtp_result :: "network \<Rightarrow> smtp_step list \<Rightarrow> send_result" where
  "smtp_result net [] = acknowledged net"
| "smtp_result net (s # ss) =
     (if s = SmtpOffersTLS then
        (if OffersTLS net then smtp_result net ss else failed_with True ''smtp_starttls_required'')
      else case SmtpFails net s of Some f \<Rightarrow> transport_failure f | None \<Rightarrow> smtp_result net ss)"

definition smtp_steps :: "smtp_destination \<Rightarrow> smtp_step list" where
  "smtp_steps c = [SmtpDial, SmtpGreeting, SmtpHello] @
     (if TLSMode c = ''starttls_required'' then [SmtpOffersTLS, SmtpStartTLS] else []) @
     (if SmtpUsername c \<noteq> None then [SmtpAuth] else []) @
     [SmtpMail, SmtpRcpt, SmtpData, SmtpHeaders, SmtpBody, SmtpClose]"

definition sendable_key :: "string \<Rightarrow> bool" where
  "sendable_key key \<longleftrightarrow> 16 \<le> length key \<and> length key \<le> 128 \<and> list_all (\<lambda>c. between 33 c 126) key"

definition send :: "outbox_codec \<Rightarrow> network \<Rightarrow> prepared \<Rightarrow> string \<Rightarrow> string \<Rightarrow> send_result" where
  "send k net p secret key =
     (let c = PrConfig p; payload = PrPayload p in
      if \<not> validate_notification_config (Libs k) (PrKind p) c \<or> payload = [] \<or> int (length payload) > 65536 \<or> \<not> JsonValid k payload
         \<or> \<not> sendable_key key \<or> int (length secret) > 4096 \<or> needs_secret c \<and> secret = []
      then failed_with True ''notification_configuration_invalid''
      else if PrKind p = ''webhook'' then webhook_result net
      else (case SMTP c of Some s \<Rightarrow> smtp_result net (smtp_steps s) | None \<Rightarrow> failed_with True ''notification_configuration_invalid''))"

section \<open>A turn of the dispatcher\<close>

definition completion_of :: "delivery_lease \<Rightarrow> send_result \<Rightarrow> completion" where
  "completion_of l r = \<lparr>CpID = OxID (LeasedRow l), CpAttempt = OxAttempts (LeasedRow l), CpToken = LeaseToken l,
     CpSucceeded = Succeeded r, CpPermanent = Permanent r, CpCode = ResultCode r, CpRetryAfter = ResultRetryAfter r, CpAck = ReceiverAck r\<rparr>"

definition attempt :: "outbox_codec \<Rightarrow> network \<Rightarrow> (string \<Rightarrow> string option) \<Rightarrow> delivery_lease \<Rightarrow> send_result" where
  "attempt k net vault l =
     (let p = Prepared l; key = OxKey (LeasedRow l) in
      if PrSecretRef p = [] then send k net p [] key
      else (case vault (PrSecretRef p) of
        Some secret \<Rightarrow> send k net p secret key | None \<Rightarrow> failed_with True ''notification_secret_unavailable''))"

text \<open>What a turn reports, and the outbox after it: nothing to do, or the row as it was recorded. The store's
  clock is read for the claim and again for the completion.\<close>

definition dispatch ::
  "outbox_codec \<Rightarrow> network \<Rightarrow> (string \<Rightarrow> string option) \<Rightarrow> hub_env \<Rightarrow> hub_env \<Rightarrow> outbox_db \<Rightarrow> (store_error, outbox_row option) result \<times> outbox_db" where
  "dispatch k net vault env env' db =
     (case Deployments (OxHub db) of
        [] \<Rightarrow> (Err NoRows, db)
      | x # _ \<Rightarrow> (case claim_delivery k env (DepID x) (DepGeneration x) db of
          (Err e, db') \<Rightarrow> (Err e, db')
        | (Ok None, db') \<Rightarrow> (Ok None, db')
        | (Ok (Some l), db') \<Rightarrow> (case complete_delivery k env' (completion_of l (attempt k net vault l)) db' of
              (Err e, db'') \<Rightarrow> (Err e, db'') | (Ok r, db'') \<Rightarrow> (Ok (Some r), db''))))"

end
