(* ===== verification/DispatcherProperties.thy ===== *)
theory DispatcherProperties
  imports Dispatcher OutboxProperties
begin

text \<open>
  The dispatcher and the outbox together: every result the sender can come back with is a completion the
  store accepts as valid, and a turn of the dispatcher records it.
\<close>

section \<open>Results\<close>

definition plain_result :: "send_result \<Rightarrow> bool" where
  "plain_result r \<longleftrightarrow> 0 \<le> ResultRetryAfter r \<and> ResultRetryAfter r \<le> half_hour \<and> (Succeeded r \<longrightarrow> \<not> Permanent r \<and> ResultCode r = []) \<and>
     (\<not> Succeeded r \<longrightarrow> safe_delivery_code (ResultCode r))"

lemma plain_failed: "safe_delivery_code code \<Longrightarrow> plain_result (failed_with p code)"
  by (simp add: plain_result_def failed_with_def half_hour_def)

lemma plain_acknowledged: "plain_result (acknowledged net)"
  by (simp add: plain_result_def acknowledged_def half_hour_def)

lemma safe_codes:
  "safe_delivery_code ''notification_configuration_invalid''" "safe_delivery_code ''notification_timeout_or_cancelled''"
  "safe_delivery_code ''notification_tls_verification_failed''" "safe_delivery_code ''smtp_receiver_rejected''"
  "safe_delivery_code ''notification_connection_failed''" "safe_delivery_code ''webhook_transient_failure''"
  "safe_delivery_code ''webhook_receiver_rejected''" "safe_delivery_code ''smtp_starttls_required''"
  "safe_delivery_code ''notification_secret_unavailable''"
  by code_simp+

lemma plain_transport_failure: "plain_result (transport_failure f)"
  by (simp add: transport_failure_def plain_failed safe_codes split: net_error.split)

lemma webhook_retry_after_range: "0 \<le> webhook_retry_after net h \<and> webhook_retry_after net h \<le> half_hour"
  by (auto simp: webhook_retry_after_def half_hour_def Let_def split: option.split)

lemma plain_webhook: "plain_result (webhook_result net)"
proof -
  have r: "plain_result ((failed_with False ''webhook_transient_failure'')\<lparr>ResultRetryAfter := t\<rparr>)"
    "plain_result ((failed_with False ''webhook_transient_failure'')\<lparr>ResultRetryAfter := t, Permanent := True, ResultCode := ''webhook_receiver_rejected''\<rparr>)"
    if "0 \<le> t \<and> t \<le> half_hour" for t
    using that safe_codes by (simp_all add: plain_result_def failed_with_def)
  have half: "0 \<le> half_hour" by (simp add: half_hour_def)
  from r show ?thesis
    by (auto simp: webhook_result_def Let_def plain_failed safe_codes plain_acknowledged plain_transport_failure
        webhook_retry_after_range half split: webhook_reply.split)
qed

lemma plain_smtp: "plain_result (smtp_result net ss)"
  by (induction ss) (auto simp: plain_failed safe_codes plain_acknowledged plain_transport_failure split: option.split)

lemma plain_attempt: "plain_result (attempt k net vault l)"
  by (auto simp: attempt_def send_def Let_def plain_failed safe_codes plain_webhook plain_smtp split: option.split)

lemma attempt_valid:
  assumes "valid_uuid_text (OxID (LeasedRow l))" "valid_uuid_text (LeaseToken l)" "1 \<le> OxAttempts (LeasedRow l)"
  shows "valid_completion (completion_of l (attempt k net vault l))"
  using plain_attempt[of k net vault l] assms by (simp add: valid_completion_def completion_of_def plain_result_def half_hour_def)

section \<open>A turn\<close>

lemma find_update:
  assumes "\<And>r. OxID (f r) = OxID r \<and> OxDeployment (f r) = OxDeployment r"
  shows "find (row_is d i) (update_where p f rs) = map_option (\<lambda>r. if p r then f r else r) (find (row_is d i) rs)"
  using assms by (induction rs) (auto simp: update_where_def row_is_def)

lemma claimed_row:
  assumes "outbox_ok db" "claim_delivery k env d g db = (Ok (Some l), db')"
  shows "find (\<lambda>r. OxID r = OxID (LeasedRow l)) (Outbox db') = Some (LeasedRow l)"
    "find_row (OxDeployment (LeasedRow l)) (OxID (LeasedRow l)) db' = Some (LeasedRow l)"
    "OxState (LeasedRow l) = DeliveryLeased" "OxToken (LeasedRow l) = Some (LeaseToken l)"
    "OxLease (LeasedRow l) = Some (add64 (HubNow env) lease_ms)" "1 \<le> OxAttempts (LeasedRow l)"
proof -
  let ?r = "LeasedRow l"
  note out = claim_hands_out(1)[OF assms]
  have ok: "outbox_ok db'" using sound_claim_delivery[OF assms] by simp
  from out show facts: "OxState ?r = DeliveryLeased" "OxToken ?r = Some (LeaseToken l)" "OxLease ?r = Some (add64 (HubNow env) lease_ms)"
    by (simp_all add: handed_out_def leased_to_def Let_def)
  from out have r: "?r \<in> set (Outbox db')" by (simp add: handed_out_def leased_to_def Let_def)
  have unique: "x = ?r" if "x \<in> set (Outbox db')" "OxID x = OxID ?r" for x
    using ok r that by (auto simp: outbox_ok_def distinct_map dest: inj_onD)
  obtain x where x: "find (\<lambda>r. OxID r = OxID ?r) (Outbox db') = Some x"
    using r by (cases "find (\<lambda>r. OxID r = OxID ?r) (Outbox db')") (auto simp: find_None_iff)
  then show "find (\<lambda>r. OxID r = OxID ?r) (Outbox db') = Some ?r" using unique find_result[OF x] by simp
  obtain y where y: "find_row (OxDeployment ?r) (OxID ?r) db' = Some y"
    using r by (cases "find_row (OxDeployment ?r) (OxID ?r) db'") (auto simp: find_row_def row_is_def find_None_iff)
  then show "find_row (OxDeployment ?r) (OxID ?r) db' = Some ?r" using unique find_rowD[OF y] by simp
  from out obtain r0 where "r0 \<in> set (Outbox db)" "OxAttempts r0 < OxAttempts ?r" by (auto simp: handed_out_def)
  with assms(1) show "1 \<le> OxAttempts ?r" by (fastforce simp: outbox_ok_def list_all_iff row_ok_def)
qed

text \<open>
  (C19) A turn of the dispatcher records what the sender came back with. For a delivery of an alert that
  it claimed, and an answer within the thirty seconds of the lease: if the receiver acknowledged it (at a
  time the store's clock has reached), the delivery is sent, with that time; if the failure is permanent
  - a rejected request, an invalid certificate, an unusable configuration, a secret that cannot be read -
  it has failed with that code and is never due again on its own. No result of the sender is refused as
  an invalid completion.
\<close>
theorem dispatch_records_the_result:
  assumes "outbox_ok db" "Deployments (OxHub db) = x # xs"
    and claim: "claim_delivery k env (DepID x) (DepGeneration x) db = (Ok (Some l), db1)"
    and "valid_uuid_text (OxID (LeasedRow l))" "valid_uuid_text (LeaseToken l)" "OxJob (LeasedRow l) = None"
    and "Admission env' = None" "CommitFails env' = None" "HubNow env' < add64 (HubNow env) lease_ms"
    and result: "r = attempt k net vault l"
    and "Succeeded r \<longrightarrow> (\<exists>t. ReceiverAck r = Some t \<and> 0 \<le> t \<and> t \<le> HubNow env')"
  shows "valid_completion (completion_of l r) \<and>
    (Succeeded r \<longrightarrow> (\<exists>row db'. dispatch k net vault env env' db = (Ok (Some row), db') \<and> OxID row = OxID (LeasedRow l) \<and>
       row \<in> set (Outbox db') \<and> OxState row = DeliverySent \<and> OxAck row = ReceiverAck r)) \<and>
    (Permanent r \<longrightarrow> (\<exists>row db'. dispatch k net vault env env' db = (Ok (Some row), db') \<and> OxID row = OxID (LeasedRow l) \<and>
       row \<in> set (Outbox db') \<and> OxState row = DeliveryFailed \<and> OxError row = Some (ResultCode r) \<and> OxNext row = None))"
proof -
  let ?l = "LeasedRow l" and ?now = "HubNow env'" and ?c = "completion_of l r"
  note row = claimed_row[OF assms(1) claim]
  have valid: "valid_completion ?c" using attempt_valid[OF assms(4,5) row(6)] result by simp
  have holds: "holds_lease ?c ?l" using row by (simp add: holds_lease_def completion_of_def)
  have sel: "CpID ?c = OxID ?l" "CpAttempt ?c = OxAttempts ?l" "CpToken ?c = LeaseToken l" by (simp_all add: completion_of_def)
  have body: "complete_body k ?c ?now db1 = tx_bind
            (if CpSucceeded ?c then complete_sent ?c ?l ?now
             else if CpPermanent ?c \<or> OxJob ?l \<noteq> None then complete_failed ?c ?l ?now
             else tx_bind (revalidate_for_retry k (OxDeployment ?l) (CpID ?c) ?now) (\<lambda>allowed.
               if allowed then complete_again ?c ?l ?now else tx_ok ()))
            (\<lambda>_. read_delivery (OxDeployment ?l) (CpID ?c)) db1"
    using row assms(9) by (simp add: complete_body_def sel)
  have found: "\<exists>db'. complete_body k ?c ?now db1 = Ok (f ?l, db') \<and> f ?l \<in> set (Outbox db')"
    if "complete_body k ?c ?now db1 = tx_bind (update_outbox (holds_lease ?c) f) (\<lambda>_. read_delivery (OxDeployment ?l) (OxID ?l)) db1"
      "\<And>r. OxID (f r) = OxID r \<and> OxDeployment (f r) = OxDeployment r" for f
  proof -
    have "find (row_is (OxDeployment ?l) (OxID ?l)) (update_where (holds_lease ?c) f (Outbox db1)) = Some (f ?l)"
      using find_update[OF that(2)] row(2) holds by (simp add: find_row_def)
    moreover from find_result[OF this] have "f ?l \<in> set (update_where (holds_lease ?c) f (Outbox db1))" by simp
    ultimately show ?thesis using that(1) by (simp add: tx_bind_def update_outbox_def read_delivery_def find_row_def)
  qed
  have run: "dispatch k net vault env env' db = (Ok (Some row'), db')" if "complete_body k ?c ?now db1 = Ok (row', db')" for row' db'
    using that valid assms(2,7,8) claim result by (simp add: dispatch_def complete_delivery_def atomically_def)
  show ?thesis
  proof (intro conjI impI)
    show "valid_completion ?c" by (rule valid)
  next
    assume ok: "Succeeded r"
    let ?f = "\<lambda>y. (ended DeliverySent None ?now y)\<lparr>OxSent := Some ?now, OxAck := CpAck ?c\<rparr>"
    have "complete_body k ?c ?now db1 = tx_bind (update_outbox (holds_lease ?c) ?f) (\<lambda>_. read_delivery (OxDeployment ?l) (OxID ?l)) db1"
      unfolding body using ok assms(6,11)
      by (auto simp: complete_sent_def completion_of_def finish_test_def tx_bind_def tx_ok_def update_outbox_def)
    from found[OF this] obtain db' where "complete_body k ?c ?now db1 = Ok (?f ?l, db')" "?f ?l \<in> set (Outbox db')"
      by (auto simp: ended_def)
    with run show "\<exists>row db'. dispatch k net vault env env' db = (Ok (Some row), db') \<and> OxID row = OxID ?l \<and>
       row \<in> set (Outbox db') \<and> OxState row = DeliverySent \<and> OxAck row = ReceiverAck r"
      by (intro exI[of _ "?f ?l"] exI[of _ db']) (simp add: ended_def completion_of_def)
  next
    assume bad: "Permanent r"
    let ?f = "ended DeliveryFailed (Some (CpCode ?c)) ?now"
    have "\<not> Succeeded r" using bad valid by (auto simp: valid_completion_def completion_of_def)
    then have "complete_body k ?c ?now db1 = tx_bind (update_outbox (holds_lease ?c) ?f) (\<lambda>_. read_delivery (OxDeployment ?l) (OxID ?l)) db1"
      unfolding body using bad assms(6)
      by (auto simp: complete_failed_def completion_of_def finish_test_def tx_bind_def tx_ok_def update_outbox_def)
    from found[OF this] obtain db' where "complete_body k ?c ?now db1 = Ok (?f ?l, db')" "?f ?l \<in> set (Outbox db')"
      by (auto simp: ended_def)
    with run show "\<exists>row db'. dispatch k net vault env env' db = (Ok (Some row), db') \<and> OxID row = OxID ?l \<and>
       row \<in> set (Outbox db') \<and> OxState row = DeliveryFailed \<and> OxError row = Some (ResultCode r) \<and> OxNext row = None"
      by (intro exI[of _ "?f ?l"] exI[of _ db']) (simp add: ended_def completion_of_def)
  qed
qed

definition sample_net :: network where
  "sample_net = \<lparr>RequestBuilt = True, WebhookReply = Answer 204 '''', SmtpFails = (\<lambda>_. None), OffersTLS = False,
     NetNow = 25000000, ParseTime = (\<lambda>_. None)\<rparr>"

lemma sample_attempt: "attempt sample_codec sample_net (\<lambda>_. None) sample_lease = acknowledged sample_net"
  "valid_uuid_text (OxID (LeasedRow sample_lease))" "valid_uuid_text (LeaseToken sample_lease)"
  by code_simp+

lemma dispatch_records_the_result_witness:
  "\<exists>row db'. dispatch sample_codec sample_net (\<lambda>_. None) (outbox_env 20) (outbox_env 30) (sample_outbox [sample_row]) = (Ok (Some row), db')
     \<and> OxState row = DeliverySent \<and> OxAck row = Some 25"
proof -
  have db: "Deployments (OxHub (sample_outbox [sample_row]))
      = [\<lparr>DepID = sample_id (CHR ''1''), DepGeneration = sample_id (CHR ''2''), DepRecovery = ''normal''\<rparr>]"
    by (simp add: sample_outbox_def ingest_hub_def)
  have claim: "claim_delivery sample_codec (outbox_env 20) (DepID \<lparr>DepID = sample_id (CHR ''1''), DepGeneration = sample_id (CHR ''2''), DepRecovery = ''normal''\<rparr>)
      (DepGeneration \<lparr>DepID = sample_id (CHR ''1''), DepGeneration = sample_id (CHR ''2''), DepRecovery = ''normal''\<rparr>) (sample_outbox [sample_row])
      = (Ok (Some sample_lease), snd sample_claim)"
    using sample_claimed by (simp add: sample_claim_def)
  have ack: "Succeeded (acknowledged sample_net)" "ReceiverAck (acknowledged sample_net) = Some 25"
    by (simp_all add: acknowledged_def sample_net_def)
  have "OxJob (LeasedRow sample_lease) = None" "30 < add64 20 lease_ms"
    by (simp_all add: sample_lease_def sample_row_def lease_ms_def add64_def wrap64_id in_int64_def)
  then show ?thesis
    using dispatch_records_the_result[OF sample_outbox_ok(1) db claim sample_attempt(2,3) _ _ _ _ refl, of "outbox_env 30" sample_net "\<lambda>_. None"]
      sample_attempt(1) ack by (auto simp: outbox_env_def)
qed

end
