(* ===== verification/Spec2Isabelle.thy ===== *)
theory Spec2Isabelle
  imports AlertProperties SpoolProperties CapacityProperties FrameProperties PairingProperties TargetProperties HubProperties IngestProperties
    DeliveryProperties StatusProperties RetryProperties DestinationProperties DispatcherProperties
begin

text \<open>Verification development of the LLM Monitor (Go).\<close>

end
